(* ===== verification/Prelude.thy ===== *)
theory Prelude
  imports Complex_Main "HOL-Library.Sublist"
begin

text \<open>
  Shared vocabulary of the development: Python exceptions as values, the string methods the
  source calls, and the list lemmas the component theories share.  Strings are lists of 8-bit
  characters, so the case mappings and the whitespace test cover the ASCII and Latin-1 range.
\<close>

named_theorems py_string \<open>facts about the Python string methods\<close>
named_theorems sql_facts \<open>facts about SELECT, UPDATE and DELETE on the table lists\<close>

section \<open>Exceptions and results\<close>

text \<open>
  The exception classes the modelled code raises or catches by name.  \<open>OtherError\<close> stands for
  any exception of a called library that the code only catches as \<open>Exception\<close>.
\<close>

datatype exn_class =
    ValueError | DomainNotFoundError | RuntimeError | AppsBusyForPrimaryChangeError
  | ProviderUnavailable | NoProviderError | ProviderNotRunningError | ProviderVersionError
  | LookupError | KeyError | TypeError | AttributeError | AssertionError | NotAuthorized
  | JSONDecodeError | TimeoutExpired | OsError | FileNotFoundError | CloneFailed | OAuthRequired
  | ServiceCallError | SystemAgentError | DnsNotEnabled
  | IntegrityError | SqliteError | OtherError

datatype exn = Exn (exn_class: exn_class) (exn_text: string)

type_synonym 'a result = "exn + 'a"

text \<open>\<open>except ValueError\<close> also catches the subclasses of \<open>ValueError\<close>, and so on.\<close>

definition is_value_error :: "exn \<Rightarrow> bool" where
  "is_value_error e = (exn_class e \<in> {ValueError, DomainNotFoundError, JSONDecodeError})"

definition is_runtime_error :: "exn \<Rightarrow> bool" where
  "is_runtime_error e = (exn_class e \<in> {RuntimeError, AppsBusyForPrimaryChangeError,
     ProviderUnavailable, NoProviderError, ProviderNotRunningError, ProviderVersionError,
     OAuthRequired, ServiceCallError})"

definition is_os_error :: "exn \<Rightarrow> bool" where
  "is_os_error e = (exn_class e \<in> {OsError, FileNotFoundError})"

definition is_sqlite_error :: "exn \<Rightarrow> bool" where
  "is_sqlite_error e = (exn_class e \<in> {SqliteError, IntegrityError})"

definition is_provider_unavailable :: "exn \<Rightarrow> bool" where
  "is_provider_unavailable e = (exn_class e \<in> {ProviderUnavailable, NoProviderError,
     ProviderNotRunningError, ProviderVersionError})"

definition is_lookup_error :: "exn \<Rightarrow> bool" where
  "is_lookup_error e = (exn_class e \<in> {LookupError, KeyError})"

text \<open>Sequencing: the first exception ends the computation.\<close>

fun rbind :: "'a result \<Rightarrow> ('a \<Rightarrow> 'b result) \<Rightarrow> 'b result" where
  "rbind (Inl e) f = Inl e"
| "rbind (Inr x) f = f x"

fun rmap :: "('a \<Rightarrow> 'b result) \<Rightarrow> 'a list \<Rightarrow> 'b list result" where
  "rmap f [] = Inr []"
| "rmap f (x # xs) = rbind (f x) (\<lambda>y. rbind (rmap f xs) (\<lambda>ys. Inr (y # ys)))"

lemma rbind_eq_Inr [simp]: "rbind m f = Inr y \<longleftrightarrow> (\<exists>x. m = Inr x \<and> f x = Inr y)"
  by (cases m) auto

lemma rbind_eq_Inl: "rbind m f = Inl e \<longleftrightarrow> m = Inl e \<or> (\<exists>x. m = Inr x \<and> f x = Inl e)"
  by (cases m) auto

lemma rbind_InrE: "rbind m f = Inr y \<Longrightarrow> (\<And>x. m = Inr x \<Longrightarrow> f x = Inr y \<Longrightarrow> R) \<Longrightarrow> R"
  by auto

lemma if_InlE: "(if P then Inl e else r) = Inr y \<Longrightarrow> (\<not> P \<Longrightarrow> r = Inr y \<Longrightarrow> R) \<Longrightarrow> R"
  by (auto split: if_splits)

lemma rmap_Inr_length: "rmap f xs = Inr ys \<Longrightarrow> length ys = length xs"
  by (induction xs arbitrary: ys) auto

lemma rmap_Inr_all2: "rmap f xs = Inr ys \<Longrightarrow> list_all2 (\<lambda>x y. f x = Inr y) xs ys"
  by (induction xs arbitrary: ys) auto

lemma rmap_Inr_set: "rmap f xs = Inr ys \<Longrightarrow> y \<in> set ys \<Longrightarrow> \<exists>x \<in> set xs. f x = Inr y"
  by (induction xs arbitrary: ys) auto

section \<open>Characters and Python string methods\<close>

definition squote :: "string \<Rightarrow> string" where
  "squote s = CHR 0x27 # s @ [CHR 0x27]"

definition code :: "char \<Rightarrow> nat" where
  "code c = of_char c"

definition is_lower_alpha :: "char \<Rightarrow> bool" where
  "is_lower_alpha c = (97 \<le> code c \<and> code c \<le> 122)"

definition is_digit :: "char \<Rightarrow> bool" where
  "is_digit c = (48 \<le> code c \<and> code c \<le> 57)"

definition lower_char :: "char \<Rightarrow> char" where
  "lower_char c = (if 65 \<le> code c \<and> code c \<le> 90 then char_of (code c + 32) else c)"

definition upper_char :: "char \<Rightarrow> char" where
  "upper_char c = (if 97 \<le> code c \<and> code c \<le> 122 then char_of (code c - 32) else c)"

definition lower :: "string \<Rightarrow> string" where
  "lower s = map lower_char s"

definition upper :: "string \<Rightarrow> string" where
  "upper s = map upper_char s"

text \<open>\<open>str.isspace\<close> on the 8-bit range, the characters \<open>str.strip()\<close> removes.\<close>

definition is_space :: "char \<Rightarrow> bool" where
  "is_space c = ((9 \<le> code c \<and> code c \<le> 13) \<or> (28 \<le> code c \<and> code c \<le> 32) \<or> code c = 133 \<or> code c = 160)"

definition rstrip_if :: "(char \<Rightarrow> bool) \<Rightarrow> string \<Rightarrow> string" where
  "rstrip_if p s = rev (dropWhile p (rev s))"

definition strip :: "string \<Rightarrow> string" where
  "strip s = rstrip_if is_space (dropWhile is_space s)"

text \<open>\<open>s.split(c)[0]\<close>, also \<open>s.split(c, 1)[0]\<close>.\<close>

definition before :: "char \<Rightarrow> string \<Rightarrow> string" where
  "before c s = takeWhile (\<lambda>d. d \<noteq> c) s"

text \<open>\<open>s.rpartition(c)[2]\<close>, with \<open>c \<in> set s\<close> for the separator being non-empty.\<close>

definition after_last :: "char \<Rightarrow> string \<Rightarrow> string" where
  "after_last c s = rev (takeWhile (\<lambda>d. d \<noteq> c) (rev s))"

definition removeprefix :: "string \<Rightarrow> string \<Rightarrow> string" where
  "removeprefix p s = (if prefix p s then drop (length p) s else s)"

text \<open>\<open>str.isdigit()\<close>, which the Latin-1 superscripts one, two and three satisfy as well.\<close>

definition isdigit :: "string \<Rightarrow> bool" where
  "isdigit s = (s \<noteq> [] \<and> (\<forall>c \<in> set s. is_digit c \<or> code c \<in> {178, 179, 185}))"

text \<open>\<open>sub in s\<close>.\<close>

fun contains :: "string \<Rightarrow> string \<Rightarrow> bool" where
  "contains sub [] = (sub = [])"
| "contains sub (c # s) = (prefix sub (c # s) \<or> contains sub s)"

text \<open>\<open>', '.join(xs)\<close> and its like.\<close>

fun join :: "string \<Rightarrow> string list \<Rightarrow> string" where
  "join sep [] = []"
| "join sep [x] = x"
| "join sep (x # y # ys) = x @ sep @ join sep (y # ys)"

fun show_nat :: "nat \<Rightarrow> string" where
  "show_nat n = (if n < 10 then [char_of (48 + n)] else show_nat (n div 10) @ [char_of (48 + n mod 10)])"

declare show_nat.simps [simp del]

definition show_int :: "int \<Rightarrow> string" where
  "show_int i = (if i < 0 then CHR ''-'' # show_nat (nat (- i)) else show_nat (nat i))"

lemma lower_char_idem: "lower_char (lower_char c) = lower_char c"
  by (simp add: lower_char_def code_def)

lemma lower_idem [simp, py_string]: "lower (lower s) = lower s"
  by (simp add: lower_def lower_char_idem)

lemma lower_append [simp, py_string]: "lower (s @ t) = lower s @ lower t"
  by (simp add: lower_def)

lemma lower_Nil [simp]: "lower [] = []"
  by (simp add: lower_def)

lemma lower_eq_Nil [simp]: "lower s = [] \<longleftrightarrow> s = []"
  by (simp add: lower_def)

lemma length_lower [simp]: "length (lower s) = length s"
  by (simp add: lower_def)

text \<open>Lower-casing keeps every character that is not a letter where it is.\<close>

lemma lower_char_eq_iff:
  assumes "\<not> (97 \<le> code c \<and> code c \<le> 122)" and "\<not> (65 \<le> code c \<and> code c \<le> 90)"
  shows "lower_char d = c \<longleftrightarrow> d = c"
  using assms by (auto simp: lower_char_def code_def)

lemma before_lower [py_string]:
  assumes "\<not> (97 \<le> code c \<and> code c \<le> 122)" and "\<not> (65 \<le> code c \<and> code c \<le> 90)"
  shows "before c (lower s) = lower (before c s)"
  using lower_char_eq_iff [OF assms]
  by (induction s) (simp_all add: before_def lower_def)

lemma before_colon_lower [simp]: "before CHR '':'' (lower s) = lower (before CHR '':'' s)"
  by (rule before_lower) (simp_all add: code_def)

lemma before_notin [simp, py_string]: "c \<notin> set (before c s)"
  unfolding before_def by (auto dest: set_takeWhileD)

lemma before_id [py_string]: "c \<notin> set s \<Longrightarrow> before c s = s"
  unfolding before_def by (auto simp: takeWhile_eq_all_conv)

lemma before_idem [simp, py_string]: "before c (before c s) = before c s"
  by (simp add: before_id)

lemma before_append_sep [py_string]: "c \<notin> set s \<Longrightarrow> before c (s @ c # t) = s"
  unfolding before_def by (induction s) auto

section \<open>Lists as tables\<close>

lemma find_Some_iff_filter: "find p xs = Some x \<Longrightarrow> x \<in> set xs \<and> p x"
  by (auto simp: find_Some_iff)

lemma find_None_not: "find p xs = None \<Longrightarrow> x \<in> set xs \<Longrightarrow> \<not> p x"
  by (auto simp: find_None_iff)

lemma find_unique:
  "distinct (map f xs) \<Longrightarrow> x \<in> set xs \<Longrightarrow> find (\<lambda>y. f y = f x) xs = Some x"
  by (induction xs) (auto simp: image_iff)

lemma find_key_Some:
  "distinct (map f xs) \<Longrightarrow> x \<in> set xs \<Longrightarrow> f x = k \<Longrightarrow> find (\<lambda>y. f y = k) xs = Some x"
  using find_unique by fastforce

lemma map_if_key [sql_facts]:
  "(\<And>x. k (g x) = k x) \<Longrightarrow> map k (map (\<lambda>x. if p x then g x else x) xs) = map k xs"
  by (induction xs) auto

lemma find_map_if [sql_facts]:
  assumes "\<And>x. k (g x) = k x"
  shows "find (\<lambda>x. k x = v) (map (\<lambda>x. if p x then g x else x) xs)
    = map_option (\<lambda>x. if p x then g x else x) (find (\<lambda>x. k x = v) xs)"
  using assms by (induction xs) auto

lemma distinct_map_inj: "distinct (map f xs) \<Longrightarrow> x \<in> set xs \<Longrightarrow> y \<in> set xs \<Longrightarrow> f x = f y \<Longrightarrow> x = y"
  by (auto simp: distinct_map inj_on_def)

lemma filter_key_unique:
  "distinct (map k xs) \<Longrightarrow> x \<in> set xs \<Longrightarrow> filter (\<lambda>y. k y = k x) xs = [x]"
  by (induction xs) (auto simp: filter_empty_conv, metis image_eqI)

lemma filter_key_unique_and:
  assumes "distinct (map k xs)" and "x \<in> set xs" and "P x"
  shows "filter (\<lambda>y. k y = k x \<and> P y) xs = [x]"
proof -
  have "filter (\<lambda>y. k y = k x \<and> P y) xs = filter P (filter (\<lambda>y. k y = k x) xs)"
    by (simp add: conj_commute)
  then show ?thesis
    using assms by (simp add: filter_key_unique)
qed

section \<open>Invariants of operation sequences\<close>

text \<open>
  A component whose every operation keeps an invariant keeps it over any sequence of operations.
  An operation that raises leaves the state as the model's operation says.
\<close>

locale invariant_ops =
  fixes step :: "'op \<Rightarrow> 's \<Rightarrow> 's" and inv :: "'s \<Rightarrow> bool"
  assumes step_inv: "inv s \<Longrightarrow> inv (step op s)"
begin

lemma run_inv: "inv s \<Longrightarrow> inv (fold step ops s)"
  by (induction ops arbitrary: s) (auto simp: step_inv)

lemma run_split_inv: "inv s \<Longrightarrow> inv (fold step (ops @ ops') s) \<and> inv (fold step ops s)"
  by (simp add: run_inv)

end

section \<open>Stores of facts that are granted and revoked\<close>

datatype 'k store_op = Put 'k | Del 'k

text \<open>Whether \<open>k\<close> is held after the operations, if it was held before and the store accepts it.\<close>

fun last_write :: "bool \<Rightarrow> 'k \<Rightarrow> 'k store_op list \<Rightarrow> bool \<Rightarrow> bool" where
  "last_write accepted k [] held = held"
| "last_write accepted k (Put k' # ops) held = last_write accepted k ops (held \<or> (k' = k \<and> accepted))"
| "last_write accepted k (Del k' # ops) held = last_write accepted k ops (held \<and> k' \<noteq> k)"

lemma last_write_Put [simp]: "last_write True k (ops @ [Put k]) held"
proof (induction ops arbitrary: held)
  case (Cons op ops)
  then show ?case by (cases op) auto
qed simp

lemma last_write_Del [simp]: "\<not> last_write a k (ops @ [Del k]) held"
proof (induction ops arbitrary: held)
  case (Cons op ops)
  then show ?case by (cases op) auto
qed simp

locale grant_store =
  fixes held :: "'s \<Rightarrow> 'k \<Rightarrow> bool" and put :: "'k \<Rightarrow> 's \<Rightarrow> 's" and del :: "'k \<Rightarrow> 's \<Rightarrow> 's"
    and accepts :: "'s \<Rightarrow> 'k \<Rightarrow> bool"
  assumes held_put: "held (put k s) k' \<longleftrightarrow> held s k' \<or> (k' = k \<and> accepts s k)"
    and held_del: "held (del k s) k' \<longleftrightarrow> held s k' \<and> k' \<noteq> k"
    and accepts_put: "accepts (put k s) k' = accepts s k'"
    and accepts_del: "accepts (del k s) k' = accepts s k'"
begin

lemma run_held:
  "held (fold (\<lambda>op. case op of Put k \<Rightarrow> put k | Del k \<Rightarrow> del k) ops s) k = last_write (accepts s k) k ops (held s k)"
proof (induction ops arbitrary: s)
  case (Cons op ops)
  have "(held s k \<or> k = x \<and> accepts s x) = (held s k \<or> x = k \<and> accepts s k)"
    "(held s k \<and> k \<noteq> x) = (held s k \<and> x \<noteq> k)" for x
    by auto
  then show ?case
    by (cases op) (simp_all add: Cons.IH held_put held_del accepts_put accepts_del)
qed simp

lemma put_idem: "held (put k (put k s)) k' = held (put k s) k'"
  by (auto simp: held_put accepts_put)

end

end
