(* ===== verification/Regex.thy ===== *)
theory Regex
  imports Prelude
begin

text \<open>
  The regular expressions of Python's \<open>re\<close> that the source anchors with \<open>^\<close> and \<open>$\<close>, matched by
  derivatives.  \<open>lang\<close> gives the reference meaning; \<open>re_match_anchored\<close> adds what \<open>$\<close> means in
  Python: the end of the string, or just before one newline that ends it.
\<close>

datatype rx =
    Eps
  | Sym "char \<Rightarrow> bool"
  | Seq rx rx
  | Alt rx rx
  | Star rx

fun nullable :: "rx \<Rightarrow> bool" where
  "nullable Eps = True"
| "nullable (Sym p) = False"
| "nullable (Seq r s) = (nullable r \<and> nullable s)"
| "nullable (Alt r s) = (nullable r \<or> nullable s)"
| "nullable (Star r) = True"

fun deriv :: "char \<Rightarrow> rx \<Rightarrow> rx" where
  "deriv c Eps = Sym (\<lambda>_. False)"
| "deriv c (Sym p) = (if p c then Eps else Sym (\<lambda>_. False))"
| "deriv c (Seq r s) =
     (if nullable r then Alt (Seq (deriv c r) s) (deriv c s) else Seq (deriv c r) s)"
| "deriv c (Alt r s) = Alt (deriv c r) (deriv c s)"
| "deriv c (Star r) = Seq (deriv c r) (Star r)"

fun rx_matches :: "rx \<Rightarrow> string \<Rightarrow> bool" where
  "rx_matches r [] = nullable r"
| "rx_matches r (c # s) = rx_matches (deriv c r) s"

text \<open>\<open>bool(re.compile("^r$").match(s))\<close>.\<close>

definition newline :: char where
  "newline = CHR 0x0A"

definition re_match_anchored :: "rx \<Rightarrow> string \<Rightarrow> bool" where
  "re_match_anchored r s =
     (rx_matches r s \<or> (s \<noteq> [] \<and> last s = newline \<and> rx_matches r (butlast s)))"

section \<open>Reference meaning\<close>

inductive in_star :: "(string \<Rightarrow> bool) \<Rightarrow> string \<Rightarrow> bool" for L where
  star_Nil: "in_star L []"
| star_step: "L u \<Longrightarrow> u \<noteq> [] \<Longrightarrow> in_star L v \<Longrightarrow> in_star L (u @ v)"

fun lang :: "rx \<Rightarrow> string \<Rightarrow> bool" where
  "lang Eps w = (w = [])"
| "lang (Sym p) w = (\<exists>c. w = [c] \<and> p c)"
| "lang (Seq r s) w = (\<exists>u v. w = u @ v \<and> lang r u \<and> lang s v)"
| "lang (Alt r s) w = (lang r w \<or> lang s w)"
| "lang (Star r) w = in_star (lang r) w"

inductive_cases in_star_ConsE: "in_star L (c # w)"

lemma nullable_lang: "nullable r \<longleftrightarrow> lang r []"
  by (induction r) (auto intro: star_Nil)

lemma in_star_Cons:
  "in_star L (c # w) \<longleftrightarrow> (\<exists>u v. w = u @ v \<and> L (c # u) \<and> in_star L v)"
proof
  assume "in_star L (c # w)"
  then obtain u v where "c # w = u @ v" "L u" "u \<noteq> []" "in_star L v"
    by (rule in_star_ConsE)
  then show "\<exists>u v. w = u @ v \<and> L (c # u) \<and> in_star L v"
    by (cases u) auto
next
  assume "\<exists>u v. w = u @ v \<and> L (c # u) \<and> in_star L v"
  then show "in_star L (c # w)"
    by (metis append_Cons list.distinct(1) star_step)
qed

lemma lang_deriv: "lang (deriv c r) w \<longleftrightarrow> lang r (c # w)"
proof (induction r arbitrary: w)
  case (Seq r s)
  then show ?case
    by (auto simp: nullable_lang Cons_eq_append_conv)
next
  case (Star r)
  then show ?case by (auto simp: in_star_Cons)
qed auto

lemma rx_matches_lang: "rx_matches r w \<longleftrightarrow> lang r w"
  by (induction w arbitrary: r) (simp_all add: nullable_lang lang_deriv)

lemma lang_star_sym: "lang (Star (Sym p)) w \<longleftrightarrow> (\<forall>c \<in> set w. p c)"
proof (induction w)
  case Nil
  then show ?case by (auto intro: star_Nil)
next
  case (Cons c w)
  then show ?case by (auto simp: in_star_Cons)
qed

text \<open>At most \<open>n\<close> copies, for the quantifier \<open>{0,n}\<close>.\<close>

fun upto_copies :: "nat \<Rightarrow> rx \<Rightarrow> rx" where
  "upto_copies 0 r = Eps"
| "upto_copies (Suc n) r = Alt Eps (Seq r (upto_copies n r))"

lemma lang_upto_sym:
  "lang (upto_copies n (Sym p)) w \<longleftrightarrow> length w \<le> n \<and> (\<forall>c \<in> set w. p c)"
proof (induction n arbitrary: w)
  case 0
  then show ?case by auto
next
  case (Suc n)
  show ?case
  proof (cases w)
    case Nil
    then show ?thesis by simp
  next
    case (Cons c v)
    then have "lang (upto_copies (Suc n) (Sym p)) w \<longleftrightarrow> p c \<and> lang (upto_copies n (Sym p)) v"
      by (auto simp: Cons_eq_append_conv intro: exI [of _ "[c]"])
    with Cons Suc show ?thesis by auto
  qed
qed

end
