(* ===== verification/AppId.thy ===== *)
theory AppId
  imports Regex
begin

text \<open>
  \<open>core/app_id.py\<close>: the app name rule, the base58 app ids and the router's own id.
\<close>

section \<open>Definitions\<close>

definition is_lower_alnum :: "char \<Rightarrow> bool" where
  "is_lower_alnum c = (is_lower_alpha c \<or> is_digit c)"

text \<open>\<open>_APP_NAME_RE\<close>, between its anchors.\<close>

definition APP_NAME_RE :: rx where
  "APP_NAME_RE =
     Seq (Sym is_lower_alnum)
       (Alt Eps
         (Seq (Star (Sym (\<lambda>c. is_lower_alnum c \<or> c = CHR ''-''))) (Sym is_lower_alnum)))"

definition BASE58_ALPHABET :: string where
  "BASE58_ALPHABET = ''123456789ABCDEFGHJKLMNPQRSTUVWXYZabcdefghijkmnopqrstuvwxyz''"

definition APP_ID_LENGTH :: nat where
  "APP_ID_LENGTH = 12"

definition ROUTER_APP_ID :: string where
  "ROUTER_APP_ID = ''_openhost_router''"

definition ROUTER_APP_NAME :: string where
  "ROUTER_APP_NAME = ''OpenHost Router''"

text \<open>The loop of \<open>_encode_base58_padded\<close>: \<open>chars\<close> grows at its end.\<close>

fun encode_loop :: "nat \<Rightarrow> nat \<Rightarrow> string \<Rightarrow> string" where
  "encode_loop 0 n chars = chars"
| "encode_loop (Suc k) n chars =
     encode_loop k (n div 58) (chars @ [BASE58_ALPHABET ! (n mod 58)])"

definition encode_base58_padded :: "nat \<Rightarrow> string" where
  "encode_base58_padded n = rev (encode_loop APP_ID_LENGTH n [])"

text \<open>\<open>int.from_bytes(bs, "big")\<close>, each byte below 256.\<close>

fun from_bytes_big :: "nat \<Rightarrow> nat list \<Rightarrow> nat" where
  "from_bytes_big acc [] = acc"
| "from_bytes_big acc (b # bs) = from_bytes_big (acc * 256 + b) bs"

text \<open>\<open>new_app_id\<close> on the nine bytes \<open>secrets.token_bytes\<close> returned.\<close>

definition new_app_id :: "nat list \<Rightarrow> string" where
  "new_app_id token_bytes = encode_base58_padded (from_bytes_big 0 token_bytes)"

definition is_valid_app_id :: "string \<Rightarrow> bool" where
  "is_valid_app_id s = (length s = APP_ID_LENGTH \<and> (\<forall>c \<in> set s. c \<in> set BASE58_ALPHABET))"

definition is_valid_app_name :: "string \<Rightarrow> bool" where
  "is_valid_app_name s = re_match_anchored APP_NAME_RE s"

section \<open>App names\<close>

text \<open>The shape the regular expression describes, without derivatives.\<close>

definition app_label :: "string \<Rightarrow> bool" where
  "app_label s = (s \<noteq> [] \<and> is_lower_alnum (hd s) \<and> is_lower_alnum (last s)
     \<and> (\<forall>c \<in> set s. is_lower_alnum c \<or> c = CHR ''-''))"

lemma lang_APP_NAME_RE: "lang APP_NAME_RE s \<longleftrightarrow> app_label s"
proof
  assume "lang APP_NAME_RE s"
  then show "app_label s"
    unfolding APP_NAME_RE_def app_label_def
    by (auto simp: lang_star_sym simp del: lang.simps(5))
next
  assume a: "app_label s"
  show "lang APP_NAME_RE s"
  proof (cases "tl s")
    case Nil
    with a obtain c where "s = [c]" "is_lower_alnum c"
      by (cases s) (auto simp: app_label_def)
    then show ?thesis
      by (auto simp: APP_NAME_RE_def simp del: lang.simps(5))
  next
    case (Cons e r)
    define u where "u = butlast (tl s)"
    have s: "s = hd s # u @ [last s]"
      using a Cons by (cases s) (auto simp: app_label_def u_def)
    have "\<forall>c \<in> set u. is_lower_alnum c \<or> c = CHR ''-''"
      using a Cons by (cases s) (auto simp: app_label_def u_def dest: in_set_butlastD)
    then have "lang (Seq (Star (Sym (\<lambda>c. is_lower_alnum c \<or> c = CHR ''-''))) (Sym is_lower_alnum)) (u @ [last s])"
      using a unfolding lang.simps(3) lang_star_sym app_label_def
      by (intro exI [of _ u] exI [of _ "[last s]"]) simp
    then have "lang APP_NAME_RE (hd s # u @ [last s])"
      using a unfolding APP_NAME_RE_def lang.simps(3) [of "Sym is_lower_alnum"] app_label_def
      by (intro exI [of _ "[hd s]"] exI [of _ "u @ [last s]"]) simp
    with s show ?thesis by simp
  qed
qed

lemma is_valid_app_name_iff:
  "is_valid_app_name s \<longleftrightarrow> app_label s \<or> (s \<noteq> [] \<and> last s = newline \<and> app_label (butlast s))"
  by (simp add: is_valid_app_name_def re_match_anchored_def rx_matches_lang lang_APP_NAME_RE)

section \<open>App ids\<close>

lemma length_BASE58 [simp]: "length BASE58_ALPHABET = 58"
  by (simp add: BASE58_ALPHABET_def)

lemma distinct_BASE58: "distinct BASE58_ALPHABET"
  by (simp add: BASE58_ALPHABET_def)

text \<open>The digits of \<open>n\<close> to base 58, least significant first.\<close>

fun digits58 :: "nat \<Rightarrow> nat \<Rightarrow> nat list" where
  "digits58 0 n = []"
| "digits58 (Suc k) n = (n mod 58) # digits58 k (n div 58)"

lemma encode_loop_digits:
  "encode_loop k n chars = chars @ map ((!) BASE58_ALPHABET) (digits58 k n)"
  by (induction k arbitrary: n chars) auto

lemma length_digits58 [simp]: "length (digits58 k n) = k"
  by (induction k arbitrary: n) auto

lemma digits58_bound: "d \<in> set (digits58 k n) \<Longrightarrow> d < 58"
  by (induction k arbitrary: n) auto

lemma digits58_eq_iff: "digits58 k n = digits58 k m \<longleftrightarrow> n mod 58 ^ k = m mod 58 ^ k"
proof (induction k arbitrary: n m)
  case 0
  then show ?case by simp
next
  case (Suc k)
  have split: "x mod 58 ^ Suc k = 58 * (x div 58 mod 58 ^ k) + x mod 58" for x :: nat
    by (simp add: mod_mult2_eq)
  show ?case
  proof
    assume "digits58 (Suc k) n = digits58 (Suc k) m"
    then have "n mod 58 = m mod 58" and "n div 58 mod 58 ^ k = m div 58 mod 58 ^ k"
      using Suc by simp_all
    then show "n mod 58 ^ Suc k = m mod 58 ^ Suc k"
      by (simp only: split)
  next
    assume "n mod 58 ^ Suc k = m mod 58 ^ Suc k"
    then have eq: "58 * (n div 58 mod 58 ^ k) + n mod 58 = 58 * (m div 58 mod 58 ^ k) + m mod 58"
      by (simp only: split)
    then have "n mod 58 = m mod 58"
      by (metis mod_mult_self4 mod_mod_trivial)
    with eq show "digits58 (Suc k) n = digits58 (Suc k) m"
      using Suc by simp
  qed
qed

lemma encode_base58_digits:
  "encode_base58_padded n = rev (map ((!) BASE58_ALPHABET) (digits58 APP_ID_LENGTH n))"
  by (simp add: encode_base58_padded_def encode_loop_digits)

lemma encode_base58_valid: "is_valid_app_id (encode_base58_padded n)"
  unfolding is_valid_app_id_def encode_base58_digits
  using digits58_bound by (auto simp: nth_mem)

lemma encode_base58_eq_iff:
  "encode_base58_padded n = encode_base58_padded m \<longleftrightarrow> n mod 58 ^ APP_ID_LENGTH = m mod 58 ^ APP_ID_LENGTH"
proof -
  have "inj_on ((!) BASE58_ALPHABET) {..<58}"
    using distinct_BASE58 by (auto simp: inj_on_def distinct_conv_nth)
  then have "inj_on (map ((!) BASE58_ALPHABET)) (lists {..<58})"
    by (rule inj_on_mapI [OF inj_on_subset]) auto
  moreover have "digits58 APP_ID_LENGTH x \<in> lists {..<58}" for x
    using digits58_bound by auto
  ultimately show ?thesis
    unfolding encode_base58_digits
    by (simp add: inj_on_eq_iff digits58_eq_iff)
qed

section \<open>Properties\<close>

text \<open>every minted app id is a valid app id, whatever the random bytes, and two draws give the same
  id only when the drawn numbers agree modulo 58 ^ 12; the router's own id is never one.\<close>

theorem new_app_id_spec:
  "is_valid_app_id (new_app_id bs) \<and> \<not> is_valid_app_id ROUTER_APP_ID
   \<and> (new_app_id bs = new_app_id cs
      \<longleftrightarrow> from_bytes_big 0 bs mod 58 ^ 12 = from_bytes_big 0 cs mod 58 ^ 12)"
proof -
  have "\<not> is_valid_app_id ROUTER_APP_ID"
    by (simp add: is_valid_app_id_def ROUTER_APP_ID_def APP_ID_LENGTH_def)
  then show ?thesis
    by (simp only: new_app_id_def encode_base58_valid encode_base58_eq_iff APP_ID_LENGTH_def simp_thms)
qed

text \<open>the app-name test accepts exactly the non-empty words over lower-case letters, digits and
  hyphens that neither start nor end with a hyphen, and each of these followed by one newline.\<close>

theorem is_valid_app_name_spec:
  "is_valid_app_name s \<longleftrightarrow> app_label s \<or> (\<exists>t. s = t @ [newline] \<and> app_label t)"
  unfolding is_valid_app_name_iff by (metis append_butlast_last_id butlast_snoc last_snoc snoc_eq_iff_butlast)

end
