(* ===== verification/PyValue.thy ===== *)
theory PyValue
  imports Prelude "HOL-Library.Multiset" "HOL-Library.List_Lexorder" "HOL-Library.Char_ord"
begin

text \<open>
  Dynamically typed values: what \<open>tomllib.loads\<close> and \<open>json.loads\<close> return, and what the unvalidated
  manifest fields hold.  Floats are exact rationals (no \<open>inf\<close> or \<open>nan\<close>); \<open>VOther\<close> stands for a TOML
  date or time, with its type name.
\<close>

datatype pyval =
    VNone
  | VBool bool
  | VInt int
  | VFloat rat
  | VStr string
  | VList "pyval list"
  | VDict "(string \<times> pyval) list"
  | VOther string

section \<open>Built-in operations\<close>

fun truthy :: "pyval \<Rightarrow> bool" where
  "truthy VNone = False"
| "truthy (VBool b) = b"
| "truthy (VInt i) = (i \<noteq> 0)"
| "truthy (VFloat r) = (r \<noteq> 0)"
| "truthy (VStr s) = (s \<noteq> [])"
| "truthy (VList xs) = (xs \<noteq> [])"
| "truthy (VDict kvs) = (kvs \<noteq> [])"
| "truthy (VOther _) = True"

fun type_name :: "pyval \<Rightarrow> string" where
  "type_name VNone = ''NoneType''"
| "type_name (VBool _) = ''bool''"
| "type_name (VInt _) = ''int''"
| "type_name (VFloat _) = ''float''"
| "type_name (VStr _) = ''str''"
| "type_name (VList _) = ''list''"
| "type_name (VDict _) = ''dict''"
| "type_name (VOther t) = t"

text \<open>\<open>isinstance(v, int)\<close>, which a \<open>bool\<close> satisfies too; the value is the integer it equals.\<close>

fun as_int :: "pyval \<Rightarrow> int option" where
  "as_int (VInt i) = Some i"
| "as_int (VBool b) = Some (if b then 1 else 0)"
| "as_int _ = None"

text \<open>\<open>float(v)\<close>.  A string is parsed by the standard library, which \<open>parse_float\<close> stands for.\<close>

fun to_float :: "(string \<Rightarrow> rat result) \<Rightarrow> pyval \<Rightarrow> rat result" where
  "to_float parse_float (VInt i) = Inr (of_int i)"
| "to_float parse_float (VBool b) = Inr (if b then 1 else 0)"
| "to_float parse_float (VFloat r) = Inr r"
| "to_float parse_float (VStr s) = parse_float s"
| "to_float parse_float v =
     Inl (Exn TypeError (''float() argument must be a string or a real number, not '' @ squote (type_name v)))"

definition no_attribute :: "pyval \<Rightarrow> string \<Rightarrow> exn" where
  "no_attribute v a = Exn AttributeError (squote (type_name v) @ '' object has no attribute '' @ squote a)"

text \<open>\<open>v.get(key, default)\<close>: only a dict has the method.\<close>

fun dict_get :: "pyval \<Rightarrow> string \<Rightarrow> pyval \<Rightarrow> pyval result" where
  "dict_get (VDict kvs) k dflt = Inr (case map_of kvs k of None \<Rightarrow> dflt | Some v \<Rightarrow> v)"
| "dict_get v k dflt = Inl (no_attribute v ''get'')"

text \<open>\<open>key in v\<close> for a string key: containers and strings support it.\<close>

fun key_in :: "string \<Rightarrow> pyval \<Rightarrow> bool result" where
  "key_in k (VDict kvs) = Inr (map_of kvs k \<noteq> None)"
| "key_in k (VList xs) = Inr (VStr k \<in> set xs)"
| "key_in k (VStr s) = Inr (contains k s)"
| "key_in k v = Inl (Exn TypeError (''argument of type '' @ squote (type_name v) @ '' is not iterable''))"

text \<open>
  The elements a \<open>for\<close> loop visits: a list's items, a dict's keys, a string's characters.
\<close>

fun iter_elems :: "pyval \<Rightarrow> pyval list result" where
  "iter_elems (VList xs) = Inr xs"
| "iter_elems (VDict kvs) = Inr (map (\<lambda>kv. VStr (fst kv)) kvs)"
| "iter_elems (VStr s) = Inr (map (\<lambda>c. VStr [c]) s)"
| "iter_elems v = Inl (Exn TypeError (squote (type_name v) @ '' object is not iterable''))"

section \<open>Canonical forms\<close>

text \<open>
  \<open>json.dumps(v, sort_keys=True)\<close> gives the same text for two JSON values exactly when they have the
  same \<open>json_canon\<close>: keys sorted at every level, types kept apart (\<open>true\<close> is not \<open>1\<close>).
\<close>

fun json_canon :: "pyval \<Rightarrow> pyval" where
  "json_canon (VList xs) = VList (map json_canon xs)"
| "json_canon (VDict kvs) = VDict (sort_key fst (map (\<lambda>(k, v). (k, json_canon v)) kvs))"
| "json_canon v = v"

text \<open>
  Python's \<open>==\<close>: numbers compare by value whatever their type, dicts ignore the order of their keys.
\<close>

fun py_norm :: "pyval \<Rightarrow> pyval" where
  "py_norm (VBool b) = VFloat (if b then 1 else 0)"
| "py_norm (VInt i) = VFloat (of_int i)"
| "py_norm (VList xs) = VList (map py_norm xs)"
| "py_norm (VDict kvs) = VDict (sort_key fst (map (\<lambda>(k, v). (k, py_norm v)) kvs))"
| "py_norm v = v"

definition py_eq :: "pyval \<Rightarrow> pyval \<Rightarrow> bool" where
  "py_eq a b = (py_norm a = py_norm b)"

lemma py_eq_refl [simp]: "py_eq a a"
  by (simp add: py_eq_def)

lemma py_eq_sym: "py_eq a b \<longleftrightarrow> py_eq b a"
  by (auto simp: py_eq_def)

lemma py_eq_VStr [simp]: "py_eq (VStr s) v \<longleftrightarrow> v = VStr s"
  by (cases v) (auto simp: py_eq_def)

text \<open>Two dicts with the same pairs in another order are the same JSON object.\<close>

lemma sort_key_perm_eq:
  assumes "mset xs = mset ys" and "distinct (map fst xs)"
  shows "sort_key fst xs = sort_key fst (ys :: ('a::linorder \<times> 'b) list)"
proof (rule map_sorted_distinct_set_unique [where f = fst])
  have "distinct (map fst ys)"
    using assms by (metis mset_eq_imp_distinct_iff mset_map)
  then show "distinct (map fst (sort_key fst ys))"
    by (metis mset_eq_imp_distinct_iff mset_map mset_sort)
  show "distinct (map fst (sort_key fst xs))"
    using assms(2) by (metis mset_eq_imp_distinct_iff mset_map mset_sort)
  have "set xs = set ys"
    using assms(1) by (rule mset_eq_setD)
  then show "set (sort_key fst xs) = set (sort_key fst ys)"
    by simp
  have "inj_on fst (set xs)"
    using assms(2) by (simp add: distinct_map)
  with \<open>set xs = set ys\<close> show "inj_on fst (set (sort_key fst xs) \<union> set (sort_key fst ys))"
    by simp
qed simp_all

lemma map_fst_canon: "map fst (map (\<lambda>(k, v). (k, f v)) kvs) = map fst kvs"
  by (induction kvs) auto

lemma json_canon_perm:
  assumes "mset kvs = mset kvs'" and "distinct (map fst kvs)"
  shows "json_canon (VDict kvs) = json_canon (VDict kvs')"
proof -
  have "mset (map (\<lambda>(k, v). (k, json_canon v)) kvs) = mset (map (\<lambda>(k, v). (k, json_canon v)) kvs')"
    using assms(1) by simp
  then have "sort_key fst (map (\<lambda>(k, v). (k, json_canon v)) kvs)
      = sort_key fst (map (\<lambda>(k, v). (k, json_canon v)) kvs')"
    by (rule sort_key_perm_eq) (simp only: map_fst_canon assms(2))
  then show ?thesis by simp
qed

lemma map_json_canon_idem:
  "(\<And>v. v \<in> snd ` set kvs \<Longrightarrow> f (f v) = f v) \<Longrightarrow>
   map (\<lambda>(k, v). (k, f v)) (map (\<lambda>(k, v). (k, f v)) kvs) = map (\<lambda>(k, v). (k, f v)) kvs"
  by (induction kvs) auto

lemma sort_key_map_snd:
  "sort_key fst (map (\<lambda>(k, v). (k, f v)) xs) = map (\<lambda>(k, v). (k, f v)) (sort_key fst xs)"
proof -
  have ins: "insort_key fst (k, f v) (map (\<lambda>(k, v). (k, f v)) ys)
      = map (\<lambda>(k, v). (k, f v)) (insort_key fst (k, v) ys)" for k v ys
    by (induction ys) auto
  show ?thesis
    by (induction xs) (auto simp: ins)
qed

lemma json_canon_idem: "json_canon (json_canon v) = json_canon v"
proof (induction v rule: json_canon.induct)
  case (2 kvs)
  have e: "map (\<lambda>(k, v). (k, json_canon v)) (sort_key fst (map (\<lambda>(k, v). (k, json_canon v)) kvs))
      = sort_key fst (map (\<lambda>(k, v). (k, json_canon v)) kvs)"
    unfolding sort_key_map_snd [symmetric]
    by (subst map_json_canon_idem) (use 2 in fastforce)+
  show ?case
    by (simp only: json_canon.simps e) (simp add: sort_key_id_if_sorted)
qed (auto simp: map_idI)

end
