(* ===== verification/Database.thy ===== *)
theory Database
  imports PyValue
begin

text \<open>
  The SQLite state the router keeps (\<open>db/schema.sql\<close>): one record field per table, one record per
  row, rows in insertion order.  A connection holds the committed state and the working state of
  the open transaction.  Columns that hold JSON text are modelled by the value the text encodes.
\<close>

section \<open>Rows\<close>

datatype app_status = Building | Starting | Running | Stopped | Error | Removing

record app_row =
  a_app_id :: string
  a_name :: string
  a_manifest_name :: string
  a_version :: pyval
  a_description :: pyval
  a_runtime_type :: pyval
  a_repo_path :: string
  a_repo_url :: "string option"
  a_health_check :: pyval
  a_local_port :: int
  a_container_port :: pyval
  a_container_id :: "string option"
  a_status :: app_status
  a_error_message :: "string option"
  a_memory_mb :: pyval
  a_cpu_cores :: rat
  a_gpu :: int
  a_public_paths :: pyval
  a_links :: "(string \<times> string) list"
  a_manifest_raw :: "string option"
  a_created_at :: string

record port_row =
  p_app_id :: string
  p_label :: string
  p_container_port :: int
  p_host_port :: int

record database_row =
  db_app_id :: string
  db_name :: string
  db_path :: string

record provider_row =
  sp_service_url :: string
  sp_app_id :: string
  sp_service_version :: string
  sp_endpoint :: string

text \<open>\<open>grant_payload\<close> is stored as \<open>json.dumps(grant, sort_keys=True)\<close>: here its canonical value.\<close>

record permission_row =
  pr_consumer :: string
  pr_service_url :: string
  pr_grant_payload :: pyval
  pr_scope :: string
  pr_provider :: string

datatype cert_status = CertNone | CertAcquiring | CertActive | CertError

record domain_row =
  d_name :: string
  d_tls :: bool
  d_mdns :: bool
  d_is_primary :: bool
  d_cert_status :: cert_status
  d_error_message :: "string option"

text \<open>The single row of \<open>archive_backend\<close>; a NULL or empty volume name is \<open>[]\<close>.\<close>

record backend_state =
  bs_backend :: string
  bs_s3_bucket :: "string option"
  bs_s3_region :: "string option"
  bs_s3_endpoint :: "string option"
  bs_s3_prefix :: "string option"
  bs_s3_access_key_id :: "string option"
  bs_s3_secret_access_key :: "string option"
  bs_juicefs_volume_name :: string
  bs_configured_at :: "string option"
  bs_state_message :: "string option"

record database =
  t_apps :: "app_row list"
  t_port_mappings :: "port_row list"
  t_databases :: "database_row list"
  t_app_tokens :: "(string \<times> string) list"
  t_providers :: "provider_row list"
  t_defaults :: "(string \<times> string) list"
  t_permissions :: "permission_row list"
  t_domains :: "domain_row list"
  t_archive :: "backend_state option"

definition empty_db :: database where
  "empty_db = \<lparr>t_apps = [], t_port_mappings = [], t_databases = [], t_app_tokens = [],
     t_providers = [], t_defaults = [], t_permissions = [], t_domains = [], t_archive = None\<rparr>"

section \<open>Statements\<close>

definition select_app :: "string \<Rightarrow> database \<Rightarrow> app_row option" where
  "select_app app_id db = find (\<lambda>r. a_app_id r = app_id) (t_apps db)"

definition select_app_by_name :: "string \<Rightarrow> database \<Rightarrow> app_row option" where
  "select_app_by_name name db = find (\<lambda>r. a_name r = name) (t_apps db)"

text \<open>\<open>UPDATE apps SET ... WHERE p\<close>.\<close>

definition update_apps :: "(app_row \<Rightarrow> bool) \<Rightarrow> (app_row \<Rightarrow> app_row) \<Rightarrow> database \<Rightarrow> database" where
  "update_apps p f db = db\<lparr>t_apps := map (\<lambda>r. if p r then f r else r) (t_apps db)\<rparr>"

definition update_app :: "string \<Rightarrow> (app_row \<Rightarrow> app_row) \<Rightarrow> database \<Rightarrow> database" where
  "update_app app_id f db = update_apps (\<lambda>r. a_app_id r = app_id) f db"

definition rowcount_apps :: "(app_row \<Rightarrow> bool) \<Rightarrow> database \<Rightarrow> nat" where
  "rowcount_apps p db = length (filter p (t_apps db))"

text \<open>
  \<open>DELETE FROM apps WHERE app_id = ?\<close> on a connection with foreign keys enforced: every child table
  declares \<open>ON DELETE CASCADE\<close>.
\<close>

definition delete_app_cascade :: "string \<Rightarrow> database \<Rightarrow> database" where
  "delete_app_cascade app_id db = db\<lparr>
     t_apps := filter (\<lambda>r. a_app_id r \<noteq> app_id) (t_apps db),
     t_port_mappings := filter (\<lambda>r. p_app_id r \<noteq> app_id) (t_port_mappings db),
     t_databases := filter (\<lambda>r. db_app_id r \<noteq> app_id) (t_databases db),
     t_app_tokens := filter (\<lambda>r. fst r \<noteq> app_id) (t_app_tokens db),
     t_providers := filter (\<lambda>r. sp_app_id r \<noteq> app_id) (t_providers db),
     t_defaults := filter (\<lambda>r. snd r \<noteq> app_id) (t_defaults db),
     t_permissions := filter (\<lambda>r. pr_consumer r \<noteq> app_id) (t_permissions db)\<rparr>"

text \<open>The UNIQUE constraints of \<open>apps\<close> and \<open>app_port_mappings\<close>; a violation raises.\<close>

definition integrity :: "string \<Rightarrow> exn" where
  "integrity what = Exn IntegrityError (''UNIQUE constraint failed: '' @ what)"

definition insert_app :: "app_row \<Rightarrow> database \<Rightarrow> database result" where
  "insert_app r db =
     (if a_app_id r \<in> a_app_id ` set (t_apps db) then Inl (integrity ''apps.app_id'')
      else if a_name r \<in> a_name ` set (t_apps db) then Inl (integrity ''apps.name'')
      else if a_local_port r \<in> a_local_port ` set (t_apps db) then Inl (integrity ''apps.local_port'')
      else Inr (db\<lparr>t_apps := t_apps db @ [r]\<rparr>))"

definition insert_port :: "port_row \<Rightarrow> database \<Rightarrow> database result" where
  "insert_port r db =
     (if \<exists>m \<in> set (t_port_mappings db). p_app_id m = p_app_id r \<and> p_label m = p_label r
      then Inl (integrity ''app_port_mappings.app_id, app_port_mappings.label'')
      else if p_host_port r \<in> p_host_port ` set (t_port_mappings db)
      then Inl (integrity ''app_port_mappings.host_port'')
      else Inr (db\<lparr>t_port_mappings := t_port_mappings db @ [r]\<rparr>))"

section \<open>Connections\<close>

text \<open>
  \<open>committed\<close> is what another connection sees; \<open>working\<close> is what this one sees.  \<open>commit\<close> publishes,
  \<open>rollback\<close> drops, and closing a connection with an open transaction drops it as well.
\<close>

record conn =
  committed :: database
  working :: database

definition open_conn :: "database \<Rightarrow> conn" where
  "open_conn db = \<lparr>committed = db, working = db\<rparr>"

definition execute :: "(database \<Rightarrow> database) \<Rightarrow> conn \<Rightarrow> conn" where
  "execute f c = c\<lparr>working := f (working c)\<rparr>"

definition commit :: "conn \<Rightarrow> conn" where
  "commit c = c\<lparr>committed := working c\<rparr>"

definition rollback :: "conn \<Rightarrow> conn" where
  "rollback c = c\<lparr>working := committed c\<rparr>"

definition close_conn :: "conn \<Rightarrow> database" where
  "close_conn c = committed c"

section \<open>Key constraints as an invariant\<close>

definition db_keys_ok :: "database \<Rightarrow> bool" where
  "db_keys_ok db = (distinct (map a_app_id (t_apps db)) \<and> distinct (map a_name (t_apps db))
     \<and> distinct (map a_local_port (t_apps db))
     \<and> distinct (map (\<lambda>m. (p_app_id m, p_label m)) (t_port_mappings db))
     \<and> distinct (map p_host_port (t_port_mappings db)))"

lemma db_keys_okI:
  "distinct (map a_app_id (t_apps db)) \<Longrightarrow> distinct (map a_name (t_apps db)) \<Longrightarrow>
   distinct (map a_local_port (t_apps db)) \<Longrightarrow>
   distinct (map (\<lambda>m. (p_app_id m, p_label m)) (t_port_mappings db)) \<Longrightarrow>
   distinct (map p_host_port (t_port_mappings db)) \<Longrightarrow> db_keys_ok db"
  by (simp add: db_keys_ok_def)

lemma db_keys_ok_empty: "db_keys_ok empty_db"
  by (simp add: db_keys_ok_def empty_db_def)

lemma insert_app_keys: "insert_app r db = Inr db' \<Longrightarrow> db_keys_ok db \<Longrightarrow> db_keys_ok db'"
  by (auto simp: insert_app_def db_keys_ok_def split: if_splits)

lemma insert_port_keys: "insert_port r db = Inr db' \<Longrightarrow> db_keys_ok db \<Longrightarrow> db_keys_ok db'"
  by (fastforce simp: insert_port_def db_keys_ok_def split: if_splits)

lemma update_apps_keys:
  assumes "\<And>r. a_app_id (f r) = a_app_id r" "\<And>r. a_name (f r) = a_name r"
    "\<And>r. a_local_port (f r) = a_local_port r"
  shows "db_keys_ok (update_apps p f db) \<longleftrightarrow> db_keys_ok db"
  using assms by (simp add: update_apps_def db_keys_ok_def map_if_key del: map_map)

lemma delete_app_cascade_keys: "db_keys_ok db \<Longrightarrow> db_keys_ok (delete_app_cascade a db)"
  by (simp add: db_keys_ok_def delete_app_cascade_def distinct_map_filter)

section \<open>SELECT after UPDATE and DELETE\<close>

lemma select_update_app [sql_facts]:
  assumes "\<And>r. a_app_id (f r) = a_app_id r"
  shows "select_app i (update_app j f db)
    = (if i = j then map_option f (select_app i db) else select_app i db)"
proof -
  have "find (\<lambda>r. a_app_id r = i) (map (\<lambda>r. if a_app_id r = j then f r else r) rs)
      = (if i = j then map_option f (find (\<lambda>r. a_app_id r = i) rs) else find (\<lambda>r. a_app_id r = i) rs)"
    for rs using assms by (induction rs) auto
  then show ?thesis
    by (simp add: select_app_def update_app_def update_apps_def)
qed

lemma select_delete_app [sql_facts]:
  "select_app i (delete_app_cascade j db) = (if i = j then None else select_app i db)"
proof -
  have "find (\<lambda>r. a_app_id r = i) (filter (\<lambda>r. a_app_id r \<noteq> j) rs)
      = (if i = j then None else find (\<lambda>r. a_app_id r = i) rs)" for rs :: "app_row list"
    by (induction rs) auto
  then show ?thesis by (simp add: select_app_def delete_app_cascade_def)
qed

lemma select_app_Some: "select_app i db = Some r \<Longrightarrow> r \<in> set (t_apps db) \<and> a_app_id r = i"
  unfolding select_app_def by (drule find_Some_iff_filter)

lemma select_app_None: "select_app i db = None \<longleftrightarrow> i \<notin> a_app_id ` set (t_apps db)"
  by (auto simp: select_app_def find_None_iff)

lemma update_app_other_tables [simp]:
  "t_port_mappings (update_app i f db) = t_port_mappings db"
  "t_databases (update_app i f db) = t_databases db"
  "t_app_tokens (update_app i f db) = t_app_tokens db"
  "t_providers (update_app i f db) = t_providers db"
  "t_defaults (update_app i f db) = t_defaults db"
  "t_permissions (update_app i f db) = t_permissions db"
  "t_domains (update_app i f db) = t_domains db"
  "t_archive (update_app i f db) = t_archive db"
  by (simp_all add: update_app_def update_apps_def)

lemma conn_simps [simp]:
  "working (execute f c) = f (working c)" "committed (execute f c) = committed c"
  "working (commit c) = working c" "committed (commit c) = working c"
  "working (rollback c) = committed c" "committed (rollback c) = committed c"
  "working (open_conn db) = db" "committed (open_conn db) = db"
  by (simp_all add: execute_def commit_def rollback_def open_conn_def)

end
