(* ===== verification/Sample.thy ===== *)
theory Sample
  imports Database
begin

text \<open>
  One installed app with one mapped port: the concrete database the witnesses start from.
\<close>

definition example_row :: app_row where
  "example_row = \<lparr>a_app_id = ''AAAAAAAAAAAA'', a_name = ''notes'', a_manifest_name = ''notes'',
     a_version = VStr ''1.0'', a_description = VStr [], a_runtime_type = VStr ''serverfull'',
     a_repo_path = ''/data/app_temp_data/notes/repo'', a_repo_url = None, a_health_check = VNone,
     a_local_port = 9000, a_container_port = VInt 8080, a_container_id = Some ''c1'',
     a_status = Running, a_error_message = None, a_memory_mb = VInt 128, a_cpu_cores = 1 / 10,
     a_gpu = 0, a_public_paths = VList [], a_links = [], a_manifest_raw = None,
     a_created_at = ''2026-01-01 00:00:00''\<rparr>"

definition example_db :: database where
  "example_db = empty_db\<lparr>t_apps := [example_row],
     t_port_mappings := [\<lparr>p_app_id = ''AAAAAAAAAAAA'', p_label = ''web'', p_container_port = 80, p_host_port = 9002\<rparr>]\<rparr>"

lemmas sample_defs = example_row_def example_db_def empty_db_def

end
