(* ===== verification/Ports.thy ===== *)
theory Ports
  imports Sample
begin

text \<open>
  \<open>core/ports.py\<close>: the main port of a new app, the availability check, and the resolution of an
  app's declared port mappings.  What the kernel answers to \<open>bind\<close> is a parameter (\<open>host\<close>), and so
  are the numbers the random generator yields; \<open>random.shuffle\<close> itself is modelled.
\<close>

section \<open>Definitions\<close>

record port_mapping =
  pm_label :: string
  pm_container_port :: int
  pm_host_port :: int

record host =
  tcp_bindable :: "int \<Rightarrow> bool"
  udp_bindable :: "int \<Rightarrow> bool"

definition port_is_bindable :: "host \<Rightarrow> int \<Rightarrow> bool" where
  "port_is_bindable h port = (if \<not> tcp_bindable h port then False
     else if \<not> udp_bindable h port then False else True)"

definition allocate_port :: "host \<Rightarrow> database \<Rightarrow> int \<Rightarrow> int \<Rightarrow> int result" where
  "allocate_port h db range_start range_end =
     (let used_ports = a_local_port ` set (t_apps db) \<union> p_host_port ` set (t_port_mappings db)
      in case find (\<lambda>port. port \<notin> used_ports \<and> port_is_bindable h port) [range_start..range_end] of
           Some port \<Rightarrow> Inr port
         | None \<Rightarrow> Inl (Exn RuntimeError
             (''No free ports in range '' @ show_int range_start @ ''-'' @ show_int range_end)))"

datatype used_by = MainPort string | PortMappingOf string string | HostService

text \<open>\<open>app_port_mappings m JOIN apps a ON a.app_id = m.app_id\<close>.\<close>

definition mapping_join :: "database \<Rightarrow> (app_row \<times> port_row) list" where
  "mapping_join db = [(a, m). m \<leftarrow> t_port_mappings db, a \<leftarrow> t_apps db, a_app_id a = p_app_id m]"

text \<open>\<open>if exclude_app_id\<close>: neither \<open>None\<close> nor the empty string.\<close>

definition str_truthy :: "string option \<Rightarrow> bool" where
  "str_truthy s = (s \<noteq> None \<and> s \<noteq> Some [])"

definition conflicting_mapping :: "int \<Rightarrow> database \<Rightarrow> string option \<Rightarrow> (app_row \<times> port_row) option" where
  "conflicting_mapping port db exclude_app_id =
     (if str_truthy exclude_app_id
      then find (\<lambda>(a, m). p_host_port m = port \<and> Some (p_app_id m) \<noteq> exclude_app_id) (mapping_join db)
      else find (\<lambda>(a, m). p_host_port m = port) (mapping_join db))"

definition check_port_available ::
    "host \<Rightarrow> int \<Rightarrow> database \<Rightarrow> string option \<Rightarrow> bool \<times> used_by option" where
  "check_port_available h port db exclude_app_id =
     (let row = find (\<lambda>r. a_local_port r = port) (t_apps db)
      in if row \<noteq> None \<and> Some (a_app_id (the row)) \<noteq> exclude_app_id
         then (False, Some (MainPort (a_name (the row))))
         else case conflicting_mapping port db exclude_app_id of
                Some (a, m) \<Rightarrow> (False, Some (PortMappingOf (a_name a) (p_label m)))
              | None \<Rightarrow> if \<not> port_is_bindable h port then (False, Some HostService) else (True, None))"

fun format_used_by :: "used_by option \<Rightarrow> string" where
  "format_used_by None = ''unknown''"
| "format_used_by (Some (MainPort app)) = ''app '' @ squote app @ '' (main port)''"
| "format_used_by (Some (PortMappingOf app label)) =
     ''app '' @ squote app @ '' (port mapping '' @ squote label @ '')''"
| "format_used_by (Some HostService) = ''host-level service''"

text \<open>
  \<open>random.shuffle\<close>: for \<open>i\<close> from the last index down to 1, swap \<open>x[i]\<close> with \<open>x[j]\<close>, where \<open>j\<close> is the
  next random number below \<open>i + 1\<close>.
\<close>

fun shuffle_from :: "(nat \<Rightarrow> nat) \<Rightarrow> nat \<Rightarrow> 'a list \<Rightarrow> 'a list" where
  "shuffle_from rnd 0 xs = xs"
| "shuffle_from rnd (Suc i) xs =
     (let j = rnd (Suc i) mod Suc (Suc i)
      in shuffle_from rnd i (xs[Suc i := xs ! j, j := xs ! Suc i]))"

definition shuffle :: "(nat \<Rightarrow> nat) \<Rightarrow> 'a list \<Rightarrow> 'a list" where
  "shuffle rnd xs = shuffle_from rnd (length xs - 1) xs"

text \<open>The ports \<open>_find_free_host_port\<close> treats as taken before it adds the claimed ones.\<close>

definition taken_ports :: "database \<Rightarrow> string option \<Rightarrow> int set" where
  "taken_ports db exclude_app_id = a_local_port ` set (t_apps db) \<union>
     (if str_truthy exclude_app_id
      then p_host_port ` set (filter (\<lambda>m. Some (p_app_id m) \<noteq> exclude_app_id) (t_port_mappings db))
      else p_host_port ` set (t_port_mappings db))"

definition find_free_host_port ::
    "host \<Rightarrow> (nat \<Rightarrow> nat) \<Rightarrow> int \<Rightarrow> int \<Rightarrow> database \<Rightarrow> string option \<Rightarrow> int set \<Rightarrow> int result" where
  "find_free_host_port h rnd range_start range_end db exclude_app_id exclude =
     (let used_ports = taken_ports db exclude_app_id \<union> exclude;
          candidates = shuffle rnd [range_start..range_end]
      in case find (\<lambda>port. port \<notin> used_ports \<and> port_is_bindable h port) candidates of
           Some port \<Rightarrow> Inr port
         | None \<Rightarrow> Inl (Exn RuntimeError (''No free ports in range '' @ show_int range_start @ ''-''
             @ show_int range_end @ '' for auto-assignment'')))"

text \<open>First pass of \<open>resolve_port_mappings\<close>: the ports the manifest fixes.\<close>

fun resolve_fixed ::
    "host \<Rightarrow> database \<Rightarrow> string option \<Rightarrow> int set \<Rightarrow> port_mapping list \<Rightarrow> port_mapping list
     \<Rightarrow> (int set \<times> port_mapping list) result" where
  "resolve_fixed h db excl claimed resolved [] = Inr (claimed, resolved)"
| "resolve_fixed h db excl claimed resolved (pm # pms) =
     (if pm_host_port pm \<noteq> 0 then
        (case check_port_available h (pm_host_port pm) db excl of
           (available, used_by) \<Rightarrow>
             if \<not> available
             then Inl (Exn RuntimeError (''Port '' @ show_int (pm_host_port pm) @ '' for '' @ squote (pm_label pm)
                    @ '' is already in use by '' @ format_used_by used_by))
             else if pm_host_port pm \<in> claimed
             then Inl (Exn RuntimeError (''Port '' @ show_int (pm_host_port pm)
                    @ '' requested by multiple mappings in this deploy''))
             else resolve_fixed h db excl (insert (pm_host_port pm) claimed) (resolved @ [pm]) pms)
      else resolve_fixed h db excl claimed resolved pms)"

text \<open>
  Second pass: \<open>pick k claimed\<close> is the \<open>k\<close>-th call of \<open>_find_free_host_port\<close>, whose shuffle draws
  fresh random numbers.
\<close>

fun resolve_auto ::
    "(nat \<Rightarrow> int set \<Rightarrow> int result) \<Rightarrow> nat \<Rightarrow> int set \<Rightarrow> port_mapping list \<Rightarrow> port_mapping list
     \<Rightarrow> port_mapping list result" where
  "resolve_auto pick k claimed resolved [] = Inr resolved"
| "resolve_auto pick k claimed resolved (pm # pms) =
     (if pm_host_port pm = 0 then
        (case pick k claimed of
           Inl e \<Rightarrow> Inl e
         | Inr assigned \<Rightarrow>
             resolve_auto pick (Suc k) (insert assigned claimed)
               (resolved @ [pm\<lparr>pm_host_port := assigned\<rparr>]) pms)
      else resolve_auto pick k claimed resolved pms)"

definition resolve_port_mappings ::
    "host \<Rightarrow> (nat \<Rightarrow> nat \<Rightarrow> nat) \<Rightarrow> port_mapping list \<Rightarrow> database \<Rightarrow> int \<Rightarrow> int \<Rightarrow> string option
     \<Rightarrow> port_mapping list result" where
  "resolve_port_mappings h rnd mappings db range_start range_end exclude_app_id =
     (case resolve_fixed h db exclude_app_id {} [] mappings of
        Inl e \<Rightarrow> Inl e
      | Inr (claimed, resolved) \<Rightarrow>
          resolve_auto (\<lambda>k. find_free_host_port h (rnd k) range_start range_end db exclude_app_id)
            0 claimed resolved mappings)"

section \<open>The shuffle permutes\<close>

lemma mset_shuffle_from: "i < length xs \<Longrightarrow> mset (shuffle_from rnd i xs) = mset xs"
proof (induction rnd i xs rule: shuffle_from.induct)
  case (2 rnd i xs)
  let ?j = "rnd (Suc i) mod Suc (Suc i)"
  have "?j < length xs"
    using 2(2) by (metis Suc_leI le_less_trans less_Suc_eq_le mod_less_divisor zero_less_Suc)
  then have "mset (xs[Suc i := xs ! ?j, ?j := xs ! Suc i]) = mset xs"
    using 2(2) by (simp add: mset_swap)
  with 2 show ?case by (simp add: Let_def)
qed simp

lemma mset_shuffle: "mset (shuffle rnd xs) = mset xs"
proof (cases xs)
  case Nil
  then show ?thesis by (simp add: shuffle_def)
next
  case (Cons x ys)
  then show ?thesis unfolding shuffle_def by (intro mset_shuffle_from) simp
qed

lemma set_shuffle [simp]: "set (shuffle rnd xs) = set xs"
  by (metis mset_shuffle set_mset_mset)

section \<open>Picking one free port\<close>

text \<open>
  What a caller that assigns several ports relies on: a picked port is free and not yet claimed,
  and a pick succeeds while an unclaimed free port is left.
\<close>

locale port_allocator =
  fixes pick :: "nat \<Rightarrow> int set \<Rightarrow> int result" and free :: "int \<Rightarrow> bool"
  assumes pick_free: "pick k claimed = Inr p \<Longrightarrow> free p \<and> p \<notin> claimed"
    and pick_total: "free q \<Longrightarrow> q \<notin> claimed \<Longrightarrow> \<exists>p. pick k claimed = Inr p"
begin

lemma resolve_auto_shape:
  assumes "resolve_auto pick k claimed resolved pms = Inr out"
  shows "\<exists>fresh. out = resolved @ fresh
    \<and> list_all2 (\<lambda>pm r. \<exists>n. r = pm\<lparr>pm_host_port := n\<rparr>) (filter (\<lambda>pm. pm_host_port pm = 0) pms) fresh
    \<and> distinct (map pm_host_port fresh)
    \<and> (\<forall>r \<in> set fresh. free (pm_host_port r) \<and> pm_host_port r \<notin> claimed)"
  using assms
proof (induction pms arbitrary: k claimed resolved)
  case Nil
  then show ?case by simp
next
  case (Cons pm pms)
  show ?case
  proof (cases "pm_host_port pm = 0")
    case False
    with Cons show ?thesis by simp
  next
    case True
    with Cons.prems obtain p where p: "pick k claimed = Inr p"
      and rest: "resolve_auto pick (Suc k) (insert p claimed) (resolved @ [pm\<lparr>pm_host_port := p\<rparr>]) pms = Inr out"
      by (auto split: sum.splits)
    from Cons.IH [OF rest] obtain fresh where
      "out = (resolved @ [pm\<lparr>pm_host_port := p\<rparr>]) @ fresh"
      "list_all2 (\<lambda>pm r. \<exists>n. r = pm\<lparr>pm_host_port := n\<rparr>) (filter (\<lambda>pm. pm_host_port pm = 0) pms) fresh"
      "distinct (map pm_host_port fresh)"
      "\<forall>r \<in> set fresh. free (pm_host_port r) \<and> pm_host_port r \<notin> insert p claimed"
      by blast
    with True pick_free [OF p] show ?thesis
      by (intro exI [of _ "pm\<lparr>pm_host_port := p\<rparr> # fresh"]) auto
  qed
qed

lemma resolve_auto_total:
  assumes "finite F" and "\<And>q. q \<in> F \<Longrightarrow> free q \<and> q \<notin> claimed"
    and "length (filter (\<lambda>pm. pm_host_port pm = 0) pms) \<le> card F"
  shows "\<exists>out. resolve_auto pick k claimed resolved pms = Inr out"
  using assms
proof (induction pms arbitrary: k claimed resolved F)
  case Nil
  then show ?case by simp
next
  case (Cons pm pms)
  show ?case
  proof (cases "pm_host_port pm = 0")
    case False
    with Cons show ?thesis by simp
  next
    case True
    with Cons.prems(3) have "F \<noteq> {}" by auto
    with Cons.prems(2) obtain p where p: "pick k claimed = Inr p"
      using pick_total by blast
    have "length (filter (\<lambda>pm. pm_host_port pm = 0) pms) \<le> card (F - {p})"
      using Cons.prems(1,3) True by (auto simp: card_Diff_singleton_if)
    then have "\<exists>out. resolve_auto pick (Suc k) (insert p claimed) (resolved @ [pm\<lparr>pm_host_port := p\<rparr>]) pms = Inr out"
      using Cons.prems by (intro Cons.IH [of "F - {p}"]) auto
    with True p show ?thesis by simp
  qed
qed

end

definition free_host_port :: "host \<Rightarrow> int \<Rightarrow> int \<Rightarrow> database \<Rightarrow> string option \<Rightarrow> int \<Rightarrow> bool" where
  "free_host_port h range_start range_end db exclude_app_id p =
     (range_start \<le> p \<and> p \<le> range_end \<and> p \<notin> taken_ports db exclude_app_id \<and> port_is_bindable h p)"

interpretation auto_ports: port_allocator
  "\<lambda>k. find_free_host_port h (rnd k) range_start range_end db exclude_app_id"
  "free_host_port h range_start range_end db exclude_app_id"
  for h rnd range_start range_end db exclude_app_id
proof unfold_locales
  fix k claimed p
  assume "find_free_host_port h (rnd k) range_start range_end db exclude_app_id claimed = Inr p"
  then show "free_host_port h range_start range_end db exclude_app_id p \<and> p \<notin> claimed"
    by (auto simp: find_free_host_port_def free_host_port_def Let_def split: option.splits
        dest!: find_Some_iff_filter)
next
  fix k claimed q
  assume q: "free_host_port h range_start range_end db exclude_app_id q" "q \<notin> claimed"
  then have "q \<in> set (shuffle (rnd k) [range_start..range_end])"
    by (simp add: free_host_port_def)
  with q show "\<exists>p. find_free_host_port h (rnd k) range_start range_end db exclude_app_id claimed = Inr p"
    by (auto simp: find_free_host_port_def free_host_port_def Let_def find_None_iff split: option.splits)
qed

section \<open>The availability check\<close>

text \<open>Foreign keys of the mappings: every mapping belongs to an installed app.\<close>

definition db_fk_ok :: "database \<Rightarrow> bool" where
  "db_fk_ok db = (\<forall>m \<in> set (t_port_mappings db). p_app_id m \<in> a_app_id ` set (t_apps db))"

text \<open>No app but the excluded one holds the port, as its main port or by a mapping.\<close>

definition unused_by_others :: "database \<Rightarrow> string option \<Rightarrow> int \<Rightarrow> bool" where
  "unused_by_others db excl p =
     ((\<forall>a \<in> set (t_apps db). a_local_port a = p \<longrightarrow> Some (a_app_id a) = excl)
      \<and> (\<forall>m \<in> set (t_port_mappings db). p_host_port m = p \<longrightarrow> str_truthy excl \<and> Some (p_app_id m) = excl))"

lemma mapping_join_mem:
  "(a, m) \<in> set (mapping_join db) \<longleftrightarrow> m \<in> set (t_port_mappings db) \<and> a \<in> set (t_apps db) \<and> a_app_id a = p_app_id m"
  by (auto simp: mapping_join_def)

lemma conflicting_mapping_None:
  assumes "db_fk_ok db"
  shows "conflicting_mapping port db excl = None \<longleftrightarrow>
    (\<forall>m \<in> set (t_port_mappings db). p_host_port m = port \<longrightarrow> str_truthy excl \<and> Some (p_app_id m) = excl)"
proof -
  have "\<exists>a. (a, m) \<in> set (mapping_join db)" if "m \<in> set (t_port_mappings db)" for m
    using assms that unfolding mapping_join_mem db_fk_ok_def by (metis imageE)
  then show ?thesis
    unfolding conflicting_mapping_def
    by (auto simp: find_None_iff mapping_join_mem)
qed

lemma main_port_check:
  assumes "db_keys_ok db"
  shows "(\<exists>row. find (\<lambda>r. a_local_port r = port) (t_apps db) = Some row \<and> Some (a_app_id row) \<noteq> excl)
    \<longleftrightarrow> \<not> (\<forall>a \<in> set (t_apps db). a_local_port a = port \<longrightarrow> Some (a_app_id a) = excl)"
proof -
  have "find (\<lambda>r. a_local_port r = port) (t_apps db) = Some a"
    if "a \<in> set (t_apps db)" "a_local_port a = port" for a
    using that assms by (intro find_key_Some) (auto simp: db_keys_ok_def)
  then show ?thesis
    by (auto dest!: find_Some_iff_filter)
qed

lemma check_port_available_iff:
  assumes "db_keys_ok db" and "db_fk_ok db"
  shows "fst (check_port_available h port db excl) \<longleftrightarrow> unused_by_others db excl port \<and> port_is_bindable h port"
  using main_port_check [OF assms(1), of port excl] conflicting_mapping_None [OF assms(2), of port excl]
  unfolding check_port_available_def unused_by_others_def Let_def
  by (cases "find (\<lambda>r. a_local_port r = port) (t_apps db)") (auto split: option.splits)

lemma free_host_port_unused:
  "free_host_port h s e db excl p \<Longrightarrow> unused_by_others db excl p \<and> port_is_bindable h p"
  by (auto simp: free_host_port_def taken_ports_def unused_by_others_def split: if_splits)

section \<open>Resolution\<close>

lemma resolve_fixed_Inr:
  assumes "resolve_fixed h db excl claimed resolved pms = Inr (cl, res)"
  shows "res = resolved @ filter (\<lambda>pm. pm_host_port pm \<noteq> 0) pms
    \<and> cl = claimed \<union> pm_host_port ` set (filter (\<lambda>pm. pm_host_port pm \<noteq> 0) pms)
    \<and> distinct (map pm_host_port (filter (\<lambda>pm. pm_host_port pm \<noteq> 0) pms))
    \<and> (\<forall>pm \<in> set pms. pm_host_port pm \<noteq> 0 \<longrightarrow>
         pm_host_port pm \<notin> claimed \<and> fst (check_port_available h (pm_host_port pm) db excl))"
  using assms
proof (induction pms arbitrary: claimed resolved)
  case Nil
  then show ?case by simp
next
  case (Cons pm pms)
  show ?case
  proof (cases "pm_host_port pm = 0")
    case True
    with Cons show ?thesis by simp
  next
    case False
    with Cons.prems have
      "fst (check_port_available h (pm_host_port pm) db excl)" "pm_host_port pm \<notin> claimed"
      "resolve_fixed h db excl (insert (pm_host_port pm) claimed) (resolved @ [pm]) pms = Inr (cl, res)"
      by (auto split: prod.splits if_splits)
    with False Cons.IH [OF this(3)] show ?thesis by auto
  qed
qed

lemma resolve_fixed_total:
  assumes "\<forall>pm \<in> set pms. pm_host_port pm \<noteq> 0 \<longrightarrow>
      pm_host_port pm \<notin> claimed \<and> fst (check_port_available h (pm_host_port pm) db excl)"
    and "distinct (map pm_host_port (filter (\<lambda>pm. pm_host_port pm \<noteq> 0) pms))"
  shows "\<exists>out. resolve_fixed h db excl claimed resolved pms = Inr out"
  using assms
proof (induction pms arbitrary: claimed resolved)
  case Nil
  then show ?case by simp
next
  case (Cons pm pms)
  show ?case
  proof (cases "pm_host_port pm = 0")
    case True
    with Cons show ?thesis by simp
  next
    case False
    with Cons.prems have "fst (check_port_available h (pm_host_port pm) db excl)" "pm_host_port pm \<notin> claimed"
      by auto
    moreover have "\<exists>out. resolve_fixed h db excl (insert (pm_host_port pm) claimed) (resolved @ [pm]) pms = Inr out"
      using Cons.prems False by (intro Cons.IH) (fastforce simp: image_iff)+
    ultimately show ?thesis
      using False by (cases "check_port_available h (pm_host_port pm) db excl") auto
  qed
qed

lemma list_all2_relabel:
  "list_all2 (\<lambda>pm r. \<exists>n. r = pm\<lparr>pm_host_port := n\<rparr>) xs ys \<Longrightarrow>
   map (\<lambda>pm. (pm_label pm, pm_container_port pm)) ys = map (\<lambda>pm. (pm_label pm, pm_container_port pm)) xs"
  by (induction xs ys rule: list_all2_induct) auto

text \<open>The ports a batch may end up with, and what is said of each.\<close>

definition admissible :: "host \<Rightarrow> int \<Rightarrow> int \<Rightarrow> database \<Rightarrow> string option \<Rightarrow> port_mapping list \<Rightarrow> port_mapping \<Rightarrow> bool" where
  "admissible h s e db excl ms r =
     ((r \<in> set ms \<and> pm_host_port r \<noteq> 0 \<and> fst (check_port_available h (pm_host_port r) db excl))
      \<or> free_host_port h s e db excl (pm_host_port r))"

lemma resolve_port_mappings_Inr:
  assumes "resolve_port_mappings h rnd ms db s e excl = Inr out"
  shows "mset (map (\<lambda>pm. (pm_label pm, pm_container_port pm)) out)
      = mset (map (\<lambda>pm. (pm_label pm, pm_container_port pm)) ms)"
    and "distinct (map pm_host_port out)"
    and "\<forall>r \<in> set out. admissible h s e db excl ms r"
proof -
  let ?fixed = "filter (\<lambda>pm. pm_host_port pm \<noteq> 0) ms" and ?auto = "filter (\<lambda>pm. pm_host_port pm = 0) ms"
  let ?k = "\<lambda>pm. (pm_label pm, pm_container_port pm)"
  from assms obtain cl where
    f: "resolve_fixed h db excl {} [] ms = Inr (cl, ?fixed)" and
    a: "resolve_auto (\<lambda>k. find_free_host_port h (rnd k) s e db excl) 0 cl ?fixed ms = Inr out"
    unfolding resolve_port_mappings_def
    by (auto split: sum.splits prod.splits dest: resolve_fixed_Inr)
  note fixed = resolve_fixed_Inr [OF f]
  from auto_ports.resolve_auto_shape [OF a] obtain fresh where
    out: "out = ?fixed @ fresh" and
    sh: "list_all2 (\<lambda>pm r. \<exists>n. r = pm\<lparr>pm_host_port := n\<rparr>) ?auto fresh" and
    d: "distinct (map pm_host_port fresh)" and
    fr: "\<forall>r \<in> set fresh. free_host_port h s e db excl (pm_host_port r) \<and> pm_host_port r \<notin> cl"
    by blast
  have "mset (map ?k ?fixed) + mset (map ?k ?auto) = mset (map ?k ms)"
    by (induction ms) auto
  then show "mset (map ?k out) = mset (map ?k ms)"
    using out list_all2_relabel [OF sh] by simp
  show "distinct (map pm_host_port out)"
    using out d fr fixed by (fastforce simp: image_iff)
  show "\<forall>r \<in> set out. admissible h s e db excl ms r"
    using out fr fixed by (auto simp: admissible_def)
qed

lemma resolve_port_mappings_total:
  assumes "\<forall>pm \<in> set ms. pm_host_port pm \<noteq> 0 \<longrightarrow> fst (check_port_available h (pm_host_port pm) db excl)"
    and "distinct (map pm_host_port (filter (\<lambda>pm. pm_host_port pm \<noteq> 0) ms))"
    and "length (filter (\<lambda>pm. pm_host_port pm = 0) ms)
      \<le> card ({p. free_host_port h s e db excl p} - pm_host_port ` set ms)"
  shows "\<exists>out. resolve_port_mappings h rnd ms db s e excl = Inr out"
proof -
  let ?fixed = "filter (\<lambda>pm. pm_host_port pm \<noteq> 0) ms"
  let ?F = "{p. free_host_port h s e db excl p} - pm_host_port ` set ms"
  obtain cl res where f: "resolve_fixed h db excl {} [] ms = Inr (cl, res)"
    using resolve_fixed_total [of ms "{}" h db excl "[]"] assms(1,2) by auto
  have "{p. free_host_port h s e db excl p} \<subseteq> {s..e}"
    by (auto simp: free_host_port_def)
  then have "finite ?F"
    by (meson finite_Diff finite_atLeastAtMost_int finite_subset)
  then have "\<exists>out. resolve_auto (\<lambda>k. find_free_host_port h (rnd k) s e db excl) 0 cl res ms = Inr out"
    using resolve_fixed_Inr [OF f] assms(3)
    by (intro auto_ports.resolve_auto_total [of ?F]) auto
  then show ?thesis
    by (simp add: resolve_port_mappings_def f)
qed

section \<open>Properties\<close>

text \<open>C10: resolving a batch of port mappings keeps every label and container port, gives each mapping
  a different host port, and no host port it gives is the main port or a mapped port of another
  app; each one is bindable on the host.\<close>

theorem resolve_port_mappings_sound:
  assumes "resolve_port_mappings h rnd ms db s e excl = Inr out"
    and "db_keys_ok db" and "db_fk_ok db"
  shows "mset (map (\<lambda>pm. (pm_label pm, pm_container_port pm)) out)
      = mset (map (\<lambda>pm. (pm_label pm, pm_container_port pm)) ms)
    \<and> distinct (map pm_host_port out)
    \<and> (\<forall>r \<in> set out. unused_by_others db excl (pm_host_port r) \<and> port_is_bindable h (pm_host_port r))"
  using resolve_port_mappings_Inr [OF assms(1)] check_port_available_iff [OF assms(2,3)] free_host_port_unused
  unfolding admissible_def by blast

definition example_host :: host where
  "example_host = \<lparr>tcp_bindable = (\<lambda>p. 1024 \<le> p), udp_bindable = (\<lambda>p. p \<noteq> 9001)\<rparr>"

definition example_mappings :: "port_mapping list" where
  "example_mappings = [\<lparr>pm_label = ''udp'', pm_container_port = 53, pm_host_port = 0\<rparr>,
     \<lparr>pm_label = ''ssh'', pm_container_port = 22, pm_host_port = 2222\<rparr>]"

lemmas example_defs = example_host_def example_mappings_def sample_defs

lemma example_upto: "[9000..9003::int] = [9000, 9001, 9002, 9003]"
  by (simp add: upto.simps)

lemma example_resolved:
  "resolve_port_mappings example_host (\<lambda>_ _. 0) example_mappings example_db 9000 9003 None
   = Inr [\<lparr>pm_label = ''ssh'', pm_container_port = 22, pm_host_port = 2222\<rparr>,
          \<lparr>pm_label = ''udp'', pm_container_port = 53, pm_host_port = 9003\<rparr>]"
  by code_simp

lemma example_db_ok: "db_keys_ok example_db" "db_fk_ok example_db"
  by (simp_all add: db_keys_ok_def db_fk_ok_def example_defs)

theorem resolve_port_mappings_sound_witness:
  "distinct [2222, 9003 :: int] \<and> unused_by_others example_db None 9003 \<and> port_is_bindable example_host 2222"
  using resolve_port_mappings_sound [OF example_resolved example_db_ok] by simp

text \<open>the resolution succeeds whenever the fixed ports are available and pairwise different and
  the range holds enough free ports that no mapping of the batch fixes.\<close>

theorem resolve_port_mappings_complete:
  assumes "\<forall>pm \<in> set ms. pm_host_port pm \<noteq> 0 \<longrightarrow> fst (check_port_available h (pm_host_port pm) db excl)"
    and "distinct (map pm_host_port (filter (\<lambda>pm. pm_host_port pm \<noteq> 0) ms))"
    and "length (filter (\<lambda>pm. pm_host_port pm = 0) ms)
      \<le> card ({p. free_host_port h s e db excl p} - pm_host_port ` set ms)"
  shows "\<exists>out. resolve_port_mappings h rnd ms db s e excl = Inr out"
  using assms by (rule resolve_port_mappings_total)

lemma example_free: "{p. free_host_port example_host 9000 9003 example_db None p} = {9003}"
  by (auto simp: free_host_port_def example_defs taken_ports_def str_truthy_def port_is_bindable_def)

theorem resolve_port_mappings_complete_witness:
  "\<exists>out. resolve_port_mappings example_host (\<lambda>_ _. 7) example_mappings example_db 9000 9003 None = Inr out"
  by (rule resolve_port_mappings_complete)
    (simp_all add: example_free check_port_available_iff [OF example_db_ok], simp_all add: example_defs
       unused_by_others_def port_is_bindable_def)

text \<open>\<open>allocate_port\<close> returns the least port of the range that no app and no mapping uses and that
  can be bound, and raises only when there is none.\<close>

theorem allocate_port_least:
  "case allocate_port h db s e of
     Inr p \<Rightarrow> free_host_port h s e db None p \<and> (\<nexists>q. free_host_port h s e db None q \<and> q < p)
   | Inl _ \<Rightarrow> (\<nexists>q. free_host_port h s e db None q)"
proof -
  have upto_nth: "[s..e] ! i = s + int i" if "i < length [s..e]" for i
    using that by simp
  have "p \<le> q" if "find P [s..e] = Some p" "s \<le> q" "q \<le> e" "P q" for P p q
  proof (rule ccontr)
    assume "\<not> p \<le> q"
    from that(1) obtain i where i: "i < length [s..e]" "[s..e] ! i = p" "\<forall>j<i. \<not> P ([s..e] ! j)"
      by (auto simp: find_Some_iff)
    with \<open>\<not> p \<le> q\<close> that(2) upto_nth have "nat (q - s) < i" by auto
    with i upto_nth that(2,4) show False
      by (metis add_diff_cancel_left' diff_add_cancel int_nat_eq less_trans add.commute diff_ge_0_iff_ge)
  qed
  then show ?thesis
    by (auto simp: allocate_port_def free_host_port_def taken_ports_def str_truthy_def Let_def find_None_iff
        split: option.splits dest: find_Some_iff_filter simp flip: not_le)
qed

end
