(* ===== verification/Domains.thy ===== *)
theory Domains
  imports Sample
begin

text \<open>
  \<open>core/domains.py\<close>: which configured domain owns a host, the \<open>domains\<close> table and its operations, the
  promotion of another domain to primary, and first-boot seeding.
\<close>

section \<open>Domain\<close>

record domain =
  dom_name :: string
  dom_tls :: bool
  dom_mdns :: bool

text \<open>The constructor runs the \<open>_lowercase\<close> converter on the name.\<close>

definition mk_domain :: "string \<Rightarrow> bool \<Rightarrow> bool \<Rightarrow> domain" where
  "mk_domain name tls mdns = \<lparr>dom_name = lower name, dom_tls = tls, dom_mdns = mdns\<rparr>"

definition name_no_port :: "domain \<Rightarrow> string" where
  "name_no_port d = before CHR '':'' (dom_name d)"

definition scheme :: "domain \<Rightarrow> string" where
  "scheme d = (if dom_tls d then ''https'' else ''http'')"

definition owns :: "domain \<Rightarrow> string \<Rightarrow> bool" where
  "owns d host =
     (let name = name_no_port d
      in if name = [] then False
         else let host_no_port = lower (before CHR '':'' host)
              in host_no_port = name \<or> suffix (CHR ''.'' # name) host_no_port)"

definition is_app_subdomain :: "domain \<Rightarrow> string \<Rightarrow> bool" where
  "is_app_subdomain d host = (owns d host \<and> lower (before CHR '':'' host) \<noteq> name_no_port d)"

text \<open>The loop of \<open>Domain.match\<close>, \<open>best\<close> being the longest owner so far.\<close>

fun match_loop :: "string \<Rightarrow> domain option \<Rightarrow> domain list \<Rightarrow> domain option" where
  "match_loop host best [] = best"
| "match_loop host best (d # ds) =
     match_loop host
       (if owns d host \<and> (best = None \<or> length (name_no_port d) > length (name_no_port (the best)))
        then Some d else best) ds"

definition host_with_request_port :: "string \<Rightarrow> string \<Rightarrow> string" where
  "host_with_request_port host request_netloc =
     (let port = after_last CHR '':'' request_netloc
      in if CHR '':'' \<in> set request_netloc \<and> isdigit port then host @ '':'' @ port else host)"

section \<open>The domains table\<close>

definition to_domain :: "domain_row \<Rightarrow> domain" where
  "to_domain r = mk_domain (d_name r) (d_tls r) (d_mdns r)"

text \<open>\<open>ORDER BY is_primary DESC, name\<close>.\<close>

definition load_records :: "database \<Rightarrow> domain_row list" where
  "load_records db =
     (let rows = sort_key d_name (t_domains db)
      in filter d_is_primary rows @ filter (\<lambda>r. \<not> d_is_primary r) rows)"

definition get_record :: "database \<Rightarrow> string \<Rightarrow> domain_row option" where
  "get_record db name =
     (let name_no_port = lower (before CHR '':'' name)
      in find (\<lambda>row. lower (before CHR '':'' (d_name row)) = name_no_port) (t_domains db))"

text \<open>
  \<open>INSERT ... ON CONFLICT(name) DO UPDATE\<close>: an existing row keeps its primary flag; a second primary
  row violates \<open>idx_domains_one_primary\<close>.
\<close>

definition upsert_record :: "domain_row \<Rightarrow> database \<Rightarrow> database result" where
  "upsert_record record db =
     (let name = lower (d_name record)
      in if name \<in> d_name ` set (t_domains db)
         then Inr (db\<lparr>t_domains := map (\<lambda>r. if d_name r = name
                then r\<lparr>d_tls := d_tls record, d_mdns := d_mdns record,
                       d_cert_status := d_cert_status record, d_error_message := d_error_message record\<rparr>
                else r) (t_domains db)\<rparr>)
         else if d_is_primary record \<and> (\<exists>r \<in> set (t_domains db). d_is_primary r)
         then Inl (integrity ''index idx_domains_one_primary'')
         else Inr (db\<lparr>t_domains := t_domains db @ [record\<lparr>d_name := name\<rparr>]\<rparr>))"

definition remove_record :: "string \<Rightarrow> database \<Rightarrow> bool \<times> database" where
  "remove_record name db =
     (let keep = filter (\<lambda>r. d_name r \<noteq> lower name) (t_domains db)
      in (length keep < length (t_domains db), db\<lparr>t_domains := keep\<rparr>))"

definition remove_non_primary_record :: "string \<Rightarrow> database \<Rightarrow> bool \<times> database" where
  "remove_non_primary_record name db =
     (let keep = filter (\<lambda>r. \<not> (d_name r = lower name \<and> \<not> d_is_primary r)) (t_domains db)
      in (length keep < length (t_domains db), db\<lparr>t_domains := keep\<rparr>))"

definition set_record_status :: "string \<Rightarrow> cert_status \<Rightarrow> string option \<Rightarrow> database \<Rightarrow> database" where
  "set_record_status name cert_status error_message db =
     db\<lparr>t_domains := map (\<lambda>r. if d_name r = lower name
        then r\<lparr>d_cert_status := cert_status, d_error_message := error_message\<rparr> else r) (t_domains db)\<rparr>"

definition effective_domains :: "database \<Rightarrow> domain list" where
  "effective_domains db = map to_domain (load_records db)"

definition domain_match :: "database \<Rightarrow> string \<Rightarrow> domain option" where
  "domain_match db host = match_loop host None (effective_domains db)"

definition primary_domain_or_none :: "database \<Rightarrow> domain option" where
  "primary_domain_or_none db = map_option to_domain (find d_is_primary (t_domains db))"

definition primary_domain :: "database \<Rightarrow> domain result" where
  "primary_domain db =
     (case primary_domain_or_none db of
        None \<Rightarrow> Inl (Exn RuntimeError
          ''No primary domain in the DB `domains` table -- seed_first_boot must run first.'')
      | Some d \<Rightarrow> Inr d)"

definition is_primary_domain :: "database \<Rightarrow> string \<Rightarrow> bool" where
  "is_primary_domain db name =
     (case primary_domain_or_none db of None \<Rightarrow> False | Some p \<Rightarrow> before CHR '':'' name = name_no_port p)"

section \<open>Promotion and seeding\<close>

definition PRIMARY_DOMAIN_RESTART_MARKER :: string where
  "PRIMARY_DOMAIN_RESTART_MARKER = ''Restarting after primary domain change''"

text \<open>\<open>SELECT name FROM apps WHERE status IN ('building', 'starting', 'removing') ORDER BY name\<close>.\<close>

definition busy_apps :: "database \<Rightarrow> string list" where
  "busy_apps db = sort (map a_name (filter (\<lambda>r. a_status r \<in> {Building, Starting, Removing}) (t_apps db)))"

definition set_primary_flag :: "string \<Rightarrow> bool \<Rightarrow> bool \<Rightarrow> database \<Rightarrow> nat \<times> database" where
  "set_primary_flag name old new db =
     (length (filter (\<lambda>r. d_name r = name \<and> d_is_primary r = old) (t_domains db)),
      db\<lparr>t_domains := map (\<lambda>r. if d_name r = name \<and> d_is_primary r = old
           then r\<lparr>d_is_primary := new\<rparr> else r) (t_domains db)\<rparr>)"

text \<open>The body of the transaction: the working database and whether a promotion happened.\<close>

definition promote :: "string \<Rightarrow> database \<Rightarrow> (bool \<times> database) result" where
  "promote target_name db =
     (case get_record db target_name of
        None \<Rightarrow> Inl (Exn DomainNotFoundError target_name)
      | Some target \<Rightarrow>
          (case find d_is_primary (t_domains db) of
             None \<Rightarrow> Inl (Exn RuntimeError ''No primary domain configured'')
           | Some current \<Rightarrow>
               if d_name target = d_name current then Inr (False, db)
               else if busy_apps db \<noteq> []
               then Inl (Exn AppsBusyForPrimaryChangeError (''apps are busy: '' @ join '', '' (busy_apps db)))
               else (let (demoted, db1) = set_primary_flag (d_name current) True False db;
                         (promoted, db2) = set_primary_flag (d_name target) False True db1
                     in if demoted \<noteq> 1 \<or> promoted \<noteq> 1
                        then Inl (Exn RuntimeError ''Primary domain changed concurrently'')
                        else Inr (True, update_apps
                               (\<lambda>r. a_status r = Running \<or> (a_status r = Error \<and> a_container_id r \<noteq> None))
                               (\<lambda>r. r\<lparr>a_status := Starting,
                                       a_error_message := Some PRIMARY_DOMAIN_RESTART_MARKER\<rparr>) db2))))"

text \<open>COMMIT on the normal exits, ROLLBACK on any exception.\<close>

definition set_primary_domain :: "string \<Rightarrow> database \<Rightarrow> bool result \<times> database" where
  "set_primary_domain name db =
     (case promote (lower (before CHR '':'' name)) db of
        Inr (changed, db') \<Rightarrow> (Inr changed, db')
      | Inl e \<Rightarrow> (Inl e, db))"

fun seed_rows :: "string set \<Rightarrow> domain_row list \<Rightarrow> domain_row list" where
  "seed_rows seen [] = []"
| "seed_rows seen (rec # recs) =
     (let host = before CHR '':'' (d_name rec)
      in if host \<in> seen then seed_rows seen recs
         else rec\<lparr>d_is_primary := False\<rparr> # seed_rows (insert host seen) recs)"

definition seed_domains :: "domain \<Rightarrow> domain_row list \<Rightarrow> database \<Rightarrow> bool \<times> database" where
  "seed_domains primary extras db =
     (if t_domains db \<noteq> [] then (False, db)
      else (True, db\<lparr>t_domains :=
        \<lparr>d_name = dom_name primary, d_tls = dom_tls primary, d_mdns = dom_mdns primary,
          d_is_primary = True, d_cert_status = CertNone, d_error_message = None\<rparr>
        # seed_rows {name_no_port primary} extras\<rparr>))"

section \<open>Host matching\<close>

lemma match_loop_None:
  "match_loop host best ds = None \<longleftrightarrow> best = None \<and> (\<forall>d \<in> set ds. \<not> owns d host)"
  by (induction ds arbitrary: best) auto

lemma match_loop_Some:
  assumes "match_loop host best ds = Some d"
  shows "(best = Some d \<or> (d \<in> set ds \<and> owns d host))
    \<and> (\<forall>e. (best = Some e \<or> (e \<in> set ds \<and> owns e host)) \<longrightarrow> length (name_no_port e) \<le> length (name_no_port d))"
  using assms
proof (induction ds arbitrary: best)
  case Nil
  then show ?case by simp
next
  case (Cons x ds)
  let ?b = "if owns x host \<and> (best = None \<or> length (name_no_port x) > length (name_no_port (the best)))
        then Some x else best"
  from Cons.IH [of ?b] Cons.prems have
    ih: "(?b = Some d \<or> (d \<in> set ds \<and> owns d host))"
    "\<forall>e. (?b = Some e \<or> (e \<in> set ds \<and> owns e host)) \<longrightarrow> length (name_no_port e) \<le> length (name_no_port d)"
    by auto
  show ?case
  proof (intro conjI allI impI)
    show "best = Some d \<or> (d \<in> set (x # ds) \<and> owns d host)"
      using ih(1) by (auto split: if_splits)
    fix e
    assume e: "best = Some e \<or> (e \<in> set (x # ds) \<and> owns e host)"
    show "length (name_no_port e) \<le> length (name_no_port d)"
      using ih(2) e by (cases best) (fastforce split: if_splits)+
  qed
qed

lemma owns_suffix:
  "owns d host \<longleftrightarrow> name_no_port d \<noteq> [] \<and> (lower (before CHR '':'' host) = name_no_port d
     \<or> suffix (CHR ''.'' # name_no_port d) (lower (before CHR '':'' host)))"
  by (auto simp: owns_def Let_def)

lemma owns_is_suffix: "owns d host \<Longrightarrow> suffix (name_no_port d) (lower (before CHR '':'' host))"
  unfolding owns_suffix using suffix_ConsD by fastforce

lemma owners_nested:
  assumes "owns d host" and "owns e host" and "length (name_no_port e) \<le> length (name_no_port d)"
  shows "suffix (name_no_port e) (name_no_port d)"
  using owns_is_suffix [OF assms(1)] owns_is_suffix [OF assms(2)] assms(3)
  by (meson suffix_length_suffix)

section \<open>One primary\<close>

definition one_primary :: "domain_row list \<Rightarrow> bool" where
  "one_primary ds = (\<exists>p \<in> set ds. d_is_primary p \<and> (\<forall>r \<in> set ds. d_is_primary r \<longrightarrow> d_name r = d_name p))"

definition domains_ok :: "database \<Rightarrow> bool" where
  "domains_ok db = (distinct (map d_name (t_domains db)) \<and> one_primary (t_domains db))"

lemma find_primary:
  assumes "domains_ok db"
  obtains p where "find d_is_primary (t_domains db) = Some p" "p \<in> set (t_domains db)" "d_is_primary p"
    "\<And>r. r \<in> set (t_domains db) \<Longrightarrow> d_is_primary r \<longleftrightarrow> d_name r = d_name p"
proof -
  from assms obtain q where q: "q \<in> set (t_domains db)" "d_is_primary q"
    "\<And>r. r \<in> set (t_domains db) \<Longrightarrow> d_is_primary r \<Longrightarrow> d_name r = d_name q"
    by (auto simp: domains_ok_def one_primary_def)
  have inj: "r = s" if "r \<in> set (t_domains db)" "s \<in> set (t_domains db)" "d_name r = d_name s" for r s
    using assms that by (meson domains_ok_def distinct_map_inj)
  obtain p where p: "find d_is_primary (t_domains db) = Some p"
    using q(1,2) by (cases "find d_is_primary (t_domains db)") (auto dest: find_None_not)
  then have "p \<in> set (t_domains db)" "d_is_primary p"
    by (auto dest: find_Some_iff_filter)
  with p q inj that show thesis by metis
qed

lemma domains_ok_mapI:
  assumes "domains_ok db" and "t_domains db' = map f (t_domains db)"
    and "\<And>r. d_name (f r) = d_name r" and "\<And>r. d_is_primary (f r) = d_is_primary r"
  shows "domains_ok db'"
proof -
  have "map d_name (map f (t_domains db)) = map d_name (t_domains db)"
    using assms(3) by simp
  with assms show ?thesis
    unfolding domains_ok_def one_primary_def by (simp del: map_map)
qed

lemma upsert_domains_ok:
  assumes "upsert_record record db = Inr db'" and "domains_ok db"
  shows "domains_ok db'"
proof (cases "lower (d_name record) \<in> d_name ` set (t_domains db)")
  case True
  with assms show ?thesis
    by (intro domains_ok_mapI [OF assms(2), where f = "\<lambda>r. if d_name r = lower (d_name record)
        then r\<lparr>d_tls := d_tls record, d_mdns := d_mdns record,
               d_cert_status := d_cert_status record, d_error_message := d_error_message record\<rparr> else r"])
      (auto simp: upsert_record_def Let_def)
next
  case False
  obtain p where p: "p \<in> set (t_domains db)" "d_is_primary p"
    using assms(2) by (auto elim: find_primary)
  with False assms(1) have "\<not> d_is_primary record"
    and "t_domains db' = t_domains db @ [record\<lparr>d_name := lower (d_name record)\<rparr>]"
    by (auto simp: upsert_record_def Let_def split: if_splits)
  with False assms(2) show ?thesis
    by (auto simp: domains_ok_def one_primary_def)
qed

lemma remove_non_primary_domains_ok:
  assumes "domains_ok db"
  shows "domains_ok (snd (remove_non_primary_record name db))"
  using assms by (auto simp: remove_non_primary_record_def Let_def domains_ok_def one_primary_def
      intro: distinct_map_filter)

lemma set_record_status_domains_ok: "domains_ok db \<Longrightarrow> domains_ok (set_record_status name st err db)"
  by (erule domains_ok_mapI [where f = "\<lambda>r. if d_name r = lower name
      then r\<lparr>d_cert_status := st, d_error_message := err\<rparr> else r"])
    (auto simp: set_record_status_def)

lemma get_record_Some:
  "get_record db name = Some r \<Longrightarrow> r \<in> set (t_domains db) \<and>
     lower (before CHR '':'' (d_name r)) = lower (before CHR '':'' name)"
  unfolding get_record_def Let_def by (drule find_Some_iff_filter)

lemma get_record_normal [simp]: "get_record db (lower (before CHR '':'' name)) = get_record db name"
proof -
  have "before CHR '':'' (lower (before CHR '':'' name)) = lower (before CHR '':'' name)"
    by simp
  then show ?thesis by (simp add: get_record_def)
qed

text \<open>What a successful transaction did.\<close>

lemma promote_True:
  assumes "promote name db = Inr (True, db')" and "domains_ok db"
  obtains t where "get_record db name = Some t" "\<not> d_is_primary t" "busy_apps db = []"
    "t_domains db' = map (\<lambda>r. r\<lparr>d_is_primary := (d_name r = d_name t)\<rparr>) (t_domains db)"
    "t_apps db' = map (\<lambda>r. if a_status r = Running \<or> (a_status r = Error \<and> a_container_id r \<noteq> None)
        then r\<lparr>a_status := Starting, a_error_message := Some PRIMARY_DOMAIN_RESTART_MARKER\<rparr> else r) (t_apps db)"
proof -
  obtain p where p: "find d_is_primary (t_domains db) = Some p" "p \<in> set (t_domains db)"
    "\<And>r. r \<in> set (t_domains db) \<Longrightarrow> d_is_primary r \<longleftrightarrow> d_name r = d_name p"
    using find_primary [OF assms(2)] by metis
  from assms(1) obtain t where t: "get_record db name = Some t"
    by (cases "get_record db name") (simp_all add: promote_def)
  with assms(1) p(1) have ne: "d_name t \<noteq> d_name p" and nb: "busy_apps db = []"
    by (auto simp: promote_def split: if_splits)
  have "t_domains db' = map (\<lambda>r. if d_name r = d_name t \<and> \<not> d_is_primary r then r\<lparr>d_is_primary := True\<rparr> else r)
      (map (\<lambda>r. if d_name r = d_name p \<and> d_is_primary r then r\<lparr>d_is_primary := False\<rparr> else r) (t_domains db))"
    and apps: "t_apps db' = map (\<lambda>r. if a_status r = Running \<or> (a_status r = Error \<and> a_container_id r \<noteq> None)
        then r\<lparr>a_status := Starting, a_error_message := Some PRIMARY_DOMAIN_RESTART_MARKER\<rparr> else r) (t_apps db)"
    using assms(1) t p(1) ne nb
    by (auto simp: promote_def set_primary_flag_def update_apps_def Let_def split: if_splits)
  moreover have "(if d_name r' = d_name t \<and> \<not> d_is_primary r' then r'\<lparr>d_is_primary := True\<rparr> else r')
      = r\<lparr>d_is_primary := (d_name r = d_name t)\<rparr>"
    if "r \<in> set (t_domains db)"
      "r' = (if d_name r = d_name p \<and> d_is_primary r then r\<lparr>d_is_primary := False\<rparr> else r)" for r r'
    using p(3) [OF that(1)] that(2) ne by (cases r) (auto split: if_splits)
  ultimately have doms: "t_domains db' = map (\<lambda>r. r\<lparr>d_is_primary := (d_name r = d_name t)\<rparr>) (t_domains db)"
    by (simp add: comp_def)
  have "\<not> d_is_primary t"
    using p(3) get_record_Some [OF t] ne by blast
  with t nb doms apps that show thesis by blast
qed

lemma promote_progress:
  assumes "domains_ok db" and "get_record db name = Some t" and "\<not> d_is_primary t" and "busy_apps db = []"
  shows "\<exists>db'. promote name db = Inr (True, db')"
proof -
  obtain p where p: "find d_is_primary (t_domains db) = Some p" "p \<in> set (t_domains db)" "d_is_primary p"
    "\<And>r. r \<in> set (t_domains db) \<Longrightarrow> d_is_primary r \<longleftrightarrow> d_name r = d_name p"
    using find_primary [OF assms(1)] by metis
  have d: "distinct (map d_name (t_domains db))"
    using assms(1) by (simp add: domains_ok_def)
  have t: "t \<in> set (t_domains db)"
    using get_record_Some [OF assms(2)] by blast
  with assms(3) p have ne: "d_name t \<noteq> d_name p" by blast
  let ?f = "\<lambda>r. if d_name r = d_name p \<and> d_is_primary r then r\<lparr>d_is_primary := False\<rparr> else r"
  have "filter (\<lambda>r. d_name r = d_name p \<and> d_is_primary r = True) (t_domains db) = [p]"
    using filter_key_unique_and [OF d p(2), of d_is_primary] p(3) by simp
  moreover have "filter (\<lambda>r. d_name r = d_name t \<and> d_is_primary r = False) (map ?f (t_domains db)) = [t]"
  proof -
    have "distinct (map d_name (map ?f (t_domains db)))"
      using d by (subst map_if_key) simp_all
    moreover have "t \<in> set (map ?f (t_domains db))"
      using t ne by force
    ultimately show ?thesis
      using filter_key_unique_and [of d_name "map ?f (t_domains db)" t "\<lambda>r. \<not> d_is_primary r"] assms(3) by simp
  qed
  ultimately show ?thesis
    using assms(2,4) p(1) ne by (simp add: promote_def set_primary_flag_def Let_def)
qed

lemma promote_domains_ok: "promote name db = Inr (b, db') \<Longrightarrow> domains_ok db \<Longrightarrow> domains_ok db'"
proof (cases b)
  case True
  assume "promote name db = Inr (b, db')" and ok: "domains_ok db"
  with True obtain t where t: "get_record db name = Some t"
    and ds: "t_domains db' = map (\<lambda>r. r\<lparr>d_is_primary := (d_name r = d_name t)\<rparr>) (t_domains db)"
    by (auto elim: promote_True)
  have "t \<in> set (t_domains db)"
    using get_record_Some [OF t] by blast
  with ok ds show ?thesis
    by (auto simp: domains_ok_def one_primary_def comp_def)
next
  case False
  assume "promote name db = Inr (b, db')" "domains_ok db"
  with False show ?thesis
    by (auto simp: promote_def Let_def split: option.splits if_splits prod.splits)
qed

lemma find_flagged:
  "distinct (map d_name ds) \<Longrightarrow> t \<in> set ds \<Longrightarrow>
   find d_is_primary (map (\<lambda>r. r\<lparr>d_is_primary := (d_name r = d_name t)\<rparr>) ds) = Some (t\<lparr>d_is_primary := True\<rparr>)"
  by (induction ds) (auto intro: rev_image_eqI)

section \<open>The operations as a machine\<close>

datatype domain_op =
    UpsertRecord domain_row
  | RemoveNonPrimary string
  | SetRecordStatus string cert_status "string option"
  | SetPrimary string

fun domain_step :: "domain_op \<Rightarrow> database \<Rightarrow> database" where
  "domain_step (UpsertRecord rec) db = (case upsert_record rec db of Inl _ \<Rightarrow> db | Inr db' \<Rightarrow> db')"
| "domain_step (RemoveNonPrimary name) db = snd (remove_non_primary_record name db)"
| "domain_step (SetRecordStatus name st err) db = set_record_status name st err db"
| "domain_step (SetPrimary name) db = snd (set_primary_domain name db)"

interpretation domain_machine: invariant_ops domain_step domains_ok
proof unfold_locales
  fix db op
  assume ok: "domains_ok db"
  show "domains_ok (domain_step op db)"
  proof (cases op)
    case (SetPrimary name)
    with ok show ?thesis
      by (auto simp: set_primary_domain_def split: sum.splits dest: promote_domains_ok)
  qed (use ok in \<open>auto split: sum.splits
         intro: upsert_domains_ok remove_non_primary_domains_ok set_record_status_domains_ok\<close>)
qed

lemma seed_rows_props:
  "distinct (map (\<lambda>r. before CHR '':'' (d_name r)) (seed_rows seen recs))
   \<and> (\<forall>r \<in> set (seed_rows seen recs). \<not> d_is_primary r \<and> before CHR '':'' (d_name r) \<notin> seen)
   \<and> (\<lambda>r. before CHR '':'' (d_name r)) ` set (seed_rows seen recs) \<union> seen
      = (\<lambda>r. before CHR '':'' (d_name r)) ` set recs \<union> seen"
proof (induction recs arbitrary: seen)
  case Nil
  then show ?case by simp
next
  case (Cons rec recs)
  show ?case
    using Cons [of seen] Cons [of "insert (before CHR '':'' (d_name rec)) seen"]
    by (auto simp: Let_def)
qed

section \<open>Properties\<close>

text \<open>the domain a host is matched to owns the host, and every other configured domain that owns it
  is the matched one or a parent of it; without a match no configured domain owns the host.\<close>

theorem domain_match_most_specific:
  "case domain_match db host of
     None \<Rightarrow> \<forall>d \<in> set (effective_domains db). \<not> owns d host
   | Some d \<Rightarrow> d \<in> set (effective_domains db) \<and> owns d host
       \<and> (\<forall>e \<in> set (effective_domains db). owns e host \<longrightarrow> suffix (name_no_port e) (name_no_port d))"
  using match_loop_None [of host None "effective_domains db"] match_loop_Some [of host None "effective_domains db"]
    owners_nested [of _ host]
  by (auto simp: domain_match_def split: option.splits)

definition example_domains :: "domain_row list" where
  "example_domains =
     [\<lparr>d_name = ''example.com'', d_tls = True, d_mdns = False, d_is_primary = True,
       d_cert_status = CertActive, d_error_message = None\<rparr>,
      \<lparr>d_name = ''host.example.com'', d_tls = True, d_mdns = False, d_is_primary = False,
       d_cert_status = CertNone, d_error_message = None\<rparr>]"

definition example_ddb :: database where
  "example_ddb = example_db\<lparr>t_domains := example_domains\<rparr>"

lemma example_match:
  "domain_match example_ddb ''Notes.Host.Example.com:8443'' = Some (mk_domain ''host.example.com'' True False)"
  by code_simp

theorem domain_match_most_specific_witness:
  "owns (mk_domain ''host.example.com'' True False) ''Notes.Host.Example.com:8443''
   \<and> suffix (name_no_port (mk_domain ''example.com'' True False)) (name_no_port (mk_domain ''host.example.com'' True False))"
proof -
  have "mk_domain ''example.com'' True False \<in> set (effective_domains example_ddb)"
    "owns (mk_domain ''example.com'' True False) ''Notes.Host.Example.com:8443''"
    by code_simp+
  then show ?thesis
    using domain_match_most_specific [of example_ddb "''Notes.Host.Example.com:8443''"]
    by (simp add: example_match)
qed

text \<open>\<open>set_primary_domain\<close> is all or nothing.  It keeps exactly one primary domain; when it raises or
  reports no change the database is untouched; when it reports a change the named domain was not
  primary, no app was busy, it is the primary now, and every running app, and every failed app that
  still has a container, is handed to startup recovery as \<open>starting\<close>.\<close>

theorem set_primary_domain_atomic:
  assumes "domains_ok db" and "set_primary_domain name db = (r, db')"
  shows "domains_ok db' \<and>
    (case r of
       Inl _ \<Rightarrow> db' = db
     | Inr False \<Rightarrow> db' = db
     | Inr True \<Rightarrow> busy_apps db = [] \<and>
         (\<exists>t. get_record db name = Some t \<and> \<not> d_is_primary t \<and> primary_domain db' = Inr (to_domain t)) \<and>
         map a_app_id (t_apps db') = map a_app_id (t_apps db) \<and>
         (\<forall>a \<in> set (t_apps db'). a_status a \<in> {Starting, Stopped, Error}
            \<and> (a_status a = Starting \<longrightarrow> a_error_message a = Some PRIMARY_DOMAIN_RESTART_MARKER)
            \<and> (a_status a = Error \<longrightarrow> a_container_id a = None)))"
proof (cases "promote (lower (before CHR '':'' name)) db")
  case (Inl e)
  with assms show ?thesis by (auto simp: set_primary_domain_def)
next
  case (Inr bd)
  then obtain b where p: "promote (lower (before CHR '':'' name)) db = Inr (b, db')" and r: "r = Inr b"
    using assms(2) by (cases bd) (auto simp: set_primary_domain_def)
  have ok: "domains_ok db'"
    using p assms(1) by (rule promote_domains_ok)
  show ?thesis
  proof (cases b)
    case False
    with p have "db' = db"
      by (auto simp: promote_def Let_def split: option.splits if_splits prod.splits)
    with False r assms(1) show ?thesis by simp
  next
    case True
    have p': "promote (lower (before CHR '':'' name)) db = Inr (True, db')"
      using p True by simp
    obtain t where t: "get_record db name = Some t" "\<not> d_is_primary t" "busy_apps db = []"
      "t_domains db' = map (\<lambda>r. r\<lparr>d_is_primary := (d_name r = d_name t)\<rparr>) (t_domains db)"
      "t_apps db' = map (\<lambda>r. if a_status r = Running \<or> (a_status r = Error \<and> a_container_id r \<noteq> None)
        then r\<lparr>a_status := Starting, a_error_message := Some PRIMARY_DOMAIN_RESTART_MARKER\<rparr> else r) (t_apps db)"
      by (rule promote_True [OF p' assms(1), unfolded get_record_normal])
    have "primary_domain db' = Inr (to_domain t)"
      using find_flagged [of "t_domains db" t] t(4) assms(1) get_record_Some [OF t(1)]
      by (simp add: primary_domain_def primary_domain_or_none_def to_domain_def domains_ok_def)
    moreover have idle: "a_status a \<notin> {Building, Starting, Removing}" if "a \<in> set (t_apps db)" for a
    proof
      assume "a_status a \<in> {Building, Starting, Removing}"
      with that have "a_name a \<in> set (busy_apps db)"
        by (simp add: busy_apps_def)
      with t(3) show False by simp
    qed
    moreover have "map a_app_id (t_apps db') = map a_app_id (t_apps db)"
      unfolding t(5) by (rule map_if_key) simp
    moreover have "a_status a \<in> {Starting, Stopped, Error}
        \<and> (a_status a = Starting \<longrightarrow> a_error_message a = Some PRIMARY_DOMAIN_RESTART_MARKER)
        \<and> (a_status a = Error \<longrightarrow> a_container_id a = None)" if "a \<in> set (t_apps db')" for a
    proof -
      from that t(5) obtain x where x: "x \<in> set (t_apps db)" and
        a: "a = (if a_status x = Running \<or> (a_status x = Error \<and> a_container_id x \<noteq> None)
          then x\<lparr>a_status := Starting, a_error_message := Some PRIMARY_DOMAIN_RESTART_MARKER\<rparr> else x)"
        by auto
      from idle [OF x] a show ?thesis
        by (cases "a_status x") auto
    qed
    ultimately show ?thesis
      using True r ok t(1-3) by simp
  qed
qed

lemma example_ddb_ok: "domains_ok example_ddb"
  by (simp add: domains_ok_def one_primary_def example_ddb_def example_domains_def)

theorem set_primary_domain_atomic_witness:
  "domains_ok (snd (set_primary_domain ''Host.example.com'' example_ddb))
   \<and> list_all (\<lambda>a. a_error_message a = Some PRIMARY_DOMAIN_RESTART_MARKER)
        (t_apps (snd (set_primary_domain ''Host.example.com'' example_ddb)))"
proof -
  let ?r = "set_primary_domain ''Host.example.com'' example_ddb"
  have 1: "fst ?r = Inr True"
    by code_simp
  have 2: "map a_status (t_apps (snd ?r)) = [Starting]"
    by code_simp
  have "?r = (Inr True, snd ?r)"
    using 1 by (metis prod.collapse)
  note spec = set_primary_domain_atomic [OF example_ddb_ok this]
  have "a_status a = Starting" if "a \<in> set (t_apps (snd ?r))" for a
  proof -
    from that have "a_status a \<in> set (map a_status (t_apps (snd ?r)))"
      by (simp only: set_map imageI)
    then show ?thesis by (simp only: 2) simp
  qed
  with spec show ?thesis by (simp add: list_all_iff)
qed

text \<open>whatever sequence of table operations the API and the certificate tasks run, refused ones
  included, exactly one domain stays primary and no name is stored twice.\<close>

theorem domain_ops_keep_one_primary:
  assumes "domains_ok db"
  shows "distinct (map d_name (t_domains (fold domain_step ops db)))
    \<and> (\<exists>!r. r \<in> set (t_domains (fold domain_step ops db)) \<and> d_is_primary r)"
proof -
  have ok: "domains_ok (fold domain_step ops db)"
    using assms by (rule domain_machine.run_inv)
  then obtain p where "p \<in> set (t_domains (fold domain_step ops db))" "d_is_primary p"
    "\<And>r. r \<in> set (t_domains (fold domain_step ops db)) \<Longrightarrow> d_is_primary r \<longleftrightarrow> d_name r = d_name p"
    by (elim find_primary) blast
  with ok show ?thesis
    by (metis (no_types, lifting) distinct_map_inj domains_ok_def)
qed

theorem domain_ops_keep_one_primary_witness:
  "\<exists>!r. r \<in> set (t_domains (fold domain_step [SetPrimary ''host.example.com'', RemoveNonPrimary ''example.com'']
      example_ddb)) \<and> d_is_primary r"
  using domain_ops_keep_one_primary [OF example_ddb_ok] by blast

text \<open>first-boot seeding of an empty table installs the given primary as the only primary, keeps one
  row per host for the extras, and a second seeding changes nothing.\<close>

theorem seed_domains_once:
  assumes "t_domains db = []" and "seed_domains (mk_domain name tls mdns) extras db = (b, db')"
  shows "b \<and> domains_ok db' \<and> primary_domain db' = Inr (mk_domain name tls mdns)
    \<and> distinct (map (\<lambda>r. before CHR '':'' (d_name r)) (t_domains db'))
    \<and> (\<forall>rec \<in> set extras. \<exists>r \<in> set (t_domains db'). before CHR '':'' (d_name r) = before CHR '':'' (d_name rec))
    \<and> seed_domains other others db' = (False, db')"
proof -
  let ?h = "\<lambda>r. before CHR '':'' (d_name r)"
  let ?p = "\<lparr>d_name = lower name, d_tls = tls, d_mdns = mdns, d_is_primary = True,
      d_cert_status = CertNone, d_error_message = None\<rparr>"
  let ?rest = "seed_rows {before CHR '':'' (lower name)} extras"
  have rows: "b" "t_domains db' = ?p # ?rest"
    using assms by (auto simp: seed_domains_def mk_domain_def name_no_port_def)
  have np: "\<forall>r \<in> set ?rest. \<not> d_is_primary r"
    using seed_rows_props by blast
  have dh: "distinct (map ?h (?p # ?rest))"
    using seed_rows_props [of "{before CHR '':'' (lower name)}" extras] by auto
  then have "distinct (map (before CHR '':'') (map d_name (?p # ?rest)))"
    by (simp add: comp_def del: before_colon_lower)
  then have "distinct (map d_name (?p # ?rest))"
    using distinct_map by blast
  then have "domains_ok db'"
    using rows np by (auto simp: domains_ok_def one_primary_def)
  moreover have "primary_domain db' = Inr (mk_domain name tls mdns)"
    using rows by (simp add: primary_domain_def primary_domain_or_none_def to_domain_def mk_domain_def)
  moreover have "\<forall>rec \<in> set extras. \<exists>r \<in> set (?p # ?rest). ?h r = ?h rec"
  proof
    fix rec
    assume "rec \<in> set extras"
    then have "?h rec \<in> ?h ` set ?rest \<union> {before CHR '':'' (lower name)}"
      using seed_rows_props [of "{before CHR '':'' (lower name)}" extras] by blast
    then show "\<exists>r \<in> set (?p # ?rest). ?h r = ?h rec"
      by auto
  qed
  ultimately show ?thesis
    using rows dh by (simp add: seed_domains_def del: before_colon_lower)
qed

theorem seed_domains_once_witness:
  "domains_ok (snd (seed_domains (mk_domain ''Example.com:8080'' True False) example_domains example_db))"
  using seed_domains_once [of example_db "''Example.com:8080''" True False example_domains]
  by (cases "seed_domains (mk_domain ''Example.com:8080'' True False) example_domains example_db")
    (auto simp: sample_defs)

end
