(* ===== verification/Manifest.thy ===== *)
theory Manifest
  imports Regex Ports
begin

text \<open>
  \<open>core/manifest.py\<close>: parsing and validating an app manifest, and the differences between two
  manifests that an update must show the owner.  The TOML reader, the \<open>packaging\<close> version classes,
  \<open>cattrs\<close> and Python's \<open>str()\<close> on arbitrary values are parameters (\<open>libs\<close>); fields the code copies
  without a check stay dynamically typed.  Log lines are left out, and so are the values Python
  interpolates into the text of an error with \<open>repr\<close>.
\<close>

section \<open>Parameters\<close>

text \<open>
  \<open>parse_version\<close> is \<open>packaging.version.Version\<close> (\<open>None\<close>: \<open>InvalidVersion\<close>), \<open>parse_spec\<close> is
  \<open>SpecifierSet\<close> (a \<open>ValueError\<close> is \<open>InvalidSpecifier\<close>) with its membership test, and
  \<open>structure_provides\<close> gives the three strings \<open>cattrs\<close> structures.
\<close>

record 'v libs =
  toml_loads :: "string \<Rightarrow> pyval result"
  parse_float :: "string \<Rightarrow> rat result"
  parse_version :: "string \<Rightarrow> 'v option"
  parse_spec :: "pyval \<Rightarrow> ('v \<Rightarrow> bool) result"
  structure_provides :: "pyval \<Rightarrow> (string \<times> string \<times> string) result"
  py_str :: "pyval \<Rightarrow> string"
  json_text :: "pyval \<Rightarrow> string"

record filesystem =
  path_exists :: "string \<Rightarrow> bool"
  is_dir :: "string \<Rightarrow> bool"
  is_file :: "string \<Rightarrow> bool"
  read_utf8 :: "string \<Rightarrow> string result"

definition path_join :: "string \<Rightarrow> string \<Rightarrow> string" where
  "path_join a b =
     (if prefix ''/'' b then b
      else if a = [] \<or> suffix ''/'' a then a @ b
      else a @ ''/'' @ b)"

definition value_error :: "string \<Rightarrow> 'a result" where
  "value_error m = Inl (Exn ValueError m)"

section \<open>Constants\<close>

definition MANIFEST_FILENAMES :: "string list" where
  "MANIFEST_FILENAMES = [''cloudinabottle.toml'', ''openhost.toml'']"

definition SHORTNAME_RE :: rx where
  "SHORTNAME_RE = Seq (Sym is_lower_alpha)
     (upto_copies 31 (Sym (\<lambda>c. is_lower_alpha c \<or> is_digit c \<or> c = CHR ''_'' \<or> c = CHR ''-'')))"

definition UNPRIVILEGED_PORT_FLOOR :: int where
  "UNPRIVILEGED_PORT_FLOOR = 25"

definition SAFE_CAPABILITIES :: "string set" where
  "SAFE_CAPABILITIES = {''NET_ADMIN'', ''NET_RAW'', ''NET_BIND_SERVICE'', ''NET_BROADCAST'',
     ''CHOWN'', ''DAC_OVERRIDE'', ''DAC_READ_SEARCH'', ''FOWNER'', ''FSETID'', ''SETFCAP'',
     ''KILL'', ''SETUID'', ''SETGID'', ''SETPCAP'', ''MKNOD'', ''AUDIT_WRITE'',
     ''IPC_LOCK'', ''IPC_OWNER'', ''SYS_CHROOT''}"

definition SAFE_DEVICE_PATHS :: "string set" where
  "SAFE_DEVICE_PATHS = {''/dev/net/tun'', ''/dev/fuse''}
     \<union> set [''/dev/ttyS'' @ show_nat i. i \<leftarrow> [0..<8]]
     \<union> set [''/dev/ttyUSB'' @ show_nat i. i \<leftarrow> [0..<8]]
     \<union> set [''/dev/ttyACM'' @ show_nat i. i \<leftarrow> [0..<8]]"

definition rstrip_slash :: "string \<Rightarrow> string" where
  "rstrip_slash s = rstrip_if (\<lambda>c. c = CHR ''/'') s"

definition normalize_service_url :: "string \<Rightarrow> string" where
  "normalize_service_url url = rstrip_slash (removeprefix ''http://'' (removeprefix ''https://'' url))"

section \<open>The manifest\<close>

record app_link =
  al_name :: string
  al_path :: string

record service_provides =
  sv_service :: string
  sv_version :: string
  sv_endpoint :: string

record service_consumes =
  sc_service :: string
  sc_shortname :: string
  sc_version :: pyval
  sc_grants :: "pyval list"

record app_manifest =
  m_name :: pyval
  m_version :: pyval
  m_description :: pyval
  m_authors :: pyval
  m_runtime_type :: pyval
  m_container_image :: pyval
  m_container_port :: pyval
  m_container_command :: pyval
  m_port_mappings :: "port_mapping list"
  m_capabilities :: "string list"
  m_devices :: "string list"
  m_shm_mb :: int
  m_network_host :: pyval
  m_health_check :: pyval
  m_public_paths :: pyval
  m_links :: "app_link list"
  m_memory_mb :: pyval
  m_build_memory_mb :: pyval
  m_cpu_cores :: rat
  m_gpu :: pyval
  m_sqlite_dbs :: pyval
  m_app_data :: pyval
  m_app_temp_data :: pyval
  m_app_archive :: pyval
  m_access_all_app_data :: pyval
  m_provides :: "service_provides list"
  m_consumes :: "service_consumes list"
  m_hidden :: pyval
  m_raw_toml :: string

definition effective_build_memory_mb :: "app_manifest \<Rightarrow> pyval" where
  "effective_build_memory_mb m = (if m_build_memory_mb m \<noteq> VNone then m_build_memory_mb m else m_memory_mb m)"

section \<open>Container settings\<close>

definition validate_device :: "pyval \<Rightarrow> string result" where
  "validate_device entry =
     (case entry of
        VStr s \<Rightarrow>
          (if strip (before CHR '':'' s) \<notin> SAFE_DEVICE_PATHS
           then value_error ''[runtime.container].devices entry is not in the allowlist.''
           else Inr s)
      | v \<Rightarrow> value_error (''[runtime.container].devices must contain strings, got '' @ type_name v))"

definition validate_devices :: "pyval \<Rightarrow> string list result" where
  "validate_devices devices =
     (case devices of
        VList entries \<Rightarrow> rmap validate_device entries
      | _ \<Rightarrow> value_error ''[runtime.container].devices must be a list of strings'')"

definition validate_capability :: "pyval \<Rightarrow> string result" where
  "validate_capability entry =
     (case entry of
        VStr s \<Rightarrow>
          (let name = upper (strip s);
               name = (if prefix ''CAP_'' name then drop 4 name else name)
           in if name \<notin> SAFE_CAPABILITIES
              then value_error ''[runtime.container].capabilities entry is not safe to grant under rootless podman.''
              else Inr name)
      | v \<Rightarrow> value_error (''[runtime.container].capabilities must contain strings, got '' @ type_name v))"

definition validate_capabilities :: "pyval \<Rightarrow> string list result" where
  "validate_capabilities caps =
     (case caps of
        VList entries \<Rightarrow> rmap validate_capability entries
      | _ \<Rightarrow> value_error ''[runtime.container].capabilities must be a list of strings'')"

section \<open>Ports and links\<close>

text \<open>One round of the loop of \<open>_parse_ports\<close>, over the three \<open>seen\<close> sets and the result so far.\<close>

record ports_state =
  seen_labels :: "string set"
  seen_container_ports :: "int set"
  seen_host_ports :: "int set"
  ports_result :: "port_mapping list"

definition parse_port :: "pyval \<Rightarrow> ports_state \<Rightarrow> ports_state result" where
  "parse_port entry st =
     (case entry of
        VDict kvs \<Rightarrow>
          (case map_of kvs ''label'' of
             Some (VStr label) \<Rightarrow>
               (if label = [] then value_error (''Each [[ports]] entry requires a string '' @ squote ''label'')
                else if label \<in> seen_labels st then value_error (''Duplicate port label: '' @ squote label)
                else case map_option as_int (map_of kvs ''container_port'') of
                  Some (Some cport) \<Rightarrow>
                    (if cport < 0
                     then value_error (''[[ports]] '' @ squote label @ '' requires a non-negative integer '' @ squote ''container_port'')
                     else if cport \<in> seen_container_ports st
                     then value_error (''Duplicate container_port '' @ show_int cport @ '' in [[ports]]'')
                     else case as_int (case map_of kvs ''host_port'' of None \<Rightarrow> VInt 0 | Some v \<Rightarrow> v) of
                       None \<Rightarrow> value_error (''[[ports]] '' @ squote label @ '' host_port must be a non-negative integer'')
                     | Some hport \<Rightarrow>
                         (if hport < 0
                          then value_error (''[[ports]] '' @ squote label @ '' host_port must be a non-negative integer'')
                          else if hport \<noteq> 0 \<and> hport < UNPRIVILEGED_PORT_FLOOR
                          then value_error (''[[ports]] '' @ squote label @ '' host_port '' @ show_int hport
                                 @ '' is below the unprivileged port floor (25); ''
                                 @ ''rootless podman cannot bind to it. Use a port >= 25 or route through the Cloud in a Bottle proxy.'')
                          else if hport \<noteq> 0 \<and> hport \<in> seen_host_ports st
                          then value_error (''Duplicate host_port '' @ show_int hport @ '' in [[ports]]'')
                          else Inr \<lparr>seen_labels = insert label (seen_labels st),
                                 seen_container_ports = insert cport (seen_container_ports st),
                                 seen_host_ports = (if hport \<noteq> 0 then insert hport (seen_host_ports st)
                                                    else seen_host_ports st),
                                 ports_result = ports_result st @
                                   [\<lparr>pm_label = label, pm_container_port = cport, pm_host_port = hport\<rparr>]\<rparr>))
                | _ \<Rightarrow> value_error (''[[ports]] '' @ squote label @ '' requires a non-negative integer '' @ squote ''container_port''))
           | _ \<Rightarrow> value_error (''Each [[ports]] entry requires a string '' @ squote ''label''))
      | _ \<Rightarrow> value_error ''Each [[ports]] entry must be a table'')"

fun parse_ports_loop :: "pyval list \<Rightarrow> ports_state \<Rightarrow> ports_state result" where
  "parse_ports_loop [] st = Inr st"
| "parse_ports_loop (entry # entries) st = rbind (parse_port entry st) (parse_ports_loop entries)"

definition parse_ports :: "pyval \<Rightarrow> port_mapping list result" where
  "parse_ports ports_list =
     rbind (iter_elems ports_list) (\<lambda>entries.
     rbind (parse_ports_loop entries
       \<lparr>seen_labels = {}, seen_container_ports = {}, seen_host_ports = {}, ports_result = []\<rparr>) (\<lambda>st.
     Inr (ports_result st)))"

text \<open>\<open>not v or not isinstance(v, str)\<close> in the negative: a non-empty string.\<close>

fun nonempty_str :: "pyval option \<Rightarrow> string option" where
  "nonempty_str (Some (VStr s)) = (if s = [] then None else Some s)"
| "nonempty_str _ = None"

definition parse_link :: "pyval \<Rightarrow> app_link result" where
  "parse_link entry =
     (case entry of
        VDict kvs \<Rightarrow>
          (case nonempty_str (map_of kvs ''name'') of
             None \<Rightarrow> value_error (''Each [[links]] entry requires a non-empty string '' @ squote ''name'')
           | Some name \<Rightarrow>
               (case nonempty_str (map_of kvs ''path'') of
                  None \<Rightarrow> value_error (''[[links]] '' @ squote name @ '' requires a non-empty string '' @ squote ''path'')
                | Some path \<Rightarrow> Inr \<lparr>al_name = name, al_path = path\<rparr>))
      | _ \<Rightarrow> value_error ''Each [[links]] entry must be a table'')"

definition parse_links :: "pyval \<Rightarrow> app_link list result" where
  "parse_links links_list =
     (case links_list of
        VList entries \<Rightarrow> rmap parse_link entries
      | _ \<Rightarrow> value_error ''[[links]] must be a list of tables'')"

definition parse_cpu_cores :: "'v libs \<Rightarrow> pyval \<Rightarrow> rat result" where
  "parse_cpu_cores L resources =
     rbind (key_in ''cpu_cores'' resources) (\<lambda>has_cores.
     if has_cores then rbind (dict_get resources ''cpu_cores'' VNone) (to_float (parse_float L))
     else rbind (key_in ''cpu_millicores'' resources) (\<lambda>has_millis.
       if has_millis
       then rbind (dict_get resources ''cpu_millicores'' VNone) (\<lambda>v.
            rbind (to_float (parse_float L) v) (\<lambda>r. Inr (r / 1000)))
       else Inr (1 / 10)))"

section \<open>Services\<close>

text \<open>\<open>data.get("services", {}).get("v2", {}).get(key, [])\<close>.\<close>

definition services_v2_entries :: "string \<Rightarrow> pyval \<Rightarrow> pyval result" where
  "services_v2_entries key data =
     rbind (dict_get data ''services'' (VDict [])) (\<lambda>services.
     rbind (dict_get services ''v2'' (VDict [])) (\<lambda>v2.
     dict_get v2 key (VList [])))"

text \<open>
  \<open>_structure_list\<close> turns the errors of \<open>cattrs\<close> and the \<open>TypeError\<close> of a value that cannot be iterated
  into a \<open>ValueError\<close>; the attrs converter then normalises the service url.
\<close>

definition structure_provides_list :: "'v libs \<Rightarrow> pyval \<Rightarrow> service_provides list result" where
  "structure_provides_list L entries =
     (case rbind (iter_elems entries) (rmap (structure_provides L)) of
        Inl e \<Rightarrow> value_error (''Invalid [[services.v2.provides]]: '' @ exn_text e)
      | Inr rows \<Rightarrow> Inr (map (\<lambda>(service, version, endpoint).
          \<lparr>sv_service = normalize_service_url service, sv_version = version, sv_endpoint = endpoint\<rparr>) rows))"

definition parse_services_v2 :: "'v libs \<Rightarrow> pyval \<Rightarrow> service_provides list result" where
  "parse_services_v2 L data =
     rbind (services_v2_entries ''provides'' data) (\<lambda>entries.
     rbind (structure_provides_list L entries) (\<lambda>provides.
     rmap (\<lambda>p. if parse_version L (sv_version p) = None
               then value_error (''Invalid [[services.v2.provides]] version '' @ squote (sv_version p)
                      @ '' for service '' @ squote (sv_service p))
               else Inr p) provides))"

text \<open>One entry of \<open>[[services.v2.consumes]]\<close>, given the short names seen so far.\<close>

definition consumes_grants :: "pyval \<Rightarrow> pyval list result" where
  "consumes_grants grants_raw =
     (case grants_raw of
        VList gs \<Rightarrow> rmap (\<lambda>g. case g of VStr _ \<Rightarrow> Inr g | VDict _ \<Rightarrow> Inr g | VList _ \<Rightarrow> Inr g
            | _ \<Rightarrow> value_error (''[[services.v2.consumes]] grant entry must be a string, table, or array, got ''
                   @ type_name g)) gs
      | _ \<Rightarrow> value_error ''[[services.v2.consumes]] grants must be a list'')"

definition missing_field :: "string \<Rightarrow> 'a result" where
  "missing_field f = value_error (''Invalid [[services.v2.consumes]] entry: missing required field '' @ squote f)"

text \<open>The checks on an entry whose required fields are present, from the short name's pattern on.\<close>

definition check_consumes_entry ::
    "'v libs \<Rightarrow> pyval \<Rightarrow> pyval \<Rightarrow> pyval \<Rightarrow> pyval list \<Rightarrow> string set \<Rightarrow> service_consumes result" where
  "check_consumes_entry L service shortname version grants seen_shortnames =
     (case service of
        VStr url \<Rightarrow>
          (case shortname of
             VStr sn \<Rightarrow>
               (if \<not> re_match_anchored SHORTNAME_RE sn
                then value_error (''Invalid [[services.v2.consumes]] shortname '' @ squote sn)
                else if sn \<in> seen_shortnames
                then value_error (''Duplicate [[services.v2.consumes]] shortname '' @ squote sn)
                else case parse_spec L version of
                  Inl e \<Rightarrow> if is_value_error e
                    then value_error (''Invalid [[services.v2.consumes]] version specifier for shortname '' @ squote sn)
                    else Inl e
                | Inr _ \<Rightarrow> Inr \<lparr>sc_service = normalize_service_url url, sc_shortname = sn,
                                sc_version = version, sc_grants = grants\<rparr>)
           | _ \<Rightarrow> Inl (Exn TypeError ''expected string or bytes-like object''))
      | v \<Rightarrow> Inl (no_attribute v ''removeprefix''))"

definition parse_consumes_entry :: "'v libs \<Rightarrow> pyval \<Rightarrow> string set \<Rightarrow> service_consumes result" where
  "parse_consumes_entry L entry seen_shortnames =
     (case entry of
        VDict kvs \<Rightarrow>
          (case (map_of kvs ''service'', map_of kvs ''shortname'', map_of kvs ''version'') of
             (None, _, _) \<Rightarrow> missing_field ''service''
           | (Some _, None, _) \<Rightarrow> missing_field ''shortname''
           | (Some _, Some _, None) \<Rightarrow> missing_field ''version''
           | (Some service, Some shortname, Some version) \<Rightarrow>
               rbind (consumes_grants (case map_of kvs ''grants'' of None \<Rightarrow> VList [] | Some g \<Rightarrow> g)) (\<lambda>grants.
               check_consumes_entry L service shortname version grants seen_shortnames))
      | v \<Rightarrow> value_error (''Invalid [[services.v2.consumes]] entry: must be a table, got '' @ type_name v))"

fun parse_consumes_loop ::
    "'v libs \<Rightarrow> string set \<Rightarrow> service_consumes list \<Rightarrow> pyval list \<Rightarrow> service_consumes list result" where
  "parse_consumes_loop L seen perms [] = Inr perms"
| "parse_consumes_loop L seen perms (entry # entries) =
     rbind (parse_consumes_entry L entry seen) (\<lambda>p.
       parse_consumes_loop L (insert (sc_shortname p) seen) (perms @ [p]) entries)"

definition parse_services_v2_consumes :: "'v libs \<Rightarrow> pyval \<Rightarrow> service_consumes list result" where
  "parse_services_v2_consumes L data =
     rbind (services_v2_entries ''consumes'' data) (\<lambda>raw_entries.
     rbind (iter_elems raw_entries) (parse_consumes_loop L {} []))"

section \<open>The whole manifest\<close>

text \<open>Python's \<open>a or b\<close>.\<close>

definition py_or :: "pyval \<Rightarrow> pyval \<Rightarrow> pyval" where
  "py_or a b = (if truthy a then a else b)"

definition require_truthy :: "pyval \<Rightarrow> string \<Rightarrow> string \<Rightarrow> pyval result" where
  "require_truthy d key message =
     rbind (dict_get d key VNone) (\<lambda>v. if \<not> truthy v then value_error message else Inr v)"

definition parse_shm_mb :: "pyval \<Rightarrow> int result" where
  "parse_shm_mb container =
     rbind (dict_get container ''shm_mb'' (VInt 0)) (\<lambda>v.
     case as_int v of
       None \<Rightarrow> value_error ''[runtime.container].shm_mb must be a non-negative integer''
     | Some n \<Rightarrow> if n < 0 then value_error ''[runtime.container].shm_mb must be a non-negative integer'' else Inr n)"

definition parse_manifest_data :: "'v libs \<Rightarrow> string \<Rightarrow> pyval \<Rightarrow> app_manifest result" where
  "parse_manifest_data L raw_text data =
     rbind (dict_get data ''app'' (VDict [])) (\<lambda>app_section.
     rbind (require_truthy app_section ''name'' ''Manifest missing required [app].name'') (\<lambda>name.
     rbind (require_truthy app_section ''version'' ''Manifest missing required [app].version'') (\<lambda>version.
     rbind (dict_get data ''runtime'' (VDict [])) (\<lambda>runtime.
     rbind (dict_get runtime ''type'' (VStr ''serverfull'')) (\<lambda>runtime_type.
     if runtime_type \<noteq> VStr ''serverless'' \<and> runtime_type \<noteq> VStr ''serverfull''
     then value_error (''Invalid runtime type: '' @ py_str L runtime_type)
     else
     rbind (dict_get runtime ''container'' (VDict [])) (\<lambda>container.
     rbind (require_truthy container ''image'' ''[runtime.container].image is required'') (\<lambda>image.
     rbind (require_truthy container ''port'' ''[runtime.container].port is required'') (\<lambda>port.
     rbind (parse_shm_mb container) (\<lambda>shm_mb.
     rbind (dict_get data ''routing'' (VDict [])) (\<lambda>routing.
     rbind (dict_get data ''resources'' (VDict [])) (\<lambda>resources.
     rbind (dict_get data ''data'' (VDict [])) (\<lambda>data_section.
     rbind (key_in ''access_all_data'' data_section) (\<lambda>_.
     rbind (key_in ''access_all_archive'' data_section) (\<lambda>_.
     rbind (dict_get app_section ''description'' (VStr [])) (\<lambda>description.
     rbind (dict_get app_section ''authors'' (VList [])) (\<lambda>authors.
     rbind (dict_get app_section ''hidden'' (VBool False)) (\<lambda>hidden.
     rbind (dict_get container ''command'' VNone) (\<lambda>command.
     rbind (dict_get data ''ports'' (VList [])) (\<lambda>ports.
     rbind (parse_ports ports) (\<lambda>port_mappings.
     rbind (dict_get container ''capabilities'' (VList [])) (\<lambda>caps.
     rbind (validate_capabilities caps) (\<lambda>capabilities.
     rbind (dict_get container ''devices'' (VList [])) (\<lambda>devs.
     rbind (validate_devices devs) (\<lambda>devices.
     rbind (dict_get container ''network_host'' (VBool False)) (\<lambda>network_host.
     rbind (dict_get routing ''health_check'' VNone) (\<lambda>health_check.
     rbind (dict_get routing ''public_paths'' (VList [])) (\<lambda>public_paths.
     rbind (dict_get data ''links'' (VList [])) (\<lambda>links_raw.
     rbind (parse_links links_raw) (\<lambda>links.
     rbind (dict_get resources ''memory_mb'' (VInt 128)) (\<lambda>memory_mb.
     rbind (dict_get resources ''build_memory_mb'' VNone) (\<lambda>build_memory_mb.
     rbind (parse_cpu_cores L resources) (\<lambda>cpu_cores.
     rbind (dict_get resources ''gpu'' (VBool False)) (\<lambda>gpu.
     rbind (dict_get data_section ''sqlite'' (VList [])) (\<lambda>sqlite.
     rbind (dict_get data_section ''app_data'' (VBool True)) (\<lambda>app_data.
     rbind (dict_get data_section ''app_temp_data'' (VBool False)) (\<lambda>app_temp_data.
     rbind (dict_get data_section ''app_archive'' (VBool False)) (\<lambda>app_archive.
     rbind (dict_get data_section ''access_all_app_data'' (VBool False)) (\<lambda>all1.
     rbind (dict_get data_section ''access_all_data'' (VBool False)) (\<lambda>all2.
     rbind (dict_get data_section ''access_all_archive'' (VBool False)) (\<lambda>all3.
     rbind (parse_services_v2 L data) (\<lambda>provides.
     rbind (parse_services_v2_consumes L data) (\<lambda>consumes.
     Inr \<lparr>m_name = name, m_version = version, m_description = description, m_authors = authors,
          m_runtime_type = runtime_type, m_container_image = image, m_container_port = port,
          m_container_command = command, m_port_mappings = port_mappings, m_capabilities = capabilities,
          m_devices = devices, m_shm_mb = shm_mb, m_network_host = network_host,
          m_health_check = health_check, m_public_paths = public_paths, m_links = links,
          m_memory_mb = memory_mb, m_build_memory_mb = build_memory_mb, m_cpu_cores = cpu_cores,
          m_gpu = gpu, m_sqlite_dbs = sqlite, m_app_data = app_data, m_app_temp_data = app_temp_data,
          m_app_archive = app_archive, m_access_all_app_data = py_or (py_or all1 all2) all3,
          m_provides = provides, m_consumes = consumes, m_hidden = hidden, m_raw_toml = raw_text\<rparr>
     ))))))))))))))))))))))))))))))))))))))))))"

definition parse_manifest_from_string :: "'v libs \<Rightarrow> string \<Rightarrow> app_manifest result" where
  "parse_manifest_from_string L raw_text = rbind (toml_loads L raw_text) (parse_manifest_data L raw_text)"

definition find_manifest_path :: "filesystem \<Rightarrow> string \<Rightarrow> string option" where
  "find_manifest_path fs repo_path = find (path_exists fs) (map (path_join repo_path) MANIFEST_FILENAMES)"

definition parse_manifest :: "'v libs \<Rightarrow> filesystem \<Rightarrow> string \<Rightarrow> app_manifest result" where
  "parse_manifest L fs repo_path =
     (case find_manifest_path fs repo_path of
        None \<Rightarrow> value_error (''No cloudinabottle.toml found at '' @ path_join repo_path ''cloudinabottle.toml'')
      | Some path \<Rightarrow> rbind (read_utf8 fs path) (parse_manifest_from_string L))"

section \<open>Permission and settings differences\<close>

record permission_grant =
  pg_service_url :: string
  pg_grant :: pyval

definition all_manifest_permissions_v2 :: "app_manifest \<Rightarrow> permission_grant list" where
  "all_manifest_permissions_v2 m =
     [\<lparr>pg_service_url = sc_service perm, pg_grant = g\<rparr>. perm \<leftarrow> m_consumes m, g \<leftarrow> sc_grants perm]"

definition permission_key :: "string \<Rightarrow> pyval \<Rightarrow> string \<times> pyval" where
  "permission_key service_url grant_payload = (service_url, json_canon grant_payload)"

definition pg_key :: "permission_grant \<Rightarrow> string \<times> pyval" where
  "pg_key pg = permission_key (pg_service_url pg) (pg_grant pg)"

fun ungranted_loop :: "(string \<times> pyval) set \<Rightarrow> permission_grant list \<Rightarrow> permission_grant list" where
  "ungranted_loop seen [] = []"
| "ungranted_loop seen (pg # pgs) =
     (if pg_key pg \<in> seen then ungranted_loop seen pgs
      else pg # ungranted_loop (insert (pg_key pg) seen) pgs)"

text \<open>\<open>granted\<close> lists the \<open>(service_url, grant)\<close> pairs of the app's permission records.\<close>

definition manifest_ungranted_permissions_v2 ::
    "app_manifest \<Rightarrow> (string \<times> pyval) list \<Rightarrow> permission_grant list" where
  "manifest_ungranted_permissions_v2 m granted =
     ungranted_loop ((\<lambda>(url, g). permission_key url g) ` set granted) (all_manifest_permissions_v2 m)"

definition manifest_newly_declared_permissions_v2 ::
    "'v libs \<Rightarrow> app_manifest \<Rightarrow> (string \<times> pyval) list \<Rightarrow> string option \<Rightarrow> permission_grant list result" where
  "manifest_newly_declared_permissions_v2 L m granted previous_manifest_raw =
     (let ungranted = manifest_ungranted_permissions_v2 m granted
      in if \<not> str_truthy previous_manifest_raw then Inr ungranted
         else case parse_manifest_from_string L (the previous_manifest_raw) of
                Inl e \<Rightarrow> if is_value_error e then Inr ungranted else Inl e
              | Inr previous \<Rightarrow>
                  (let previously_declared = pg_key ` set (all_manifest_permissions_v2 previous)
                   in Inr (filter (\<lambda>pg. pg_key pg \<notin> previously_declared) ungranted)))"

text \<open>
  A setting is a value copied from the manifest, or a list of instances of an attrs class, each given by
  its \<open>attr.asdict\<close>.  \<open>old_val != new_val\<close> is Python's comparison, \<open>py_eq\<close>.
\<close>

datatype setting_value = Plain pyval | Objs "pyval list"

definition port_mapping_dict :: "port_mapping \<Rightarrow> pyval" where
  "port_mapping_dict pm = VDict [(''label'', VStr (pm_label pm)),
     (''container_port'', VInt (pm_container_port pm)), (''host_port'', VInt (pm_host_port pm))]"

definition app_link_dict :: "app_link \<Rightarrow> pyval" where
  "app_link_dict l = VDict [(''name'', VStr (al_name l)), (''path'', VStr (al_path l))]"

definition service_provides_dict :: "service_provides \<Rightarrow> pyval" where
  "service_provides_dict p = VDict [(''service'', VStr (sv_service p)),
     (''version'', VStr (sv_version p)), (''endpoint'', VStr (sv_endpoint p))]"

fun setting_eq :: "setting_value \<Rightarrow> setting_value \<Rightarrow> bool" where
  "setting_eq (Plain a) (Plain b) = py_eq a b"
| "setting_eq (Objs xs) (Objs ys) = py_eq (VList xs) (VList ys)"
| "setting_eq _ _ = False"

definition manifest_setting_labels :: "(string \<times> string \<times> (app_manifest \<Rightarrow> setting_value)) list" where
  "manifest_setting_labels = [
     (''App'', ''Version'', \<lambda>m. Plain (m_version m)),
     (''App'', ''Description'', \<lambda>m. Plain (m_description m)),
     (''App'', ''Authors'', \<lambda>m. Plain (m_authors m)),
     (''App'', ''Runtime type'', \<lambda>m. Plain (m_runtime_type m)),
     (''Container'', ''Image'', \<lambda>m. Plain (m_container_image m)),
     (''Container'', ''Container port'', \<lambda>m. Plain (m_container_port m)),
     (''Container'', ''Command'', \<lambda>m. Plain (m_container_command m)),
     (''Ports'', ''Port mappings'', \<lambda>m. Objs (map port_mapping_dict (m_port_mappings m))),
     (''Container'', ''Linux capabilities'', \<lambda>m. Plain (VList (map VStr (m_capabilities m)))),
     (''Container'', ''Devices'', \<lambda>m. Plain (VList (map VStr (m_devices m)))),
     (''Container'', ''Shared memory (MB)'', \<lambda>m. Plain (VInt (m_shm_mb m))),
     (''Container'', ''Host networking'', \<lambda>m. Plain (m_network_host m)),
     (''Routing'', ''Health check'', \<lambda>m. Plain (m_health_check m)),
     (''Routing'', ''Public paths'', \<lambda>m. Plain (m_public_paths m)),
     (''Routing'', ''Links'', \<lambda>m. Objs (map app_link_dict (m_links m))),
     (''Resources'', ''Memory (MB)'', \<lambda>m. Plain (m_memory_mb m)),
     (''Resources'', ''Build memory (MB)'', \<lambda>m. Plain (m_build_memory_mb m)),
     (''Resources'', ''CPU cores'', \<lambda>m. Plain (VFloat (m_cpu_cores m))),
     (''Resources'', ''GPU'', \<lambda>m. Plain (m_gpu m)),
     (''Data'', ''SQLite databases'', \<lambda>m. Plain (m_sqlite_dbs m)),
     (''Data'', ''Permanent data'', \<lambda>m. Plain (m_app_data m)),
     (''Data'', ''Temporary data'', \<lambda>m. Plain (m_app_temp_data m)),
     (''Data'', ''Archive data'', \<lambda>m. Plain (m_app_archive m)),
     (''Data'', ''Access all app data'', \<lambda>m. Plain (m_access_all_app_data m)),
     (''Services'', ''Services provided'', \<lambda>m. Objs (map service_provides_dict (m_provides m))),
     (''App'', ''Hidden'', \<lambda>m. Plain (m_hidden m))]"

fun render_value :: "'v libs \<Rightarrow> pyval \<Rightarrow> string" where
  "render_value L (VBool b) = (if b then ''yes'' else ''no'')"
| "render_value L (VList xs) = (if xs = [] then ''(none)'' else join '', '' (map (render_value L) xs))"
| "render_value L v = py_str L v"

fun render_setting_value :: "'v libs \<Rightarrow> setting_value \<Rightarrow> string" where
  "render_setting_value L (Plain v) = render_value L v"
| "render_setting_value L (Objs xs) = (if xs = [] then ''(none)'' else join '', '' (map (json_text L) xs))"

record setting_change =
  ch_group :: string
  ch_label :: string
  ch_old :: string
  ch_new :: string

definition manifest_settings_changes ::
    "'v libs \<Rightarrow> app_manifest \<Rightarrow> string option \<Rightarrow> setting_change list result" where
  "manifest_settings_changes L m previous_manifest_raw =
     (if \<not> str_truthy previous_manifest_raw then Inr []
      else case parse_manifest_from_string L (the previous_manifest_raw) of
        Inl e \<Rightarrow> if is_value_error e then Inr [] else Inl e
      | Inr previous \<Rightarrow> Inr [\<lparr>ch_group = grp, ch_label = lbl,
            ch_old = render_setting_value L (get previous), ch_new = render_setting_value L (get m)\<rparr>.
          (grp, lbl, get) \<leftarrow> manifest_setting_labels, \<not> setting_eq (get previous) (get m)])"

section \<open>What a parsed manifest guarantees\<close>

definition ports_ok :: "port_mapping list \<Rightarrow> bool" where
  "ports_ok pms = (distinct (map pm_label pms) \<and> distinct (map pm_container_port pms)
     \<and> distinct (filter (\<lambda>p. p \<noteq> 0) (map pm_host_port pms))
     \<and> (\<forall>pm \<in> set pms. pm_label pm \<noteq> [] \<and> 0 \<le> pm_container_port pm
          \<and> (pm_host_port pm = 0 \<or> UNPRIVILEGED_PORT_FLOOR \<le> pm_host_port pm)))"

definition manifest_ok :: "'v libs \<Rightarrow> app_manifest \<Rightarrow> bool" where
  "manifest_ok L m = (truthy (m_name m) \<and> truthy (m_version m) \<and> truthy (m_container_image m)
     \<and> truthy (m_container_port m) \<and> m_runtime_type m \<in> {VStr ''serverless'', VStr ''serverfull''}
     \<and> set (m_capabilities m) \<subseteq> SAFE_CAPABILITIES
     \<and> (\<forall>d \<in> set (m_devices m). strip (before CHR '':'' d) \<in> SAFE_DEVICE_PATHS)
     \<and> ports_ok (m_port_mappings m) \<and> 0 \<le> m_shm_mb m
     \<and> (\<forall>l \<in> set (m_links m). al_name l \<noteq> [] \<and> al_path l \<noteq> [])
     \<and> (\<forall>p \<in> set (m_provides m). parse_version L (sv_version p) \<noteq> None)
     \<and> distinct (map sc_shortname (m_consumes m))
     \<and> (\<forall>c \<in> set (m_consumes m). re_match_anchored SHORTNAME_RE (sc_shortname c)
          \<and> (\<exists>spec. parse_spec L (sc_version c) = Inr spec)))"

lemma validate_capability_safe: "validate_capability v = Inr c \<Longrightarrow> c \<in> SAFE_CAPABILITIES"
  by (auto simp: validate_capability_def value_error_def Let_def split: pyval.splits if_splits)

lemma validate_capabilities_safe: "validate_capabilities v = Inr cs \<Longrightarrow> set cs \<subseteq> SAFE_CAPABILITIES"
  by (auto simp: validate_capabilities_def value_error_def split: pyval.splits
      dest!: rmap_Inr_set dest: validate_capability_safe)

lemma validate_device_safe: "validate_device v = Inr d \<Longrightarrow> strip (before CHR '':'' d) \<in> SAFE_DEVICE_PATHS"
  by (auto simp: validate_device_def value_error_def split: pyval.splits if_splits)

lemma validate_devices_safe:
  "validate_devices v = Inr ds \<Longrightarrow> \<forall>d \<in> set ds. strip (before CHR '':'' d) \<in> SAFE_DEVICE_PATHS"
  by (auto simp: validate_devices_def value_error_def split: pyval.splits
      dest!: rmap_Inr_set dest: validate_device_safe)

lemma nonempty_str_Some: "nonempty_str v = Some s \<longleftrightarrow> v = Some (VStr s) \<and> s \<noteq> []"
  by (cases v rule: nonempty_str.cases) auto

lemma parse_link_ok: "parse_link v = Inr l \<Longrightarrow> al_name l \<noteq> [] \<and> al_path l \<noteq> []"
  by (auto simp: parse_link_def value_error_def nonempty_str_Some split: pyval.splits option.splits)

lemma parse_links_ok: "parse_links v = Inr ls \<Longrightarrow> \<forall>l \<in> set ls. al_name l \<noteq> [] \<and> al_path l \<noteq> []"
  by (auto simp: parse_links_def value_error_def split: pyval.splits dest!: rmap_Inr_set dest: parse_link_ok)

text \<open>The loop invariant of \<open>_parse_ports\<close>: the \<open>seen\<close> sets hold what the result uses.\<close>

definition ports_inv :: "ports_state \<Rightarrow> bool" where
  "ports_inv st = (ports_ok (ports_result st)
     \<and> seen_labels st = pm_label ` set (ports_result st)
     \<and> seen_container_ports st = pm_container_port ` set (ports_result st)
     \<and> seen_host_ports st = pm_host_port ` set (ports_result st) - {0})"

lemma ports_ok_snoc:
  "ports_ok (pms @ [pm]) \<longleftrightarrow> ports_ok pms \<and> pm_label pm \<notin> pm_label ` set pms
     \<and> pm_container_port pm \<notin> pm_container_port ` set pms
     \<and> (pm_host_port pm = 0 \<or> pm_host_port pm \<notin> pm_host_port ` set pms)
     \<and> pm_label pm \<noteq> [] \<and> 0 \<le> pm_container_port pm
     \<and> (pm_host_port pm = 0 \<or> UNPRIVILEGED_PORT_FLOOR \<le> pm_host_port pm)"
  by (auto simp: ports_ok_def)

lemma ports_ok_append: "ports_ok (pms @ pms') \<Longrightarrow> ports_ok pms"
  by (auto simp: ports_ok_def)

lemma parse_port_inv: "parse_port v st = Inr st' \<Longrightarrow> ports_inv st \<Longrightarrow> ports_inv st'"
  by (auto simp: parse_port_def value_error_def ports_inv_def ports_ok_snoc Let_def
      split: pyval.splits option.splits if_splits)

lemma parse_ports_loop_inv: "parse_ports_loop vs st = Inr st' \<Longrightarrow> ports_inv st \<Longrightarrow> ports_inv st'"
  by (induction vs arbitrary: st) (auto dest: parse_port_inv)

lemma ports_inv_start:
  "ports_inv \<lparr>seen_labels = {}, seen_container_ports = {}, seen_host_ports = {}, ports_result = []\<rparr>"
  by (simp add: ports_inv_def ports_ok_def)

lemma parse_ports_ok: "parse_ports v = Inr pms \<Longrightarrow> ports_ok pms"
  using ports_inv_start by (auto simp: parse_ports_def ports_inv_def dest!: parse_ports_loop_inv)

lemma parse_port_dict:
  assumes "ports_inv st" and "ports_ok (ports_result st @ [pm])"
  shows "\<exists>st'. parse_port (port_mapping_dict pm) st = Inr st' \<and> ports_result st' = ports_result st @ [pm]"
  using assms by (auto simp: parse_port_def port_mapping_dict_def ports_inv_def ports_ok_snoc UNPRIVILEGED_PORT_FLOOR_def)

lemma parse_ports_loop_dicts:
  "ports_inv st \<Longrightarrow> ports_ok (ports_result st @ pms) \<Longrightarrow>
   \<exists>st'. parse_ports_loop (map port_mapping_dict pms) st = Inr st' \<and> ports_result st' = ports_result st @ pms"
proof (induction pms arbitrary: st)
  case (Cons pm pms)
  then have "ports_ok (ports_result st @ [pm])"
    using ports_ok_append [of "ports_result st @ [pm]" pms] by simp
  from parse_port_dict [OF Cons.prems(1) this] obtain st1
    where s: "parse_port (port_mapping_dict pm) st = Inr st1" "ports_result st1 = ports_result st @ [pm]"
    by blast
  then show ?case
    using Cons.IH [of st1] Cons.prems parse_port_inv [OF s(1)] by simp
qed simp

section \<open>Services\<close>

lemma parse_services_v2_ok:
  "parse_services_v2 L data = Inr ps \<Longrightarrow> \<forall>p \<in> set ps. parse_version L (sv_version p) \<noteq> None"
  by (auto simp: parse_services_v2_def value_error_def dest!: rmap_Inr_set split: if_splits)

lemma check_consumes_entry_ok:
  "check_consumes_entry L service sn v gs seen = Inr c \<Longrightarrow> sc_shortname c \<notin> seen
     \<and> re_match_anchored SHORTNAME_RE (sc_shortname c) \<and> (\<exists>spec. parse_spec L (sc_version c) = Inr spec)"
  by (auto simp: check_consumes_entry_def value_error_def split: pyval.splits if_splits sum.splits)

lemma parse_consumes_entry_check:
  "parse_consumes_entry L v seen = Inr c \<Longrightarrow>
   \<exists>service sn ver gs. check_consumes_entry L service sn ver gs seen = Inr c"
  by (auto simp: parse_consumes_entry_def missing_field_def value_error_def
      split: pyval.splits option.splits if_splits)

lemma parse_consumes_entry_ok:
  "parse_consumes_entry L v seen = Inr c \<Longrightarrow> sc_shortname c \<notin> seen
     \<and> re_match_anchored SHORTNAME_RE (sc_shortname c) \<and> (\<exists>spec. parse_spec L (sc_version c) = Inr spec)"
  using parse_consumes_entry_check check_consumes_entry_ok by metis

definition consumes_ok :: "'v libs \<Rightarrow> service_consumes list \<Rightarrow> bool" where
  "consumes_ok L cs = (distinct (map sc_shortname cs) \<and> (\<forall>c \<in> set cs.
     re_match_anchored SHORTNAME_RE (sc_shortname c) \<and> (\<exists>spec. parse_spec L (sc_version c) = Inr spec)))"

lemma parse_consumes_loop_ok:
  "parse_consumes_loop L seen cs vs = Inr cs' \<Longrightarrow> consumes_ok L cs \<Longrightarrow> seen = sc_shortname ` set cs
     \<Longrightarrow> consumes_ok L cs'"
proof (induction vs arbitrary: seen cs)
  case (Cons v vs)
  from Cons.prems(1) obtain p where p: "parse_consumes_entry L v seen = Inr p"
      "parse_consumes_loop L (insert (sc_shortname p) seen) (cs @ [p]) vs = Inr cs'"
    by auto
  have "consumes_ok L (cs @ [p])"
    using Cons.prems parse_consumes_entry_ok [OF p(1)] by (auto simp: consumes_ok_def)
  then show ?case
    using Cons.IH [OF p(2)] Cons.prems(3) by simp
qed simp

lemma parse_services_v2_consumes_ok:
  assumes "parse_services_v2_consumes L data = Inr cs"
  shows "consumes_ok L cs"
proof -
  obtain vs where "parse_consumes_loop L {} [] vs = Inr cs"
    using assms by (auto simp: parse_services_v2_consumes_def)
  then show ?thesis
    by (rule parse_consumes_loop_ok) (simp_all add: consumes_ok_def)
qed

lemma require_truthy_ok: "require_truthy d k msg = Inr v \<Longrightarrow> truthy v"
  by (auto simp: require_truthy_def value_error_def split: if_splits)

lemma parse_shm_mb_ok: "parse_shm_mb c = Inr n \<Longrightarrow> 0 \<le> n"
  by (auto simp: parse_shm_mb_def value_error_def split: option.splits if_splits)

lemma parse_manifest_data_parts:
  assumes "parse_manifest_data L raw data = Inr m"
  shows "truthy (m_name m) \<and> truthy (m_version m) \<and> truthy (m_container_image m) \<and> truthy (m_container_port m)
    \<and> m_runtime_type m \<in> {VStr ''serverless'', VStr ''serverfull''} \<and> 0 \<le> m_shm_mb m
    \<and> (\<exists>v. validate_capabilities v = Inr (m_capabilities m)) \<and> (\<exists>v. validate_devices v = Inr (m_devices m))
    \<and> (\<exists>v. parse_ports v = Inr (m_port_mappings m)) \<and> (\<exists>v. parse_links v = Inr (m_links m))
    \<and> parse_services_v2 L data = Inr (m_provides m) \<and> parse_services_v2_consumes L data = Inr (m_consumes m)
    \<and> m_raw_toml m = raw"
  using assms unfolding parse_manifest_data_def value_error_def
  by (elim rbind_InrE if_InlE) (auto simp: require_truthy_ok parse_shm_mb_ok)

section \<open>Permission differences\<close>

lemma ungranted_loop_keys: "pg_key ` set (ungranted_loop seen pgs) = pg_key ` set pgs - seen"
proof (induction pgs arbitrary: seen)
  case (Cons pg pgs)
  show ?case
    by (cases "pg_key pg \<in> seen") (simp_all add: Cons.IH, blast+)
qed simp

lemma ungranted_loop_distinct: "distinct (map pg_key (ungranted_loop seen pgs))"
  by (induction pgs arbitrary: seen) (simp_all add: ungranted_loop_keys)

lemma ungranted_loop_subset: "set (ungranted_loop seen pgs) \<subseteq> set pgs"
  by (induction pgs arbitrary: seen) (simp_all add: subset_insertI2)

text \<open>What the update gate counts as declared by the deployed manifest: nothing if it cannot be read.\<close>

definition previously_declared :: "'v libs \<Rightarrow> string option \<Rightarrow> (string \<times> pyval) set" where
  "previously_declared L raw =
     (case raw of None \<Rightarrow> {}
      | Some s \<Rightarrow> if s = [] then {} else
          (case parse_manifest_from_string L s of Inl e \<Rightarrow> {}
           | Inr prev \<Rightarrow> pg_key ` set (all_manifest_permissions_v2 prev)))"

definition granted_keys :: "(string \<times> pyval) list \<Rightarrow> (string \<times> pyval) set" where
  "granted_keys granted = (\<lambda>(url, g). permission_key url g) ` set granted"

lemma ungranted_keys:
  "pg_key ` set (manifest_ungranted_permissions_v2 m granted)
     = pg_key ` set (all_manifest_permissions_v2 m) - granted_keys granted"
  unfolding manifest_ungranted_permissions_v2_def granted_keys_def by (rule ungranted_loop_keys)

lemma ungranted_distinct: "distinct (map pg_key (manifest_ungranted_permissions_v2 m granted))"
  unfolding manifest_ungranted_permissions_v2_def by (rule ungranted_loop_distinct)

lemma ungranted_subset:
  "set (manifest_ungranted_permissions_v2 m granted) \<subseteq> set (all_manifest_permissions_v2 m)"
  unfolding manifest_ungranted_permissions_v2_def by (rule ungranted_loop_subset)

lemma key_image_filter: "f ` set (filter (\<lambda>x. f x \<notin> B) xs) = f ` set xs - B"
  by auto

lemma newly_declared_filter:
  "manifest_newly_declared_permissions_v2 L m granted raw = Inr pgs \<Longrightarrow>
   pgs = filter (\<lambda>pg. pg_key pg \<notin> previously_declared L raw) (manifest_ungranted_permissions_v2 m granted)"
  by (auto simp: manifest_newly_declared_permissions_v2_def previously_declared_def str_truthy_def Let_def
      split: option.splits sum.splits if_splits)

section \<open>Example\<close>

text \<open>A complete small manifest and the libraries it needs, for the witnesses.\<close>

definition example_consumes :: "pyval" where
  "example_consumes = VDict [(''service'', VStr ''https://secrets.dev/''), (''shortname'', VStr ''secrets''),
     (''version'', VStr ''>=1.0''), (''grants'', VList [VStr ''read'', VDict [(''key'', VStr ''DB'')]])]"

definition example_data :: pyval where
  "example_data = VDict [(''app'', VDict [(''name'', VStr ''notes''), (''version'', VStr ''1.0'')]),
     (''runtime'', VDict [(''container'', VDict [(''image'', VStr ''Dockerfile''), (''port'', VInt 8080),
        (''capabilities'', VList [VStr ''cap_net_admin'']), (''devices'', VList [VStr ''/dev/fuse:/dev/fuse''])])]),
     (''ports'', VList [VDict [(''label'', VStr ''web''), (''container_port'', VInt 80), (''host_port'', VInt 9010)]]),
     (''services'', VDict [(''v2'', VDict [(''consumes'', VList [example_consumes])])])]"

definition example_old_data :: pyval where
  "example_old_data = VDict [(''app'', VDict [(''name'', VStr ''notes''), (''version'', VStr ''0.9'')]),
     (''runtime'', VDict [(''container'', VDict [(''image'', VStr ''Dockerfile''), (''port'', VInt 8080)])])]"

definition example_libs :: "string libs" where
  "example_libs = \<lparr>toml_loads = (\<lambda>s. if s = ''new'' then Inr example_data
       else if s = ''old'' then Inr example_old_data else value_error ''Invalid TOML''),
     parse_float = (\<lambda>s. value_error ''could not convert string to float''),
     parse_version = (\<lambda>s. if s = [] then None else Some s),
     parse_spec = (\<lambda>v. case v of VStr s \<Rightarrow> Inr (\<lambda>ver. True) | _ \<Rightarrow> value_error ''Invalid specifier''),
     structure_provides = (\<lambda>v. value_error ''not used''),
     py_str = type_name, json_text = type_name\<rparr>"

definition example_manifest :: "string \<Rightarrow> app_manifest" where
  "example_manifest s = projr (parse_manifest_from_string example_libs s)"

lemma example_parses:
  "isl (parse_manifest_from_string example_libs ''new'') = False"
  "isl (parse_manifest_from_string example_libs ''old'') = False"
  by code_simp+

lemma example_manifest:
  "parse_manifest_from_string example_libs ''new'' = Inr (example_manifest ''new'')"
  "parse_manifest_from_string example_libs ''old'' = Inr (example_manifest ''old'')"
  using example_parses by (simp_all add: example_manifest_def sum.collapse(2))

section \<open>Properties\<close>

lemma parsed_manifest_ok:
  assumes "parse_manifest_from_string L raw = Inr m"
  shows "manifest_ok L m \<and> m_raw_toml m = raw"
proof -
  obtain data where "parse_manifest_data L raw data = Inr m"
    using assms by (auto simp: parse_manifest_from_string_def)
  from parse_manifest_data_parts [OF this] show ?thesis
    unfolding manifest_ok_def
    by (auto simp: consumes_ok_def dest: validate_capabilities_safe validate_devices_safe parse_ports_ok
        parse_links_ok parse_services_v2_ok parse_services_v2_consumes_ok)
qed



text \<open>\<open>_parse_ports\<close> reads back exactly the port lists that keep the rules: the tables of a list of
  mappings parse to that list if and only if labels and container ports are distinct, fixed host ports are
  distinct and at least 25, labels are non-empty and container ports non-negative.\<close>

theorem parse_ports_roundtrip:
  "parse_ports (VList (map port_mapping_dict pms)) = Inr pms \<longleftrightarrow> ports_ok pms"
proof
  assume "ports_ok pms"
  then have "\<exists>st. parse_ports_loop (map port_mapping_dict pms)
      \<lparr>seen_labels = {}, seen_container_ports = {}, seen_host_ports = {}, ports_result = []\<rparr> = Inr st
      \<and> ports_result st = pms"
    using parse_ports_loop_dicts [OF ports_inv_start, of pms] by simp
  then show "parse_ports (VList (map port_mapping_dict pms)) = Inr pms"
    by (auto simp: parse_ports_def)
qed (rule parse_ports_ok)

text \<open>C12: The permissions an update must ask the owner about are exactly those the new manifest declares
  that are neither granted nor declared by the deployed manifest, each once: none is skipped, so an update
  cannot pick up a permission the owner has not seen, and a revoked permission that was declared before
  does not come back.\<close>

theorem newly_declared_exact:
  assumes "manifest_newly_declared_permissions_v2 L m granted raw = Inr pgs"
  shows "pg_key ` set pgs
      = pg_key ` set (all_manifest_permissions_v2 m) - granted_keys granted - previously_declared L raw
    \<and> distinct (map pg_key pgs) \<and> set pgs \<subseteq> set (all_manifest_permissions_v2 m)"
  using ungranted_distinct [of m granted] ungranted_subset [of m granted]
  unfolding newly_declared_filter [OF assms] key_image_filter ungranted_keys
  by (auto simp only: distinct_map_filter set_filter)

theorem newly_declared_exact_witness:
  "\<exists>pgs. manifest_newly_declared_permissions_v2 example_libs (example_manifest ''new'')
      [(''secrets.dev'', VStr ''read'')] (Some ''old'') = Inr pgs
    \<and> pg_key ` set pgs = {(''secrets.dev'', VDict [(''key'', VStr ''DB'')])}"
proof -
  have r: "isl (manifest_newly_declared_permissions_v2 example_libs (example_manifest ''new'')
      [(''secrets.dev'', VStr ''read'')] (Some ''old'')) = False"
    by code_simp
  then obtain pgs where pgs: "manifest_newly_declared_permissions_v2 example_libs (example_manifest ''new'')
      [(''secrets.dev'', VStr ''read'')] (Some ''old'') = Inr pgs"
    by (metis isl_def sum.exhaust)
  have k: "map pg_key (all_manifest_permissions_v2 (example_manifest ''new''))
      = [(''secrets.dev'', VStr ''read''), (''secrets.dev'', VDict [(''key'', VStr ''DB'')])]"
    by code_simp
  have o': "previously_declared example_libs (Some ''old'') = {}"
    by code_simp
  have g: "granted_keys [(''secrets.dev'', VStr ''read'')] = {(''secrets.dev'', VStr ''read'')}"
    by code_simp
  show ?thesis
    using newly_declared_exact [OF pgs] pgs unfolding o' g
    by (auto simp only: list.set_map [symmetric] k) auto
qed

end
