(* ===== verification/Auth.thy ===== *)
theory Auth
  imports Domains Regex
begin

text \<open>
  Who is making a request: \<open>core/auth/auth.py\<close> (sessions, API tokens, app tokens), \<open>web/auth/auth.py\<close>
  (the guards of the routes), and the lookup of an app by the host a request names
  (\<open>core/apps.get_app_from_hostname\<close>).  Timestamps are the instants the columns encode, in
  microseconds; \<open>sha256\<close> and \<open>bcrypt.checkpw\<close> are parameters, and so are fresh random tokens.
\<close>

section \<open>Responses\<close>

text \<open>
  A handler returns a status with its JSON body, raises an HTTP exception (status and detail), or
  lets another exception escape, which the framework turns into a 500.
\<close>

datatype response = Reply nat pyval | HttpError nat string | Crash exn

definition OkBody :: pyval where
  "OkBody = VDict [(''ok'', VBool True)]"

section \<open>Tables\<close>

record user_row =
  u_user_id :: nat
  u_username :: string
  u_password_hash :: string

record session_row =
  se_token_hash :: string
  se_user_id :: nat
  se_expires_at :: int

record api_token_row =
  at_name :: string
  at_token_hash :: string
  at_expires_at :: "int option"

record auth_tables =
  t_users :: "user_row list"
  t_sessions :: "session_row list"
  t_api_tokens :: "api_token_row list"

record crypto =
  sha256 :: "string \<Rightarrow> string"
  checkpw :: "string \<Rightarrow> string \<Rightarrow> bool"

datatype accessor = AuthenticatedUser nat string | AuthenticatedAPIKey | AuthenticatedApp string

section \<open>The owner's user name\<close>

definition SESSION_TTL_SECONDS :: int where
  "SESSION_TTL_SECONDS = 28 * 24 * 60 * 60"

definition OWNER_USERNAME_MAX_LEN :: nat where
  "OWNER_USERNAME_MAX_LEN = 30"

definition OWNER_USERNAME_RE :: rx where
  "OWNER_USERNAME_RE = Seq (Sym (\<lambda>c. is_lower_alpha c \<or> is_digit c))
     (upto_copies 29 (Sym (\<lambda>c. is_lower_alpha c \<or> is_digit c \<or> c \<in> {CHR ''.'', CHR ''_'', CHR ''-''})))"

definition validate_owner_username :: "string \<Rightarrow> string option" where
  "validate_owner_username s =
     (if s = [] then Some ''Username is required.''
      else if length s > OWNER_USERNAME_MAX_LEN
      then Some (''Username must be at most '' @ show_nat OWNER_USERNAME_MAX_LEN @ '' characters.'')
      else if \<not> re_match_anchored OWNER_USERNAME_RE s
      then Some (''Username must start with a lowercase letter or digit and contain only''
        @ '' lowercase letters, digits, `.`, `_` or `-`.'')
      else None)"

text \<open>\<open>ORDER BY user_id LIMIT 1\<close>.\<close>

definition first_user :: "auth_tables \<Rightarrow> user_row option" where
  "first_user t = (case sort_key u_user_id (t_users t) of [] \<Rightarrow> None | u # us \<Rightarrow> Some u)"

definition read_owner_username :: "auth_tables \<Rightarrow> string option" where
  "read_owner_username t =
     (case first_user t of None \<Rightarrow> None | Some u \<Rightarrow> if u_username u = [] then None else Some (u_username u))"

definition update_owner_username :: "string \<Rightarrow> auth_tables \<Rightarrow> auth_tables result" where
  "update_owner_username new_username t =
     (case first_user t of
        None \<Rightarrow> Inl (Exn ValueError ''No user exists; cannot update username before /setup runs.'')
      | Some o' \<Rightarrow>
          if \<exists>u \<in> set (t_users t). u_user_id u \<noteq> u_user_id o' \<and> u_username u = new_username
          then Inl (integrity ''users.username'')
          else Inr (t\<lparr>t_users := map (\<lambda>u. if u_user_id u = u_user_id o'
                 then u\<lparr>u_username := new_username\<rparr> else u) (t_users t)\<rparr>))"

text \<open>\<open>row["password_hash"]\<close> on no row is a \<open>TypeError\<close>.\<close>

definition validate_password :: "crypto \<Rightarrow> string \<Rightarrow> auth_tables \<Rightarrow> nat option result" where
  "validate_password cr password t =
     (case t_users t of
        [] \<Rightarrow> Inl (Exn TypeError (squote ''NoneType'' @ '' object is not subscriptable''))
      | u # us \<Rightarrow> Inr (if checkpw cr password (u_password_hash u) then Some (u_user_id u) else None))"

section \<open>Sessions and tokens\<close>

text \<open>SQLite's \<open>datetime()\<close> drops the fraction of a second before it compares.\<close>

definition to_seconds :: "int \<Rightarrow> int" where
  "to_seconds t = t div 1000000"

definition create_session :: "crypto \<Rightarrow> string \<Rightarrow> int \<Rightarrow> nat \<Rightarrow> auth_tables \<Rightarrow> auth_tables result" where
  "create_session cr token now user_id t =
     (let live = filter (\<lambda>s. \<not> to_seconds (se_expires_at s) < to_seconds now) (t_sessions t);
          row = \<lparr>se_token_hash = sha256 cr token, se_user_id = user_id,
                 se_expires_at = now + SESSION_TTL_SECONDS * 1000000\<rparr>
      in if sha256 cr token \<in> se_token_hash ` set live then Inl (integrity ''sessions.token_hash'')
         else if user_id \<notin> u_user_id ` set (t_users t)
         then Inl (Exn IntegrityError ''FOREIGN KEY constraint failed'')
         else Inr (t\<lparr>t_sessions := live @ [row]\<rparr>))"

definition revoke_session :: "crypto \<Rightarrow> string \<Rightarrow> auth_tables \<Rightarrow> auth_tables" where
  "revoke_session cr token t = t\<lparr>t_sessions := filter (\<lambda>s. se_token_hash s \<noteq> sha256 cr token) (t_sessions t)\<rparr>"

definition session_user_join :: "auth_tables \<Rightarrow> (session_row \<times> user_row) list" where
  "session_user_join t = [(s, u). s \<leftarrow> t_sessions t, u \<leftarrow> t_users t, u_user_id u = se_user_id s]"

definition validate_session_token :: "crypto \<Rightarrow> int \<Rightarrow> string \<Rightarrow> auth_tables \<Rightarrow> accessor option" where
  "validate_session_token cr now token t =
     (case find (\<lambda>(s, u). se_token_hash s = sha256 cr token) (session_user_join t) of
        None \<Rightarrow> None
      | Some (s, u) \<Rightarrow> if se_expires_at s \<ge> now then Some (AuthenticatedUser (u_user_id u) (u_username u)) else None)"

definition validate_api_token :: "crypto \<Rightarrow> int \<Rightarrow> string \<Rightarrow> auth_tables \<Rightarrow> accessor option" where
  "validate_api_token cr now token t =
     (case find (\<lambda>r. at_token_hash r = sha256 cr token) (t_api_tokens t) of
        None \<Rightarrow> None
      | Some r \<Rightarrow>
          (case at_expires_at r of
             None \<Rightarrow> Some AuthenticatedAPIKey
           | Some expires \<Rightarrow> if expires \<ge> now then Some AuthenticatedAPIKey else None))"

definition validate_app_token :: "crypto \<Rightarrow> string \<Rightarrow> database \<Rightarrow> accessor option" where
  "validate_app_token cr token db =
     (case find (\<lambda>(app_id, h). h = sha256 cr token \<and> app_id \<in> a_app_id ` set (t_apps db)) (t_app_tokens db) of
        None \<Rightarrow> None
      | Some (app_id, h) \<Rightarrow> Some (AuthenticatedApp app_id))"

section \<open>Which app a host names\<close>

definition find_app_by_name :: "string \<Rightarrow> database \<Rightarrow> app_row option" where
  "find_app_by_name name db = select_app_by_name name db"

definition get_app_from_hostname :: "string \<Rightarrow> database \<Rightarrow> app_row option" where
  "get_app_from_hostname host db =
     (case domain_match db host of
        None \<Rightarrow> None
      | Some matched \<Rightarrow>
          (let zone_no_port = name_no_port matched;
               host_no_port = lower (before CHR '':'' host)
           in if host_no_port = zone_no_port then None
              else let app_name = take (length host_no_port - (length zone_no_port + 1)) host_no_port
                   in if CHR ''.'' \<notin> set app_name then find_app_by_name app_name db else None))"

section \<open>The request\<close>

text \<open>What the guards read of a connection; \<open>base_netloc\<close> is \<open>base_url.netloc\<close>.\<close>

record connection =
  authorization :: "string option"
  origin_header :: "string option"
  session_cookie :: "string option"
  base_netloc :: string

definition get_bearer_token_if_set :: "connection \<Rightarrow> string option" where
  "get_bearer_token_if_set cn =
     (case authorization cn of
        None \<Rightarrow> None
      | Some auth_header \<Rightarrow>
          if prefix ''bearer '' (lower auth_header)
          then (let token = strip (drop 7 auth_header) in if token \<noteq> [] then Some token else None)
          else None)"

text \<open>
  \<open>urlparse(raw).hostname\<close> and \<open>.port\<close>.  A bracketed host is checked by the \<open>ipaddress\<close> module, which
  \<open>bracketed_ok\<close> stands for; NFKC normalisation leaves 8-bit hosts alone.
\<close>

definition is_scheme_char :: "char \<Rightarrow> bool" where
  "is_scheme_char c = (is_lower_alpha (lower_char c) \<or> is_digit c \<or> c \<in> {CHR ''+'', CHR ''-'', CHR ''.''})"

definition url_netloc :: "string \<Rightarrow> string" where
  "url_netloc raw =
     (let url = filter (\<lambda>c. code c \<notin> {9, 10, 13}) (dropWhile (\<lambda>c. code c \<le> 32) raw);
          sch = before CHR '':'' url;
          rest = (if CHR '':'' \<in> set url \<and> sch \<noteq> [] \<and> is_lower_alpha (lower_char (hd url))
                     \<and> list_all is_scheme_char sch
                  then drop (length sch + 1) url else url)
      in if prefix ''//'' rest then takeWhile (\<lambda>c. c \<notin> {CHR ''/'', CHR ''?'', CHR ''#''}) (drop 2 rest) else [])"

text \<open>\<open>s.partition(c)[2]\<close>.\<close>

definition after_first :: "char \<Rightarrow> string \<Rightarrow> string" where
  "after_first c s = drop (length (before c s) + 1) s"

definition host_info :: "string \<Rightarrow> string \<times> string" where
  "host_info netloc =
     (let hostinfo = after_last CHR ''@'' netloc
      in if CHR ''['' \<in> set hostinfo
         then let bracketed = after_first CHR ''['' hostinfo
              in (before CHR '']'' bracketed, after_first CHR '':'' (after_first CHR '']'' bracketed))
         else (before CHR '':'' hostinfo, after_first CHR '':'' hostinfo))"

definition lower_host :: "string \<Rightarrow> string" where
  "lower_host h = lower (before CHR ''%'' h) @ drop (length (before CHR ''%'' h)) h"

definition digits_value :: "string \<Rightarrow> int" where
  "digits_value ds = foldl (\<lambda>n c. 10 * n + (int (code c) - 48)) 0 ds"

definition parse_origin :: "(string \<Rightarrow> bool) \<Rightarrow> string \<Rightarrow> (string option \<times> int option) result" where
  "parse_origin bracketed_ok raw =
     (let netloc = url_netloc raw;
          (hostname, port) = host_info netloc;
          h = (if hostname = [] then None else Some (lower_host hostname))
      in if (CHR ''['' \<in> set netloc) \<noteq> (CHR '']'' \<in> set netloc)
            \<or> (CHR ''['' \<in> set netloc \<and> \<not> bracketed_ok netloc)
         then Inl (Exn ValueError ''Invalid IPv6 URL'')
         else if port = [] then Inr (h, None)
         else if \<not> list_all is_digit port
         then Inl (Exn ValueError ''Port could not be cast to integer value'')
         else if digits_value port > 65535 then Inl (Exn ValueError ''Port out of range 0-65535'')
         else Inr (h, Some (digits_value port)))"

definition get_connection_origin :: "(string \<Rightarrow> bool) \<Rightarrow> connection \<Rightarrow> string option result" where
  "get_connection_origin bracketed_ok cn =
     (case origin_header cn of
        None \<Rightarrow> Inr None
      | Some raw \<Rightarrow>
          rbind (parse_origin bracketed_ok raw) (\<lambda>(host, port).
          Inr (Some (case host of
             None \<Rightarrow> (let t = lower (strip raw) in if t = [] then ''null'' else t)
           | Some h \<Rightarrow> (case port of None \<Rightarrow> h
               | Some p \<Rightarrow> if p = 0 then h else h @ '':'' @ show_int p)))))"

section \<open>The guards\<close>

text \<open>The parameters a guard needs beside the connection and the tables.\<close>

record auth_env =
  ae_crypto :: crypto
  ae_bracketed_ok :: "string \<Rightarrow> bool"
  ae_now :: int
  ae_tables :: auth_tables

definition not_authorized :: "string \<Rightarrow> exn" where
  "not_authorized detail = Exn NotAuthorized detail"

definition verify_same_origin :: "auth_env \<Rightarrow> connection \<Rightarrow> unit result" where
  "verify_same_origin ae cn =
     rbind (get_connection_origin (ae_bracketed_ok ae) cn) (\<lambda>origin.
     if origin \<noteq> None \<and> origin \<noteq> Some (base_netloc cn)
     then Inl (not_authorized ''cross-origin request not allowed'') else Inr ())"

definition authenticate :: "auth_env \<Rightarrow> connection \<Rightarrow> database \<Rightarrow> accessor option" where
  "authenticate ae cn db =
     (let by_session = (case session_cookie cn of
            None \<Rightarrow> None
          | Some tok \<Rightarrow> if tok = [] then None else validate_session_token (ae_crypto ae) (ae_now ae) tok (ae_tables ae))
      in if by_session \<noteq> None then by_session
         else case get_bearer_token_if_set cn of
            None \<Rightarrow> None
          | Some tok \<Rightarrow>
              (case validate_api_token (ae_crypto ae) (ae_now ae) tok (ae_tables ae) of
                 Some a \<Rightarrow> Some a
               | None \<Rightarrow> validate_app_token (ae_crypto ae) tok db))"

definition verify_owner_auth :: "auth_env \<Rightarrow> connection \<Rightarrow> database \<Rightarrow> unit result" where
  "verify_owner_auth ae cn db =
     (let accessor = authenticate ae cn db
      in rbind (get_connection_origin (ae_bracketed_ok ae) cn) (\<lambda>origin.
         case accessor of
           Some (AuthenticatedUser _ _) \<Rightarrow>
             if origin \<noteq> None \<and> origin \<noteq> Some (base_netloc cn)
             then Inl (not_authorized ''user authentication only valid for router-origin requests'')
             else Inr ()
         | Some AuthenticatedAPIKey \<Rightarrow> Inr ()
         | _ \<Rightarrow> Inl (not_authorized ''User or API key authentication required'')))"

definition verify_app_auth :: "auth_env \<Rightarrow> connection \<Rightarrow> database \<Rightarrow> string result" where
  "verify_app_auth ae cn db =
     (let accessor = authenticate ae cn db
      in rbind (get_connection_origin (ae_bracketed_ok ae) cn) (\<lambda>origin.
         case accessor of
           Some (AuthenticatedUser _ _) \<Rightarrow>
             (case (case origin of None \<Rightarrow> None | Some o' \<Rightarrow> get_app_from_hostname o' db) of
                Some app \<Rightarrow> Inr (a_app_id app)
              | None \<Rightarrow> Inl (not_authorized ''app authentication required''))
         | Some (AuthenticatedApp app_id) \<Rightarrow> Inr app_id
         | _ \<Rightarrow> Inl (not_authorized ''app authentication required'')))"

definition require_owner_or_app_auth :: "auth_env \<Rightarrow> connection \<Rightarrow> database \<Rightarrow> unit result" where
  "require_owner_or_app_auth ae cn db =
     (case verify_owner_auth ae cn db of
        Inr () \<Rightarrow> Inr ()
      | Inl e \<Rightarrow> if exn_class e = NotAuthorized then rbind (verify_app_auth ae cn db) (\<lambda>_. Inr ()) else Inl e)"

text \<open>\<open>urllib.parse.quote(s, safe='')\<close>: the UTF-8 bytes of every character that is not unreserved.\<close>

definition unreserved :: "char \<Rightarrow> bool" where
  "unreserved c = (is_lower_alpha (lower_char c) \<or> is_digit c \<or> c \<in> {CHR ''_'', CHR ''.'', CHR ''-'', CHR ''~''})"

definition hex_digit :: "nat \<Rightarrow> char" where
  "hex_digit n = char_of (if n < 10 then 48 + n else 55 + n)"

definition percent :: "nat \<Rightarrow> string" where
  "percent b = [CHR ''%'', hex_digit (b div 16), hex_digit (b mod 16)]"

definition utf8 :: "char \<Rightarrow> nat list" where
  "utf8 c = (if code c < 128 then [code c] else [192 + code c div 64, 128 + code c mod 64])"

definition url_quote :: "string \<Rightarrow> string" where
  "url_quote s = concat (map (\<lambda>c. if unreserved c then [c] else concat (map percent (utf8 c))) s)"

definition build_login_url :: "domain \<Rightarrow> string \<Rightarrow> string \<Rightarrow> string \<Rightarrow> string" where
  "build_login_url zone netloc path query =
     (let proto = scheme zone;
          next_url = proto @ ''://'' @ netloc @ path;
          next_url = (if query \<noteq> [] then next_url @ ''?'' @ query else next_url)
      in proto @ ''://'' @ host_with_request_port (name_no_port zone) netloc @ ''/login?next='' @ url_quote next_url)"

section \<open>Lemmas\<close>

lemma name_no_port_lower: "d \<in> set (effective_domains db) \<Longrightarrow> lower (name_no_port d) = name_no_port d"
  by (auto simp: effective_domains_def to_domain_def mk_domain_def name_no_port_def)

lemma domain_match_owns: "domain_match db host = Some d \<Longrightarrow> d \<in> set (effective_domains db) \<and> owns d host"
  unfolding domain_match_def by (drule match_loop_Some) auto

lemma find_app_by_name_Some: "find_app_by_name n db = Some r \<Longrightarrow> r \<in> set (t_apps db) \<and> a_name r = n"
  unfolding find_app_by_name_def select_app_by_name_def by (drule find_Some_iff_filter)

lemma find_app_by_name_iff:
  "db_keys_ok db \<Longrightarrow> find_app_by_name n db = Some r \<longleftrightarrow> r \<in> set (t_apps db) \<and> a_name r = n"
  using find_app_by_name_Some [of n db r]
  by (auto simp: find_app_by_name_def select_app_by_name_def db_keys_ok_def intro: find_key_Some)

lemma get_app_from_hostname_split:
  "get_app_from_hostname host db = Some r \<longleftrightarrow>
   (\<exists>d name. domain_match db host = Some d \<and> lower (before CHR '':'' host) = name @ CHR ''.'' # name_no_port d
      \<and> CHR ''.'' \<notin> set name \<and> find_app_by_name name db = Some r)"
    (is "?l \<longleftrightarrow> ?r")
proof (cases "domain_match db host")
  case (Some d)
  let ?h = "lower (before CHR '':'' host)"
  have own: "?h = name_no_port d \<or> suffix (CHR ''.'' # name_no_port d) ?h"
    using domain_match_owns [OF Some] by (auto simp: owns_def Let_def split: if_splits)
  show ?thesis
  proof (cases "?h = name_no_port d")
    case True
    then show ?thesis by (simp add: get_app_from_hostname_def Some)
  next
    case False
    then obtain name where h: "?h = name @ CHR ''.'' # name_no_port d"
      using own by (auto simp: suffix_def)
    then show ?thesis
      by (auto simp: get_app_from_hostname_def Some Let_def)
  qed
qed (simp add: get_app_from_hostname_def)

text \<open>A live session of a token: the row, and the user it belongs to.\<close>

definition live_session :: "auth_env \<Rightarrow> string \<Rightarrow> bool" where
  "live_session ae tok = (\<exists>s \<in> set (t_sessions (ae_tables ae)). \<exists>u \<in> set (t_users (ae_tables ae)).
     se_token_hash s = sha256 (ae_crypto ae) tok \<and> se_user_id s = u_user_id u \<and> ae_now ae \<le> se_expires_at s)"

definition live_api_token :: "auth_env \<Rightarrow> string \<Rightarrow> bool" where
  "live_api_token ae tok = (\<exists>r \<in> set (t_api_tokens (ae_tables ae)).
     at_token_hash r = sha256 (ae_crypto ae) tok
     \<and> (case at_expires_at r of None \<Rightarrow> True | Some t \<Rightarrow> ae_now ae \<le> t))"

lemma session_user_join_mem:
  "(s, u) \<in> set (session_user_join t) \<longleftrightarrow> s \<in> set (t_sessions t) \<and> u \<in> set (t_users t) \<and> u_user_id u = se_user_id s"
  by (auto simp: session_user_join_def)

lemma validate_session_token_live:
  "validate_session_token (ae_crypto ae) (ae_now ae) tok (ae_tables ae) = Some a \<Longrightarrow>
   live_session ae tok \<and> (\<exists>i n. a = AuthenticatedUser i n)"
  by (auto simp: validate_session_token_def live_session_def session_user_join_mem
      split: option.splits if_splits dest!: find_Some_iff_filter) (metis eq_commute)

lemma validate_api_token_live:
  "validate_api_token (ae_crypto ae) (ae_now ae) tok (ae_tables ae) = Some a \<Longrightarrow>
   live_api_token ae tok \<and> a = AuthenticatedAPIKey"
  by (auto simp: validate_api_token_def live_api_token_def
      split: option.splits if_splits dest!: find_Some_iff_filter)

lemma validate_app_token_row:
  "validate_app_token cr tok db = Some a \<Longrightarrow>
   \<exists>i. a = AuthenticatedApp i \<and> (i, sha256 cr tok) \<in> set (t_app_tokens db) \<and> i \<in> a_app_id ` set (t_apps db)"
  by (auto simp: validate_app_token_def split: option.splits dest!: find_Some_iff_filter)

lemma authenticate_cases:
  assumes "authenticate ae cn db = Some a"
  obtains (user) tok i n where "a = AuthenticatedUser i n" "session_cookie cn = Some tok" "live_session ae tok"
  | (key) tok where "a = AuthenticatedAPIKey" "get_bearer_token_if_set cn = Some tok" "live_api_token ae tok"
  | (app) tok i where "a = AuthenticatedApp i" "get_bearer_token_if_set cn = Some tok"
      "(i, sha256 (ae_crypto ae) tok) \<in> set (t_app_tokens db)" "i \<in> a_app_id ` set (t_apps db)"
  using assms
  by (auto simp: authenticate_def Let_def split: option.splits if_splits
      dest!: validate_session_token_live validate_api_token_live validate_app_token_row)

text \<open>The primary keys of the tables.\<close>

definition auth_keys_ok :: "auth_tables \<Rightarrow> bool" where
  "auth_keys_ok t = (distinct (map u_user_id (t_users t)) \<and> distinct (map se_token_hash (t_sessions t)))"

lemma auth_keys_sessions: "auth_keys_ok t \<Longrightarrow> distinct (map se_token_hash (t_sessions t))"
  by (simp add: auth_keys_ok_def)

lemma validate_session_token_user: "validate_session_token cr now tok t = Some a \<Longrightarrow> \<exists>i n. a = AuthenticatedUser i n"
  by (auto simp: validate_session_token_def split: option.splits if_splits)

lemma option_accessor_eqI:
  assumes "\<And>i n. x = Some (AuthenticatedUser i n) \<longleftrightarrow> y = Some (AuthenticatedUser i n)"
    and "\<And>a. x = Some a \<Longrightarrow> \<exists>i n. a = AuthenticatedUser i n"
    and "\<And>a. y = Some a \<Longrightarrow> \<exists>i n. a = AuthenticatedUser i n"
  shows "x = y"
  using assms by (metis not_Some_eq)

lemma validate_session_token_NoneI:
  "(\<And>s. s \<in> set (t_sessions t) \<Longrightarrow> se_token_hash s \<noteq> sha256 cr tok) \<Longrightarrow> validate_session_token cr now tok t = None"
  by (auto simp: validate_session_token_def session_user_join_mem split: option.splits dest!: find_Some_iff_filter)

lemma validate_session_token_iff:
  assumes "auth_keys_ok t"
  shows "validate_session_token cr now tok t = Some (AuthenticatedUser i n) \<longleftrightarrow>
    (\<exists>s \<in> set (t_sessions t). \<exists>u \<in> set (t_users t). se_token_hash s = sha256 cr tok
       \<and> u_user_id u = se_user_id s \<and> now \<le> se_expires_at s \<and> u_user_id u = i \<and> u_username u = n)"
    (is "?l \<longleftrightarrow> ?r")
proof
  assume ?l
  then obtain s u where "find (\<lambda>(s, u). se_token_hash s = sha256 cr tok) (session_user_join t) = Some (s, u)"
    and "now \<le> se_expires_at s" "u_user_id u = i" "u_username u = n"
    by (auto simp: validate_session_token_def split: option.splits if_splits)
  moreover from this(1) have "se_token_hash s = sha256 cr tok" "s \<in> set (t_sessions t)" "u \<in> set (t_users t)"
    "u_user_id u = se_user_id s"
    by (auto dest!: find_Some_iff_filter simp: session_user_join_mem)
  ultimately show ?r by blast
next
  assume ?r
  then obtain s u where su: "s \<in> set (t_sessions t)" "u \<in> set (t_users t)" "se_token_hash s = sha256 cr tok"
    "u_user_id u = se_user_id s" "now \<le> se_expires_at s" "u_user_id u = i" "u_username u = n"
    by blast
  then have "(s, u) \<in> set (session_user_join t)"
    by (simp add: session_user_join_mem)
  then obtain s' u' where f: "find (\<lambda>(s, u). se_token_hash s = sha256 cr tok) (session_user_join t) = Some (s', u')"
    using su(3) by (cases "find (\<lambda>(s, u). se_token_hash s = sha256 cr tok) (session_user_join t)")
      (auto dest: find_None_not)
  then have "s' \<in> set (t_sessions t)" "u' \<in> set (t_users t)" "se_token_hash s' = sha256 cr tok"
    "u_user_id u' = se_user_id s'"
    by (auto dest!: find_Some_iff_filter simp: session_user_join_mem)
  moreover have "s' = s"
    using calculation su assms distinct_map_inj [of se_token_hash "t_sessions t" s' s] by (simp add: auth_keys_ok_def)
  moreover have "u' = u"
    using calculation su assms distinct_map_inj [of u_user_id "t_users t" u' u] by (simp add: auth_keys_ok_def)
  ultimately show ?l
    using f su by (simp add: validate_session_token_def)
qed

definition new_session :: "crypto \<Rightarrow> string \<Rightarrow> int \<Rightarrow> nat \<Rightarrow> session_row" where
  "new_session cr token now user_id = \<lparr>se_token_hash = sha256 cr token, se_user_id = user_id,
     se_expires_at = now + SESSION_TTL_SECONDS * 1000000\<rparr>"

lemma create_session_Inr:
  assumes "create_session cr token now user_id t = Inr t'"
  shows "set (t_sessions t') = insert (new_session cr token now user_id)
      {s \<in> set (t_sessions t). \<not> to_seconds (se_expires_at s) < to_seconds now}"
    and "t_users t' = t_users t" and "user_id \<in> u_user_id ` set (t_users t)"
  using assms by (auto simp: create_session_def new_session_def Let_def split: if_splits)

lemma create_session_keys:
  "create_session cr token now user_id t = Inr t' \<Longrightarrow> auth_keys_ok t \<Longrightarrow> auth_keys_ok t'"
  by (auto simp: create_session_def auth_keys_ok_def Let_def distinct_map_filter split: if_splits)

lemma revoke_session_keys: "auth_keys_ok t \<Longrightarrow> auth_keys_ok (revoke_session cr token t)"
  by (simp add: revoke_session_def auth_keys_ok_def distinct_map_filter)

lemma fresh_session_valid:
  assumes "auth_keys_ok t'" and "row \<in> set (t_sessions t')" and "se_token_hash row = sha256 cr token"
    and "se_user_id row \<in> u_user_id ` set (t_users t')"
  shows "(\<exists>n. validate_session_token cr later token t' = Some (AuthenticatedUser (se_user_id row) n))
      \<longleftrightarrow> later \<le> se_expires_at row"
proof -
  have uniq: "s = row" if "s \<in> set (t_sessions t')" "se_token_hash s = sha256 cr token" for s
    using distinct_map_inj [OF auth_keys_sessions [OF assms(1)] that(1) assms(2)] that(2) assms(3) by simp
  obtain u where u: "u \<in> set (t_users t')" "u_user_id u = se_user_id row"
    using assms(4) by auto
  show ?thesis
  proof
    assume "later \<le> se_expires_at row"
    then have "validate_session_token cr later token t' = Some (AuthenticatedUser (se_user_id row) (u_username u))"
      unfolding validate_session_token_iff [OF assms(1)] using u assms(2,3) by blast
    then show "\<exists>n. validate_session_token cr later token t' = Some (AuthenticatedUser (se_user_id row) n)" ..
  next
    assume "\<exists>n. validate_session_token cr later token t' = Some (AuthenticatedUser (se_user_id row) n)"
    then show "later \<le> se_expires_at row"
      unfolding validate_session_token_iff [OF assms(1)] using uniq by blast
  qed
qed

lemma validate_session_token_cong:
  assumes "auth_keys_ok t" and "auth_keys_ok t'" and "t_users t' = t_users t"
    and "\<And>s. se_token_hash s = sha256 cr tok \<Longrightarrow> now \<le> se_expires_at s \<Longrightarrow>
      s \<in> set (t_sessions t') \<longleftrightarrow> s \<in> set (t_sessions t)"
  shows "validate_session_token cr now tok t' = validate_session_token cr now tok t"
proof (rule option_accessor_eqI)
  show "validate_session_token cr now tok t' = Some (AuthenticatedUser i n)
      \<longleftrightarrow> validate_session_token cr now tok t = Some (AuthenticatedUser i n)" for i n
    unfolding validate_session_token_iff [OF assms(1)] validate_session_token_iff [OF assms(2)] assms(3)
    using assms(4) by blast
qed (erule validate_session_token_user)+

section \<open>Example\<close>

text \<open>One owner with one session, one API token, and the domains of the example database.\<close>

definition example_auth :: auth_env where
  "example_auth = \<lparr>ae_crypto = \<lparr>sha256 = (\<lambda>s. CHR ''#'' # s), checkpw = (=)\<rparr>, ae_bracketed_ok = (\<lambda>_. False),
     ae_now = 1000, ae_tables = \<lparr>t_users = [\<lparr>u_user_id = 1, u_username = ''owner'', u_password_hash = ''pw''\<rparr>],
       t_sessions = [\<lparr>se_token_hash = ''#sess'', se_user_id = 1, se_expires_at = 2000\<rparr>],
       t_api_tokens = [\<lparr>at_name = ''ci'', at_token_hash = ''#key'', at_expires_at = None\<rparr>]\<rparr>\<rparr>"

definition owner_conn :: connection where
  "owner_conn = \<lparr>authorization = None, origin_header = Some ''https://example.com'',
     session_cookie = Some ''sess'', base_netloc = ''example.com''\<rparr>"

definition app_conn :: connection where
  "app_conn = \<lparr>authorization = None, origin_header = Some ''https://notes.host.example.com'',
     session_cookie = Some ''sess'', base_netloc = ''host.example.com''\<rparr>"

lemma example_ddb_keys: "db_keys_ok example_ddb"
  by (simp add: db_keys_ok_def example_ddb_def sample_defs)

section \<open>Properties\<close>

text \<open>C1: The owner guard lets a request through only with a live session of a user in the table and no
  foreign \<open>Origin\<close>, or with an unexpired API token; the token of an app never passes for the owner's.\<close>

theorem owner_auth_sound:
  assumes "verify_owner_auth ae cn db = Inr ()"
  shows "(\<exists>tok. session_cookie cn = Some tok \<and> live_session ae tok
          \<and> get_connection_origin (ae_bracketed_ok ae) cn \<in> {Inr None, Inr (Some (base_netloc cn))})
    \<or> (\<exists>tok. get_bearer_token_if_set cn = Some tok \<and> live_api_token ae tok)"
proof -
  obtain origin where o': "get_connection_origin (ae_bracketed_ok ae) cn = Inr origin"
    and v: "(case authenticate ae cn db of Some (AuthenticatedUser _ _) \<Rightarrow>
             if origin \<noteq> None \<and> origin \<noteq> Some (base_netloc cn)
             then Inl (not_authorized ''user authentication only valid for router-origin requests'')
             else Inr ()
         | Some AuthenticatedAPIKey \<Rightarrow> Inr ()
         | _ \<Rightarrow> Inl (not_authorized ''User or API key authentication required'')) = Inr ()"
    using assms by (auto simp: verify_owner_auth_def)
  then obtain a where a: "authenticate ae cn db = Some a"
    by (cases "authenticate ae cn db") auto
  show ?thesis
    using a
  proof (cases rule: authenticate_cases)
    case (user tok i n)
    with v a o' show ?thesis by (auto split: if_splits)
  next
    case (app tok i)
    with v a show ?thesis by simp
  qed blast
qed

theorem owner_auth_sound_witness: "\<exists>tok. session_cookie owner_conn = Some tok \<and> live_session example_auth tok"
proof -
  have "verify_owner_auth example_auth owner_conn example_ddb = Inr ()"
    by code_simp
  from owner_auth_sound [OF this] show ?thesis
    by (auto simp: owner_conn_def get_bearer_token_if_set_def)
qed


text \<open>C2: The identity the app guard returns is that of an installed app, and the caller proved it: by
  the app's own token, or by the owner's live session on a page whose \<open>Origin\<close> is that app's
  subdomain of a configured domain.\<close>

theorem app_auth_sound:
  assumes "verify_app_auth ae cn db = Inr app_id"
  shows "app_id \<in> a_app_id ` set (t_apps db) \<and>
    ((\<exists>tok. get_bearer_token_if_set cn = Some tok \<and> (app_id, sha256 (ae_crypto ae) tok) \<in> set (t_app_tokens db))
     \<or> (\<exists>tok host d app. session_cookie cn = Some tok \<and> live_session ae tok
          \<and> get_connection_origin (ae_bracketed_ok ae) cn = Inr (Some host)
          \<and> d \<in> set (effective_domains db) \<and> app \<in> set (t_apps db) \<and> a_app_id app = app_id
          \<and> lower (before CHR '':'' host) = a_name app @ CHR ''.'' # name_no_port d))"
proof -
  obtain origin where o': "get_connection_origin (ae_bracketed_ok ae) cn = Inr origin"
    and v: "(case authenticate ae cn db of Some (AuthenticatedUser _ _) \<Rightarrow>
             (case (case origin of None \<Rightarrow> None | Some o' \<Rightarrow> get_app_from_hostname o' db) of
                Some app \<Rightarrow> Inr (a_app_id app)
              | None \<Rightarrow> Inl (not_authorized ''app authentication required''))
         | Some (AuthenticatedApp app_id) \<Rightarrow> Inr app_id
         | _ \<Rightarrow> Inl (not_authorized ''app authentication required'')) = Inr app_id"
    using assms by (auto simp: verify_app_auth_def)
  then obtain a where a: "authenticate ae cn db = Some a"
    by (cases "authenticate ae cn db") auto
  show ?thesis
    using a
  proof (cases rule: authenticate_cases)
    case (user tok i n)
    then obtain host app where h: "origin = Some host" "get_app_from_hostname host db = Some app"
      "a_app_id app = app_id"
      using v a by (auto split: option.splits)
    then obtain d name where d: "domain_match db host = Some d" "find_app_by_name name db = Some app"
      "lower (before CHR '':'' host) = name @ CHR ''.'' # name_no_port d"
      by (auto simp: get_app_from_hostname_split)
    then show ?thesis
      using h user o' domain_match_owns [OF d(1)] find_app_by_name_Some [OF d(2)] by blast
  next
    case (app tok i)
    with v a show ?thesis by auto
  next
    case (key tok)
    with v a show ?thesis by simp
  qed
qed

theorem app_auth_sound_witness:
  "''AAAAAAAAAAAA'' \<in> a_app_id ` set (t_apps example_ddb) \<and> live_session example_auth ''sess''"
proof -
  have "verify_app_auth example_auth app_conn example_ddb = Inr ''AAAAAAAAAAAA''"
    by code_simp
  from app_auth_sound [OF this] show ?thesis
    by (auto simp: app_conn_def get_bearer_token_if_set_def)
qed


text \<open>A host names an app exactly when it is the app's name, without dots, under the most specific
  configured domain that owns the host; the port and the case of the host do not matter.\<close>

theorem app_hostname_exact:
  assumes "db_keys_ok db"
  shows "get_app_from_hostname host db = Some app \<longleftrightarrow>
    app \<in> set (t_apps db) \<and> CHR ''.'' \<notin> set (a_name app) \<and>
    (\<exists>d. domain_match db host = Some d
      \<and> lower (before CHR '':'' host) = a_name app @ CHR ''.'' # name_no_port d)"
  unfolding get_app_from_hostname_split find_app_by_name_iff [OF assms] by blast

theorem app_hostname_exact_witness:
  "get_app_from_hostname ''Notes.Host.Example.COM:8080'' example_ddb = Some example_row"
proof -
  have m: "map_option name_no_port (domain_match example_ddb ''Notes.Host.Example.COM:8080'') = Some ''host.example.com''"
    by code_simp
  then obtain d where d: "domain_match example_ddb ''Notes.Host.Example.COM:8080'' = Some d"
    "name_no_port d = ''host.example.com''"
    by auto
  have h: "lower (before CHR '':'' ''Notes.Host.Example.COM:8080'') = ''notes'' @ CHR ''.'' # ''host.example.com''"
    by code_simp
  show ?thesis
    unfolding app_hostname_exact [OF example_ddb_keys] d h
    by (auto simp: d(2) example_ddb_def sample_defs)
qed


text \<open>A fresh session token is valid for exactly 28 days, logging out ends it at once, and neither
  step touches a live session of another token.\<close>

theorem session_lifecycle:
  assumes "auth_keys_ok t" and "create_session cr token now user_id t = Inr t'"
  shows "(\<forall>later. (\<exists>n. validate_session_token cr later token t' = Some (AuthenticatedUser user_id n))
        \<longleftrightarrow> later \<le> now + SESSION_TTL_SECONDS * 1000000)
    \<and> (\<forall>later. validate_session_token cr later token (revoke_session cr token t') = None)
    \<and> (\<forall>other later. sha256 cr other \<noteq> sha256 cr token \<longrightarrow> now \<le> later \<longrightarrow>
         validate_session_token cr later other (revoke_session cr token t') = validate_session_token cr later other t)"
proof (intro conjI allI impI)
  have ok: "auth_keys_ok t'" "auth_keys_ok (revoke_session cr token t')"
    using assms create_session_keys revoke_session_keys by blast+
  note created = create_session_Inr [OF assms(2)]
  let ?row = "new_session cr token now user_id"
  have row: "?row \<in> set (t_sessions t')" "se_token_hash ?row = sha256 cr token" "se_user_id ?row = user_id"
    "se_expires_at ?row = now + SESSION_TTL_SECONDS * 1000000"
    using created(1) by (auto simp: new_session_def)
  show "(\<exists>n. validate_session_token cr later token t' = Some (AuthenticatedUser user_id n))
      \<longleftrightarrow> later \<le> now + SESSION_TTL_SECONDS * 1000000" for later
    using fresh_session_valid [OF ok(1) row(1,2), unfolded row(3,4)] created(2,3) by simp
  show "validate_session_token cr later token (revoke_session cr token t') = None" for later
    by (rule validate_session_token_NoneI) (simp add: revoke_session_def)
  fix other later
  assume o': "sha256 cr other \<noteq> sha256 cr token" and l: "now \<le> later"
  have live: "\<not> to_seconds (se_expires_at s) < to_seconds now" if "later \<le> se_expires_at s" for s :: session_row
    using that l by (simp add: to_seconds_def zdiv_mono1 not_less)
  show "validate_session_token cr later other (revoke_session cr token t') = validate_session_token cr later other t"
  proof (rule validate_session_token_cong [OF assms(1) ok(2)])
    show "t_users (revoke_session cr token t') = t_users t"
      by (simp add: revoke_session_def created(2))
    show "s \<in> set (t_sessions (revoke_session cr token t')) \<longleftrightarrow> s \<in> set (t_sessions t)"
      if "se_token_hash s = sha256 cr other" "later \<le> se_expires_at s" for s
      using created(1) row(2) o' live [OF that(2)] that(1) by (auto simp: revoke_session_def)
  qed
qed

theorem session_lifecycle_witness:
  "\<exists>t'. create_session (ae_crypto example_auth) ''new'' 1000 1 (ae_tables example_auth) = Inr t'
    \<and> validate_session_token (ae_crypto example_auth) 1500 ''new'' (revoke_session (ae_crypto example_auth) ''new'' t') = None
    \<and> (\<exists>n. validate_session_token (ae_crypto example_auth) 1500 ''new'' t' = Some (AuthenticatedUser 1 n))"
proof -
  have "isl (create_session (ae_crypto example_auth) ''new'' 1000 1 (ae_tables example_auth)) = False"
    by code_simp
  then obtain t' where t': "create_session (ae_crypto example_auth) ''new'' 1000 1 (ae_tables example_auth) = Inr t'"
    by (metis isl_def sum.exhaust)
  have "auth_keys_ok (ae_tables example_auth)"
    by (simp add: auth_keys_ok_def example_auth_def)
  note spec = session_lifecycle [OF this t']
  show ?thesis
    using spec t' by (simp add: SESSION_TTL_SECONDS_def)
qed


end
