(* ===== verification/Permissions.thy ===== *)
theory Permissions
  imports Auth
begin

text \<open>
  \<open>core/auth/permissions_v2.py\<close> (grant, revoke and query) and its routes in
  \<open>web/routes/api/permissions_v2.py\<close>.  A grant payload is kept as the value whose sorted JSON text the
  column holds.  A request body is any JSON object; what SQLite does with a value of the wrong type is
  part of the handlers.
\<close>

section \<open>Core operations\<close>

record granted_permission =
  gp_grant :: pyval
  gp_scope :: string
  gp_provider_app_id :: "string option"

record permission_record =
  rec_consumer_app_id :: string
  rec_service_url :: string
  rec_grant :: pyval
  rec_scope :: string
  rec_provider_app_id :: "string option"

text \<open>\<open>s or None\<close> and \<open>s or ""\<close>.\<close>

definition none_if_empty :: "string \<Rightarrow> string option" where
  "none_if_empty s = (if s = [] then None else Some s)"

definition or_empty :: "string option \<Rightarrow> string" where
  "or_empty s = (case s of None \<Rightarrow> [] | Some t \<Rightarrow> t)"

definition get_granted_permissions_v2 :: "string \<Rightarrow> string \<Rightarrow> database \<Rightarrow> granted_permission list" where
  "get_granted_permissions_v2 consumer_app_id service_url db =
     map (\<lambda>r. \<lparr>gp_grant = pr_grant_payload r, gp_scope = pr_scope r,
               gp_provider_app_id = none_if_empty (pr_provider r)\<rparr>)
       (filter (\<lambda>r. pr_consumer r = consumer_app_id \<and> pr_service_url r = service_url) (t_permissions db))"

definition permission_row_of ::
    "string \<Rightarrow> string \<Rightarrow> pyval \<Rightarrow> string \<Rightarrow> string option \<Rightarrow> permission_row" where
  "permission_row_of consumer_app_id service_url grant_payload scope provider_app_id =
     \<lparr>pr_consumer = consumer_app_id, pr_service_url = service_url, pr_grant_payload = json_canon grant_payload,
      pr_scope = scope, pr_provider = or_empty provider_app_id\<rparr>"

text \<open>
  \<open>INSERT OR IGNORE\<close>: a row that breaks the CHECK on \<open>scope\<close> or repeats the primary key (all five
  columns) is skipped; the foreign key on the consumer still raises.
\<close>

definition valid_scope :: "string \<Rightarrow> bool" where
  "valid_scope scope = (scope \<in> {''global'', ''app''})"

definition insert_permission :: "permission_row \<Rightarrow> database \<Rightarrow> database result" where
  "insert_permission r db =
     (if \<not> valid_scope (pr_scope r) \<or> r \<in> set (t_permissions db) then Inr db
      else if pr_consumer r \<notin> a_app_id ` set (t_apps db)
      then Inl (Exn IntegrityError ''FOREIGN KEY constraint failed'')
      else Inr (db\<lparr>t_permissions := t_permissions db @ [r]\<rparr>))"

definition grant_permission_v2 ::
    "string \<Rightarrow> string \<Rightarrow> pyval \<Rightarrow> string \<Rightarrow> string option \<Rightarrow> database \<Rightarrow> database result" where
  "grant_permission_v2 consumer_app_id service_url grant_payload scope provider_app_id db =
     insert_permission (permission_row_of consumer_app_id service_url grant_payload scope provider_app_id) db"

definition delete_permission :: "permission_row \<Rightarrow> database \<Rightarrow> database" where
  "delete_permission r db = db\<lparr>t_permissions := filter (\<lambda>r'. r' \<noteq> r) (t_permissions db)\<rparr>"

definition revoke_permission_v2 ::
    "string \<Rightarrow> string \<Rightarrow> pyval \<Rightarrow> string \<Rightarrow> string option \<Rightarrow> database \<Rightarrow> bool \<times> database" where
  "revoke_permission_v2 consumer_app_id service_url grant_payload scope provider_app_id db =
     (let r = permission_row_of consumer_app_id service_url grant_payload scope provider_app_id
      in (r \<in> set (t_permissions db), delete_permission r db))"

definition to_permission_record :: "permission_row \<Rightarrow> permission_record" where
  "to_permission_record r = \<lparr>rec_consumer_app_id = pr_consumer r, rec_service_url = pr_service_url r,
     rec_grant = pr_grant_payload r, rec_scope = pr_scope r, rec_provider_app_id = none_if_empty (pr_provider r)\<rparr>"

text \<open>A stable sort by the last ORDER BY column first gives the order of both.\<close>

definition get_all_permissions_v2 :: "string option \<Rightarrow> database \<Rightarrow> permission_record list" where
  "get_all_permissions_v2 consumer_app_id db =
     (case consumer_app_id of
        Some c \<Rightarrow> if c \<noteq> []
          then map to_permission_record
                 (sort_key pr_service_url (filter (\<lambda>r. pr_consumer r = c) (t_permissions db)))
          else map to_permission_record (sort_key pr_consumer (sort_key pr_service_url (t_permissions db)))
      | None \<Rightarrow> map to_permission_record (sort_key pr_consumer (sort_key pr_service_url (t_permissions db))))"

section \<open>Routes\<close>

text \<open>
  Binding a JSON value to a column of TEXT affinity: \<open>None\<close> is NULL, numbers become their text
  (\<open>float_text\<close> renders a float), lists and dicts cannot be bound.
\<close>

definition sql_text :: "(rat \<Rightarrow> string) \<Rightarrow> pyval \<Rightarrow> string option result" where
  "sql_text float_text v =
     (case v of
        VNone \<Rightarrow> Inr None
      | VStr s \<Rightarrow> Inr (Some s)
      | VInt i \<Rightarrow> Inr (Some (show_int i))
      | VBool b \<Rightarrow> Inr (Some (if b then ''1'' else ''0''))
      | VFloat r \<Rightarrow> Inr (Some (float_text r))
      | v \<Rightarrow> Inl (Exn SqliteError (''Error binding parameter: type '' @ squote (type_name v) @ '' is not supported'')))"

text \<open>A JSON object body: \<open>data.get(key)\<close>.\<close>

type_synonym body = "(string \<times> pyval) list"

definition body_get :: "body \<Rightarrow> string \<Rightarrow> pyval \<Rightarrow> pyval" where
  "body_get data key dflt = (case map_of data key of None \<Rightarrow> dflt | Some v \<Rightarrow> v)"

definition list_permissions_v2 :: "string option \<Rightarrow> database \<Rightarrow> permission_record list" where
  "list_permissions_v2 app_id db = get_all_permissions_v2 app_id db"

definition crash_or :: "database \<Rightarrow> (response \<times> database) result \<Rightarrow> response \<times> database" where
  "crash_or db r = (case r of Inl e \<Rightarrow> (Crash e, db) | Inr x \<Rightarrow> x)"

definition grant_global_scoped :: "(rat \<Rightarrow> string) \<Rightarrow> body \<Rightarrow> database \<Rightarrow> response \<times> database" where
  "grant_global_scoped ft data db =
     (let app_id = body_get data ''app_id'' VNone;
          service_url = body_get data ''service_url'' VNone;
          grant_payload = body_get data ''grant'' VNone
      in if \<not> truthy app_id \<or> \<not> truthy service_url \<or> grant_payload = VNone
         then (HttpError 400 ''app_id, service_url, and grant are required'', db)
         else crash_or db (
           rbind (sql_text ft app_id) (\<lambda>c. rbind (sql_text ft service_url) (\<lambda>u.
           rbind (grant_permission_v2 (or_empty c) (or_empty u) grant_payload ''global'' None db) (\<lambda>db'.
           Inr (Reply 200 OkBody, db'))))))"

text \<open>
  In \<open>revoke_v2\<close> a NULL scope equals no row; \<open>provider_app_id or ""\<close> makes every falsy value empty.
\<close>

definition revoke_v2 :: "(rat \<Rightarrow> string) \<Rightarrow> body \<Rightarrow> database \<Rightarrow> response \<times> database" where
  "revoke_v2 ft data db =
     (let app_id = body_get data ''app_id'' VNone;
          service_url = body_get data ''service_url'' VNone;
          grant_payload = body_get data ''grant'' VNone;
          provider = body_get data ''provider_app_id'' VNone
      in if \<not> truthy app_id \<or> \<not> truthy service_url \<or> grant_payload = VNone
         then (HttpError 400 ''app_id, service_url, and grant are required'', db)
         else crash_or db (
           rbind (sql_text ft app_id) (\<lambda>c. rbind (sql_text ft service_url) (\<lambda>u.
           rbind (sql_text ft (body_get data ''scope'' (VStr ''global''))) (\<lambda>scope.
           rbind (if truthy provider then sql_text ft provider else Inr None) (\<lambda>p.
           case scope of
             None \<Rightarrow> Inr (HttpError 404 ''Permission not found'', db)
           | Some sc \<Rightarrow>
               (let (revoked, db') = revoke_permission_v2 (or_empty c) (or_empty u) grant_payload sc p db
                in Inr (if revoked then Reply 200 OkBody else HttpError 404 ''Permission not found'', db'))))))))"

text \<open>
  \<open>grant_app_scoped\<close> after its guard: \<open>verify_app_auth\<close> again yields the calling provider.
\<close>

definition app_scoped_consumer :: "(rat \<Rightarrow> string) \<Rightarrow> body \<Rightarrow> database \<Rightarrow> (pyval + response) result" where
  "app_scoped_consumer ft data db =
     (let consumer_app_name = body_get data ''consumer_app_name'' VNone
      in if truthy consumer_app_name
         then rbind (sql_text ft consumer_app_name) (\<lambda>n.
              Inr (case find_app_by_name (or_empty n) db of
                 None \<Rightarrow> Inr (HttpError 404 (''No app named '' @ squote (or_empty n)))
               | Some app \<Rightarrow> Inl (VStr (a_app_id app))))
         else Inr (Inl (body_get data ''consumer_app_id'' VNone)))"

definition is_provider :: "string \<Rightarrow> string \<Rightarrow> database \<Rightarrow> bool" where
  "is_provider service_url app_id db =
     (\<exists>p \<in> set (t_providers db). sp_service_url p = service_url \<and> sp_app_id p = app_id)"

definition grant_app_scoped ::
    "(rat \<Rightarrow> string) \<Rightarrow> auth_env \<Rightarrow> connection \<Rightarrow> body \<Rightarrow> database \<Rightarrow> response \<times> database" where
  "grant_app_scoped ft ae cn data db =
     (case verify_app_auth ae cn db of
        Inl e \<Rightarrow> (if exn_class e = NotAuthorized then HttpError 401 (exn_text e) else Crash e, db)
      | Inr provider_app_id \<Rightarrow>
          (let service_url = body_get data ''service_url'' VNone;
               grant_payload = body_get data ''grant'' VNone
           in crash_or db (
             rbind (app_scoped_consumer ft data db) (\<lambda>consumer.
             case consumer of
               Inr resp \<Rightarrow> Inr (resp, db)
             | Inl consumer_app_id \<Rightarrow>
                 if \<not> truthy consumer_app_id \<or> \<not> truthy service_url \<or> grant_payload = VNone
                 then Inr (HttpError 400 ''consumer_app_name (or consumer_app_id), service_url, and grant are required'', db)
                 else rbind (sql_text ft service_url) (\<lambda>u.
                   if \<not> is_provider (or_empty u) provider_app_id db
                   then Inr (HttpError 403 (''App '' @ provider_app_id @ '' is not a registered provider for '' @ or_empty u), db)
                   else rbind (sql_text ft consumer_app_id) (\<lambda>c.
                        rbind (grant_permission_v2 (or_empty c) (or_empty u) grant_payload ''app'' (Some provider_app_id) db) (\<lambda>db'.
                        Inr (Reply 200 OkBody, db'))))))))"

section \<open>Lemmas\<close>

definition permission_accepted :: "database \<Rightarrow> permission_row \<Rightarrow> bool" where
  "permission_accepted db r = (valid_scope (pr_scope r) \<and> pr_consumer r \<in> a_app_id ` set (t_apps db))"

definition permission_held :: "database \<Rightarrow> permission_row \<Rightarrow> bool" where
  "permission_held db r = (r \<in> set (t_permissions db))"

text \<open>One grant or revocation; a grant that raises leaves the table as it is.\<close>

definition put_permission :: "permission_row \<Rightarrow> database \<Rightarrow> database" where
  "put_permission r db = (case insert_permission r db of Inl _ \<Rightarrow> db | Inr db' \<Rightarrow> db')"

lemma insert_permission_Inr:
  "insert_permission r db = Inr db' \<Longrightarrow>
   db' = db \<or> permission_accepted db r \<and> db' = db\<lparr>t_permissions := t_permissions db @ [r]\<rparr>"
  by (auto simp: insert_permission_def permission_accepted_def split: if_splits)

lemma grant_app_scoped_insert:
  assumes "verify_app_auth ae cn db = Inr provider" and "grant_app_scoped ft ae cn data db = (resp, db')"
    and "db' \<noteq> db"
  shows "\<exists>c u g. is_provider u provider db \<and> resp = Reply 200 OkBody
    \<and> insert_permission (permission_row_of c u g ''app'' (Some provider)) db = Inr db'"
proof (cases "app_scoped_consumer ft data db")
  case (Inr consumer)
  show ?thesis
  proof (cases consumer)
    case (Inl c)
    with \<open>app_scoped_consumer ft data db = Inr consumer\<close> show ?thesis
      using assms by (auto simp: grant_app_scoped_def Let_def crash_or_def rbind_eq_Inl grant_permission_v2_def
          split: sum.splits if_splits)
  next
    case (Inr r)
    with \<open>app_scoped_consumer ft data db = Inr consumer\<close> show ?thesis
      using assms by (auto simp: grant_app_scoped_def Let_def crash_or_def)
  qed
qed (use assms in \<open>auto simp: grant_app_scoped_def Let_def crash_or_def\<close>)

interpretation permission_table: grant_store permission_held put_permission delete_permission permission_accepted
  by unfold_locales
    (auto simp: permission_held_def put_permission_def insert_permission_def delete_permission_def
      permission_accepted_def)

text \<open>The operations as the callers write them.\<close>

datatype permission_op =
    Grant string string pyval string "string option"
  | Revoke string string pyval string "string option"

fun permission_step :: "permission_op \<Rightarrow> database \<Rightarrow> database" where
  "permission_step (Grant c u g sc p) db =
     (case grant_permission_v2 c u g sc p db of Inl _ \<Rightarrow> db | Inr db' \<Rightarrow> db')"
| "permission_step (Revoke c u g sc p) db = snd (revoke_permission_v2 c u g sc p db)"

fun op_write :: "permission_op \<Rightarrow> permission_row store_op" where
  "op_write (Grant c u g sc p) = Put (permission_row_of c u g sc p)"
| "op_write (Revoke c u g sc p) = Del (permission_row_of c u g sc p)"

lemma permission_step_write:
  "permission_step op db = (case op_write op of Put r \<Rightarrow> put_permission r db | Del r \<Rightarrow> delete_permission r db)"
  by (cases op) (simp_all add: grant_permission_v2_def put_permission_def revoke_permission_v2_def Let_def)

lemma fold_permission_step:
  "fold permission_step ops db
     = fold (\<lambda>w. case w of Put r \<Rightarrow> put_permission r | Del r \<Rightarrow> delete_permission r) (map op_write ops) db"
proof (induction ops arbitrary: db)
  case (Cons op ops)
  then show ?case
    by (cases "op_write op") (simp_all add: permission_step_write)
qed simp

section \<open>Properties\<close>

text \<open>After any sequence of grants and revocations, also repeated and refused ones, a permission is
  held exactly when the last one that names it (up to the order of the keys in its payload) granted it,
  or when none names it and it was held before; a grant counts only for an installed consumer and a
  known scope.\<close>

theorem permission_last_write_wins:
  "permission_row_of c u g sc p \<in> set (t_permissions (fold permission_step ops db)) \<longleftrightarrow>
   last_write (valid_scope sc \<and> c \<in> a_app_id ` set (t_apps db)) (permission_row_of c u g sc p)
     (map op_write ops) (permission_row_of c u g sc p \<in> set (t_permissions db))"
  using permission_table.run_held [of "map op_write ops" db "permission_row_of c u g sc p"]
  by (simp add: fold_permission_step permission_held_def permission_accepted_def permission_row_of_def)

text \<open>C35: An app that authenticates with its token can add at most one permission, scoped to itself as
  the provider, for a service it is registered to provide and an installed consumer; every other row and
  table stays as it was.\<close>

theorem grant_app_scoped_confined:
  assumes "grant_app_scoped ft ae cn data db = (resp, db')"
  shows "db' = db \<or> (\<exists>provider r. verify_app_auth ae cn db = Inr provider
      \<and> is_provider (pr_service_url r) provider db \<and> pr_provider r = provider \<and> pr_scope r = ''app''
      \<and> pr_consumer r \<in> a_app_id ` set (t_apps db) \<and> resp = Reply 200 OkBody
      \<and> db' = db\<lparr>t_permissions := t_permissions db @ [r]\<rparr>)"
proof (cases "verify_app_auth ae cn db")
  case (Inr provider)
  show ?thesis
  proof (cases "db' = db")
    case False
    from grant_app_scoped_insert [OF Inr assms False] obtain c u g where
      "is_provider u provider db" "resp = Reply 200 OkBody"
      "insert_permission (permission_row_of c u g ''app'' (Some provider)) db = Inr db'"
      by blast
    then show ?thesis
      using Inr False insert_permission_Inr [of "permission_row_of c u g ''app'' (Some provider)" db db']
      by (intro disjI2 exI [of _ provider] exI [of _ "permission_row_of c u g ''app'' (Some provider)"])
        (auto simp: permission_row_of_def or_empty_def permission_accepted_def)
  qed simp
qed (use assms in \<open>auto simp: grant_app_scoped_def\<close>)

section \<open>Example\<close>

definition example_pdb :: database where
  "example_pdb = example_ddb\<lparr>t_providers := [\<lparr>sp_service_url = ''secrets.dev'', sp_app_id = ''AAAAAAAAAAAA'',
     sp_service_version = ''1.0'', sp_endpoint = ''/v1''\<rparr>]\<rparr>"

definition example_grant_body :: body where
  "example_grant_body = [(''consumer_app_name'', VStr ''notes''), (''service_url'', VStr ''secrets.dev''),
     (''grant'', VDict [(''key'', VStr ''DB'')])]"

theorem grant_app_scoped_confined_witness:
  "\<exists>r. snd (grant_app_scoped (\<lambda>_. []) example_auth app_conn example_grant_body example_pdb)
      = example_pdb\<lparr>t_permissions := t_permissions example_pdb @ [r]\<rparr> \<and> pr_provider r = ''AAAAAAAAAAAA''"
proof -
  let ?r = "grant_app_scoped (\<lambda>_. []) example_auth app_conn example_grant_body example_pdb"
  have n: "length (t_permissions (snd ?r)) = 1" "t_permissions example_pdb = []"
    "verify_app_auth example_auth app_conn example_pdb = Inr ''AAAAAAAAAAAA''"
    by code_simp+
  have "?r = (fst ?r, snd ?r)"
    by simp
  from grant_app_scoped_confined [OF this] n show ?thesis
    by auto
qed

end
