(* ===== verification/Services.thy ===== *)
theory Services
  imports AppId Manifest Permissions
begin

text \<open>
  Cross-app services (\<open>core/service_interface\<close>, \<open>web/routes/services_v2.py\<close>, \<open>web/routes/api/services_v2.py\<close>):
  which apps provide a service, which provider serves a call, the identity and grants a provider sees
  of its caller, and the routes.  The registry of builtin services is an argument (it is empty in this
  revision), a builtin's ASGI application is named by a string, and forwarding the request itself is
  left out.  Rows of a SELECT without ORDER BY come in the order of the table list.
\<close>

section \<open>Providers\<close>

record builtin_service =
  b_service_url :: string
  b_version :: string
  b_app :: string

datatype proxy_target = LocalPort int | InProcess string

record service_provider =
  pv_service_url :: string
  pv_app_id :: string
  pv_app_name :: string
  pv_service_version :: string
  pv_endpoint :: string
  pv_status :: string
  pv_is_default :: bool

record resolved_provider =
  rp_service_url :: string
  rp_app_id :: string
  rp_app_name :: string
  rp_service_version :: string
  rp_endpoint :: string
  rp_target :: proxy_target

definition BUILTIN_SERVICES :: "builtin_service list" where
  "BUILTIN_SERVICES = []"

definition builtin_by_url :: "builtin_service list \<Rightarrow> string \<Rightarrow> builtin_service option" where
  "builtin_by_url bs service_url = find (\<lambda>b. b_service_url b = service_url) bs"

definition builtin_as_provider :: "builtin_service \<Rightarrow> bool \<Rightarrow> service_provider" where
  "builtin_as_provider b is_default = \<lparr>pv_service_url = b_service_url b, pv_app_id = ROUTER_APP_ID,
     pv_app_name = ROUTER_APP_NAME, pv_service_version = b_version b, pv_endpoint = ''/'',
     pv_status = ''running'', pv_is_default = is_default\<rparr>"

fun status_text :: "app_status \<Rightarrow> string" where
  "status_text Building = ''building''"
| "status_text Starting = ''starting''"
| "status_text Running = ''running''"
| "status_text Stopped = ''stopped''"
| "status_text Error = ''error''"
| "status_text Removing = ''removing''"

text \<open>\<open>service_providers_v2 sp JOIN apps a ON a.app_id = sp.app_id\<close>.\<close>

definition provider_join :: "database \<Rightarrow> (provider_row \<times> app_row) list" where
  "provider_join db = [(p, a). p \<leftarrow> t_providers db, a \<leftarrow> t_apps db, a_app_id a = sp_app_id p]"

section \<open>Registration and defaults\<close>

definition lookup_service_by_manifest_shortname ::
    "'v libs \<Rightarrow> string \<Rightarrow> string \<Rightarrow> database \<Rightarrow> (string \<times> pyval) result" where
  "lookup_service_by_manifest_shortname L consumer_app_id shortname db =
     (case (case select_app consumer_app_id db of None \<Rightarrow> None | Some r \<Rightarrow> a_manifest_raw r) of
        None \<Rightarrow> Inl (Exn LookupError (''No manifest stored for app '' @ squote consumer_app_id))
      | Some raw \<Rightarrow>
          if raw = [] then Inl (Exn LookupError (''No manifest stored for app '' @ squote consumer_app_id))
          else rbind (parse_manifest_from_string L raw) (\<lambda>m.
            case find (\<lambda>c. sc_shortname c = shortname) (m_consumes m) of
              Some c \<Rightarrow> Inr (sc_service c, sc_version c)
            | None \<Rightarrow> Inl (Exn LookupError (''Shortname '' @ squote shortname @ '' not declared in ''
                        @ squote consumer_app_id @ '' manifest''))))"

text \<open>
  \<open>fk\<close>: whether the connection enforces foreign keys.  The connections of the background workers do not.
\<close>

definition insert_or_replace_provider :: "bool \<Rightarrow> provider_row \<Rightarrow> database \<Rightarrow> database result" where
  "insert_or_replace_provider fk r db =
     (if fk \<and> sp_app_id r \<notin> a_app_id ` set (t_apps db)
      then Inl (Exn IntegrityError ''FOREIGN KEY constraint failed'')
      else Inr (db\<lparr>t_providers := filter (\<lambda>p. \<not> (sp_service_url p = sp_service_url r \<and> sp_app_id p = sp_app_id r
             \<and> sp_service_version p = sp_service_version r)) (t_providers db) @ [r]\<rparr>))"

fun insert_providers :: "bool \<Rightarrow> provider_row list \<Rightarrow> database \<Rightarrow> database result" where
  "insert_providers fk [] db = Inr db"
| "insert_providers fk (r # rs) db = rbind (insert_or_replace_provider fk r db) (insert_providers fk rs)"

definition provided_row :: "string \<Rightarrow> service_provides \<Rightarrow> provider_row" where
  "provided_row app_id svc = \<lparr>sp_service_url = sv_service svc, sp_app_id = app_id,
     sp_service_version = sv_version svc, sp_endpoint = sv_endpoint svc\<rparr>"

text \<open>The savepoint makes it all or nothing: on an exception the caller keeps the state it had.\<close>

definition register_services_provided_by_app :: "bool \<Rightarrow> string \<Rightarrow> app_manifest \<Rightarrow> database \<Rightarrow> database result" where
  "register_services_provided_by_app fk app_id m db =
     insert_providers fk (map (provided_row app_id) (m_provides m))
       (db\<lparr>t_providers := filter (\<lambda>p. sp_app_id p \<noteq> app_id) (t_providers db)\<rparr>)"

text \<open>\<open>max(xs, key=...)\<close>: the first of the greatest elements.\<close>

fun max_by :: "('a \<Rightarrow> 'a \<Rightarrow> bool) \<Rightarrow> 'a \<Rightarrow> 'a list \<Rightarrow> 'a" where
  "max_by lt best [] = best"
| "max_by lt best (x # xs) = max_by lt (if lt best x then x else best) xs"

definition version_key :: "'v libs \<Rightarrow> provider_row \<times> app_row \<Rightarrow> ('v \<times> string) result" where
  "version_key L pa =
     (case parse_version L (sp_service_version (fst pa)) of
        None \<Rightarrow> Inl (Exn ValueError (''Invalid version: '' @ squote (sp_service_version (fst pa))))
      | Some v \<Rightarrow> Inr (v, sp_app_id (fst pa)))"

definition key_less :: "'v::linorder \<times> string \<Rightarrow> 'v \<times> string \<Rightarrow> bool" where
  "key_less a b = (fst a < fst b \<or> (fst a = fst b \<and> snd a < snd b))"

definition incumbent_provider_id :: "'v::linorder libs \<Rightarrow> string \<Rightarrow> database \<Rightarrow> string option result" where
  "incumbent_provider_id L service_url db =
     (let rows = filter (\<lambda>(p, a). sp_service_url p = service_url) (provider_join db);
          oldest = Min ((\<lambda>(p, a). a_created_at a) ` set rows);
          tied = filter (\<lambda>(p, a). a_created_at a = oldest) rows
      in if rows = [] then Inr None
         else rbind (rmap (version_key L) tied) (\<lambda>ks. Inr (Some (snd (max_by key_less (hd ks) (tl ks))))))"

definition default_provider_id_for_service ::
    "builtin_service list \<Rightarrow> 'v::linorder libs \<Rightarrow> string \<Rightarrow> database \<Rightarrow> string option result" where
  "default_provider_id_for_service bs L service_url db =
     (case find (\<lambda>(url, app). url = service_url) (t_defaults db) of
        Some (url, app) \<Rightarrow> Inr (Some app)
      | None \<Rightarrow>
          if builtin_by_url bs service_url \<noteq> None then Inr (Some ROUTER_APP_ID)
          else incumbent_provider_id L service_url db)"

definition list_all_service_providers ::
    "builtin_service list \<Rightarrow> 'v::linorder libs \<Rightarrow> database \<Rightarrow> string option \<Rightarrow> service_provider list result" where
  "list_all_service_providers bs L db service_url =
     (let wanted = (\<lambda>url. service_url = None \<or> service_url = Some url);
          rows = filter (\<lambda>(p, a). wanted (sp_service_url p)) (provider_join db);
          builtins = filter (\<lambda>b. wanted (b_service_url b)) bs;
          urls = map (\<lambda>(p, a). sp_service_url p) rows @ map b_service_url builtins
      in rbind (rmap (\<lambda>url. rbind (default_provider_id_for_service bs L url db) (\<lambda>d. Inr (url, d))) urls) (\<lambda>defaults.
         let default_of = (\<lambda>url. case map_of defaults url of None \<Rightarrow> None | Some d \<Rightarrow> d)
         in Inr (map (\<lambda>b. builtin_as_provider b (default_of (b_service_url b) = Some ROUTER_APP_ID)) builtins
              @ map (\<lambda>(p, a). \<lparr>pv_service_url = sp_service_url p, pv_app_id = sp_app_id p, pv_app_name = a_name a,
                     pv_service_version = sp_service_version p, pv_endpoint = sp_endpoint p,
                     pv_status = status_text (a_status a),
                     pv_is_default = (default_of (sp_service_url p) = Some (sp_app_id p))\<rparr>) rows)))"

definition clear_default :: "string \<Rightarrow> database \<Rightarrow> database" where
  "clear_default service_url db = db\<lparr>t_defaults := filter (\<lambda>(url, app). url \<noteq> service_url) (t_defaults db)\<rparr>"

definition set_default ::
    "builtin_service list \<Rightarrow> string \<Rightarrow> string \<Rightarrow> database \<Rightarrow> database result" where
  "set_default bs service_url app_id db =
     (if app_id = ROUTER_APP_ID
      then (if builtin_by_url bs service_url = None
            then Inl (Exn LookupError (''The router does not provide '' @ squote service_url))
            else Inr (clear_default service_url db))
      else if \<not> is_provider service_url app_id db
      then Inl (Exn LookupError (''App '' @ squote app_id @ '' does not provide '' @ squote service_url))
      else Inr ((clear_default service_url db)\<lparr>t_defaults := t_defaults (clear_default service_url db) @ [(service_url, app_id)]\<rparr>))"

section \<open>Resolution\<close>

definition check_version ::
    "'v libs \<Rightarrow> string \<Rightarrow> ('v \<Rightarrow> bool) \<Rightarrow> string \<Rightarrow> string \<Rightarrow> unit result" where
  "check_version L provider_version spec specifier_text provider_name =
     (case parse_version L provider_version of
        None \<Rightarrow> Inl (Exn ProviderVersionError (''Provider '' @ squote provider_name @ '' has invalid version '' @ squote provider_version))
      | Some v \<Rightarrow>
          if \<not> spec v
          then Inl (Exn ProviderVersionError (''Provider '' @ squote provider_name @ '' version '' @ provider_version
                 @ '' does not match '' @ squote specifier_text))
          else Inr ())"

text \<open>The provider once it is chosen: the router's builtin, or the row of the app.\<close>

definition resolve_builtin ::
    "builtin_service list \<Rightarrow> 'v libs \<Rightarrow> string \<Rightarrow> ('v \<Rightarrow> bool) \<Rightarrow> string \<Rightarrow> resolved_provider result" where
  "resolve_builtin bs L service_url spec specifier_text =
     (case builtin_by_url bs service_url of
        None \<Rightarrow> Inl (Exn NoProviderError (''The router does not provide '' @ squote service_url))
      | Some b \<Rightarrow>
          rbind (check_version L (b_version b) spec specifier_text ROUTER_APP_NAME) (\<lambda>_.
          Inr \<lparr>rp_service_url = service_url, rp_app_id = ROUTER_APP_ID, rp_app_name = ROUTER_APP_NAME,
               rp_service_version = b_version b, rp_endpoint = ''/'', rp_target = InProcess (b_app b)\<rparr>))"

definition resolve_app ::
    "'v libs \<Rightarrow> string \<Rightarrow> string \<Rightarrow> ('v \<Rightarrow> bool) \<Rightarrow> string \<Rightarrow> database \<Rightarrow> resolved_provider result" where
  "resolve_app L service_url target_app_id spec specifier_text db =
     (case find (\<lambda>(p, a). sp_service_url p = service_url \<and> sp_app_id p = target_app_id) (provider_join db) of
        None \<Rightarrow> Inl (Exn NoProviderError (''Provider '' @ squote target_app_id @ '' not found for service '' @ squote service_url))
      | Some (p, a) \<Rightarrow>
          if a_status a \<noteq> Running
          then Inl (Exn ProviderNotRunningError (''Provider '' @ squote (a_name a) @ '' for '' @ squote service_url @ '' is not running''))
          else rbind (check_version L (sp_service_version p) spec specifier_text (a_name a)) (\<lambda>_.
            Inr \<lparr>rp_service_url = service_url, rp_app_id = target_app_id, rp_app_name = a_name a,
                 rp_service_version = sp_service_version p, rp_endpoint = sp_endpoint p,
                 rp_target = LocalPort (a_local_port a)\<rparr>))"

definition resolve_provider ::
    "builtin_service list \<Rightarrow> 'v::linorder libs \<Rightarrow> string \<Rightarrow> pyval \<Rightarrow> database \<Rightarrow> string option \<Rightarrow> resolved_provider result" where
  "resolve_provider bs L service_url version_specifier db provider_app_id =
     (case parse_spec L version_specifier of
        Inl e \<Rightarrow> if is_value_error e
          then Inl (Exn ProviderUnavailable (''Invalid version specifier: '' @ py_str L version_specifier)) else Inl e
      | Inr spec \<Rightarrow>
          rbind (if str_truthy provider_app_id then Inr provider_app_id
                 else default_provider_id_for_service bs L service_url db) (\<lambda>target.
          case target of
            None \<Rightarrow> Inl (Exn NoProviderError (''No provider for service '' @ squote service_url))
          | Some target_app_id \<Rightarrow>
              if target_app_id = ROUTER_APP_ID
              then resolve_builtin bs L service_url spec (py_str L version_specifier)
              else resolve_app L service_url target_app_id spec (py_str L version_specifier) db))"

section \<open>What a provider sees of its caller\<close>

definition grant_entry :: "granted_permission \<Rightarrow> pyval" where
  "grant_entry g = VDict [(''grant'', gp_grant g), (''scope'', VStr (gp_scope g))]"

definition grants_for_provider :: "string \<Rightarrow> string \<Rightarrow> string \<Rightarrow> database \<Rightarrow> pyval list" where
  "grants_for_provider consumer_app_id service_url provider_app_id db =
     map grant_entry (filter (\<lambda>g. gp_scope g = ''global'' \<or> gp_provider_app_id g = Some provider_app_id)
       (get_granted_permissions_v2 consumer_app_id service_url db))"

text \<open>\<open>json_text L\<close> is \<open>json.dumps\<close>.\<close>

definition consumer_headers :: "'v libs \<Rightarrow> string \<Rightarrow> string \<Rightarrow> pyval list \<Rightarrow> (string \<times> string) list" where
  "consumer_headers L consumer_id consumer_name permissions =
     [(''X-OpenHost-Consumer-Id'', consumer_id), (''X-OpenHost-Consumer-Name'', consumer_name),
      (''X-OpenHost-Permissions'', json_text L (VList permissions))]"

definition router_consumer_headers :: "'v libs \<Rightarrow> pyval list \<Rightarrow> (string \<times> string) list" where
  "router_consumer_headers L permissions = consumer_headers L ROUTER_APP_ID ROUTER_APP_NAME permissions"

definition app_consumer_headers ::
    "'v libs \<Rightarrow> string \<Rightarrow> string \<Rightarrow> string \<Rightarrow> database \<Rightarrow> (string \<times> string) list result" where
  "app_consumer_headers L consumer_app_id service_url provider_app_id db =
     (case select_app consumer_app_id db of
        None \<Rightarrow> Inl (Exn AssertionError [])
      | Some r \<Rightarrow> Inr (consumer_headers L consumer_app_id (a_name r)
          (grants_for_provider consumer_app_id service_url provider_app_id db)))"

text \<open>\<open>urllib.parse.urlencode\<close> of three string pairs.\<close>

definition quote_plus :: "string \<Rightarrow> string" where
  "quote_plus s = concat (map (\<lambda>c. if c = CHR '' '' then ''+'' else url_quote [c]) s)"

definition urlencode :: "(string \<times> string) list \<Rightarrow> string" where
  "urlencode kvs = join ''&'' (map (\<lambda>(k, v). quote_plus k @ ''='' @ quote_plus v) kvs)"

definition approve_grant_url ::
    "'v libs \<Rightarrow> string \<Rightarrow> string \<Rightarrow> pyval \<Rightarrow> database \<Rightarrow> string option \<Rightarrow> string" where
  "approve_grant_url L consumer_app_id service_url g db browsing_netloc =
     (let query = urlencode [(''app'', consumer_app_id), (''service'', service_url), (''grant'', json_text L (json_canon g))];
          approve_path = ''/approve-permissions-v2?'' @ query;
          matched = (if str_truthy browsing_netloc then domain_match db (the browsing_netloc) else None)
      in case matched of
           Some d \<Rightarrow> scheme d @ ''://'' @ host_with_request_port (name_no_port d) (or_empty browsing_netloc) @ approve_path
         | None \<Rightarrow>
             (case primary_domain_or_none db of
                None \<Rightarrow> approve_path
              | Some d \<Rightarrow> scheme d @ ''://'' @ dom_name d @ approve_path))"

section \<open>Routes\<close>

definition lstrip_slash :: "string \<Rightarrow> string" where
  "lstrip_slash s = dropWhile (\<lambda>c. c = CHR ''/'') s"

record service_request =
  sq_service_url :: string
  sq_target :: proxy_target
  sq_target_path :: string
  sq_extra_headers :: "(string \<times> string) list"

text \<open>The HTTP exceptions of \<open>_service_call_common\<close> are the left of the inner sum.\<close>

definition service_call_common ::
    "builtin_service list \<Rightarrow> 'v::linorder libs \<Rightarrow> string \<Rightarrow> string \<Rightarrow> string \<Rightarrow> database \<Rightarrow> string option
     \<Rightarrow> (nat \<times> string + service_request) result" where
  "service_call_common bs L consumer_app_id shortname rest db provider_app_id =
     (case lookup_service_by_manifest_shortname L consumer_app_id shortname db of
        Inl e \<Rightarrow> if is_lookup_error e then Inr (Inl (404, exn_text e)) else Inl e
      | Inr (service_url, version_spec) \<Rightarrow>
          (case resolve_provider bs L service_url version_spec db provider_app_id of
             Inl e \<Rightarrow> if is_provider_unavailable e then Inr (Inl (503, exn_text e)) else Inl e
           | Inr provider \<Rightarrow>
               rbind (app_consumer_headers L consumer_app_id service_url (rp_app_id provider) db) (\<lambda>headers.
               Inr (Inr \<lparr>sq_service_url = service_url, sq_target = rp_target provider,
                 sq_target_path = rstrip_slash (rp_endpoint provider) @ ''/'' @ lstrip_slash rest,
                 sq_extra_headers = headers\<rparr>))))"

text \<open>What the proxied call is handed on with; \<open>HttpError\<close> and \<open>Crash\<close> end the request.\<close>

definition service_call ::
    "builtin_service list \<Rightarrow> 'v::linorder libs \<Rightarrow> auth_env \<Rightarrow> connection \<Rightarrow> string \<Rightarrow> string \<Rightarrow> string option
     \<Rightarrow> database \<Rightarrow> response + service_request" where
  "service_call bs L ae cn shortname rest provider_header db =
     (case verify_app_auth ae cn db of
        Inl e \<Rightarrow> Inl (if exn_class e = NotAuthorized then HttpError 401 (exn_text e) else Crash e)
      | Inr consumer_app_id \<Rightarrow>
          (let provider_override = (if str_truthy provider_header then provider_header else None)
           in case service_call_common bs L consumer_app_id shortname rest db provider_override of
                Inl e \<Rightarrow> Inl (Crash e)
              | Inr (Inl (status, detail)) \<Rightarrow> Inl (HttpError status detail)
              | Inr (Inr req) \<Rightarrow> Inr req))"

text \<open>The WebSocket variant closes with a code, or hands the request to the proxy.\<close>

datatype ws_outcome = WsClose nat string | WsCrash exn | WsProxy int string "(string \<times> string) list"

definition service_call_ws ::
    "builtin_service list \<Rightarrow> 'v::linorder libs \<Rightarrow> auth_env \<Rightarrow> connection \<Rightarrow> string \<Rightarrow> string \<Rightarrow> string option
     \<Rightarrow> database \<Rightarrow> ws_outcome" where
  "service_call_ws bs L ae cn shortname rest provider_header db =
     (case verify_app_auth ae cn db of
        Inl e \<Rightarrow> if exn_class e = NotAuthorized then WsClose 4401 ''Missing or invalid authorization'' else WsCrash e
      | Inr consumer_app_id \<Rightarrow>
          (let provider_override = (if str_truthy provider_header then provider_header else None)
           in case service_call_common bs L consumer_app_id shortname rest db provider_override of
                Inl e \<Rightarrow> WsCrash e
              | Inr (Inl (status, detail)) \<Rightarrow> WsClose (if status = 404 then 4404 else 4503) detail
              | Inr (Inr req) \<Rightarrow>
                  (case sq_target req of
                     InProcess _ \<Rightarrow> WsClose 4503 ''This service is provided in-process and has no websocket endpoint''
                   | LocalPort port \<Rightarrow> WsProxy port (sq_target_path req) (sq_extra_headers req))))"

text \<open>The CORS preflight: the headers of the 204, or \<open>None\<close> for the 403.\<close>

definition cors_headers :: "string \<Rightarrow> (string \<times> string) list" where
  "cors_headers origin = [(''Access-Control-Allow-Origin'', origin), (''Access-Control-Allow-Credentials'', ''true''),
     (''Access-Control-Allow-Methods'', ''GET, POST, PUT, DELETE, PATCH, OPTIONS''),
     (''Access-Control-Allow-Headers'', ''Content-Type, Authorization'')]"

definition service_call_cors :: "string option \<Rightarrow> database \<Rightarrow> (string \<times> string) list option" where
  "service_call_cors origin db =
     (case origin of
        None \<Rightarrow> None
      | Some o' \<Rightarrow> if get_app_from_hostname o' db = None then None else Some (cors_headers o'))"

text \<open>
  \<open>_inject_grant_url_if_global\<close> on a 403 body that is JSON: the body to send instead, or \<open>None\<close> to
  leave the response alone.  An unreadable \<open>Origin\<close> raises.
\<close>

definition dict_set :: "string \<Rightarrow> pyval \<Rightarrow> (string \<times> pyval) list \<Rightarrow> (string \<times> pyval) list" where
  "dict_set k v kvs =
     (if k \<in> fst ` set kvs then map (\<lambda>(k', v'). if k' = k then (k', v) else (k', v')) kvs else kvs @ [(k, v)])"

definition inject_grant_url_if_global ::
    "'v libs \<Rightarrow> pyval \<Rightarrow> string \<Rightarrow> string \<Rightarrow> database \<Rightarrow> string option result \<Rightarrow> pyval option result" where
  "inject_grant_url_if_global L body service_url consumer_app_id db origin =
     (case body of
        VDict kvs \<Rightarrow>
          (case map_of kvs ''required_grant'' of
             Some (VDict rg) \<Rightarrow>
               (if body_get rg ''scope'' (VStr ''global'') \<noteq> VStr ''global'' then Inr None
                else case body_get rg ''grant'' VNone of
                  VStr g \<Rightarrow> rbind origin (\<lambda>o'. Inr (Some (VDict (dict_set ''required_grant'' (VDict (dict_set ''grant_url''
                    (VStr (approve_grant_url L consumer_app_id service_url (VStr g) db o')) rg)) kvs))))
                | VDict g \<Rightarrow> rbind origin (\<lambda>o'. Inr (Some (VDict (dict_set ''required_grant'' (VDict (dict_set ''grant_url''
                    (VStr (approve_grant_url L consumer_app_id service_url (VDict g) db o')) rg)) kvs))))
                | _ \<Rightarrow> Inr None)
           | _ \<Rightarrow> Inr None)
      | _ \<Rightarrow> Inr None)"

text \<open>\<open>oauth_callback_proxy_v2\<close>: the local port the callback is forwarded to.  \<open>loads\<close> is \<open>json.loads\<close>.\<close>

definition oauth_callback_proxy_v2 :: "(string \<Rightarrow> pyval option) \<Rightarrow> string \<Rightarrow> database \<Rightarrow> response + int" where
  "oauth_callback_proxy_v2 loads state_raw db =
     (if state_raw = [] then Inl (HttpError 400 ''Missing state parameter'')
      else case loads state_raw of
        None \<Rightarrow> Inl (HttpError 400 ''Invalid state parameter'')
      | Some state \<Rightarrow>
          (case dict_get state ''app'' VNone of
             Inl e \<Rightarrow> Inl (Crash e)
           | Inr v \<Rightarrow>
               (case nonempty_str (Some v) of
                  None \<Rightarrow> Inl (HttpError 400 ''Missing app in state'')
                | Some app_name \<Rightarrow>
                    (case find_app_by_name app_name db of
                       None \<Rightarrow> Inl (HttpError 503 (''App '' @ squote app_name @ '' not found''))
                     | Some app \<Rightarrow>
                         if a_status app \<noteq> Running
                         then Inl (HttpError 503 (''App '' @ squote app_name @ '' is not running''))
                         else Inr (a_local_port app)))))"

definition set_default_route :: "builtin_service list \<Rightarrow> string \<Rightarrow> string \<Rightarrow> database \<Rightarrow> response \<times> database" where
  "set_default_route bs service_url app_id db =
     (case set_default bs service_url app_id db of
        Inl e \<Rightarrow> (if is_lookup_error e then HttpError 404 ''No such provider'' else Crash e, db)
      | Inr db' \<Rightarrow> (Reply 200 OkBody, db'))"

definition remove_default :: "string \<Rightarrow> database \<Rightarrow> response \<times> database" where
  "remove_default service_url db = (Reply 200 OkBody, clear_default service_url db)"

text \<open>\<open>service_client._service_url\<close>.\<close>

definition client_service_url :: "string \<Rightarrow> string \<Rightarrow> string \<Rightarrow> string" where
  "client_service_url base_url endpoint path =
     (let pre = rstrip_slash (lstrip_slash endpoint)
      in if pre \<noteq> [] then base_url @ ''/'' @ pre @ path else base_url @ path)"

section \<open>Lemmas\<close>

lemma provider_join_mem:
  "(p, a) \<in> set (provider_join db) \<longleftrightarrow> p \<in> set (t_providers db) \<and> a \<in> set (t_apps db) \<and> a_app_id a = sp_app_id p"
  by (auto simp: provider_join_def)

lemma max_by_in: "max_by lt best xs \<in> set (best # xs)"
  by (induction lt best xs rule: max_by.induct) auto

lemma check_version_Inr:
  "check_version L ver spec txt name = Inr u \<Longrightarrow> \<exists>v. parse_version L ver = Some v \<and> spec v"
  by (auto simp: check_version_def split: option.splits if_splits)

text \<open>A provider app that can serve a call: registered, running, on a version the call accepts.\<close>

definition can_serve :: "'v libs \<Rightarrow> ('v \<Rightarrow> bool) \<Rightarrow> string \<Rightarrow> resolved_provider \<Rightarrow> database \<Rightarrow> bool" where
  "can_serve L spec service_url rp db = (\<exists>(p, a) \<in> set (provider_join db).
     sp_service_url p = service_url \<and> sp_app_id p = rp_app_id rp \<and> a_status a = Running
     \<and> rp_service_version rp = sp_service_version p \<and> rp_endpoint rp = sp_endpoint p \<and> rp_app_name rp = a_name a
     \<and> rp_target rp = LocalPort (a_local_port a)
     \<and> (\<exists>v. parse_version L (sp_service_version p) = Some v \<and> spec v))"

lemma resolve_app_Inr:
  "resolve_app L url app spec txt db = Inr rp \<Longrightarrow>
   rp_app_id rp = app \<and> rp_service_url rp = url \<and> can_serve L spec url rp db"
  unfolding resolve_app_def can_serve_def
  by (auto split: option.splits if_splits dest!: find_Some_iff_filter check_version_Inr) fastforce

lemma resolve_builtin_Inr:
  "resolve_builtin bs L url spec txt = Inr rp \<Longrightarrow> rp_app_id rp = ROUTER_APP_ID \<and> rp_service_url rp = url
   \<and> (\<exists>b v. b \<in> set bs \<and> b_service_url b = url \<and> rp_target rp = InProcess (b_app b)
        \<and> parse_version L (b_version b) = Some v \<and> spec v)"
  by (auto simp: resolve_builtin_def builtin_by_url_def split: option.splits
      dest!: find_Some_iff_filter check_version_Inr)

lemma version_key_app: "version_key L pa = Inr k \<Longrightarrow> sp_app_id (fst pa) = snd k"
  by (auto simp: version_key_def split: option.splits)

lemma incumbent_Inr:
  assumes "incumbent_provider_id L url db = Inr r"
  shows "case r of None \<Rightarrow> \<forall>p \<in> set (provider_join db). sp_service_url (fst p) \<noteq> url
    | Some app \<Rightarrow> \<exists>(p, a) \<in> set (provider_join db). sp_service_url p = url \<and> sp_app_id p = app
        \<and> (\<forall>(q, b) \<in> set (provider_join db). sp_service_url q = url \<longrightarrow> a_created_at a \<le> a_created_at b)"
proof (cases "filter (\<lambda>(p, a). sp_service_url p = url) (provider_join db) = []")
  case True
  then show ?thesis
    using assms by (auto simp: incumbent_provider_id_def filter_empty_conv Let_def)
next
  case False
  let ?rows = "filter (\<lambda>(p, a). sp_service_url p = url) (provider_join db)"
  let ?oldest = "Min ((\<lambda>(p, a). a_created_at a) ` set ?rows)"
  let ?tied = "filter (\<lambda>(p, a). a_created_at a = ?oldest) ?rows"
  obtain ks where ks: "rmap (version_key L) ?tied = Inr ks" "r = Some (snd (max_by key_less (hd ks) (tl ks)))"
    using assms False by (auto simp: incumbent_provider_id_def Let_def)
  have "?oldest \<in> (\<lambda>(p, a). a_created_at a) ` set ?rows"
    using False by (intro Min_in) (auto simp: filter_empty_conv)
  then have "?tied \<noteq> []"
    by (auto simp: filter_empty_conv)
  then have "ks \<noteq> []"
    using rmap_Inr_length [OF ks(1)] by auto
  then have "max_by key_less (hd ks) (tl ks) \<in> set ks"
    using max_by_in [of key_less "hd ks" "tl ks"] by simp
  from rmap_Inr_set [OF ks(1) this] obtain p a where
    pa: "(p, a) \<in> set ?tied" "version_key L (p, a) = Inr (max_by key_less (hd ks) (tl ks))"
    by auto
  then have "sp_app_id p = snd (max_by key_less (hd ks) (tl ks))"
    by (auto dest: version_key_app)
  moreover have "a_created_at a \<le> a_created_at b"
    if "(q, b) \<in> set (provider_join db)" "sp_service_url q = url" for q b
  proof -
    have "a_created_at b \<in> (\<lambda>(p, a). a_created_at a) ` set ?rows"
      using that by force
    then show ?thesis
      using pa(1) by (auto intro: Min_le)
  qed
  moreover have "(p, a) \<in> set (provider_join db)" "sp_service_url p = url"
    using pa(1) by auto
  ultimately show ?thesis
    unfolding ks(2) option.case by (intro bexI [of _ "(p, a)"]) auto
qed

definition provider_key :: "provider_row \<Rightarrow> string \<times> string \<times> string" where
  "provider_key p = (sp_service_url p, sp_app_id p, sp_service_version p)"

lemma insert_or_replace_provider_Inr:
  assumes "insert_or_replace_provider fk r db = Inr db'"
  shows "db' = db\<lparr>t_providers := filter (\<lambda>p. provider_key p \<noteq> provider_key r) (t_providers db) @ [r]\<rparr>"
  using assms by (auto simp: insert_or_replace_provider_def provider_key_def split: if_splits)

lemma insert_providers_frame: "insert_providers fk rs db = Inr db' \<Longrightarrow> db' = db\<lparr>t_providers := t_providers db'\<rparr>"
proof (induction rs arbitrary: db)
  case (Cons r rs)
  then obtain db1 where i: "insert_or_replace_provider fk r db = Inr db1" "insert_providers fk rs db1 = Inr db'"
    by auto
  have "db' = db1\<lparr>t_providers := t_providers db'\<rparr>"
    by (rule Cons.IH [OF i(2)])
  also have "\<dots> = db\<lparr>t_providers := t_providers db'\<rparr>"
    by (simp add: insert_or_replace_provider_Inr [OF i(1)])
  finally show ?case .
qed simp

lemma insert_providers_keys:
  "insert_providers fk rs db = Inr db' \<Longrightarrow>
   provider_key ` set (t_providers db') = provider_key ` set rs \<union> provider_key ` set (t_providers db)"
proof (induction rs arbitrary: db)
  case (Cons r rs)
  then obtain db1 where "insert_or_replace_provider fk r db = Inr db1" "insert_providers fk rs db1 = Inr db'"
    by auto
  then show ?case
    using Cons.IH [of db1] by (auto dest!: insert_or_replace_provider_Inr)
qed simp

lemma insert_providers_others:
  "insert_providers fk rs db = Inr db' \<Longrightarrow> \<forall>r \<in> set rs. sp_app_id r = app \<Longrightarrow>
   filter (\<lambda>p. sp_app_id p \<noteq> app) (t_providers db') = filter (\<lambda>p. sp_app_id p \<noteq> app) (t_providers db)"
proof (induction rs arbitrary: db)
  case (Cons r rs)
  then obtain db1 where i: "insert_or_replace_provider fk r db = Inr db1" "insert_providers fk rs db1 = Inr db'"
    by auto
  have "filter (\<lambda>p. sp_app_id p \<noteq> app) (t_providers db1) = filter (\<lambda>p. sp_app_id p \<noteq> app) (t_providers db)"
    using Cons.prems(2) by (auto simp: insert_or_replace_provider_Inr [OF i(1)] provider_key_def intro!: filter_cong)
  then show ?case
    using Cons.IH [OF i(2)] Cons.prems(2) by simp
qed simp

lemma insert_providers_total:
  "app \<in> a_app_id ` set (t_apps db) \<Longrightarrow> \<forall>r \<in> set rs. sp_app_id r = app \<Longrightarrow> \<exists>db'. insert_providers fk rs db = Inr db'"
  by (induction rs arbitrary: db) (auto simp: insert_or_replace_provider_def)

lemma clear_default_frame [simp]:
  "t_providers (clear_default url db) = t_providers db" "t_apps (clear_default url db) = t_apps db"
  by (simp_all add: clear_default_def)

lemma clear_default_find:
  "find (\<lambda>(url, app). url = u) (t_defaults (clear_default url db))
     = (if u = url then None else find (\<lambda>(url, app). url = u) (t_defaults db))"
proof -
  have "find (\<lambda>(url, app). url = u) (filter (\<lambda>(x, app). x \<noteq> url) ds)
      = (if u = url then None else find (\<lambda>(url, app). url = u) ds)" for ds :: "(string \<times> string) list"
    by (induction ds) auto
  then show ?thesis by (simp add: clear_default_def)
qed

lemma find_append: "find P (xs @ ys) = (case find P xs of None \<Rightarrow> find P ys | Some x \<Rightarrow> Some x)"
  by (induction xs) auto

lemma default_provider_cong:
  "find (\<lambda>(url, app). url = u) (t_defaults db') = find (\<lambda>(url, app). url = u) (t_defaults db) \<Longrightarrow>
   t_providers db' = t_providers db \<Longrightarrow> t_apps db' = t_apps db \<Longrightarrow>
   default_provider_id_for_service bs L u db' = default_provider_id_for_service bs L u db"
proof -
  assume d: "find (\<lambda>(url, app). url = u) (t_defaults db') = find (\<lambda>(url, app). url = u) (t_defaults db)"
    and "t_providers db' = t_providers db" "t_apps db' = t_apps db"
  then have inc: "incumbent_provider_id L u db' = incumbent_provider_id L u db"
    by (simp add: incumbent_provider_id_def provider_join_def)
  show ?thesis
    unfolding default_provider_id_for_service_def d inc ..
qed

lemma resolve_provider_Inr:
  assumes "resolve_provider bs L url version_specifier db pin = Inr rp"
  shows "rp_service_url rp = url \<and> (str_truthy pin \<longrightarrow> Some (rp_app_id rp) = pin) \<and>
    (\<exists>spec. parse_spec L version_specifier = Inr spec \<and>
      (if rp_app_id rp = ROUTER_APP_ID
       then \<exists>b v. b \<in> set bs \<and> b_service_url b = url \<and> rp_target rp = InProcess (b_app b)
              \<and> parse_version L (b_version b) = Some v \<and> spec v
       else can_serve L spec url rp db))"
proof -
  obtain spec where spec: "parse_spec L version_specifier = Inr spec"
    using assms by (cases "parse_spec L version_specifier") (auto simp: resolve_provider_def split: if_splits)
  then obtain t where t: "(if str_truthy pin then Inr pin else default_provider_id_for_service bs L url db) = Inr t"
    "(case t of None \<Rightarrow> Inl (Exn NoProviderError (''No provider for service '' @ squote url))
      | Some target \<Rightarrow> if target = ROUTER_APP_ID then resolve_builtin bs L url spec (py_str L version_specifier)
          else resolve_app L url target spec (py_str L version_specifier) db) = Inr rp"
    using assms unfolding resolve_provider_def spec sum.case by (elim rbind_InrE) blast
  then obtain target where "t = Some target"
    by (cases t) auto
  with t spec have r: "parse_spec L version_specifier = Inr spec" "str_truthy pin \<longrightarrow> pin = Some target"
    "(if target = ROUTER_APP_ID then resolve_builtin bs L url spec (py_str L version_specifier)
      else resolve_app L url target spec (py_str L version_specifier) db) = Inr rp"
    by auto
  show ?thesis
  proof (cases "target = ROUTER_APP_ID")
    case True
    with r show ?thesis
      using resolve_builtin_Inr [of bs L url spec "py_str L version_specifier" rp] by auto
  next
    case False
    with r show ?thesis
      using resolve_app_Inr [of L url target spec "py_str L version_specifier" db rp] by auto
  qed
qed

text \<open>
  Only one row of the provider is looked at: when an app provides a service in two versions and the row
  that comes first is outside the specifier, the call fails although the other row could serve it.
\<close>

lemma resolve_app_first_row:
  assumes "find (\<lambda>(p, a). sp_service_url p = url \<and> sp_app_id p = app) (provider_join db) = Some (p, a)"
    and "a_status a = Running" and "parse_version L (sp_service_version p) = Some v" and "\<not> spec v"
  shows "\<exists>e. resolve_app L url app spec txt db = Inl e \<and> exn_class e = ProviderVersionError"
  using assms by (simp add: resolve_app_def check_version_def)

section \<open>Example\<close>

definition example_sdb :: database where
  "example_sdb = example_pdb\<lparr>t_apps := [example_row\<lparr>a_manifest_raw := Some ''new''\<rparr>],
     t_permissions := [permission_row_of ''AAAAAAAAAAAA'' ''secrets.dev'' (VStr ''read'') ''global'' None]\<rparr>"

definition example_request :: "response + service_request" where
  "example_request = service_call [] example_libs example_auth app_conn ''secrets'' ''/get'' None example_sdb"

section \<open>Properties\<close>

text \<open>C34: A resolved call is served by the router's builtin or by an app that is registered for the
  service, running, and on a version inside the caller's specifier, at that app's port; and a caller that
  pins a provider gets that one or an error, never another.\<close>

theorem resolve_provider_sound:
  assumes "resolve_provider bs L url version_specifier db pin = Inr rp"
  shows "rp_service_url rp = url \<and> (str_truthy pin \<longrightarrow> Some (rp_app_id rp) = pin) \<and>
    (\<exists>spec. parse_spec L version_specifier = Inr spec \<and>
      (if rp_app_id rp = ROUTER_APP_ID
       then \<exists>b v. b \<in> set bs \<and> b_service_url b = url \<and> rp_target rp = InProcess (b_app b)
              \<and> parse_version L (b_version b) = Some v \<and> spec v
       else can_serve L spec url rp db))"
  using assms by (rule resolve_provider_Inr)

theorem resolve_provider_sound_witness:
  "\<exists>rp. resolve_provider [] example_libs ''secrets.dev'' (VStr ''>=1.0'') example_sdb None = Inr rp
    \<and> rp_service_url rp = ''secrets.dev''"
proof -
  have "isl (resolve_provider [] example_libs ''secrets.dev'' (VStr ''>=1.0'') example_sdb None) = False"
    by code_simp
  then obtain rp where "resolve_provider [] example_libs ''secrets.dev'' (VStr ''>=1.0'') example_sdb None = Inr rp"
    by (metis isl_def sum.exhaust)
  then show ?thesis
    using resolve_provider_sound by blast
qed


text \<open>Who serves a service by default: the owner's choice if there is one; else the router's builtin;
  else, of the apps registered for it, one installed no later than any other; and nobody only when
  nothing provides it.\<close>

theorem default_provider_priority:
  assumes "default_provider_id_for_service bs L url db = Inr r"
  shows "(case find (\<lambda>(u, app). u = url) (t_defaults db) of
      Some (u, chosen) \<Rightarrow> r = Some chosen
    | None \<Rightarrow>
        (if builtin_by_url bs url \<noteq> None then r = Some ROUTER_APP_ID
         else case r of
           None \<Rightarrow> \<forall>p \<in> set (provider_join db). sp_service_url (fst p) \<noteq> url
         | Some app \<Rightarrow> \<exists>(p, a) \<in> set (provider_join db). sp_service_url p = url \<and> sp_app_id p = app
             \<and> (\<forall>(q, b) \<in> set (provider_join db). sp_service_url q = url \<longrightarrow> a_created_at a \<le> a_created_at b)))"
proof (cases "find (\<lambda>(u, app). u = url) (t_defaults db)")
  case None
  show ?thesis
  proof (cases "builtin_by_url bs url")
    case b: None
    with assms None have "incumbent_provider_id L url db = Inr r"
      by (simp add: default_provider_id_for_service_def)
    from incumbent_Inr [OF this] show ?thesis
      by (simp only: None b option.case simp_thms if_False)
  qed (use assms None in \<open>simp add: default_provider_id_for_service_def\<close>)
qed (use assms in \<open>auto simp: default_provider_id_for_service_def\<close>)

theorem default_provider_priority_witness:
  "\<exists>(p, a) \<in> set (provider_join example_sdb). sp_service_url p = ''secrets.dev'' \<and> sp_app_id p = ''AAAAAAAAAAAA''"
proof -
  have d: "default_provider_id_for_service [] example_libs ''secrets.dev'' example_sdb = Inr (Some ''AAAAAAAAAAAA'')"
    by code_simp
  have "t_defaults example_sdb = []"
    by (simp add: example_sdb_def example_pdb_def example_ddb_def sample_defs)
  then show ?thesis
    using default_provider_priority [OF d] by (auto simp: builtin_by_url_def)
qed


text \<open>Registration makes the table say exactly what the manifest provides for that app, leaves the
  rows of every other app and the owner's choices alone, and cannot fail for an installed app.\<close>

theorem register_exact:
  assumes "app_id \<in> a_app_id ` set (t_apps db)"
  shows "\<exists>db'. register_services_provided_by_app fk app_id m db = Inr db'
    \<and> provider_key ` {p \<in> set (t_providers db'). sp_app_id p = app_id}
        = (\<lambda>s. (sv_service s, app_id, sv_version s)) ` set (m_provides m)
    \<and> filter (\<lambda>p. sp_app_id p \<noteq> app_id) (t_providers db') = filter (\<lambda>p. sp_app_id p \<noteq> app_id) (t_providers db)
    \<and> db' = db\<lparr>t_providers := t_providers db'\<rparr>"
proof -
  let ?rs = "map (provided_row app_id) (m_provides m)"
  let ?db0 = "db\<lparr>t_providers := filter (\<lambda>p. sp_app_id p \<noteq> app_id) (t_providers db)\<rparr>"
  have rs: "\<forall>r \<in> set ?rs. sp_app_id r = app_id"
    by (auto simp: provided_row_def)
  obtain db' where i: "insert_providers fk ?rs ?db0 = Inr db'"
    using insert_providers_total [of app_id ?db0 ?rs fk] assms rs by auto
  have frame: "db' = db\<lparr>t_providers := t_providers db'\<rparr>"
    using insert_providers_frame [OF i] by simp
  have others: "filter (\<lambda>p. sp_app_id p \<noteq> app_id) (t_providers db') = filter (\<lambda>p. sp_app_id p \<noteq> app_id) (t_providers db)"
    using insert_providers_others [OF i rs] by simp
  have "provider_key ` {p \<in> set (t_providers db'). sp_app_id p = app_id}
      = {k \<in> provider_key ` set (t_providers db'). fst (snd k) = app_id}"
    by (auto simp: provider_key_def)
  also have "\<dots> = provider_key ` set ?rs"
    unfolding insert_providers_keys [OF i] by (auto simp: provider_key_def provided_row_def)
  also have "\<dots> = (\<lambda>s. (sv_service s, app_id, sv_version s)) ` set (m_provides m)"
    by (simp add: provider_key_def provided_row_def image_image)
  finally show ?thesis
    using i frame others by (auto simp: register_services_provided_by_app_def)
qed

theorem register_exact_witness:
  "\<exists>db'. register_services_provided_by_app True ''AAAAAAAAAAAA'' (example_manifest ''new'') example_sdb = Inr db'
    \<and> t_providers db' = []"
proof -
  have a: "''AAAAAAAAAAAA'' \<in> a_app_id ` set (t_apps example_sdb)"
    by (simp add: example_sdb_def sample_defs)
  have m: "m_provides (example_manifest ''new'') = []"
    by code_simp
  have o': "filter (\<lambda>p. sp_app_id p \<noteq> ''AAAAAAAAAAAA'') (t_providers example_sdb) = []"
    by code_simp
  show ?thesis
    using register_exact [OF a, of True "example_manifest ''new''"] unfolding m o'
    by (auto simp: filter_empty_conv)
qed


text \<open>After the owner points a service at a provider, that provider serves it by default and every
  other service keeps the provider it had; clearing the choice of a service affects that one only.\<close>

theorem set_default_serves:
  assumes "set_default bs url app_id db = Inr db'"
  shows "default_provider_id_for_service bs L url db' = Inr (Some app_id)
    \<and> (\<forall>other. other \<noteq> url \<longrightarrow> default_provider_id_for_service bs L other db' = default_provider_id_for_service bs L other db
         \<and> default_provider_id_for_service bs L other (clear_default url db) = default_provider_id_for_service bs L other db)"
proof (intro conjI allI impI)
  show "default_provider_id_for_service bs L url db' = Inr (Some app_id)"
    using assms clear_default_find [of url url db]
    by (auto simp: set_default_def default_provider_id_for_service_def find_append split: if_splits)
  fix other
  assume o': "other \<noteq> url"
  show "default_provider_id_for_service bs L other (clear_default url db) = default_provider_id_for_service bs L other db"
    by (rule default_provider_cong) (use o' clear_default_find in auto)
  show "default_provider_id_for_service bs L other db' = default_provider_id_for_service bs L other db"
    using assms o' clear_default_find [of other url db]
    by (intro default_provider_cong)
      (auto simp: set_default_def find_append split: if_splits option.splits)
qed

theorem set_default_serves_witness:
  "\<exists>db'. set_default [] ''secrets.dev'' ''AAAAAAAAAAAA'' example_sdb = Inr db'
    \<and> default_provider_id_for_service [] example_libs ''secrets.dev'' db' = Inr (Some ''AAAAAAAAAAAA'')"
proof -
  have "isl (set_default [] ''secrets.dev'' ''AAAAAAAAAAAA'' example_sdb) = False"
    by code_simp
  then obtain db' where "set_default [] ''secrets.dev'' ''AAAAAAAAAAAA'' example_sdb = Inr db'"
    by (metis isl_def sum.exhaust)
  then show ?thesis
    using set_default_serves by blast
qed


text \<open>What a provider learns of a consumer's grants for a service: exactly the global ones and those
  given for this provider; a grant scoped to another provider is never in the list.\<close>

theorem grants_for_provider_exact:
  "set (grants_for_provider consumer url provider db) =
     (\<lambda>r. VDict [(''grant'', pr_grant_payload r), (''scope'', VStr (pr_scope r))])
       ` {r \<in> set (t_permissions db). pr_consumer r = consumer \<and> pr_service_url r = url
            \<and> (pr_scope r = ''global'' \<or> (pr_provider r = provider \<and> provider \<noteq> []))}"
  by (simp add: grants_for_provider_def get_granted_permissions_v2_def none_if_empty_def grant_entry_def
      filter_map comp_def image_image set_filter if_distrib [of "\<lambda>x. x = Some provider"] cong: conj_cong)
    (intro image_cong, auto split: if_splits)

text \<open>A call that reaches the proxy was made by an authenticated app, and the provider is told that
  app's id, its name, and its grants for the service and provider the call was resolved to.\<close>

theorem service_call_identity:
  assumes "service_call bs L ae cn shortname rest provider_header db = Inr req"
  shows "\<exists>consumer row provider. verify_app_auth ae cn db = Inr consumer \<and> select_app consumer db = Some row
    \<and> sq_extra_headers req = consumer_headers L consumer (a_name row)
        (grants_for_provider consumer (sq_service_url req) (rp_app_id provider) db)
    \<and> sq_target req = rp_target provider \<and> rp_service_url provider = sq_service_url req
    \<and> (\<exists>spec. resolve_provider bs L (sq_service_url req) spec db
          (if str_truthy provider_header then provider_header else None) = Inr provider)"
proof -
  obtain consumer where c: "verify_app_auth ae cn db = Inr consumer"
    using assms by (cases "verify_app_auth ae cn db") (auto simp: service_call_def)
  let ?pin = "if str_truthy provider_header then provider_header else None"
  have "service_call_common bs L consumer shortname rest db ?pin = Inr (Inr req)"
    using assms by (auto simp: service_call_def c Let_def split: sum.splits)
  then obtain url spec provider headers where
    p: "resolve_provider bs L url spec db ?pin = Inr provider"
    "app_consumer_headers L consumer url (rp_app_id provider) db = Inr headers"
    "sq_service_url req = url" "sq_target req = rp_target provider" "sq_extra_headers req = headers"
    by (auto simp: service_call_common_def split: sum.splits if_splits)
  then obtain row where "select_app consumer db = Some row"
    "headers = consumer_headers L consumer (a_name row) (grants_for_provider consumer url (rp_app_id provider) db)"
    by (auto simp: app_consumer_headers_def split: option.splits)
  moreover have "rp_service_url provider = url"
    using resolve_provider_Inr [OF p(1)] by simp
  ultimately show ?thesis
    unfolding p(3-5) using c p(1) by blast
qed

theorem service_call_identity_witness:
  "\<exists>req consumer row. example_request = Inr req \<and> verify_app_auth example_auth app_conn example_sdb = Inr consumer
    \<and> select_app consumer example_sdb = Some row"
proof -
  have "isl example_request = False"
    by code_simp
  then obtain req where r: "example_request = Inr req"
    by (metis isl_def sum.exhaust)
  from service_call_identity [OF r [unfolded example_request_def]] r show ?thesis
    by blast
qed


text \<open>A preflight whose \<open>Origin\<close> is a URL, as browsers send it, is refused whatever app it names: the
  handler looks the whole value up as a host, and the part before the first colon is the scheme, which
  no configured domain owns.\<close>

theorem cors_preflight_refuses_urls:
  assumes "sch \<in> {''http'', ''https''}" and "\<forall>d \<in> set (effective_domains db). name_no_port d \<notin> {''http'', ''https''}"
  shows "service_call_cors (Some (sch @ ''://'' @ authority)) db = None"
proof -
  have "before CHR '':'' (sch @ ''://'' @ authority) = sch" "lower sch = sch"
    using assms(1) by (auto simp: before_def lower_def lower_char_def code_def)
  moreover have "CHR ''.'' \<notin> set sch"
    using assms(1) by auto
  moreover have "\<not> suffix (CHR ''.'' # name_no_port d) sch" for d
    using \<open>CHR ''.'' \<notin> set sch\<close> by (auto simp: suffix_def)
  ultimately have "\<not> owns d (sch @ ''://'' @ authority)" if "d \<in> set (effective_domains db)" for d
    using that assms by (auto simp: owns_def Let_def)
  then have "domain_match db (sch @ ''://'' @ authority) = None"
    using domain_match_owns by (cases "domain_match db (sch @ ''://'' @ authority)") blast+
  then show ?thesis
    by (simp add: service_call_cors_def get_app_from_hostname_def)
qed

theorem cors_preflight_refuses_urls_witness:
  "service_call_cors (Some ''https://notes.host.example.com'') example_sdb = None"
proof -
  have "\<forall>d \<in> set (effective_domains example_sdb). name_no_port d \<notin> {''http'', ''https''}"
    by code_simp
  from cors_preflight_refuses_urls [OF _ this, of "''https''" "''notes.host.example.com''"] show ?thesis
    by simp
qed


end
