(* ===== verification/Guards.thy ===== *)
theory Guards
  imports Sample
begin

text \<open>
  \<open>core/storage.py\<close> and \<open>core/memory_guard.py\<close>: disk usage, the guard that stops apps when the disk is
  nearly full, and the guard that reports memory pressure and OOM kills.  A notification, which the
  code only logs so far, is an output of the model.  What the disk holds, how much of it is free, and
  what \<open>podman stats\<close> answers are parameters; threads, sleeps and reconnects are left out.
\<close>

section \<open>Sizes\<close>

text \<open>
  \<open>f"{value:.1f}"\<close> of a non-negative value: the nearest tenth, ties to the even one.  The value is exact,
  as Python's is for sizes below \<open>2 ^ 53\<close> bytes.
\<close>

definition round_half_even :: "rat \<Rightarrow> int" where
  "round_half_even r =
     (let f = \<lfloor>r\<rfloor>; d = r - of_int f
      in if d < 1 / 2 then f else if d > 1 / 2 then f + 1 else if even f then f else f + 1)"

definition one_decimal :: "rat \<Rightarrow> string" where
  "one_decimal r = (let t = round_half_even (10 * r) in show_int (t div 10) @ ''.'' @ show_int (t mod 10))"

fun format_in_units :: "rat \<Rightarrow> string list \<Rightarrow> string option" where
  "format_in_units v [] = None"
| "format_in_units v (u # us) =
     (if v < 1024 \<or> u = ''TiB''
      then Some (if u = ''B'' then show_int \<lfloor>v\<rfloor> @ '' '' @ u else one_decimal v @ '' '' @ u)
      else format_in_units (v / 1024) us)"

definition format_bytes :: "int \<Rightarrow> string" where
  "format_bytes n =
     (case format_in_units (of_int n) [''B'', ''KiB'', ''MiB'', ''GiB'', ''TiB''] of
        Some s \<Rightarrow> s | None \<Rightarrow> show_int n @ '' B'')"

text \<open>
  What \<open>os.scandir\<close> finds: \<open>Unreadable\<close> is a directory that cannot be opened, \<open>Vanished\<close> an entry whose
  \<open>stat\<close> raises \<open>OSError\<close>; \<open>Symlink\<close> carries what it points at (\<open>Vanished\<close> if it dangles).
\<close>

datatype node = FileNode nat | Symlink node | Vanished | Unreadable | DirNode "(string \<times> node) list"

fun dir_size_bytes :: "node \<Rightarrow> nat" where
  "dir_size_bytes (DirNode es) = sum_list (map (\<lambda>(name, e). case e of
       Symlink t \<Rightarrow> 0
     | Vanished \<Rightarrow> 0
     | FileNode n \<Rightarrow> n
     | Unreadable \<Rightarrow> 0
     | DirNode es' \<Rightarrow> dir_size_bytes (DirNode es')) es)"
| "dir_size_bytes _ = 0"

text \<open>Entries of the app data root; \<open>os.path.isdir\<close> and the scan of an entry follow links.\<close>

fun follow_links :: "node \<Rightarrow> node" where
  "follow_links (Symlink t) = follow_links t"
| "follow_links n = n"

definition per_app_usage :: "node \<Rightarrow> (string \<times> nat) list" where
  "per_app_usage app_data_root =
     (case app_data_root of
        DirNode es \<Rightarrow> [(name, dir_size_bytes (follow_links e)). (name, e) \<leftarrow> es,
           (case follow_links e of DirNode _ \<Rightarrow> True | Unreadable \<Rightarrow> True | _ \<Rightarrow> False)]
      | _ \<Rightarrow> [])"

definition app_data_loose_file_bytes :: "node \<Rightarrow> nat" where
  "app_data_loose_file_bytes app_data_root =
     (case app_data_root of
        DirNode es \<Rightarrow> sum_list (map (\<lambda>(name, e). case e of FileNode n \<Rightarrow> n | _ \<Rightarrow> 0) es)
      | _ \<Rightarrow> 0)"

section \<open>The storage guard\<close>

definition storage_min_free_bytes :: "int \<Rightarrow> int option" where
  "storage_min_free_bytes storage_min_free_mb =
     (if storage_min_free_mb \<le> 0 then None else Some (storage_min_free_mb * (1024 * 1024)))"

text \<open>\<open>free\<close> is what \<open>shutil.disk_usage\<close> answers for the data disk.\<close>

definition check_min_free :: "int \<Rightarrow> int \<Rightarrow> (int \<times> int) option" where
  "check_min_free storage_min_free_mb free =
     (case storage_min_free_bytes storage_min_free_mb of
        None \<Rightarrow> None
      | Some min_free \<Rightarrow> if free < min_free then Some (free, min_free) else None)"

definition storage_low :: "int \<Rightarrow> int \<Rightarrow> bool" where
  "storage_low storage_min_free_mb free = (check_min_free storage_min_free_mb free \<noteq> None)"

definition check_before_deploy :: "int \<Rightarrow> int \<Rightarrow> unit result" where
  "check_before_deploy storage_min_free_mb free =
     (case check_min_free storage_min_free_mb free of
        None \<Rightarrow> Inr ()
      | Some (free, min_free) \<Rightarrow> Inl (Exn RuntimeError (''Storage too low ('' @ format_bytes free @ '' free, ''
          @ format_bytes min_free @ '' required)'')))"

definition STORAGE_DETAIL :: string where
  "STORAGE_DETAIL = ''Storage too low. Free space by removing app data or resizing disks.''"

definition guard_update :: "app_row \<Rightarrow> app_row" where
  "guard_update r = r\<lparr>a_status := Error, a_error_message := Some STORAGE_DETAIL, a_container_id := None\<rparr>"

text \<open>
  The loop over the rows selected at the start.  \<open>env\<close> is what other connections commit before the
  guard's next UPDATE; the containers the guard asks to stop are the first component.
\<close>

fun guard_loop :: "(app_row \<Rightarrow> database \<Rightarrow> database) \<Rightarrow> app_row list \<Rightarrow> database \<Rightarrow> app_row list \<times> database" where
  "guard_loop env [] db = ([], db)"
| "guard_loop env (row # rows) db =
     (let (stopped, db') = guard_loop env rows (update_app (a_app_id row) guard_update (env row db))
      in (row # stopped, db'))"

definition enforce_storage_guard ::
    "(app_row \<Rightarrow> database \<Rightarrow> database) \<Rightarrow> int \<Rightarrow> int \<Rightarrow> bool \<Rightarrow> database \<Rightarrow> app_row list \<times> database" where
  "enforce_storage_guard env storage_min_free_mb free paused db =
     (case check_min_free storage_min_free_mb free of
        None \<Rightarrow> ([], db)
      | Some (free, min_free) \<Rightarrow>
          if paused then ([], db)
          else guard_loop env (filter (\<lambda>r. a_status r \<in> {Running, Starting}) (t_apps db)) db)"

section \<open>The memory guard\<close>

datatype host_oom_kill = HostOomKill nat string

datatype container_oom_kill = ContainerOomKill string string

datatype notification =
    HostOutOfMemory nat string
  | AppOomKilled string pyval
  | ContainerOomKilled string
  | MemoryPressure string rat

text \<open>
  \<open>_OOM_KILLED_RE.search\<close>: the leftmost match of \<open>Killed process (\d+) \(([^)]+)\)\<close>.  The digits and the
  name cannot give back characters, since what follows them is outside their class.
\<close>

definition match_killed_at :: "string \<Rightarrow> (string \<times> string) option" where
  "match_killed_at s =
     (if \<not> prefix ''Killed process '' s then None
      else let rest = drop (length ''Killed process '') s;
               ds = takeWhile is_digit rest;
               rest = dropWhile is_digit rest
           in if ds = [] \<or> \<not> prefix '' ('' rest then None
              else let name = before CHR '')'' (drop 2 rest)
                   in if name = [] \<or> CHR '')'' \<notin> set (drop 2 rest) then None else Some (ds, name))"

fun search_killed :: "string \<Rightarrow> (string \<times> string) option" where
  "search_killed [] = None"
| "search_killed (c # s) = (case match_killed_at (c # s) of Some m \<Rightarrow> Some m | None \<Rightarrow> search_killed s)"

definition nat_of_digits :: "string \<Rightarrow> nat" where
  "nat_of_digits ds = foldl (\<lambda>n c. 10 * n + (code c - 48)) 0 ds"

text \<open>\<open>json_line\<close> is the value \<open>json.loads\<close> gives, \<open>None\<close> if the line is not JSON.\<close>

definition parse_journal_oom :: "pyval option \<Rightarrow> host_oom_kill option" where
  "parse_journal_oom json_line =
     (case json_line of
        Some (VDict kvs) \<Rightarrow>
          (case map_of kvs ''MESSAGE'' of
             Some (VStr message) \<Rightarrow>
               if contains ''Memory cgroup out of memory'' message then None
               else (case search_killed message of
                  None \<Rightarrow> None
                | Some (pid, comm) \<Rightarrow> Some (HostOomKill (nat_of_digits pid) comm))
           | _ \<Rightarrow> None)
      | _ \<Rightarrow> None)"

definition parse_podman_event :: "(pyval \<Rightarrow> string) \<Rightarrow> pyval option \<Rightarrow> container_oom_kill result" where
  "parse_podman_event py_str json_line =
     (case json_line of
        Some (VDict kvs) \<Rightarrow>
          (case (map_of kvs ''ID'', map_of kvs ''Name'') of
             (Some i, Some n) \<Rightarrow> Inr (ContainerOomKill (py_str i) (py_str n))
           | _ \<Rightarrow> Inl (Exn ValueError ''unrecognized `podman events` line''))
      | _ \<Rightarrow> Inl (Exn ValueError ''unrecognized `podman events` line''))"

definition query_container_rows :: "database \<Rightarrow> app_row list" where
  "query_container_rows db = filter (\<lambda>r. a_container_id r \<noteq> None) (t_apps db)"

text \<open>A dict comprehension keeps the last row of a container id.\<close>

definition report_container_oom :: "app_row list \<Rightarrow> container_oom_kill \<Rightarrow> notification" where
  "report_container_oom rows kill =
     (case kill of ContainerOomKill cid cname \<Rightarrow>
        (case find (\<lambda>r. a_container_id r = Some cid) (rev rows) of
           Some row \<Rightarrow> AppOomKilled (a_name row) (a_memory_mb row)
         | None \<Rightarrow> ContainerOomKilled cname))"

definition podman_oom_line :: "(pyval \<Rightarrow> string) \<Rightarrow> database \<Rightarrow> pyval option \<Rightarrow> notification list" where
  "podman_oom_line py_str db json_line =
     (case parse_podman_event py_str json_line of
        Inl e \<Rightarrow> []
      | Inr kill \<Rightarrow> [report_container_oom (query_container_rows db) kill])"

definition MEMORY_WARN_PERCENT :: rat where
  "MEMORY_WARN_PERCENT = 90"

definition MEMORY_CLEAR_PERCENT :: rat where
  "MEMORY_CLEAR_PERCENT = 80"

text \<open>One reading of one app: the apps already notified, and what is reported.\<close>

definition check_memory_pressure ::
    "string \<times> rat option \<Rightarrow> string set \<Rightarrow> string set \<times> notification list" where
  "check_memory_pressure reading notified =
     (case reading of
        (app_id, None) \<Rightarrow> (notified, [])
      | (app_id, Some percent) \<Rightarrow>
          if percent < MEMORY_CLEAR_PERCENT then (notified - {app_id}, [])
          else if percent \<ge> MEMORY_WARN_PERCENT \<and> app_id \<notin> notified
          then (insert app_id notified, [MemoryPressure app_id percent])
          else (notified, []))"

fun pressure_run :: "(string \<times> rat option) list \<Rightarrow> string set \<Rightarrow> notification list" where
  "pressure_run [] notified = []"
| "pressure_run (r # rs) notified =
     (let (notified', out) = check_memory_pressure r notified in out @ pressure_run rs notified')"

section \<open>Lemmas\<close>

lemma check_min_free_Some:
  "check_min_free mb free = Some x \<longleftrightarrow> 0 < mb \<and> free < mb * 1048576 \<and> x = (free, mb * 1048576)"
  by (auto simp: check_min_free_def storage_min_free_bytes_def)

lemma guard_update_keys [simp]:
  "a_app_id (guard_update r) = a_app_id r" "a_name (guard_update r) = a_name r"
  "a_local_port (guard_update r) = a_local_port r"
  by (simp_all add: guard_update_def)

lemma update_app_rows: "t_apps (update_app i f db) = map (\<lambda>r. if a_app_id r = i then f r else r) (t_apps db)"
  by (simp add: update_app_def update_apps_def)

text \<open>Without interference the loop updates exactly the rows it was given.\<close>

lemma guard_loop_rows:
  "t_apps (snd (guard_loop (\<lambda>_ db. db) rows db))
     = map (\<lambda>r. if a_app_id r \<in> a_app_id ` set rows then guard_update r else r) (t_apps db)"
proof (induction rows arbitrary: db)
  case (Cons row rows)
  have "t_apps (snd (guard_loop (\<lambda>_ db. db) (row # rows) db))
      = t_apps (snd (guard_loop (\<lambda>_ db. db) rows (update_app (a_app_id row) guard_update db)))"
    by (simp add: case_prod_beta)
  also have "\<dots> = map (\<lambda>r. if a_app_id r \<in> a_app_id ` set (row # rows) then guard_update r else r) (t_apps db)"
    unfolding Cons.IH update_app_rows by (auto simp: guard_update_def)
  finally show ?case .
qed simp

lemma guard_loop_stopped: "fst (guard_loop env rows db) = rows"
proof (induction rows arbitrary: db)
  case (Cons row rows)
  then show ?case by (simp add: case_prod_beta)
qed simp

text \<open>
  The UPDATE does not look at the status again: a claim that another connection commits in between,
  like the start of a removal, is overwritten.
\<close>

lemma guard_overwrites_claim:
  assumes "select_app (a_app_id row) (env row db) = Some r"
  shows "\<exists>r'. select_app (a_app_id row) (snd (guard_loop env [row] db)) = Some r' \<and> a_status r' = Error"
  using assms by (simp add: select_update_app guard_update_def)

text \<open>The apps held back as already notified, after a sequence of readings.\<close>

definition pressure_state :: "(string \<times> rat option) list \<Rightarrow> string set" where
  "pressure_state rs = fold (\<lambda>r. fst \<circ> check_memory_pressure r) rs {}"

lemma pressure_state_snoc: "pressure_state (rs @ [r]) = fst (check_memory_pressure r (pressure_state rs))"
  by (simp add: pressure_state_def)

text \<open>A reading at the warning level with no reading below the clearing level after it.\<close>

definition high_since :: "string \<Rightarrow> (string \<times> rat option) list \<Rightarrow> bool" where
  "high_since app rs = (\<exists>xs p ys. rs = xs @ (app, Some p) # ys \<and> MEMORY_WARN_PERCENT \<le> p
     \<and> (\<nexists>c. (app, Some c) \<in> set ys \<and> c < MEMORY_CLEAR_PERCENT))"

lemma high_since_Nil [simp]: "\<not> high_since app []"
  by (simp add: high_since_def)

lemma high_since_snoc:
  "high_since app (rs @ [(a, pc)]) \<longleftrightarrow>
     (case pc of None \<Rightarrow> high_since app rs
      | Some p \<Rightarrow> if a \<noteq> app then high_since app rs
          else if p < MEMORY_CLEAR_PERCENT then False
          else MEMORY_WARN_PERCENT \<le> p \<or> high_since app rs)" (is "?l \<longleftrightarrow> ?r")
proof
  assume ?l
  then obtain xs p ys where h: "rs @ [(a, pc)] = xs @ (app, Some p) # ys" "MEMORY_WARN_PERCENT \<le> p"
    "\<nexists>c. (app, Some c) \<in> set ys \<and> c < MEMORY_CLEAR_PERCENT"
    by (auto simp: high_since_def)
  show ?r
  proof (cases ys rule: rev_cases)
    case Nil
    with h show ?thesis by (auto simp: MEMORY_CLEAR_PERCENT_def MEMORY_WARN_PERCENT_def)
  next
    case (snoc ys' y)
    with h have "rs = xs @ (app, Some p) # ys'" "y = (a, pc)"
      by auto
    moreover have "\<nexists>c. (app, Some c) \<in> set ys' \<and> c < MEMORY_CLEAR_PERCENT"
      using h(3) snoc by auto
    ultimately have "high_since app rs"
      using h(2) unfolding high_since_def by blast
    with h(3) snoc \<open>y = (a, pc)\<close> show ?thesis
      by (auto split: option.splits)
  qed
next
  assume r: ?r
  have keep: "high_since app (rs @ [(a, pc)])"
    if "high_since app rs" "\<not> (a = app \<and> (\<exists>c. pc = Some c \<and> c < MEMORY_CLEAR_PERCENT))"
  proof -
    from that(1) obtain xs p ys where "rs = xs @ (app, Some p) # ys" "MEMORY_WARN_PERCENT \<le> p"
      "\<nexists>c. (app, Some c) \<in> set ys \<and> c < MEMORY_CLEAR_PERCENT"
      by (auto simp: high_since_def)
    then show ?thesis
      unfolding high_since_def using that(2)
      by (intro exI [of _ xs] exI [of _ p] exI [of _ "ys @ [(a, pc)]"]) auto
  qed
  have new: "high_since app (rs @ [(app, Some p)])" if "MEMORY_WARN_PERCENT \<le> p" for p
    unfolding high_since_def using that by (intro exI [of _ rs] exI [of _ p] exI [of _ "[]"]) auto
  from r keep new show ?l
    by (auto split: option.splits if_splits)
qed

lemma pressure_state_high: "app \<in> pressure_state rs \<longleftrightarrow> high_since app rs"
proof (induction rs rule: rev_induct)
  case (snoc r rs)
  obtain a pc where r: "r = (a, pc)" by (cases r)
  from snoc show ?case
    unfolding r pressure_state_snoc high_since_snoc
    by (auto simp: check_memory_pressure_def split: option.splits)
qed (simp add: pressure_state_def)

section \<open>Properties\<close>

text \<open>When the disk is below the threshold and the guard is not paused, one round leaves no app running
  or starting: each of them was asked to stop and is marked failed without a container, and every other
  app is as it was; in every other case the round changes nothing.\<close>

theorem storage_guard_round:
  assumes "distinct (map a_app_id (t_apps db))"
    and "enforce_storage_guard (\<lambda>_ db. db) mb free paused db = (stopped, db')"
  shows "if storage_low mb free \<and> \<not> paused
    then stopped = filter (\<lambda>r. a_status r \<in> {Running, Starting}) (t_apps db)
      \<and> t_apps db' = map (\<lambda>r. if a_status r \<in> {Running, Starting} then guard_update r else r) (t_apps db)
      \<and> (\<forall>r \<in> set (t_apps db'). a_status r \<notin> {Running, Starting})
    else stopped = [] \<and> db' = db"
proof (cases "storage_low mb free \<and> \<not> paused")
  case True
  let ?rows = "filter (\<lambda>r. a_status r \<in> {Running, Starting}) (t_apps db)"
  have g: "guard_loop (\<lambda>_ db. db) ?rows db = (stopped, db')"
    using assms(2) True by (auto simp: enforce_storage_guard_def storage_low_def split: option.splits)
  have st: "stopped = ?rows"
    using guard_loop_stopped [of "\<lambda>_ db. db" ?rows db] g by simp
  have "a_app_id r \<in> a_app_id ` set ?rows \<longleftrightarrow> a_status r \<in> {Running, Starting}" if "r \<in> set (t_apps db)" for r
    using that distinct_map_inj [OF assms(1)] by auto
  then have rows: "t_apps db' = map (\<lambda>r. if a_status r \<in> {Running, Starting} then guard_update r else r) (t_apps db)"
    using guard_loop_rows [of ?rows db] g by (auto intro!: map_cong)
  moreover have "a_status r \<notin> {Running, Starting}" if "r \<in> set (t_apps db')" for r
    using that unfolding rows by (auto simp: guard_update_def)
  ultimately show ?thesis
    unfolding if_P [OF True] using st by blast
qed (use assms(2) in \<open>auto simp: enforce_storage_guard_def storage_low_def split: option.splits if_splits\<close>)

theorem storage_guard_round_witness:
  "map a_status (t_apps (snd (enforce_storage_guard (\<lambda>_ db. db) 500 1000 False example_db))) = [Error]"
proof -
  have d: "distinct (map a_app_id (t_apps example_db))"
    by (simp add: sample_defs)
  have low: "storage_low 500 1000"
    by (simp add: storage_low_def check_min_free_def storage_min_free_bytes_def)
  have "t_apps (snd (enforce_storage_guard (\<lambda>_ db. db) 500 1000 False example_db)) = [guard_update example_row]"
    using storage_guard_round [OF d surjective_pairing, of 500 1000 False] low by (simp add: sample_defs)
  then show ?thesis
    by (simp add: guard_update_def)
qed

text \<open>Memory pressure is reported exactly when a reading reaches 90 percent and no earlier reading of the
  app did so without one below 80 percent since: an app that hovers around the line is reported once, and
  one that recovered is reported again.\<close>

theorem memory_pressure_hysteresis:
  "snd (check_memory_pressure (app, Some percent) (pressure_state rs))
     = (if 90 \<le> percent \<and> \<not> high_since app rs then [MemoryPressure app percent] else [])"
  unfolding pressure_state_high [symmetric]
  by (auto simp: check_memory_pressure_def MEMORY_WARN_PERCENT_def MEMORY_CLEAR_PERCENT_def)

end
