(* ===== verification/Worker.thy ===== *)
theory Worker
  imports Manifest Domains
begin

text \<open>
  Stateful code that raises: an action transforms the state of a worker (its connection and the list
  of effects on the outside world so far) and returns a value or an exception.  Statements change the
  working copy of the database only, until \<open>act_commit\<close> publishes it.  \<open>act_spec\<close> is the
  correctness judgement the proofs about such code use, with one rule per construct.
\<close>

section \<open>Actions\<close>

text \<open>
  What the code does outside the database, in order.  \<open>Ran\<close> is a subprocess with what it answered;
  a subprocess that could not be started, or was not waited for to its end, raises.  \<open>Appended\<close> is an
  append to a list the caller shares.
\<close>

datatype proc = Exited int string string | TimedOut | NotFound | OsFailure string

datatype effect =
    Ran "string list" proc
  | DirMade string
  | DirRemoved string
  | DirRenamed string string
  | TreeCopied string string
  | FileAppended string string
  | FileWritten string string
  | S3Deleted string "string list"
  | Appended string
  | SpawnDeploy string
  | SpawnReload string
  | SpawnRemove string bool

record wstate =
  ws_conn :: conn
  ws_effects :: "effect list"

type_synonym 'a act = "wstate \<Rightarrow> 'a result \<times> wstate"

definition act_return :: "'a \<Rightarrow> 'a act" where
  "act_return x s = (Inr x, s)"

definition act_raise :: "exn \<Rightarrow> 'a act" where
  "act_raise e s = (Inl e, s)"

definition act_bind :: "'a act \<Rightarrow> ('a \<Rightarrow> 'b act) \<Rightarrow> 'b act" where
  "act_bind m f s = (case m s of (Inl e, s') \<Rightarrow> (Inl e, s') | (Inr x, s') \<Rightarrow> f x s')"

definition act_then :: "'a act \<Rightarrow> 'b act \<Rightarrow> 'b act" where
  "act_then m n = act_bind m (\<lambda>_. n)"

text \<open>\<open>try: m except: h\<close>, where \<open>h\<close> sees the exception and may raise it again.\<close>

definition act_catch :: "'a act \<Rightarrow> (exn \<Rightarrow> 'a act) \<Rightarrow> 'a act" where
  "act_catch m h s = (case m s of (Inl e, s') \<Rightarrow> h e s' | (Inr x, s') \<Rightarrow> (Inr x, s'))"

text \<open>\<open>try: m finally: f\<close>; an exception of \<open>f\<close> replaces the one of \<open>m\<close>.\<close>

definition act_finally :: "'a act \<Rightarrow> unit act \<Rightarrow> 'a act" where
  "act_finally m f = act_bind (act_catch m (\<lambda>e. act_then f (act_raise e))) (\<lambda>x. act_then f (act_return x))"

definition act_lift :: "'a result \<Rightarrow> 'a act" where
  "act_lift r s = (r, s)"

definition act_query :: "(database \<Rightarrow> 'a) \<Rightarrow> 'a act" where
  "act_query f s = (Inr (f (working (ws_conn s))), s)"

text \<open>What the outside shows now, after the effects so far.\<close>

definition act_observe :: "(effect list \<Rightarrow> 'a) \<Rightarrow> 'a act" where
  "act_observe f s = (Inr (f (ws_effects s)), s)"

definition act_exec :: "(database \<Rightarrow> database) \<Rightarrow> unit act" where
  "act_exec f s = (Inr (), s\<lparr>ws_conn := execute f (ws_conn s)\<rparr>)"

text \<open>A statement that may violate a constraint: it raises and changes nothing.\<close>

definition act_try :: "(database \<Rightarrow> database result) \<Rightarrow> unit act" where
  "act_try f s = (case f (working (ws_conn s)) of
      Inl e \<Rightarrow> (Inl e, s)
    | Inr db \<Rightarrow> (Inr (), s\<lparr>ws_conn := execute (\<lambda>_. db) (ws_conn s)\<rparr>))"

definition act_commit :: "unit act" where
  "act_commit s = (Inr (), s\<lparr>ws_conn := commit (ws_conn s)\<rparr>)"

definition act_rollback :: "unit act" where
  "act_rollback s = (Inr (), s\<lparr>ws_conn := rollback (ws_conn s)\<rparr>)"

definition act_emit :: "effect \<Rightarrow> unit act" where
  "act_emit e s = (Inr (), s\<lparr>ws_effects := ws_effects s @ [e]\<rparr>)"

text \<open>
  \<open>subprocess.run(argv, timeout=...)\<close>: \<open>host\<close> says what each command answers, depending on what was
  done before it.
\<close>

type_synonym processes = "effect list \<Rightarrow> string list \<Rightarrow> proc"

definition act_run :: "processes \<Rightarrow> string list \<Rightarrow> (int \<times> string \<times> string) act" where
  "act_run host argv s =
     (let answer = host (ws_effects s) argv;
          s' = s\<lparr>ws_effects := ws_effects s @ [Ran argv answer]\<rparr>
      in case answer of
           Exited returncode out err \<Rightarrow> (Inr (returncode, out, err), s')
         | TimedOut \<Rightarrow> (Inl (Exn TimeoutExpired (''Command timed out'')), s')
         | NotFound \<Rightarrow> (Inl (Exn FileNotFoundError (''No such file or directory'')), s')
         | OsFailure m \<Rightarrow> (Inl (Exn OsError m), s'))"

fun act_each :: "('a \<Rightarrow> unit act) \<Rightarrow> 'a list \<Rightarrow> unit act" where
  "act_each f [] = act_return ()"
| "act_each f (x # xs) = act_then (f x) (act_each f xs)"

definition start_state :: "database \<Rightarrow> wstate" where
  "start_state db = \<lparr>ws_conn = open_conn db, ws_effects = []\<rparr>"

definition ws_db :: "wstate \<Rightarrow> database" where
  "ws_db s = working (ws_conn s)"

definition ws_committed :: "wstate \<Rightarrow> database" where
  "ws_committed s = committed (ws_conn s)"

section \<open>Correctness judgement\<close>

definition act_spec ::
    "(wstate \<Rightarrow> bool) \<Rightarrow> 'a act \<Rightarrow> ('a \<Rightarrow> wstate \<Rightarrow> bool) \<Rightarrow> (exn \<Rightarrow> wstate \<Rightarrow> bool) \<Rightarrow> bool" where
  "act_spec P m Q E = (\<forall>s. P s \<longrightarrow> (case m s of (Inr x, s') \<Rightarrow> Q x s' | (Inl e, s') \<Rightarrow> E e s'))"

named_theorems act_rules \<open>one rule of the judgement per construct\<close>

lemmas act_defs = act_return_def act_raise_def act_bind_def act_then_def act_catch_def act_lift_def
  act_query_def act_observe_def act_exec_def act_try_def act_commit_def act_rollback_def act_emit_def

lemma act_specI:
  "(\<And>s. P s \<Longrightarrow> case m s of (Inr x, s') \<Rightarrow> Q x s' | (Inl e, s') \<Rightarrow> E e s') \<Longrightarrow> act_spec P m Q E"
  by (simp add: act_spec_def)

lemma act_spec_Inr: "act_spec P m Q E \<Longrightarrow> P s \<Longrightarrow> m s = (Inr x, s') \<Longrightarrow> Q x s'"
  by (force simp: act_spec_def)

lemma act_spec_Inl: "act_spec P m Q E \<Longrightarrow> P s \<Longrightarrow> m s = (Inl e, s') \<Longrightarrow> E e s'"
  by (force simp: act_spec_def)

lemma act_spec_weaken:
  assumes "act_spec P m Q E" and "\<And>s. P' s \<Longrightarrow> P s"
    and "\<And>x s. Q x s \<Longrightarrow> Q' x s" and "\<And>e s. E e s \<Longrightarrow> E' e s"
  shows "act_spec P' m Q' E'"
  using assms unfolding act_spec_def by (fastforce split: prod.splits sum.splits)

lemma act_spec_pre: "act_spec P m Q E \<Longrightarrow> (\<And>s. P' s \<Longrightarrow> P s) \<Longrightarrow> act_spec P' m Q E"
  by (rule act_spec_weaken)

lemma spec_return [act_rules]: "act_spec (Q x) (act_return x) Q E"
  by (simp add: act_spec_def act_defs)

lemma spec_raise [act_rules]: "act_spec (E e) (act_raise e) Q E"
  by (simp add: act_spec_def act_defs)

lemma spec_bind [act_rules]:
  "(\<And>x. act_spec (R x) (f x) Q E) \<Longrightarrow> act_spec P m R E \<Longrightarrow> act_spec P (act_bind m f) Q E"
  unfolding act_spec_def act_bind_def by (fastforce split: prod.splits sum.splits)

lemma spec_then [act_rules]:
  "act_spec R n Q E \<Longrightarrow> act_spec P m (\<lambda>_. R) E \<Longrightarrow> act_spec P (act_then m n) Q E"
  unfolding act_then_def by (rule spec_bind)

lemma spec_catch [act_rules]:
  "(\<And>e. act_spec (F e) (h e) Q E) \<Longrightarrow> act_spec P m Q F \<Longrightarrow> act_spec P (act_catch m h) Q E"
  unfolding act_spec_def act_catch_def by (fastforce split: prod.splits sum.splits)

lemma spec_lift [act_rules]:
  "act_spec (\<lambda>s. case r of Inr x \<Rightarrow> Q x s | Inl e \<Rightarrow> E e s) (act_lift r) Q E"
  by (simp add: act_spec_def act_defs split: sum.splits)

lemma spec_query [act_rules]: "act_spec (\<lambda>s. Q (f (ws_db s)) s) (act_query f) Q E"
  by (simp add: act_spec_def act_defs ws_db_def)

lemma spec_observe [act_rules]: "act_spec (\<lambda>s. Q (f (ws_effects s)) s) (act_observe f) Q E"
  by (simp add: act_spec_def act_defs)

lemma spec_exec [act_rules]:
  "act_spec (\<lambda>s. Q () (s\<lparr>ws_conn := execute f (ws_conn s)\<rparr>)) (act_exec f) Q E"
  by (simp add: act_spec_def act_defs)

lemma spec_try [act_rules]:
  "act_spec (\<lambda>s. case f (ws_db s) of Inl e \<Rightarrow> E e s | Inr db \<Rightarrow> Q () (s\<lparr>ws_conn := execute (\<lambda>_. db) (ws_conn s)\<rparr>))
    (act_try f) Q E"
  by (auto simp: act_spec_def act_defs ws_db_def split: sum.splits)

lemma spec_commit [act_rules]: "act_spec (\<lambda>s. Q () (s\<lparr>ws_conn := commit (ws_conn s)\<rparr>)) act_commit Q E"
  by (simp add: act_spec_def act_defs)

lemma spec_rollback [act_rules]: "act_spec (\<lambda>s. Q () (s\<lparr>ws_conn := rollback (ws_conn s)\<rparr>)) act_rollback Q E"
  by (simp add: act_spec_def act_defs)

lemma spec_emit [act_rules]: "act_spec (\<lambda>s. Q () (s\<lparr>ws_effects := ws_effects s @ [e]\<rparr>)) (act_emit e) Q E"
  by (simp add: act_spec_def act_defs)

lemma spec_each:
  assumes "\<And>x. x \<in> set xs \<Longrightarrow> act_spec I (f x) (\<lambda>_. I) E"
  shows "act_spec I (act_each f xs) (\<lambda>_. I) E"
  using assms
proof (induction xs)
  case Nil
  show ?case by (auto intro: act_spec_pre [OF spec_return])
next
  case (Cons x xs)
  then show ?case by (auto intro!: spec_then)
qed

lemma spec_run [act_rules]:
  "act_spec (\<lambda>s. let s' = s\<lparr>ws_effects := ws_effects s @ [Ran argv (host (ws_effects s) argv)]\<rparr> in
      case host (ws_effects s) argv of
        Exited r out err \<Rightarrow> Q (r, out, err) s'
      | TimedOut \<Rightarrow> E (Exn TimeoutExpired ''Command timed out'') s'
      | NotFound \<Rightarrow> E (Exn FileNotFoundError ''No such file or directory'') s'
      | OsFailure m \<Rightarrow> E (Exn OsError m) s')
    (act_run host argv) Q E"
  by (auto simp: act_spec_def act_run_def Let_def split: proc.splits)

text \<open>A handler that raises its exception again after its clean-up never returns.\<close>

lemma spec_reraise: "act_spec P m (\<lambda>_. E e) F \<Longrightarrow> act_spec P (act_then m (act_raise e)) Q (\<lambda>e' s. E e' s \<or> F e' s)"
  unfolding act_spec_def act_then_def act_bind_def act_raise_def
  by (fastforce split: prod.splits sum.splits)

text \<open>A final block that returns and keeps both outcomes keeps the judgement.\<close>

lemma spec_finally:
  assumes "act_spec P m Q E" and "\<And>s. fst (f s) = Inr ()"
    and "\<And>x. act_spec (Q x) f (\<lambda>_. Q x) (\<lambda>_. Q x)" and "\<And>e. act_spec (E e) f (\<lambda>_. E e) (\<lambda>_. E e)"
  shows "act_spec P (act_finally m f) Q E"
proof -
  have never: "act_spec R f (\<lambda>_. R) F" if "act_spec R f (\<lambda>_. R) (\<lambda>_. R)" for R F
    using that assms(2) unfolding act_spec_def by (fastforce split: prod.splits sum.splits simp: prod_eq_iff)
  show ?thesis
    unfolding act_finally_def
    by (rule spec_bind [OF spec_then [OF spec_return never [OF assms(3)]]
          spec_catch [OF spec_then [OF spec_raise never [OF assms(4)]] assms(1)]])
qed

lemma ws_simps [simp]:
  "ws_db (s\<lparr>ws_conn := execute f (ws_conn s)\<rparr>) = f (ws_db s)"
  "ws_db (s\<lparr>ws_conn := commit (ws_conn s)\<rparr>) = ws_db s"
  "ws_db (s\<lparr>ws_conn := rollback (ws_conn s)\<rparr>) = ws_committed s"
  "ws_db (s\<lparr>ws_effects := es\<rparr>) = ws_db s"
  "ws_committed (s\<lparr>ws_conn := execute f (ws_conn s)\<rparr>) = ws_committed s"
  "ws_committed (s\<lparr>ws_conn := commit (ws_conn s)\<rparr>) = ws_db s"
  "ws_committed (s\<lparr>ws_conn := rollback (ws_conn s)\<rparr>) = ws_committed s"
  "ws_committed (s\<lparr>ws_effects := es\<rparr>) = ws_committed s"
  "ws_db (start_state db) = db" "ws_committed (start_state db) = db"
  "ws_effects (start_state db) = []"
  by (simp_all add: ws_db_def ws_committed_def start_state_def)

end
