(* ===== verification/AppData.thy ===== *)
theory AppData
  imports Worker "HOL-Library.AList"
begin

text \<open>
  \<open>core/data.py\<close>: the directories an app gets and the environment it is started with.  Directories are
  effects; \<open>archive_available\<close> is what \<open>os.path.isdir\<close> answers for the archive mount, and the random
  token is an argument.
\<close>

section \<open>Environment\<close>

type_synonym env = "(string \<times> string) list"

record provision =
  pn_data_dir :: string
  pn_temp_data_dir :: string
  pn_archive_dir :: string
  pn_archive_available :: bool
  pn_redirect_domain :: string
  pn_port :: int
  pn_token :: string

definition ROUTER_GATEWAY_HOST :: string where
  "ROUTER_GATEWAY_HOST = ''host.containers.internal''"

definition ROUTER_LOOPBACK_HOST :: string where
  "ROUTER_LOOPBACK_HOST = ''127.0.0.1''"

text \<open>Setting a variable only \<open>if upper_key != env_key\<close> is the same as setting it.\<close>

definition sqlite_env :: "'v libs \<Rightarrow> string \<Rightarrow> pyval \<Rightarrow> env \<Rightarrow> env result" where
  "sqlite_env L sqlite_dir dbn env =
     (let db_path = path_join sqlite_dir (py_str L dbn @ ''.db'');
          env' = AList.update (''OPENHOST_SQLITE_'' @ py_str L dbn) db_path env
      in case dbn of
           VStr n \<Rightarrow> Inr (if upper n \<noteq> n then AList.update (''OPENHOST_SQLITE_'' @ upper n) db_path env' else env')
         | v \<Rightarrow> Inl (no_attribute v ''upper''))"

fun sqlite_envs :: "'v libs \<Rightarrow> string \<Rightarrow> pyval list \<Rightarrow> env \<Rightarrow> env result" where
  "sqlite_envs L sqlite_dir [] env = Inr env"
| "sqlite_envs L sqlite_dir (n # ns) env = rbind (sqlite_env L sqlite_dir n env) (sqlite_envs L sqlite_dir ns)"

definition permanent_data_env :: "'v libs \<Rightarrow> string \<Rightarrow> app_manifest \<Rightarrow> env \<Rightarrow> env act" where
  "permanent_data_env L app_data_dir m env =
     (let sqlite_dir = path_join app_data_dir ''sqlite''
      in act_then (act_emit (DirMade app_data_dir))
        (act_then (if truthy (m_sqlite_dbs m) then act_emit (DirMade sqlite_dir) else act_return ())
          (act_lift (rbind (iter_elems (m_sqlite_dbs m)) (\<lambda>names.
             sqlite_envs L sqlite_dir names (AList.update ''OPENHOST_APP_DATA_DIR'' app_data_dir env))))))"

definition archive_env :: "provision \<Rightarrow> string \<Rightarrow> app_manifest \<Rightarrow> env \<Rightarrow> env act" where
  "archive_env pn app_archive_dir m env =
     (let with_archive = act_then (act_emit (DirMade app_archive_dir))
            (act_return (AList.update ''OPENHOST_APP_ARCHIVE_DIR'' app_archive_dir env))
      in if truthy (m_app_archive m)
         then (if \<not> pn_archive_available pn
               then act_raise (Exn RuntimeError (''archive_dir does not exist or is not a directory.''))
               else with_archive)
         else if truthy (m_access_all_app_data m) \<and> pn_archive_available pn then with_archive
         else act_return env)"

definition base_env :: "provision \<Rightarrow> string \<Rightarrow> string \<Rightarrow> app_manifest \<Rightarrow> string \<Rightarrow> string \<Rightarrow> env \<Rightarrow> env" where
  "base_env pn app_id app_name m zone_domain owner_username env =
     AList.update ''OPENHOST_OWNER_USERNAME'' owner_username
      (AList.update ''OPENHOST_MY_REDIRECT_DOMAIN'' (pn_redirect_domain pn)
       (AList.update ''OPENHOST_ZONE_DOMAIN'' zone_domain
        (AList.update ''OPENHOST_ROUTER_URL''
          (''http://'' @ (if truthy (m_network_host m) then ROUTER_LOOPBACK_HOST else ROUTER_GATEWAY_HOST)
             @ '':'' @ show_int (pn_port pn))
         (AList.update ''OPENHOST_APP_TOKEN'' (pn_token pn)
          (AList.update ''OPENHOST_APP_ID'' app_id
           (AList.update ''OPENHOST_APP_NAME'' app_name env))))))"

definition make_data_dirs_and_env_vars ::
    "'v libs \<Rightarrow> provision \<Rightarrow> string \<Rightarrow> string \<Rightarrow> app_manifest \<Rightarrow> string \<Rightarrow> string \<Rightarrow> env act" where
  "make_data_dirs_and_env_vars L pn app_id app_name m zone_domain owner_username =
     (let app_data_dir = path_join (path_join (pn_data_dir pn) ''app_data'') app_name;
          app_temp_dir = path_join (path_join (pn_temp_data_dir pn) ''app_temp_data'') app_name;
          app_archive_dir = path_join (pn_archive_dir pn) app_name;
          wants_all = truthy (m_access_all_app_data m);
          needs_app_data = (truthy (m_app_data m) \<or> truthy (m_sqlite_dbs m) \<or> wants_all)
      in act_bind (if needs_app_data then permanent_data_env L app_data_dir m [] else act_return []) (\<lambda>env1.
         act_bind (if truthy (m_app_temp_data m) \<or> wants_all
                   then act_then (act_emit (DirMade app_temp_dir))
                          (act_return (AList.update ''OPENHOST_APP_TEMP_DIR'' app_temp_dir env1))
                   else act_return env1) (\<lambda>env2.
         act_bind (archive_env pn app_archive_dir m env2) (\<lambda>env3.
         act_then (act_emit (DirMade app_temp_dir))
           (act_return (base_env pn app_id app_name m zone_domain owner_username env3))))))"

definition deprovision_temp_data :: "string \<Rightarrow> provision \<Rightarrow> unit act" where
  "deprovision_temp_data app_name pn =
     act_emit (DirRemoved (path_join (path_join (pn_temp_data_dir pn) ''app_temp_data'') app_name))"

definition deprovision_data :: "string \<Rightarrow> provision \<Rightarrow> unit act" where
  "deprovision_data app_name pn =
     act_then (act_emit (DirRemoved (path_join (path_join (pn_data_dir pn) ''app_data'') app_name)))
       (act_then (act_emit (DirRemoved (path_join (pn_archive_dir pn) app_name)))
         (deprovision_temp_data app_name pn))"

section \<open>Lemmas\<close>

text \<open>Provisioning touches directories only: it neither reads nor writes the database.\<close>

definition same_db :: "database \<Rightarrow> database \<Rightarrow> wstate \<Rightarrow> bool" where
  "same_db db cdb s = (ws_db s = db \<and> ws_committed s = cdb)"

lemma env_same_db:
  "act_spec (same_db db cdb) (make_data_dirs_and_env_vars L pn i n m z u) (\<lambda>_. same_db db cdb) (\<lambda>_. same_db db cdb)"
  by (auto simp: act_spec_def make_data_dirs_and_env_vars_def permanent_data_env_def archive_env_def act_defs
      same_db_def Let_def split: sum.splits prod.splits if_splits)

lemma deprovision_same_db:
  "act_spec (same_db db cdb) (deprovision_data n pn) (\<lambda>_. same_db db cdb) E"
  "act_spec (same_db db cdb) (deprovision_temp_data n pn) (\<lambda>_. same_db db cdb) E"
  by (auto simp: act_spec_def deprovision_data_def deprovision_temp_data_def act_defs same_db_def)

lemma sqlite_env_other:
  "sqlite_env L d n env = Inr env' \<Longrightarrow> \<not> prefix ''OPENHOST_SQLITE_'' k \<Longrightarrow> map_of env' k = map_of env k"
  by (auto simp: sqlite_env_def Let_def update_conv' split: pyval.splits if_splits)

lemma sqlite_envs_other:
  "sqlite_envs L d ns env = Inr env' \<Longrightarrow> \<not> prefix ''OPENHOST_SQLITE_'' k \<Longrightarrow> map_of env' k = map_of env k"
  by (induction ns arbitrary: env) (auto dest: sqlite_env_other)

lemma permanent_env_other:
  "permanent_data_env L d m env s = (Inr env', s') \<Longrightarrow> \<not> prefix ''OPENHOST_SQLITE_'' k \<Longrightarrow>
   k \<noteq> ''OPENHOST_APP_DATA_DIR'' \<Longrightarrow> map_of env' k = map_of env k"
  by (auto simp: permanent_data_env_def Let_def act_defs update_conv' dest!: sqlite_envs_other
      split: sum.splits prod.splits if_splits)

lemma permanent_env_data_dir:
  "permanent_data_env L d m env s = (Inr env', s') \<Longrightarrow> map_of env' ''OPENHOST_APP_DATA_DIR'' = Some d"
  by (auto simp: permanent_data_env_def Let_def act_defs update_conv' dest!: sqlite_envs_other
      split: sum.splits prod.splits if_splits)

lemma archive_env_Inr:
  assumes "archive_env pn d m env s = (Inr env', s')"
  shows "env' = (if truthy (m_app_archive m) \<or> (truthy (m_access_all_app_data m) \<and> pn_archive_available pn)
      then AList.update ''OPENHOST_APP_ARCHIVE_DIR'' d env else env)
    \<and> (truthy (m_app_archive m) \<longrightarrow> pn_archive_available pn)"
  using assms by (auto simp: archive_env_def Let_def act_defs split: if_splits)

section \<open>Properties\<close>

text \<open>The environment of an app names a storage tier exactly when the manifest asks for it: the permanent
  directory when it wants permanent data, databases or everyone's data, the temporary one and the archive
  likewise (an archive that is required but not there fails the launch); and it carries the app's own id,
  name and fresh token.\<close>

theorem env_names_declared_tiers:
  assumes "make_data_dirs_and_env_vars L pn i n m zone owner s = (Inr env, s')"
  shows "map_of env ''OPENHOST_APP_DATA_DIR''
      = (if truthy (m_app_data m) \<or> truthy (m_sqlite_dbs m) \<or> truthy (m_access_all_app_data m)
         then Some (path_join (path_join (pn_data_dir pn) ''app_data'') n) else None)
    \<and> map_of env ''OPENHOST_APP_TEMP_DIR''
      = (if truthy (m_app_temp_data m) \<or> truthy (m_access_all_app_data m)
         then Some (path_join (path_join (pn_temp_data_dir pn) ''app_temp_data'') n) else None)
    \<and> map_of env ''OPENHOST_APP_ARCHIVE_DIR''
      = (if truthy (m_app_archive m) \<or> (truthy (m_access_all_app_data m) \<and> pn_archive_available pn)
         then Some (path_join (pn_archive_dir pn) n) else None)
    \<and> (truthy (m_app_archive m) \<longrightarrow> pn_archive_available pn)
    \<and> map_of env ''OPENHOST_APP_ID'' = Some i \<and> map_of env ''OPENHOST_APP_NAME'' = Some n
    \<and> map_of env ''OPENHOST_APP_TOKEN'' = Some (pn_token pn)"
proof -
  let ?data = "path_join (path_join (pn_data_dir pn) ''app_data'') n"
  let ?temp = "path_join (path_join (pn_temp_data_dir pn) ''app_temp_data'') n"
  let ?needs = "truthy (m_app_data m) \<or> truthy (m_sqlite_dbs m) \<or> truthy (m_access_all_app_data m)"
  let ?temps = "truthy (m_app_temp_data m) \<or> truthy (m_access_all_app_data m)"
  obtain env1 s1 where 1: "(if ?needs then permanent_data_env L ?data m [] else act_return []) s = (Inr env1, s1)"
    and 2: "act_bind (if ?temps then act_then (act_emit (DirMade ?temp))
                          (act_return (AList.update ''OPENHOST_APP_TEMP_DIR'' ?temp env1))
                   else act_return env1) (\<lambda>env2.
         act_bind (archive_env pn (path_join (pn_archive_dir pn) n) m env2) (\<lambda>env3.
         act_then (act_emit (DirMade ?temp)) (act_return (base_env pn i n m zone owner env3)))) s1 = (Inr env, s')"
    using assms unfolding make_data_dirs_and_env_vars_def Let_def act_bind_def [of "if ?needs then _ else _"]
    by (auto split: prod.splits sum.splits)
  let ?env2 = "if ?temps then AList.update ''OPENHOST_APP_TEMP_DIR'' ?temp env1 else env1"
  from 2 obtain s2 env3 s3 where 3: "archive_env pn (path_join (pn_archive_dir pn) n) m ?env2 s2 = (Inr env3, s3)"
    and 4: "env = base_env pn i n m zone owner env3"
    by (auto simp: act_bind_def act_then_def act_emit_def act_return_def split: prod.splits sum.splits if_splits)
  have d: "map_of env1 ''OPENHOST_APP_DATA_DIR'' = (if ?needs then Some ?data else None)"
    using 1 by (auto simp: act_return_def dest: permanent_env_data_dir split: if_splits)
  have o': "map_of env1 k = None"
    if "k \<in> {''OPENHOST_APP_TEMP_DIR'', ''OPENHOST_APP_ARCHIVE_DIR''}" for k
    using 1 that permanent_env_other [of L ?data m "[]" s env1 s1 k]
    by (auto simp: act_return_def split: if_splits)
  show ?thesis
    unfolding 4 base_env_def using archive_env_Inr [OF 3] d o'
    by (simp add: update_conv')
qed

text \<open>A small app, for the witnesses.\<close>

definition example_app :: app_manifest where
  "example_app = \<lparr>m_name = VStr ''notes'', m_version = VStr ''1.0'', m_description = VStr [], m_authors = VList [],
     m_runtime_type = VStr ''serverfull'', m_container_image = VStr ''Dockerfile'', m_container_port = VInt 8080,
     m_container_command = VNone, m_port_mappings = [], m_capabilities = [], m_devices = [], m_shm_mb = 0,
     m_network_host = VBool False, m_health_check = VNone, m_public_paths = VList [], m_links = [],
     m_memory_mb = VInt 128, m_build_memory_mb = VNone, m_cpu_cores = 1 / 10, m_gpu = VBool False,
     m_sqlite_dbs = VList [VStr ''main''], m_app_data = VBool True, m_app_temp_data = VBool False,
     m_app_archive = VBool True, m_access_all_app_data = VBool False, m_provides = [], m_consumes = [],
     m_hidden = VBool False, m_raw_toml = ''new''\<rparr>"

definition example_provision :: provision where
  "example_provision = \<lparr>pn_data_dir = ''/data'', pn_temp_data_dir = ''/temp'', pn_archive_dir = ''/archive'',
     pn_archive_available = True, pn_redirect_domain = ''my.example.com'', pn_port = 8080, pn_token = ''tok''\<rparr>"

theorem env_names_declared_tiers_witness:
  "\<exists>env s. make_data_dirs_and_env_vars example_libs example_provision ''id'' ''notes'' example_app
      ''example.com'' ''owner'' (start_state empty_db) = (Inr env, s)
    \<and> map_of env ''OPENHOST_APP_TOKEN'' = Some ''tok''"
proof -
  let ?r = "make_data_dirs_and_env_vars example_libs example_provision ''id'' ''notes'' example_app
      ''example.com'' ''owner'' (start_state empty_db)"
  have "isl (fst ?r) = False"
    by (simp add: make_data_dirs_and_env_vars_def archive_env_def permanent_data_env_def sqlite_env_def act_defs
        example_app_def example_provision_def Let_def)
  then obtain env where "fst ?r = Inr env"
    by (metis isl_def sum.exhaust)
  then have r: "?r = (Inr env, snd ?r)"
    by (metis prod.collapse)
  from env_names_declared_tiers [OF r] r show ?thesis
    by (auto simp: example_provision_def)
qed

end
