(* ===== verification/Strings.thy ===== *)
theory Strings
  imports Prelude
begin

text \<open>
  More of Python's \<open>str\<close> and \<open>os.path\<close>: splitting, replacing, and the POSIX path functions the source
  calls.  Paths are absolute or relative to the working directory \<open>cwd\<close>.
\<close>

section \<open>Splitting and replacing\<close>

text \<open>\<open>s.split(c)\<close> for one character \<open>c\<close>; the result is never empty.\<close>

fun split_char :: "char \<Rightarrow> string \<Rightarrow> string list" where
  "split_char c [] = [[]]"
| "split_char c (d # s) =
     (if d = c then [] # split_char c s
      else case split_char c s of [] \<Rightarrow> [[d]] | w # ws \<Rightarrow> (d # w) # ws)"

text \<open>\<open>s.split()\<close>: the maximal runs of non-space characters.\<close>

fun words_from :: "string \<Rightarrow> string \<Rightarrow> string list" where
  "words_from w [] = (if w = [] then [] else [rev w])"
| "words_from w (c # s) =
     (if is_space c then (if w = [] then words_from [] s else rev w # words_from [] s)
      else words_from (c # w) s)"

definition split_ws :: "string \<Rightarrow> string list" where
  "split_ws s = words_from [] s"

text \<open>
  \<open>s.splitlines()\<close>, with the line boundaries of the 8-bit range (\<open>\\r\\n\<close> counts once); a boundary at
  the end opens no further line.
\<close>

definition is_line_break :: "char \<Rightarrow> bool" where
  "is_line_break c = (code c \<in> {10, 11, 12, 13, 28, 29, 30, 133})"

fun lines_from :: "string \<Rightarrow> string \<Rightarrow> string list" where
  "lines_from w [] = (if w = [] then [] else [rev w])"
| "lines_from w (c # s) =
     (if is_line_break c
      then rev w # lines_from [] (if code c = 13 \<and> s \<noteq> [] \<and> code (hd s) = 10 then tl s else s)
      else lines_from (c # w) s)"

definition splitlines :: "string \<Rightarrow> string list" where
  "splitlines s = lines_from [] s"

text \<open>\<open>s.partition(sep)\<close> at the first occurrence, \<open>None\<close> when \<open>sep\<close> does not occur.\<close>

fun cut_first :: "string \<Rightarrow> string \<Rightarrow> (string \<times> string) option" where
  "cut_first sep [] = (if sep = [] then Some ([], []) else None)"
| "cut_first sep (c # s) =
     (if prefix sep (c # s) then Some ([], drop (length sep) (c # s))
      else map_option (\<lambda>(a, b). (c # a, b)) (cut_first sep s))"

text \<open>\<open>s.replace(old, new)\<close> for a non-empty \<open>old\<close>; the fuel is the length of the string.\<close>

fun replace_fuel :: "nat \<Rightarrow> string \<Rightarrow> string \<Rightarrow> string \<Rightarrow> string" where
  "replace_fuel 0 old new s = s"
| "replace_fuel (Suc n) old new s =
     (case cut_first old s of None \<Rightarrow> s | Some (a, b) \<Rightarrow> a @ new @ replace_fuel n old new b)"

definition replace_all :: "string \<Rightarrow> string \<Rightarrow> string \<Rightarrow> string" where
  "replace_all old new s = replace_fuel (length s) old new s"

definition startswith :: "string \<Rightarrow> string \<Rightarrow> bool" where
  "startswith s p = prefix p s"

definition endswith :: "string \<Rightarrow> string \<Rightarrow> bool" where
  "endswith s p = suffix p s"

definition removesuffix :: "string \<Rightarrow> string \<Rightarrow> string" where
  "removesuffix p s = (if p \<noteq> [] \<and> suffix p s then take (length s - length p) s else s)"

section \<open>Paths\<close>

definition dirname :: "string \<Rightarrow> string" where
  "dirname p =
     (let hd_part = take (length p - length (after_last CHR ''/'' p)) p
      in if CHR ''/'' \<notin> set p then []
         else if \<forall>c \<in> set hd_part. c = CHR ''/'' then hd_part
         else rstrip_if (\<lambda>c. c = CHR ''/'') hd_part)"

definition basename :: "string \<Rightarrow> string" where
  "basename p = after_last CHR ''/'' p"

text \<open>The components of an absolute path after \<open>os.path.normpath\<close>: \<open>..\<close> at the root is the root.\<close>

fun norm_parts :: "string list \<Rightarrow> string list \<Rightarrow> string list" where
  "norm_parts acc [] = rev acc"
| "norm_parts acc (p # ps) =
     (if p = [] \<or> p = ''.'' then norm_parts acc ps
      else if p = ''..'' then norm_parts (tl acc) ps
      else norm_parts (p # acc) ps)"

definition abs_parts :: "string \<Rightarrow> string \<Rightarrow> string list" where
  "abs_parts cwd p =
     norm_parts [] (split_char CHR ''/'' (if prefix ''/'' p then p else cwd @ ''/'' @ p))"

fun common_prefix_length :: "string list \<Rightarrow> string list \<Rightarrow> nat" where
  "common_prefix_length (x # xs) (y # ys) = (if x = y then Suc (common_prefix_length xs ys) else 0)"
| "common_prefix_length _ _ = 0"

text \<open>\<open>os.path.relpath(path, start)\<close> for a non-empty path.\<close>

definition relpath :: "string \<Rightarrow> string \<Rightarrow> string \<Rightarrow> string" where
  "relpath cwd p start =
     (let sl = abs_parts cwd start; pl = abs_parts cwd p; i = common_prefix_length sl pl;
          rel = replicate (length sl - i) ''..'' @ drop i pl
      in if rel = [] then ''.'' else join ''/'' rel)"

section \<open>Lemmas\<close>

lemma split_char_not_Nil [simp]: "split_char c s \<noteq> []"
  by (induction s) (auto split: list.splits)

lemma split_char_no_sep: "w \<in> set (split_char c s) \<Longrightarrow> c \<notin> set w"
  by (induction s arbitrary: w) (auto split: list.splits if_splits)

lemma split_char_id: "c \<notin> set s \<Longrightarrow> split_char c s = [s]"
  by (induction s) auto

lemma split_char_append: "c \<notin> set a \<Longrightarrow> split_char c (a @ c # b) = a # split_char c b"
  by (induction a) auto

text \<open>Joining undoes splitting, and splitting undoes joining.\<close>

lemma join_Cons: "ws \<noteq> [] \<Longrightarrow> join sep (w # ws) = w @ sep @ join sep ws"
  by (cases ws) auto

lemma join_head: "join sep ((d # w) # ws) = d # join sep (w # ws)"
  by (cases ws) auto

lemma join_split_char: "join [c] (split_char c s) = s"
proof (induction s)
  case (Cons d s)
  obtain w ws where "split_char c s = w # ws"
    by (cases "split_char c s") auto
  with Cons show ?case by (auto simp: join_head)
qed simp

lemma split_join_char:
  "ws \<noteq> [] \<Longrightarrow> list_all (\<lambda>w. c \<notin> set w) ws \<Longrightarrow> split_char c (join [c] ws) = ws"
proof (induction ws)
  case (Cons w ws)
  then show ?case by (cases ws) (simp_all add: split_char_id split_char_append)
qed simp

lemma cut_first_Some: "cut_first sep s = Some (a, b) \<Longrightarrow> s = a @ sep @ b"
  by (induction s arbitrary: a) (auto simp: prefix_def split: if_splits)

lemma cut_first_None: "cut_first sep s = None \<longleftrightarrow> \<not> contains sep s"
  by (induction s) auto

lemma common_prefix_length_le: "common_prefix_length xs ys \<le> length xs"
  by (induction xs ys rule: common_prefix_length.induct) auto

lemma common_prefix_append: "common_prefix_length xs (xs @ ys) = length xs"
  by (induction xs) auto

end
