(* ===== verification/Containers.thy ===== *)
theory Containers
  imports AppData Strings Regex
begin

text \<open>
  \<open>core/containers.py\<close>: the image build, the command line an app's container is started with, stopping
  and removing containers and images.  Every \<open>podman\<close> call is an effect that records the argument
  vector and the answer; log files can always be written.
\<close>

section \<open>Names and environment\<close>

definition CONTAINER_ROOT :: string where
  "CONTAINER_ROOT = ''/data''"

definition LEGACY_ENV_PREFIX :: string where
  "LEGACY_ENV_PREFIX = ''OPENHOST_''"

definition ENV_PREFIX :: string where
  "ENV_PREFIX = ''BOTTLE_''"

definition setdefault :: "string \<Rightarrow> string \<Rightarrow> env \<Rightarrow> env" where
  "setdefault k v env = (if map_of env k = None then env @ [(k, v)] else env)"

fun alias_loop :: "env \<Rightarrow> env \<Rightarrow> env" where
  "alias_loop [] aliased = aliased"
| "alias_loop ((key, v) # env) aliased =
     alias_loop env
       (if startswith key LEGACY_ENV_PREFIX
        then setdefault (ENV_PREFIX @ drop (length LEGACY_ENV_PREFIX) key) v aliased else aliased)"

definition add_bottle_env_aliases :: "env \<Rightarrow> env" where
  "add_bottle_env_aliases env = alias_loop env env"

definition CONTAINER_GATEWAY_IP :: string where
  "CONTAINER_GATEWAY_IP = ''10.200.0.1''"

definition DOCKER_COMPAT_HOST :: string where
  "DOCKER_COMPAT_HOST = ''host.docker.internal''"

definition ROUTER_INTERNAL_HOSTS :: "string set" where
  "ROUTER_INTERNAL_HOSTS = {ROUTER_GATEWAY_HOST, DOCKER_COMPAT_HOST, ROUTER_LOOPBACK_HOST}"

definition DEFAULT_CAPABILITIES :: "string list" where
  "DEFAULT_CAPABILITIES = [''CHOWN'', ''DAC_OVERRIDE'', ''FOWNER'', ''FSETID'', ''KILL'', ''NET_BIND_SERVICE'',
     ''SETFCAP'', ''SETGID'', ''SETPCAP'', ''SETUID'', ''SYS_CHROOT'', ''NET_RAW'', ''MKNOD'', ''AUDIT_WRITE'']"

section \<open>Build failures\<close>

definition BUILD_CACHE_CORRUPT_MARKER :: string where
  "BUILD_CACHE_CORRUPT_MARKER = ''[BUILD_CACHE_CORRUPT]''"

definition BUILD_CACHE_CORRUPT_FRAGMENTS :: "string list" where
  "BUILD_CACHE_CORRUPT_FRAGMENTS =
     [''storage-driver errored'', ''layer not known'', ''identifier is not a container'']"

definition any_char :: "char \<Rightarrow> bool" where
  "any_char c = (code c \<noteq> 10)"

text \<open>A literal with \<open>re.IGNORECASE\<close>, and \<open>re.search\<close> as a match of the whole line.\<close>

fun literal_ci :: "string \<Rightarrow> rx" where
  "literal_ci [] = Eps"
| "literal_ci (c # s) = Seq (Sym (\<lambda>d. lower_char d = lower_char c)) (literal_ci s)"

definition re_search :: "rx \<Rightarrow> string \<Rightarrow> bool" where
  "re_search r s = rx_matches (Seq (Star (Sym (\<lambda>_. True))) (Seq r (Star (Sym (\<lambda>_. True))))) s"

definition is_hex_ci :: "char \<Rightarrow> bool" where
  "is_hex_ci c = (is_digit c \<or> (97 \<le> code (lower_char c) \<and> code (lower_char c) \<le> 102))"

definition MISSING_LAYER_RE :: rx where
  "MISSING_LAYER_RE = Seq (literal_ci ''content digest sha256:'')
     (Seq (Seq (Sym is_hex_ci) (Star (Sym is_hex_ci)))
       (Seq (literal_ci '':'') (Seq (Star (Sym is_space)) (literal_ci ''not found''))))"

definition OVERLAY_LINK_CORRUPT_RE :: rx where
  "OVERLAY_LINK_CORRUPT_RE = Seq (literal_ci ''readlink '') (Seq (Star (Sym any_char))
     (Seq (literal_ci ''overlay'') (Seq (Star (Sym any_char)) (literal_ci '': invalid argument''))))"

definition is_build_cache_corrupt_line :: "string \<Rightarrow> bool" where
  "is_build_cache_corrupt_line line =
     (if \<exists>frag \<in> set BUILD_CACHE_CORRUPT_FRAGMENTS. contains frag line then True
      else re_search MISSING_LAYER_RE line \<or> re_search OVERLAY_LINK_CORRUPT_RE line)"

definition log_path :: "string \<Rightarrow> string \<Rightarrow> string" where
  "log_path app_name temp_data_dir =
     path_join (path_join (path_join temp_data_dir ''app_temp_data'') app_name) ''docker.log''"

definition append_log :: "string \<Rightarrow> string \<Rightarrow> string \<Rightarrow> unit act" where
  "append_log app_name temp_data_dir txt =
     (let log_file = log_path app_name temp_data_dir
      in act_then (act_emit (DirMade (dirname log_file))) (act_emit (FileAppended log_file txt)))"

definition MAX_LOG_FILES :: nat where
  "MAX_LOG_FILES = 5"

text \<open>The archived logs \<open>archive_old_log\<close> deletes: all but the last five, by name, of \<open>os.listdir\<close>.\<close>

definition logs_to_prune :: "string \<Rightarrow> string list \<Rightarrow> string list" where
  "logs_to_prune log_file entries =
     (let base = basename log_file @ ''.'';
          archived = sort (filter (\<lambda>f. startswith f base) entries)
      in take (length archived - MAX_LOG_FILES) archived)"

definition is_build_cache_corrupt :: "string \<Rightarrow> bool" where
  "is_build_cache_corrupt output = (\<exists>line \<in> set (splitlines output). is_build_cache_corrupt_line line)"

definition build_failed :: "string \<Rightarrow> int \<Rightarrow> exn" where
  "build_failed output returncode =
     (if is_build_cache_corrupt output
      then Exn RuntimeError (BUILD_CACHE_CORRUPT_MARKER @ '' Container build cache is corrupted.'')
      else let lines = filter (\<lambda>l. l \<noteq> []) (splitlines output);
               tail = (if lines \<noteq> [] then last lines else []);
               tail = (if length tail > 150 then ''...'' @ drop (length tail - 150) tail else tail)
           in Exn RuntimeError (''Container build failed (exit code '' @ show_int returncode @ ''):'' @ [newline] @ tail))"

definition image_tag :: "string \<Rightarrow> string" where
  "image_tag app_name = ''openhost-'' @ app_name @ '':latest''"

text \<open>The lines \<open>for line in proc.stdout\<close> yields, with their line ends.\<close>

fun stdout_lines :: "string \<Rightarrow> string \<Rightarrow> string list" where
  "stdout_lines w [] = (if w = [] then [] else [rev w])"
| "stdout_lines w (c # s) = (if c = newline then rev (c # w) # stdout_lines [] s else stdout_lines (c # w) s)"

definition str_arg :: "pyval \<Rightarrow> string result" where
  "str_arg v = (case v of VStr s \<Rightarrow> Inr s
     | _ \<Rightarrow> Inl (Exn TypeError (''join() argument must be str, bytes, or os.PathLike object, not '' @ squote (type_name v))))"

definition build_cmd :: "'v libs \<Rightarrow> string \<Rightarrow> string \<Rightarrow> string \<Rightarrow> pyval \<Rightarrow> string list" where
  "build_cmd L app_name repo_path dockerfile memory_mb =
     [''podman'', ''build'', ''-t'', image_tag app_name, ''-f'', path_join repo_path dockerfile]
     @ (if memory_mb \<noteq> VNone
        then [''--memory='' @ py_str L memory_mb @ ''m'', ''--memory-swap='' @ py_str L memory_mb @ ''m''] else [])
     @ [repo_path]"

definition build_image ::
    "'v libs \<Rightarrow> processes \<Rightarrow> string \<Rightarrow> string \<Rightarrow> pyval \<Rightarrow> string \<Rightarrow> pyval \<Rightarrow> string act" where
  "build_image L host app_name repo_path dockerfile_rel_path temp_data_dir memory_mb =
     act_bind (act_lift (str_arg dockerfile_rel_path)) (\<lambda>dockerfile.
     act_then (if temp_data_dir \<noteq> []
               then append_log app_name temp_data_dir (''=== Building image: '' @ image_tag app_name @ '' ==='' @ [newline])
               else act_return ())
     (act_bind (act_run host (build_cmd L app_name repo_path dockerfile memory_mb)) (\<lambda>(returncode, out, err).
      act_then (if temp_data_dir \<noteq> []
                then act_each (append_log app_name temp_data_dir) (stdout_lines [] out) else act_return ())
      (if returncode \<noteq> 0
       then act_raise (build_failed (if temp_data_dir \<noteq> [] then out else out @ err) returncode)
       else act_then (if temp_data_dir \<noteq> []
                      then append_log app_name temp_data_dir (''=== Build complete ==='' @ [newline, newline])
                      else act_return ())
              (act_return (image_tag app_name))))))"

section \<open>Starting a container\<close>

definition bind_mount_arg :: "string \<Rightarrow> string \<Rightarrow> bool \<Rightarrow> string" where
  "bind_mount_arg host_path container_path read_only =
     host_path @ '':'' @ container_path @ '':'' @ (if read_only then ''ro,idmap'' else ''idmap'')"

text \<open>The directories of one app, on the host and in its container.\<close>

record app_dirs =
  ad_data :: string
  ad_temp :: string
  ad_archive :: string

definition host_dirs :: "string \<Rightarrow> string \<Rightarrow> string \<Rightarrow> string \<Rightarrow> app_dirs" where
  "host_dirs app_name data_dir temp_data_dir archive_dir =
     \<lparr>ad_data = path_join (path_join data_dir ''app_data'') app_name,
      ad_temp = path_join (path_join temp_data_dir ''app_temp_data'') app_name,
      ad_archive = path_join archive_dir app_name\<rparr>"

definition container_dirs :: "string \<Rightarrow> app_dirs" where
  "container_dirs app_name =
     \<lparr>ad_data = CONTAINER_ROOT @ ''/app_data/'' @ app_name,
      ad_temp = CONTAINER_ROOT @ ''/app_temp_data/'' @ app_name,
      ad_archive = CONTAINER_ROOT @ ''/app_archive/'' @ app_name\<rparr>"

definition container_env_value :: "string \<Rightarrow> app_dirs \<Rightarrow> app_dirs \<Rightarrow> string \<Rightarrow> string \<Rightarrow> string" where
  "container_env_value cwd hdirs cdirs key v =
     (if startswith key ''OPENHOST_SQLITE_'' then path_join (ad_data cdirs) (relpath cwd v (ad_data hdirs))
      else if key = ''OPENHOST_APP_DATA_DIR'' then ad_data cdirs
      else if key = ''OPENHOST_APP_TEMP_DIR'' then ad_temp cdirs
      else if key = ''OPENHOST_APP_ARCHIVE_DIR'' then ad_archive cdirs
      else v)"

record run_config =
  rc_cwd :: string
  rc_data_dir :: string
  rc_temp_data_dir :: string
  rc_archive_dir :: string
  rc_archive_is_dir :: bool

definition network_options :: "'v libs \<Rightarrow> app_manifest \<Rightarrow> int \<Rightarrow> string list list" where
  "network_options L m local_port =
     (if truthy (m_network_host m) then [[''--network=host'']]
      else [[''-p'', ''127.0.0.1:'' @ show_int local_port @ '':'' @ py_str L (m_container_port m)],
            [''--add-host='' @ DOCKER_COMPAT_HOST @ '':host-gateway''],
            [''--add-host='' @ ROUTER_GATEWAY_HOST @ '':host-gateway''],
            [''--dns'', CONTAINER_GATEWAY_IP]])"

definition limit_options :: "'v libs \<Rightarrow> (rat \<Rightarrow> string) \<Rightarrow> app_manifest \<Rightarrow> string \<Rightarrow> string list list" where
  "limit_options L float_str m container_log_file =
     [[''--memory='' @ py_str L (m_memory_mb m) @ ''m''], [''--cpus='' @ float_str (m_cpu_cores m)],
      [''--restart=unless-stopped''], [''--cap-drop=ALL''], [''--security-opt=no-new-privileges=true''],
      [''--log-driver=k8s-file''], [''--log-opt=path='' @ container_log_file], [''--log-opt=max-size=1mb'']]
     @ (if m_shm_mb m > 0 then [[''--shm-size='' @ show_int (m_shm_mb m) @ ''m'']] else [])
     @ map (\<lambda>cap. [''--cap-add'', cap]) (sort DEFAULT_CAPABILITIES)"

definition mount_options :: "run_config \<Rightarrow> app_dirs \<Rightarrow> app_dirs \<Rightarrow> app_manifest \<Rightarrow> string list list" where
  "mount_options rc hdirs cdirs m =
     (let wants_all = truthy (m_access_all_app_data m);
          has_app_data = (truthy (m_app_data m) \<or> truthy (m_sqlite_dbs m) \<or> wants_all);
          has_app_temp = (truthy (m_app_temp_data m) \<or> wants_all);
          has_app_archive = (truthy (m_app_archive m) \<or> wants_all)
      in (if wants_all
          then [[''-v'', bind_mount_arg (path_join (rc_data_dir rc) ''app_data'') (CONTAINER_ROOT @ ''/app_data'') False],
                [''-v'', bind_mount_arg (path_join (rc_temp_data_dir rc) ''app_temp_data'')
                          (CONTAINER_ROOT @ ''/app_temp_data'') False]]
          else (if has_app_data then [[''-v'', bind_mount_arg (ad_data hdirs) (ad_data cdirs) False]] else [])
             @ (if has_app_temp then [[''-v'', bind_mount_arg (ad_temp hdirs) (ad_temp cdirs) False]] else []))
       @ (if wants_all
          then (if rc_archive_is_dir rc
                then [[''-v'', bind_mount_arg (rc_archive_dir rc) (CONTAINER_ROOT @ ''/app_archive'') False]] else [])
          else if has_app_archive then [[''-v'', bind_mount_arg (ad_archive hdirs) (ad_archive cdirs) False]] else []))"

definition port_options :: "app_manifest \<Rightarrow> port_mapping list \<Rightarrow> string list list" where
  "port_options m port_mappings =
     (if truthy (m_network_host m) then []
      else concat (map (\<lambda>pm.
        [[''-p'', ''0.0.0.0:'' @ show_int (pm_host_port pm) @ '':'' @ show_int (pm_container_port pm) @ ''/tcp''],
         [''-p'', ''0.0.0.0:'' @ show_int (pm_host_port pm) @ '':'' @ show_int (pm_container_port pm) @ ''/udp'']])
        port_mappings))"

definition final_env :: "run_config \<Rightarrow> app_dirs \<Rightarrow> app_dirs \<Rightarrow> app_manifest \<Rightarrow> int \<Rightarrow> env \<Rightarrow> env" where
  "final_env rc hdirs cdirs m local_port env_vars =
     (let container_env = map (\<lambda>(k, v). (k, container_env_value (rc_cwd rc) hdirs cdirs k v)) env_vars
      in add_bottle_env_aliases
           (if truthy (m_network_host m) then AList.update ''OPENHOST_LOCAL_PORT'' (show_int local_port) container_env
            else container_env))"

text \<open>The options of \<open>podman run\<close>, each with its argument, in the order the code appends them.\<close>

definition run_options ::
    "'v libs \<Rightarrow> (rat \<Rightarrow> string) \<Rightarrow> run_config \<Rightarrow> string \<Rightarrow> app_manifest \<Rightarrow> int \<Rightarrow> env \<Rightarrow> port_mapping list
     \<Rightarrow> string list list" where
  "run_options L float_str rc app_name m local_port env_vars port_mappings =
     (let hdirs = host_dirs app_name (rc_data_dir rc) (rc_temp_data_dir rc) (rc_archive_dir rc);
          cdirs = container_dirs app_name;
          container_name = ''openhost-'' @ app_name
      in [[''--name'', container_name], [''--hostname'', container_name]]
       @ network_options L m local_port
       @ limit_options L float_str m (path_join (ad_temp hdirs) ''container.log'')
       @ mount_options rc hdirs cdirs m
       @ port_options m port_mappings
       @ [[''--cap-add'', cap]. cap \<leftarrow> m_capabilities m, cap \<notin> set DEFAULT_CAPABILITIES]
       @ map (\<lambda>device. [''--device'', device]) (m_devices m)
       @ map (\<lambda>(k, v). [''-e'', k @ ''='' @ v]) (final_env rc hdirs cdirs m local_port env_vars))"

definition container_command :: "app_manifest \<Rightarrow> string list result" where
  "container_command m =
     (if truthy (m_container_command m)
      then (case m_container_command m of VStr s \<Rightarrow> Inr (split_ws s) | v \<Rightarrow> Inl (no_attribute v ''split''))
      else Inr [])"

definition run_container ::
    "'v libs \<Rightarrow> (rat \<Rightarrow> string) \<Rightarrow> processes \<Rightarrow> run_config \<Rightarrow> string \<Rightarrow> string \<Rightarrow> app_manifest \<Rightarrow> int \<Rightarrow> env
     \<Rightarrow> port_mapping list \<Rightarrow> string act" where
  "run_container L float_str host rc app_name tag m local_port env_vars port_mappings =
     (let container_name = ''openhost-'' @ app_name
      in act_then (act_emit (DirMade (ad_temp (host_dirs app_name (rc_data_dir rc) (rc_temp_data_dir rc) (rc_archive_dir rc)))))
        (act_bind (act_lift (container_command m)) (\<lambda>command.
         let cmd = [''podman'', ''run'', ''-d'']
               @ concat (run_options L float_str rc app_name m local_port env_vars port_mappings) @ [tag] @ command
         in act_then (append_log app_name (rc_temp_data_dir rc) (''=== Starting container: '' @ container_name @ '' ==='' @ [newline]))
           (act_bind (act_run host [''podman'', ''rm'', ''-f'', container_name]) (\<lambda>_.
            act_bind (act_run host cmd) (\<lambda>(returncode, out, err).
              if returncode \<noteq> 0
              then act_then (append_log app_name (rc_temp_data_dir rc) (''ERROR: '' @ err @ [newline]))
                     (act_raise (Exn RuntimeError (''Container start failed:'' @ [newline] @ err)))
              else act_then (append_log app_name (rc_temp_data_dir rc)
                       (''Container started: '' @ take 12 (strip out) @ [newline, newline]))
                     (act_return (strip out))))))))"

section \<open>Stopping containers, images and logs\<close>

definition podman_kill :: "processes \<Rightarrow> string \<Rightarrow> unit act" where
  "podman_kill host container_id =
     act_bind (act_run host [''podman'', ''kill'', container_id]) (\<lambda>_. act_return ())"

definition stop_container :: "processes \<Rightarrow> string \<Rightarrow> unit act" where
  "stop_container host container_id =
     act_then
       (act_catch
         (act_bind (act_run host [''podman'', ''stop'', ''-t'', ''10'', container_id]) (\<lambda>(returncode, out, err).
            if returncode \<noteq> 0 then podman_kill host container_id else act_return ()))
         (\<lambda>e. if exn_class e = TimeoutExpired then podman_kill host container_id else act_raise e))
       (act_bind (act_run host [''podman'', ''rm'', ''-f'', container_id]) (\<lambda>_. act_return ()))"

definition stop_app_process :: "processes \<Rightarrow> app_row \<Rightarrow> unit act" where
  "stop_app_process host r =
     act_catch
       (case a_container_id r of
          None \<Rightarrow> act_return ()
        | Some c \<Rightarrow> if c = [] then act_return () else stop_container host c)
       (\<lambda>_. act_return ())"

definition remove_image :: "processes \<Rightarrow> string \<Rightarrow> unit act" where
  "remove_image host app_name =
     act_bind (act_run host [''podman'', ''rmi'', image_tag app_name]) (\<lambda>_. act_return ())"

definition image_exists :: "processes \<Rightarrow> string \<Rightarrow> bool act" where
  "image_exists host tag =
     act_catch
       (act_bind (act_run host [''podman'', ''image'', ''exists'', tag]) (\<lambda>(returncode, out, err).
          act_return (returncode = 0)))
       (\<lambda>e. if is_os_error e \<or> exn_class e = TimeoutExpired then act_return False else act_raise e)"

text \<open>\<open>int(row[key])\<close> with its three exceptions mapped to \<open>None\<close>; \<open>parse_int\<close> is \<open>int\<close> on a string.\<close>

definition int_field :: "(string \<Rightarrow> int option) \<Rightarrow> (string \<times> pyval) list \<Rightarrow> string \<Rightarrow> int option" where
  "int_field parse_int kvs key =
     (case map_of kvs key of
        None \<Rightarrow> None
      | Some (VStr s) \<Rightarrow> parse_int s
      | Some (VFloat r) \<Rightarrow> Some (if r \<ge> 0 then \<lfloor>r\<rfloor> else \<lceil>r\<rceil>)
      | Some v \<Rightarrow> as_int v)"

fun images_row :: "(string \<Rightarrow> int option) \<Rightarrow> pyval list \<Rightarrow> (int option \<times> int option) result" where
  "images_row parse_int [] = Inr (None, None)"
| "images_row parse_int (row # rows) =
     rbind (dict_get row ''Type'' VNone) (\<lambda>t.
       if py_eq t (VStr ''Images'')
       then (case row of VDict kvs \<Rightarrow> Inr (int_field parse_int kvs ''RawSize'', int_field parse_int kvs ''RawReclaimable'')
             | v \<Rightarrow> Inl (no_attribute v ''get''))
       else images_row parse_int rows)"

definition container_image_storage_bytes ::
    "(string \<Rightarrow> pyval result) \<Rightarrow> (string \<Rightarrow> int option) \<Rightarrow> processes \<Rightarrow> (int option \<times> int option) act" where
  "container_image_storage_bytes json_loads parse_int host =
     act_catch
       (act_bind (act_run host [''podman'', ''system'', ''df'', ''--format'', ''json'']) (\<lambda>(returncode, out, err).
          if returncode \<noteq> 0 then act_return (None, None)
          else act_lift (rbind (json_loads out) (\<lambda>v. rbind (iter_elems v) (images_row parse_int)))))
       (\<lambda>_. act_return (None, None))"

definition podman_prune :: "processes \<Rightarrow> string list \<Rightarrow> string act" where
  "podman_prune host cmd =
     act_bind (act_run host cmd) (\<lambda>(returncode, out, err).
       let output = strip (out @ err)
       in if returncode \<noteq> 0
          then act_raise (Exn RuntimeError (if output \<noteq> [] then output else ''podman image prune failed''))
          else act_return output)"

definition drop_docker_build_cache :: "processes \<Rightarrow> string act" where
  "drop_docker_build_cache host = podman_prune host [''podman'', ''image'', ''prune'', ''--all'', ''--force'']"

definition prune_dangling_images :: "processes \<Rightarrow> string act" where
  "prune_dangling_images host = podman_prune host [''podman'', ''image'', ''prune'', ''--force'']"

text \<open>
  \<open>^(?:localhost/)?openhost-(?P<app_name>.+):latest$\<close>: the suffix can only be the last eight characters,
  or those before a final newline, because \<open>$\<close> allows no other end.
\<close>

definition parse_openhost_image_app_name :: "string \<Rightarrow> string option" where
  "parse_openhost_image_app_name tag =
     (let rest = removeprefix ''localhost/'' tag;
          body = (if rest \<noteq> [] \<and> last rest = newline then butlast rest else rest);
          name = removesuffix '':latest'' (removeprefix ''openhost-'' body)
      in if prefix ''openhost-'' body \<and> suffix '':latest'' (removeprefix ''openhost-'' body)
            \<and> name \<noteq> [] \<and> newline \<notin> set name
         then Some name else None)"

record openhost_image =
  oi_image_id :: string
  oi_app_name :: string
  oi_created_epoch :: int

definition or_else :: "pyval \<Rightarrow> pyval \<Rightarrow> pyval" where
  "or_else a b = (if truthy a then a else b)"

definition image_names :: "pyval \<Rightarrow> int \<Rightarrow> pyval list \<Rightarrow> openhost_image list" where
  "image_names image_id created names =
     concat (map (\<lambda>n. case (n, image_id) of
        (VStr tag, VStr i) \<Rightarrow> (case parse_openhost_image_app_name tag of
            None \<Rightarrow> []
          | Some app \<Rightarrow> [\<lparr>oi_image_id = i, oi_app_name = app, oi_created_epoch = created\<rparr>])
      | _ \<Rightarrow> []) names)"

definition images_of_row :: "pyval \<Rightarrow> openhost_image list result" where
  "images_of_row row =
     rbind (dict_get row ''Id'' VNone) (\<lambda>image_id.
     rbind (dict_get row ''Created'' VNone) (\<lambda>created.
       case as_int created of
         None \<Rightarrow> Inr []
       | Some t \<Rightarrow>
           rbind (dict_get row ''Names'' VNone) (\<lambda>names.
           rbind (dict_get row ''RepoTags'' VNone) (\<lambda>repo_tags.
             case or_else (or_else names repo_tags) (VList []) of
               VList ns \<Rightarrow> Inr (image_names image_id t ns)
             | _ \<Rightarrow> Inr []))))"

definition list_openhost_images :: "(string \<Rightarrow> pyval result) \<Rightarrow> processes \<Rightarrow> openhost_image list act" where
  "list_openhost_images json_loads host =
     act_bind
       (act_catch
         (act_bind (act_run host [''podman'', ''images'', ''--format'', ''json'']) (\<lambda>(returncode, out, err).
            if returncode \<noteq> 0 then act_return (VList [])
            else act_lift (rbind (json_loads out) (\<lambda>v. Inr (or_else v (VList []))))))
         (\<lambda>_. act_return (VList [])))
       (\<lambda>rows. act_lift (rbind (iter_elems rows) (\<lambda>rs. rbind (rmap images_of_row rs) (\<lambda>iss. Inr (concat iss)))))"

definition remove_image_by_id :: "processes \<Rightarrow> string \<Rightarrow> bool act" where
  "remove_image_by_id host image_id =
     act_bind (act_run host [''podman'', ''rmi'', ''--force'', image_id]) (\<lambda>(returncode, out, err).
       act_return (returncode = 0))"

definition is_container_running :: "processes \<Rightarrow> string \<Rightarrow> bool act" where
  "is_container_running host container_id =
     act_catch
       (act_bind (act_run host [''podman'', ''inspect'', ''--format'', ''{{.State.Status}}'', container_id])
         (\<lambda>(returncode, out, err).
           if returncode \<noteq> 0 then act_return False else act_return (strip out = ''running'')))
       (\<lambda>e. if is_os_error e \<or> exn_class e = TimeoutExpired then act_return False else act_raise e)"

text \<open>
  \<open>_ANSI_RE.sub("", s)\<close>: the length of the escape sequence at the start of \<open>s\<close>, if there is one.
\<close>

definition is_letter :: "char \<Rightarrow> bool" where
  "is_letter c = is_lower_alpha (lower_char c)"

definition ansi_at :: "string \<Rightarrow> nat option" where
  "ansi_at s =
     (case s of
        [] \<Rightarrow> None
      | c # rest \<Rightarrow>
          if code c = 15 \<or> code c = 13 then Some 1
          else if code c \<noteq> 27 then None
          else (case rest of
             [] \<Rightarrow> None
           | d # more' \<Rightarrow>
               if d = CHR ''['' then
                 (let params = takeWhile (\<lambda>x. is_digit x \<or> x = CHR '';'') more'
                  in case drop (length params) more' of
                       [] \<Rightarrow> None
                     | f # fs \<Rightarrow> if is_letter f then Some (3 + length params) else None)
               else if d = CHR ''('' then
                 (case more' of [] \<Rightarrow> None
                  | f # fs \<Rightarrow> if f = CHR ''A'' \<or> f = CHR ''B'' \<or> is_digit f then Some 3 else None)
               else if d = CHR ''='' \<or> d = CHR ''>'' then Some 2 else None))"

fun strip_ansi_fuel :: "nat \<Rightarrow> string \<Rightarrow> string" where
  "strip_ansi_fuel 0 s = s"
| "strip_ansi_fuel (Suc n) [] = []"
| "strip_ansi_fuel (Suc n) (c # s) =
     (case ansi_at (c # s) of
        Some k \<Rightarrow> strip_ansi_fuel n (drop k (c # s))
      | None \<Rightarrow> c # strip_ansi_fuel n s)"

definition strip_ansi :: "string \<Rightarrow> string" where
  "strip_ansi s = strip_ansi_fuel (length s) s"

text \<open>\<open>build_log\<close> is the build log's text, \<open>None\<close> when the file is absent or cannot be read.\<close>

definition get_docker_logs :: "processes \<Rightarrow> string option \<Rightarrow> string option \<Rightarrow> nat \<Rightarrow> string act" where
  "get_docker_logs host build_log container_id tail =
     (let parts = (case build_log of None \<Rightarrow> [] | Some t \<Rightarrow> [t])
      in act_bind
           (case container_id of
              None \<Rightarrow> act_return []
            | Some c \<Rightarrow>
                if c = [] then act_return []
                else act_catch
                  (act_bind (act_run host [''podman'', ''logs'', ''--tail'', show_nat tail, c]) (\<lambda>(returncode, out, err).
                     let combined = strip (out @ err)
                     in act_return (if combined \<noteq> []
                          then [''=== Container logs ==='' @ [newline] @ strip_ansi combined] else [])))
                  (\<lambda>e. if is_os_error e \<or> exn_class e = TimeoutExpired then act_return [] else act_raise e))
           (\<lambda>logs. act_return (join [newline] (parts @ logs))))"

section \<open>Lemmas\<close>

lemma alias_loop_get:
  "map_of (alias_loop env acc) k =
     (case map_of acc k of
        Some v \<Rightarrow> Some v
      | None \<Rightarrow> if prefix ENV_PREFIX k then map_of env (LEGACY_ENV_PREFIX @ drop (length ENV_PREFIX) k) else None)"
proof (induction env acc rule: alias_loop.induct)
  case (1 acc)
  then show ?case by (simp split: option.split)
next
  case (2 key v env acc)
  show ?case
  proof (cases "prefix LEGACY_ENV_PREFIX key")
    case True
    then obtain r where key: "key = LEGACY_ENV_PREFIX @ r"
      by (auto simp: prefix_def)
    show ?thesis
      using 2 by (auto simp: key startswith_def setdefault_def map_add_def prefix_def split: option.splits)
  next
    case False
    then have "LEGACY_ENV_PREFIX @ drop (length ENV_PREFIX) k \<noteq> key"
      by (auto simp: prefix_def)
    with 2 False show ?thesis
      by (auto simp: startswith_def split: option.split)
  qed
qed

lemma parse_image_tag:
  assumes "n \<noteq> []" and "newline \<notin> set n"
  shows "parse_openhost_image_app_name (image_tag n) = Some n"
    and "parse_openhost_image_app_name (''localhost/'' @ image_tag n) = Some n"
proof -
  have l: "last (''openhost-'' @ n @ '':latest'') \<noteq> newline"
    by (simp add: newline_def)
  have s: "removeprefix ''openhost-'' (''openhost-'' @ n @ '':latest'') = n @ '':latest''"
    by (simp add: removeprefix_def)
  have t: "removesuffix '':latest'' (n @ '':latest'') = n" "suffix '':latest'' (n @ '':latest'')"
    by (simp_all add: removesuffix_def suffix_def)
  have u: "removeprefix ''localhost/'' (''openhost-'' @ n @ '':latest'') = ''openhost-'' @ n @ '':latest''"
    "removeprefix ''localhost/'' (''localhost/'' @ ''openhost-'' @ n @ '':latest'') = ''openhost-'' @ n @ '':latest''"
    by (simp_all add: removeprefix_def)
  show "parse_openhost_image_app_name (image_tag n) = Some n"
    "parse_openhost_image_app_name (''localhost/'' @ image_tag n) = Some n"
    unfolding parse_openhost_image_app_name_def image_tag_def u Let_def using l s t assms by simp_all
qed

lemma run_options_flags:
  "{m. [''-v'', m] \<in> set (run_options L fstr rc n mf lp env pms)}
     = {m. [''-v'', m] \<in> set (mount_options rc (host_dirs n (rc_data_dir rc) (rc_temp_data_dir rc) (rc_archive_dir rc))
             (container_dirs n) mf)}"
  "{c. [''--cap-add'', c] \<in> set (run_options L fstr rc n mf lp env pms)}
     = set DEFAULT_CAPABILITIES \<union> set (m_capabilities mf)"
  "{d. [''--device'', d] \<in> set (run_options L fstr rc n mf lp env pms)} = set (m_devices mf)"
  "{p. [''-p'', p] \<in> set (run_options L fstr rc n mf lp env pms)}
     = (if truthy (m_network_host mf) then {}
        else insert (''127.0.0.1:'' @ show_int lp @ '':'' @ py_str L (m_container_port mf))
          (\<Union>pm \<in> set pms. {''0.0.0.0:'' @ show_int (pm_host_port pm) @ '':'' @ show_int (pm_container_port pm) @ ''/tcp'',
             ''0.0.0.0:'' @ show_int (pm_host_port pm) @ '':'' @ show_int (pm_container_port pm) @ ''/udp''}))"
  by (auto simp: run_options_def Let_def network_options_def limit_options_def mount_options_def port_options_def)

lemma run_options_fixed:
  "{[''--cap-drop=ALL''], [''--security-opt=no-new-privileges=true'']} \<subseteq> set (run_options L fstr rc n mf lp env pms)"
  by (auto simp: run_options_def Let_def limit_options_def)

text \<open>After a normal return \<open>podman rm -f\<close> ran to its end on the container, as the last command.\<close>

definition removed_last :: "string \<Rightarrow> wstate \<Rightarrow> bool" where
  "removed_last c s = (\<exists>es r out err. ws_effects s = es @ [Ran [''podman'', ''rm'', ''-f'', c] (Exited r out err)])"

lemma stop_container_removes:
  "act_spec (\<lambda>_. True) (stop_container host c) (\<lambda>_. removed_last c) (\<lambda>_ _. True)"
  unfolding stop_container_def
  by (rule spec_then [where R = "\<lambda>_. True"])
    (auto simp: act_spec_def act_bind_def act_run_def act_return_def removed_last_def Let_def
      split: proc.splits prod.splits sum.splits)

lemma diff_diff_le: "n - (n - 5) \<le> (5::nat)"
  by simp

section \<open>Properties\<close>



text \<open>Inside the container every legacy \<open>OPENHOST_\<close> variable has a \<open>BOTTLE_\<close> twin with the same value, a
  twin that was set explicitly keeps its own value, and no other variable appears.\<close>

theorem bottle_aliases_exact:
  "map_of (add_bottle_env_aliases env) k =
     (case map_of env k of
        Some v \<Rightarrow> Some v
      | None \<Rightarrow> if prefix ''BOTTLE_'' k then map_of env (''OPENHOST_'' @ drop 7 k) else None)"
  unfolding add_bottle_env_aliases_def alias_loop_get ENV_PREFIX_def LEGACY_ENV_PREFIX_def
  by (simp add: eval_nat_numeral split: option.split)

text \<open>The image pruner recovers the app from the tag the build gave its image, in the short form and in the
  form \<open>podman\<close> reports.\<close>

theorem image_tag_roundtrip:
  assumes "n \<noteq> []" and "newline \<notin> set n"
  shows "parse_openhost_image_app_name (image_tag n) = Some n
    \<and> parse_openhost_image_app_name (''localhost/'' @ image_tag n) = Some n"
  using parse_image_tag [OF assms] by simp

theorem image_tag_roundtrip_witness:
  "parse_openhost_image_app_name (''localhost/openhost-notes:latest'') = Some ''notes''"
  using image_tag_roundtrip [of "''notes''"] by (simp add: image_tag_def newline_def)

text \<open>Pruning keeps at most five archived logs of a log file, the greatest names, and deletes only archives
  of that file.\<close>

theorem log_archive_bounded:
  "set (logs_to_prune f entries) \<subseteq> {e \<in> set entries. prefix (basename f @ ''.'') e}
   \<and> length (filter (\<lambda>e. prefix (basename f @ ''.'') e) entries) - length (logs_to_prune f entries) \<le> 5
   \<and> mset (logs_to_prune f entries @ drop (length (logs_to_prune f entries))
        (sort (filter (\<lambda>e. prefix (basename f @ ''.'') e) entries)))
     = mset (filter (\<lambda>e. prefix (basename f @ ''.'') e) entries)"
proof -
  let ?b = "filter (\<lambda>e. prefix (basename f @ ''.'') e) entries"
  let ?k = "length ?b - 5"
  have l: "logs_to_prune f entries = take ?k (sort ?b)"
    by (simp add: logs_to_prune_def Let_def startswith_def MAX_LOG_FILES_def)
  have k: "length (take ?k (sort ?b)) = ?k"
    by simp
  have "set (take ?k (sort ?b)) \<subseteq> set (sort ?b)"
    by (rule set_take_subset)
  then have 1: "set (take ?k (sort ?b)) \<subseteq> {e \<in> set entries. prefix (basename f @ ''.'') e}"
    by simp
  have 2: "mset (take ?k (sort ?b) @ drop ?k (sort ?b)) = mset ?b"
    by (simp only: append_take_drop_id mset_sort)
  have 3: "length ?b - ?k \<le> 5"
    by (rule diff_diff_le)
  show ?thesis
    unfolding l k by (intro conjI 1 2 3)
qed

end
