(* ===== verification/Keeps.thy ===== *)
theory Keeps
  imports Worker
begin

text \<open>
  Invariants of actions: \<open>keeps P m\<close> says that \<open>m\<close> preserves \<open>P\<close> of the working and of the committed
  database, whether it returns or raises.  One introduction rule per construct, so that the proof for a
  program follows its text.
\<close>

definition keeps :: "(database \<Rightarrow> bool) \<Rightarrow> 'a act \<Rightarrow> bool" where
  "keeps P m = act_spec (\<lambda>s. P (ws_db s) \<and> P (ws_committed s)) m
     (\<lambda>_ s. P (ws_db s) \<and> P (ws_committed s)) (\<lambda>_ s. P (ws_db s) \<and> P (ws_committed s))"

named_theorems keeps_intros \<open>introduction rules for keeps\<close>

lemma keepsD:
  "keeps P m \<Longrightarrow> P (ws_db s) \<Longrightarrow> P (ws_committed s) \<Longrightarrow> P (ws_db (snd (m s))) \<and> P (ws_committed (snd (m s)))"
  by (cases "m s") (auto simp: keeps_def act_spec_def split: sum.splits)

lemma keepsI: "(\<And>s. P (ws_db s) \<Longrightarrow> P (ws_committed s) \<Longrightarrow>
    P (ws_db (snd (m s))) \<and> P (ws_committed (snd (m s)))) \<Longrightarrow> keeps P m"
  unfolding keeps_def act_spec_def by (fastforce split: prod.splits sum.splits)

lemma keeps_return [keeps_intros]: "keeps P (act_return x)"
  and keeps_raise [keeps_intros]: "keeps P (act_raise e)"
  and keeps_lift [keeps_intros]: "keeps P (act_lift r)"
  and keeps_query [keeps_intros]: "keeps P (act_query f)"
  and keeps_observe [keeps_intros]: "keeps P (act_observe g)"
  and keeps_commit [keeps_intros]: "keeps P act_commit"
  and keeps_rollback [keeps_intros]: "keeps P act_rollback"
  and keeps_emit [keeps_intros]: "keeps P (act_emit ef)"
  by (rule keepsI; simp add: act_defs)+

lemma keeps_run [keeps_intros]: "keeps P (act_run host argv)"
  by (rule keepsI) (simp add: act_run_def Let_def split: proc.split)

lemma keeps_bind [keeps_intros]: "keeps P m \<Longrightarrow> (\<And>x. keeps P (f x)) \<Longrightarrow> keeps P (act_bind m f)"
  unfolding keeps_def by (rule spec_bind)

lemma keeps_then [keeps_intros]: "keeps P m \<Longrightarrow> keeps P n \<Longrightarrow> keeps P (act_then m n)"
  unfolding act_then_def by (rule keeps_bind)

lemma keeps_catch [keeps_intros]: "keeps P m \<Longrightarrow> (\<And>e. keeps P (h e)) \<Longrightarrow> keeps P (act_catch m h)"
  unfolding keeps_def by (rule spec_catch)

lemma keeps_finally [keeps_intros]: "keeps P m \<Longrightarrow> keeps P f \<Longrightarrow> keeps P (act_finally m f)"
  unfolding act_finally_def by (intro keeps_intros)

lemma keeps_each [keeps_intros]: "(\<And>x. keeps P (f x)) \<Longrightarrow> keeps P (act_each f xs)"
  by (induction xs) (auto intro: keeps_intros)

lemma keeps_exec: "(\<And>db. P db \<Longrightarrow> P (f db)) \<Longrightarrow> keeps P (act_exec f)"
  by (rule keepsI) (simp add: act_defs)

lemma keeps_try: "(\<And>db db'. P db \<Longrightarrow> f db = Inr db' \<Longrightarrow> P db') \<Longrightarrow> keeps P (act_try f)"
  by (rule keepsI) (auto simp: act_defs ws_db_def split: sum.split)

lemma keeps_if [keeps_intros]: "(b \<Longrightarrow> keeps P m) \<Longrightarrow> (\<not> b \<Longrightarrow> keeps P n) \<Longrightarrow> keeps P (if b then m else n)"
  by simp

lemma keeps_option [keeps_intros]:
  "(v = None \<Longrightarrow> keeps P m) \<Longrightarrow> (\<And>x. v = Some x \<Longrightarrow> keeps P (f x)) \<Longrightarrow> keeps P (case v of None \<Rightarrow> m | Some x \<Rightarrow> f x)"
  by (cases v) auto

lemma keeps_prod [keeps_intros]: "(\<And>a b. keeps P (f a b)) \<Longrightarrow> keeps P (case v of (a, b) \<Rightarrow> f a b)"
  by (cases v) auto

lemma keeps_Let [keeps_intros]: "(\<And>x. keeps P (f x)) \<Longrightarrow> keeps P (Let v f)"
  by (simp add: Let_def)

text \<open>The same for the working copy alone, for code that never rolls back.\<close>

definition working_keeps :: "(database \<Rightarrow> bool) \<Rightarrow> 'a act \<Rightarrow> bool" where
  "working_keeps P m = (\<forall>s. P (ws_db s) \<longrightarrow> P (ws_db (snd (m s))))"

named_theorems working_intros \<open>introduction rules for working_keeps\<close>

lemma working_keepsD: "working_keeps P m \<Longrightarrow> m s = (r, s') \<Longrightarrow> P (ws_db s) \<Longrightarrow> P (ws_db s')"
  unfolding working_keeps_def by (metis snd_conv)

lemma working_return [working_intros]: "working_keeps P (act_return x)"
  and working_raise [working_intros]: "working_keeps P (act_raise e)"
  and working_lift [working_intros]: "working_keeps P (act_lift r)"
  and working_query [working_intros]: "working_keeps P (act_query q)"
  and working_emit [working_intros]: "working_keeps P (act_emit ef)"
  and working_commit [working_intros]: "working_keeps P act_commit"
  by (simp_all add: working_keeps_def act_defs)

lemma working_exec: "(\<And>db. P db \<Longrightarrow> P (f db)) \<Longrightarrow> working_keeps P (act_exec f)"
  by (simp add: working_keeps_def act_defs)

lemma working_try: "(\<And>db db'. P db \<Longrightarrow> f db = Inr db' \<Longrightarrow> P db') \<Longrightarrow> working_keeps P (act_try f)"
  by (auto simp: working_keeps_def act_defs ws_db_def split: sum.split)

lemma working_bind [working_intros]:
  "working_keeps P m \<Longrightarrow> (\<And>x. working_keeps P (f x)) \<Longrightarrow> working_keeps P (act_bind m f)"
  unfolding working_keeps_def act_bind_def by (auto split: prod.split sum.split)

lemma working_then [working_intros]: "working_keeps P m \<Longrightarrow> working_keeps P n \<Longrightarrow> working_keeps P (act_then m n)"
  unfolding act_then_def by (rule working_bind)

lemma working_each [working_intros]: "(\<And>x. working_keeps P (f x)) \<Longrightarrow> working_keeps P (act_each f xs)"
  by (induction xs) (auto intro: working_intros)

lemma working_if [working_intros]:
  "(b \<Longrightarrow> working_keeps P m) \<Longrightarrow> (\<not> b \<Longrightarrow> working_keeps P n) \<Longrightarrow> working_keeps P (if b then m else n)"
  by simp

lemma working_option [working_intros]:
  "(v = None \<Longrightarrow> working_keeps P m) \<Longrightarrow> (\<And>x. v = Some x \<Longrightarrow> working_keeps P (f x)) \<Longrightarrow>
   working_keeps P (case v of None \<Rightarrow> m | Some x \<Rightarrow> f x)"
  by (cases v) auto

section \<open>Effects\<close>

text \<open>\<open>emits p m\<close>: whatever happens, \<open>m\<close> only adds effects that satisfy \<open>p\<close>.\<close>

definition emits :: "(effect \<Rightarrow> bool) \<Rightarrow> 'a act \<Rightarrow> bool" where
  "emits p m = (\<forall>s. \<exists>es. ws_effects (snd (m s)) = ws_effects s @ es \<and> list_all p es)"

named_theorems emits_intros \<open>introduction rules for emits\<close>

lemma emitsI: "(\<And>s. ws_effects (snd (m s)) = ws_effects s) \<Longrightarrow> emits p m"
  by (simp add: emits_def)

lemma emitsD: "emits p m \<Longrightarrow> m s = (r, s') \<Longrightarrow> \<exists>es. ws_effects s' = ws_effects s @ es \<and> list_all p es"
  unfolding emits_def by (metis snd_conv)

lemma emits_return [emits_intros]: "emits p (act_return x)"
  and emits_raise [emits_intros]: "emits p (act_raise e)"
  and emits_lift [emits_intros]: "emits p (act_lift r)"
  and emits_query [emits_intros]: "emits p (act_query q)"
  and emits_observe [emits_intros]: "emits p (act_observe g)"
  and emits_commit [emits_intros]: "emits p act_commit"
  and emits_rollback [emits_intros]: "emits p act_rollback"
  and emits_exec [emits_intros]: "emits p (act_exec f)"
  by (rule emitsI; simp add: act_defs)+

lemma emits_try [emits_intros]: "emits p (act_try g)"
  by (rule emitsI) (simp add: act_defs split: sum.split)

lemma emits_emit [emits_intros]: "p e \<Longrightarrow> emits p (act_emit e)"
  by (simp add: emits_def act_defs)

lemma emits_run [emits_intros]: "(\<And>a. p (Ran argv a)) \<Longrightarrow> emits p (act_run host argv)"
  unfolding emits_def act_run_def Let_def by (auto split: proc.split)

lemma emits_bind [emits_intros]:
  assumes "emits p m" and "\<And>x. emits p (f x)"
  shows "emits p (act_bind m f)"
  unfolding emits_def
proof
  fix s
  obtain r s1 where 1: "m s = (r, s1)"
    by force
  from emitsD [OF assms(1) this] obtain es1 where e1: "ws_effects s1 = ws_effects s @ es1" "list_all p es1"
    by blast
  show "\<exists>es. ws_effects (snd (act_bind m f s)) = ws_effects s @ es \<and> list_all p es"
  proof (cases r)
    case (Inl e)
    then show ?thesis using e1 by (simp add: act_bind_def 1)
  next
    case (Inr x)
    obtain es2 where "ws_effects (snd (f x s1)) = ws_effects s1 @ es2" "list_all p es2"
      using assms(2) unfolding emits_def by blast
    then show ?thesis
      using e1 Inr by (intro exI [of _ "es1 @ es2"]) (simp add: act_bind_def 1)
  qed
qed

lemma emits_then [emits_intros]: "emits p m \<Longrightarrow> emits p n \<Longrightarrow> emits p (act_then m n)"
  unfolding act_then_def by (rule emits_bind)

lemma emits_catch [emits_intros]:
  assumes "emits p m" and "\<And>e. emits p (h e)"
  shows "emits p (act_catch m h)"
  unfolding emits_def
proof
  fix s
  obtain r s1 where 1: "m s = (r, s1)"
    by force
  from emitsD [OF assms(1) this] obtain es1 where e1: "ws_effects s1 = ws_effects s @ es1" "list_all p es1"
    by blast
  show "\<exists>es. ws_effects (snd (act_catch m h s)) = ws_effects s @ es \<and> list_all p es"
  proof (cases r)
    case (Inr e)
    then show ?thesis using e1 by (simp add: act_catch_def 1)
  next
    case (Inl x)
    obtain es2 where "ws_effects (snd (h x s1)) = ws_effects s1 @ es2" "list_all p es2"
      using assms(2) unfolding emits_def by blast
    then show ?thesis
      using e1 Inl by (intro exI [of _ "es1 @ es2"]) (simp add: act_catch_def 1)
  qed
qed

lemma emits_finally [emits_intros]: "emits p m \<Longrightarrow> emits p f \<Longrightarrow> emits p (act_finally m f)"
  unfolding act_finally_def by (intro emits_intros)

lemma emits_each [emits_intros]: "(\<And>x. emits p (f x)) \<Longrightarrow> emits p (act_each f xs)"
  by (induction xs) (auto intro: emits_intros)

lemma emits_if [emits_intros]: "(b \<Longrightarrow> emits p m) \<Longrightarrow> (\<not> b \<Longrightarrow> emits p n) \<Longrightarrow> emits p (if b then m else n)"
  by simp

lemma emits_option [emits_intros]:
  "(v = None \<Longrightarrow> emits p m) \<Longrightarrow> (\<And>x. v = Some x \<Longrightarrow> emits p (f x)) \<Longrightarrow> emits p (case v of None \<Rightarrow> m | Some x \<Rightarrow> f x)"
  by (cases v) auto

lemma emits_prod [emits_intros]: "(\<And>a b. emits p (f a b)) \<Longrightarrow> emits p (case v of (a, b) \<Rightarrow> f a b)"
  by (cases v) auto

lemma emits_Let [emits_intros]: "(\<And>x. emits p (f x)) \<Longrightarrow> emits p (Let v f)"
  by (simp add: Let_def)

lemma emits_weaken: "emits p m \<Longrightarrow> (\<And>e. p e \<Longrightarrow> q e) \<Longrightarrow> emits q m"
  unfolding emits_def by (meson list.pred_mono_strong)

text \<open>An invariant and a condition on the effects as one judgement.\<close>

lemma keeps_spec: "keeps P m \<Longrightarrow> act_spec (\<lambda>s. P (ws_db s) \<and> P (ws_committed s)) m
    (\<lambda>_ s. P (ws_db s) \<and> P (ws_committed s)) (\<lambda>_ s. P (ws_db s) \<and> P (ws_committed s))"
  by (simp add: keeps_def)

lemma spec_conj: "act_spec P m Q E \<Longrightarrow> act_spec P' m Q' E' \<Longrightarrow>
    act_spec (\<lambda>s. P s \<and> P' s) m (\<lambda>x s. Q x s \<and> Q' x s) (\<lambda>e s. E e s \<and> E' e s)"
  unfolding act_spec_def by (fastforce split: prod.splits sum.splits)

lemma spec_False: "act_spec (\<lambda>_. False) m Q E"
  by (simp add: act_spec_def)

lemma spec_exists: "(\<And>x. act_spec (P x) m Q E) \<Longrightarrow> act_spec (\<lambda>s. \<exists>x. P x s) m Q E"
  by (simp add: act_spec_def) (metis (no_types, lifting))

section \<open>Nothing published\<close>

text \<open>\<open>unpublished m\<close>: \<open>m\<close> never commits, so other connections see no change.\<close>

definition unpublished :: "'a act \<Rightarrow> bool" where
  "unpublished m = (\<forall>s. ws_committed (snd (m s)) = ws_committed s)"

named_theorems unpublished_intros \<open>introduction rules for unpublished\<close>

lemma unpublishedD: "unpublished m \<Longrightarrow> m s = (r, s') \<Longrightarrow> ws_committed s' = ws_committed s"
  unfolding unpublished_def by (metis snd_conv)

lemma unpublished_return [unpublished_intros]: "unpublished (act_return x)"
  and unpublished_raise [unpublished_intros]: "unpublished (act_raise e)"
  and unpublished_lift [unpublished_intros]: "unpublished (act_lift r)"
  and unpublished_query [unpublished_intros]: "unpublished (act_query q)"
  and unpublished_observe [unpublished_intros]: "unpublished (act_observe g)"
  and unpublished_exec [unpublished_intros]: "unpublished (act_exec f)"
  and unpublished_emit [unpublished_intros]: "unpublished (act_emit ef)"
  by (simp_all add: unpublished_def act_defs)

lemma unpublished_try [unpublished_intros]: "unpublished (act_try f)"
  by (simp add: unpublished_def act_defs split: sum.split)

lemma unpublished_run [unpublished_intros]: "unpublished (act_run host argv)"
  by (simp add: unpublished_def act_run_def Let_def split: proc.split)

lemma unpublished_bind [unpublished_intros]: "unpublished m \<Longrightarrow> (\<And>x. unpublished (f x)) \<Longrightarrow> unpublished (act_bind m f)"
  unfolding unpublished_def act_bind_def by (auto split: prod.split sum.split) (metis snd_conv)+

lemma unpublished_then [unpublished_intros]: "unpublished m \<Longrightarrow> unpublished n \<Longrightarrow> unpublished (act_then m n)"
  unfolding act_then_def by (rule unpublished_bind)

lemma unpublished_catch [unpublished_intros]: "unpublished m \<Longrightarrow> (\<And>e. unpublished (h e)) \<Longrightarrow> unpublished (act_catch m h)"
  unfolding unpublished_def act_catch_def by (auto split: prod.split sum.split) (metis snd_conv)+

lemma unpublished_each [unpublished_intros]: "(\<And>x. unpublished (f x)) \<Longrightarrow> unpublished (act_each f xs)"
  by (induction xs) (auto intro: unpublished_intros)

lemma unpublished_if [unpublished_intros]: "(b \<Longrightarrow> unpublished m) \<Longrightarrow> (\<not> b \<Longrightarrow> unpublished n) \<Longrightarrow> unpublished (if b then m else n)"
  by simp

lemma unpublished_option [unpublished_intros]:
  "(v = None \<Longrightarrow> unpublished m) \<Longrightarrow> (\<And>x. v = Some x \<Longrightarrow> unpublished (f x)) \<Longrightarrow> unpublished (case v of None \<Rightarrow> m | Some x \<Rightarrow> f x)"
  by (cases v) auto

lemma unpublished_prod [unpublished_intros]: "(\<And>a b. unpublished (f a b)) \<Longrightarrow> unpublished (case v of (a, b) \<Rightarrow> f a b)"
  by (cases v) auto

lemma unpublished_Let [unpublished_intros]: "(\<And>x. unpublished (f x)) \<Longrightarrow> unpublished (Let v f)"
  by (simp add: Let_def)

section \<open>Runs that return\<close>

named_theorems act_Inr \<open>when an action returns, and with what\<close>

lemma bind_Inr [act_Inr]: "act_bind m f s = (Inr y, s') \<longleftrightarrow> (\<exists>x s1. m s = (Inr x, s1) \<and> f x s1 = (Inr y, s'))"
  by (auto simp: act_bind_def split: prod.split sum.split)

lemma then_Inr [act_Inr]: "act_then m n s = (Inr y, s') \<longleftrightarrow> (\<exists>x s1. m s = (Inr x, s1) \<and> n s1 = (Inr y, s'))"
  by (simp add: act_then_def bind_Inr)

lemma return_Inr [act_Inr]: "act_return x s = (Inr y, s') \<longleftrightarrow> y = x \<and> s' = s"
  and raise_Inr [act_Inr]: "act_raise e s = (Inr z, s') \<longleftrightarrow> False"
  and lift_Inr [act_Inr]: "act_lift r s = (Inr w, s') \<longleftrightarrow> r = Inr w \<and> s' = s"
  and observe_Inr [act_Inr]: "act_observe g s = (Inr o', s') \<longleftrightarrow> o' = g (ws_effects s) \<and> s' = s"
  and query_Inr [act_Inr]: "act_query q s = (Inr v, s') \<longleftrightarrow> v = q (ws_db s) \<and> s' = s"
  by (auto simp: act_defs ws_db_def)

lemma bind_Inl: "act_bind m f s = (Inl e, s') \<longleftrightarrow> m s = (Inl e, s') \<or> (\<exists>x s1. m s = (Inr x, s1) \<and> f x s1 = (Inl e, s'))"
  by (auto simp: act_bind_def split: prod.split sum.split)

lemma then_Inl: "act_then m n s = (Inl e, s') \<longleftrightarrow> m s = (Inl e, s') \<or> (\<exists>x s1. m s = (Inr x, s1) \<and> n s1 = (Inl e, s'))"
  by (simp add: act_then_def bind_Inl)

lemma each_app: "act_each f (xs @ ys) = act_then (act_each f xs) (act_each f ys)"
proof -
  have "act_each f (xs @ ys) s = act_then (act_each f xs) (act_each f ys) s" for s
    by (induction xs arbitrary: s) (auto simp: act_then_def act_bind_def act_return_def split: prod.split sum.split)
  then show ?thesis by (rule ext)
qed

text \<open>A sequence of statements on the working copy is their composition.\<close>

fun run_all :: "('a \<Rightarrow> database \<Rightarrow> database result) \<Rightarrow> 'a list \<Rightarrow> database \<Rightarrow> database result" where
  "run_all f [] db = Inr db"
| "run_all f (x # xs) db = rbind (f x db) (run_all f xs)"

lemma each_try_Inr:
  "act_each (\<lambda>x. act_try (f x)) xs s = (Inr u, s') \<Longrightarrow> run_all f xs (ws_db s) = Inr (ws_db s')"
proof (induction xs arbitrary: s)
  case Nil
  then show ?case by (simp add: act_return_def)
next
  case (Cons x xs)
  then obtain v s1 where 1: "act_try (f x) s = (Inr v, s1)" and 2: "act_each (\<lambda>x. act_try (f x)) xs s1 = (Inr u, s')"
    by (auto simp: then_Inr)
  from 1 have "f x (ws_db s) = Inr (ws_db s1)"
    by (auto simp: act_try_def ws_db_def split: sum.splits)
  with Cons.IH [OF 2] show ?case by simp
qed

end
