(* ===== verification/Archive.thy ===== *)
theory Archive
  imports Containers Auth Keeps
begin

text \<open>
  \<open>core/archive_backend.py\<close>: the archive tier.  Here: the state row, what a manifest asks of the archive,
  the install-time summary, and the name of the JuiceFS volume.  \<open>mounted\<close> is what
  \<open>/proc/self/mountinfo\<close> says; \<open>s3\<close> and \<open>juicefs\<close> commands are effects.
\<close>

section \<open>State\<close>

definition DEFAULT_VOLUME_NAME :: string where
  "DEFAULT_VOLUME_NAME = ''openhost''"

text \<open>\<open>row[6] or DEFAULT_VOLUME_NAME\<close>.\<close>

definition read_state :: "database \<Rightarrow> backend_state" where
  "read_state db =
     (case t_archive db of
        None \<Rightarrow> \<lparr>bs_backend = ''local'', bs_s3_bucket = None, bs_s3_region = None, bs_s3_endpoint = None,
                  bs_s3_prefix = None, bs_s3_access_key_id = None, bs_s3_secret_access_key = None,
                  bs_juicefs_volume_name = DEFAULT_VOLUME_NAME, bs_configured_at = None, bs_state_message = None\<rparr>
      | Some r \<Rightarrow> r\<lparr>bs_juicefs_volume_name :=
          (if bs_juicefs_volume_name r \<noteq> [] then bs_juicefs_volume_name r else DEFAULT_VOLUME_NAME)\<rparr>)"

text \<open>\<open>UPDATE archive_backend ... WHERE id = 1\<close>.\<close>

definition update_archive :: "(backend_state \<Rightarrow> backend_state) \<Rightarrow> database \<Rightarrow> database" where
  "update_archive f db = db\<lparr>t_archive := map_option f (t_archive db)\<rparr>"

section \<open>What a manifest asks for\<close>

definition data_section :: "'v libs \<Rightarrow> string \<Rightarrow> pyval result" where
  "data_section L manifest_raw =
     (if manifest_raw = [] then Inr (VDict [])
      else case toml_loads L manifest_raw of
             Inl e \<Rightarrow> if is_value_error e then Inr (VDict []) else Inl e
           | Inr v \<Rightarrow> rbind (dict_get v ''data'' (VDict [])) (\<lambda>d. Inr (if truthy d then d else VDict [])))"

definition flag :: "pyval \<Rightarrow> string \<Rightarrow> bool result" where
  "flag data key = rbind (dict_get data key VNone) (\<lambda>v. Inr (truthy v))"

definition manifest_requires_archive :: "'v libs \<Rightarrow> string \<Rightarrow> bool result" where
  "manifest_requires_archive L manifest_raw =
     rbind (data_section L manifest_raw) (\<lambda>data. flag data ''app_archive'')"

definition accesses_all :: "pyval \<Rightarrow> bool result" where
  "accesses_all data =
     rbind (flag data ''access_all_app_data'') (\<lambda>a.
     rbind (flag data ''access_all_data'') (\<lambda>b.
     rbind (flag data ''access_all_archive'') (\<lambda>c. Inr (a \<or> b \<or> c))))"

definition manifest_uses_archive :: "'v libs \<Rightarrow> string \<Rightarrow> bool result" where
  "manifest_uses_archive L manifest_raw =
     rbind (data_section L manifest_raw) (\<lambda>data.
     rbind (flag data ''app_archive'') (\<lambda>a.
     rbind (accesses_all data) (\<lambda>b. Inr (a \<or> b))))"

definition is_archive_dir_healthy :: "bool \<Rightarrow> database \<Rightarrow> bool" where
  "is_archive_dir_healthy mounted db =
     (if bs_backend (read_state db) \<in> {''local'', ''s3''} then mounted else True)"

record storage_tiers =
  su_app_data :: bool
  su_app_temp_data :: bool
  su_uses_archive :: bool
  su_requires_archive :: bool
  su_archive_backend :: string
  su_archive_is_durable :: bool

definition storage_summary :: "'v libs \<Rightarrow> string \<Rightarrow> database \<Rightarrow> storage_tiers result" where
  "storage_summary L manifest_raw db =
     rbind (data_section L manifest_raw) (\<lambda>data.
     rbind (flag data ''app_archive'') (\<lambda>requires.
     rbind (accesses_all data) (\<lambda>access_all.
     rbind (dict_get data ''app_data'' (VBool True)) (\<lambda>app_data.
     rbind (flag data ''sqlite'') (\<lambda>sqlite.
     rbind (flag data ''app_temp_data'') (\<lambda>temp.
       let backend = bs_backend (read_state db)
       in Inr \<lparr>su_app_data = truthy app_data \<or> sqlite \<or> access_all, su_app_temp_data = temp \<or> access_all,
               su_uses_archive = requires \<or> access_all, su_requires_archive = requires,
               su_archive_backend = backend, su_archive_is_durable = (backend = ''s3'')\<rparr>))))))"

text \<open>
  The apps whose subdirectory of the mount has an entry.  \<open>entries\<close> is \<open>os.listdir(root)\<close>, \<open>None\<close> when it
  fails; \<open>has_entry\<close> is \<open>None\<close> for what is not a directory, or cannot be scanned.
\<close>

definition local_archive_apps_with_data ::
    "bool \<Rightarrow> bool \<Rightarrow> string list option \<Rightarrow> (string \<Rightarrow> bool option) \<Rightarrow> database \<Rightarrow> string list" where
  "local_archive_apps_with_data mounted root_is_dir entries has_entry db =
     (if bs_backend (read_state db) \<noteq> ''local'' then []
      else if \<not> mounted \<or> \<not> root_is_dir then []
      else case entries of
             None \<Rightarrow> []
           | Some es \<Rightarrow> filter (\<lambda>app_name. \<not> startswith app_name ''.'' \<and> has_entry app_name = Some True) (sort es))"

section \<open>Volume names\<close>

definition VOLUME_NAME_MAX :: nat where
  "VOLUME_NAME_MAX = 63"

definition volume_char :: "char \<Rightarrow> bool" where
  "volume_char c = (is_lower_alpha c \<or> is_digit c \<or> c = CHR ''-'')"

text \<open>\<open>re.sub(r"[^a-z0-9-]+", "-", s)\<close> and \<open>re.sub(r"-{2,}", "-", s)\<close>; \<open>prev\<close>: a run is open.\<close>

fun sub_runs :: "(char \<Rightarrow> bool) \<Rightarrow> bool \<Rightarrow> string \<Rightarrow> string" where
  "sub_runs p prev [] = []"
| "sub_runs p prev (c # s) =
     (if p c then (if prev then sub_runs p True s else CHR ''-'' # sub_runs p True s)
      else c # sub_runs p False s)"

definition strip_dashes :: "string \<Rightarrow> string" where
  "strip_dashes s = rstrip_if (\<lambda>c. c = CHR ''-'') (dropWhile (\<lambda>c. c = CHR ''-'') s)"

definition volume_slug :: "string \<Rightarrow> string" where
  "volume_slug zone = sub_runs (\<lambda>c. c = CHR ''-'') False (strip_dashes (sub_runs (\<lambda>c. \<not> volume_char c) False zone))"

definition default_volume_name_for_zone :: "(string \<Rightarrow> string) \<Rightarrow> database \<Rightarrow> string" where
  "default_volume_name_for_zone sha db =
     (let zone = (case primary_domain_or_none db of None \<Rightarrow> [] | Some d \<Rightarrow> name_no_port d);
          slug = volume_slug zone;
          digest = (if zone \<noteq> [] then take 8 (sha zone) else ''00000000'');
          head = strip_dashes (take (VOLUME_NAME_MAX - length digest - 4) slug);
          name = (if head \<noteq> [] then ''oh-'' @ head @ ''-'' @ digest else ''oh-'' @ digest);
          name = strip_dashes (take VOLUME_NAME_MAX name)
      in if name \<noteq> [] then name else DEFAULT_VOLUME_NAME)"

section \<open>Bucket addresses\<close>

definition rstrip_slashes :: "string \<Rightarrow> string" where
  "rstrip_slashes s = rstrip_if (\<lambda>c. c = CHR ''/'') s"

definition bucket_url :: "string \<Rightarrow> string \<Rightarrow> string option \<Rightarrow> string" where
  "bucket_url s3_bucket s3_region s3_endpoint =
     (if s3_endpoint \<noteq> None \<and> s3_endpoint \<noteq> Some [] then rstrip_slashes (the s3_endpoint) @ ''/'' @ s3_bucket
      else ''https://'' @ s3_bucket @ ''.s3.'' @ (if s3_region \<noteq> [] then s3_region else ''us-east-1'') @ ''.amazonaws.com'')"

definition file_bucket :: "string \<Rightarrow> string" where
  "file_bucket store_dir = rstrip_slashes store_dir @ ''/''"

text \<open>One line of \<open>/proc/self/mountinfo\<close> names its mount point in the fifth field.\<close>

definition is_mounted :: "string option \<Rightarrow> string \<Rightarrow> bool" where
  "is_mounted mountinfo mount_point =
     (case mountinfo of
        None \<Rightarrow> False
      | Some txt \<Rightarrow> \<exists>line \<in> set (stdout_lines [] txt).
          length (split_ws line) \<ge> 5 \<and> split_ws line ! 4 = mount_point)"

section \<open>JuiceFS\<close>

text \<open>
  The host of the archive.  \<open>ah_mounted\<close>, \<open>ah_mounts\<close> (whether the mount shows within thirty seconds) and
  \<open>ah_formatted\<close> (the format marker in the metadata) depend on what was done before.
\<close>

record archive_host =
  ah_processes :: processes
  ah_mounted :: "effect list \<Rightarrow> bool"
  ah_mounts :: "effect list \<Rightarrow> bool"
  ah_formatted :: "effect list \<Rightarrow> bool"
  ah_installed :: bool
  ah_install :: "unit result"
  ah_linux :: bool
  ah_sysname :: string
  ah_sha256 :: "string \<Rightarrow> string"
  ah_now :: string
  ah_store_is_dir :: bool
  ah_rmtree_store :: "unit result"
  ah_s3_keys :: "string \<Rightarrow> string \<Rightarrow> string list result"
  ah_data_path :: string
  ah_mount_dir :: string
  ah_store_dir :: string
  ah_juicefs_version :: string

definition JUICEFS_SERVICE :: string where
  "JUICEFS_SERVICE = ''openhost-juicefs''"

definition juicefs_state_dir :: "archive_host \<Rightarrow> string" where
  "juicefs_state_dir H = path_join (path_join (ah_data_path H) ''juicefs'') ''state''"

definition juicefs_runtime_dir :: "archive_host \<Rightarrow> string" where
  "juicefs_runtime_dir H = path_join (path_join (ah_data_path H) ''juicefs'') ''runtime''"

definition juicefs_binary :: "archive_host \<Rightarrow> string" where
  "juicefs_binary H = path_join (path_join (juicefs_runtime_dir H) ''bin'') (''juicefs-'' @ ah_juicefs_version H)"

definition juicefs_meta_db :: "archive_host \<Rightarrow> string" where
  "juicefs_meta_db H = path_join (juicefs_state_dir H) ''meta.db''"

definition format_meta_dsn :: "archive_host \<Rightarrow> string" where
  "format_meta_dsn H = ''sqlite3://'' @ juicefs_meta_db H"

definition juicefs_env_file :: "archive_host \<Rightarrow> string" where
  "juicefs_env_file H = path_join (path_join (ah_data_path H) ''juicefs'') ''juicefs.env''"

definition first_nonempty :: "string list \<Rightarrow> string" where
  "first_nonempty xs = (case filter (\<lambda>x. x \<noteq> []) xs of [] \<Rightarrow> [] | x # _ \<Rightarrow> x)"

text \<open>A command whose failure is an exception with its standard error, else its standard output.\<close>

definition checked_run :: "archive_host \<Rightarrow> string list \<Rightarrow> (int \<Rightarrow> string) \<Rightarrow> unit act" where
  "checked_run H argv msg =
     act_bind (act_run (ah_processes H) argv) (\<lambda>(returncode, out, err).
       if returncode \<noteq> 0
       then act_raise (Exn RuntimeError (msg returncode @ first_nonempty [strip err, strip out]))
       else act_return ())"

definition ensure_installed :: "archive_host \<Rightarrow> unit act" where
  "ensure_installed H = (if \<not> ah_installed H then act_lift (ah_install H) else act_return ())"

definition format_local_volume :: "archive_host \<Rightarrow> string \<Rightarrow> unit act" where
  "format_local_volume H volume =
     act_then (ensure_installed H)
     (act_then (act_emit (DirMade (juicefs_state_dir H)))
     (act_then (act_emit (DirMade (ah_store_dir H)))
       (checked_run H [juicefs_binary H, ''--no-agent'', ''format'', ''--storage'', ''file'', ''--bucket'',
          file_bucket (ah_store_dir H), format_meta_dsn H, volume]
          (\<lambda>rc. ''juicefs format (file) failed (exit '' @ show_int rc @ ''): ''))))"

text \<open>The S3 credentials go in the environment of the command, not in its arguments.\<close>

definition or_region :: "string option \<Rightarrow> string" where
  "or_region r = (if r = None \<or> r = Some [] then ''us-east-1'' else the r)"

definition format_s3_volume :: "archive_host \<Rightarrow> string \<Rightarrow> string option \<Rightarrow> string option \<Rightarrow> string \<Rightarrow> unit act" where
  "format_s3_volume H s3_bucket s3_region s3_endpoint volume =
     act_then (act_emit (DirMade (juicefs_state_dir H)))
       (checked_run H [juicefs_binary H, ''--no-agent'', ''format'', ''--storage'', ''s3'', ''--bucket'',
          bucket_url s3_bucket (or_region s3_region) s3_endpoint, format_meta_dsn H, volume]
          (\<lambda>rc. ''juicefs format failed (exit '' @ show_int rc @ ''): ''))"

text \<open>A temporary file of mode 0600, renamed over the old one.\<close>

definition write_env_file :: "archive_host \<Rightarrow> string option \<Rightarrow> string option \<Rightarrow> unit act" where
  "write_env_file H access_key secret_key =
     (let env_path = juicefs_env_file H;
          content = ''JUICEFS_BINARY='' @ juicefs_binary H @ [newline] @ ''JUICEFS_META_DSN='' @ format_meta_dsn H @ [newline]
            @ ''JUICEFS_MOUNT_DIR='' @ ah_mount_dir H @ [newline]
            @ (case (access_key, secret_key) of
                 (Some ak, Some sk) \<Rightarrow> ''ACCESS_KEY='' @ ak @ [newline] @ ''SECRET_KEY='' @ sk @ [newline]
               | _ \<Rightarrow> [])
      in act_then (act_emit (DirMade (dirname env_path)))
         (act_then (act_emit (FileWritten (env_path @ ''.tmp'') content))
           (act_emit (DirRenamed (env_path @ ''.tmp'') env_path))))"

definition systemctl :: "archive_host \<Rightarrow> string list \<Rightarrow> unit act" where
  "systemctl H args =
     checked_run H ([''sudo'', ''systemctl''] @ args)
       (\<lambda>rc. ''systemctl '' @ join '' '' args @ '' failed (rc='' @ show_int rc @ ''): '')"

definition service_state :: "archive_host \<Rightarrow> string act" where
  "service_state H =
     act_catch (act_bind (act_run (ah_processes H) [''systemctl'', ''is-active'', JUICEFS_SERVICE]) (\<lambda>(rc, out, err).
        act_return (strip out))) (\<lambda>_. act_return ''unknown'')"

definition mount :: "archive_host \<Rightarrow> string option \<Rightarrow> string option \<Rightarrow> unit act" where
  "mount H access_key secret_key =
     act_then (act_emit (DirMade (ah_mount_dir H)))
     (act_bind (act_observe (ah_mounted H)) (\<lambda>mounted.
        if mounted then act_return ()
        else act_then (write_env_file H access_key secret_key)
          (act_then (systemctl H [''daemon-reload''])
          (act_then (systemctl H [''enable'', ''--now'', JUICEFS_SERVICE])
          (act_bind (act_observe (ah_mounts H)) (\<lambda>ready.
             if ready then act_return ()
             else act_bind (service_state H) (\<lambda>svc_state.
               act_raise (Exn RuntimeError (''juicefs mount did not become ready within 30s at '' @ ah_mount_dir H
                 @ '' (service state: '' @ svc_state @ ''); check journalctl -u '' @ JUICEFS_SERVICE)))))))))"

definition umount :: "archive_host \<Rightarrow> unit act" where
  "umount H =
     act_bind (act_observe (ah_mounted H)) (\<lambda>mounted.
       if \<not> mounted
       then act_catch (systemctl H [''disable'', ''--now'', JUICEFS_SERVICE])
              (\<lambda>e. if is_runtime_error e then act_return () else act_raise e)
       else act_then (act_catch (systemctl H [''stop'', JUICEFS_SERVICE])
                (\<lambda>e. if is_runtime_error e
                     then act_raise (Exn RuntimeError (''Failed to stop '' @ JUICEFS_SERVICE
                       @ ''; ensure all containers using the archive tier are stopped before switching backends.  Original: ''
                       @ exn_text e))
                     else act_raise e))
              (systemctl H [''disable'', JUICEFS_SERVICE]))"

definition remount :: "archive_host \<Rightarrow> string option \<Rightarrow> string option \<Rightarrow> unit act" where
  "remount H access_key secret_key = act_then (umount H) (mount H access_key secret_key)"

definition ensure_local_volume_formatted :: "archive_host \<Rightarrow> string \<Rightarrow> unit act" where
  "ensure_local_volume_formatted H volume =
     act_bind (act_observe (ah_formatted H)) (\<lambda>formatted.
       if formatted then act_return ()
       else format_local_volume H (if volume \<noteq> [] then volume else DEFAULT_VOLUME_NAME))"

definition set_state_message :: "string option \<Rightarrow> unit act" where
  "set_state_message message =
     act_then (act_exec (update_archive (\<lambda>r. r\<lparr>bs_state_message := message\<rparr>))) act_commit"

definition set_juicefs_volume_name :: "string \<Rightarrow> unit act" where
  "set_juicefs_volume_name volume =
     act_then (act_exec (update_archive (\<lambda>r. r\<lparr>bs_juicefs_volume_name := volume\<rparr>))) act_commit"

definition attach_local :: "archive_host \<Rightarrow> backend_state \<Rightarrow> unit act" where
  "attach_local H state =
     act_catch
       (act_then (ensure_installed H)
       (act_bind (act_observe (ah_formatted H)) (\<lambda>formatted.
        act_bind (if \<not> formatted \<and> bs_juicefs_volume_name state = DEFAULT_VOLUME_NAME
                  then act_bind (act_query (default_volume_name_for_zone (ah_sha256 H))) (\<lambda>v.
                         act_then (set_juicefs_volume_name v) (act_return v))
                  else act_return (bs_juicefs_volume_name state)) (\<lambda>volume.
        act_then (ensure_local_volume_formatted H volume)
        (act_then (mount H None None) (set_state_message None))))))
       (\<lambda>e. set_state_message (Some (''Failed to bring up local archive backend: '' @ exn_text e)))"

definition attach_s3 :: "archive_host \<Rightarrow> backend_state \<Rightarrow> unit act" where
  "attach_s3 H state =
     act_catch
       (act_then (ensure_installed H)
       (act_then (if bs_s3_access_key_id state = None \<or> bs_s3_secret_access_key state = None
                  then act_raise (Exn RuntimeError (''S3 credentials are missing from the archive_backend row.  Re-configure ''
                         @ ''the archive backend from the dashboard.''))
                  else act_return ())
       (act_then (mount H (bs_s3_access_key_id state) (bs_s3_secret_access_key state)) (set_state_message None))))
       (\<lambda>e. set_state_message (Some (''Failed to attach archive backend: '' @ exn_text e)))"

definition attach_on_startup :: "archive_host \<Rightarrow> unit act" where
  "attach_on_startup H =
     act_bind (act_query read_state) (\<lambda>state.
       if bs_backend state \<in> {''local'', ''s3''} \<and> \<not> ah_linux H
       then set_state_message (Some (''Archive tier unavailable: no JuiceFS build for '' @ ah_sysname H @ ''.''))
       else if bs_backend state = ''local'' then attach_local H state
       else if bs_backend state \<noteq> ''s3'' then act_return ()
       else attach_s3 H state)"

section \<open>Migration\<close>

definition endpoint_is_insecure_http :: "string option \<Rightarrow> bool" where
  "endpoint_is_insecure_http s3_endpoint =
     (if s3_endpoint = None \<or> s3_endpoint = Some [] then False
      else startswith (lower (strip (the s3_endpoint))) ''http://'')"

definition juicefs_sync :: "archive_host \<Rightarrow> string \<Rightarrow> string \<Rightarrow> bool \<Rightarrow> string \<Rightarrow> unit act" where
  "juicefs_sync H src dst insecure what =
     act_bind (act_run (ah_processes H) ([juicefs_binary H, ''--no-agent'', ''sync'', ''--check-all'']
         @ (if insecure then [''--no-https''] else []) @ [src, dst])) (\<lambda>(returncode, out, err).
       if returncode \<noteq> 0
       then act_raise (Exn RuntimeError (what @ first_nonempty [strip err, strip out, ''exit '' @ show_int returncode]))
       else act_return ())"

definition sync_objects :: "archive_host \<Rightarrow> string \<Rightarrow> string \<Rightarrow> bool \<Rightarrow> unit act" where
  "sync_objects H src dst insecure = juicefs_sync H src dst insecure ''juicefs sync failed: ''"

text \<open>\<open>url.split("://", 1)\<close> unpacked into two; every URL the code passes has a scheme.\<close>

definition s3_url_with_creds :: "string \<Rightarrow> string \<Rightarrow> string \<Rightarrow> string" where
  "s3_url_with_creds url access_key secret_key =
     (case cut_first ''://'' url of
        None \<Rightarrow> url
      | Some (proto, rest) \<Rightarrow> proto @ ''://'' @ url_quote access_key @ '':'' @ url_quote secret_key @ ''@'' @ rest)"

definition sync_objects_s3_to_s3 ::
    "archive_host \<Rightarrow> string \<Rightarrow> string \<Rightarrow> string \<Rightarrow> string \<Rightarrow> string \<Rightarrow> string \<Rightarrow> bool \<Rightarrow> unit act" where
  "sync_objects_s3_to_s3 H src dst src_key src_secret dst_key dst_secret insecure =
     juicefs_sync H (s3_url_with_creds src src_key src_secret) (s3_url_with_creds dst dst_key dst_secret) insecure
       ''juicefs sync (s3->s3) failed: ''"

definition reconfigure_volume_storage ::
    "archive_host \<Rightarrow> string \<Rightarrow> string \<Rightarrow> string option \<Rightarrow> string option \<Rightarrow> unit act" where
  "reconfigure_volume_storage H storage bucket access_key secret_key =
     act_bind (act_run (ah_processes H) ([juicefs_binary H, ''--no-agent'', ''config'', format_meta_dsn H, ''--storage'', storage,
         ''--bucket'', bucket, ''--yes'', ''--force'']
         @ (case access_key of None \<Rightarrow> [] | Some k \<Rightarrow> [''--access-key'', k])
         @ (case secret_key of None \<Rightarrow> [] | Some k \<Rightarrow> [''--secret-key'', k]))) (\<lambda>(returncode, out, err).
       if returncode \<noteq> 0
       then act_raise (Exn RuntimeError (''juicefs config (re-point storage) failed: ''
              @ first_nonempty [strip err, strip out, ''exit '' @ show_int returncode]))
       else act_return ())"

definition local_sync_source :: "archive_host \<Rightarrow> string \<Rightarrow> string" where
  "local_sync_source H volume = path_join (file_bucket (ah_store_dir H)) volume @ ''/''"

definition s3_sync_dest :: "string \<Rightarrow> string option \<Rightarrow> string option \<Rightarrow> string \<Rightarrow> string" where
  "s3_sync_dest s3_bucket s3_region s3_endpoint volume =
     (if s3_endpoint \<noteq> None \<and> s3_endpoint \<noteq> Some []
      then let host = (case cut_first ''://'' (the s3_endpoint) of None \<Rightarrow> the s3_endpoint | Some (proto, rest) \<Rightarrow> rest)
           in ''s3://'' @ s3_bucket @ ''.'' @ rstrip_slashes host @ ''/'' @ volume @ ''/''
      else ''s3://'' @ s3_bucket @ ''.s3.'' @ or_region s3_region @ ''.amazonaws.com/'' @ volume @ ''/'')"

text \<open>The bucket a configuration request names, with its credentials.\<close>

record s3_target =
  st_bucket :: string
  st_region :: "string option"
  st_endpoint :: "string option"
  st_prefix :: "string option"
  st_access_key_id :: string
  st_secret_access_key :: string
  st_volume_name :: "string option"

definition migrate_s3_to_s3 :: "archive_host \<Rightarrow> string \<Rightarrow> s3_target \<Rightarrow> s3_target \<Rightarrow> unit act" where
  "migrate_s3_to_s3 H volume source target =
     act_then
       (sync_objects_s3_to_s3 H
         (s3_sync_dest (st_bucket source) (st_region source) (st_endpoint source) volume)
         (s3_sync_dest (st_bucket target) (st_region target) (st_endpoint target) volume)
         (st_access_key_id source) (st_secret_access_key source) (st_access_key_id target) (st_secret_access_key target)
         (endpoint_is_insecure_http (st_endpoint source) \<or> endpoint_is_insecure_http (st_endpoint target)))
       (reconfigure_volume_storage H ''s3'' (bucket_url (st_bucket target) (or_region (st_region target)) (st_endpoint target))
         (Some (st_access_key_id target)) (Some (st_secret_access_key target)))"

definition migrate_local_to_s3 :: "archive_host \<Rightarrow> string \<Rightarrow> s3_target \<Rightarrow> unit act" where
  "migrate_local_to_s3 H volume target =
     act_then
       (sync_objects H (local_sync_source H volume)
         (s3_sync_dest (st_bucket target) (st_region target) (st_endpoint target) volume)
         (endpoint_is_insecure_http (st_endpoint target)))
       (reconfigure_volume_storage H ''s3'' (bucket_url (st_bucket target) (or_region (st_region target)) (st_endpoint target))
         (Some (st_access_key_id target)) (Some (st_secret_access_key target)))"

definition remove_local_object_store :: "archive_host \<Rightarrow> unit act" where
  "remove_local_object_store H =
     (if \<not> ah_store_is_dir H then act_return ()
      else act_catch
        (act_then (act_lift (ah_rmtree_store H))
          (act_then (act_emit (DirRemoved (ah_store_dir H))) (act_emit (DirMade (ah_store_dir H)))))
        (\<lambda>_. act_return ()))"

text \<open>The keys listed under the prefix are deleted in batches of a thousand; here as one effect.\<close>

definition strip_slashes :: "string \<Rightarrow> string" where
  "strip_slashes s = rstrip_slashes (dropWhile (\<lambda>c. c = CHR ''/'') s)"

definition remove_s3_object_prefix :: "archive_host \<Rightarrow> string \<Rightarrow> string \<Rightarrow> unit act" where
  "remove_s3_object_prefix H s3_bucket volume =
     (let p = strip (strip_slashes (strip volume)); list_prefix = p @ ''/''
      in if p = [] then act_return ()
         else act_catch
           (act_bind (act_lift (ah_s3_keys H s3_bucket list_prefix)) (\<lambda>keys.
              let to_delete = filter (\<lambda>k. k \<noteq> [] \<and> startswith k list_prefix) keys
              in if to_delete \<noteq> [] then act_emit (S3Deleted s3_bucket to_delete) else act_return ()))
           (\<lambda>_. act_return ()))"

definition or_text :: "string option \<Rightarrow> string \<Rightarrow> string" where
  "or_text s d = (if s = None \<or> s = Some [] then d else the s)"

definition chosen_volume :: "archive_host \<Rightarrow> backend_state \<Rightarrow> s3_target \<Rightarrow> database \<Rightarrow> string" where
  "chosen_volume H state target db =
     (let requested = or_text (st_volume_name target) (or_text (st_prefix target) (default_volume_name_for_zone (ah_sha256 H) db));
          existing = (if bs_juicefs_volume_name state \<noteq> [] then bs_juicefs_volume_name state else DEFAULT_VOLUME_NAME)
      in if bs_backend state = ''s3'' then existing
         else if bs_backend state = ''local'' then (if existing = DEFAULT_VOLUME_NAME then requested else existing)
         else requested)"

definition source_of :: "backend_state \<Rightarrow> s3_target" where
  "source_of state = \<lparr>st_bucket = or_text (bs_s3_bucket state) [], st_region = bs_s3_region state,
     st_endpoint = bs_s3_endpoint state, st_prefix = bs_s3_prefix state,
     st_access_key_id = or_text (bs_s3_access_key_id state) [], st_secret_access_key = or_text (bs_s3_secret_access_key state) [],
     st_volume_name = None\<rparr>"

definition configured_row :: "archive_host \<Rightarrow> string \<Rightarrow> s3_target \<Rightarrow> backend_state \<Rightarrow> backend_state" where
  "configured_row H volume target r =
     r\<lparr>bs_backend := ''s3'', bs_s3_bucket := Some (st_bucket target), bs_s3_region := st_region target,
       bs_s3_endpoint := st_endpoint target, bs_s3_prefix := Some volume,
       bs_s3_access_key_id := Some (st_access_key_id target), bs_s3_secret_access_key := Some (st_secret_access_key target),
       bs_juicefs_volume_name := volume, bs_configured_at := Some (ah_now H), bs_state_message := None\<rparr>"

definition switch_storage :: "archive_host \<Rightarrow> unit act option \<Rightarrow> backend_state \<Rightarrow> string \<Rightarrow> s3_target \<Rightarrow> unit act" where
  "switch_storage H quiesce state volume target =
     (let pause = (case quiesce of None \<Rightarrow> act_return () | Some q \<Rightarrow> q);
          ak = Some (st_access_key_id target); sk = Some (st_secret_access_key target)
      in act_then (ensure_installed H)
         (if bs_backend state = ''local'' then
            act_then (ensure_local_volume_formatted H volume)
            (act_then (mount H None None) (act_then pause
            (act_then (migrate_local_to_s3 H volume target) (remount H ak sk))))
          else if bs_backend state = ''s3'' then
            act_then (mount H (bs_s3_access_key_id state) (bs_s3_secret_access_key state)) (act_then pause
            (act_then (migrate_s3_to_s3 H volume (source_of state) target) (remount H ak sk)))
          else
            act_then (format_s3_volume H (st_bucket target) (st_region target) (st_endpoint target) volume) (mount H ak sk)))"

definition MIGRATION_LOCAL_MESSAGE :: string where
  "MIGRATION_LOCAL_MESSAGE = ''Migration to S3 failed and the local archive mount could not be restarted automatically; ''
     @ ''your archive data is intact on local disk. Restart the instance (or the Cloud in a Bottle service) ''
     @ ''to bring the archive back online, then retry.''"

definition MIGRATION_S3_MESSAGE :: string where
  "MIGRATION_S3_MESSAGE = ''Migration to a new S3 bucket failed and the original archive mount could not be restarted ''
     @ ''automatically; your archive data is intact in the original bucket. Restart the instance ''
     @ ''(or the Cloud in a Bottle service) to bring the archive back online, then retry.''"

definition restore_storage :: "archive_host \<Rightarrow> backend_state \<Rightarrow> unit act" where
  "restore_storage H state =
     (if bs_backend state = ''local'' then
        act_catch
          (act_then (reconfigure_volume_storage H ''file'' (file_bucket (ah_store_dir H)) None None) (remount H None None))
          (\<lambda>_. set_state_message (Some MIGRATION_LOCAL_MESSAGE))
      else if bs_backend state = ''s3'' then
        act_catch
          (act_then (reconfigure_volume_storage H ''s3''
              (bucket_url (or_text (bs_s3_bucket state) []) (or_region (bs_s3_region state)) (bs_s3_endpoint state))
              (bs_s3_access_key_id state) (bs_s3_secret_access_key state))
            (remount H (bs_s3_access_key_id state) (bs_s3_secret_access_key state)))
          (\<lambda>_. set_state_message (Some MIGRATION_S3_MESSAGE))
      else act_catch (umount H) (\<lambda>_. act_return ()))"

definition reclaim_source :: "archive_host \<Rightarrow> backend_state \<Rightarrow> string \<Rightarrow> s3_target \<Rightarrow> unit act" where
  "reclaim_source H state volume target =
     (if bs_backend state = ''local'' then remove_local_object_store H
      else if bs_backend state = ''s3'' then
        (let source_volume = (if bs_juicefs_volume_name state \<noteq> [] then bs_juicefs_volume_name state else DEFAULT_VOLUME_NAME);
             same_location = (bs_s3_bucket state = Some (st_bucket target) \<and> source_volume = volume)
         in if \<not> same_location then remove_s3_object_prefix H (or_text (bs_s3_bucket state) []) volume else act_return ())
      else act_return ())"

text \<open>The assertions on the source credentials hold by the check at the start.\<close>

definition configure_backend :: "archive_host \<Rightarrow> s3_target \<Rightarrow> unit act option \<Rightarrow> unit act" where
  "configure_backend H target quiesce =
     act_bind (act_query read_state) (\<lambda>state.
     act_bind (act_query (chosen_volume H state target)) (\<lambda>volume.
       if bs_backend state \<notin> {''local'', ''disabled'', ''s3''}
       then act_raise (Exn RuntimeError (''cannot configure S3 from backend='' @ squote (bs_backend state)))
       else if bs_backend state = ''s3'' \<and> (bs_s3_bucket state = None \<or> bs_s3_bucket state = Some []
                 \<or> bs_s3_access_key_id state = None \<or> bs_s3_secret_access_key state = None)
       then act_raise (Exn RuntimeError (''current S3 archive backend is missing its bucket/credentials in the ''
              @ ''database; cannot migrate to a new bucket.  Re-provision or contact support.''))
       else
         act_then
           (act_catch
             (act_then (switch_storage H quiesce state volume target)
               (act_then (act_exec (update_archive (configured_row H volume target))) act_commit))
             (\<lambda>e. act_then (restore_storage H state)
                (act_raise (Exn RuntimeError (''Failed to configure S3 archive backend: '' @ exn_text e)))))
           (reclaim_source H state volume target)))"

end
