(* ===== verification/Lifecycle.thy ===== *)
theory Lifecycle
  imports Archive Services Guards Keeps
begin

text \<open>
  \<open>core/apps.py\<close>: how an app is installed, built, started, reloaded and removed.  What the worker meets
  outside is a \<open>world\<close>: the answers of the kernel, of the commands it runs, of the file system and of the
  random generator.  Each worker is a program over its own connection; the interleaving of workers is
  the subject of the status protocol.
\<close>

section \<open>The world of a worker\<close>

record 'v world =
  w_libs :: "'v libs"
  w_float_str :: "rat \<Rightarrow> string"
  w_parse_int :: "string \<Rightarrow> int option"
  w_fs :: filesystem
  w_processes :: processes
  w_ports :: host
  w_rnd :: "nat \<Rightarrow> nat \<Rightarrow> nat"
  w_id_bytes :: "nat \<Rightarrow> nat list"
  w_crypto :: crypto
  w_auth :: auth_tables
  w_ready :: "bool result"
  w_min_free_mb :: int
  w_disk_free :: int
  w_port_start :: int
  w_port_end :: int
  w_provision :: provision
  w_cwd :: string
  w_apps_dir :: string
  w_listdir :: "string list"
  w_rmtree :: "unit result"
  w_copytree :: "unit result"
  w_now :: string

definition RESERVED_PATHS :: "string set" where
  "RESERVED_PATHS = {''/'', ''/dashboard'', ''/login'', ''/logout'', ''/add_app'', ''/remove_app'', ''/stop_app'',
     ''/reload_app'', ''/api'', ''/health'', ''/app'', ''/setup'', ''/.well-known'', ''/terminal'', ''/toggle-ssh'',
     ''/identity'', ''/settings'', ''/system'', ''/docs''}"

definition DEFAULT_OWNER_USERNAME :: string where
  "DEFAULT_OWNER_USERNAME = ''owner''"

section \<open>Columns derived from the manifest\<close>

definition serialize_links :: "(pyval \<Rightarrow> string) \<Rightarrow> app_link list \<Rightarrow> string" where
  "serialize_links json_dumps links =
     json_dumps (VList (map (\<lambda>l. VDict [(''name'', VStr (al_name l)), (''path'', VStr (al_path l))]) links))"

definition link_of_entry :: "pyval \<Rightarrow> app_link list" where
  "link_of_entry entry =
     (case entry of
        VDict kvs \<Rightarrow>
          (case (map_of kvs ''name'', map_of kvs ''path'') of
             (Some (VStr n), Some (VStr p)) \<Rightarrow> [\<lparr>al_name = n, al_path = p\<rparr>]
           | _ \<Rightarrow> [])
      | _ \<Rightarrow> [])"

definition deserialize_links :: "(string \<Rightarrow> pyval result) \<Rightarrow> string option \<Rightarrow> app_link list result" where
  "deserialize_links json_loads raw =
     (case json_loads (if raw = None \<or> raw = Some [] then ''[]'' else the raw) of
        Inl e \<Rightarrow> if exn_class e = JSONDecodeError \<or> exn_class e = TypeError then Inr [] else Inl e
      | Inr v \<Rightarrow> rbind (iter_elems v) (\<lambda>entries. Inr (concat (map link_of_entry entries))))"

text \<open>\<open>int(v)\<close>.\<close>

definition py_int :: "(string \<Rightarrow> int option) \<Rightarrow> pyval \<Rightarrow> int result" where
  "py_int parse_int v =
     (case v of
        VStr s \<Rightarrow> (case parse_int s of Some i \<Rightarrow> Inr i | None \<Rightarrow> value_error ''invalid literal for int() with base 10'')
      | VFloat r \<Rightarrow> Inr (if r \<ge> 0 then \<lfloor>r\<rfloor> else \<lceil>r\<rceil>)
      | v \<Rightarrow> (case as_int v of Some i \<Rightarrow> Inr i
            | None \<Rightarrow> Inl (Exn TypeError (''int() argument must be a string, a bytes-like object or a real number, not ''
                         @ squote (type_name v)))))"

text \<open>Values SQLite accepts as parameters: no containers, integers of 64 bits.\<close>

definition sql_bindable :: "pyval \<Rightarrow> pyval result" where
  "sql_bindable v =
     (case v of
        VList xs \<Rightarrow> Inl (Exn SqliteError (''Error binding parameter: type '' @ squote (type_name v) @ '' is not supported''))
      | VDict xs \<Rightarrow> Inl (Exn SqliteError (''Error binding parameter: type '' @ squote (type_name v) @ '' is not supported''))
      | VInt i \<Rightarrow> if - (2 ^ 63) \<le> i \<and> i < 2 ^ 63 then Inr v
                  else Inl (Exn OtherError ''Python int too large to convert to SQLite INTEGER'')
      | _ \<Rightarrow> Inr v)"

text \<open>\<open>json.dumps\<close> raises on a TOML date or time, at any depth.\<close>

fun json_value :: "pyval \<Rightarrow> bool" where
  "json_value (VList xs) = list_all json_value xs"
| "json_value (VDict kvs) = list_all (\<lambda>kv. json_value (snd kv)) kvs"
| "json_value (VOther t) = False"
| "json_value _ = True"

text \<open>
  The values as a function on rows: what \<open>INSERT\<close> and \<open>UPDATE\<close> set.  The binding of the parameters, which
  follows directly in both places, is part of it.
\<close>

definition manifest_column_values :: "'v world \<Rightarrow> app_manifest \<Rightarrow> (app_row \<Rightarrow> app_row) result" where
  "manifest_column_values W m =
     rbind (py_int (w_parse_int W) (m_gpu m)) (\<lambda>gpu.
     if \<not> json_value (m_public_paths m) then Inl (Exn TypeError ''Object is not JSON serializable'')
     else rbind (sql_text (w_float_str W) (m_name m)) (\<lambda>manifest_name.
     rbind (sql_bindable (m_version m)) (\<lambda>version.
     rbind (sql_bindable (m_description m)) (\<lambda>description.
     rbind (sql_bindable (m_runtime_type m)) (\<lambda>runtime_type.
     rbind (sql_bindable (m_health_check m)) (\<lambda>health_check.
     rbind (sql_bindable (m_container_port m)) (\<lambda>container_port.
     rbind (sql_bindable (m_memory_mb m)) (\<lambda>memory_mb.
     rbind (sql_bindable (VInt gpu)) (\<lambda>_.
       Inr (\<lambda>r. r\<lparr>a_manifest_name := or_empty manifest_name, a_version := version, a_description := description,
              a_runtime_type := runtime_type, a_health_check := health_check, a_container_port := container_port,
              a_memory_mb := memory_mb, a_cpu_cores := m_cpu_cores m, a_gpu := gpu,
              a_public_paths := m_public_paths m, a_links := map (\<lambda>l. (al_name l, al_path l)) (m_links m),
              a_manifest_raw := Some (m_raw_toml m)\<rparr>))))))))))"

definition is_public_path :: "string list \<Rightarrow> string \<Rightarrow> bool" where
  "is_public_path public_paths request_path =
     (\<exists>pp \<in> set public_paths. request_path = pp \<or> startswith request_path (rstrip_slashes pp @ ''/''))"

section \<open>Installing\<close>

text \<open>\<open>os.path.isdir\<close> and \<open>isfile\<close> decide whether a \<open>file://\<close> source is a repository.\<close>

definition plain_dir_to_copy :: "filesystem \<Rightarrow> string \<Rightarrow> string option result" where
  "plain_dir_to_copy fs base_url =
     (if \<not> startswith base_url ''file://'' then Inr None
      else let local_path = drop 7 base_url
           in if \<not> is_dir fs local_path then Inl (Exn CloneFailed (''Local path does not exist: '' @ local_path))
              else if is_dir fs (path_join local_path ''.git'') \<or> is_file fs (path_join local_path ''HEAD'')
              then Inr None else Inr (Some local_path))"

definition validate_manifest :: "app_manifest \<Rightarrow> database \<Rightarrow> string option \<Rightarrow> string option result" where
  "validate_manifest m db app_name =
     rbind (case app_name of
              Some n \<Rightarrow> Inr n
            | None \<Rightarrow> (case m_name m of VStr n \<Rightarrow> Inr n
                      | v \<Rightarrow> Inl (Exn TypeError (''expected string or bytes-like object, got '' @ squote (type_name v)))))
       (\<lambda>n.
         if \<not> is_valid_app_name n
         then Inr (Some ''App name must be lowercase alphanumeric (hyphens allowed, not at start/end)'')
         else if ''/'' @ n \<in> RESERVED_PATHS
         then Inr (Some (''App name '' @ squote n @ '' conflicts with a reserved path''))
         else case select_app_by_name n db of
                Some r \<Rightarrow> Inr (Some (''App name already in use by '' @ squote (a_name r)))
              | None \<Rightarrow> Inr None)"

text \<open>The loop ends when a candidate is new; \<open>k\<close> counts the draws.\<close>

partial_function (option) mint_unique_app_id :: "(nat \<Rightarrow> nat list) \<Rightarrow> database \<Rightarrow> nat \<Rightarrow> string option" where
  "mint_unique_app_id id_bytes db k =
     (let candidate = new_app_id (id_bytes k)
      in if select_app candidate db = None then Some candidate else mint_unique_app_id id_bytes db (Suc k))"

declare mint_unique_app_id.simps [code]

definition provision_env :: "'v world \<Rightarrow> string \<Rightarrow> string \<Rightarrow> app_manifest \<Rightarrow> env act" where
  "provision_env W app_id app_name m =
     act_bind (act_query primary_domain) (\<lambda>r.
     act_bind (act_lift r) (\<lambda>d.
       make_data_dirs_and_env_vars (w_libs W) (w_provision W) app_id app_name m (dom_name d)
         (case read_owner_username (w_auth W) of Some u \<Rightarrow> u | None \<Rightarrow> DEFAULT_OWNER_USERNAME)))"

text \<open>\<open>INSERT OR REPLACE INTO app_tokens\<close>: the app and the hash are both unique.\<close>

definition replace_app_token :: "string \<Rightarrow> string \<Rightarrow> database \<Rightarrow> database" where
  "replace_app_token app_id h db =
     db\<lparr>t_app_tokens := filter (\<lambda>(i, t). i \<noteq> app_id \<and> t \<noteq> h) (t_app_tokens db) @ [(app_id, h)]\<rparr>"

definition store_app_token :: "'v world \<Rightarrow> string \<Rightarrow> env \<Rightarrow> unit act" where
  "store_app_token W app_id env_vars =
     (case map_of env_vars ''OPENHOST_APP_TOKEN'' of
        None \<Rightarrow> act_return ()
      | Some tok \<Rightarrow> if tok = [] then act_return () else act_exec (replace_app_token app_id (sha256 (w_crypto W) tok)))"

definition port_row_of :: "string \<Rightarrow> port_mapping \<Rightarrow> port_row" where
  "port_row_of app_id pm = \<lparr>p_app_id = app_id, p_label = pm_label pm, p_container_port = pm_container_port pm,
     p_host_port = pm_host_port pm\<rparr>"

definition insert_database_row :: "database_row \<Rightarrow> database \<Rightarrow> database result" where
  "insert_database_row r db =
     (if \<exists>d \<in> set (t_databases db). db_app_id d = db_app_id r \<and> db_name d = db_name r
      then Inl (integrity ''app_databases.app_id, app_databases.db_name'')
      else Inr (db\<lparr>t_databases := t_databases db @ [r]\<rparr>))"

definition insert_sqlite_db :: "string \<Rightarrow> env \<Rightarrow> pyval \<Rightarrow> unit act" where
  "insert_sqlite_db app_id env_vars n =
     (case n of
        VStr s \<Rightarrow> act_try (insert_database_row \<lparr>db_app_id = app_id, db_name = s,
                    db_path = or_empty (map_of env_vars (''OPENHOST_SQLITE_'' @ upper s))\<rparr>)
      | v \<Rightarrow> act_raise (no_attribute v ''upper''))"

definition override_ports :: "(string \<times> int) list \<Rightarrow> port_mapping list \<Rightarrow> port_mapping list" where
  "override_ports port_overrides pms =
     (if port_overrides \<noteq> []
      then map (\<lambda>pm. case map_of port_overrides (pm_label pm) of
                  Some p \<Rightarrow> pm\<lparr>pm_host_port := p\<rparr> | None \<Rightarrow> pm) pms
      else pms)"

definition new_app_row ::
    "'v world \<Rightarrow> string \<Rightarrow> string \<Rightarrow> string \<Rightarrow> string option \<Rightarrow> int \<Rightarrow> app_row" where
  "new_app_row W app_id app_name repo_path repo_url local_port =
     \<lparr>a_app_id = app_id, a_name = app_name, a_manifest_name = [], a_version = VNone, a_description = VNone,
      a_runtime_type = VNone, a_repo_path = repo_path, a_repo_url = repo_url, a_health_check = VNone,
      a_local_port = local_port, a_container_port = VNone, a_container_id = None, a_status = Building,
      a_error_message = None, a_memory_mb = VNone, a_cpu_cores = 0, a_gpu = 0, a_public_paths = VNone,
      a_links = [], a_manifest_raw = None, a_created_at = w_now W\<rparr>"

text \<open>Everything up to \<open>db.commit()\<close>, for the port and the id that were picked.\<close>

definition install_rows ::
    "'v world \<Rightarrow> app_manifest \<Rightarrow> string \<Rightarrow> string \<Rightarrow> string option \<Rightarrow> (string \<times> int) list \<Rightarrow> int \<Rightarrow> string \<Rightarrow> unit act" where
  "install_rows W m app_name repo_path repo_url port_overrides local_port app_id =
     act_bind (act_query (\<lambda>db. resolve_port_mappings (w_ports W) (w_rnd W) (override_ports port_overrides (m_port_mappings m))
         db (w_port_start W) (w_port_end W) None)) (\<lambda>r.
     act_bind (act_lift r) (\<lambda>resolved.
     act_bind (provision_env W app_id app_name m) (\<lambda>env_vars.
     act_bind (act_lift (manifest_column_values W m)) (\<lambda>columns.
     act_then (act_try (insert_app (columns (new_app_row W app_id app_name repo_path repo_url local_port))))
     (act_then (act_each (\<lambda>pm. act_try (insert_port (port_row_of app_id pm))) resolved)
     (act_bind (act_lift (iter_elems (m_sqlite_dbs m))) (\<lambda>dbs.
      act_then (act_each (insert_sqlite_db app_id env_vars) dbs)
      (act_then (store_app_token W app_id env_vars)
      (act_then (act_try (register_services_provided_by_app True app_id m))
        act_commit)))))))))"

text \<open>\<open>grant_permission_v2\<close> serialises the payload first; it commits.\<close>

definition grant_after_install :: "string \<Rightarrow> permission_grant \<Rightarrow> unit act" where
  "grant_after_install app_id g =
     act_then (if json_value (pg_grant g) then act_return () else act_raise (Exn TypeError ''Object is not JSON serializable''))
     (act_then (act_try (grant_permission_v2 app_id (pg_service_url g) (pg_grant g) ''global'' None)) act_commit)"

text \<open>
  \<open>None\<close>: the id loop never ends.  The grants are written, each through a connection of its own, after the
  commit; the thread that deploys is started last.
\<close>

definition insert_and_deploy ::
    "'v world \<Rightarrow> app_manifest \<Rightarrow> string \<Rightarrow> permission_grant list \<Rightarrow> string \<Rightarrow> string option \<Rightarrow> (string \<times> int) list
     \<Rightarrow> wstate \<Rightarrow> (string result \<times> wstate) option" where
  "insert_and_deploy W m repo_path grants app_name repo_url port_overrides s =
     (case rbind (check_before_deploy (w_min_free_mb W) (w_disk_free W))
             (\<lambda>_. allocate_port (w_ports W) (ws_committed s) (w_port_start W) (w_port_end W)) of
        Inl e \<Rightarrow> Some (Inl e, s)
      | Inr local_port \<Rightarrow>
          map_option (\<lambda>app_id.
            act_then (install_rows W m app_name repo_path repo_url port_overrides local_port app_id)
             (act_then (act_each (grant_after_install app_id) grants)
              (act_then (act_emit (SpawnDeploy app_id)) (act_return app_id))) s)
           (mint_unique_app_id (w_id_bytes W) (ws_db s) 0))"

section \<open>Building and starting\<close>

definition load_port_mappings_from_db :: "string \<Rightarrow> database \<Rightarrow> port_mapping list" where
  "load_port_mappings_from_db app_id db =
     map (\<lambda>r. \<lparr>pm_label = p_label r, pm_container_port = p_container_port r, pm_host_port = p_host_port r\<rparr>)
       (filter (\<lambda>r. p_app_id r = app_id) (t_port_mappings db))"

definition starting_row :: "app_row \<Rightarrow> app_row" where
  "starting_row r = r\<lparr>a_status := Starting,
     a_error_message := (if a_error_message r = Some PRIMARY_DOMAIN_RESTART_MARKER then a_error_message r else None)\<rparr>"

definition mark_app_starting :: "string \<Rightarrow> unit act" where
  "mark_app_starting app_id = act_then (act_exec (update_app app_id starting_row)) act_commit"

definition set_running :: "app_row \<Rightarrow> app_row" where
  "set_running r = r\<lparr>a_status := Running, a_error_message := None\<rparr>"

definition set_error :: "string \<Rightarrow> app_row \<Rightarrow> app_row" where
  "set_error msg r = r\<lparr>a_status := Error, a_error_message := Some msg\<rparr>"

text \<open>
  The \<open>except\<close> block of \<open>run_app_image\<close>: \<open>started\<close> is \<open>launch_started\<close>, \<open>container\<close> is \<open>container_id\<close>, \<open>r\<close> the
  row read at the beginning.  It always raises the exception again.
\<close>

definition launch_failed ::
    "'v world \<Rightarrow> string \<Rightarrow> app_row \<Rightarrow> bool \<Rightarrow> string option \<Rightarrow> exn \<Rightarrow> 'a act" where
  "launch_failed W app_id r started container e =
     act_then act_rollback
     (act_bind (case container of
                  None \<Rightarrow> act_return False
                | Some c \<Rightarrow> act_catch (act_then (stop_container (w_processes W) c) (act_return False)) (\<lambda>_. act_return True))
       (\<lambda>cleanup_failed.
         let persisted = (if \<not> started then a_container_id r else if cleanup_failed then container else None)
         in act_then (act_exec (update_app app_id (\<lambda>q. (set_error (exn_text e) q)\<lparr>a_container_id := persisted\<rparr>)))
            (act_then act_commit (act_raise e))))"

definition run_config_of :: "'v world \<Rightarrow> run_config" where
  "run_config_of W = \<lparr>rc_cwd = w_cwd W, rc_data_dir = pn_data_dir (w_provision W),
     rc_temp_data_dir = pn_temp_data_dir (w_provision W), rc_archive_dir = pn_archive_dir (w_provision W),
     rc_archive_is_dir = pn_archive_available (w_provision W)\<rparr>"

definition prepare_launch :: "'v world \<Rightarrow> bool \<Rightarrow> string \<Rightarrow> string \<Rightarrow> app_manifest \<Rightarrow> env option \<Rightarrow> (env \<times> port_mapping list) act" where
  "prepare_launch W fk app_id app_name m env_vars =
     act_bind (case env_vars of Some env \<Rightarrow> act_return env | None \<Rightarrow> provision_env W app_id app_name m) (\<lambda>env.
     act_then (store_app_token W app_id env)
     (act_then (act_try (register_services_provided_by_app fk app_id m))
     (act_bind (act_query (load_port_mappings_from_db app_id)) (\<lambda>pms.
      act_then (mark_app_starting app_id) (act_return (env, pms))))))"

definition finish_launch :: "'v world \<Rightarrow> string \<Rightarrow> string \<Rightarrow> unit act" where
  "finish_launch W app_id container_id =
     act_then (act_exec (update_app app_id (\<lambda>q. q\<lparr>a_container_id := Some container_id\<rparr>)))
     (act_then act_commit
     (act_bind (act_lift (w_ready W)) (\<lambda>ready.
      act_then (if ready then act_exec (update_app app_id set_running)
                else act_exec (update_app app_id (set_error ''App started but not responding to HTTP'')))
        act_commit)))"

text \<open>
  The one \<open>try\<close> of the code, split where the variables its handler reads change.  The handler never
  returns, so the parts run in sequence exactly as the statements of the block.
\<close>

definition run_app_image ::
    "'v world \<Rightarrow> bool \<Rightarrow> string \<Rightarrow> string \<Rightarrow> app_manifest \<Rightarrow> env option \<Rightarrow> unit act" where
  "run_app_image W fk app_id tag m env_vars =
     act_bind (act_query (select_app app_id)) (\<lambda>row.
       case row of
         None \<Rightarrow> act_raise (Exn RuntimeError (''No app found with id '' @ app_id))
       | Some r \<Rightarrow>
           act_bind (act_catch (prepare_launch W fk app_id (a_name r) m env_vars) (launch_failed W app_id r False None)) (\<lambda>(env, pms).
           act_bind (act_catch (run_container (w_libs W) (w_float_str W) (w_processes W) (run_config_of W) (a_name r) tag m
                        (a_local_port r) env pms)
                      (launch_failed W app_id r True None)) (\<lambda>container_id.
             act_catch (finish_launch W app_id container_id) (launch_failed W app_id r True (Some container_id)))))"

text \<open>Attempts are counted from 1; a wait between them is not modelled.\<close>

fun build_attempts :: "'v world \<Rightarrow> string \<Rightarrow> string \<Rightarrow> app_manifest \<Rightarrow> nat \<Rightarrow> string act" where
  "build_attempts W app_name repo_path m 0 = act_return []"
| "build_attempts W app_name repo_path m (Suc left) =
     act_catch
       (build_image (w_libs W) (w_processes W) app_name repo_path (m_container_image m)
          (pn_temp_data_dir (w_provision W)) (effective_build_memory_mb m))
       (\<lambda>e. if is_runtime_error e \<and> \<not> contains BUILD_CACHE_CORRUPT_MARKER (exn_text e) \<and> left > 0
             then build_attempts W app_name repo_path m left else act_raise e)"

definition build_then_run_app ::
    "'v world \<Rightarrow> bool \<Rightarrow> string \<Rightarrow> string \<Rightarrow> string \<Rightarrow> app_manifest \<Rightarrow> nat \<Rightarrow> env option \<Rightarrow> unit act" where
  "build_then_run_app W fk app_id app_name repo_path m max_build_attempts env_vars =
     act_bind (build_attempts W app_name repo_path m max_build_attempts) (\<lambda>tag.
       run_app_image W fk app_id tag m env_vars)"

text \<open>A worker's outer handler: the row says what went wrong.\<close>

definition record_failure :: "string \<Rightarrow> exn \<Rightarrow> unit act" where
  "record_failure app_id e = act_then (act_exec (update_app app_id (set_error (exn_text e)))) act_commit"

definition deploy_app_background :: "'v world \<Rightarrow> app_manifest \<Rightarrow> string \<Rightarrow> string \<Rightarrow> string \<Rightarrow> env option \<Rightarrow> unit act" where
  "deploy_app_background W m repo_path app_id app_name env_vars =
     act_catch
       (act_then (act_lift (check_before_deploy (w_min_free_mb W) (w_disk_free W)))
         (build_then_run_app W False app_id app_name repo_path m 3 env_vars))
       (record_failure app_id)"

text \<open>\<open>row["name"]\<close> on a row that is gone is a \<open>TypeError\<close>, after the storage check.\<close>

definition start_app_process :: "'v world \<Rightarrow> bool \<Rightarrow> string \<Rightarrow> unit act" where
  "start_app_process W fk app_id =
     act_bind (act_query (select_app app_id)) (\<lambda>row.
     act_then (act_lift (check_before_deploy (w_min_free_mb W) (w_disk_free W)))
       (case row of
          None \<Rightarrow> act_raise (Exn TypeError ''object is not subscriptable'')
        | Some r \<Rightarrow>
            act_bind (act_lift (parse_manifest (w_libs W) (w_fs W) (a_repo_path r))) (\<lambda>m.
            act_then (mark_app_starting app_id)
              (build_then_run_app W fk app_id (a_name r) (a_repo_path r) m 1 None))))"

definition restart_app_process :: "'v world \<Rightarrow> bool \<Rightarrow> string \<Rightarrow> unit act" where
  "restart_app_process W fk app_id =
     act_bind (act_query (select_app app_id)) (\<lambda>row.
       case row of
         None \<Rightarrow> act_raise (Exn RuntimeError (''No app found with id '' @ app_id))
       | Some r \<Rightarrow>
           act_then (act_lift (check_before_deploy (w_min_free_mb W) (w_disk_free W)))
           (act_bind (act_lift (case a_manifest_raw r of
                        None \<Rightarrow> parse_manifest (w_libs W) (w_fs W) (a_repo_path r)
                      | Some raw \<Rightarrow> if raw = [] then parse_manifest (w_libs W) (w_fs W) (a_repo_path r)
                                    else parse_manifest_from_string (w_libs W) raw)) (\<lambda>m.
              run_app_image W fk app_id (image_tag (a_name r)) m None)))"

section \<open>Reloading and removing\<close>

definition delete_port :: "string \<Rightarrow> string \<Rightarrow> database \<Rightarrow> database" where
  "delete_port app_id label db =
     db\<lparr>t_port_mappings := filter (\<lambda>r. \<not> (p_app_id r = app_id \<and> p_label r = label)) (t_port_mappings db)\<rparr>"

definition update_port :: "string \<Rightarrow> port_mapping \<Rightarrow> database \<Rightarrow> database result" where
  "update_port app_id pm db =
     (if \<exists>r \<in> set (t_port_mappings db). \<not> (p_app_id r = app_id \<and> p_label r = pm_label pm) \<and> p_host_port r = pm_host_port pm
         \<and> (\<exists>q \<in> set (t_port_mappings db). p_app_id q = app_id \<and> p_label q = pm_label pm)
      then Inl (integrity ''app_port_mappings.host_port'')
      else Inr (db\<lparr>t_port_mappings := map (\<lambda>r. if p_app_id r = app_id \<and> p_label r = pm_label pm
             then r\<lparr>p_container_port := pm_container_port pm, p_host_port := pm_host_port pm\<rparr> else r)
           (t_port_mappings db)\<rparr>))"

definition app_ports :: "string \<Rightarrow> database \<Rightarrow> port_row list" where
  "app_ports app_id db = filter (\<lambda>r. p_app_id r = app_id) (t_port_mappings db)"

text \<open>\<open>existing\<close> maps each label to its row; the labels that went are deleted in any order.\<close>

definition keep_host_ports :: "port_row list \<Rightarrow> port_mapping list \<Rightarrow> port_mapping list" where
  "keep_host_ports existing new_mappings =
     map (\<lambda>pm. case find (\<lambda>r. p_label r = pm_label pm) (rev existing) of
                Some r \<Rightarrow> pm\<lparr>pm_host_port := p_host_port r\<rparr> | None \<Rightarrow> pm) new_mappings"

definition sync_port_mappings :: "'v world \<Rightarrow> string \<Rightarrow> port_mapping list \<Rightarrow> unit act" where
  "sync_port_mappings W app_id new_mappings =
     act_bind (act_query (app_ports app_id)) (\<lambda>existing.
     let new_labels = set (map pm_label new_mappings);
         old_labels = set (map p_label existing);
         removed = filter (\<lambda>l. l \<notin> new_labels) (remdups (map p_label existing))
     in act_then (act_each (\<lambda>l. act_exec (delete_port app_id l)) removed)
        (act_bind (act_query (\<lambda>db. resolve_port_mappings (w_ports W) (w_rnd W) (keep_host_ports existing new_mappings) db
                     (w_port_start W) (w_port_end W) (Some app_id))) (\<lambda>r.
         act_bind (act_lift r) (\<lambda>resolved.
           act_each (\<lambda>pm. if pm_label pm \<in> old_labels then act_try (update_port app_id pm)
                           else act_try (insert_port (port_row_of app_id pm))) resolved))))"

text \<open>The directory under \<open>apps_dir\<close> whose manifest bears the app's name; a candidate with an invalid
  manifest is skipped.\<close>

fun source_by_manifest :: "'v libs \<Rightarrow> filesystem \<Rightarrow> string \<Rightarrow> string list \<Rightarrow> string option result" where
  "source_by_manifest L fs app_name [] = Inr None"
| "source_by_manifest L fs app_name (candidate # cs) =
     (if find_manifest_path fs candidate \<noteq> None
      then (case parse_manifest L fs candidate of
              Inr m \<Rightarrow> if m_name m = VStr app_name then Inr (Some candidate) else source_by_manifest L fs app_name cs
            | Inl e \<Rightarrow> if is_value_error e then source_by_manifest L fs app_name cs else Inl e)
      else source_by_manifest L fs app_name cs)"

definition recopy_source :: "'v world \<Rightarrow> string \<Rightarrow> string \<Rightarrow> unit act" where
  "recopy_source W app_name repo_path =
     (let direct = path_join (w_apps_dir W) app_name
      in act_bind (if is_dir (w_fs W) direct then act_return (Some direct)
                   else act_lift (source_by_manifest (w_libs W) (w_fs W) app_name (map (path_join (w_apps_dir W)) (w_listdir W))))
         (\<lambda>source.
           case source of
             None \<Rightarrow> act_return ()
           | Some source_dir \<Rightarrow>
               if is_dir (w_fs W) source_dir
               then act_then (if path_exists (w_fs W) repo_path
                              then act_then (act_lift (w_rmtree W)) (act_emit (DirRemoved repo_path)) else act_return ())
                    (act_then (act_lift (w_copytree W)) (act_emit (TreeCopied source_dir repo_path)))
               else act_return ()))"

definition resync_manifest :: "'v world \<Rightarrow> string \<Rightarrow> string \<Rightarrow> unit act" where
  "resync_manifest W app_id repo_path =
     act_catch
       (act_bind (act_lift (parse_manifest (w_libs W) (w_fs W) repo_path)) (\<lambda>m.
        act_bind (act_lift (manifest_column_values W m)) (\<lambda>columns.
        act_then (act_exec (update_app app_id columns))
        (act_then (sync_port_mappings W app_id (m_port_mappings m))
        (act_then (act_try (register_services_provided_by_app False app_id m))
          act_commit)))))
       (\<lambda>e. if is_value_error e then act_return () else act_raise e)"

text \<open>The file system is read as it is after the copy.\<close>

definition reload_app_background :: "'v world \<Rightarrow> string \<Rightarrow> string \<Rightarrow> unit act" where
  "reload_app_background W app_id repo_path =
     act_catch
       (act_bind (act_query (select_app app_id)) (\<lambda>row.
          case row of
            None \<Rightarrow> act_return ()
          | Some r \<Rightarrow>
              act_then (if repo_path \<noteq> [] \<and> is_dir (w_fs W) (path_join repo_path ''.git'') then act_return ()
                        else recopy_source W (a_name r) repo_path)
              (act_then (if repo_path \<noteq> [] \<and> is_dir (w_fs W) repo_path then resync_manifest W app_id repo_path
                         else act_return ())
                (start_app_process W False app_id))))
       (record_failure app_id)"

definition swallow :: "unit act \<Rightarrow> unit act" where
  "swallow m = act_catch m (\<lambda>_. act_return ())"

text \<open>\<open>DELETE\<close> cascades: this worker's connection enforces foreign keys.\<close>

definition remove_app_background :: "'v world \<Rightarrow> string \<Rightarrow> bool \<Rightarrow> unit act" where
  "remove_app_background W app_id keep_data =
     act_catch
       (act_bind (act_query (select_app app_id)) (\<lambda>row.
          case row of
            None \<Rightarrow> act_return ()
          | Some r \<Rightarrow>
              act_then (swallow (stop_app_process (w_processes W) r))
              (act_then (swallow (remove_image (w_processes W) (a_name r)))
              (act_then (swallow (if keep_data then deprovision_temp_data (a_name r) (w_provision W)
                                  else deprovision_data (a_name r) (w_provision W)))
              (act_then (act_exec (delete_app_cascade app_id)) act_commit)))))
       (\<lambda>_. act_then (act_exec (update_app app_id
                (set_error ''Removal failed; retry from the dashboard. See server logs for details.''))) act_commit)"

section \<open>Quiescing the archive\<close>

text \<open>\<open>recorded.append\<close> is an effect, because the caller's list keeps it when this raises.\<close>

fun stop_archive_rows :: "'v world \<Rightarrow> app_row list \<Rightarrow> string list \<Rightarrow> string list \<Rightarrow> (string list \<times> string list) act" where
  "stop_archive_rows W [] recorded still_running = act_return (recorded, still_running)"
| "stop_archive_rows W (r # rs) recorded still_running =
     (if a_status r \<noteq> Running then stop_archive_rows W rs recorded still_running
      else act_bind (act_lift (manifest_uses_archive (w_libs W) (or_empty (a_manifest_raw r)))) (\<lambda>uses.
        if \<not> uses then stop_archive_rows W rs recorded still_running
        else act_then (swallow (stop_app_process (w_processes W) r))
         (act_then (act_emit (Appended (a_app_id r)))
         (act_bind (if a_container_id r \<noteq> None \<and> a_container_id r \<noteq> Some []
                    then is_container_running (w_processes W) (the (a_container_id r)) else act_return False) (\<lambda>running.
            stop_archive_rows W rs (recorded @ [a_app_id r])
              (if running then still_running @ [a_name r] else still_running))))))"

definition stop_running_archive_apps :: "'v world \<Rightarrow> string list act" where
  "stop_running_archive_apps W =
     act_bind (act_query t_apps) (\<lambda>rows.
     act_bind (stop_archive_rows W rows [] []) (\<lambda>(recorded, still_running).
       if still_running \<noteq> []
       then act_raise (Exn RuntimeError (''could not stop archive-using app(s) before migration: ''
              @ join '', '' still_running
              @ ''; aborting so the sync can't race a live writer (local backend left intact)''))
       else act_return recorded))"

definition restart_apps_by_id :: "'v world \<Rightarrow> bool \<Rightarrow> string list \<Rightarrow> unit act" where
  "restart_apps_by_id W fk app_ids = act_each (\<lambda>app_id. swallow (restart_app_process W fk app_id)) app_ids"

definition app_log_path :: "string \<Rightarrow> provision \<Rightarrow> string" where
  "app_log_path app_name pn =
     path_join (path_join (path_join (pn_temp_data_dir pn) ''app_temp_data'') app_name) ''docker.log''"

definition app_container_log_path :: "string \<Rightarrow> provision \<Rightarrow> string" where
  "app_container_log_path app_name pn =
     path_join (path_join (path_join (pn_temp_data_dir pn) ''app_temp_data'') app_name) ''container.log''"

section \<open>What every part of a worker keeps\<close>

text \<open>Commands, directories and log files leave the database alone.\<close>

lemma keeps_env [keeps_intros]: "keeps P (make_data_dirs_and_env_vars L pn i n m z u)"
  unfolding make_data_dirs_and_env_vars_def permanent_data_env_def archive_env_def Let_def
  by (intro keeps_intros)

lemma keeps_provision [keeps_intros]: "keeps P (provision_env W i n m)"
  unfolding provision_env_def by (intro keeps_intros)

lemma keeps_append_log [keeps_intros]: "keeps P (append_log n t txt)"
  unfolding append_log_def by (intro keeps_intros)

lemma keeps_run_container [keeps_intros]: "keeps P (run_container L fs host rc n tag m lp env pms)"
  unfolding run_container_def by (intro keeps_intros)

lemma keeps_stop_container [keeps_intros]: "keeps P (stop_container host c)"
  unfolding stop_container_def podman_kill_def by (intro keeps_intros)

lemma keeps_stop_app [keeps_intros]: "keeps P (stop_app_process host r)"
  unfolding stop_app_process_def by (intro keeps_intros)

lemma keeps_build_image [keeps_intros]: "keeps P (build_image L host n rp df t mb)"
  unfolding build_image_def by (intro keeps_intros)

lemma keeps_build [keeps_intros]: "keeps P (build_attempts W n rp m k)"
  by (induction k) (auto intro!: keeps_intros)

lemma keeps_recopy [keeps_intros]: "keeps P (recopy_source W n rp)"
  unfolding recopy_source_def by (intro keeps_intros)

text \<open>
  The invariants of interest look at the rows of \<open>apps\<close> only through their keys, and survive any change of
  other columns or other tables.
\<close>

locale row_invariant =
  fixes P :: "database \<Rightarrow> bool"
  assumes P_update: "(\<And>r. a_app_id (f r) = a_app_id r) \<Longrightarrow> (\<And>r. a_name (f r) = a_name r) \<Longrightarrow>
      (\<And>r. a_local_port (f r) = a_local_port r) \<Longrightarrow> P db \<Longrightarrow> P (update_app i f db)"
    and P_tokens: "P db \<Longrightarrow> P (db\<lparr>t_app_tokens := ts\<rparr>)"
    and P_providers: "P db \<Longrightarrow> P (db\<lparr>t_providers := ps\<rparr>)"
    and P_delete_port: "P db \<Longrightarrow> P (delete_port i l db)"
    and P_update_port: "P db \<Longrightarrow> update_port i pm db = Inr db' \<Longrightarrow> P db'"
    and P_insert_port: "P db \<Longrightarrow> insert_port pr db = Inr db' \<Longrightarrow> P db'"
begin

lemma keeps_mark_starting [keeps_intros]: "keeps P (mark_app_starting i)"
  unfolding mark_app_starting_def
  by (intro keeps_intros keeps_exec) (auto simp: starting_row_def intro: P_update)

lemma keeps_store_token [keeps_intros]: "keeps P (store_app_token W i env)"
  unfolding store_app_token_def replace_app_token_def
  by (intro keeps_intros keeps_exec P_tokens)

lemma P_register: "P db \<Longrightarrow> register_services_provided_by_app fk i m db = Inr db' \<Longrightarrow> P db'"
  unfolding register_services_provided_by_app_def
  by (drule insert_providers_frame) (metis P_providers)

lemma keeps_register [keeps_intros]: "keeps P (act_try (register_services_provided_by_app fk i m))"
  by (rule keeps_try) (rule P_register)

lemma keeps_prepare [keeps_intros]: "keeps P (prepare_launch W fk i n m env)"
  unfolding prepare_launch_def by (intro keeps_intros)

lemma keeps_launch_failed [keeps_intros]: "keeps P (launch_failed W i r b c e)"
  unfolding launch_failed_def Let_def
  by (intro keeps_intros keeps_exec P_update) (simp_all add: set_error_def)

lemma keeps_finish [keeps_intros]: "keeps P (finish_launch W i c)"
  unfolding finish_launch_def
  by (intro keeps_intros keeps_exec P_update) (simp_all add: set_error_def set_running_def)

lemma keeps_run_image [keeps_intros]: "keeps P (run_app_image W fk i tag m env)"
  unfolding run_app_image_def by (intro keeps_intros)

lemma keeps_build_run [keeps_intros]: "keeps P (build_then_run_app W fk i n rp m k env)"
  unfolding build_then_run_app_def by (intro keeps_intros)

lemma keeps_record [keeps_intros]: "keeps P (record_failure i e)"
  unfolding record_failure_def
  by (intro keeps_intros keeps_exec P_update) (simp_all add: set_error_def)

lemma keeps_deploy [keeps_intros]: "keeps P (deploy_app_background W m rp i n env)"
  unfolding deploy_app_background_def by (intro keeps_intros)

lemma keeps_start [keeps_intros]: "keeps P (start_app_process W fk i)"
  unfolding start_app_process_def by (intro keeps_intros)

lemma keeps_restart [keeps_intros]: "keeps P (restart_app_process W fk i)"
  unfolding restart_app_process_def by (intro keeps_intros)

lemma keeps_sync [keeps_intros]: "keeps P (sync_port_mappings W i pms)"
  unfolding sync_port_mappings_def Let_def
  by (intro keeps_intros keeps_exec keeps_try) (auto intro: P_delete_port P_update_port P_insert_port)

lemma columns_keep_keys:
  "manifest_column_values W m = Inr c \<Longrightarrow>
   a_app_id (c r) = a_app_id r \<and> a_name (c r) = a_name r \<and> a_local_port (c r) = a_local_port r"
  by (auto simp: manifest_column_values_def split: if_splits)

lemma keeps_columns:
  "keeps P (act_bind (act_lift (manifest_column_values W m)) (\<lambda>c. act_then (act_exec (update_app i c)) n))"
  if "keeps P n"
proof (cases "manifest_column_values W m")
  case (Inl e)
  then show ?thesis by (intro keepsI) (simp add: act_defs)
next
  case (Inr c)
  have "keeps P (act_then (act_exec (update_app i c)) n)"
    using columns_keep_keys [OF Inr] by (intro keeps_intros keeps_exec P_update that) auto
  moreover have "act_bind (act_lift (Inr c)) (\<lambda>c. act_then (act_exec (update_app i c)) n)
      = act_then (act_exec (update_app i c)) n"
    by (rule ext) (simp add: act_bind_def [of "act_lift (Inr c)"] act_lift_def)
  ultimately show ?thesis
    by (simp only: Inr)
qed

lemma keeps_resync [keeps_intros]: "keeps P (resync_manifest W i rp)"
  unfolding resync_manifest_def
  apply (rule keeps_catch)
   apply (rule keeps_bind)
    apply (rule keeps_lift)
   apply (rule keeps_columns)
   apply (rule keeps_then keeps_sync)+
    apply (rule keeps_register)
   apply (rule keeps_commit)
  apply (rule keeps_if)
   apply (rule keeps_return)
  apply (rule keeps_raise)
  done

lemma keeps_reload [keeps_intros]: "keeps P (reload_app_background W i rp)"
  unfolding reload_app_background_def by (intro keeps_intros)

end

lemma update_port_keys:
  assumes "db_keys_ok db" and "update_port i pm db = Inr db'"
  shows "db_keys_ok db'"
proof -
  let ?hit = "\<lambda>r. p_app_id r = i \<and> p_label r = pm_label pm"
  let ?g = "\<lambda>r. if ?hit r then r\<lparr>p_container_port := pm_container_port pm, p_host_port := pm_host_port pm\<rparr> else r"
  have db': "db' = db\<lparr>t_port_mappings := map ?g (t_port_mappings db)\<rparr>"
    and other: "\<And>r. r \<in> set (t_port_mappings db) \<Longrightarrow> \<not> ?hit r \<Longrightarrow> p_host_port r = pm_host_port pm \<Longrightarrow>
      (\<forall>q \<in> set (t_port_mappings db). \<not> ?hit q)"
    using assms(2) by (auto simp: update_port_def split: if_splits)
  have k: "map (\<lambda>m. (p_app_id m, p_label m)) (map ?g (t_port_mappings db)) = map (\<lambda>m. (p_app_id m, p_label m)) (t_port_mappings db)"
    by simp
  have u: "\<And>x y. x \<in> set (t_port_mappings db) \<Longrightarrow> y \<in> set (t_port_mappings db) \<Longrightarrow> ?hit x \<Longrightarrow> ?hit y \<Longrightarrow> x = y"
    using assms(1) by (auto simp: db_keys_ok_def distinct_map inj_on_def)
  have d: "distinct (map p_host_port (t_port_mappings db))" "distinct (t_port_mappings db)"
    using assms(1) by (auto simp: db_keys_ok_def distinct_map)
  have mixed: "\<not> (?hit x \<and> \<not> ?hit y \<and> p_host_port (?g x) = p_host_port (?g y))"
    if "x \<in> set (t_port_mappings db)" and "y \<in> set (t_port_mappings db)" for x y
  proof
    assume h: "?hit x \<and> \<not> ?hit y \<and> p_host_port (?g x) = p_host_port (?g y)"
    then have "p_host_port y = pm_host_port pm"
      by auto
    with h other [OF that(2)] that(1) show False
      by blast
  qed
  have "x = y" if x: "x \<in> set (t_port_mappings db)" and y: "y \<in> set (t_port_mappings db)"
    and e: "p_host_port (?g x) = p_host_port (?g y)" for x y
  proof -
    have "?hit x \<longleftrightarrow> ?hit y"
      using mixed [OF x y] mixed [OF y x] e by metis
    then consider "?hit x" "?hit y" | "\<not> ?hit x" "\<not> ?hit y"
      by blast
    then show ?thesis
    proof cases
      case 1
      then show ?thesis by (rule u [OF x y])
    next
      case 2
      with e have "p_host_port x = p_host_port y"
        by (simp only: if_False)
      then show ?thesis by (rule distinct_map_inj [OF d(1) x y])
    qed
  qed
  then have "distinct (map (\<lambda>r. p_host_port (?g r)) (t_port_mappings db))"
    using d(2) by (auto simp: distinct_map inj_on_def)
  then have "distinct (map p_host_port (map ?g (t_port_mappings db)))"
    by (simp add: comp_def)
  then show ?thesis
    using assms(1) unfolding db' db_keys_ok_def by (simp add: k del: map_map)
qed

lemma delete_port_keys: "db_keys_ok db \<Longrightarrow> db_keys_ok (delete_port i l db)"
  by (simp add: db_keys_ok_def delete_port_def distinct_map_filter)

interpretation keys: row_invariant db_keys_ok
proof
  fix db db' i l pm pr ts ps and f :: "app_row \<Rightarrow> app_row"
  show "(\<And>r. a_app_id (f r) = a_app_id r) \<Longrightarrow> (\<And>r. a_name (f r) = a_name r) \<Longrightarrow>
      (\<And>r. a_local_port (f r) = a_local_port r) \<Longrightarrow> db_keys_ok db \<Longrightarrow> db_keys_ok (update_app i f db)"
    by (simp add: update_app_def update_apps_keys)
  show "db_keys_ok db \<Longrightarrow> db_keys_ok (db\<lparr>t_app_tokens := ts\<rparr>)" "db_keys_ok db \<Longrightarrow> db_keys_ok (db\<lparr>t_providers := ps\<rparr>)"
    by (simp_all add: db_keys_ok_def)
  show "db_keys_ok db \<Longrightarrow> db_keys_ok (delete_port i l db)"
    by (rule delete_port_keys)
  show "db_keys_ok db \<Longrightarrow> update_port i pm db = Inr db' \<Longrightarrow> db_keys_ok db'"
    by (rule update_port_keys)
  show "db_keys_ok db \<Longrightarrow> insert_port pr db = Inr db' \<Longrightarrow> db_keys_ok db'"
    by (rule insert_port_keys)
qed

definition has_app :: "string \<Rightarrow> database \<Rightarrow> bool" where
  "has_app app db = (select_app app db \<noteq> None)"

interpretation row: row_invariant "has_app app" for app
proof
  fix db db' i l pm pr ts ps and f :: "app_row \<Rightarrow> app_row"
  show "(\<And>r. a_app_id (f r) = a_app_id r) \<Longrightarrow> (\<And>r. a_name (f r) = a_name r) \<Longrightarrow>
      (\<And>r. a_local_port (f r) = a_local_port r) \<Longrightarrow> has_app app db \<Longrightarrow> has_app app (update_app i f db)"
    by (auto simp: has_app_def select_update_app)
  show "has_app app db \<Longrightarrow> has_app app (db\<lparr>t_app_tokens := ts\<rparr>)" "has_app app db \<Longrightarrow> has_app app (db\<lparr>t_providers := ps\<rparr>)"
    "has_app app db \<Longrightarrow> has_app app (delete_port i l db)"
    by (simp_all add: has_app_def select_app_def delete_port_def)
  show "has_app app db \<Longrightarrow> update_port i pm db = Inr db' \<Longrightarrow> has_app app db'"
    by (auto simp: update_port_def has_app_def select_app_def split: if_splits)
  show "has_app app db \<Longrightarrow> insert_port pr db = Inr db' \<Longrightarrow> has_app app db'"
    by (auto simp: insert_port_def has_app_def select_app_def split: if_splits)
qed

section \<open>Containers of a launch\<close>

text \<open>Containers \<open>podman run\<close> reported, and containers \<open>podman rm -f\<close> was run on to its end.\<close>

fun started_by :: "effect \<Rightarrow> string list" where
  "started_by (Ran argv (Exited r out err)) = (if take 2 argv = [''podman'', ''run''] \<and> r = 0 then [strip out] else [])"
| "started_by _ = []"

definition containers_started :: "effect list \<Rightarrow> string list" where
  "containers_started es = concat (map started_by es)"

fun removed_by :: "effect \<Rightarrow> string list" where
  "removed_by (Ran argv (Exited r out err)) = (if take 3 argv = [''podman'', ''rm'', ''-f''] then drop 3 argv else [])"
| "removed_by _ = []"

definition containers_removed :: "effect list \<Rightarrow> string list" where
  "containers_removed es = concat (map removed_by es)"

lemma containers_append [simp]:
  "containers_started (es @ fs) = containers_started es @ containers_started fs"
  "containers_removed (es @ fs) = containers_removed es @ containers_removed fs"
  by (simp_all add: containers_started_def containers_removed_def)

abbreviation quiet :: "'a act \<Rightarrow> bool" where
  "quiet m \<equiv> emits (\<lambda>e. started_by e = []) m"

lemma quiet_effects: "list_all (\<lambda>e. started_by e = []) es \<Longrightarrow> containers_started es = []"
  unfolding containers_started_def list_all_iff by (simp only: concat_eq_Nil_conv set_map ball_simps simp_thms)

lemma quiet_run [emits_intros]: "take 2 argv \<noteq> [''podman'', ''run''] \<Longrightarrow> quiet (act_run host argv)"
proof (rule emits_run)
  fix a
  assume "take 2 argv \<noteq> [''podman'', ''run'']"
  then show "started_by (Ran argv a) = []"
    by (cases a) simp_all
qed

lemma quiet_stop_container: "quiet (stop_container host c)"
  unfolding stop_container_def podman_kill_def by (intro emits_intros) simp_all

lemma quiet_append_log: "quiet (append_log n t txt)"
  unfolding append_log_def Let_def by (intro emits_intros) simp_all

lemma quiet_env: "quiet (provision_env W i n m)"
  unfolding provision_env_def make_data_dirs_and_env_vars_def permanent_data_env_def archive_env_def Let_def
  by (intro emits_intros) simp_all

lemma quiet_prepare: "quiet (prepare_launch W fk i n m env)"
  unfolding prepare_launch_def store_app_token_def mark_app_starting_def
  by (intro emits_intros quiet_env)

lemma quiet_finish: "quiet (finish_launch W i c)"
  unfolding finish_launch_def by (intro emits_intros)

text \<open>\<open>since es0 P s\<close>: the effects after \<open>es0\<close> satisfy \<open>P\<close>.\<close>

definition since :: "effect list \<Rightarrow> (effect list \<Rightarrow> bool) \<Rightarrow> wstate \<Rightarrow> bool" where
  "since es0 P s = (\<exists>es. ws_effects s = es0 @ es \<and> P es)"

definition only_started :: "string set \<Rightarrow> effect list \<Rightarrow> bool" where
  "only_started X es = (set (containers_started es) = X)"

lemma quiet_spec:
  assumes "quiet m"
  shows "act_spec (since es0 (only_started X)) m (\<lambda>_. since es0 (only_started X)) (\<lambda>_. since es0 (only_started X))"
  unfolding act_spec_def
proof (intro allI impI)
  fix s
  assume "since es0 (only_started X) s"
  then obtain es where es: "ws_effects s = es0 @ es" "set (containers_started es) = X"
    by (auto simp: since_def only_started_def)
  obtain r s' where m: "m s = (r, s')" by force
  from emitsD [OF assms m] obtain fs where "ws_effects s' = ws_effects s @ fs" "list_all (\<lambda>e. started_by e = []) fs"
    by blast
  then have "since es0 (only_started X) s'"
    using es by (auto simp: since_def only_started_def quiet_effects intro!: exI [of _ "es @ fs"])
  then show "case m s of (Inr x, s') \<Rightarrow> since es0 (only_started X) s' | (Inl e, s') \<Rightarrow> since es0 (only_started X) s'"
    by (simp add: m split: sum.split)
qed

text \<open>A run that answers 0 starts the container it prints; any other answer starts none that is known.\<close>

lemma run_spec:
  assumes "take 2 argv = [''podman'', ''run'']"
  shows "act_spec (since es0 (only_started {})) (act_run host argv)
    (\<lambda>(rc, out, err). since es0 (only_started (if rc = 0 then {strip out} else {}))) (\<lambda>_. since es0 (only_started {}))"
  unfolding act_spec_def
proof (intro allI impI)
  fix s
  assume "since es0 (only_started {}) s"
  then obtain es where "ws_effects s = es0 @ es" "containers_started es = []"
    by (auto simp: since_def only_started_def)
  then show "case act_run host argv s of
      (Inr x, s') \<Rightarrow> (\<lambda>(rc, out, err). since es0 (only_started (if rc = 0 then {strip out} else {}))) x s'
    | (Inl e, s') \<Rightarrow> since es0 (only_started {}) s'"
    using assms
    by (cases "host (ws_effects s) argv")
      (auto simp: act_run_def Let_def since_def only_started_def containers_started_def)
qed

lemma run_container_spec:
  "act_spec (since es0 (only_started {})) (run_container L fs host rc n tag m lp env pms)
    (\<lambda>c. since es0 (only_started {c})) (\<lambda>_. since es0 (only_started {}))"
proof -
  have after: "act_spec (since es0 (only_started (if rcode = 0 then {strip out} else {})))
      (if rcode \<noteq> 0
       then act_then (append_log n t e1) (act_raise e2)
       else act_then (append_log n t e3) (act_return (strip out)))
      (\<lambda>c. since es0 (only_started {c})) (\<lambda>_. since es0 (only_started {}))" for rcode :: int and out t e1 e2 e3
  proof (cases "rcode = 0")
    case True
    have "act_spec (since es0 (only_started {strip out})) (append_log n t e3)
        (\<lambda>_. since es0 (only_started {strip out})) (\<lambda>_. since es0 (only_started {}))"
      by (auto simp: append_log_def Let_def act_spec_def act_defs since_def only_started_def containers_started_def)
    then show ?thesis
      using True by (auto intro!: spec_then [where R = "since es0 (only_started {strip out})"] intro: spec_return)
  next
    case False
    then show ?thesis
      by (auto intro!: spec_then [where R = "since es0 (only_started {})"] quiet_spec [OF quiet_append_log] intro: spec_raise)
  qed
  show ?thesis
    unfolding run_container_def Let_def
    apply (rule spec_then [where R = "since es0 (only_started {})"])
     apply (rule spec_bind [where R = "\<lambda>_. since es0 (only_started {})"])
      apply (rule spec_then [where R = "since es0 (only_started {})"])
       apply (rule spec_bind [where R = "\<lambda>_. since es0 (only_started {})"])
        apply (rule spec_bind [where R = "\<lambda>(rc, out, err). since es0 (only_started (if rc = 0 then {strip out} else {}))"])
         apply (unfold split_paired_all prod.case)
         apply (rule after)
        apply (rule run_spec, simp)
       apply (rule quiet_spec, rule quiet_run, simp)
      apply (rule quiet_spec [OF quiet_append_log])
     apply (rule quiet_spec, rule emits_lift)
    apply (rule quiet_spec, rule emits_emit, simp)
    done
qed

section \<open>How a launch ends\<close>

definition row_present :: "string \<Rightarrow> wstate \<Rightarrow> bool" where
  "row_present app s = (has_app app (ws_db s) \<and> has_app app (ws_committed s))"

lemma row_present_keeps: "keeps (has_app app) m \<Longrightarrow> act_spec (row_present app) m (\<lambda>_. row_present app) (\<lambda>_. row_present app)"
  unfolding keeps_def row_present_def .

text \<open>A container that was started is the one the row names, or was removed.\<close>

definition accounted :: "app_row \<Rightarrow> effect list \<Rightarrow> bool" where
  "accounted q es = (set (containers_started es) \<subseteq> set_option (a_container_id q) \<union> set (containers_removed es))"

definition launch_returned :: "string \<Rightarrow> effect list \<Rightarrow> wstate \<Rightarrow> bool" where
  "launch_returned app es0 s = (\<exists>q c. select_app app (ws_committed s) = Some q \<and> select_app app (ws_db s) = Some q
     \<and> a_status q \<in> {Running, Error} \<and> a_container_id q = Some c \<and> since es0 (only_started {c}) s)"

definition launch_raised :: "string \<Rightarrow> effect list \<Rightarrow> exn \<Rightarrow> wstate \<Rightarrow> bool" where
  "launch_raised app es0 e s = (\<exists>q. select_app app (ws_committed s) = Some q \<and> select_app app (ws_db s) = Some q
     \<and> a_status q = Error \<and> a_error_message q = Some (exn_text e) \<and> since es0 (accounted q) s)"

lemma finish_launch_spec:
  "act_spec (\<lambda>s. row_present app s \<and> since es0 (only_started {c}) s) (finish_launch W app c)
     (\<lambda>_. launch_returned app es0) (\<lambda>_ s. row_present app s \<and> since es0 (only_started {c}) s)"
proof -
  have rows: "select_app app (update_app app g db) = map_option g (select_app app db)" if "\<And>r. a_app_id (g r) = a_app_id r" for g db
    using select_update_app [OF that, where i = app and j = app] by simp
  have raised: "act_spec (\<lambda>s. row_present app s \<and> since es0 (only_started {c}) s) (finish_launch W app c)
      (\<lambda>_ _. True) (\<lambda>_ s. row_present app s \<and> since es0 (only_started {c}) s)"
    by (rule act_spec_weaken [OF spec_conj [OF row_present_keeps [OF row.keeps_finish] quiet_spec [OF quiet_finish]]]) auto
  have returned: "launch_returned app es0 s'"
    if h: "row_present app s" "since es0 (only_started {c}) s" "finish_launch W app c s = (Inr (), s')" for s s'
  proof -
    obtain q where q: "select_app app (ws_db s) = Some q"
      using h(1) by (auto simp: row_present_def has_app_def)
    obtain ready where r: "w_ready W = Inr ready"
      using h(3) by (cases "w_ready W") (auto simp: finish_launch_def act_defs)
    have "\<exists>q'. select_app app (ws_committed s') = Some q' \<and> select_app app (ws_db s') = Some q'
        \<and> a_status q' \<in> {Running, Error} \<and> a_container_id q' = Some c"
      using h(3) q r
      by (cases ready) (auto simp: finish_launch_def act_defs ws_db_def ws_committed_def rows set_running_def set_error_def)
    moreover have "since es0 (only_started {c}) s'"
      using act_spec_Inr [OF quiet_spec [OF quiet_finish], OF h(2,3)] .
    ultimately show ?thesis
      unfolding launch_returned_def by blast
  qed
  show ?thesis
    using raised returned unfolding act_spec_def by (fastforce split: prod.splits sum.splits)
qed

lemma stop_container_spec:
  "act_spec (since es0 (only_started X)) (stop_container host c)
     (\<lambda>_. since es0 (\<lambda>es. only_started X es \<and> c \<in> set (containers_removed es))) (\<lambda>_. since es0 (only_started X))"
proof -
  have "act_spec (since es0 (only_started X)) (act_bind (act_run host [''podman'', ''rm'', ''-f'', c]) (\<lambda>_. act_return ()))
     (\<lambda>_. since es0 (\<lambda>es. only_started X es \<and> c \<in> set (containers_removed es))) (\<lambda>_. since es0 (only_started X))"
    unfolding act_spec_def
  proof (intro allI impI)
    fix s
    assume "since es0 (only_started X) s"
    then obtain es where "ws_effects s = es0 @ es" "only_started X es"
      by (auto simp: since_def)
    then show "case act_bind (act_run host [''podman'', ''rm'', ''-f'', c]) (\<lambda>_. act_return ()) s of
        (Inr x, s') \<Rightarrow> since es0 (\<lambda>es. only_started X es \<and> c \<in> set (containers_removed es)) s'
      | (Inl e, s') \<Rightarrow> since es0 (only_started X) s'"
      by (cases "host (ws_effects s) [''podman'', ''rm'', ''-f'', c]")
        (auto simp: act_bind_def act_run_def act_return_def Let_def since_def only_started_def containers_started_def
          containers_removed_def)
  qed
  then show ?thesis
    unfolding stop_container_def
    by (rule spec_then) (rule quiet_spec, unfold podman_kill_def, (intro emits_intros; simp))
qed

lemma clean_up_spec:
  "act_spec (\<lambda>s. row_present app s \<and> since es0 (only_started (set_option container)) s)
     (case container of
        None \<Rightarrow> act_return False
      | Some c \<Rightarrow> act_catch (act_then (stop_container host c) (act_return False)) (\<lambda>_. act_return True))
     (\<lambda>failed s. row_present app s \<and> since es0 (\<lambda>es. only_started (set_option container) es
        \<and> (failed \<or> set_option container \<subseteq> set (containers_removed es))) s)
     E"
proof (cases container)
  case None
  then show ?thesis
    by (auto simp: act_spec_def act_return_def since_def)
next
  case (Some c)
  let ?S = "since es0 (only_started {c})" and ?D = "since es0 (\<lambda>es. only_started {c} es \<and> c \<in> set (containers_removed es))"
  have stop: "act_spec (\<lambda>s. row_present app s \<and> ?S s) (stop_container host c)
      (\<lambda>_ s. row_present app s \<and> ?D s) (\<lambda>_ s. row_present app s \<and> ?S s)"
    by (rule spec_conj [OF row_present_keeps [OF keeps_stop_container] stop_container_spec])
  have "act_spec (\<lambda>s. row_present app s \<and> ?S s)
      (act_catch (act_then (stop_container host c) (act_return False)) (\<lambda>_. act_return True))
      (\<lambda>failed s. row_present app s \<and> (failed \<and> ?S s \<or> \<not> failed \<and> ?D s)) E"
  proof (rule spec_catch)
    show "act_spec (\<lambda>s. row_present app s \<and> ?S s) (act_then (stop_container host c) (act_return False))
        (\<lambda>failed s. row_present app s \<and> (failed \<and> ?S s \<or> \<not> failed \<and> ?D s)) (\<lambda>_ s. row_present app s \<and> ?S s)"
      by (rule spec_then [OF _ stop]) (auto simp: act_spec_def act_return_def)
  qed (auto simp: act_spec_def act_return_def)
  then show ?thesis
    unfolding Some option.case
    by (rule act_spec_weaken) (auto simp: since_def)
qed

lemma launch_failed_spec:
  assumes "started \<or> container = None"
  shows "act_spec (\<lambda>s. row_present app s \<and> since es0 (only_started (set_option container)) s)
    (launch_failed W app r started container e) (\<lambda>_ _. False) (launch_raised app es0)"
proof -
  have rows: "select_app app (update_app app g db) = map_option g (select_app app db)" if "\<And>r. a_app_id (g r) = a_app_id r" for g db
    using select_update_app [OF that, where i = app and j = app] by simp
  let ?persisted = "\<lambda>failed. if \<not> started then a_container_id r else if failed then container else None"
  have finish: "act_spec (\<lambda>s. row_present app s \<and> since es0 (\<lambda>es. only_started (set_option container) es
        \<and> (failed \<or> set_option container \<subseteq> set (containers_removed es))) s)
      (act_then (act_exec (update_app app (\<lambda>q. (set_error (exn_text e) q)\<lparr>a_container_id := ?persisted failed\<rparr>)))
            (act_then act_commit (act_raise e))) (\<lambda>_ _. False) (launch_raised app es0)" for failed
    unfolding act_spec_def
  proof (intro allI impI)
    fix s
    assume pre: "row_present app s \<and> since es0 (\<lambda>es. only_started (set_option container) es
        \<and> (failed \<or> set_option container \<subseteq> set (containers_removed es))) s"
    then obtain q where q: "select_app app (ws_db s) = Some q"
      by (auto simp: row_present_def has_app_def)
    let ?q = "(set_error (exn_text e) q)\<lparr>a_container_id := ?persisted failed\<rparr>"
    have "since es0 (accounted ?q) s"
      using pre assms by (auto simp: since_def accounted_def only_started_def)
    then show "case act_then (act_exec (update_app app (\<lambda>q. (set_error (exn_text e) q)\<lparr>a_container_id := ?persisted failed\<rparr>)))
            (act_then act_commit (act_raise e)) s of
        (Inr x, s') \<Rightarrow> False | (Inl e, s') \<Rightarrow> launch_raised app es0 e s'"
      using q by (simp add: act_defs launch_raised_def since_def ws_db_def ws_committed_def rows set_error_def)
  qed
  show ?thesis
    unfolding launch_failed_def Let_def
    by (rule spec_then [OF spec_bind [OF finish clean_up_spec]])
      (auto simp: act_spec_def act_rollback_def row_present_def since_def)
qed

text \<open>The whole launch: what it leaves when it returns, and when it raises.\<close>

lemma run_app_image_spec:
  "act_spec (\<lambda>s. row_present app s \<and> since es0 (only_started {}) s) (run_app_image W fk app tag m env)
     (\<lambda>_. launch_returned app es0) (launch_raised app es0)"
proof -
  let ?N = "\<lambda>s. row_present app s \<and> since es0 (only_started {}) s"
  have none: "set_option (None :: string option) = {}"
    by simp
  have failed: "act_spec ?N (launch_failed W app r b None e) Q (launch_raised app es0)" for r b e and Q :: "'z \<Rightarrow> wstate \<Rightarrow> bool"
    by (rule act_spec_weaken [OF launch_failed_spec [where container = None, unfolded none]]) auto
  have prepare: "act_spec ?N (act_catch (prepare_launch W fk app n m env) (launch_failed W app r False None))
      (\<lambda>_. ?N) (launch_raised app es0)" for n r
    by (rule spec_catch [OF failed spec_conj [OF row_present_keeps [OF row.keeps_prepare] quiet_spec [OF quiet_prepare]]])
  have run: "act_spec ?N (act_catch (run_container L fs host rc n tag m lp env pms) (launch_failed W app r True None))
      (\<lambda>c s. row_present app s \<and> since es0 (only_started {c}) s) (launch_raised app es0)" for L fs host rc n lp env pms r
    by (rule spec_catch [OF failed spec_conj [OF row_present_keeps [OF keeps_run_container] run_container_spec]])
  have finish: "act_spec (\<lambda>s. row_present app s \<and> since es0 (only_started {c}) s)
      (act_catch (finish_launch W app c) (launch_failed W app r True (Some c)))
      (\<lambda>_. launch_returned app es0) (launch_raised app es0)" for c r
    by (rule spec_catch [OF act_spec_weaken [OF launch_failed_spec [where container = "Some c"]] finish_launch_spec]) auto
  have some: "act_spec ?N
       (act_bind (act_catch (prepare_launch W fk app (a_name r) m env) (launch_failed W app r False None)) (\<lambda>(env, pms).
        act_bind (act_catch (run_container (w_libs W) (w_float_str W) (w_processes W) (run_config_of W) (a_name r) tag m
                        (a_local_port r) env pms)
                      (launch_failed W app r True None)) (\<lambda>container_id.
             act_catch (finish_launch W app container_id) (launch_failed W app r True (Some container_id)))))
       (\<lambda>_. launch_returned app es0) (launch_raised app es0)" for r
    by (rule spec_bind [OF _ prepare], unfold split_paired_all prod.case, rule spec_bind [OF finish run])
  show ?thesis
    unfolding run_app_image_def act_spec_def
  proof (intro allI impI)
    fix s
    assume n: "?N s"
    then obtain r where r: "select_app app (working (ws_conn s)) = Some r"
      by (auto simp: row_present_def has_app_def ws_db_def)
    show "case act_bind (act_query (select_app app)) (\<lambda>row. case row of
         None \<Rightarrow> act_raise (Exn RuntimeError (''No app found with id '' @ app))
       | Some r \<Rightarrow> act_bind (act_catch (prepare_launch W fk app (a_name r) m env) (launch_failed W app r False None)) (\<lambda>(env, pms).
           act_bind (act_catch (run_container (w_libs W) (w_float_str W) (w_processes W) (run_config_of W) (a_name r) tag m
                        (a_local_port r) env pms)
                      (launch_failed W app r True None)) (\<lambda>container_id.
             act_catch (finish_launch W app container_id) (launch_failed W app r True (Some container_id))))) s of
        (Inr x, s') \<Rightarrow> launch_returned app es0 s' | (Inl e, s') \<Rightarrow> launch_raised app es0 e s'"
      using some [of r] n unfolding act_spec_def act_bind_def [of "act_query (select_app app)"]
      by (simp add: act_query_def r)
  qed
qed

section \<open>How a worker ends\<close>

definition settled :: "string \<Rightarrow> effect list \<Rightarrow> wstate \<Rightarrow> bool" where
  "settled app es0 s = (\<exists>q. select_app app (ws_committed s) = Some q \<and> a_status q \<in> {Running, Error}
     \<and> since es0 (accounted q) s)"

definition idle :: "string \<Rightarrow> effect list \<Rightarrow> wstate \<Rightarrow> bool" where
  "idle app es0 s = (row_present app s \<and> since es0 (only_started {}) s)"

definition failing :: "string \<Rightarrow> effect list \<Rightarrow> wstate \<Rightarrow> bool" where
  "failing app es0 s = (\<exists>q. select_app app (ws_db s) = Some q \<and> since es0 (accounted q) s)"

lemma idle_failing: "idle app es0 s \<Longrightarrow> failing app es0 s"
  by (auto simp: idle_def failing_def row_present_def has_app_def since_def only_started_def accounted_def)

lemma raised_failing: "launch_raised app es0 e s \<Longrightarrow> failing app es0 s"
  by (auto simp: launch_raised_def failing_def)

lemma returned_settled: "launch_returned app es0 s \<Longrightarrow> settled app es0 s"
  by (auto simp: launch_returned_def settled_def since_def only_started_def accounted_def)

lemma idle_spec: "keeps (has_app app) m \<Longrightarrow> quiet m \<Longrightarrow> act_spec (idle app es0) m (\<lambda>_. idle app es0) (\<lambda>_. failing app es0)"
  by (rule act_spec_weaken [OF spec_conj [OF row_present_keeps quiet_spec]])
    (auto simp: idle_def intro: idle_failing)

lemma record_failure_spec: "act_spec (failing app es0) (record_failure app e) (\<lambda>_. settled app es0) (\<lambda>_ _. False)"
proof -
  have "select_app app (update_app app (set_error (exn_text e)) db) = map_option (set_error (exn_text e)) (select_app app db)" for db
    by (subst select_update_app) (simp_all add: set_error_def)
  then show ?thesis
    by (auto simp: act_spec_def record_failure_def act_defs failing_def settled_def ws_db_def ws_committed_def since_def
        accounted_def set_error_def)
qed

lemma quiet_build_image: "quiet (build_image L host n rp df t mb)"
  unfolding build_image_def build_cmd_def
  by (intro emits_intros quiet_append_log) simp_all

lemma quiet_build: "quiet (build_attempts W n rp m k)"
  by (induction k) (auto intro!: emits_intros quiet_build_image)

lemma build_then_run_spec:
  "act_spec (idle app es0) (build_then_run_app W fk app n rp m k env) (\<lambda>_. settled app es0) (\<lambda>_. failing app es0)"
  unfolding build_then_run_app_def
proof (rule spec_bind [where R = "\<lambda>_. idle app es0"])
  show "act_spec (idle app es0) (run_app_image W fk app tag m env) (\<lambda>_. settled app es0) (\<lambda>_. failing app es0)" for tag
    by (rule act_spec_weaken [OF run_app_image_spec])
      (auto simp: idle_def intro: returned_settled raised_failing)
  show "act_spec (idle app es0) (build_attempts W n rp m k) (\<lambda>_. idle app es0) (\<lambda>_. failing app es0)"
    by (rule idle_spec [OF keeps_build quiet_build])
qed

lemma deploy_spec: "act_spec (idle app es0) (deploy_app_background W m rp app n env) (\<lambda>_. settled app es0) (\<lambda>_ _. False)"
  unfolding deploy_app_background_def
  by (rule spec_catch [OF record_failure_spec spec_then [OF build_then_run_spec idle_spec [OF keeps_lift emits_lift]]])

lemma spec_raise_idle: "act_spec (idle app es0) (act_raise e) Q (\<lambda>_. failing app es0)"
  by (auto simp: act_spec_def act_raise_def intro: idle_failing)

lemma start_spec: "act_spec (idle app es0) (start_app_process W fk app) (\<lambda>_. settled app es0) (\<lambda>_. failing app es0)"
proof -
  have m: "act_spec (idle app es0) (mark_app_starting app) (\<lambda>_. idle app es0) (\<lambda>_. failing app es0)"
    by (rule idle_spec [OF row.keeps_mark_starting]) (auto simp: mark_app_starting_def intro: emits_intros)
  have some: "act_spec (idle app es0)
      (act_bind (act_lift x) (\<lambda>m. act_then (mark_app_starting app) (build_then_run_app W fk app n rp m 1 None)))
      (\<lambda>_. settled app es0) (\<lambda>_. failing app es0)" for x n rp
    by (rule spec_bind [OF spec_then [OF build_then_run_spec m] idle_spec [OF keeps_lift emits_lift]])
  have "act_spec (idle app es0) (case row of
          None \<Rightarrow> act_raise (Exn TypeError ''object is not subscriptable'')
        | Some r \<Rightarrow>
            act_bind (act_lift (parse_manifest (w_libs W) (w_fs W) (a_repo_path r))) (\<lambda>m.
            act_then (mark_app_starting app)
              (build_then_run_app W fk app (a_name r) (a_repo_path r) m 1 None)))
      (\<lambda>_. settled app es0) (\<lambda>_. failing app es0)" for row
    by (cases row) (simp_all only: option.case some spec_raise_idle)
  then show ?thesis
    unfolding start_app_process_def
    by (rule spec_bind [OF spec_then [OF _ idle_spec [OF keeps_lift emits_lift]] idle_spec [OF keeps_query emits_query]])
qed

lemma quiet_recopy: "quiet (recopy_source W n rp)"
  unfolding recopy_source_def Let_def by (intro emits_intros) simp_all

lemma quiet_sync: "quiet (sync_port_mappings W i pms)"
  unfolding sync_port_mappings_def Let_def by (intro emits_intros)

lemma quiet_resync: "quiet (resync_manifest W i rp)"
  unfolding resync_manifest_def by (intro emits_intros quiet_sync)

lemma reload_spec: "act_spec (idle app es0) (reload_app_background W app rp) (\<lambda>_. settled app es0) (\<lambda>_ _. False)"
proof -
  have some: "act_spec (idle app es0)
      (act_then (if rp \<noteq> [] \<and> is_dir (w_fs W) (path_join rp ''.git'') then act_return () else recopy_source W n rp)
       (act_then (if rp \<noteq> [] \<and> is_dir (w_fs W) rp then resync_manifest W app rp else act_return ())
                (start_app_process W False app)))
      (\<lambda>_. settled app es0) (\<lambda>_. failing app es0)" for n
    by (rule spec_then [OF spec_then [OF start_spec]]; rule idle_spec)
      (intro keeps_intros emits_intros row.keeps_resync keeps_recopy quiet_resync quiet_recopy)+
  have "act_spec (idle app es0)
      (act_bind (act_query (select_app app)) (\<lambda>row.
          case row of
            None \<Rightarrow> act_return ()
          | Some r \<Rightarrow>
              act_then (if rp \<noteq> [] \<and> is_dir (w_fs W) (path_join rp ''.git'') then act_return () else recopy_source W (a_name r) rp)
              (act_then (if rp \<noteq> [] \<and> is_dir (w_fs W) rp then resync_manifest W app rp else act_return ())
                (start_app_process W False app))))
      (\<lambda>_. settled app es0) (\<lambda>_. failing app es0)"
    unfolding act_spec_def
  proof (intro allI impI, goal_cases)
    case (1 s)
    then obtain r where "select_app app (working (ws_conn s)) = Some r"
      by (auto simp: idle_def row_present_def has_app_def ws_db_def)
    with some [of "a_name r"] 1 show ?case
      unfolding act_spec_def act_bind_def [of "act_query (select_app app)"] by (simp add: act_query_def)
  qed
  then show ?thesis
    unfolding reload_app_background_def by (rule spec_catch [OF record_failure_spec])
qed

end
