(* ===== verification/LifecycleProps.thy ===== *)
theory LifecycleProps
  imports Lifecycle
begin

text \<open>
  What the lifecycle of \<open>core/apps.py\<close> guarantees: installing is all or nothing, every worker leaves its app
  running or in error and no container unaccounted for, a reload keeps the host ports of the labels it
  keeps, and a removed app leaves no row behind.
\<close>

section \<open>Port mappings of a reload\<close>

lemma resolve_keeps_fixed:
  assumes "resolve_port_mappings h rnd ms db s e excl = Inr out"
  shows "set (filter (\<lambda>pm. pm_host_port pm \<noteq> 0) ms) \<subseteq> set out"
proof -
  let ?fixed = "filter (\<lambda>pm. pm_host_port pm \<noteq> 0) ms"
  from assms obtain cl where
    f: "resolve_fixed h db excl {} [] ms = Inr (cl, ?fixed)" and
    a: "resolve_auto (\<lambda>k. find_free_host_port h (rnd k) s e db excl) 0 cl ?fixed ms = Inr out"
    unfolding resolve_port_mappings_def by (auto split: sum.splits prod.splits dest: resolve_fixed_Inr)
  from auto_ports.resolve_auto_shape [OF a] show ?thesis
    by auto
qed

definition port_view :: "string \<Rightarrow> database \<Rightarrow> (string \<times> int \<times> int) set" where
  "port_view app db = (\<lambda>r. (p_label r, p_container_port r, p_host_port r)) ` set (app_ports app db)"

definition other_ports :: "string \<Rightarrow> database \<Rightarrow> port_row list" where
  "other_ports app db = filter (\<lambda>r. p_app_id r \<noteq> app) (t_port_mappings db)"

definition pm_view :: "port_mapping \<Rightarrow> string \<times> int \<times> int" where
  "pm_view pm = (pm_label pm, pm_container_port pm, pm_host_port pm)"

definition upsert_port :: "string \<Rightarrow> string set \<Rightarrow> port_mapping \<Rightarrow> database \<Rightarrow> database result" where
  "upsert_port app old pm = (if pm_label pm \<in> old then update_port app pm else insert_port (port_row_of app pm))"

lemma update_port_view:
  assumes "update_port app pm db = Inr db'" and "pm_label pm \<in> fst ` port_view app db"
  shows "port_view app db' = {t \<in> port_view app db. fst t \<noteq> pm_label pm} \<union> {pm_view pm}"
    and "other_ports app db' = other_ports app db"
proof -
  let ?g = "\<lambda>r. if p_app_id r = app \<and> p_label r = pm_label pm
      then r\<lparr>p_container_port := pm_container_port pm, p_host_port := pm_host_port pm\<rparr> else r"
  have db': "db' = db\<lparr>t_port_mappings := map ?g (t_port_mappings db)\<rparr>"
    using assms(1) by (auto simp: update_port_def split: if_splits)
  let ?v = "\<lambda>r. (p_label r, p_container_port r, p_host_port r)"
  have "filter (\<lambda>r. p_app_id r = app) (map ?g xs)
      = map ?g (filter (\<lambda>r. p_app_id r = app) xs)" for xs
    by (induction xs) simp_all
  moreover have "t_port_mappings db' = map ?g (t_port_mappings db)"
    by (simp add: db')
  ultimately have "app_ports app db' = map ?g (app_ports app db)"
    by (simp only: app_ports_def)
  then have "port_view app db' = (\<lambda>r. ?v (?g r)) ` set (app_ports app db)"
    by (simp only: port_view_def set_map image_image)
  also have "\<dots> = (\<lambda>t. if fst t = pm_label pm then pm_view pm else t) ` port_view app db"
    unfolding port_view_def image_image
    by (rule image_cong [OF refl]) (simp add: app_ports_def pm_view_def)
  finally show "port_view app db' = {t \<in> port_view app db. fst t \<noteq> pm_label pm} \<union> {pm_view pm}"
    using assms(2) by (auto simp: image_iff)
  have "filter (\<lambda>r. p_app_id r \<noteq> app) (map ?g xs) = filter (\<lambda>r. p_app_id r \<noteq> app) xs" for xs
    by (induction xs) auto
  then show "other_ports app db' = other_ports app db"
    by (simp add: other_ports_def db')
qed

lemma insert_port_view:
  assumes "insert_port (port_row_of app pm) db = Inr db'"
  shows "port_view app db' = {t \<in> port_view app db. fst t \<noteq> pm_label pm} \<union> {pm_view pm}"
    and "other_ports app db' = other_ports app db"
proof -
  have db': "db' = db\<lparr>t_port_mappings := t_port_mappings db @ [port_row_of app pm]\<rparr>"
    and new: "\<And>r. r \<in> set (t_port_mappings db) \<Longrightarrow> p_app_id r = app \<Longrightarrow> p_label r \<noteq> pm_label pm"
    using assms by (auto simp: insert_port_def port_row_of_def split: if_splits)
  have "app_ports app db' = app_ports app db @ [port_row_of app pm]"
    by (simp add: app_ports_def db' port_row_of_def)
  moreover have "{t \<in> port_view app db. fst t \<noteq> pm_label pm} = port_view app db"
    using new by (auto simp: port_view_def app_ports_def)
  ultimately show "port_view app db' = {t \<in> port_view app db. fst t \<noteq> pm_label pm} \<union> {pm_view pm}"
    by (simp add: port_view_def pm_view_def port_row_of_def)
  show "other_ports app db' = other_ports app db"
    by (simp add: other_ports_def db' port_row_of_def)
qed

lemma upsert_all_view:
  assumes "run_all (upsert_port app old) rs db = Inr db'" and "distinct (map pm_label rs)"
    and "\<And>r. r \<in> set rs \<Longrightarrow> pm_label r \<in> old \<Longrightarrow> pm_label r \<in> fst ` port_view app db"
  shows "port_view app db' = {t \<in> port_view app db. fst t \<notin> pm_label ` set rs} \<union> pm_view ` set rs
    \<and> other_ports app db' = other_ports app db"
  using assms
proof (induction rs arbitrary: db)
  case (Cons pm rs)
  obtain db1 where 1: "upsert_port app old pm db = Inr db1" and 2: "run_all (upsert_port app old) rs db1 = Inr db'"
    using Cons.prems(1) by auto
  have v: "port_view app db1 = {t \<in> port_view app db. fst t \<noteq> pm_label pm} \<union> {pm_view pm}"
    and o: "other_ports app db1 = other_ports app db"
    using 1 Cons.prems(3) update_port_view [of app pm db db1] insert_port_view [of app pm db db1]
    by (auto simp: upsert_port_def split: if_splits)
  have "pm_label r \<in> fst ` port_view app db1" if "r \<in> set rs" "pm_label r \<in> old" for r
  proof -
    have "pm_label r \<noteq> pm_label pm" "pm_label r \<in> fst ` port_view app db"
      using that Cons.prems(2,3) by (auto simp: image_iff)
    then show ?thesis unfolding v by force
  qed
  with Cons.IH [OF 2] Cons.prems(2) v o show ?case
    by (auto simp: pm_view_def image_iff)
qed auto

lemma upsert_all_keys: "run_all (upsert_port app old) rs db = Inr db' \<Longrightarrow> db_keys_ok db \<Longrightarrow> db_keys_ok db'"
  by (induction rs arbitrary: db)
    (auto simp: upsert_port_def split: if_splits dest: update_port_keys insert_port_keys)

lemma each_exec: "act_each (\<lambda>x. act_exec (f x)) xs s = (Inr (), s\<lparr>ws_conn := (ws_conn s)\<lparr>working := fold f xs (ws_db s)\<rparr>\<rparr>)"
  by (induction xs arbitrary: s) (simp_all add: act_return_def act_then_def act_bind_def act_exec_def execute_def ws_db_def)

lemma delete_ports_rows:
  "t_port_mappings (fold (delete_port app) ls db) = filter (\<lambda>r. \<not> (p_app_id r = app \<and> p_label r \<in> set ls)) (t_port_mappings db)"
  by (induction ls arbitrary: db) (auto simp: delete_port_def intro: filter_cong)

lemma delete_ports_keys: "db_keys_ok db \<Longrightarrow> db_keys_ok (fold (delete_port app) ls db)"
  by (induction ls arbitrary: db) (auto intro: delete_port_keys)

lemma sync_Inr:
  assumes "sync_port_mappings W app pms s = (Inr u, s')"
  shows "\<exists>db1 resolved. db1 = fold (delete_port app)
        (filter (\<lambda>l. l \<notin> set (map pm_label pms)) (remdups (map p_label (app_ports app (ws_db s))))) (ws_db s)
    \<and> resolve_port_mappings (w_ports W) (w_rnd W) (keep_host_ports (app_ports app (ws_db s)) pms) db1
        (w_port_start W) (w_port_end W) (Some app) = Inr resolved
    \<and> run_all (upsert_port app (set (map p_label (app_ports app (ws_db s))))) resolved db1 = Inr (ws_db s')"
proof -
  let ?existing = "app_ports app (ws_db s)"
  let ?removed = "filter (\<lambda>l. l \<notin> set (map pm_label pms)) (remdups (map p_label ?existing))"
  let ?s1 = "s\<lparr>ws_conn := (ws_conn s)\<lparr>working := fold (delete_port app) ?removed (ws_db s)\<rparr>\<rparr>"
  have d: "ws_db ?s1 = fold (delete_port app) ?removed (ws_db s)"
    by (simp add: ws_db_def)
  let ?old = "set (map p_label ?existing)"
  have f: "(\<lambda>pm. if pm_label pm \<in> ?old then act_try (update_port app pm) else act_try (insert_port (port_row_of app pm)))
      = (\<lambda>pm. act_try (upsert_port app ?old pm))"
    by (rule ext) (simp add: upsert_port_def)
  from assms obtain resolved where
    r: "resolve_port_mappings (w_ports W) (w_rnd W) (keep_host_ports ?existing pms) (ws_db ?s1)
        (w_port_start W) (w_port_end W) (Some app) = Inr resolved"
    and e: "act_each (\<lambda>pm. if pm_label pm \<in> ?old then act_try (update_port app pm)
        else act_try (insert_port (port_row_of app pm))) resolved ?s1 = (Inr u, s')"
    unfolding sync_port_mappings_def Let_def bind_Inr then_Inr lift_Inr query_Inr each_exec
    by (auto simp del: set_map list.set_map)
  from each_try_Inr [OF e [unfolded f]] r show ?thesis
    unfolding d by blast
qed

lemma keep_host_ports_labels:
  "map pm_label (keep_host_ports existing pms) = map pm_label pms"
  "map pm_container_port (keep_host_ports existing pms) = map pm_container_port pms"
  by (induction pms) (auto simp: keep_host_ports_def split: option.splits)

lemma keep_host_ports_pairs:
  "map (\<lambda>pm. (pm_label pm, pm_container_port pm)) (keep_host_ports existing pms)
     = map (\<lambda>pm. (pm_label pm, pm_container_port pm)) pms"
  by (induction pms) (auto simp: keep_host_ports_def split: option.splits)

lemma mset_pairs_set: "mset (map f xs) = mset (map f ys) \<Longrightarrow> f ` set xs = f ` set ys"
  by (metis set_map set_mset_mset)

lemma sync_view:
  assumes "sync_port_mappings W app pms s = (Inr u, s')" and "distinct (map pm_label pms)"
  obtains resolved where "port_view app (ws_db s') = pm_view ` set resolved"
    and "(\<lambda>pm. (pm_label pm, pm_container_port pm)) ` set resolved = (\<lambda>pm. (pm_label pm, pm_container_port pm)) ` set pms"
    and "set (filter (\<lambda>pm. pm_host_port pm \<noteq> 0) (keep_host_ports (app_ports app (ws_db s)) pms)) \<subseteq> set resolved"
    and "other_ports app (ws_db s') = other_ports app (ws_db s)"
    and "db_keys_ok (ws_db s) \<longrightarrow> db_keys_ok (ws_db s')"
proof -
  let ?kept = "keep_host_ports (app_ports app (ws_db s)) pms"
  let ?pair = "\<lambda>pm. (pm_label pm, pm_container_port pm)"
  let ?old = "set (map p_label (app_ports app (ws_db s)))"
  let ?removed = "filter (\<lambda>l. l \<notin> set (map pm_label pms)) (remdups (map p_label (app_ports app (ws_db s))))"
  define db1 where "db1 = fold (delete_port app) ?removed (ws_db s)"
  obtain resolved where r: "resolve_port_mappings (w_ports W) (w_rnd W) ?kept db1 (w_port_start W) (w_port_end W) (Some app) = Inr resolved"
    and up: "run_all (upsert_port app ?old) resolved db1 = Inr (ws_db s')"
    using sync_Inr [OF assms(1)] unfolding db1_def by blast
  have pairs: "mset (map ?pair resolved) = mset (map ?pair ?kept)"
    by (rule resolve_port_mappings_Inr(1) [OF r])
  have kept_pairs: "map ?pair ?kept = map ?pair pms"
    by (rule keep_host_ports_pairs)
  have "mset (map fst (map ?pair resolved)) = mset (map fst (map ?pair pms))"
    using pairs unfolding kept_pairs mset_map by (rule arg_cong)
  then have labels: "mset (map pm_label resolved) = mset (map pm_label pms)"
    by (simp add: comp_def)
  then have d: "distinct (map pm_label resolved)"
    using assms(2) by (metis mset_eq_imp_distinct_iff)
  have ls: "pm_label ` set resolved = pm_label ` set pms"
    by (rule mset_pairs_set [OF labels])
  have v1: "port_view app db1 = {t \<in> port_view app (ws_db s). fst t \<in> pm_label ` set pms}"
  proof -
    have "app_ports app db1 = filter (\<lambda>r. p_label r \<in> pm_label ` set pms) (app_ports app (ws_db s))"
      unfolding app_ports_def db1_def delete_ports_rows filter_filter by (rule filter_cong) auto
    then show ?thesis
      by (auto simp: port_view_def)
  qed
  have o1: "other_ports app db1 = other_ports app (ws_db s)"
    unfolding other_ports_def db1_def delete_ports_rows filter_filter by (rule filter_cong) auto
  have "pm_label x \<in> fst ` port_view app db1" if "x \<in> set resolved" "pm_label x \<in> ?old" for x
  proof -
    have "pm_label x \<in> pm_label ` set pms"
      using that(1) ls by auto
    with that(2) show ?thesis
      unfolding v1 by (force simp: port_view_def)
  qed
  from upsert_all_view [OF up d this]
  have v: "port_view app (ws_db s') = pm_view ` set resolved" "other_ports app (ws_db s') = other_ports app (ws_db s)"
    unfolding v1 ls o1 by auto
  have "?pair ` set resolved = ?pair ` set pms"
    using mset_pairs_set [OF pairs [unfolded kept_pairs]] .
  moreover have "db_keys_ok (ws_db s) \<longrightarrow> db_keys_ok (ws_db s')"
    using upsert_all_keys [OF up] delete_ports_keys unfolding db1_def by blast
  ultimately show ?thesis
    using that v resolve_keeps_fixed [OF r] by blast
qed

lemma kept_port:
  assumes "distinct (map pm_label pms)" and "db_keys_ok db" and "r \<in> set (app_ports app db)" and "p_label r \<in> pm_label ` set pms"
  shows "\<exists>pm \<in> set (keep_host_ports (app_ports app db) pms). pm_label pm = p_label r \<and> pm_host_port pm = p_host_port r"
proof -
  obtain pm where pm: "pm \<in> set pms" "pm_label pm = p_label r"
    using assms(4) by auto
  have "distinct (map (\<lambda>m. (p_app_id m, p_label m)) (app_ports app db))"
    using assms(2) unfolding db_keys_ok_def app_ports_def by (simp add: distinct_map_filter)
  then have "distinct (map p_label (app_ports app db))"
    by (auto simp: distinct_map inj_on_def app_ports_def)
  then have "find (\<lambda>q. p_label q = pm_label pm) (rev (app_ports app db)) = Some r"
    using assms(3) pm(2) by (intro find_key_Some) (simp_all add: rev_map [symmetric])
  then show ?thesis
    using pm by (force simp: keep_host_ports_def)
qed

section \<open>Installing\<close>

lemma try_Inr: "act_try f s = (Inr u, s') \<Longrightarrow>
    f (ws_db s) = Inr (ws_db s') \<and> ws_committed s' = ws_committed s \<and> ws_effects s' = ws_effects s"
  by (auto simp: act_try_def ws_db_def ws_committed_def split: sum.splits)

lemma exec_Inr: "act_exec f s = (Inr u, s') \<Longrightarrow> ws_db s' = f (ws_db s)"
  by (auto simp: act_exec_def ws_db_def)

lemma unpublished_env: "unpublished (provision_env W i n m)"
  unfolding provision_env_def make_data_dirs_and_env_vars_def permanent_data_env_def archive_env_def Let_def
  by (intro unpublished_intros)

lemma unpublished_sqlite: "unpublished (insert_sqlite_db i env n)"
  unfolding insert_sqlite_db_def by (cases n) (auto intro: unpublished_intros)

text \<open>Up to its commit, an installation is invisible to others; so an exception publishes nothing.\<close>

lemma install_rows_raises:
  assumes "install_rows W m n rp url ov lp app s = (Inl e, s')"
  shows "ws_committed s' = ws_committed s"
proof -
  have "act_spec (\<lambda>t. ws_committed t = c) (install_rows W m n rp url ov lp app) (\<lambda>_ _. True) (\<lambda>_ t. ws_committed t = c)" for c
  proof -
    have u: "act_spec (\<lambda>t. ws_committed t = c) x (\<lambda>_ t. ws_committed t = c) (\<lambda>_ t. ws_committed t = c)"
      if "unpublished x" for x :: "'z act"
      using that unfolding act_spec_def unpublished_def by (auto split: prod.split sum.split) (metis snd_conv)+
    have last: "act_spec (\<lambda>t. ws_committed t = c) act_commit (\<lambda>_ _. True) (\<lambda>_ t. ws_committed t = c)"
      by (simp add: act_spec_def act_commit_def)
    show ?thesis
      unfolding install_rows_def
      apply (rule spec_bind [OF _ u [OF unpublished_query]])
      apply (rule spec_bind [OF _ u [OF unpublished_lift]])
      apply (rule spec_bind [OF _ u [OF unpublished_env]])
      apply (rule spec_bind [OF _ u [OF unpublished_lift]])
      apply (rule spec_then [OF _ u [OF unpublished_try]])
      apply (rule spec_then [OF _ u [OF unpublished_each [OF unpublished_try]]])
      apply (rule spec_bind [OF _ u [OF unpublished_lift]])
      apply (rule spec_then [OF _ u [OF unpublished_each [OF unpublished_sqlite]]])
      apply (rule spec_then [OF spec_then [OF last u [OF unpublished_try]]])
      apply (rule u)
      unfolding store_app_token_def
      apply (intro unpublished_intros)
      done
  qed
  from act_spec_Inl [OF this refl assms] show ?thesis by simp
qed

text \<open>The rows of an installation: one new app, all earlier rows of \<open>apps\<close> kept.\<close>

lemma columns_row:
  "manifest_column_values W m = Inr c \<Longrightarrow> a_app_id (c r) = a_app_id r \<and> a_name (c r) = a_name r
    \<and> a_local_port (c r) = a_local_port r \<and> a_status (c r) = a_status r \<and> a_repo_path (c r) = a_repo_path r
    \<and> a_repo_url (c r) = a_repo_url r \<and> a_container_id (c r) = a_container_id r
    \<and> a_manifest_raw (c r) = Some (m_raw_toml m)"
  by (auto simp: manifest_column_values_def split: if_splits)

lemma working_apps_rows:
  "working_keeps (\<lambda>x. t_apps x = rows) (act_each (\<lambda>pm. act_try (insert_port (f pm))) pms)"
  "working_keeps (\<lambda>x. t_apps x = rows) (act_each (insert_sqlite_db i env) dbs)"
  "working_keeps (\<lambda>x. t_apps x = rows) (store_app_token W i env)"
  "working_keeps (\<lambda>x. t_apps x = rows) (act_try (register_services_provided_by_app fk i m))"
proof -
  show "working_keeps (\<lambda>x. t_apps x = rows) (act_each (\<lambda>pm. act_try (insert_port (f pm))) pms)"
    by (intro working_intros working_try) (auto simp: insert_port_def split: if_splits)
  have "working_keeps (\<lambda>x. t_apps x = rows) (insert_sqlite_db i env n)" for n
    unfolding insert_sqlite_db_def
    by (cases n) (auto intro!: working_intros working_try simp: insert_database_row_def split: if_splits)
  then show "working_keeps (\<lambda>x. t_apps x = rows) (act_each (insert_sqlite_db i env) dbs)"
    by (rule working_each)
  show "working_keeps (\<lambda>x. t_apps x = rows) (store_app_token W i env)"
    unfolding store_app_token_def replace_app_token_def by (intro working_intros working_exec) simp
  show "working_keeps (\<lambda>x. t_apps x = rows) (act_try (register_services_provided_by_app fk i m))"
    unfolding register_services_provided_by_app_def
    by (rule working_try) (drule insert_providers_frame, metis database.select_convs(1) database.surjective database.update_convs(5))
qed

lemma working_keys_install:
  "working_keeps db_keys_ok (act_each (\<lambda>pm. act_try (insert_port (f pm))) pms)"
  "working_keeps db_keys_ok (act_each (insert_sqlite_db i env) dbs)"
proof -
  show "working_keeps db_keys_ok (act_each (\<lambda>pm. act_try (insert_port (f pm))) pms)"
    by (intro working_intros working_try) (rule insert_port_keys)
  have "working_keeps db_keys_ok (insert_sqlite_db i env n)" for n
    unfolding insert_sqlite_db_def
    by (cases n) (auto intro!: working_intros working_try simp: insert_database_row_def db_keys_ok_def split: if_splits)
  then show "working_keeps db_keys_ok (act_each (insert_sqlite_db i env) dbs)"
    by (rule working_each)
qed

lemma working_env: "working_keeps P (provision_env W i n m)"
  unfolding provision_env_def make_data_dirs_and_env_vars_def permanent_data_env_def archive_env_def Let_def
  by (intro working_intros)

lemma working_keys_rest:
  "working_keeps db_keys_ok (store_app_token W i env)"
  "working_keeps db_keys_ok (act_try (register_services_provided_by_app fk i m))"
  unfolding store_app_token_def replace_app_token_def
  by (intro working_intros working_exec, simp add: db_keys_ok_def) (rule working_try, rule keys.P_register)

lemma insert_app_rows:
  "insert_app r db = Inr db' \<Longrightarrow> t_apps db' = t_apps db @ [r] \<and> a_app_id r \<notin> a_app_id ` set (t_apps db)"
  by (auto simp: insert_app_def split: if_splits)

lemma grant_rows:
  "grant_permission_v2 c u g sc p db = Inr db' \<Longrightarrow> t_apps db' = t_apps db \<and> (db_keys_ok db \<longrightarrow> db_keys_ok db')"
  by (auto simp: grant_permission_v2_def insert_permission_def db_keys_ok_def split: if_splits)

lemma grant_total: "c \<in> a_app_id ` set (t_apps db) \<Longrightarrow> \<exists>db'. grant_permission_v2 c u g sc p db = Inr db'"
  by (auto simp: grant_permission_v2_def insert_permission_def permission_row_of_def)

lemma emits_sqlite: "emits p (insert_sqlite_db i env n)"
  unfolding insert_sqlite_db_def by (cases n) (auto intro: emits_intros)

lemma install_rows_returns:
  assumes "install_rows W m n rp url ov lp app s = (Inr u, s')"
  shows "\<exists>r. t_apps (ws_committed s') = t_apps (ws_db s) @ [r] \<and> ws_db s' = ws_committed s'
    \<and> a_app_id r = app \<and> a_name r = n \<and> a_local_port r = lp \<and> a_status r = Building \<and> a_container_id r = None
    \<and> a_repo_path r = rp \<and> a_repo_url r = url \<and> a_manifest_raw r = Some (m_raw_toml m)
    \<and> app \<notin> a_app_id ` set (t_apps (ws_db s))
    \<and> (db_keys_ok (ws_db s) \<longrightarrow> db_keys_ok (ws_committed s'))"
proof -
  obtain resolved env s1 c s2 s3 dbs s4 s5 s6 where
    env: "provision_env W app n m s = (Inr env, s1)" and
    c: "manifest_column_values W m = Inr c" and
    ins: "act_try (insert_app (c (new_app_row W app n rp url lp))) s1 = (Inr (), s2)" and
    ports: "act_each (\<lambda>pm. act_try (insert_port (port_row_of app pm))) resolved s2 = (Inr (), s3)" and
    dbs: "act_each (insert_sqlite_db app env) dbs s3 = (Inr (), s4)" and
    tok: "store_app_token W app env s4 = (Inr (), s5)" and
    reg: "act_try (register_services_provided_by_app True app m) s5 = (Inr (), s6)" and
    s': "s' = s6\<lparr>ws_conn := commit (ws_conn s6)\<rparr>"
    using assms unfolding install_rows_def bind_Inr then_Inr lift_Inr query_Inr
    by (auto simp: act_commit_def)
  let ?r = "c (new_app_row W app n rp url lp)"
  have s1: "ws_db s1 = ws_db s"
    by (rule working_keepsD [OF working_env env, of "\<lambda>x. x = ws_db s"]) simp
  have i: "insert_app ?r (ws_db s) = Inr (ws_db s2)"
    using try_Inr [OF ins] s1 by simp
  have rows2: "t_apps (ws_db s2) = t_apps (ws_db s) @ [?r]" "a_app_id ?r \<notin> a_app_id ` set (t_apps (ws_db s))"
    using insert_app_rows [OF i] by simp_all
  have "t_apps (ws_db s3) = t_apps (ws_db s) @ [?r]"
    by (rule working_keepsD [OF working_apps_rows(1) ports]) (rule rows2)
  then have "t_apps (ws_db s4) = t_apps (ws_db s) @ [?r]"
    by (rule working_keepsD [OF working_apps_rows(2) dbs])
  then have "t_apps (ws_db s5) = t_apps (ws_db s) @ [?r]"
    by (rule working_keepsD [OF working_apps_rows(3) tok])
  then have rows: "t_apps (ws_db s6) = t_apps (ws_db s) @ [?r]"
    by (rule working_keepsD [OF working_apps_rows(4) reg])
  have keys: "db_keys_ok (ws_db s) \<longrightarrow> db_keys_ok (ws_db s6)"
    using insert_app_keys [OF i] working_keepsD [OF working_keys_install(1) ports]
      working_keepsD [OF working_keys_install(2) dbs] working_keepsD [OF working_keys_rest(1) tok]
      working_keepsD [OF working_keys_rest(2) reg] by blast
  have "a_app_id ?r = app"
    using columns_row [OF c, of "new_app_row W app n rp url lp"] by (simp add: new_app_row_def)
  then show ?thesis
    using rows rows2(2) keys columns_row [OF c, of "new_app_row W app n rp url lp"] s'
    by (intro exI [of _ ?r]) (auto simp: new_app_row_def)
qed

text \<open>The grants follow the commit, each in a transaction of its own.\<close>

lemma grant_after_install_Inr:
  assumes "grant_after_install app g s = (Inr u, s')"
  shows "t_apps (ws_db s') = t_apps (ws_db s) \<and> ws_committed s' = ws_db s' \<and> ws_effects s' = ws_effects s
    \<and> (db_keys_ok (ws_db s) \<longrightarrow> db_keys_ok (ws_db s'))"
proof -
  obtain s1 where t: "act_try (grant_permission_v2 app (pg_service_url g) (pg_grant g) ''global'' None) s = (Inr (), s1)"
    and c: "s' = s1\<lparr>ws_conn := commit (ws_conn s1)\<rparr>"
    using assms by (auto simp: grant_after_install_def act_Inr act_commit_def split: if_splits)
  have "t_apps (ws_db s1) = t_apps (ws_db s) \<and> (db_keys_ok (ws_db s) \<longrightarrow> db_keys_ok (ws_db s1))"
    using try_Inr [OF t] grant_rows by blast
  then show ?thesis
    using try_Inr [OF t] c by simp
qed

lemma grants_after_install_Inr:
  assumes "act_each (grant_after_install app) gs s = (Inr u, s')" and "ws_committed s = ws_db s"
  shows "t_apps (ws_db s') = t_apps (ws_db s) \<and> ws_committed s' = ws_db s' \<and> ws_effects s' = ws_effects s
    \<and> (db_keys_ok (ws_db s) \<longrightarrow> db_keys_ok (ws_db s'))"
  using assms
proof (induction gs arbitrary: s)
  case Nil
  then show ?case by (simp add: act_return_def)
next
  case (Cons g gs)
  then obtain v s1 where "grant_after_install app g s = (Inr v, s1)" "act_each (grant_after_install app) gs s1 = (Inr u, s')"
    by (auto simp: then_Inr)
  with grant_after_install_Inr [of app g s v s1] Cons.IH [of s1] show ?case
    by simp
qed

lemma grants_after_install_total:
  assumes "list_all (\<lambda>g. json_value (pg_grant g)) gs" and "app \<in> a_app_id ` set (t_apps (ws_db s))"
  shows "\<exists>s'. act_each (grant_after_install app) gs s = (Inr (), s')"
  using assms
proof (induction gs arbitrary: s)
  case Nil
  then show ?case by (simp add: act_return_def)
next
  case (Cons g gs)
  obtain db' where "grant_permission_v2 app (pg_service_url g) (pg_grant g) ''global'' None (ws_db s) = Inr db'"
    using grant_total [OF Cons.prems(2)] by blast
  then obtain s1 where 1: "grant_after_install app g s = (Inr (), s1)"
    using Cons.prems(1) by (auto simp: grant_after_install_def act_defs ws_db_def)
  with grant_after_install_Inr [OF 1] Cons.prems have "\<exists>s'. act_each (grant_after_install app) gs s1 = (Inr (), s')"
    by (intro Cons.IH) simp_all
  with 1 show ?case
    by (auto simp: act_then_def act_bind_def)
qed

section \<open>Fresh ids\<close>

lemma mint_from:
  assumes "select_app (new_app_id (id_bytes (k + d))) db = None"
  shows "\<exists>i. k \<le> i \<and> i \<le> k + d \<and> mint_unique_app_id id_bytes db k = Some (new_app_id (id_bytes i))
    \<and> select_app (new_app_id (id_bytes i)) db = None"
  using assms
proof (induction d arbitrary: k)
  case 0
  then show ?case
    by (intro exI [of _ k]) (simp add: mint_unique_app_id.simps [of _ _ k] Let_def)
next
  case (Suc d)
  show ?case
  proof (cases "select_app (new_app_id (id_bytes k)) db = None")
    case True
    then show ?thesis by (auto simp: mint_unique_app_id.simps [of _ _ k] Let_def)
  next
    case False
    from Suc.IH [of "Suc k"] Suc.prems obtain i where "Suc k \<le> i" "i \<le> Suc k + d"
      "mint_unique_app_id id_bytes db (Suc k) = Some (new_app_id (id_bytes i))" "select_app (new_app_id (id_bytes i)) db = None"
      by auto
    with False show ?thesis
      by (intro exI [of _ i]) (auto simp: mint_unique_app_id.simps [of _ _ k] Let_def)
  qed
qed

lemma mint_fresh:
  assumes "mint_unique_app_id id_bytes db k = Some app"
  shows "select_app app db = None \<and> is_valid_app_id app"
  by (rule mint_unique_app_id.raw_induct [where P = "\<lambda>_ db _ a. select_app a db = None \<and> is_valid_app_id a", OF _ assms])
    (auto simp: Let_def new_app_id_def encode_base58_valid split: if_splits)

section \<open>Removing\<close>

lemma swallow_Inr: "fst (swallow m s) = Inr ()"
  by (cases "m s") (auto simp: swallow_def act_catch_def act_return_def split: sum.splits)

lemma keeps_clean_up:
  "keeps P (swallow (stop_app_process host r))" "keeps P (swallow (remove_image host n))"
  "keeps P (swallow (if kd then deprovision_temp_data n pn else deprovision_data n pn))"
  unfolding swallow_def remove_image_def deprovision_data_def deprovision_temp_data_def
  by (intro keeps_intros)+

lemma keeps_eqD: "keeps (\<lambda>x. x = db) m \<Longrightarrow> ws_db s = db \<Longrightarrow> ws_committed s = db \<Longrightarrow>
    ws_db (snd (m s)) = db \<and> ws_committed (snd (m s)) = db"
  by (rule keepsD)

lemma remove_app_background_result:
  assumes "select_app app db = Some r"
  shows "fst (remove_app_background W app kd (start_state db)) = Inr ()"
    and "ws_committed (snd (remove_app_background W app kd (start_state db))) = delete_app_cascade app db"
proof -
  let ?m1 = "swallow (stop_app_process (w_processes W) r)" and ?m2 = "swallow (remove_image (w_processes W) (a_name r))"
  let ?m3 = "swallow (if kd then deprovision_temp_data (a_name r) (w_provision W) else deprovision_data (a_name r) (w_provision W))"
  define s1 where "s1 = snd (?m1 (start_state db))"
  define s2 where "s2 = snd (?m2 s1)"
  define s3 where "s3 = snd (?m3 s2)"
  have 1: "?m1 (start_state db) = (Inr (), s1)"
    unfolding s1_def by (metis prod.collapse swallow_Inr)
  have 2: "?m2 s1 = (Inr (), s2)"
    unfolding s2_def by (metis prod.collapse swallow_Inr)
  have 3: "?m3 s2 = (Inr (), s3)"
    unfolding s3_def by (metis prod.collapse swallow_Inr)
  have "ws_db s1 = db \<and> ws_committed s1 = db"
    unfolding s1_def by (rule keeps_eqD [OF keeps_clean_up(1)]) simp_all
  then have "ws_db s2 = db \<and> ws_committed s2 = db"
    unfolding s2_def using keeps_eqD [OF keeps_clean_up(2)] by blast
  then have db3: "ws_db s3 = db"
    unfolding s3_def using keeps_eqD [OF keeps_clean_up(3)] by blast
  have q: "select_app app (working (ws_conn (start_state db))) = Some r"
    using assms by (simp add: start_state_def)
  have "remove_app_background W app kd (start_state db)
      = (Inr (), s3\<lparr>ws_conn := commit (execute (delete_app_cascade app) (ws_conn s3))\<rparr>)"
    unfolding remove_app_background_def act_catch_def act_bind_def [of "act_query (select_app app)"] act_query_def
    by (simp add: q act_then_def act_bind_def 1 2 3 act_exec_def act_commit_def)
  then show "fst (remove_app_background W app kd (start_state db)) = Inr ()"
    and "ws_committed (snd (remove_app_background W app kd (start_state db))) = delete_app_cascade app db"
    using db3 by (simp_all add: ws_committed_def ws_db_def)
qed

section \<open>A sample world\<close>

text \<open>A world in which every command succeeds.\<close>

definition example_world :: "string world" where
  "example_world = \<lparr>w_libs = example_libs, w_float_str = (\<lambda>_. ''0.1''), w_parse_int = (\<lambda>_. None),
     w_fs = \<lparr>path_exists = (\<lambda>_. False), is_dir = (\<lambda>_. False), is_file = (\<lambda>_. False), read_utf8 = (\<lambda>_. Inr [])\<rparr>,
     w_processes = (\<lambda>_ _. Exited 0 ''c2'' []), w_ports = example_host, w_rnd = (\<lambda>_ n. n), w_id_bytes = (\<lambda>_. [1, 2, 3]),
     w_crypto = \<lparr>sha256 = (\<lambda>s. s), checkpw = (\<lambda>a b. a = b)\<rparr>,
     w_auth = \<lparr>t_users = [], t_sessions = [], t_api_tokens = []\<rparr>, w_ready = Inr True, w_min_free_mb = 0, w_disk_free = 0,
     w_port_start = 9000, w_port_end = 9000, w_provision = example_provision, w_cwd = ''/'', w_apps_dir = ''/apps'',
     w_listdir = [], w_rmtree = Inr (), w_copytree = Inr (), w_now = ''2026-01-01 00:00:00''\<rparr>"

section \<open>Properties\<close>



text \<open>A reload worker always ends, with its app committed as running or in error, whatever the new manifest,
  the build, the port resolution or the launch do, and no container it started is lost.\<close>

theorem reload_settles:
  assumes "select_app app db = Some r"
  shows "\<exists>s' q. reload_app_background W app rp (start_state db) = (Inr (), s')
    \<and> select_app app (ws_committed s') = Some q \<and> a_status q \<in> {Running, Error}
    \<and> set (containers_started (ws_effects s')) \<subseteq> set_option (a_container_id q) \<union> set (containers_removed (ws_effects s'))"
proof -
  obtain res s' where d: "reload_app_background W app rp (start_state db) = (res, s')"
    by force
  have "idle app [] (start_state db)"
    using assms by (simp add: idle_def row_present_def has_app_def since_def only_started_def containers_started_def)
  with reload_spec [of app "[]" W rp] d show ?thesis
    unfolding act_spec_def by (cases res) (fastforce simp: settled_def since_def accounted_def)+
qed

theorem reload_settles_witness:
  "\<exists>s' q. reload_app_background example_world ''AAAAAAAAAAAA'' ''/repo'' (start_state example_db) = (Inr (), s')
    \<and> select_app ''AAAAAAAAAAAA'' (ws_committed s') = Some q \<and> a_status q \<in> {Running, Error}"
  using reload_settles [of "''AAAAAAAAAAAA''" example_db example_row example_world "''/repo''"]
  by (auto simp: select_app_def sample_defs)

text \<open>Running an image either returns, with the new container recorded on a row that is running or in error,
  or raises, with the row in error under the exception's text and every container it started recorded or
  removed.\<close>

theorem run_app_image_outcome:
  assumes "select_app app db = Some r"
  shows "case run_app_image W fk app tag m env (start_state db) of
      (Inr u, s') \<Rightarrow> \<exists>q c. select_app app (ws_committed s') = Some q \<and> a_status q \<in> {Running, Error}
        \<and> a_container_id q = Some c \<and> set (containers_started (ws_effects s')) = {c}
    | (Inl e, s') \<Rightarrow> \<exists>q. select_app app (ws_committed s') = Some q \<and> a_status q = Error
        \<and> a_error_message q = Some (exn_text e)
        \<and> set (containers_started (ws_effects s')) \<subseteq> set_option (a_container_id q) \<union> set (containers_removed (ws_effects s'))"
proof -
  have "row_present app (start_state db) \<and> since [] (only_started {}) (start_state db)"
    using assms by (simp add: row_present_def has_app_def since_def only_started_def containers_started_def)
  with run_app_image_spec [of app "[]" W fk tag m env] show ?thesis
    unfolding act_spec_def launch_returned_def launch_raised_def since_def only_started_def accounted_def
    by (fastforce split: prod.splits sum.splits)
qed

theorem run_app_image_outcome_witness:
  "case run_app_image example_world True ''AAAAAAAAAAAA'' ''t'' example_app None (start_state example_db) of
      (Inr u, s') \<Rightarrow> \<exists>q. select_app ''AAAAAAAAAAAA'' (ws_committed s') = Some q \<and> a_status q \<in> {Running, Error}
    | (Inl e, s') \<Rightarrow> \<exists>q. select_app ''AAAAAAAAAAAA'' (ws_committed s') = Some q \<and> a_status q = Error"
proof -
  have "select_app ''AAAAAAAAAAAA'' example_db = Some example_row"
    by (simp add: select_app_def sample_defs)
  from run_app_image_outcome [OF this, of example_world True "''t''" example_app None] show ?thesis
    by (auto split: prod.splits sum.splits)
qed



text \<open>Removing an app always succeeds: whatever stopping, image removal and data removal do, the committed
  database afterwards is the old one with the app and every row that belongs to it deleted.\<close>

theorem remove_clears:
  assumes "select_app app db = Some r"
  shows "fst (remove_app_background W app kd (start_state db)) = Inr ()
    \<and> ws_committed (snd (remove_app_background W app kd (start_state db))) = delete_app_cascade app db"
  by (intro conjI remove_app_background_result [OF assms])

theorem remove_clears_witness:
  "t_apps (ws_committed (snd (remove_app_background example_world ''AAAAAAAAAAAA'' True (start_state example_db)))) = []"
  using remove_clears [of "''AAAAAAAAAAAA''" example_db example_row example_world True]
  by (simp add: select_app_def sample_defs delete_app_cascade_def)

text \<open>The id loop ends as soon as the generator yields an unused id, and its id is unused and well formed.\<close>

theorem mint_terminates:
  assumes "new_app_id (id_bytes k) \<notin> a_app_id ` set (t_apps db)"
  shows "\<exists>i \<le> k. mint_unique_app_id id_bytes db 0 = Some (new_app_id (id_bytes i))
    \<and> new_app_id (id_bytes i) \<notin> a_app_id ` set (t_apps db) \<and> is_valid_app_id (new_app_id (id_bytes i))"
  using mint_from [of id_bytes 0 k db] assms encode_base58_valid
  by (auto simp: select_app_None new_app_id_def)

theorem mint_terminates_witness: "\<exists>app. mint_unique_app_id (\<lambda>_. [1, 2, 3]) empty_db 0 = Some app"
proof -
  have "new_app_id ((\<lambda>_. [1, 2, 3]) (0::nat)) \<notin> a_app_id ` set (t_apps empty_db)"
    by (simp add: empty_db_def)
  from mint_terminates [where id_bytes = "\<lambda>_. [1, 2, 3]" and k = 0 and db = empty_db, OF this] show ?thesis
    by blast
qed

text \<open>No worker ever breaks the uniqueness of app ids, names, main ports, labels and host ports, neither in
  what it commits nor on the way.\<close>

theorem workers_keep_keys:
  assumes "db_keys_ok db"
  shows "db_keys_ok (ws_committed (snd (deploy_app_background W m rp app n env (start_state db))))
    \<and> db_keys_ok (ws_committed (snd (reload_app_background W app rp (start_state db))))
    \<and> db_keys_ok (ws_committed (snd (restart_app_process W fk app (start_state db))))"
  using assms
  by (intro conjI keepsD [THEN conjunct2, OF keys.keeps_deploy] keepsD [THEN conjunct2, OF keys.keeps_reload]
      keepsD [THEN conjunct2, OF keys.keeps_restart]) simp_all

theorem workers_keep_keys_witness:
  "db_keys_ok (ws_committed (snd (reload_app_background example_world ''AAAAAAAAAAAA'' ''/repo'' (start_state example_db))))"
  using workers_keep_keys [OF example_db_ok(1), of example_world example_app "''/repo''" "''AAAAAAAAAAAA''"] by simp


definition example_fresh_db :: database where
  "example_fresh_db = empty_db\<lparr>t_domains := example_domains\<rparr>"

lemma example_fresh:
  "check_before_deploy 0 0 = Inr ()" "allocate_port example_host example_fresh_db 9000 9000 = Inr 9000"
  "primary_domain example_fresh_db = Inr (mk_domain ''example.com'' True False)" "t_apps example_fresh_db = []"
  by code_simp+

lemma example_install:
  "\<exists>s'. install_rows example_world (example_app\<lparr>m_sqlite_dbs := VList []\<rparr>) ''notes'' ''/repo'' None [] 9000 app (start_state example_fresh_db) = (Inr (), s')"
  by (simp add: install_rows_def provision_env_def make_data_dirs_and_env_vars_def permanent_data_env_def archive_env_def
      sqlite_env_def act_defs Let_def example_fresh start_state_def example_world_def example_app_def example_provision_def
      resolve_port_mappings_def override_ports_def manifest_column_values_def py_int_def sql_bindable_def sql_text_def
      insert_app_def new_app_row_def store_app_token_def insert_sqlite_db_def insert_database_row_def
      register_services_provided_by_app_def update_conv' read_owner_username_def first_user_def example_fresh_db_def
      empty_db_def replace_app_token_def execute_def open_conn_def primary_domain_def primary_domain_or_none_def
      example_domains_def base_env_def)


end
