(* ===== verification/ArchiveApi.thy ===== *)
theory ArchiveApi
  imports LifecycleProps
begin

text \<open>
  \<open>web/routes/api/archive_backend.py\<close>: the configure route around \<open>configure_backend\<close>, with the quiescing
  and restarting of the apps that use the archive.  Then what a failed and a successful switch leave.
\<close>

section \<open>The request\<close>

definition volume_end :: "char \<Rightarrow> bool" where
  "volume_end c = (is_lower_alpha c \<or> is_digit c)"

definition S3_PREFIX_RE :: rx where
  "S3_PREFIX_RE = Seq (Sym volume_end) (Seq (Seq (Sym volume_char) (upto_copies 60 (Sym volume_char))) (Sym volume_end))"

definition normalise_s3_prefix :: "string option \<Rightarrow> string option result" where
  "normalise_s3_prefix raw =
     (case raw of
        None \<Rightarrow> Inr None
      | Some r \<Rightarrow>
          let cleaned = strip r
          in if cleaned = [] then Inr None
             else if \<not> re_match_anchored S3_PREFIX_RE cleaned
             then Inl (Exn ValueError (''s3_prefix must be 3-63 characters of [a-z0-9-] (lowercase only, ''
                    @ ''no leading/trailing dash); it doubles as the JuiceFS volume name.''))
             else Inr (Some cleaned))"

definition none_if_empty :: "string \<Rightarrow> string option" where
  "none_if_empty s = (if s = [] then None else Some s)"

record configure_request =
  cr_s3_bucket :: string
  cr_access_key_id :: string
  cr_secret_access_key :: string
  cr_region :: string
  cr_endpoint :: string
  cr_prefix :: string
  cr_volume_name :: string
  cr_confirm_migrate_local :: bool
  cr_confirm_migrate_s3 :: bool

datatype archive_refusal =
    RestartPending
  | ConfirmLocalRequired "string list"
  | ConfirmS3Required
  | InvalidPrefix string
  | OperationBusy
  | AlreadyConfigured string
  | ConfigureFailed string

text \<open>The checks of the route, up to the start of the worker, and what it passes on.\<close>

definition check_configure :: "bool \<Rightarrow> string list \<Rightarrow> configure_request \<Rightarrow> database \<Rightarrow> archive_refusal + s3_target" where
  "check_configure shutdown local_apps data db =
     (let state = read_state db
      in if shutdown then Inl RestartPending
         else if bs_backend state = ''local'' \<and> local_apps \<noteq> [] \<and> \<not> cr_confirm_migrate_local data
         then Inl (ConfirmLocalRequired local_apps)
         else if bs_backend state = ''s3'' \<and> \<not> cr_confirm_migrate_s3 data then Inl ConfirmS3Required
         else case normalise_s3_prefix (none_if_empty (cr_prefix data)) of
                Inl e \<Rightarrow> Inl (InvalidPrefix (exn_text e))
              | Inr pre \<Rightarrow>
                  Inr \<lparr>st_bucket = cr_s3_bucket data, st_region = none_if_empty (strip (cr_region data)),
                       st_endpoint = none_if_empty (strip (cr_endpoint data)), st_prefix = pre,
                       st_access_key_id = cr_access_key_id data, st_secret_access_key = cr_secret_access_key data,
                       st_volume_name = none_if_empty (strip (cr_volume_name data))\<rparr>)"

section \<open>The worker\<close>

text \<open>The list the quiesce callback appends to: an append is an effect, so it survives an exception.\<close>

fun appended_by :: "effect \<Rightarrow> string list" where
  "appended_by (Appended i) = [i]"
| "appended_by _ = []"

definition appended :: "effect list \<Rightarrow> string list" where
  "appended es = concat (map appended_by es)"

definition resume_apps :: "'v world \<Rightarrow> archive_host \<Rightarrow> unit act" where
  "resume_apps W H =
     act_bind (act_observe appended) (\<lambda>quiesced.
     act_bind (act_observe (ah_mounted H)) (\<lambda>mounted.
       if quiesced \<noteq> [] \<and> mounted then restart_apps_by_id W False quiesced else act_return ()))"

definition quiesce_apps :: "'v world \<Rightarrow> unit act" where
  "quiesce_apps W = act_bind (stop_running_archive_apps W) (\<lambda>_. act_return ())"

definition run_configure :: "'v world \<Rightarrow> archive_host \<Rightarrow> s3_target \<Rightarrow> unit act" where
  "run_configure W H target =
     act_bind (act_query read_state) (\<lambda>state.
       act_finally
         (configure_backend H target (if bs_backend state \<in> {''local'', ''s3''} then Some (quiesce_apps W) else None))
         (resume_apps W H))"

text \<open>
  The whole request: \<open>busy\<close> when another exclusive operation runs, \<open>pending\<close> when a restart was requested
  before the worker's turn.  An exception that is not a \<open>RuntimeError\<close> passes through; \<open>configure_backend\<close>
  raises none.
\<close>

definition configure_archive_backend ::
    "'v world \<Rightarrow> archive_host \<Rightarrow> bool \<Rightarrow> bool \<Rightarrow> bool \<Rightarrow> string list \<Rightarrow> configure_request \<Rightarrow> database
     \<Rightarrow> (archive_refusal + backend_state) \<times> database \<times> effect list" where
  "configure_archive_backend W H shutdown busy pending local_apps data db =
     (case check_configure shutdown local_apps data db of
        Inl e \<Rightarrow> (Inl e, db, [])
      | Inr target \<Rightarrow>
          if busy then (Inl OperationBusy, db, [])
          else if pending then (Inl RestartPending, db, [])
          else case run_configure W H target (start_state db) of
                 (Inl e, s) \<Rightarrow>
                   (Inl (if contains ''already configured'' (exn_text e) then AlreadyConfigured (exn_text e)
                         else ConfigureFailed (exn_text e)), ws_committed s, ws_effects s)
               | (Inr _, s) \<Rightarrow> (Inr (read_state (ws_committed s)), ws_committed s, ws_effects s))"

section \<open>What the parts keep and spare\<close>

text \<open>
  \<open>archive_in X\<close>: the archive row is one of \<open>X\<close>.  \<open>spares\<close>: an effect that deletes no object of the archive.
\<close>

definition archive_in :: "backend_state option set \<Rightarrow> database \<Rightarrow> bool" where
  "archive_in X db = (t_archive db \<in> X)"

fun spares :: "effect \<Rightarrow> bool" where
  "spares (DirRemoved d) = False"
| "spares (S3Deleted b ks) = False"
| "spares _ = True"

interpretation archive: row_invariant "archive_in X" for X
proof
  fix db db' i l pm pr ts ps and f :: "app_row \<Rightarrow> app_row"
  show "archive_in X db \<Longrightarrow> archive_in X (update_app i f db)"
    "archive_in X db \<Longrightarrow> archive_in X (db\<lparr>t_app_tokens := ts\<rparr>)" "archive_in X db \<Longrightarrow> archive_in X (db\<lparr>t_providers := ps\<rparr>)"
    "archive_in X db \<Longrightarrow> archive_in X (delete_port i l db)"
    by (simp_all add: archive_in_def update_app_def update_apps_def delete_port_def)
  show "archive_in X db \<Longrightarrow> update_port i pm db = Inr db' \<Longrightarrow> archive_in X db'"
    by (auto simp: update_port_def archive_in_def split: if_splits)
  show "archive_in X db \<Longrightarrow> insert_port pr db = Inr db' \<Longrightarrow> archive_in X db'"
    by (auto simp: insert_port_def archive_in_def split: if_splits)
qed

abbreviation sparing :: "'a act \<Rightarrow> bool" where
  "sparing m \<equiv> emits spares m"

lemma spares_ok [emits_intros]: "spares (DirMade d)" "spares (Ran argv a)" "spares (FileWritten f c)" "spares (FileAppended f c)"
    "spares (DirRenamed d d')" "spares (Appended i)"
  by simp_all

lemmas runs_only = checked_run_def ensure_installed_def systemctl_def service_state_def juicefs_sync_def
  reconfigure_volume_storage_def format_local_volume_def format_s3_volume_def write_env_file_def mount_def umount_def
  remount_def ensure_local_volume_formatted_def sync_objects_def sync_objects_s3_to_s3_def migrate_s3_to_s3_def
  migrate_local_to_s3_def

lemma keeps_mount [keeps_intros]: "keeps P (mount H a b)"
  and keeps_remount [keeps_intros]: "keeps P (remount H a b)"
  and keeps_umount [keeps_intros]: "keeps P (umount H)"
  and keeps_formatted [keeps_intros]: "keeps P (ensure_local_volume_formatted H v)"
  and keeps_installed [keeps_intros]: "keeps P (ensure_installed H)"
  and keeps_reconfigure [keeps_intros]: "keeps P (reconfigure_volume_storage H st bk a b)"
  and keeps_migrate_local [keeps_intros]: "keeps P (migrate_local_to_s3 H v t)"
  and keeps_migrate_s3 [keeps_intros]: "keeps P (migrate_s3_to_s3 H v src t)"
  and keeps_format_s3 [keeps_intros]: "keeps P (format_s3_volume H bucket region ep v)"
  unfolding runs_only Let_def by (intro keeps_intros)+

lemma sparing_mount [emits_intros]: "sparing (mount H a b)"
  and sparing_remount [emits_intros]: "sparing (remount H a b)"
  and sparing_umount [emits_intros]: "sparing (umount H)"
  and sparing_formatted [emits_intros]: "sparing (ensure_local_volume_formatted H v)"
  and sparing_installed [emits_intros]: "sparing (ensure_installed H)"
  and sparing_reconfigure [emits_intros]: "sparing (reconfigure_volume_storage H st bk a b)"
  and sparing_migrate_local [emits_intros]: "sparing (migrate_local_to_s3 H v t)"
  and sparing_migrate_s3 [emits_intros]: "sparing (migrate_s3_to_s3 H v src t)"
  and sparing_format_s3 [emits_intros]: "sparing (format_s3_volume H bucket region ep v)"
  unfolding runs_only Let_def by (intro emits_intros)+

lemma keeps_stop_rows [keeps_intros]: "keeps P (stop_archive_rows W rs rec sr)"
  by (induction rs arbitrary: rec sr) (auto simp: swallow_def is_container_running_def intro!: keeps_intros)

lemma keeps_quiesce [keeps_intros]: "keeps P (quiesce_apps W)"
  unfolding quiesce_apps_def stop_running_archive_apps_def by (intro keeps_intros)

lemma sparing_stop_rows [emits_intros]: "sparing (stop_archive_rows W rs rec sr)"
  by (induction rs arbitrary: rec sr)
    (auto simp: swallow_def is_container_running_def stop_app_process_def stop_container_def podman_kill_def intro!: emits_intros)

lemma sparing_quiesce [emits_intros]: "sparing (quiesce_apps W)"
  unfolding quiesce_apps_def stop_running_archive_apps_def by (intro emits_intros)

lemma sparing_append_log [emits_intros]: "sparing (append_log n t txt)"
  unfolding append_log_def Let_def by (intro emits_intros)

lemma sparing_restart [emits_intros]: "sparing (restart_app_process W fk i)"
  unfolding restart_app_process_def run_app_image_def prepare_launch_def launch_failed_def finish_launch_def Let_def
    provision_env_def make_data_dirs_and_env_vars_def permanent_data_env_def archive_env_def store_app_token_def
    mark_app_starting_def run_container_def stop_container_def podman_kill_def
  by (intro emits_intros)

lemma sparing_resume [emits_intros]: "sparing (resume_apps W H)"
  unfolding resume_apps_def restart_apps_by_id_def swallow_def by (intro emits_intros)

lemma keeps_resume: "keeps (archive_in X) (resume_apps W H)"
  unfolding resume_apps_def restart_apps_by_id_def swallow_def by (intro keeps_intros archive.keeps_restart)

lemma keeps_switch: "keeps P pause \<Longrightarrow> keeps P (switch_storage H (Some pause) st v t)"
  and keeps_switch_None: "keeps P (switch_storage H None st v t)"
  unfolding switch_storage_def Let_def by (auto intro!: keeps_intros)

lemma sparing_switch: "sparing pause \<Longrightarrow> sparing (switch_storage H (Some pause) st v t)"
  and sparing_switch_None: "sparing (switch_storage H None st v t)"
  unfolding switch_storage_def Let_def by (auto intro!: emits_intros)

section \<open>What a switch leaves\<close>

text \<open>The row \<open>a\<close> with any message: what every step before the final update keeps.\<close>

definition messages_of :: "backend_state option \<Rightarrow> backend_state option set" where
  "messages_of a = {map_option (\<lambda>r. r\<lparr>bs_state_message := m\<rparr>) a | m. True}"

lemma messages_self: "a \<in> messages_of a"
  unfolding messages_of_def by (cases a) (auto intro: exI [of _ "bs_state_message (the a)"])

lemma messages_closed: "x \<in> messages_of a \<Longrightarrow> map_option (\<lambda>r. r\<lparr>bs_state_message := m\<rparr>) x \<in> messages_of a"
  unfolding messages_of_def by (cases a) auto

lemma configured_of_message: "x \<in> messages_of a \<Longrightarrow> map_option (configured_row H v t) x = map_option (configured_row H v t) a"
  unfolding messages_of_def configured_row_def by (cases a) auto

lemma keeps_message: "keeps (archive_in (messages_of a)) (set_state_message m)"
  unfolding set_state_message_def
  by (intro keeps_intros keeps_exec) (simp add: archive_in_def update_archive_def messages_closed)

lemma keeps_restore: "keeps (archive_in (messages_of a)) (restore_storage H st)"
  unfolding restore_storage_def by (intro keeps_intros keeps_message)

lemma sparing_restore: "sparing (restore_storage H st)"
  unfolding restore_storage_def set_state_message_def by (intro emits_intros)

text \<open>What reclaiming may delete: the local store, or the objects of the volume in the bucket left behind.\<close>

fun reclaims :: "archive_host \<Rightarrow> backend_state \<Rightarrow> string \<Rightarrow> s3_target \<Rightarrow> effect \<Rightarrow> bool" where
  "reclaims H st v t (DirRemoved d) = (bs_backend st = ''local'' \<and> d = ah_store_dir H)"
| "reclaims H st v t (S3Deleted b ks) = (bs_backend st = ''s3'' \<and> b = or_text (bs_s3_bucket st) []
     \<and> \<not> (bs_s3_bucket st = Some (st_bucket t) \<and> (if bs_juicefs_volume_name st \<noteq> [] then bs_juicefs_volume_name st else DEFAULT_VOLUME_NAME) = v)
     \<and> (\<forall>k \<in> set ks. startswith k (strip (strip_slashes (strip v)) @ ''/'')))"
| "reclaims H st v t _ = True"

lemma spares_reclaims: "spares e \<Longrightarrow> reclaims H st v t e"
  by (cases e) auto

lemma reclaim_emits: "emits (reclaims H st v t) (reclaim_source H st v t)"
  unfolding reclaim_source_def remove_local_object_store_def remove_s3_object_prefix_def Let_def
  by (intro emits_intros) auto

lemma reclaim_keeps: "keeps P (reclaim_source H st v t)"
  unfolding reclaim_source_def remove_local_object_store_def remove_s3_object_prefix_def Let_def
  by (intro keeps_intros)

lemma reclaim_returns: "fst (reclaim_source H st v t s) = Inr ()"
  by (auto simp: reclaim_source_def remove_local_object_store_def remove_s3_object_prefix_def Let_def act_catch_def act_return_def
      split: prod.split sum.split)

definition effects_in :: "(effect \<Rightarrow> bool) \<Rightarrow> wstate \<Rightarrow> bool" where
  "effects_in p s = list_all p (ws_effects s)"

lemma emits_spec: "emits p m \<Longrightarrow> act_spec (effects_in p) m (\<lambda>_. effects_in p) (\<lambda>_. effects_in p)"
proof (rule act_specI)
  fix s
  assume "emits p m" and "effects_in p s"
  moreover obtain r s' where "m s = (r, s')" by force
  ultimately show "case m s of (Inr x, s') \<Rightarrow> effects_in p s' | (Inl e, s') \<Rightarrow> effects_in p s'"
    by (auto simp: effects_in_def dest!: emitsD split: sum.split)
qed

definition row_in :: "backend_state option set \<Rightarrow> wstate \<Rightarrow> bool" where
  "row_in X s = (archive_in X (ws_db s) \<and> archive_in X (ws_committed s))"

lemma row_spec: "keeps (archive_in X) m \<Longrightarrow> act_spec (row_in X) m (\<lambda>_. row_in X) (\<lambda>_. row_in X)"
  unfolding keeps_def row_in_def .

lemma steady_spec:
  assumes "keeps (archive_in X) m" and "emits p m"
  shows "act_spec (\<lambda>s. row_in X s \<and> effects_in p s) m (\<lambda>_ s. row_in X s \<and> effects_in p s) (\<lambda>_ s. row_in X s \<and> effects_in p s)"
  by (rule spec_conj [OF row_spec [OF assms(1)] emits_spec [OF assms(2)]])

lemma switch_body_spec:
  assumes "quiesce \<in> {None, Some (quiesce_apps W)}"
  shows "act_spec (\<lambda>s. row_in (messages_of a) s \<and> effects_in spares s)
    (act_then
       (act_catch
          (act_then (switch_storage H quiesce st v t) (act_then (act_exec (update_archive (configured_row H v t))) act_commit))
          (\<lambda>e. act_then (restore_storage H st) (act_raise (Exn RuntimeError (m @ exn_text e)))))
       (reclaim_source H st v t))
    (\<lambda>_ s. row_in {map_option (configured_row H v t) a} s \<and> effects_in (reclaims H st v t) s)
    (\<lambda>_ s. row_in (messages_of a) s \<and> effects_in spares s)"
proof (rule spec_then [where R = "\<lambda>s. row_in {map_option (configured_row H v t) a} s \<and> effects_in (reclaims H st v t) s"])
  let ?N = "\<lambda>s. row_in (messages_of a) s \<and> effects_in spares s"
  let ?D = "\<lambda>s. row_in {map_option (configured_row H v t) a} s \<and> effects_in (reclaims H st v t) s"
  have "act_spec ?D (reclaim_source H st v t) (\<lambda>_. ?D) (\<lambda>_. ?D)"
    by (rule steady_spec [OF reclaim_keeps reclaim_emits])
  then show "act_spec ?D (reclaim_source H st v t) (\<lambda>_. ?D) (\<lambda>_. ?N)"
    unfolding act_spec_def using reclaim_returns [of H st v t]
    by (fastforce split: prod.splits sum.splits simp: prod_eq_iff)
  have switch: "act_spec ?N (switch_storage H quiesce st v t) (\<lambda>_. ?N) (\<lambda>_. ?N)"
    using assms by (auto intro: steady_spec keeps_switch keeps_switch_None sparing_switch sparing_switch_None
        keeps_quiesce sparing_quiesce)
  have commit: "act_spec ?N (act_then (act_exec (update_archive (configured_row H v t))) act_commit) (\<lambda>_. ?D) (\<lambda>_. ?N)"
    by (auto simp: act_spec_def act_defs row_in_def archive_in_def effects_in_def update_archive_def ws_db_def ws_committed_def
        configured_of_message list_all_iff spares_reclaims)
  have handler: "act_spec ?N (act_then (restore_storage H st) (act_raise e)) Q (\<lambda>_. ?N)" for e and Q :: "unit \<Rightarrow> wstate \<Rightarrow> bool"
    by (rule spec_then [OF spec_raise steady_spec [OF keeps_restore sparing_restore]])
  show "act_spec ?N
    (act_catch
          (act_then (switch_storage H quiesce st v t) (act_then (act_exec (update_archive (configured_row H v t))) act_commit))
          (\<lambda>e. act_then (restore_storage H st) (act_raise (Exn RuntimeError (m @ exn_text e)))))
    (\<lambda>_. ?D) (\<lambda>_. ?N)"
    by (rule spec_catch [OF handler spec_then [OF commit switch]])
qed

lemma configure_spec:
  assumes "quiesce \<in> {None, Some (quiesce_apps W)}"
  shows "act_spec (\<lambda>s. s = start_state db) (configure_backend H t quiesce)
    (\<lambda>_ s. row_in {map_option (configured_row H (chosen_volume H (read_state db) t db) t) (t_archive db)} s
       \<and> effects_in (reclaims H (read_state db) (chosen_volume H (read_state db) t db) t) s)
    (\<lambda>_ s. row_in (messages_of (t_archive db)) s \<and> effects_in spares s)"
proof (rule act_specI)
  fix s
  assume s: "s = start_state db"
  let ?st = "read_state db" and ?v = "chosen_volume H (read_state db) t db"
  have pre: "row_in (messages_of (t_archive db)) s \<and> effects_in spares s"
    by (simp add: s row_in_def archive_in_def messages_self effects_in_def)
  show "case configure_backend H t quiesce s of
      (Inr x, s') \<Rightarrow> row_in {map_option (configured_row H ?v t) (t_archive db)} s' \<and> effects_in (reclaims H ?st ?v t) s'
    | (Inl e, s') \<Rightarrow> row_in (messages_of (t_archive db)) s' \<and> effects_in spares s'"
    using switch_body_spec [OF assms(1), unfolded act_spec_def, rule_format, OF pre,
        where H = H and v = ?v and t = t and st = ?st and m = "''Failed to configure S3 archive backend: ''"] pre
    unfolding configure_backend_def act_bind_def [of "act_query _"]
    by (auto simp: act_query_def act_raise_def s start_state_def open_conn_def)
qed

lemma swallow_returns: "fst (swallow m s) = Inr ()"
  by (cases "m s") (auto simp: swallow_def act_catch_def act_return_def split: sum.split)

lemma each_returns: "(\<And>x s. fst (f x s) = Inr ()) \<Longrightarrow> fst (act_each f xs s) = Inr ()"
  by (induction xs arbitrary: s)
    (auto simp: act_return_def act_then_def act_bind_def split: prod.split sum.split, metis fst_conv Inl_Inr_False)

lemma resume_returns: "fst (resume_apps W H s) = Inr ()"
  by (simp add: resume_apps_def restart_apps_by_id_def act_bind_def act_observe_def act_return_def each_returns swallow_returns)

lemma run_configure_spec:
  "act_spec (\<lambda>s. s = start_state db) (run_configure W H t)
    (\<lambda>_ s. row_in {map_option (configured_row H (chosen_volume H (read_state db) t db) t) (t_archive db)} s
       \<and> effects_in (reclaims H (read_state db) (chosen_volume H (read_state db) t db) t) s)
    (\<lambda>_ s. row_in (messages_of (t_archive db)) s \<and> effects_in spares s)"
proof -
  have q: "(if b then Some (quiesce_apps W) else None) \<in> {None, Some (quiesce_apps W)}" for b
    by simp
  show ?thesis
    unfolding run_configure_def
    apply (rule spec_bind [where R = "\<lambda>_ s. s = start_state db"])
     apply (rule spec_finally [OF configure_spec [OF q] resume_returns])
      apply (rule steady_spec [OF keeps_resume emits_weaken [OF sparing_resume spares_reclaims]])
      apply assumption
     apply (rule steady_spec [OF keeps_resume sparing_resume])
    apply (auto simp: act_spec_def act_query_def)
    done
qed

text \<open>C9: A switch of the archive to a bucket fails open.  When the request's worker raises, whatever step
  failed, the committed archive row names the storage it named before (at most its message changed), and no
  object of the archive was deleted: neither the local store nor a key of a bucket.\<close>

theorem configure_fail_open:
  assumes "run_configure W H t (start_state db) = (Inl e, s')"
  shows "(\<exists>m. t_archive (ws_committed s') = map_option (\<lambda>r. r\<lparr>bs_state_message := m\<rparr>) (t_archive db))
    \<and> list_all spares (ws_effects s')"
  using act_spec_Inl [OF run_configure_spec refl assms]
  by (simp add: row_in_def archive_in_def messages_of_def effects_in_def)

text \<open>A local archive of an instance with no apps, and a bucket; \<open>rc\<close> is what every command answers.\<close>

definition example_archive_host :: "int \<Rightarrow> archive_host" where
  "example_archive_host rc = \<lparr>ah_processes = (\<lambda>_ _. Exited rc [] []), ah_mounted = (\<lambda>_. True), ah_mounts = (\<lambda>_. True),
     ah_formatted = (\<lambda>_. True), ah_installed = True, ah_install = Inr (), ah_linux = True, ah_sysname = ''Linux'',
     ah_sha256 = (\<lambda>_. replicate 64 CHR ''0''), ah_now = ''2026-01-01T00:00:00Z'', ah_store_is_dir = True, ah_rmtree_store = Inr (),
     ah_s3_keys = (\<lambda>_ _. Inr []), ah_data_path = ''/data'', ah_mount_dir = ''/mnt'', ah_store_dir = ''/store'',
     ah_juicefs_version = ''1''\<rparr>"

definition example_archive_row :: backend_state where
  "example_archive_row = \<lparr>bs_backend = ''local'', bs_s3_bucket = None, bs_s3_region = None, bs_s3_endpoint = None,
     bs_s3_prefix = None, bs_s3_access_key_id = None, bs_s3_secret_access_key = None,
     bs_juicefs_volume_name = ''oh-x'', bs_configured_at = None, bs_state_message = None\<rparr>"

definition example_archive_db :: database where
  "example_archive_db = empty_db\<lparr>t_archive := Some example_archive_row\<rparr>"

definition example_target :: s3_target where
  "example_target = \<lparr>st_bucket = ''b'', st_region = None, st_endpoint = None, st_prefix = None,
     st_access_key_id = ''k'', st_secret_access_key = ''s'', st_volume_name = None\<rparr>"

lemma example_state [simp]: "read_state example_archive_db = example_archive_row" "t_apps example_archive_db = []"
    "t_archive example_archive_db = Some example_archive_row"
  by (simp_all add: read_state_def example_archive_db_def example_archive_row_def empty_db_def)

lemma example_volume [simp]: "chosen_volume H example_archive_row t db = ''oh-x''"
  by (simp add: chosen_volume_def example_archive_row_def DEFAULT_VOLUME_NAME_def)

lemmas archive_run = run_configure_def configure_backend_def switch_storage_def ensure_installed_def ensure_local_volume_formatted_def
  mount_def quiesce_apps_def stop_running_archive_apps_def migrate_local_to_s3_def sync_objects_def juicefs_sync_def
  restore_storage_def reconfigure_volume_storage_def resume_apps_def act_finally_def reclaim_source_def
  remove_local_object_store_def remount_def umount_def systemctl_def checked_run_def write_env_file_def set_state_message_def
  update_archive_def act_defs act_run_def start_state_def open_conn_def execute_def commit_def
  endpoint_is_insecure_http_def appended_def

lemma example_fails:
  "isl (fst (run_configure example_world (example_archive_host 1) example_target (start_state example_archive_db)))"
  by (simp add: archive_run Let_def example_archive_host_def example_archive_row_def example_target_def)

theorem configure_fail_open_witness:
  "\<exists>e s'. run_configure example_world (example_archive_host 1) example_target (start_state example_archive_db) = (Inl e, s')
    \<and> (\<exists>m. t_archive (ws_committed s') = Some (example_archive_row\<lparr>bs_state_message := m\<rparr>)) \<and> list_all spares (ws_effects s')"
  using configure_fail_open [of example_world "example_archive_host 1" example_target example_archive_db] example_fails
  by (cases "run_configure example_world (example_archive_host 1) example_target (start_state example_archive_db)")
    (auto simp: isl_def)

text \<open>The archive of an instance on a bucket keeps its volume name, so the two buckets differ.\<close>

fun reclaimable :: "archive_host \<Rightarrow> backend_state \<Rightarrow> string \<Rightarrow> s3_target \<Rightarrow> effect \<Rightarrow> bool" where
  "reclaimable H st v t (DirRemoved d) = (bs_backend st = ''local'' \<and> d = ah_store_dir H)"
| "reclaimable H st v t (S3Deleted b ks) = (bs_backend st = ''s3'' \<and> b = or_text (bs_s3_bucket st) []
     \<and> bs_s3_bucket st \<noteq> Some (st_bucket t) \<and> (\<forall>k \<in> set ks. startswith k (strip (strip_slashes (strip v)) @ ''/'')))"
| "reclaimable H st v t _ = True"

lemma reclaims_reclaimable: "reclaims H st (chosen_volume H st t db) t e \<Longrightarrow> reclaimable H st (chosen_volume H st t db) t e"
  by (cases e) (auto simp: chosen_volume_def Let_def)

text \<open>When the worker of a switch returns, the committed row is the requested one under the chosen volume
  name, and what was deleted is at most the local store (from a local archive) or keys under the volume's
  prefix in the bucket left behind, never in the bucket now in use.\<close>

theorem configure_switches:
  assumes "run_configure W H t (start_state db) = (Inr u, s')"
  shows "t_archive (ws_committed s') = map_option (configured_row H (chosen_volume H (read_state db) t db) t) (t_archive db)
    \<and> list_all (reclaimable H (read_state db) (chosen_volume H (read_state db) t db) t) (ws_effects s')"
  using act_spec_Inr [OF run_configure_spec refl assms]
  by (auto simp: row_in_def archive_in_def effects_in_def list_all_iff intro: reclaims_reclaimable)

lemma example_succeeds:
  "fst (run_configure example_world (example_archive_host 0) example_target (start_state example_archive_db)) = Inr ()"
  by (simp add: archive_run Let_def example_archive_host_def example_archive_row_def example_target_def)

theorem configure_switches_witness:
  "\<exists>s'. run_configure example_world (example_archive_host 0) example_target (start_state example_archive_db) = (Inr (), s')
    \<and> t_archive (ws_committed s') = Some (configured_row (example_archive_host 0) ''oh-x'' example_target example_archive_row)
    \<and> list_all (reclaimable (example_archive_host 0) example_archive_row ''oh-x'' example_target) (ws_effects s')"
  using configure_switches [of example_world "example_archive_host 0" example_target example_archive_db "()"] example_succeeds
  by (cases "run_configure example_world (example_archive_host 0) example_target (start_state example_archive_db)") auto

end
