(* ===== verification/ArchiveProps.thy ===== *)
theory ArchiveProps
  imports ArchiveApi
begin

text \<open>
  Further properties of the archive: which apps are stopped before objects are copied, attaching at
  startup, and the names of volumes.
\<close>

section \<open>Quiescing\<close>

definition archive_running :: "'v world \<Rightarrow> app_row \<Rightarrow> bool" where
  "archive_running W r = (a_status r = Running \<and> manifest_uses_archive (w_libs W) (or_empty (a_manifest_raw r)) = Inr True)"

definition inspect_argv :: "string \<Rightarrow> string list" where
  "inspect_argv c = [''podman'', ''inspect'', ''--format'', ''{{.State.Status}}'', c]"

fun says_running :: "proc \<Rightarrow> bool" where
  "says_running (Exited rc out err) = (rc = 0 \<and> strip out = ''running'')"
| "says_running _ = False"

text \<open>A question for the state of \<open>c\<close> was not answered with \<open>running\<close>.\<close>

definition seen_stopped :: "string \<Rightarrow> effect list \<Rightarrow> bool" where
  "seen_stopped c es = (\<exists>a. Ran (inspect_argv c) a \<in> set es \<and> \<not> says_running a)"

lemma seen_stopped_append: "seen_stopped c es \<Longrightarrow> seen_stopped c (es @ fs)"
  by (auto simp: seen_stopped_def)

lemma is_container_running_ends:
  "is_container_running host c s = (Inr (says_running (host (ws_effects s) (inspect_argv c))),
     s\<lparr>ws_effects := ws_effects s @ [Ran (inspect_argv c) (host (ws_effects s) (inspect_argv c))]\<rparr>)"
  by (cases "host (ws_effects s) (inspect_argv c)")
    (auto simp: is_container_running_def inspect_argv_def act_catch_def act_bind_def act_run_def act_return_def Let_def is_os_error_def)

lemma quiet_append: "emits (\<lambda>_. True) m \<Longrightarrow> m s = (r, s') \<Longrightarrow> \<exists>es. ws_effects s' = ws_effects s @ es"
  using emitsD by blast

lemma stop_rows_emit: "emits (\<lambda>_. True) (stop_archive_rows W rs rec sr)"
  by (rule emits_weaken [OF sparing_stop_rows]) simp

lemma stop_rows_outcome:
  "stop_archive_rows W rs recorded still s = (Inr (ids, left), s') \<Longrightarrow>
     ids = recorded @ map a_app_id (filter (archive_running W) rs) \<and> set still \<subseteq> set left
   \<and> (\<forall>r \<in> set rs. archive_running W r \<longrightarrow> (\<forall>c. a_container_id r = Some c \<longrightarrow> c \<noteq> [] \<longrightarrow>
        a_name r \<in> set left \<or> seen_stopped c (ws_effects s')))"
proof (induction rs arbitrary: recorded still s)
  case Nil
  then show ?case by (simp add: act_return_def)
next
  case (Cons r rs)
  let ?m = "manifest_uses_archive (w_libs W) (or_empty (a_manifest_raw r))"
  show ?case
  proof (cases "archive_running W r")
    case False
    then have "stop_archive_rows W rs recorded still s = (Inr (ids, left), s')"
      using Cons.prems
      by (cases "a_status r = Running"; cases ?m) (auto simp: archive_running_def act_bind_def act_lift_def split: if_splits)
    from Cons.IH [OF this] False show ?thesis by auto
  next
    case True
    then have m: "a_status r = Running" "?m = Inr True"
      by (simp_all add: archive_running_def)
    obtain sa where sa: "swallow (stop_app_process (w_processes W) r) s = (Inr (), sa)"
      by (metis prod.collapse swallow_returns)
    define sb where "sb = sa\<lparr>ws_effects := ws_effects sa @ [Appended (a_app_id r)]\<rparr>"
    define asked where "asked = (a_container_id r \<noteq> None \<and> a_container_id r \<noteq> Some [])"
    define q where "q = (if asked then is_container_running (w_processes W) (the (a_container_id r)) else act_return False)"
    have run: "act_bind q (\<lambda>running. stop_archive_rows W rs (recorded @ [a_app_id r])
        (if running then still @ [a_name r] else still)) sb = (Inr (ids, left), s')"
      using Cons.prems m sa
      by (simp add: act_bind_def [of "act_lift _"] act_lift_def act_then_def act_bind_def [of "swallow _"]
          act_bind_def [of "act_emit _"] act_emit_def sb_def q_def asked_def)
    obtain running s1 where q: "q sb = (Inr running, s1)"
      and 1: "stop_archive_rows W rs (recorded @ [a_app_id r])
          (if running then still @ [a_name r] else still) s1 = (Inr (ids, left), s')"
      using run by (auto simp: bind_Inr)
    have 2: "seen_stopped c (ws_effects s1)" if "a_container_id r = Some c" and "c \<noteq> []" and "\<not> running" for c
      using q that by (auto simp: q_def asked_def is_container_running_ends seen_stopped_def)
    obtain es where "ws_effects s' = ws_effects s1 @ es"
      using quiet_append [OF stop_rows_emit 1] by blast
    then show ?thesis
      using Cons.IH [OF 1] True 2 by (cases running) (auto intro: seen_stopped_append)
  qed
qed

text \<open>The apps stopped before a migration are exactly the running ones whose manifest uses the archive, in
  the order of their rows, and each of their containers was asked for and not reported as running; else
  the migration is called off by an exception.\<close>

theorem quiesce_exact:
  assumes "stop_running_archive_apps W s = (Inr ids, s')"
  shows "ids = map a_app_id (filter (archive_running W) (t_apps (ws_db s)))
    \<and> (\<forall>r \<in> set (t_apps (ws_db s)). \<forall>c. archive_running W r \<and> a_container_id r = Some c \<and> c \<noteq> [] \<longrightarrow> seen_stopped c (ws_effects s'))"
proof -
  obtain left s1 where "stop_archive_rows W (t_apps (ws_db s)) [] [] s = (Inr (ids, left), s1)" and "left = []" and "s1 = s'"
    using assms
    by (auto simp: stop_running_archive_apps_def bind_Inr act_query_def ws_db_def act_return_def act_raise_def split: if_splits)
  with stop_rows_outcome [of W "t_apps (ws_db s)" "[]" "[]" s ids left s1] show ?thesis
    by auto
qed

text \<open>
  An app that is starting, or that started without answering and is now in error, is not stopped, although
  its container runs and has the archive mounted.
\<close>

lemma only_running_quiesced:
  "(\<And>r. r \<in> set (t_apps (ws_db s)) \<Longrightarrow> a_status r \<noteq> Running) \<Longrightarrow> stop_running_archive_apps W s = (Inr [], s)"
proof -
  assume h: "\<And>r. r \<in> set (t_apps (ws_db s)) \<Longrightarrow> a_status r \<noteq> Running"
  have "\<forall>r \<in> set rs. a_status r \<noteq> Running \<Longrightarrow> stop_archive_rows W rs recorded still s = (Inr (recorded, still), s)" for rs recorded still
    by (induction rs) (auto simp: act_return_def)
  with h show ?thesis
    by (simp add: stop_running_archive_apps_def act_bind_def act_query_def act_return_def ws_db_def)
qed

definition example_archive_app :: app_row where
  "example_archive_app = example_row\<lparr>a_status := Running, a_container_id := Some ''c2'', a_manifest_raw := Some ''m''\<rparr>"

definition example_archive_world :: "string world" where
  "example_archive_world = example_world\<lparr>w_libs := example_libs\<lparr>toml_loads :=
     (\<lambda>_. Inr (VDict [(''data'', VDict [(''app_archive'', VBool True)])]))\<rparr>\<rparr>"

lemma example_uses_archive:
  "manifest_uses_archive (w_libs example_archive_world) (or_empty (a_manifest_raw example_archive_app)) = Inr True"
  by (simp add: example_archive_app_def example_archive_world_def manifest_uses_archive_def data_section_def flag_def
      accesses_all_def or_empty_def)

lemma example_quiesce:
  "\<exists>s'. stop_running_archive_apps example_archive_world (start_state (empty_db\<lparr>t_apps := [example_archive_app]\<rparr>))
     = (Inr [''AAAAAAAAAAAA''], s')"
proof -
  have r: "a_status example_archive_app = Running" "a_app_id example_archive_app = ''AAAAAAAAAAAA''"
    "a_container_id example_archive_app = Some ''c2''"
    by (simp_all add: example_archive_app_def example_row_def)
  have p: "w_processes example_archive_world = (\<lambda>_ _. Exited 0 ''c2'' [])"
    by (simp add: example_archive_world_def example_world_def)
  have w: "strip ''c2'' \<noteq> ''running''"
    by code_simp
  show ?thesis
    by (simp add: stop_running_archive_apps_def act_defs act_run_def start_state_def open_conn_def r example_uses_archive
        is_container_running_def swallow_def stop_app_process_def stop_container_def p Let_def w)
qed

theorem quiesce_exact_witness:
  "\<exists>s'. stop_running_archive_apps example_archive_world (start_state (empty_db\<lparr>t_apps := [example_archive_app]\<rparr>))
     = (Inr [''AAAAAAAAAAAA''], s')
   \<and> seen_stopped ''c2'' (ws_effects s')"
proof -
  obtain s' where run: "stop_running_archive_apps example_archive_world (start_state (empty_db\<lparr>t_apps := [example_archive_app]\<rparr>))
     = (Inr [''AAAAAAAAAAAA''], s')"
    using example_quiesce by blast
  have "archive_running example_archive_world example_archive_app" "a_container_id example_archive_app = Some ''c2''"
    by (simp_all add: archive_running_def example_uses_archive) (simp_all add: example_archive_app_def)
  with quiesce_exact [OF run] run show ?thesis
    by simp
qed

section \<open>Attaching at startup\<close>

lemma catch_returns: "(\<And>e s. fst (h e s) = Inr ()) \<Longrightarrow> fst (act_catch m h s) = Inr ()"
  by (auto simp: act_catch_def split: prod.split sum.split)

lemma message_returns: "fst (set_state_message m s) = Inr ()"
  by (simp add: set_state_message_def act_defs)

lemma attach_returns: "fst (attach_on_startup H s) = Inr ()"
proof -
  have "fst (attach_local H st s) = Inr ()" "fst (attach_s3 H st s) = Inr ()" for st
    unfolding attach_local_def attach_s3_def by (rule catch_returns, rule message_returns)+
  then show ?thesis
    by (simp add: attach_on_startup_def act_bind_def act_query_def message_returns act_return_def Let_def)
qed

text \<open>The rows startup may leave: the storage and its credentials are those of \<open>a\<close>.\<close>

definition attached_rows :: "backend_state option \<Rightarrow> backend_state option set" where
  "attached_rows a = {map_option (\<lambda>r. r\<lparr>bs_state_message := m, bs_juicefs_volume_name := v\<rparr>) a | m v. True}"

lemma attached_self: "a \<in> attached_rows a"
  unfolding attached_rows_def
  by (cases a) (auto intro!: exI [of _ "bs_state_message (the a)"] exI [of _ "bs_juicefs_volume_name (the a)"])

lemma row_updates:
  "r\<lparr>bs_state_message := m, bs_juicefs_volume_name := v\<rparr>\<lparr>bs_state_message := m'\<rparr> = r\<lparr>bs_state_message := m', bs_juicefs_volume_name := v\<rparr>"
  "r\<lparr>bs_state_message := m, bs_juicefs_volume_name := v\<rparr>\<lparr>bs_juicefs_volume_name := v'\<rparr> = r\<lparr>bs_state_message := m, bs_juicefs_volume_name := v'\<rparr>"
  for r :: backend_state
  by (cases r, simp)+

lemma attached_closed:
  assumes "x \<in> attached_rows a"
  shows "map_option (\<lambda>r. r\<lparr>bs_state_message := m'\<rparr>) x \<in> attached_rows a"
    and "map_option (\<lambda>r. r\<lparr>bs_juicefs_volume_name := v'\<rparr>) x \<in> attached_rows a"
proof -
  obtain m v where x: "x = map_option (\<lambda>r. r\<lparr>bs_state_message := m, bs_juicefs_volume_name := v\<rparr>) a"
    using assms by (auto simp: attached_rows_def)
  show "map_option (\<lambda>r. r\<lparr>bs_state_message := m'\<rparr>) x \<in> attached_rows a"
    "map_option (\<lambda>r. r\<lparr>bs_juicefs_volume_name := v'\<rparr>) x \<in> attached_rows a"
    unfolding x attached_rows_def option.map_comp comp_def row_updates by blast+
qed

lemma keeps_attach_message: "keeps (archive_in (attached_rows a)) (set_state_message m)"
  unfolding set_state_message_def
  by (intro keeps_intros keeps_exec) (simp add: archive_in_def update_archive_def attached_closed)

lemma keeps_attach_volume: "keeps (archive_in (attached_rows a)) (set_juicefs_volume_name v)"
  unfolding set_juicefs_volume_name_def
  by (intro keeps_intros keeps_exec) (simp add: archive_in_def update_archive_def attached_closed)

lemma keeps_attach: "keeps (archive_in (attached_rows a)) (attach_on_startup H)"
  unfolding attach_on_startup_def attach_local_def attach_s3_def
  by (intro keeps_intros keeps_attach_message keeps_attach_volume)

lemma sparing_attach: "sparing (attach_on_startup H)"
  unfolding attach_on_startup_def attach_local_def attach_s3_def set_state_message_def set_juicefs_volume_name_def
  by (intro emits_intros)

text \<open>Attaching the archive at startup always returns, whatever its commands answer; the committed row keeps
  its storage and credentials (at most its message and volume name change), and nothing is deleted.\<close>

theorem attach_on_startup_total:
  "\<exists>s'. attach_on_startup H (start_state db) = (Inr (), s')
    \<and> (\<exists>m v. t_archive (ws_committed s') = map_option (\<lambda>r. r\<lparr>bs_state_message := m, bs_juicefs_volume_name := v\<rparr>) (t_archive db))
    \<and> list_all spares (ws_effects s')"
proof -
  obtain s' where s': "attach_on_startup H (start_state db) = (Inr (), s')"
    using attach_returns by (metis prod.collapse)
  have "archive_in (attached_rows (t_archive db)) (ws_committed s')"
    using keepsD [OF keeps_attach, of "t_archive db" "start_state db" H] by (simp add: s' archive_in_def attached_self)
  moreover have "list_all spares (ws_effects s')"
    using emitsD [OF sparing_attach s'] by auto
  ultimately show ?thesis
    using s' by (auto simp: archive_in_def attached_rows_def)
qed

section \<open>Volume names\<close>

lemma volume_re:
  "volume_end a \<Longrightarrow> volume_end b \<Longrightarrow> (\<forall>c \<in> set m. volume_char c) \<Longrightarrow> m \<noteq> [] \<Longrightarrow> length m \<le> 61 \<Longrightarrow>
   re_match_anchored S3_PREFIX_RE (a # m @ [b])"
proof -
  assume h: "volume_end a" "volume_end b" "\<forall>c \<in> set m. volume_char c" "m \<noteq> []" "length m \<le> 61"
  then obtain c w where m: "m = [c] @ w" "lang (Sym volume_char) [c]" "lang (upto_copies 60 (Sym volume_char)) w"
    by (cases m) (auto simp: lang_upto_sym)
  then have "lang (Seq (Sym volume_char) (upto_copies 60 (Sym volume_char))) m"
    unfolding lang.simps(3) by blast
  then have "lang S3_PREFIX_RE ([a] @ m @ [b])"
    using h(1,2) unfolding S3_PREFIX_RE_def lang.simps by blast
  then show ?thesis
    by (simp add: re_match_anchored_def rx_matches_lang)
qed

lemma sub_runs_chars: "(\<And>c. c \<in> set s \<Longrightarrow> \<not> p c \<Longrightarrow> volume_char c) \<Longrightarrow> c \<in> set (sub_runs p b s) \<Longrightarrow> volume_char c"
  by (induction p b s rule: sub_runs.induct) (auto simp: volume_char_def split: if_splits)

lemma strip_dashes_subset: "set (strip_dashes s) \<subseteq> set s"
  unfolding strip_dashes_def rstrip_if_def by (auto dest!: set_dropWhileD)

lemma length_strip_dashes: "length (strip_dashes s) \<le> length s"
  unfolding strip_dashes_def rstrip_if_def length_rev
  by (rule le_trans [OF length_dropWhile_le]) (simp add: length_dropWhile_le)

lemma slug_chars: "c \<in> set (volume_slug zone) \<Longrightarrow> volume_char c"
proof -
  let ?s = "strip_dashes (sub_runs (\<lambda>c. \<not> volume_char c) False zone)"
  have "volume_char d" if "d \<in> set ?s" for d
    using that strip_dashes_subset sub_runs_chars [of zone "\<lambda>c. \<not> volume_char c" d False] by blast
  then show "c \<in> set (volume_slug zone) \<Longrightarrow> volume_char c"
    unfolding volume_slug_def by (rule sub_runs_chars [of ?s])
qed

lemma dropWhile_id: "xs = [] \<or> \<not> p (hd xs) \<Longrightarrow> dropWhile p xs = xs"
  by (cases xs) auto

lemma strip_dashes_id: "s \<noteq> [] \<Longrightarrow> hd s \<noteq> CHR ''-'' \<Longrightarrow> last s \<noteq> CHR ''-'' \<Longrightarrow> strip_dashes s = s"
  unfolding strip_dashes_def rstrip_if_def by (simp add: dropWhile_id hd_rev)

text \<open>The digest \<open>hashlib.sha256(zone).hexdigest()\<close>: 64 lower-case hexadecimal digits.\<close>

definition hex_digest :: "string \<Rightarrow> bool" where
  "hex_digest d = (length d = 64 \<and> (\<forall>c \<in> set d. is_digit c \<or> (is_lower_alpha c \<and> code c \<le> 102)))"

lemma hex_volume_end: "hex_digest d \<Longrightarrow> c \<in> set d \<Longrightarrow> volume_end c"
  by (auto simp: hex_digest_def volume_end_def)

lemma volume_end_char: "volume_end c \<Longrightarrow> volume_char c"
  by (auto simp: volume_end_def volume_char_def)

lemma volume_end_dash: "volume_end c \<Longrightarrow> c \<noteq> CHR ''-''"
  by (auto simp: volume_end_def is_lower_alpha_def is_digit_def code_def)

lemma named_volume:
  assumes "set mid \<subseteq> {c. volume_char c}" and "length mid \<le> 53" and "length d = 8" and "\<forall>c \<in> set d. volume_end c"
  shows "strip_dashes (take VOLUME_NAME_MAX (''oh'' @ mid @ d)) = ''oh'' @ mid @ d"
    and "re_match_anchored S3_PREFIX_RE (''oh'' @ mid @ d)"
proof -
  obtain d0 x where d: "d = d0 @ [x]"
    using assms(3) by (cases d rule: rev_cases) auto
  have x: "volume_end x" and d0: "\<forall>c \<in> set d0. volume_char c"
    using assms(4) by (auto simp: d volume_end_char)
  show "strip_dashes (take VOLUME_NAME_MAX (''oh'' @ mid @ d)) = ''oh'' @ mid @ d"
    using assms(2,3) x by (simp add: VOLUME_NAME_MAX_def strip_dashes_id d volume_end_dash)
  have "volume_end CHR ''o''" "volume_char CHR ''h''"
    by (simp_all add: volume_end_def volume_char_def is_lower_alpha_def code_def)
  then have "re_match_anchored S3_PREFIX_RE (CHR ''o'' # (CHR ''h'' # mid @ d0) @ [x])"
    using assms x d0 by (intro volume_re) (auto simp: d)
  then show "re_match_anchored S3_PREFIX_RE (''oh'' @ mid @ d)"
    by (simp add: d)
qed

text \<open>The volume name made up for a zone is always one the configure route would accept: 3 to 63 characters
  of lower-case letters, digits and dashes, with no dash at either end, whatever the zone is.  It is never
  the legacy shared name.\<close>

theorem volume_name_valid:
  assumes "\<And>z. hex_digest (sha z)"
  shows "re_match_anchored S3_PREFIX_RE (default_volume_name_for_zone sha db)
    \<and> length (default_volume_name_for_zone sha db) \<le> VOLUME_NAME_MAX
    \<and> default_volume_name_for_zone sha db \<noteq> DEFAULT_VOLUME_NAME"
proof -
  define zone where "zone = (case primary_domain_or_none db of None \<Rightarrow> [] | Some d \<Rightarrow> name_no_port d)"
  define d where "d = (if zone \<noteq> [] then take 8 (sha zone) else ''00000000'')"
  define front where "front = strip_dashes (take (VOLUME_NAME_MAX - length d - 4) (volume_slug zone))"
  define mid where "mid = (if front \<noteq> [] then ''-'' @ front @ ''-'' else ''-'')"
  have d: "length d = 8" "\<forall>c \<in> set d. volume_end c"
    using assms [of zone] hex_volume_end [OF assms]
    by (auto simp: d_def hex_digest_def volume_end_def is_digit_def code_def dest!: in_set_takeD)
  have "length front \<le> 51"
    unfolding front_def using length_strip_dashes [of "take 51 (volume_slug zone)"] by (simp add: VOLUME_NAME_MAX_def d)
  moreover have "set front \<subseteq> {c. volume_char c}"
    unfolding front_def using strip_dashes_subset slug_chars by (blast dest: in_set_takeD)
  ultimately have mid: "length mid \<le> 53" "set mid \<subseteq> {c. volume_char c}"
    by (auto simp: mid_def volume_char_def)
  have "default_volume_name_for_zone sha db = strip_dashes (take VOLUME_NAME_MAX (''oh'' @ mid @ d))"
    using named_volume(1) [OF mid(2,1) d]
    unfolding default_volume_name_for_zone_def Let_def zone_def [symmetric] d_def [symmetric] front_def [symmetric]
    by (auto simp: mid_def)
  then have "default_volume_name_for_zone sha db = ''oh'' @ mid @ d"
    using named_volume(1) [OF mid(2,1) d] by simp
  then show ?thesis
    using named_volume(2) [OF mid(2,1) d] mid(1) d(1)
    by (auto simp: VOLUME_NAME_MAX_def DEFAULT_VOLUME_NAME_def mid_def)
qed

theorem volume_name_valid_witness:
  "re_match_anchored S3_PREFIX_RE (default_volume_name_for_zone (\<lambda>_. replicate 64 CHR ''a'') example_fresh_db)"
  using volume_name_valid [of "\<lambda>_. replicate 64 CHR ''a''" example_fresh_db]
  by (simp add: hex_digest_def is_lower_alpha_def code_def)

section \<open>The legacy volume name\<close>

text \<open>
  A local archive formatted under the legacy shared name is given a new name before its objects are copied.
  The objects lie under \<open>openhost/\<close> in the store, but the copy reads the directory of the new name; then
  the store is removed.
\<close>

definition legacy_archive_db :: database where
  "legacy_archive_db = empty_db\<lparr>t_archive := Some (example_archive_row\<lparr>bs_juicefs_volume_name := DEFAULT_VOLUME_NAME\<rparr>)\<rparr>"

definition legacy_target :: s3_target where
  "legacy_target = example_target\<lparr>st_prefix := Some ''oh-new''\<rparr>"

fun sync_source :: "effect \<Rightarrow> string list" where
  "sync_source (Ran argv a) = (if argv ! 2 = ''sync'' then [argv ! 4] else [])"
| "sync_source _ = []"

theorem legacy_migration_reads_new_name:
  "\<exists>s'. run_configure example_world (example_archive_host 0) legacy_target (start_state legacy_archive_db) = (Inr (), s')
    \<and> concat (map sync_source (ws_effects s')) = [''/store/oh-new/'']
    \<and> DirRemoved ''/store'' \<in> set (ws_effects s')"
proof -
  have r: "read_state legacy_archive_db = example_archive_row\<lparr>bs_juicefs_volume_name := ''openhost''\<rparr>" "t_apps legacy_archive_db = []"
    by (simp_all add: legacy_archive_db_def read_state_def empty_db_def DEFAULT_VOLUME_NAME_def)
  have v: "chosen_volume H (example_archive_row\<lparr>bs_juicefs_volume_name := ''openhost''\<rparr>) legacy_target db = ''oh-new''" for H db
    by (simp add: chosen_volume_def Let_def example_archive_row_def legacy_target_def example_target_def or_text_def DEFAULT_VOLUME_NAME_def)
  have src: "local_sync_source (example_archive_host 0) ''oh-new'' = ''/store/oh-new/''"
    by code_simp
  have h: "ah_processes (example_archive_host 0) = (\<lambda>_ _. Exited 0 [] [])" "ah_mounted (example_archive_host 0) = (\<lambda>_. True)"
    "ah_formatted (example_archive_host 0) = (\<lambda>_. True)" "ah_installed (example_archive_host 0)"
    "ah_store_is_dir (example_archive_host 0)" "ah_rmtree_store (example_archive_host 0) = Inr ()"
    "ah_store_dir (example_archive_host 0) = ''/store''" "ah_mounts (example_archive_host 0) = (\<lambda>_. True)"
    by (simp_all add: example_archive_host_def)
  have b: "bs_backend (example_archive_row\<lparr>bs_juicefs_volume_name := ''openhost''\<rparr>) = ''local''" "st_endpoint legacy_target = None"
    by (simp_all add: example_archive_row_def legacy_target_def example_target_def)
  show ?thesis
    by (simp add: archive_run Let_def r v src h b)
qed

end
