(* ===== verification/GitOps.thy ===== *)
theory GitOps
  imports Lifecycle
begin

text \<open>
  \<open>core/git_ops.py\<close>, \<open>core/oauth.py\<close> and the functions of \<open>core/apps.py\<close> that fetch code: repository URLs
  and their \<open>@ref\<close> suffix, cloning, pulling, and the token that authenticates them.  \<open>git\<close> is a command;
  what the \<open>GitPython\<close> package answers about a checkout is a parameter.
\<close>

section \<open>URLs\<close>

record split_url =
  us_scheme :: string
  us_netloc :: string
  us_path :: string
  us_params :: string
  us_query :: string
  us_fragment :: string

text \<open>\<open>urllib.parse.urlparse\<close>: control characters are dropped, then the parts are cut off one by one.\<close>

definition clean_url :: "string \<Rightarrow> string" where
  "clean_url raw = filter (\<lambda>c. code c \<notin> {9, 10, 13}) (dropWhile (\<lambda>c. code c \<le> 32) raw)"

definition has_scheme :: "string \<Rightarrow> bool" where
  "has_scheme url = (CHR '':'' \<in> set url \<and> before CHR '':'' url \<noteq> [] \<and> is_lower_alpha (lower_char (hd url))
     \<and> list_all is_scheme_char (before CHR '':'' url))"

definition uses_params :: "string list" where
  "uses_params = [[], ''ftp'', ''hdl'', ''prospero'', ''http'', ''https'', ''shttp'', ''rtsp'', ''rtsps'', ''sip'', ''sips'', ''mms'',
     ''sftp'', ''tel'']"

text \<open>The parameters start at the first \<open>;\<close> of the last path segment.\<close>

definition split_params :: "string \<Rightarrow> string \<times> string" where
  "split_params url =
     (let i = (if CHR ''/'' \<in> set url then length url - length (after_last CHR ''/'' url) - 1 else 0);
          tail = drop i url
      in if CHR '';'' \<in> set tail then (take i url @ before CHR '';'' tail, after_first CHR '';'' tail) else (url, []))"

definition urlparse :: "(string \<Rightarrow> bool) \<Rightarrow> string \<Rightarrow> split_url result" where
  "urlparse bracketed_ok raw =
     (let url = clean_url raw;
          proto = (if has_scheme url then lower (before CHR '':'' url) else []);
          rest = (if has_scheme url then after_first CHR '':'' url else url);
          netloc = (if prefix ''//'' rest
                    then takeWhile (\<lambda>c. c \<notin> {CHR ''/'', CHR ''?'', CHR ''#''}) (drop 2 rest) else []);
          rest1 = (if prefix ''//'' rest then drop (2 + length netloc) rest else rest);
          (rest2, fragment) = (before CHR ''#'' rest1, after_first CHR ''#'' rest1);
          (rest3, query) = (before CHR ''?'' rest2, after_first CHR ''?'' rest2);
          (path, params) = (if proto \<in> set uses_params then split_params rest3 else (rest3, []))
      in if (CHR ''['' \<in> set netloc) \<noteq> (CHR '']'' \<in> set netloc) \<or> (CHR ''['' \<in> set netloc \<and> \<not> bracketed_ok netloc)
         then Inl (Exn ValueError ''Invalid IPv6 URL'')
         else Inr \<lparr>us_scheme = proto, us_netloc = netloc, us_path = path, us_params = params, us_query = query,
                us_fragment = fragment\<rparr>)"

definition uses_netloc :: "string list" where
  "uses_netloc = [[], ''ftp'', ''http'', ''gopher'', ''nntp'', ''telnet'', ''imap'', ''wais'', ''file'', ''mms'', ''https'', ''shttp'',
     ''snews'', ''prospero'', ''rtsp'', ''rtsps'', ''rtspu'', ''rsync'', ''svn'', ''svn+ssh'', ''sftp'', ''nfs'', ''git'', ''git+ssh'',
     ''ws'', ''wss'', ''itms-services'']"

definition geturl :: "split_url \<Rightarrow> string" where
  "geturl u =
     (let url = (if us_params u \<noteq> [] then us_path u @ '';'' @ us_params u else us_path u);
          url = (if us_netloc u \<noteq> [] then ''//'' @ us_netloc u @ (if url \<noteq> [] \<and> hd url \<noteq> CHR ''/'' then CHR ''/'' # url else url)
                 else if prefix ''//'' url then ''//'' @ url
                 else if us_scheme u \<noteq> [] \<and> us_scheme u \<in> set uses_netloc \<and> (url = [] \<or> hd url = CHR ''/'') then ''//'' @ url
                 else url);
          url = (if us_scheme u \<noteq> [] then us_scheme u @ '':'' @ url else url);
          url = (if us_query u \<noteq> [] then url @ ''?'' @ us_query u else url)
      in if us_fragment u \<noteq> [] then url @ ''#'' @ us_fragment u else url)"

definition us_hostname :: "split_url \<Rightarrow> string" where
  "us_hostname u = lower_host (fst (host_info (us_netloc u)))"

definition us_port :: "split_url \<Rightarrow> int option result" where
  "us_port u =
     (let port = snd (host_info (us_netloc u))
      in if port = [] then Inr None
         else if \<not> list_all is_digit port then Inl (Exn ValueError ''Port could not be cast to integer value'')
         else if digits_value port > 65535 then Inl (Exn ValueError ''Port out of range 0-65535'')
         else Inr (Some (digits_value port)))"

section \<open>Repository URLs\<close>

definition KNOWN_SCHEMES :: "string set" where
  "KNOWN_SCHEMES = {''http'', ''https'', ''ssh'', ''git'', ''file''}"

definition scp_style_ssh :: "string \<Rightarrow> bool" where
  "scp_style_ssh s =
     (let user = takeWhile (\<lambda>c. c \<noteq> CHR ''/'' \<and> c \<noteq> CHR ''@'') s; rest = drop (length user) s;
          host = takeWhile (\<lambda>c. c \<noteq> CHR ''/'' \<and> c \<noteq> CHR '':'') (tl rest)
      in user \<noteq> [] \<and> prefix ''@'' rest \<and> host \<noteq> [] \<and> prefix '':'' (drop (length host) (tl rest)))"

definition SSH_URL_ERROR :: string where
  "SSH_URL_ERROR = ''SSH git URLs are not supported (e.g. '' @ squote ''git@github.com:user/repo.git'' @ '' or ''
     @ squote ''ssh://git@github.com/user/repo.git'' @ ''). Please use the HTTPS clone URL ''
     @ ''instead, e.g. '' @ squote ''https://github.com/user/repo.git'' @ ''.''"

definition is_ssh_url :: "(string \<Rightarrow> bool) \<Rightarrow> string \<Rightarrow> bool result" where
  "is_ssh_url ok repo_url =
     rbind (urlparse ok repo_url) (\<lambda>u. Inr (us_scheme u = ''ssh'' \<or> scp_style_ssh repo_url))"

definition parse_known :: "(string \<Rightarrow> bool) \<Rightarrow> string \<Rightarrow> (string \<times> split_url) result" where
  "parse_known ok repo_url =
     rbind (urlparse ok repo_url) (\<lambda>u.
       if us_scheme u \<notin> KNOWN_SCHEMES
       then rbind (urlparse ok (''https://'' @ repo_url)) (\<lambda>v. Inr (''https://'' @ repo_url, v))
       else Inr (repo_url, u))"

definition repo_url_hostname :: "(string \<Rightarrow> bool) \<Rightarrow> string \<Rightarrow> string result" where
  "repo_url_hostname ok repo_url = rbind (parse_known ok repo_url) (\<lambda>(_, u). Inr (lower (us_hostname u)))"

definition is_github_repo_url :: "(string \<Rightarrow> bool) \<Rightarrow> string \<Rightarrow> bool result" where
  "is_github_repo_url ok repo_url =
     rbind (repo_url_hostname ok repo_url) (\<lambda>host. Inr (host = ''github.com'' \<or> endswith host ''.github.com''))"

text \<open>\<open>path.rsplit("@", 1)\<close>.\<close>

definition parse_repo_url :: "(string \<Rightarrow> bool) \<Rightarrow> string \<Rightarrow> (string \<times> string option) result" where
  "parse_repo_url ok repo_url =
     rbind (is_ssh_url ok repo_url) (\<lambda>ssh.
       if ssh then Inl (Exn ValueError SSH_URL_ERROR)
       else rbind (parse_known ok repo_url) (\<lambda>(url, u).
         let path = us_path u
         in if CHR ''@'' \<in> set path
            then let ref = after_last CHR ''@'' path; base_path = take (length path - length ref - 1) path
                 in Inr (geturl (u\<lparr>us_path := base_path\<rparr>), Some ref)
            else Inr (url, None)))"

definition github_token_git_config :: "string option \<Rightarrow> string list" where
  "github_token_git_config token =
     (if token = None \<or> token = Some [] then []
      else [''-c'', ''url.https://'' @ the token @ ''@github.com/.insteadOf=https://github.com/''])"

definition inject_github_token_in_url :: "(string \<Rightarrow> bool) \<Rightarrow> string \<Rightarrow> string \<Rightarrow> string result" where
  "inject_github_token_in_url ok url token =
     rbind (urlparse ok url) (\<lambda>u.
       if us_scheme u \<in> {''http'', ''https''} \<and> us_hostname u \<noteq> []
       then rbind (us_port u) (\<lambda>port.
         let host_port = (case port of None \<Rightarrow> us_hostname u
                          | Some p \<Rightarrow> if p = 0 then us_hostname u else us_hostname u @ '':'' @ show_int p)
         in Inr (geturl (u\<lparr>us_netloc := token @ ''@'' @ host_port\<rparr>)))
       else Inr url)"

text \<open>\<open>netloc.rpartition("@")\<close>: the user information, with the password after its first colon.\<close>

definition strip_credentials :: "(string \<Rightarrow> bool) \<Rightarrow> string \<Rightarrow> string result" where
  "strip_credentials ok url =
     rbind (urlparse ok url) (\<lambda>u.
       let userinfo = take (length (us_netloc u) - length (after_last CHR ''@'' (us_netloc u)) - 1) (us_netloc u)
       in if CHR ''@'' \<in> set (us_netloc u) \<and> userinfo \<notin> {[], '':''}
          then rbind (us_port u) (\<lambda>port.
            let host_port = (case port of None \<Rightarrow> us_hostname u
                             | Some p \<Rightarrow> if p = 0 then us_hostname u else us_hostname u @ '':'' @ show_int p)
            in Inr (geturl (u\<lparr>us_netloc := host_port\<rparr>)))
          else Inr url)"

definition strip_slash :: "string \<Rightarrow> string" where
  "strip_slash s = rstrip_if (\<lambda>c. c = CHR ''/'') (dropWhile (\<lambda>c. c = CHR ''/'') s)"

text \<open>\<open>urllib.parse.quote(branch)\<close> leaves slashes alone.\<close>

definition github_web_url_from_remote_url :: "(string \<Rightarrow> bool) \<Rightarrow> string \<Rightarrow> string option \<Rightarrow> string option result" where
  "github_web_url_from_remote_url ok remote_url branch =
     rbind (is_github_repo_url ok remote_url) (\<lambda>github.
       if \<not> github then Inr None
       else rbind (if scp_style_ssh remote_url then Inr (after_first CHR '':'' remote_url)
                   else rbind (parse_known ok remote_url) (\<lambda>(_, u). Inr (us_path u))) (\<lambda>path.
         let path = removesuffix ''.git'' (strip_slash path)
         in if path = [] then Inr None
            else let url = ''https://github.com/'' @ path
                 in Inr (Some (case branch of None \<Rightarrow> url
                      | Some b \<Rightarrow> if b = [] then url
                                  else url @ ''/tree/'' @ concat (map (\<lambda>c. if c = CHR ''/'' then [c] else url_quote [c]) b)))))"

section \<open>The OAuth token\<close>

text \<open>
  What the OAuth provider answers to a POST.  \<open>resp.json()\<close> is evaluated before the status is looked at,
  and raises for a body that is not JSON.
\<close>

datatype http_answer = NoAnswer string | Answer int "pyval result" string

definition OAUTH_SERVICE_URL :: string where
  "OAUTH_SERVICE_URL = ''github.com/imbue-openhost/openhost/services/oauth''"

definition str_item :: "pyval \<Rightarrow> string \<Rightarrow> string result" where
  "str_item d key =
     (case d of
        VDict kvs \<Rightarrow> (case map_of kvs key of
            None \<Rightarrow> Inl (Exn KeyError key)
          | Some (VStr t) \<Rightarrow> Inr t
          | Some v \<Rightarrow> Inl (Exn TypeError ''expected str''))
      | v \<Rightarrow> Inl (Exn TypeError ''indices must be integers''))"

definition get_oauth_token ::
    "'v::linorder libs \<Rightarrow> (resolved_provider \<Rightarrow> string \<Rightarrow> http_answer) \<Rightarrow> string \<Rightarrow> database \<Rightarrow> string result" where
  "get_oauth_token L post return_to db =
     rbind (resolve_provider BUILTIN_SERVICES L OAUTH_SERVICE_URL (VStr ''>=0'') db None) (\<lambda>p.
       case post p return_to of
         NoAnswer m \<Rightarrow> Inl (Exn RuntimeError (''OAuth service is not responding: '' @ m))
       | Answer status body txt \<Rightarrow>
           rbind body (\<lambda>data.
             if status = 200 then str_item data ''access_token''
             else if status = 401
             then rbind (dict_get data ''status'' VNone) (\<lambda>v.
               if v = VStr ''authorization_required''
               then rbind (str_item data ''authorize_url'') (\<lambda>u. Inl (Exn OAuthRequired u))
               else Inl (Exn RuntimeError (''OAuth service returned unexpected status '' @ show_int status @ '': '' @ txt)))
             else Inl (Exn RuntimeError (''OAuth service returned unexpected status '' @ show_int status @ '': '' @ txt))))"

section \<open>Cloning\<close>

text \<open>
  The outside of the code that fetches sources: commands, the file system after the effects so far, the
  temporary directory, and \<open>GitPython\<close>'s answers about a checkout.
\<close>

record git_world =
  gw_processes :: processes
  gw_bracketed :: "string \<Rightarrow> bool"
  gw_fs :: "effect list \<Rightarrow> filesystem"
  gw_tmp_parent :: string
  gw_copytree :: "string \<Rightarrow> string \<Rightarrow> unit result"
  gw_set_remote :: "string \<Rightarrow> string \<Rightarrow> unit result"
  gw_branch :: "effect list \<Rightarrow> string \<Rightarrow> string option result"
  gw_head_sha :: "effect list \<Rightarrow> string \<Rightarrow> string result"
  gw_dirty :: "effect list \<Rightarrow> string \<Rightarrow> bool result"
  gw_post :: "resolved_provider \<Rightarrow> string \<Rightarrow> http_answer"

definition run_git :: "git_world \<Rightarrow> string list \<Rightarrow> (int \<times> string \<times> string) act" where
  "run_git G args = act_run (gw_processes G) (''git'' # args)"

definition redact :: "string option \<Rightarrow> string \<Rightarrow> string" where
  "redact token msg = (if token = None \<or> token = Some [] then msg else replace_all (the token) ''***'' msg)"

definition remote_ref_is_commit :: "git_world \<Rightarrow> string \<Rightarrow> string \<Rightarrow> string option \<Rightarrow> bool act" where
  "remote_ref_is_commit G clone_url ref token =
     act_bind (run_git G (github_token_git_config token @ [''ls-remote'', ''--heads'', ''--tags'', clone_url, ref])) (\<lambda>(returncode, out, err).
       act_return (if returncode \<noteq> 0 then False else strip out = []))"

definition has_gitmodules :: "git_world \<Rightarrow> string \<Rightarrow> bool act" where
  "has_gitmodules G repo = act_observe (\<lambda>es. path_exists (gw_fs G es) (path_join repo ''.gitmodules''))"

definition clone_failed :: "string \<Rightarrow> 'a act" where
  "clone_failed m = act_raise (Exn CloneFailed m)"

definition clone_repo :: "git_world \<Rightarrow> string \<Rightarrow> string \<Rightarrow> string option \<Rightarrow> string option \<Rightarrow> unit act" where
  "clone_repo G clone_dir base_url ref token =
     act_bind (act_lift (if token = None \<or> token = Some [] then Inr base_url
                         else inject_github_token_in_url (gw_bracketed G) base_url (the token))) (\<lambda>clone_url.
     act_bind (case ref of None \<Rightarrow> act_return False | Some r \<Rightarrow> remote_ref_is_commit G clone_url r token) (\<lambda>ref_is_commit.
     act_bind (run_git G (github_token_git_config token @ [''clone'', ''--recurse-submodules'', ''--shallow-submodules'']
         @ (if ref \<noteq> None \<and> ref \<noteq> Some [] \<and> \<not> ref_is_commit then [''--branch'', the ref] else []) @ [clone_url, clone_dir]))
       (\<lambda>(returncode, out, err).
       if returncode \<noteq> 0 then clone_failed (''Git clone failed: '' @ redact token (strip err))
       else act_then
         (if clone_url \<noteq> base_url
          then act_then (act_lift (gw_set_remote G clone_dir base_url))
            (act_bind (has_gitmodules G clone_dir) (\<lambda>b.
               if b then act_bind (run_git G [''submodule'', ''sync'', ''--recursive'']) (\<lambda>_. act_return ()) else act_return ()))
          else act_return ())
         (if \<not> ref_is_commit then act_return ()
          else act_bind (run_git G [''checkout'', ''--force'', the ref]) (\<lambda>(returncode, out, err).
            if returncode \<noteq> 0 then clone_failed (''Git checkout of '' @ the ref @ '' failed: '' @ redact token (strip err))
            else act_bind (has_gitmodules G clone_dir) (\<lambda>b.
              if b then act_bind (run_git G (github_token_git_config token @ [''submodule'', ''update'', ''--init'', ''--recursive'']))
                          (\<lambda>_. act_return ())
              else act_return ()))))))"

text \<open>The clone, or the copy of a plain directory, and its manifest; any exception becomes the error text.\<close>

definition clone_error_text :: "exn \<Rightarrow> string" where
  "clone_error_text e =
     (if exn_class e = CloneFailed \<or> is_value_error e then exn_text e
      else if exn_class e = TimeoutExpired then ''Git clone timed out''
      else ''Clone failed: '' @ exn_text e)"

definition clone_and_read_manifest ::
    "'v libs \<Rightarrow> git_world \<Rightarrow> string \<Rightarrow> string option \<Rightarrow> (app_manifest option \<times> string option \<times> string option) act" where
  "clone_and_read_manifest L G repo_url token =
     (case parse_repo_url (gw_bracketed G) repo_url of
        Inl e \<Rightarrow> act_return (None, None, Some (exn_text e))
      | Inr (base_url, ref) \<Rightarrow>
          let clone_dir = path_join (gw_tmp_parent G) ''repo''
          in act_then (act_emit (DirMade (gw_tmp_parent G)))
             (act_catch
               (act_bind (act_observe (gw_fs G)) (\<lambda>fs.
                act_bind (act_lift (plain_dir_to_copy fs base_url)) (\<lambda>plain_dir.
                act_then (case plain_dir of
                            None \<Rightarrow> clone_repo G clone_dir base_url ref token
                          | Some d \<Rightarrow> act_then (act_catch (act_lift (gw_copytree G d clone_dir))
                                        (\<lambda>e. if is_os_error e then clone_failed (''Copy failed: '' @ exn_text e) else act_raise e))
                                      (act_emit (TreeCopied d clone_dir)))
                (act_bind (act_observe (gw_fs G)) (\<lambda>fs'.
                 act_bind (act_lift (parse_manifest L fs' clone_dir)) (\<lambda>m.
                 act_return (Some m, Some clone_dir, None)))))))
               (\<lambda>e. act_then (act_emit (DirRemoved (gw_tmp_parent G)))
                      (act_return (None, None, Some (clone_error_text e))))))"

definition move_clone_to_app_temp_dir :: "git_world \<Rightarrow> string \<Rightarrow> string \<Rightarrow> string \<Rightarrow> string act" where
  "move_clone_to_app_temp_dir G clone_dir app_name temporary_data_dir =
     (let final_dir = path_join (path_join (path_join temporary_data_dir ''app_temp_data'') app_name) ''repo''
      in act_bind (act_observe (\<lambda>es. path_exists (gw_fs G es) final_dir)) (\<lambda>there.
         act_then (if there then act_emit (DirRemoved final_dir) else act_return ())
         (act_then (act_emit (DirMade (dirname final_dir)))
         (act_then (act_emit (DirRenamed clone_dir final_dir))
         (act_then (act_emit (DirRemoved (dirname clone_dir))) (act_return final_dir))))))"

definition clone_with_github_fallback ::
    "'v::linorder libs \<Rightarrow> git_world \<Rightarrow> string \<Rightarrow> string
     \<Rightarrow> (app_manifest option \<times> string option \<times> string option \<times> string option) act" where
  "clone_with_github_fallback L G repo_url return_to =
     act_bind (clone_and_read_manifest L G repo_url None) (\<lambda>(manifest, tmp_dir, error).
     act_bind (if error = None \<or> error = Some [] then act_return False
               else act_bind (act_lift (is_github_repo_url (gw_bracketed G) repo_url)) (\<lambda>github.
                 if \<not> github then act_return False
                 else act_bind (act_lift (is_ssh_url (gw_bracketed G) repo_url)) (\<lambda>ssh. act_return (\<not> ssh)))) (\<lambda>retry.
       if \<not> retry then act_return (manifest, tmp_dir, error, None)
       else act_bind
         (act_catch
           (act_bind (act_query (get_oauth_token L (gw_post G) return_to)) (\<lambda>answer.
            act_bind (act_lift answer) (\<lambda>token. act_return (Inr token))))
           (\<lambda>e. if exn_class e = OAuthRequired
                then act_return (Inl (the error @ '' (GitHub OAuth not configured: '' @ exn_text e @ '')'', Some (exn_text e)))
                else if is_runtime_error e
                then act_return (Inl (the error @ '' (also failed to fetch GitHub OAuth token: '' @ exn_text e @ '')'', None))
                else act_raise e))
         (\<lambda>r. case r of
            Inl (txt, authorize_url) \<Rightarrow> act_return (None, None, Some txt, authorize_url)
          | Inr token \<Rightarrow>
              act_bind (clone_and_read_manifest L G repo_url (Some token)) (\<lambda>(manifest, tmp_dir, error).
                act_return (manifest, tmp_dir, error, None)))))"

section \<open>Pulling\<close>

definition git_log :: "string option \<Rightarrow> string option \<Rightarrow> string \<Rightarrow> unit act" where
  "git_log token log_file msg =
     (case log_file of None \<Rightarrow> act_return ()
      | Some f \<Rightarrow> if f = [] then act_return () else act_emit (FileAppended f (redact token msg @ [newline])))"

definition git_step :: "git_world \<Rightarrow> string option \<Rightarrow> string option \<Rightarrow> string list \<Rightarrow> (bool \<times> string option) act" where
  "git_step G token log_file args =
     (let cmd = ''git'' # args
      in act_then (git_log token log_file (''$ '' @ join '' '' cmd))
         (act_bind (run_git G args) (\<lambda>(returncode, out, err).
          act_then (if strip out \<noteq> [] then git_log token log_file (strip out) else act_return ())
          (act_then (if strip err \<noteq> [] then git_log token log_file (strip err) else act_return ())
            (if returncode \<noteq> 0
             then act_return (False, Some (redact token (first_nonempty [strip err, strip out, join '' '' cmd @ '' failed''])))
             else act_return (True, None))))))"

definition remote_default_branch ::
    "git_world \<Rightarrow> string option \<Rightarrow> string option \<Rightarrow> (string option \<times> string option) act" where
  "remote_default_branch G token log_file =
     act_then (git_log token log_file ''$ git remote set-head origin --auto'')
     (act_bind (run_git G [''remote'', ''set-head'', ''origin'', ''--auto'']) (\<lambda>(returncode, out, err).
       if returncode \<noteq> 0
       then act_return (None, Some (first_nonempty [strip err, strip out, ''failed to query remote default branch'']))
       else act_bind (run_git G [''symbolic-ref'', ''--short'', ''refs/remotes/origin/HEAD'']) (\<lambda>(returncode, out, err).
         if returncode \<noteq> 0 then act_return (None, None)
         else let name = removeprefix ''origin/'' (strip out)
              in act_return (if name \<noteq> [] then Some name else None, None))))"

definition restore_origin :: "git_world \<Rightarrow> string option \<Rightarrow> string option \<Rightarrow> unit act" where
  "restore_origin G token original_url =
     (if token \<noteq> None \<and> token \<noteq> Some [] \<and> original_url \<noteq> None \<and> original_url \<noteq> Some []
      then act_bind (run_git G [''remote'', ''set-url'', ''origin'', the original_url]) (\<lambda>_. act_return ())
      else act_return ())"

definition update_submodules ::
    "git_world \<Rightarrow> string \<Rightarrow> string option \<Rightarrow> string option \<Rightarrow> string option \<Rightarrow> (bool \<times> string option) act" where
  "update_submodules G repo_path token log_file original_url =
     act_bind (has_gitmodules G repo_path) (\<lambda>b.
       if \<not> b then act_return (True, None)
       else act_then (restore_origin G token original_url)
         (act_bind (git_step G token log_file [''submodule'', ''sync'', ''--recursive'']) (\<lambda>(ok, err).
           if \<not> ok then act_return (False, err)
           else git_step G token log_file (github_token_git_config token @ [''submodule'', ''update'', ''--init'', ''--recursive'']))))"

text \<open>Pinning origin to the stored URL: the reference to check out, or what the pull returns at once.\<close>

definition point_origin ::
    "git_world \<Rightarrow> string option \<Rightarrow> string option \<Rightarrow> string option \<Rightarrow> ((bool \<times> string option) + string option) act" where
  "point_origin G token log_file repo_url =
     (if repo_url = None \<or> repo_url = Some [] then act_return (Inr None)
      else case parse_repo_url (gw_bracketed G) (the repo_url) of
             Inl e \<Rightarrow> act_then (git_log token log_file (exn_text e)) (act_return (Inl (False, Some (exn_text e))))
           | Inr (base_url, ref) \<Rightarrow>
               act_catch
                 (act_bind (run_git G [''remote'', ''set-url'', ''origin'', base_url]) (\<lambda>_. act_return (Inr ref)))
                 (\<lambda>e. act_then (git_log token log_file (''failed to set remote url: '' @ exn_text e))
                        (act_return (Inl (False, Some (exn_text e))))))"

text \<open>The URL of origin before the token is put into it; the errors of this step are ignored.\<close>

definition authenticate_origin :: "git_world \<Rightarrow> string option \<Rightarrow> string option act" where
  "authenticate_origin G token =
     (if token = None \<or> token = Some [] then act_return None
      else act_catch
        (act_bind (run_git G [''remote'', ''get-url'', ''origin'']) (\<lambda>(returncode, out, err).
          let original_url = strip out
          in act_catch
               (act_bind (act_lift (inject_github_token_in_url (gw_bracketed G) original_url (the token))) (\<lambda>authed_url.
                 if authed_url \<noteq> original_url
                 then act_bind (run_git G [''remote'', ''set-url'', ''origin'', authed_url]) (\<lambda>_. act_return (Some original_url))
                 else act_return (Some original_url)))
               (\<lambda>_. act_return (Some original_url))))
        (\<lambda>_. act_return None))"

definition fetch_and_checkout ::
    "git_world \<Rightarrow> string \<Rightarrow> string option \<Rightarrow> string option \<Rightarrow> string option \<Rightarrow> string \<Rightarrow> (bool \<times> string option) act" where
  "fetch_and_checkout G repo_path token log_file original_url ref =
     act_bind (git_step G token log_file [''fetch'', ''origin'', ref]) (\<lambda>(ok, err).
       if \<not> ok then act_return (False, err)
       else act_bind (run_git G [''rev-parse'', ''--verify'', ''--quiet'', ''refs/remotes/origin/'' @ ref]) (\<lambda>(returncode, out, e).
         act_bind (if returncode = 0 then git_step G token log_file [''checkout'', ''-fB'', ref, ''origin/'' @ ref]
                   else git_step G token log_file [''checkout'', ''-f'', ''FETCH_HEAD'']) (\<lambda>(ok, err).
           if \<not> ok then act_return (False, err)
           else update_submodules G repo_path token log_file original_url)))"

definition pull_ref ::
    "git_world \<Rightarrow> string \<Rightarrow> string option \<Rightarrow> string option \<Rightarrow> string option \<Rightarrow> string option \<Rightarrow> (bool \<times> string option) act" where
  "pull_ref G repo_path token log_file original_url ref =
     act_bind (if ref = None \<or> ref = Some [] then remote_default_branch G token log_file else act_return (ref, None)) (\<lambda>(ref, default_err).
       if default_err \<noteq> None \<and> default_err \<noteq> Some [] then act_return (False, default_err)
       else if ref = None \<or> ref = Some []
       then act_bind (git_step G token log_file [''pull'']) (\<lambda>(ok, err).
              if \<not> ok then act_return (False, err) else update_submodules G repo_path token log_file original_url)
       else fetch_and_checkout G repo_path token log_file original_url (the ref))"

definition git_pull ::
    "git_world \<Rightarrow> string \<Rightarrow> string option \<Rightarrow> string option \<Rightarrow> string option \<Rightarrow> (bool \<times> string option) act" where
  "git_pull G repo_path token log_file repo_url =
     act_bind (point_origin G token log_file repo_url) (\<lambda>start.
       case start of
         Inl answer \<Rightarrow> act_return answer
       | Inr ref \<Rightarrow>
           act_bind (authenticate_origin G token) (\<lambda>original_url.
             act_finally
               (act_catch (pull_ref G repo_path token log_file original_url ref)
                 (\<lambda>e. act_then (git_log token log_file (''git update failed: '' @ exn_text e))
                        (act_return (False, Some (exn_text e)))))
               (restore_origin G token original_url)))"

section \<open>Redaction\<close>

lemma contains_iff: "contains sub s \<longleftrightarrow> (\<exists>u v. s = u @ sub @ v)"
proof (induction s)
  case Nil
  show ?case by auto
next
  case (Cons c s)
  have "(\<exists>u v. c # s = u @ sub @ v) \<longleftrightarrow> (\<exists>v. c # s = sub @ v) \<or> (\<exists>u v. s = u @ sub @ v)"
    by (auto simp: Cons_eq_append_conv)
  with Cons.IH show ?case
    by (auto simp: prefix_def)
qed

text \<open>A text that shares no character with what separates two parts lies in one of them.\<close>

lemma contains_separated:
  assumes "set sub \<inter> set sep = {}" and "sep \<noteq> []" and "sub \<noteq> []"
  shows "contains sub (a @ sep @ b) \<longleftrightarrow> contains sub a \<or> contains sub b"
proof
  assume "contains sub (a @ sep @ b)"
  then obtain u v where w: "a @ sep @ b = u @ sub @ v"
    by (auto simp: contains_iff)
  consider "length u + length sub \<le> length a" | "length a + length sep \<le> length u"
    | "length a < length u + length sub" "length u < length a + length sep"
    by linarith
  then show "contains sub a \<or> contains sub b"
  proof cases
    case 1
    have "take (length u + length sub) (a @ sep @ b) = u @ sub"
      by (simp add: w)
    then have "a = u @ sub @ drop (length u + length sub) a"
      using 1 by (metis append.assoc append_take_drop_id diff_is_0_eq' take_append take_eq_Nil append_Nil2)
    then show ?thesis
      unfolding contains_iff by blast
  next
    case 2
    have "drop (length a + length sep) (a @ sep @ b) = b"
      by simp
    then have "b = drop (length a + length sep) u @ sub @ v"
      using 2 by (simp add: w)
    then show ?thesis
      unfolding contains_iff by blast
  next
    case 3
    let ?i = "max (length u) (length a)"
    have "(u @ sub @ v) ! ?i \<in> set sub"
      using 3 assms(3) by (auto simp: nth_append max_def)
    moreover have "(a @ sep @ b) ! ?i \<in> set sep"
      using 3 assms(2) by (auto simp: nth_append max_def)
    ultimately show ?thesis
      using assms(1) unfolding w by blast
  qed
next
  assume "contains sub a \<or> contains sub b"
  then show "contains sub (a @ sep @ b)"
    unfolding contains_iff by (metis append.assoc)
qed

lemma cut_first_before: "sep \<noteq> [] \<Longrightarrow> cut_first sep s = Some (a, b) \<Longrightarrow> \<not> contains sep a"
proof (induction s arbitrary: a)
  case (Cons c s)
  show ?case
  proof (cases "prefix sep (c # s)")
    case True
    with Cons.prems show ?thesis by simp
  next
    case False
    then obtain a' where a': "cut_first sep s = Some (a', b)" "a = c # a'"
      using Cons.prems by auto
    then have "c # s = a @ sep @ b"
      using cut_first_Some by fastforce
    moreover have "\<not> prefix sep a"
      using False calculation by (auto simp: prefix_def)
    ultimately show ?thesis
      using Cons.IH [OF Cons.prems(1) a'(1)] a'(2) by simp
  qed
qed simp

lemma replace_fuel_removes:
  "set old \<inter> set new = {} \<Longrightarrow> new \<noteq> [] \<Longrightarrow> old \<noteq> [] \<Longrightarrow> length s \<le> n \<Longrightarrow> \<not> contains old (replace_fuel n old new s)"
proof (induction n arbitrary: s)
  case 0
  then show ?case by simp
next
  case (Suc n)
  show ?case
  proof (cases "cut_first old s")
    case None
    then have "\<not> contains old s"
      using cut_first_None by blast
    then show ?thesis
      unfolding replace_fuel.simps None option.case .
  next
    case (Some ab)
    obtain a b where ab: "cut_first old s = Some (a, b)"
      using Some by (cases ab) auto
    have "length s = length a + length old + length b"
      using cut_first_Some [OF ab] by simp
    then have "length b \<le> n"
      using Suc.prems(3,4) by (cases old) auto
    then show ?thesis
      using Suc.IH Suc.prems(1-3) cut_first_before [OF Suc.prems(3) ab]
      by (simp add: ab contains_separated)
  qed
qed

text \<open>A token with neither stars nor newlines, as the OAuth provider issues them.\<close>

definition plain_token :: "string \<Rightarrow> bool" where
  "plain_token t = (t \<noteq> [] \<and> CHR ''*'' \<notin> set t \<and> newline \<notin> set t)"

lemma redact_hides: "plain_token t \<Longrightarrow> \<not> contains t (redact (Some t) msg @ [newline])"
proof -
  assume t: "plain_token t"
  then have "\<not> contains t (replace_all t ''***'' msg)"
    unfolding replace_all_def by (intro replace_fuel_removes) (auto simp: plain_token_def)
  moreover have "contains t (x @ [newline] @ []) \<longleftrightarrow> contains t x \<or> contains t []" for x
    using t by (intro contains_separated) (auto simp: plain_token_def)
  ultimately show ?thesis
    using t by (auto simp: redact_def plain_token_def)
qed

fun hides :: "string \<Rightarrow> effect \<Rightarrow> bool" where
  "hides t (FileAppended f txt) = (\<not> contains t txt)"
| "hides t _ = True"

lemma hides_log: "plain_token t \<Longrightarrow> emits (hides t) (git_log (Some t) log_file msg)"
  unfolding git_log_def by (intro emits_intros) (simp add: redact_hides)

lemma hides_run: "emits (hides t) (run_git G args)"
  unfolding run_git_def by (intro emits_intros) simp

lemma hides_step: "plain_token t \<Longrightarrow> emits (hides t) (git_step G (Some t) log_file args)"
  unfolding git_step_def Let_def by (intro emits_intros hides_log hides_run)

lemma hides_restore: "emits (hides t) (restore_origin G token original_url)"
  unfolding restore_origin_def by (intro emits_intros hides_run)

lemma hides_submodules: "plain_token t \<Longrightarrow> emits (hides t) (update_submodules G rp (Some t) log_file original_url)"
  unfolding update_submodules_def has_gitmodules_def
  by (intro emits_intros hides_log hides_step hides_restore)

lemma hides_pull: "plain_token t \<Longrightarrow> emits (hides t) (pull_ref G rp (Some t) log_file original_url ref)"
  unfolding pull_ref_def fetch_and_checkout_def remote_default_branch_def Let_def
  by (intro emits_intros hides_log hides_run hides_step hides_submodules)

lemma hides_git_pull: "plain_token t \<Longrightarrow> emits (hides t) (git_pull G rp (Some t) log_file repo_url)"
  unfolding git_pull_def point_origin_def authenticate_origin_def Let_def
  by (auto intro!: emits_intros hides_log hides_run hides_pull hides_restore split: sum.split)

section \<open>Plain URLs\<close>

text \<open>Characters that keep their place in a URL: no spaces or control characters, no delimiter.\<close>

definition plain_char :: "char \<Rightarrow> bool" where
  "plain_char c = (code c > 32 \<and> c \<notin> {CHR ''?'', CHR ''#'', CHR '';''})"

definition plain_host :: "string \<Rightarrow> bool" where
  "plain_host h = (\<forall>c \<in> set h. plain_char c \<and> c \<notin> {CHR ''/'', CHR ''['', CHR '']''})"

lemma plain_not: "\<forall>c \<in> set s. plain_char c \<Longrightarrow> CHR ''?'' \<notin> set s \<and> CHR ''#'' \<notin> set s \<and> CHR '';'' \<notin> set s"
  by (auto simp: plain_char_def)

lemma clean_plain: "\<forall>c \<in> set s. code c > 32 \<Longrightarrow> clean_url s = s"
proof -
  assume h: "\<forall>c \<in> set s. code c > 32"
  then have "dropWhile (\<lambda>c. code c \<le> 32) s = s"
    by (cases s) auto
  with h show ?thesis
    by (force simp: clean_url_def filter_id_conv)
qed

lemma absent_parts: "c \<notin> set s \<Longrightarrow> before c s = s \<and> after_first c s = []"
  by (simp add: before_id after_first_def)

definition https_url :: "string \<Rightarrow> string \<Rightarrow> string" where
  "https_url host path = ''https://'' @ host @ path"

lemma https_url_parts:
  assumes "\<forall>c \<in> set (host @ path). plain_char c"
  shows "clean_url (https_url host path) = https_url host path" "has_scheme (https_url host path)"
    "lower (before CHR '':'' (https_url host path)) = ''https''"
    "after_first CHR '':'' (https_url host path) = CHR ''/'' # CHR ''/'' # host @ path"
proof -
  have "\<forall>c \<in> set (https_url host path). code c > 32"
    using assms by (auto simp: https_url_def plain_char_def code_def)
  then show "clean_url (https_url host path) = https_url host path"
    by (rule clean_plain)
  have b: "before CHR '':'' (https_url host path) = ''https''"
    by (simp add: https_url_def before_def)
  show "lower (before CHR '':'' (https_url host path)) = ''https''"
    unfolding b by code_simp
  have "list_all is_scheme_char ''https''" "is_lower_alpha (lower_char CHR ''h'')"
    by code_simp+
  then show "has_scheme (https_url host path)"
    unfolding has_scheme_def b by (simp add: https_url_def)
  show "after_first CHR '':'' (https_url host path) = CHR ''/'' # CHR ''/'' # host @ path"
    unfolding after_first_def b by (simp add: https_url_def)
qed

lemma urlparse_https:
  assumes "plain_host host" and "\<forall>c \<in> set path. plain_char c" and "path = [] \<or> hd path = CHR ''/''"
  shows "urlparse ok (https_url host path) =
    Inr \<lparr>us_scheme = ''https'', us_netloc = host, us_path = path, us_params = [], us_query = [], us_fragment = []\<rparr>"
proof -
  have chars: "\<forall>c \<in> set (host @ path). plain_char c"
    using assms(1,2) by (auto simp: plain_host_def)
  have net: "takeWhile (\<lambda>c. c \<notin> {CHR ''/'', CHR ''?'', CHR ''#''}) (host @ path) = host"
    using assms by (cases path) (auto simp: plain_host_def plain_char_def takeWhile_append)
  have br: "CHR ''['' \<notin> set host" "CHR '']'' \<notin> set host"
    using assms(1) by (auto simp: plain_host_def)
  have p: "before CHR ''#'' path = path" "after_first CHR ''#'' path = []" "before CHR ''?'' path = path" "after_first CHR ''?'' path = []"
    "split_params path = (path, [])"
    using plain_not [OF assms(2)] in_set_dropD [of _ _ path] by (auto simp: absent_parts split_params_def Let_def)
  have in_params: "''https'' \<in> set uses_params"
    by (simp add: uses_params_def)
  show ?thesis
    unfolding urlparse_def
    by (simp add: Let_def https_url_parts [OF chars] net [simplified] br p in_params)
qed

lemma not_ssh_https: "plain_host host \<Longrightarrow> \<forall>c \<in> set path. plain_char c \<Longrightarrow> path = [] \<or> hd path = CHR ''/'' \<Longrightarrow>
    is_ssh_url ok (https_url host path) = Inr False"
proof -
  have "\<not> scp_style_ssh (https_url host path)"
    by (simp add: scp_style_ssh_def https_url_def)
  then show "plain_host host \<Longrightarrow> \<forall>c \<in> set path. plain_char c \<Longrightarrow> path = [] \<or> hd path = CHR ''/'' \<Longrightarrow> ?thesis"
    by (simp add: is_ssh_url_def urlparse_https)
qed

lemma parse_https:
  assumes "plain_host host" and "\<forall>c \<in> set path. plain_char c" and "path = [] \<or> hd path = CHR ''/''"
  shows "parse_repo_url ok (https_url host path) =
     (if CHR ''@'' \<in> set path
      then Inr (geturl \<lparr>us_scheme = ''https'', us_netloc = host,
             us_path = take (length path - length (after_last CHR ''@'' path) - 1) path, us_params = [], us_query = [], us_fragment = []\<rparr>,
             Some (after_last CHR ''@'' path))
      else Inr (https_url host path, None))"
  unfolding parse_repo_url_def not_ssh_https [OF assms] parse_known_def urlparse_https [OF assms]
  by (simp add: KNOWN_SCHEMES_def Let_def)

lemma after_last_append: "c \<notin> set r \<Longrightarrow> after_last c (p @ c # r) = r"
proof -
  assume "c \<notin> set r"
  then have "takeWhile (\<lambda>d. d \<noteq> c) (rev r @ c # rev p) = rev r"
    by (subst takeWhile_append2) auto
  then show ?thesis
    by (simp add: after_last_def)
qed

text \<open>The pinned form of an upstream reads back: a plain HTTPS repository URL with \<open>@ref\<close> appended parses to
  that URL and that reference, whatever the reference is (a branch with slashes, a tag, a commit), and
  without a reference to the URL alone.\<close>

theorem repo_url_roundtrip:
  assumes "plain_host host" and "host \<noteq> []" and "\<forall>c \<in> set (path @ ref). plain_char c"
    and "prefix ''/'' path" and "CHR ''@'' \<notin> set ref" and "CHR ''@'' \<notin> set path"
  shows "parse_repo_url ok (''https://'' @ host @ path @ ''@'' @ ref) = Inr (''https://'' @ host @ path, Some ref)
    \<and> parse_repo_url ok (''https://'' @ host @ path) = Inr (''https://'' @ host @ path, None)"
proof -
  have nonempty: "path \<noteq> []" "hd path = CHR ''/''"
    using assms(4) by (auto simp: prefix_def)
  have pinned: "\<forall>c \<in> set (path @ ''@'' @ ref). plain_char c" "path @ ''@'' @ ref = [] \<or> hd (path @ ''@'' @ ref) = CHR ''/''"
    using assms(3) nonempty by (auto simp: plain_char_def code_def)
  have bare: "\<forall>c \<in> set path. plain_char c" "path = [] \<or> hd path = CHR ''/''"
    using assms(3) nonempty by auto
  have after: "after_last CHR ''@'' (path @ ''@'' @ ref) = ref"
    using after_last_append [OF assms(5)] by simp
  have "parse_repo_url ok (https_url host (path @ ''@'' @ ref)) = Inr (https_url host path, Some ref)"
    unfolding parse_https [OF assms(1) pinned] after using nonempty assms(2) by (simp add: geturl_def https_url_def)
  moreover have "parse_repo_url ok (https_url host path) = Inr (https_url host path, None)"
    using parse_https [OF assms(1) bare] assms(6) by simp
  ultimately show ?thesis
    unfolding https_url_def by blast
qed

theorem repo_url_roundtrip_witness:
  "parse_repo_url (\<lambda>_. True) ''https://github.com/user/repo@feature/x'' = Inr (''https://github.com/user/repo'', Some ''feature/x'')"
  using repo_url_roundtrip [of "''github.com''" "''/user/repo''" "''feature/x''" "\<lambda>_. True"]
  by (simp add: plain_host_def plain_char_def code_def)

text \<open>A host where \<open>git remote set-head\<close> fails with \<open>err\<close> and every other command succeeds.\<close>

definition leaky_git :: "string \<Rightarrow> git_world" where
  "leaky_git err = \<lparr>gw_processes = (\<lambda>_ argv. if argv ! 2 = ''set-head'' then Exited 1 [] err
        else Exited 0 ''https://github.com/u/r'' []),
     gw_bracketed = (\<lambda>_. True),
     gw_fs = (\<lambda>_. \<lparr>path_exists = (\<lambda>_. False), is_dir = (\<lambda>_. False), is_file = (\<lambda>_. False), read_utf8 = (\<lambda>_. Inr [])\<rparr>),
     gw_tmp_parent = ''/tmp/c'', gw_copytree = (\<lambda>_ _. Inr ()), gw_set_remote = (\<lambda>_ _. Inr ()),
     gw_branch = (\<lambda>_ _. Inr (Some ''main'')), gw_head_sha = (\<lambda>_ _. Inr ''abc''), gw_dirty = (\<lambda>_ _. Inr False),
     gw_post = (\<lambda>_ _. NoAnswer ''down'')\<rparr>"

text \<open>C14: Nothing a pull writes to the app's log contains the token it authenticates with, whatever the commands
  print, their arguments included.\<close>

theorem git_pull_hides_token:
  assumes "plain_token t"
  shows "list_all (hides t) (ws_effects (snd (git_pull G repo_path (Some t) log_file repo_url (start_state db))))"
  using emitsD [OF hides_git_pull [OF assms], of G repo_path log_file repo_url "start_state db"]
  by (metis append_Nil prod.collapse ws_simps(11))

theorem git_pull_hides_token_witness:
  "list_all (hides ''tok'') (ws_effects (snd (git_pull (leaky_git ''fatal: repository not found'') ''/r'' (Some ''tok'') (Some ''/log'') None
     (start_state empty_db))))"
  using git_pull_hides_token [of "''tok''"] by (simp add: plain_token_def newline_def)

text \<open>
  The error a pull returns, which ends up in the app's row and on the dashboard, is redacted in every step
  but one: what \<open>git remote set-head\<close> prints when origin, which then carries the token, cannot be reached.
\<close>

theorem default_branch_error_shows_token:
  "\<exists>err. fst (git_pull (leaky_git ''fatal: Authentication failed for https://tok@github.com/u/r'') ''/r'' (Some ''tok'') None None
      (start_state empty_db)) = Inr (False, Some err) \<and> contains ''tok'' err"
proof -
  let ?err = "''fatal: Authentication failed for https://tok@github.com/u/r''"
  have inject: "inject_github_token_in_url (\<lambda>_. True) ''https://github.com/u/r'' ''tok'' = Inr ''https://tok@github.com/u/r''"
    by code_simp
  have s: "strip ''https://github.com/u/r'' = ''https://github.com/u/r''" "strip ?err = ?err"
    by code_simp+
  have "fst (git_pull (leaky_git ?err) ''/r'' (Some ''tok'') None None (start_state empty_db)) = Inr (False, Some ?err)"
    by (simp add: git_pull_def point_origin_def authenticate_origin_def pull_ref_def remote_default_branch_def restore_origin_def
        git_log_def run_git_def act_finally_def act_defs act_run_def leaky_git_def Let_def inject s first_nonempty_def)
  moreover have "contains ''tok'' ?err"
    by code_simp
  ultimately show ?thesis
    by blast
qed

end
