(* ===== verification/AppsApi.thy ===== *)
theory AppsApi
  imports GitOps Permissions
begin

text \<open>
  \<open>web/routes/api/apps.py\<close>: the routes that list, install, stop, reload, remove, rename and re-point apps.
  A route answers with a value or a refusal (the HTTP exceptions the code raises on purpose); any other
  exception of the action is a 500.  Each route runs on its request's connection; the threads it starts
  are effects.
\<close>

section \<open>Answers\<close>

datatype refusal =
    E400 string
  | E401 string string
  | E404 string
  | E409 string
  | E500 string
  | E503 string

datatype 'a reply = Ok 'a | Refuse refusal

definition refuse :: "refusal \<Rightarrow> 'a reply act" where
  "refuse r = act_return (Refuse r)"

definition reply :: "'a \<Rightarrow> 'a reply act" where
  "reply x = act_return (Ok x)"

text \<open>Going on after a helper that may have raised an HTTP exception.\<close>

definition reply_bind :: "'a reply act \<Rightarrow> ('a \<Rightarrow> 'b reply act) \<Rightarrow> 'b reply act" where
  "reply_bind m f = act_bind m (\<lambda>r. case r of Refuse e \<Rightarrow> act_return (Refuse e) | Ok x \<Rightarrow> f x)"

text \<open>
  The outside of the routes, besides the one of the workers: the zone of the request and its address, the
  log files, and whether a thread can be started.
\<close>

record 'v api_env =
  ae_world :: "'v world"
  ae_git :: git_world
  ae_mounted :: "effect list \<Rightarrow> bool"
  ae_zone :: "domain option"
  ae_netloc :: string
  ae_log_timestamp :: "effect list \<Rightarrow> string \<Rightarrow> string option"
  ae_listdir :: "effect list \<Rightarrow> string \<Rightarrow> string list"
  ae_rename :: "effect list \<Rightarrow> string \<Rightarrow> string \<Rightarrow> unit result"
  ae_spawn :: "unit result"

definition oauth_return_origin :: "'v api_env \<Rightarrow> database \<Rightarrow> string result" where
  "oauth_return_origin E db =
     (case ae_zone E of
        Some z \<Rightarrow> Inr (scheme z @ ''://'' @ host_with_request_port (name_no_port z) (ae_netloc E))
      | None \<Rightarrow> rbind (primary_domain db) (\<lambda>p. Inr (scheme p @ ''://'' @ dom_name p)))"

definition is_removing :: "app_row \<Rightarrow> bool" where
  "is_removing r = (a_status r = Removing)"

definition resolve_app_row :: "string \<Rightarrow> app_row reply act" where
  "resolve_app_row app_id =
     (if \<not> is_valid_app_id app_id then refuse (E400 ''Invalid app_id'')
      else act_bind (act_query (select_app app_id)) (\<lambda>row.
        case row of None \<Rightarrow> refuse (E404 ''App not found'') | Some r \<Rightarrow> reply r))"

text \<open>Routes that change an app refuse one that is being removed.\<close>

definition resolve_live_app :: "string \<Rightarrow> app_row reply act" where
  "resolve_live_app app_id =
     reply_bind (resolve_app_row app_id) (\<lambda>r. if is_removing r then refuse (E409 ''App is being removed'') else reply r)"

definition git_dir_there :: "git_world \<Rightarrow> string \<Rightarrow> bool act" where
  "git_dir_there G repo_path = act_observe (\<lambda>es. is_dir (gw_fs G es) (path_join repo_path ''.git''))"

text \<open>\<open>parse_repo_url\<close> raises \<open>ValueError\<close> only.\<close>

definition pin_refless_to_landed_branch :: "git_world \<Rightarrow> string option \<Rightarrow> string \<Rightarrow> string option act" where
  "pin_refless_to_landed_branch G repo_url repo_path =
     (if repo_url = None \<or> repo_url = Some [] then act_return None
      else case parse_repo_url (gw_bracketed G) (the repo_url) of
             Inl e \<Rightarrow> act_return None
           | Inr (base_url, ref) \<Rightarrow>
               act_bind (git_dir_there G repo_path) (\<lambda>b.
                 if (ref \<noteq> None \<and> ref \<noteq> Some []) \<or> \<not> b then act_return None
                 else act_bind (act_observe (\<lambda>es. gw_branch G es repo_path)) (\<lambda>answer.
                   act_bind (act_lift answer) (\<lambda>landed.
                     act_return (if landed = None \<or> landed = Some [] then None else Some (base_url @ ''@'' @ the landed))))))"

section \<open>Installing\<close>

record clone_info =
  ci_manifest :: app_manifest
  ci_clone_dir :: string
  ci_app_name :: pyval
  ci_validation_error :: "string option"
  ci_storage :: storage_tiers

definition clone_and_get_app_info :: "'v::linorder api_env \<Rightarrow> string \<Rightarrow> clone_info reply act" where
  "clone_and_get_app_info E url =
     (let repo_url = strip url; L = w_libs (ae_world E)
      in if repo_url = [] then refuse (E400 ''No repository URL provided'')
         else act_bind (act_query (oauth_return_origin E)) (\<lambda>o_r. act_bind (act_lift o_r) (\<lambda>origin.
           act_bind (clone_with_github_fallback L (ae_git E) repo_url (origin @ ''/add_app?repo='' @ repo_url))
             (\<lambda>(manifest, clone_dir, error, authorize_url).
             if authorize_url \<noteq> None \<and> authorize_url \<noteq> Some [] then refuse (E401 ''GitHub authorization required'' (the authorize_url))
             else if error \<noteq> None \<and> error \<noteq> Some [] then refuse (E400 (the error))
             else case (manifest, clone_dir) of
                (None, _) \<Rightarrow> refuse (E500 ''Internal server error'')
              | (Some m, None) \<Rightarrow> act_raise (Exn AssertionError [])
              | (Some m, Some d) \<Rightarrow>
                  act_bind (act_query (\<lambda>db. validate_manifest m db None)) (\<lambda>v. act_bind (act_lift v) (\<lambda>validation_error.
                  act_bind (act_query (storage_summary L (m_raw_toml m))) (\<lambda>st. act_bind (act_lift st) (\<lambda>storage.
                    reply \<lparr>ci_manifest = m, ci_clone_dir = d, ci_app_name = m_name m, ci_validation_error = validation_error,
                           ci_storage = storage\<rparr>))))))))"

text \<open>A grant is a JSON object; \<open>None\<close> stands for a missing key.\<close>

record add_app_request =
  aa_repo_url :: string
  aa_app_name :: "string option"
  aa_clone_dir :: "string option"
  aa_grants :: "(string option \<times> pyval option) list"
  aa_grant_all :: bool
  aa_port_overrides :: "(string \<times> int) list"

definition stripped_or_none :: "string option \<Rightarrow> string option" where
  "stripped_or_none s = (case s of None \<Rightarrow> None | Some t \<Rightarrow> if strip t = [] then None else Some (strip t))"

definition grant_of_dict :: "string option \<times> pyval option \<Rightarrow> permission_grant result" where
  "grant_of_dict g =
     (case g of
        (None, _) \<Rightarrow> Inl (Exn KeyError ''service_url'')
      | (Some u, None) \<Rightarrow> Inl (Exn KeyError ''grant'')
      | (Some u, Some v) \<Rightarrow> Inr \<lparr>pg_service_url = u, pg_grant = v\<rparr>)"

definition obtain_clone ::
    "'v::linorder api_env \<Rightarrow> string \<Rightarrow> string option \<Rightarrow> (app_manifest \<times> string) reply act" where
  "obtain_clone E repo_url clone_dir =
     (let L = w_libs (ae_world E)
      in act_bind (act_observe (\<lambda>es. clone_dir \<noteq> None \<and> is_dir (gw_fs (ae_git E) es) (the clone_dir))) (\<lambda>there.
         reply_bind
           (if there then reply (None, clone_dir)
            else act_bind (clone_with_github_fallback L (ae_git E) repo_url ''/'') (\<lambda>(manifest, dir, error, authorize_url).
              if authorize_url \<noteq> None \<and> authorize_url \<noteq> Some [] then refuse (E401 ''GitHub authorization required'' (the authorize_url))
              else if error \<noteq> None \<and> error \<noteq> Some [] then refuse (E400 (the error))
              else reply (manifest, dir)))
           (\<lambda>(manifest, dir).
             case (dir, manifest) of
               (None, _) \<Rightarrow> refuse (E500 ''Internal server error'')
             | (Some d, Some m) \<Rightarrow> reply (m, d)
             | (Some d, None) \<Rightarrow>
                 act_bind (act_observe (\<lambda>es. parse_manifest L (gw_fs (ae_git E) es) d)) (\<lambda>r.
                   case r of Inr m \<Rightarrow> reply (m, d)
                   | Inl e \<Rightarrow> if is_value_error e then refuse (E400 (exn_text e)) else act_raise e))))"

definition name_text :: "app_manifest \<Rightarrow> string option \<Rightarrow> string" where
  "name_text m app_name = (case app_name of Some n \<Rightarrow> n | None \<Rightarrow> (case m_name m of VStr n \<Rightarrow> n | _ \<Rightarrow> []))"

definition prepare_install ::
    "'v::linorder api_env \<Rightarrow> add_app_request
     \<Rightarrow> (app_manifest \<times> string \<times> string \<times> string \<times> permission_grant list) reply act" where
  "prepare_install E data =
     (let repo_url = strip (aa_repo_url data); app_name = stripped_or_none (aa_app_name data);
          clone_dir = stripped_or_none (aa_clone_dir data)
      in if repo_url = [] then refuse (E400 ''No repository URL provided'')
         else reply_bind (obtain_clone E repo_url clone_dir) (\<lambda>(m, dir).
           act_bind (act_query (\<lambda>db. validate_manifest m db app_name)) (\<lambda>v. act_bind (act_lift v) (\<lambda>validation_error.
           if validation_error \<noteq> None
           then act_then (act_emit (DirRemoved dir)) (refuse (E400 (the validation_error)))
           else act_bind (act_observe (ae_mounted E)) (\<lambda>mounted. act_bind (act_query (is_archive_dir_healthy mounted)) (\<lambda>healthy.
             if truthy (m_app_archive m) \<and> \<not> healthy
             then act_then (act_emit (DirRemoved dir)) (refuse (E503 (''Archive backend is not healthy; refusing to deploy ''
                    @ ''an archive-using app until the JuiceFS mount is live again (see the dashboard'' @ [CHR 0x27] @ ''s Archive backend panel).'')))
             else act_bind (move_clone_to_app_temp_dir (ae_git E) dir (name_text m app_name) (pn_temp_data_dir (w_provision (ae_world E))))
               (\<lambda>final_dir.
               act_bind (pin_refless_to_landed_branch (ae_git E) (Some repo_url) final_dir) (\<lambda>pinned.
               act_bind (act_lift (rmap grant_of_dict (aa_grants data))) (\<lambda>grants.
                 reply (m, final_dir, name_text m app_name, (case pinned of None \<Rightarrow> repo_url | Some p \<Rightarrow> p),
                   if grants = [] \<and> aa_grant_all data then all_manifest_permissions_v2 m else grants))))))))))"

text \<open>\<open>None\<close>: the id loop of the install never ends.\<close>

definition api_add_app ::
    "'v::linorder api_env \<Rightarrow> add_app_request \<Rightarrow> wstate \<Rightarrow> ((string \<times> string) reply result \<times> wstate) option" where
  "api_add_app E data s =
     (case prepare_install E data s of
        (Inl e, s') \<Rightarrow> Some (Inl e, s')
      | (Inr (Refuse r), s') \<Rightarrow> Some (Inr (Refuse r), s')
      | (Inr (Ok (m, final_dir, app_name, repo_url, grants)), s') \<Rightarrow>
          map_option (\<lambda>(r, s'').
            (case r of
               Inr app_id \<Rightarrow> Inr (Ok (app_id, app_name))
             | Inl e \<Rightarrow> if is_runtime_error e \<or> is_value_error e then Inr (Refuse (E400 (exn_text e))) else Inl e, s''))
            (insert_and_deploy (ae_world E) m final_dir grants app_name (Some repo_url) (aa_port_overrides data) s'))"

section \<open>Listing\<close>

definition check_port :: "host \<Rightarrow> int \<Rightarrow> database \<Rightarrow> (int \<times> bool \<times> used_by option) reply" where
  "check_port h port db =
     (if port < 1 \<or> port > 65535 then Refuse (E400 ''port'')
      else let (available, used) = check_port_available h port db None in Ok (port, available, used))"

record app_summary =
  as_app_id :: string
  as_name :: string
  as_status :: string
  as_error_message :: "string option"

definition api_apps :: "database \<Rightarrow> app_summary list" where
  "api_apps db = map (\<lambda>r. \<lparr>as_app_id = a_app_id r, as_name = a_name r, as_status = status_text (a_status r),
     as_error_message = a_error_message r\<rparr>) (sort_key a_name (t_apps db))"

definition read_app_git_info :: "git_world \<Rightarrow> string \<Rightarrow> (string option \<times> string option \<times> bool option) act" where
  "read_app_git_info G repo_path =
     (if repo_path = [] then act_return (None, None, None)
      else act_bind (act_observe (\<lambda>es. path_exists (gw_fs G es) (path_join repo_path ''.git''))) (\<lambda>there.
        if \<not> there then act_return (None, None, None)
        else act_catch
          (act_bind (act_observe (\<lambda>es. gw_branch G es repo_path)) (\<lambda>b. act_bind (act_lift b) (\<lambda>branch.
           act_bind (act_observe (\<lambda>es. gw_head_sha G es repo_path)) (\<lambda>h. act_bind (act_lift h) (\<lambda>sha.
           act_bind (act_observe (\<lambda>es. gw_dirty G es repo_path)) (\<lambda>d. act_bind (act_lift d) (\<lambda>dirty.
             act_return (branch, Some sha, Some dirty))))))))
          (\<lambda>_. act_return (None, None, None))))"

definition classify_error :: "string option \<Rightarrow> string option \<times> string option" where
  "classify_error error_msg =
     (case error_msg of
        None \<Rightarrow> (None, None)
      | Some m \<Rightarrow> if m \<noteq> [] \<and> (contains BUILD_CACHE_CORRUPT_MARKER m \<or> contains ''[CACHE_CORRUPT]'' m)
          then (Some ''Container build cache is corrupted.'', Some ''build_cache_corrupt'') else (Some m, None))"

record app_status_response =
  sr_status :: string
  sr_error :: "string option"
  sr_error_kind :: "string option"
  sr_git :: "string option \<times> string option \<times> bool option"
  sr_container_id :: "string option"
  sr_repo_url :: "string option"

definition app_status_route :: "git_world \<Rightarrow> string \<Rightarrow> app_status_response reply act" where
  "app_status_route G app_id =
     reply_bind (resolve_app_row app_id) (\<lambda>r.
       let (err, kind) = classify_error (a_error_message r)
       in act_bind (read_app_git_info G (a_repo_path r)) (\<lambda>info.
         reply \<lparr>sr_status = status_text (a_status r), sr_error = err, sr_error_kind = kind, sr_git = info,
           sr_container_id = a_container_id r, sr_repo_url = a_repo_url r\<rparr>))"

section \<open>Stopping\<close>

definition stopped_row :: "app_row \<Rightarrow> app_row" where
  "stopped_row r = r\<lparr>a_status := Stopped, a_container_id := None\<rparr>"

definition stop_app :: "'v api_env \<Rightarrow> string \<Rightarrow> unit reply act" where
  "stop_app E app_id =
     reply_bind (resolve_live_app app_id) (\<lambda>r.
       act_then (stop_app_process (w_processes (ae_world E)) r)
       (act_then (stop_container (w_processes (ae_world E)) (''openhost-'' @ a_name r))
       (act_then (act_exec (update_app app_id stopped_row))
       (act_then act_commit (reply ())))))"

section \<open>Reloading\<close>

text \<open>
  \<open>archive_old_log\<close>: a log that exists and is not empty is renamed, then the oldest archives are removed.
  \<open>ae_log_timestamp\<close> is \<open>log_timestamp\<close>, \<open>None\<close> for a log that is absent or empty.
\<close>

definition archive_old_log :: "'v api_env \<Rightarrow> string \<Rightarrow> string option \<Rightarrow> unit act" where
  "archive_old_log E log_file ts =
     act_bind (act_observe (\<lambda>es. ae_log_timestamp E es log_file)) (\<lambda>own.
       case own of
         None \<Rightarrow> act_return ()
       | Some t \<Rightarrow>
           act_then (act_emit (DirRenamed log_file (log_file @ ''.'' @ (case ts of Some t' \<Rightarrow> t' | None \<Rightarrow> t))))
           (act_bind (act_observe (\<lambda>es. logs_to_prune log_file (ae_listdir E es (dirname log_file)))) (\<lambda>old.
              act_each (\<lambda>f. act_emit (DirRemoved (path_join (dirname log_file) f))) old)))"

record update_review =
  ur_settings_changed :: "setting_change list"
  ur_permissions_required :: "(string \<times> pyval \<times> string) list"

text \<open>The last consumer entry of a service gives the short name, as in the dict the code builds.\<close>

definition shortname_of_service :: "app_manifest \<Rightarrow> string \<Rightarrow> string" where
  "shortname_of_service m url =
     (case find (\<lambda>c. sc_service c = url) (rev (m_consumes m)) of None \<Rightarrow> [] | Some c \<Rightarrow> sc_shortname c)"

definition gate_update_review ::
    "'v api_env \<Rightarrow> string \<Rightarrow> string \<Rightarrow> bool \<Rightarrow> string option \<Rightarrow> update_review option act" where
  "gate_update_review E app_id repo_path approve previous_manifest_raw =
     (let L = w_libs (ae_world E)
      in act_bind (act_observe (gw_fs (ae_git E))) (\<lambda>fs.
         if repo_path = [] \<or> \<not> is_dir fs repo_path then act_return None
         else case parse_manifest L fs repo_path of
           Inl e \<Rightarrow> if is_value_error e then act_return None else act_raise e
         | Inr m \<Rightarrow>
             act_bind (act_query (get_all_permissions_v2 (Some app_id))) (\<lambda>granted.
             act_bind (act_lift (manifest_newly_declared_permissions_v2 L m
                 (map (\<lambda>r. (rec_service_url r, rec_grant r)) granted) previous_manifest_raw)) (\<lambda>new_perms.
             act_bind (act_lift (manifest_settings_changes L m previous_manifest_raw)) (\<lambda>settings_changed.
               if new_perms = [] \<and> settings_changed = [] then act_return None
               else if approve then act_then (act_each (grant_after_install app_id) new_perms) (act_return None)
               else act_return (Some \<lparr>ur_settings_changed = settings_changed,
                 ur_permissions_required = map (\<lambda>pg. (pg_service_url pg, pg_grant pg, shortname_of_service m (pg_service_url pg))) new_perms\<rparr>))))))"

datatype reload_answer = ReloadOk | ReviewRequired update_review | RedirectTo string

definition fail_row :: "string \<Rightarrow> string \<Rightarrow> unit act" where
  "fail_row app_id msg = act_then (act_exec (update_app app_id (set_error msg))) act_commit"

definition log_line :: "string \<Rightarrow> string \<Rightarrow> unit act" where
  "log_line log_file txt = act_emit (FileAppended log_file (txt @ [newline]))"

text \<open>An answer given early: after OAuth, to the page of the app.\<close>

definition early_answer :: "bool \<Rightarrow> string \<Rightarrow> reload_answer" where
  "early_answer continue_oauth app_name = (if continue_oauth then RedirectTo (''/app_detail/'' @ app_name) else ReloadOk)"

text \<open>The second attempt, with the token of the owner: an early answer, or how the pull went.\<close>

definition pull_with_token ::
    "'v::linorder api_env \<Rightarrow> app_row \<Rightarrow> bool \<Rightarrow> string \<Rightarrow> (reload_answer + bool \<times> string option) act" where
  "pull_with_token E r continue_oauth log_file =
     (let app_id = a_app_id r; repo_url = or_empty (a_repo_url r)
      in act_then (log_line log_file ''Attempting git pull with github oauth'')
         (act_bind (act_query (oauth_return_origin E)) (\<lambda>o_r. act_bind (act_lift o_r) (\<lambda>origin.
          act_bind
            (act_catch
              (act_bind (act_query (get_oauth_token (w_libs (ae_world E)) (gw_post (ae_git E))
                   (origin @ ''/reload_app/'' @ app_id @ ''?continue_oauth_update=1''))) (\<lambda>t.
               act_bind (act_lift t) (\<lambda>token. act_return (Inr token))))
              (\<lambda>e. if exn_class e = OAuthRequired
                   then act_then (log_line log_file ''No token available; redirecting to oauth flow'')
                          (act_return (Inl (RedirectTo (exn_text e))))
                   else if is_runtime_error e
                   then act_then (log_line log_file (''Secrets service unavailable: '' @ exn_text e))
                          (act_then (fail_row app_id (exn_text e)) (act_return (Inl (early_answer continue_oauth (a_name r)))))
                   else act_raise e))
            (\<lambda>answer. case answer of
               Inl a \<Rightarrow> act_return (Inl a)
             | Inr token \<Rightarrow>
                 act_bind (git_pull (ae_git E) (a_repo_path r) (Some token) (Some log_file) (Some repo_url)) (\<lambda>p.
                   act_return (Inr p)))))))"

text \<open>Fetching new code: an early answer, or the commit the app ran before.\<close>

definition update_source ::
    "'v::linorder api_env \<Rightarrow> app_row \<Rightarrow> bool \<Rightarrow> string \<Rightarrow> (reload_answer + string option) act" where
  "update_source E r continue_oauth log_file =
     (let app_id = a_app_id r; G = ae_git E; repo_url = or_empty (a_repo_url r)
      in act_bind (git_dir_there G (a_repo_path r)) (\<lambda>there.
         if a_repo_path r = [] \<or> \<not> there
         then act_then (fail_row app_id (''No git repository found to update. If this is a builtin app, ''
                 @ ''git-based updates are not possible.''))
                (act_return (Inl ReloadOk))
         else
           act_bind (act_observe (\<lambda>es. gw_head_sha G es (a_repo_path r))) (\<lambda>h.
           act_bind (case h of
                       Inr sha \<Rightarrow> act_return (Some sha)
                     | Inl e \<Rightarrow> act_then (log_line log_file (''Could not read pre-pull HEAD sha: '' @ exn_text e)) (act_return None)) (\<lambda>pre_pull_sha.
           act_bind (if continue_oauth then act_return (False, None)
                     else act_then (log_line log_file ''Attempting git pull without github oauth'')
                            (git_pull G (a_repo_path r) None (Some log_file) (Some repo_url))) (\<lambda>(pull_ok, pull_err).
           act_bind (act_lift (if pull_ok then Inr False else is_github_repo_url (gw_bracketed G) repo_url)) (\<lambda>retry.
           act_bind (if retry then pull_with_token E r continue_oauth log_file
                     else act_return (Inr (pull_ok, pull_err))) (\<lambda>outcome.
             case outcome of
               Inl a \<Rightarrow> act_return (Inl a)
             | Inr (ok, err) \<Rightarrow>
                 if \<not> ok
                 then act_then (fail_row app_id (''Git pull failed: '' @ (case err of None \<Rightarrow> ''None'' | Some m \<Rightarrow> m)))
                        (act_return (Inl (early_answer continue_oauth (a_name r))))
                 else act_bind (pin_refless_to_landed_branch G (Some repo_url) (a_repo_path r)) (\<lambda>pinned.
                   case pinned of
                     None \<Rightarrow> act_return (Inr pre_pull_sha)
                   | Some u \<Rightarrow>
                       act_then (act_exec (update_app app_id (\<lambda>q. q\<lparr>a_repo_url := Some u\<rparr>)))
                       (act_then act_commit
                       (act_then (log_line log_file (''Pinned upstream to '' @ u)) (act_return (Inr pre_pull_sha))))))))))))"

text \<open>The atomic claim: its row count is the number of rows it changes.\<close>

definition claim_reload :: "string \<Rightarrow> bool act" where
  "claim_reload app_id =
     act_bind (act_query (select_app app_id)) (\<lambda>row.
     act_then (act_exec (update_apps (\<lambda>r. a_app_id r = app_id \<and> a_status r \<notin> {Building, Starting, Removing})
                 (\<lambda>r. r\<lparr>a_status := Building, a_container_id := None, a_error_message := None\<rparr>)))
     (act_then act_commit
       (act_return (case row of None \<Rightarrow> False | Some r \<Rightarrow> a_status r \<notin> {Building, Starting, Removing}))))"

definition deploy_reload :: "'v api_env \<Rightarrow> app_row \<Rightarrow> bool \<Rightarrow> reload_answer reply act" where
  "deploy_reload E r continue_oauth =
     act_bind (claim_reload (a_app_id r)) (\<lambda>claimed.
       if \<not> claimed \<and> \<not> continue_oauth then refuse (E409 ''App is already reloading'')
       else act_then (stop_app_process (w_processes (ae_world E)) r)
              (act_then (act_emit (SpawnReload (a_app_id r))) (reply ReloadOk)))"

definition roll_back_refused :: "'v api_env \<Rightarrow> app_row \<Rightarrow> string option \<Rightarrow> string \<Rightarrow> unit act" where
  "roll_back_refused E r pre_pull_sha log_file =
     act_then
       (case pre_pull_sha of
          None \<Rightarrow> act_return ()
        | Some sha \<Rightarrow> if sha = [] then act_return ()
            else act_catch
              (act_bind (run_git (ae_git E) [''reset'', ''--hard'', sha]) (\<lambda>(returncode, out, err).
                 if returncode \<noteq> 0 then act_raise (Exn OtherError err) else act_return ()))
              (\<lambda>e. log_line log_file (''WARNING: failed to roll back refused update to '' @ sha @ '': '' @ exn_text e)))
       (log_line log_file ''Update changes app settings requiring owner approval; not reloading.'')"

text \<open>The route once the row \<open>r\<close> of the app is read.\<close>

definition reload_found ::
    "'v::linorder api_env \<Rightarrow> string \<Rightarrow> bool \<Rightarrow> bool \<Rightarrow> bool \<Rightarrow> app_row \<Rightarrow> reload_answer reply act" where
  "reload_found E app_id update continue_oauth approve r =
     act_bind (act_observe (ae_mounted E)) (\<lambda>mounted. act_bind (act_query (is_archive_dir_healthy mounted)) (\<lambda>healthy.
     act_bind (act_lift (if healthy then Inr False
                         else manifest_requires_archive (w_libs (ae_world E)) (or_empty (a_manifest_raw r)))) (\<lambda>blocked.
       if blocked
       then refuse (E503 (''Archive backend is not healthy; refusing to reload an app that requires app_archive until ''
              @ ''the operator-configured archive mount is live again (see the dashboard'' @ [CHR 0x27] @ ''s Archive backend panel).''))
       else
         let log_file = app_log_path (a_name r) (w_provision (ae_world E));
             container_log = app_container_log_path (a_name r) (w_provision (ae_world E))
         in act_then (act_emit (DirMade (dirname log_file)))
            (act_then (if continue_oauth then act_return ()
                       else act_bind (act_observe (\<lambda>es. ae_log_timestamp E es log_file)) (\<lambda>ts.
                              act_then (archive_old_log E log_file ts) (archive_old_log E container_log ts)))
            (act_then (log_line log_file (if continue_oauth then ''continuing app reload after oauth''
                         else ''reloading app (update='' @ (if update then ''True'' else ''False'') @ '')''))
            (act_bind (if update \<or> continue_oauth then update_source E r continue_oauth log_file else act_return (Inr None)) (\<lambda>start.
              case start of
                Inl answer \<Rightarrow> reply answer
              | Inr pre_pull_sha \<Rightarrow>
                  act_bind (if update \<or> continue_oauth
                            then gate_update_review E app_id (a_repo_path r) approve (a_manifest_raw r)
                            else act_return None) (\<lambda>review.
                    case review of
                      None \<Rightarrow> deploy_reload E r continue_oauth
                    | Some v \<Rightarrow>
                        act_then (roll_back_refused E r pre_pull_sha log_file)
                          (reply (if continue_oauth then RedirectTo (''/app_detail/'' @ a_name r) else ReviewRequired v))))))))))"

definition reload_app_impl ::
    "'v::linorder api_env \<Rightarrow> string \<Rightarrow> bool \<Rightarrow> bool \<Rightarrow> bool \<Rightarrow> reload_answer reply act" where
  "reload_app_impl E app_id update continue_oauth approve =
     reply_bind (resolve_live_app app_id) (reload_found E app_id update continue_oauth approve)"

definition reload_app :: "'v::linorder api_env \<Rightarrow> string \<Rightarrow> bool \<Rightarrow> bool \<Rightarrow> reload_answer reply act" where
  "reload_app E app_id update approve = reload_app_impl E app_id update False approve"

definition reload_app_after_oauth :: "'v::linorder api_env \<Rightarrow> string \<Rightarrow> bool \<Rightarrow> reload_answer reply act" where
  "reload_app_after_oauth E app_id continue_oauth_update =
     (if \<not> continue_oauth_update
      then act_bind (act_query (select_app app_id)) (\<lambda>row.
        reply (RedirectTo (case row of None \<Rightarrow> ''/dashboard'' | Some r \<Rightarrow> ''/app_detail/'' @ a_name r)))
      else reload_app_impl E app_id True True False)"

section \<open>Removing\<close>

datatype remove_answer = RemoveStarted | AlreadyRemoving

definition claim_remove :: "string \<Rightarrow> bool act" where
  "claim_remove app_id =
     act_bind (act_query (select_app app_id)) (\<lambda>row.
     act_then (act_exec (update_apps (\<lambda>r. a_app_id r = app_id \<and> a_status r \<noteq> Removing)
                 (\<lambda>r. r\<lparr>a_status := Removing, a_error_message := None\<rparr>)))
     (act_then act_commit (act_return (case row of None \<Rightarrow> False | Some r \<Rightarrow> a_status r \<noteq> Removing))))"

definition remove_app :: "'v api_env \<Rightarrow> string \<Rightarrow> bool \<Rightarrow> remove_answer reply act" where
  "remove_app E app_id keep_data =
     reply_bind (resolve_app_row app_id) (\<lambda>r.
     act_bind (act_observe (ae_mounted E)) (\<lambda>mounted. act_bind (act_query (is_archive_dir_healthy mounted)) (\<lambda>healthy.
     act_bind (act_lift (if \<not> keep_data \<and> \<not> healthy
                         then manifest_uses_archive (w_libs (ae_world E)) (or_empty (a_manifest_raw r)) else Inr False)) (\<lambda>blocked.
       if blocked then refuse (E503 (''Archive backend is not healthy; refusing to remove an archive-using app'' @ [CHR 0x27]
              @ ''s data because the S3-side bytes wouldn'' @ [CHR 0x27] @ ''t actually be deleted.  Either restore the archive mount ''
              @ ''and retry, or use keep_data=1 to remove the app while leaving its data in place.''))
       else act_bind (claim_remove app_id) (\<lambda>claimed.
         if \<not> claimed then reply AlreadyRemoving
         else case ae_spawn E of
                Inr u \<Rightarrow> act_then (act_emit (SpawnRemove app_id keep_data)) (reply RemoveStarted)
              | Inl e \<Rightarrow> act_then (fail_row app_id (''Could not start removal worker: '' @ exn_text e))
                            (refuse (E503 ''Could not start removal worker; try again.'')))))))"

section \<open>Renaming\<close>

text \<open>The renames done so far, latest first, and the error that stopped them.\<close>

fun rename_each ::
    "'v api_env \<Rightarrow> string \<Rightarrow> string \<Rightarrow> string list \<Rightarrow> (string \<times> string) list \<Rightarrow> (exn option \<times> (string \<times> string) list) act" where
  "rename_each E old_name new_name [] renamed = act_return (None, renamed)"
| "rename_each E old_name new_name (parent # parents) renamed =
     (let old_dir = path_join parent old_name; new_dir = path_join parent new_name
      in act_bind (act_observe (\<lambda>es. path_exists (gw_fs (ae_git E) es) old_dir \<and> \<not> path_exists (gw_fs (ae_git E) es) new_dir)) (\<lambda>move.
         if \<not> move then rename_each E old_name new_name parents renamed
         else act_bind (act_observe (\<lambda>es. ae_rename E es old_dir new_dir)) (\<lambda>r.
           case r of
             Inl e \<Rightarrow> if is_os_error e then act_return (Some e, renamed) else act_raise e
           | Inr u \<Rightarrow> act_then (act_emit (DirRenamed old_dir new_dir))
                        (rename_each E old_name new_name parents ((old_dir, new_dir) # renamed)))))"

definition undo_rename :: "'v api_env \<Rightarrow> string \<times> string \<Rightarrow> unit act" where
  "undo_rename E d =
     act_bind (act_observe (\<lambda>es. ae_rename E es (snd d) (fst d))) (\<lambda>r.
       case r of
         Inl e \<Rightarrow> if is_os_error e then act_return () else act_raise e
       | Inr u \<Rightarrow> act_emit (DirRenamed (snd d) (fst d)))"

definition rename_app_storage_dirs :: "'v api_env \<Rightarrow> string \<Rightarrow> string \<Rightarrow> string option act" where
  "rename_app_storage_dirs E old_name new_name =
     (let pn = w_provision (ae_world E);
          parents = [path_join (pn_data_dir pn) ''app_data'', path_join (pn_temp_data_dir pn) ''app_temp_data'']
      in act_bind (act_observe (\<lambda>es. find (\<lambda>p. \<not> is_dir (gw_fs (ae_git E) es) p) parents)) (\<lambda>missing.
         case missing of
           Some p \<Rightarrow> act_return (Some (''Storage parent '' @ squote p @ '' is not a directory; refusing to rename so per-app data ''
                     @ ''isn'' @ [CHR 0x27] @ ''t orphaned.''))
         | None \<Rightarrow>
             act_bind (act_observe (\<lambda>es. is_dir (gw_fs (ae_git E) es) (pn_archive_dir pn))) (\<lambda>archive.
             act_bind (rename_each E old_name new_name (parents @ (if archive then [pn_archive_dir pn] else [])) []) (\<lambda>(failure, renamed).
               case failure of
                 None \<Rightarrow> act_return None
               | Some e \<Rightarrow> act_then (act_each (undo_rename E) renamed) (act_return (Some (exn_text e)))))))"

text \<open>\<open>UPDATE apps SET name = ?, repo_path = REPLACE(repo_path, ...)\<close>: the name is unique.\<close>

definition renamed_path :: "string \<Rightarrow> string \<Rightarrow> string \<Rightarrow> string" where
  "renamed_path old_name new_name p = replace_all (''/'' @ old_name @ ''/'') (''/'' @ new_name @ ''/'') p"

definition rename_row :: "string \<Rightarrow> string \<Rightarrow> string \<Rightarrow> database \<Rightarrow> database result" where
  "rename_row app_id old_name new_name db =
     (if (\<exists>r \<in> set (t_apps db). a_name r = new_name \<and> a_app_id r \<noteq> app_id) \<and> select_app app_id db \<noteq> None
      then Inl (integrity ''apps.name'')
      else Inr (update_app app_id (\<lambda>r. r\<lparr>a_name := new_name, a_repo_path := renamed_path old_name new_name (a_repo_path r)\<rparr>) db))"

definition rename_databases :: "string \<Rightarrow> string \<Rightarrow> string \<Rightarrow> database \<Rightarrow> database" where
  "rename_databases app_id old_name new_name db =
     db\<lparr>t_databases := map (\<lambda>r. if db_app_id r = app_id then r\<lparr>db_path := renamed_path old_name new_name (db_path r)\<rparr> else r)
       (t_databases db)\<rparr>"

definition restart_renamed :: "'v api_env \<Rightarrow> string \<Rightarrow> unit act" where
  "restart_renamed E app_id =
     act_catch (start_app_process (ae_world E) True app_id)
       (\<lambda>e. if is_runtime_error e \<or> is_value_error e then fail_row app_id (exn_text e) else act_raise e)"

definition move_app :: "'v api_env \<Rightarrow> app_row \<Rightarrow> string \<Rightarrow> string reply act" where
  "move_app E r new_name =
     (let app_id = a_app_id r; old_name = a_name r
      in act_then (stop_app_process (w_processes (ae_world E)) r)
         (act_then (act_exec (update_app app_id stopped_row))
         (act_then act_commit
         (act_bind (rename_app_storage_dirs E old_name new_name) (\<lambda>rename_error.
           case rename_error of
             Some err \<Rightarrow>
               act_then (act_exec (update_app app_id (\<lambda>q. q\<lparr>a_status := a_status r, a_container_id := a_container_id r\<rparr>)))
               (act_then act_commit (refuse (E500 (''Failed to rename app data directories: '' @ err))))
           | None \<Rightarrow>
               act_then (act_try (rename_row app_id old_name new_name))
               (act_then (act_exec (rename_databases app_id old_name new_name))
               (act_then act_commit
               (act_then (if a_status r \<in> {Running, Starting, Building} then restart_renamed E app_id else act_return ())
                 (reply new_name)))))))))"

text \<open>The checks of a rename against the live row \<open>r\<close>.\<close>

definition rename_live :: "'v api_env \<Rightarrow> string \<Rightarrow> app_row \<Rightarrow> string reply act" where
  "rename_live E new_name r =
     act_bind (act_lift (manifest_uses_archive (w_libs (ae_world E)) (or_empty (a_manifest_raw r)))) (\<lambda>uses.
     act_bind (act_observe (ae_mounted E)) (\<lambda>mounted. act_bind (act_query (is_archive_dir_healthy mounted)) (\<lambda>healthy.
       if uses \<and> \<not> healthy
       then refuse (E503 (''Archive backend is not healthy; refusing to rename an archive-using app until the JuiceFS ''
              @ ''mount is live again (see the dashboard'' @ [CHR 0x27] @ ''s Archive backend panel).''))
       else if new_name = a_name r then reply new_name
       else act_bind (act_query (select_app_by_name new_name)) (\<lambda>conflict.
         if conflict \<noteq> None then refuse (E409 (''Name already in use by '' @ squote new_name))
         else move_app E r new_name))))"

definition rename_app :: "'v api_env \<Rightarrow> string \<Rightarrow> string \<Rightarrow> string reply act" where
  "rename_app E app_id name =
     (let new_name = strip name
      in if new_name = [] then refuse (E400 ''Name is required'')
         else if \<not> is_valid_app_name new_name
         then refuse (E400 ''Name must be lowercase alphanumeric (hyphens allowed, not at start/end)'')
         else if ''/'' @ new_name \<in> RESERVED_PATHS
         then refuse (E400 (''Name '' @ squote new_name @ '' conflicts with a reserved path''))
         else reply_bind (resolve_live_app app_id) (rename_live E new_name))"

section \<open>Re-pointing\<close>

definition set_app_remote :: "'v api_env \<Rightarrow> string \<Rightarrow> string \<Rightarrow> string reply act" where
  "set_app_remote E app_id url =
     (let repo_url = strip url
      in if repo_url = [] then refuse (E400 ''Repo URL is required'')
         else reply_bind (resolve_live_app app_id) (\<lambda>r.
           act_bind (git_dir_there (ae_git E) (a_repo_path r)) (\<lambda>there.
             if a_repo_path r = [] \<or> \<not> there
             then refuse (E400 ''This app has no git repository, so its upstream cannot be edited.'')
             else case parse_repo_url (gw_bracketed (ae_git E)) repo_url of
                    Inl e \<Rightarrow> refuse (E400 (exn_text e))
                  | Inr (base_url, ref) \<Rightarrow>
                      let normalized = (case ref of None \<Rightarrow> base_url | Some t \<Rightarrow> if t = [] then base_url else base_url @ ''@'' @ t)
                      in act_then (act_exec (update_app app_id (\<lambda>q. q\<lparr>a_repo_url := Some normalized\<rparr>)))
                         (act_then act_commit (reply normalized)))))"

end
