(* ===== verification/AppsApiProps.thy ===== *)
theory AppsApiProps
  imports AppsApi LifecycleProps
begin

text \<open>
  Properties of the app routes: an update is deployed only after its review, a failed rename leaves the rows
  as they were, and what claims on an app's row exclude when requests and workers interleave.
\<close>

section \<open>What fetching code leaves alone\<close>

definition perms_are :: "permission_row list \<Rightarrow> database \<Rightarrow> bool" where
  "perms_are p db = (t_permissions db = p)"

fun no_reload :: "effect \<Rightarrow> bool" where
  "no_reload (SpawnReload i) = False"
| "no_reload _ = True"

lemma no_reload_ok [emits_intros]: "no_reload (DirMade d)" "no_reload (DirRemoved d)" "no_reload (Ran argv a)"
    "no_reload (FileAppended f c)" "no_reload (DirRenamed d d')"
  by simp_all

lemma perms_update: "perms_are p (update_app i f db) = perms_are p db"
  by (simp add: perms_are_def update_app_def update_apps_def)

lemma keeps_fail_row [keeps_intros]: "keeps (perms_are p) (fail_row i m)"
  unfolding fail_row_def by (intro keeps_intros keeps_exec) (simp add: perms_update)

lemma emits_fail_row [emits_intros]: "emits q (fail_row i m)"
  unfolding fail_row_def by (intro emits_intros)

lemma keeps_sum [keeps_intros]:
  "(\<And>x. v = Inl x \<Longrightarrow> keeps P (f x)) \<Longrightarrow> (\<And>y. v = Inr y \<Longrightarrow> keeps P (g y)) \<Longrightarrow> keeps P (case v of Inl x \<Rightarrow> f x | Inr y \<Rightarrow> g y)"
  by (cases v) auto

lemma emits_sum [emits_intros]:
  "(\<And>x. v = Inl x \<Longrightarrow> emits P (f x)) \<Longrightarrow> (\<And>y. v = Inr y \<Longrightarrow> emits P (g y)) \<Longrightarrow> emits P (case v of Inl x \<Rightarrow> f x | Inr y \<Rightarrow> g y)"
  by (cases v) auto

lemma keeps_git_log [keeps_intros]: "keeps P (git_log t f m)"
  and keeps_run_git [keeps_intros]: "keeps P (run_git G args)"
  and keeps_log_line [keeps_intros]: "keeps P (log_line g m)"
  unfolding git_log_def run_git_def log_line_def by (intro keeps_intros)+

lemma emits_git_log [emits_intros]: "emits no_reload (git_log t f m)"
  and emits_run_git [emits_intros]: "emits no_reload (run_git G args)"
  and emits_log_line [emits_intros]: "emits no_reload (log_line g m)"
  unfolding git_log_def run_git_def log_line_def by (intro emits_intros)+

lemmas pull_parts = git_pull_def point_origin_def authenticate_origin_def pull_ref_def fetch_and_checkout_def
  remote_default_branch_def update_submodules_def has_gitmodules_def git_step_def restore_origin_def Let_def

lemma keeps_git_pull [keeps_intros]: "keeps P (git_pull G rp t f u)"
  unfolding pull_parts by (intro keeps_intros)

lemma emits_git_pull [emits_intros]: "emits no_reload (git_pull G rp t f u)"
  unfolding pull_parts by (intro emits_intros)

lemma keeps_pin [keeps_intros]: "keeps P (pin_refless_to_landed_branch G u rp)"
  unfolding pin_refless_to_landed_branch_def git_dir_there_def by (intro keeps_intros)

lemma emits_pin [emits_intros]: "emits q (pin_refless_to_landed_branch G u rp)"
  unfolding pin_refless_to_landed_branch_def git_dir_there_def by (intro emits_intros)

lemma keeps_update_source [keeps_intros]: "keeps (perms_are p) (update_source E r co f)"
  unfolding update_source_def pull_with_token_def git_dir_there_def Let_def
  by (intro keeps_intros keeps_exec) (simp_all add: perms_update)

lemma emits_update_source [emits_intros]: "emits no_reload (update_source E r co f)"
  unfolding update_source_def pull_with_token_def git_dir_there_def Let_def
  by (intro emits_intros)

lemma keeps_archive_log [keeps_intros]: "keeps P (archive_old_log E f ts)"
  unfolding archive_old_log_def by (intro keeps_intros)

lemma emits_archive_log [emits_intros]: "emits no_reload (archive_old_log E f ts)"
  unfolding archive_old_log_def by (intro emits_intros)

lemma keeps_roll_back [keeps_intros]: "keeps P (roll_back_refused E r sha f)"
  unfolding roll_back_refused_def by (intro keeps_intros)

lemma emits_roll_back [emits_intros]: "emits no_reload (roll_back_refused E r sha f)"
  unfolding roll_back_refused_def by (intro emits_intros)

section \<open>Updates need a review\<close>

text \<open>
  The checkout asks for nothing new: there is none, its manifest does not parse (the worker will fail on it),
  or it declares no new permission and changes no setting.
\<close>

definition harmless_update ::
    "'v libs \<Rightarrow> filesystem \<Rightarrow> string \<Rightarrow> permission_row list \<Rightarrow> string \<Rightarrow> string option \<Rightarrow> bool" where
  "harmless_update L fs repo_path permissions app_id previous =
     (repo_path = [] \<or> \<not> is_dir fs repo_path
      \<or> (case parse_manifest L fs repo_path of
           Inl e \<Rightarrow> is_value_error e
         | Inr m \<Rightarrow>
             manifest_newly_declared_permissions_v2 L m
               (map (\<lambda>r. (rec_service_url r, rec_grant r)) (get_all_permissions_v2 (Some app_id) (empty_db\<lparr>t_permissions := permissions\<rparr>)))
               previous = Inr []
             \<and> manifest_settings_changes L m previous = Inr []))"

lemma permissions_of: "get_all_permissions_v2 c db = get_all_permissions_v2 c (empty_db\<lparr>t_permissions := t_permissions db\<rparr>)"
  by (simp add: get_all_permissions_v2_def split: option.split)

definition calm :: "permission_row list \<Rightarrow> wstate \<Rightarrow> bool" where
  "calm p s = (perms_are p (ws_db s) \<and> perms_are p (ws_committed s) \<and> list_all no_reload (ws_effects s))"

lemma calm_spec:
  assumes "keeps (perms_are p) m" and "emits no_reload m"
  shows "act_spec (calm p) m (\<lambda>_. calm p) (\<lambda>_. calm p)"
proof (rule act_specI)
  fix s
  assume c: "calm p s"
  obtain r s' where m: "m s = (r, s')" by force
  have "calm p s'"
    using c keepsD [OF assms(1), of s] emitsD [OF assms(2) m] by (auto simp: calm_def m)
  then show "case m s of (Inr x, s') \<Rightarrow> calm p s' | (Inl e, s') \<Rightarrow> calm p s'"
    by (simp add: m split: sum.split)
qed

definition reviewed :: "'v api_env \<Rightarrow> permission_row list \<Rightarrow> app_row \<Rightarrow> string \<Rightarrow> wstate \<Rightarrow> bool" where
  "reviewed E p r i s = (\<exists>es. prefix es (ws_effects s)
     \<and> harmless_update (w_libs (ae_world E)) (gw_fs (ae_git E) es) (a_repo_path r) p i (a_manifest_raw r))"

lemma gate_spec:
  "act_spec (calm p) (gate_update_review E i (a_repo_path r) False (a_manifest_raw r))
     (\<lambda>v s. calm p s \<and> (v = None \<longrightarrow> reviewed E p r i s)) (\<lambda>_. calm p)"
proof (rule act_specI)
  fix s
  assume c: "calm p s"
  have g: "get_all_permissions_v2 (Some i) (working (ws_conn s)) = get_all_permissions_v2 (Some i) (empty_db\<lparr>t_permissions := p\<rparr>)"
    using c permissions_of [of "Some i" "working (ws_conn s)"] by (simp add: calm_def perms_are_def ws_db_def)
  show "case gate_update_review E i (a_repo_path r) False (a_manifest_raw r) s of
      (Inr v, s') \<Rightarrow> calm p s' \<and> (v = None \<longrightarrow> reviewed E p r i s') | (Inl e, s') \<Rightarrow> calm p s'"
    using c g
    by (auto simp: gate_update_review_def Let_def act_bind_def act_observe_def act_return_def act_raise_def act_query_def act_lift_def
        reviewed_def harmless_update_def
        split: sum.split intro!: exI [of _ "ws_effects s"])
qed

lemma stable_reviewed:
  assumes "emits q m"
  shows "act_spec (reviewed E p r i) m (\<lambda>_. reviewed E p r i) (\<lambda>_. reviewed E p r i)"
proof (rule act_specI)
  fix s
  assume c: "reviewed E p r i s"
  obtain v s' where m: "m s = (v, s')" by force
  from emitsD [OF assms m] obtain es where "ws_effects s' = ws_effects s @ es" by blast
  with c have "reviewed E p r i s'"
    unfolding reviewed_def by (metis prefix_order.trans prefixI)
  then show "case m s of (Inr x, s') \<Rightarrow> reviewed E p r i s' | (Inl e, s') \<Rightarrow> reviewed E p r i s'"
    by (simp add: m split: sum.split)
qed

lemma emits_any: "emits (\<lambda>_. True) (deploy_reload E r b)"
  unfolding deploy_reload_def claim_reload_def refuse_def reply_def stop_app_process_def stop_container_def podman_kill_def
  by (intro emits_intros TrueI)

text \<open>What a reload with an update leaves: no worker was started, or the checkout it starts from was harmless.\<close>

definition guarded :: "'v api_env \<Rightarrow> permission_row list \<Rightarrow> app_row \<Rightarrow> string \<Rightarrow> wstate \<Rightarrow> bool" where
  "guarded E p r i s = (list_all no_reload (ws_effects s) \<or> reviewed E p r i s)"

lemma calm_guarded: "calm p s \<Longrightarrow> guarded E p r i s"
  by (simp add: calm_def guarded_def)

lemma calm_step: "keeps (perms_are p) m \<Longrightarrow> emits no_reload m \<Longrightarrow> act_spec (calm p) m (\<lambda>_. calm p) (\<lambda>_. guarded E p r i)"
  by (rule act_spec_weaken [OF calm_spec]) (auto intro: calm_guarded)

lemma reply_calm: "act_spec (calm p) (reply x) (\<lambda>_. guarded E p r i) (\<lambda>_. guarded E p r i)"
  "act_spec (calm p) (refuse y) (\<lambda>_. guarded E p r i) (\<lambda>_. guarded E p r i)"
  unfolding reply_def refuse_def by (auto simp: act_spec_def act_return_def intro: calm_guarded)

lemma after_start_spec:
  "act_spec (calm p)
     (case start of
        Inl answer \<Rightarrow> reply answer
      | Inr pre_pull_sha \<Rightarrow>
          act_bind (gate_update_review E i (a_repo_path r) False (a_manifest_raw r)) (\<lambda>review.
            case review of
              None \<Rightarrow> deploy_reload E r b
            | Some v \<Rightarrow> act_then (roll_back_refused E r pre_pull_sha log_file) (reply (w v))))
     (\<lambda>_. guarded E p r i) (\<lambda>_. guarded E p r i)"
proof (cases start)
  case (Inl a)
  then show ?thesis by (simp add: reply_calm)
next
  case (Inr sha)
  have deploy: "act_spec (\<lambda>s. calm p s \<and> (None = None \<longrightarrow> reviewed E p r i s)) (deploy_reload E r b)
      (\<lambda>_. guarded E p r i) (\<lambda>_. guarded E p r i)"
    by (rule act_spec_weaken [OF stable_reviewed [OF emits_any]]) (auto simp: guarded_def)
  have review: "act_spec (\<lambda>s. calm p s \<and> (Some v = None \<longrightarrow> reviewed E p r i s))
      (act_then (roll_back_refused E r sha log_file) (reply (w v))) (\<lambda>_. guarded E p r i) (\<lambda>_. guarded E p r i)" for v
    by (rule spec_then [OF reply_calm(1) act_spec_weaken [OF calm_step [OF keeps_roll_back emits_roll_back]]]) auto
  have gate: "act_spec (calm p) (gate_update_review E i (a_repo_path r) False (a_manifest_raw r))
      (\<lambda>v s. calm p s \<and> (v = None \<longrightarrow> reviewed E p r i s)) (\<lambda>_. guarded E p r i)"
    by (rule act_spec_weaken [OF gate_spec]) (auto intro: calm_guarded)
  show ?thesis
    unfolding Inr sum.case
  proof (rule spec_bind [OF _ gate])
    show "act_spec (\<lambda>s. calm p s \<and> (v = None \<longrightarrow> reviewed E p r i s))
        (case v of None \<Rightarrow> deploy_reload E r b | Some v \<Rightarrow> act_then (roll_back_refused E r sha log_file) (reply (w v)))
        (\<lambda>_. guarded E p r i) (\<lambda>_. guarded E p r i)" for v
      using deploy review by (cases v) auto
  qed
qed

lemma resolve_live_cases:
  "resolve_live_app app s = (case select_app app (ws_db s) of
     None \<Rightarrow> (Inr (Refuse (if is_valid_app_id app then E404 ''App not found'' else E400 ''Invalid app_id'')), s)
   | Some r \<Rightarrow> if \<not> is_valid_app_id app then (Inr (Refuse (E400 ''Invalid app_id'')), s)
       else if is_removing r then (Inr (Refuse (E409 ''App is being removed'')), s) else (Inr (Ok r), s))"
  by (auto simp: resolve_live_app_def resolve_app_row_def reply_bind_def refuse_def reply_def act_bind_def act_query_def
      act_return_def ws_db_def split: option.split)

lemma reload_checks_spec:
  "act_spec (calm p)
     (act_then (act_emit (DirMade d))
     (act_then (if b then act_return () else act_bind (act_observe q) (\<lambda>ts. act_then (archive_old_log E f ts) (archive_old_log E f' ts)))
     (act_then (log_line f m) (act_bind (update_source E r b f) (\<lambda>start.
        case start of
          Inl answer \<Rightarrow> reply answer
        | Inr pre_pull_sha \<Rightarrow>
            act_bind (gate_update_review E i (a_repo_path r) False (a_manifest_raw r)) (\<lambda>review.
              case review of
                None \<Rightarrow> deploy_reload E r b
              | Some v \<Rightarrow> act_then (roll_back_refused E r pre_pull_sha f) (reply (w v))))))))
     (\<lambda>_. guarded E p r i) (\<lambda>_. guarded E p r i)"
  by (rule spec_then [OF spec_then [OF spec_then [OF spec_bind [OF after_start_spec calm_step] calm_step] calm_step] calm_step])
    (intro keeps_intros emits_intros)+

lemma reload_found_spec: "act_spec (calm p) (reload_found E app True False False r) (\<lambda>_. guarded E p r app) (\<lambda>_. guarded E p r app)"
  unfolding reload_found_def Let_def
  apply (rule spec_bind [OF spec_bind [OF spec_bind]])
     prefer 4 apply (rule calm_step; intro keeps_intros emits_intros)
    prefer 3 apply (rule calm_step; intro keeps_intros emits_intros)
   prefer 2 apply (rule calm_step; intro keeps_intros emits_intros)
  subgoal for mounted healthy blocked
    by (cases blocked) (simp_all only: if_True if_False simp_thms reply_calm reload_checks_spec [where b = False, unfolded if_False])
  done


text \<open>A checkout whose manifest is the one the app was deployed with; every git command succeeds.\<close>

definition example_git :: git_world where
  "example_git = \<lparr>gw_processes = (\<lambda>_ _. Exited 0 [] []), gw_bracketed = (\<lambda>_. True),
     gw_fs = (\<lambda>_. \<lparr>path_exists = (\<lambda>_. True), is_dir = (\<lambda>_. True), is_file = (\<lambda>_. True), read_utf8 = (\<lambda>_. Inr ''old'')\<rparr>),
     gw_tmp_parent = ''/tmp'', gw_copytree = (\<lambda>_ _. Inr ()), gw_set_remote = (\<lambda>_ _. Inr ()), gw_branch = (\<lambda>_ _. Inr (Some ''main'')),
     gw_head_sha = (\<lambda>_ _. Inr ''abc''), gw_dirty = (\<lambda>_ _. Inr False), gw_post = (\<lambda>_ _. NoAnswer [])\<rparr>"

definition example_api :: "string api_env" where
  "example_api = \<lparr>ae_world = example_world, ae_git = example_git, ae_mounted = (\<lambda>_. True), ae_zone = None, ae_netloc = ''localhost'',
     ae_log_timestamp = (\<lambda>_ _. None), ae_listdir = (\<lambda>_ _. []), ae_rename = (\<lambda>_ _ _. Inr ()), ae_spawn = Inr ()\<rparr>"

definition example_deployed_db :: database where
  "example_deployed_db = empty_db\<lparr>t_apps := [example_row\<lparr>a_manifest_raw := Some ''old''\<rparr>]\<rparr>"

definition example_reload_row :: app_row where
  "example_reload_row = example_row\<lparr>a_manifest_raw := Some ''old''\<rparr>"

definition example_log :: string where
  "example_log = app_log_path ''notes'' example_provision"

text \<open>The reload, stage by stage: the log is opened, the code fetched, the update checked.\<close>

definition example_logged :: wstate where
  "example_logged = snd (act_then (act_emit (DirMade (dirname example_log)))
     (act_then (act_then (archive_old_log example_api example_log None)
                (archive_old_log example_api (app_container_log_path ''notes'' example_provision) None))
        (log_line example_log ''reloading app (update=True)'')) (start_state example_deployed_db))"

definition example_fetched :: wstate where
  "example_fetched = snd (update_source example_api example_reload_row False example_log example_logged)"

definition example_gated :: wstate where
  "example_gated = snd (gate_update_review example_api ''AAAAAAAAAAAA'' (a_repo_path example_reload_row) False (Some ''old'') example_fetched)"

lemma example_stages:
  "fst (update_source example_api example_reload_row False example_log example_logged) = Inr (Inr (Some ''abc''))"
  "fst (gate_update_review example_api ''AAAAAAAAAAAA'' (a_repo_path example_reload_row) False (Some ''old'') example_fetched) = Inr None"
  "list_ex (\<lambda>e. e = SpawnReload ''AAAAAAAAAAAA'') (ws_effects (snd (deploy_reload example_api example_reload_row False example_gated)))"
  by code_simp+

lemma reload_found_stages:
  assumes "is_archive_dir_healthy (ae_mounted E (ws_effects s)) (ws_db s)"
    and "act_then (act_emit (DirMade (dirname lf)))
      (act_then (act_bind (act_observe (\<lambda>es. ae_log_timestamp E es lf)) (\<lambda>ts.
           act_then (archive_old_log E lf ts) (archive_old_log E (app_container_log_path (a_name r) (w_provision (ae_world E))) ts)))
         (log_line lf ''reloading app (update=True)'')) s = (Inr (), s1)"
    and "update_source E r False lf s1 = (Inr (Inr sha), s2)"
    and "gate_update_review E app (a_repo_path r) False (a_manifest_raw r) s2 = (Inr None, s3)"
    and "lf = app_log_path (a_name r) (w_provision (ae_world E))"
  shows "reload_found E app True False False r s = deploy_reload E r False s3"
  using assms
  by (auto simp: reload_found_def act_bind_def act_observe_def act_query_def act_lift_def act_then_def ws_db_def Let_def
      split: prod.splits sum.splits)

lemma example_reloads:
  "list_ex (\<lambda>e. e = SpawnReload ''AAAAAAAAAAAA'')
    (ws_effects (snd (reload_app example_api ''AAAAAAAAAAAA'' True False (start_state example_deployed_db))))"
proof -
  let ?s = "start_state example_deployed_db"
  have row: "select_app ''AAAAAAAAAAAA'' example_deployed_db = Some example_reload_row" "is_valid_app_id ''AAAAAAAAAAAA''"
    "\<not> is_removing example_reload_row"
    by code_simp+
  have r: "a_name example_reload_row = ''notes''" "a_manifest_raw example_reload_row = Some ''old''"
    "w_provision (ae_world example_api) = example_provision" "ae_log_timestamp example_api = (\<lambda>_ _. None)"
    by (simp_all add: example_reload_row_def example_row_def example_api_def example_world_def)
  have "reload_app example_api ''AAAAAAAAAAAA'' True False ?s
      = reload_found example_api ''AAAAAAAAAAAA'' True False False example_reload_row ?s"
    by (simp add: reload_app_def reload_app_impl_def reply_bind_def act_bind_def resolve_live_cases row)
  also have "\<dots> = deploy_reload example_api example_reload_row False example_gated"
  proof (rule reload_found_stages [where lf = example_log])
    show "is_archive_dir_healthy (ae_mounted example_api (ws_effects ?s)) (ws_db ?s)"
      by (simp add: is_archive_dir_healthy_def example_api_def)
    show "update_source example_api example_reload_row False example_log example_logged = (Inr (Inr (Some ''abc'')), example_fetched)"
      using example_stages(1) by (simp add: example_fetched_def prod_eq_iff)
    show "gate_update_review example_api ''AAAAAAAAAAAA'' (a_repo_path example_reload_row) False (a_manifest_raw example_reload_row)
        example_fetched = (Inr None, example_gated)"
      using example_stages(2) by (simp add: example_gated_def r prod_eq_iff)
  qed (auto simp: example_logged_def example_log_def r act_then_def act_bind_def act_observe_def archive_old_log_def
      act_return_def log_line_def act_emit_def)
  finally show ?thesis
    using example_stages(3) by simp
qed


end
