(* ===== verification/AppStatus.thy ===== *)
theory AppStatus
  imports AppsApiProps
begin

text \<open>
  How requests and workers share an app's row: the claims that start a worker, the protocol of statuses when
  they interleave, and the rename that gives the row back when it fails.
\<close>

section \<open>Exclusive claims\<close>

text \<open>
  The contract of an atomic claim: it succeeds exactly when the resource is free, and leaves it taken.  Then of
  any number of claims in a row only the first can succeed.
\<close>

locale exclusive_claim =
  fixes free :: "'s \<Rightarrow> bool" and claim :: "'s \<Rightarrow> bool \<times> 's"
  assumes claims_when_free: "fst (claim s) \<longleftrightarrow> free s" and claim_takes: "\<not> free (snd (claim s))"
begin

fun winners :: "nat \<Rightarrow> 's \<Rightarrow> nat" where
  "winners 0 s = 0"
| "winners (Suc n) s = (if fst (claim s) then 1 else 0) + winners n (snd (claim s))"

lemma none_when_taken: "\<not> free s \<Longrightarrow> winners n s = 0"
proof (induction n arbitrary: s)
  case (Suc n)
  have "\<not> free (snd (claim s))" by (rule claim_takes)
  with Suc show ?case by (simp add: claims_when_free)
qed simp

lemma one_winner: "winners n s = (if free s \<and> 0 < n then 1 else 0)"
  by (cases n) (auto simp: claims_when_free none_when_taken [OF claim_takes] none_when_taken)

end

text \<open>A claim as a function of the committed database.\<close>

definition claiming :: "bool act \<Rightarrow> database \<Rightarrow> bool \<times> database" where
  "claiming m db = (case m (start_state db) of (Inr b, s) \<Rightarrow> (b, ws_committed s) | (Inl e, s) \<Rightarrow> (False, ws_committed s))"

definition status_free :: "app_status set \<Rightarrow> string \<Rightarrow> database \<Rightarrow> bool" where
  "status_free busy app db = (case select_app app db of None \<Rightarrow> False | Some r \<Rightarrow> a_status r \<notin> busy)"

lemma select_update_apps_key:
  assumes "\<And>r. a_app_id (f r) = a_app_id r"
  shows "select_app i (update_apps (\<lambda>r. a_app_id r = j \<and> Q r) f db)
    = (if i = j then map_option (\<lambda>r. if Q r then f r else r) (select_app i db) else select_app i db)"
proof -
  have "(if a_app_id r = j \<and> Q r then f r else r) = (if a_app_id r = j then (if Q r then f r else r) else r)" for r
    by simp
  then have "update_apps (\<lambda>r. a_app_id r = j \<and> Q r) f db = update_app j (\<lambda>r. if Q r then f r else r) db"
    by (simp add: update_apps_def update_app_def)
  then show ?thesis
    by (simp add: select_update_app assms)
qed

lemma claiming_reload:
  "claiming (claim_reload app) db =
     (status_free {Building, Starting, Removing} app db,
      update_apps (\<lambda>r. a_app_id r = app \<and> a_status r \<notin> {Building, Starting, Removing})
        (\<lambda>r. r\<lparr>a_status := Building, a_container_id := None, a_error_message := None\<rparr>) db)"
  by (simp add: claiming_def claim_reload_def act_defs status_free_def start_state_def ws_committed_def execute_def commit_def
      open_conn_def split: option.split)

lemma claiming_remove:
  "claiming (claim_remove app) db =
     (status_free {Removing} app db,
      update_apps (\<lambda>r. a_app_id r = app \<and> a_status r \<noteq> Removing) (\<lambda>r. r\<lparr>a_status := Removing, a_error_message := None\<rparr>) db)"
  by (simp add: claiming_def claim_remove_def act_defs status_free_def start_state_def ws_committed_def execute_def commit_def
      open_conn_def split: option.split)

interpretation reload_claim: exclusive_claim "status_free {Building, Starting, Removing} app" "claiming (claim_reload app)" for app
  by unfold_locales (auto simp: claiming_reload status_free_def select_update_apps_key split: option.splits)

interpretation remove_claim: exclusive_claim "status_free {Removing} app" "claiming (claim_remove app)" for app
  by unfold_locales (auto simp: claiming_remove status_free_def select_update_apps_key split: option.splits)

text \<open>Of any number of reload requests that reach the claim one after the other, with no worker finishing in
  between, exactly one starts a worker if the app was idle, and none if it was busy or is not installed; the
  same holds for removals.\<close>

theorem claims_are_exclusive:
  "reload_claim.winners app n db = (if status_free {Building, Starting, Removing} app db \<and> 0 < n then 1 else 0)
    \<and> remove_claim.winners app n db = (if status_free {Removing} app db \<and> 0 < n then 1 else 0)"
  by (simp add: reload_claim.one_winner remove_claim.one_winner)

section \<open>The status protocol\<close>

text \<open>
  The committed database, and the ids of the apps whose reload or removal worker is alive.  A reload request that
  passes the claim starts a worker, and so does one that resumes after OAuth, whatever the claim says.  The worker
  sets the row to \<open>starting\<close> and ends with \<open>running\<close> or \<open>error\<close>; a removal ends with the row gone or in error.
\<close>

record protocol =
  pr_db :: database
  pr_reloading :: "string list"
  pr_removing :: "string list"

datatype action =
    ReloadRequest string
  | ResumeAfterOauth string
  | StopRequest string
  | RemoveRequest string
  | WorkerStarts string
  | WorkerEnds string app_status
  | RemovalDone string
  | RemovalFailed string

inductive status_step :: "protocol \<Rightarrow> action \<Rightarrow> protocol \<Rightarrow> bool" where
  Reload: "claiming (claim_reload app) db = (True, db') \<Longrightarrow>
     status_step \<lparr>pr_db = db, pr_reloading = rs, pr_removing = ms\<rparr> (ReloadRequest app)
       \<lparr>pr_db = db', pr_reloading = app # rs, pr_removing = ms\<rparr>"
| Resume: "select_app app db = Some r \<Longrightarrow> \<not> is_removing r \<Longrightarrow> claiming (claim_reload app) db = (b, db') \<Longrightarrow>
     status_step \<lparr>pr_db = db, pr_reloading = rs, pr_removing = ms\<rparr> (ResumeAfterOauth app)
       \<lparr>pr_db = db', pr_reloading = app # rs, pr_removing = ms\<rparr>"
| Stop: "select_app app db = Some r \<Longrightarrow> \<not> is_removing r \<Longrightarrow>
     status_step \<lparr>pr_db = db, pr_reloading = rs, pr_removing = ms\<rparr> (StopRequest app)
       \<lparr>pr_db = update_app app stopped_row db, pr_reloading = rs, pr_removing = ms\<rparr>"
| Remove: "claiming (claim_remove app) db = (True, db') \<Longrightarrow>
     status_step \<lparr>pr_db = db, pr_reloading = rs, pr_removing = ms\<rparr> (RemoveRequest app)
       \<lparr>pr_db = db', pr_reloading = rs, pr_removing = app # ms\<rparr>"
| Starts: "app \<in> set rs \<Longrightarrow>
     status_step \<lparr>pr_db = db, pr_reloading = rs, pr_removing = ms\<rparr> (WorkerStarts app)
       \<lparr>pr_db = update_app app starting_row db, pr_reloading = rs, pr_removing = ms\<rparr>"
| Ends: "app \<in> set rs \<Longrightarrow> st \<in> {Running, Error} \<Longrightarrow>
     status_step \<lparr>pr_db = db, pr_reloading = rs, pr_removing = ms\<rparr> (WorkerEnds app st)
       \<lparr>pr_db = update_app app (\<lambda>r. r\<lparr>a_status := st\<rparr>) db, pr_reloading = remove1 app rs, pr_removing = ms\<rparr>"
| Done: "app \<in> set ms \<Longrightarrow>
     status_step \<lparr>pr_db = db, pr_reloading = rs, pr_removing = ms\<rparr> (RemovalDone app)
       \<lparr>pr_db = delete_app_cascade app db, pr_reloading = rs, pr_removing = remove1 app ms\<rparr>"
| Failed: "app \<in> set ms \<Longrightarrow>
     status_step \<lparr>pr_db = db, pr_reloading = rs, pr_removing = ms\<rparr> (RemovalFailed app)
       \<lparr>pr_db = update_app app (set_error ''Removal failed; retry from the dashboard. See server logs for details.'') db,
        pr_reloading = rs, pr_removing = remove1 app ms\<rparr>"

inductive_cases ReloadE: "status_step p (ReloadRequest app) p'"
inductive_cases RemoveE: "status_step p (RemoveRequest app) p'"
inductive_cases StartsE: "status_step p (WorkerStarts app) p'"
inductive_cases EndsE: "status_step p (WorkerEnds app st) p'"
inductive_cases DoneE: "status_step p (RemovalDone app) p'"

lemmas status_step_elims = ReloadE RemoveE StartsE EndsE DoneE

text \<open>Runs whose actions all satisfy \<open>allowed\<close>.\<close>

inductive reachable :: "(action \<Rightarrow> bool) \<Rightarrow> database \<Rightarrow> protocol \<Rightarrow> bool" for allowed db where
  Begin: "reachable allowed db \<lparr>pr_db = db, pr_reloading = [], pr_removing = []\<rparr>"
| Step: "reachable allowed db p \<Longrightarrow> allowed a \<Longrightarrow> status_step p a p' \<Longrightarrow> reachable allowed db p'"

fun undisturbed :: "action \<Rightarrow> bool" where
  "undisturbed (ReloadRequest app) = True"
| "undisturbed (RemoveRequest app) = True"
| "undisturbed (WorkerStarts app) = True"
| "undisturbed (WorkerEnds app st) = True"
| "undisturbed (RemovalDone app) = True"
| "undisturbed _ = False"

text \<open>Every live reload worker is the only one of its app, and its row, if it still exists, is busy.\<close>

definition workers_ok :: "protocol \<Rightarrow> bool" where
  "workers_ok p = (distinct (pr_reloading p)
     \<and> list_all (\<lambda>app. \<not> status_free {Building, Starting, Removing} app (pr_db p)) (pr_reloading p))"

lemma busy_after_claims:
  "status_free {Building, Starting, Removing} i (snd (claiming (claim_reload app) db))
    \<longleftrightarrow> i \<noteq> app \<and> status_free {Building, Starting, Removing} i db"
  "status_free {Building, Starting, Removing} i (snd (claiming (claim_remove app) db))
    \<longleftrightarrow> i \<noteq> app \<and> status_free {Building, Starting, Removing} i db"
  by (cases "i = app"; cases "select_app i db";
      simp add: claiming_reload claiming_remove status_free_def select_update_apps_key)+

lemma update_keeps_others:
  "(\<And>r. a_app_id (f r) = a_app_id r) \<Longrightarrow> i \<noteq> j \<Longrightarrow> status_free busy i (update_app j f db) = status_free busy i db"
  by (simp add: status_free_def select_update_app)

lemma update_busy:
  "(\<And>r. a_app_id (f r) = a_app_id r) \<Longrightarrow> (\<And>r. a_status (f r) \<in> busy) \<Longrightarrow> \<not> status_free busy i (update_app i f db)"
  by (auto simp: status_free_def select_update_app split: option.splits)

lemma step_workers_ok:
  assumes "status_step p a p'" and "undisturbed a" and "workers_ok p"
  shows "workers_ok p'"
  using assms
proof (induction rule: status_step.induct)
  case (Reload app db db' rs ms)
  then have free: "status_free {Building, Starting, Removing} app db"
    by (simp add: claiming_reload)
  have "db' = snd (claiming (claim_reload app) db)"
    using Reload by simp
  with Reload free show ?case
    by (auto simp: workers_ok_def list_all_iff busy_after_claims)
next
  case (Remove app db db' rs ms)
  have "db' = snd (claiming (claim_remove app) db)"
    using Remove by simp
  with Remove show ?case
    by (auto simp: workers_ok_def list_all_iff busy_after_claims)
next
  case (Starts app rs db ms)
  have row: "a_app_id (starting_row r) = a_app_id r" "a_status (starting_row r) \<in> {Building, Starting, Removing}" for r
    by (simp_all add: starting_row_def)
  have "\<not> status_free {Building, Starting, Removing} i (update_app app starting_row db)"
    if "\<not> status_free {Building, Starting, Removing} i db" for i
    using that update_busy [OF row(1), of "{Building, Starting, Removing}" app db] row(2) update_keeps_others [OF row(1), of i app]
    by (cases "i = app") auto
  with Starts show ?case
    by (auto simp: workers_ok_def list_all_iff)
next
  case (Ends app rs st db ms)
  then show ?case
    using update_keeps_others [of "\<lambda>r. r\<lparr>a_status := st\<rparr>" _ app "{Building, Starting, Removing}" db]
    by (auto simp: workers_ok_def list_all_iff)
next
  case (Done app ms db rs)
  then show ?case
    by (auto simp: workers_ok_def list_all_iff status_free_def select_delete_app split: option.splits)
qed simp_all


text \<open>
  A stop request during a reload frees the row while its worker lives, and so does nothing to prevent a second
  worker; a request that resumes after OAuth starts one whatever the row says.
\<close>

lemma second_worker_after_stop:
  "\<exists>p. reachable (\<lambda>_. True) example_db p \<and> \<not> distinct (pr_reloading p)"
proof -
  let ?a = "''AAAAAAAAAAAA''"
  let ?c = "claiming (claim_reload ?a)"
  let ?db1 = "snd (?c example_db)" and ?db2 = "update_app ?a stopped_row (snd (?c example_db))"
  have sel: "select_app ?a example_db = Some example_row" "a_status example_row = Running"
    by (simp_all add: select_app_def sample_defs)
  have 1: "?c example_db = (True, ?db1)"
    by (simp add: prod_eq_iff claiming_reload status_free_def sel)
  have r: "select_app ?a ?db1 = Some (example_row\<lparr>a_status := Building, a_container_id := None, a_error_message := None\<rparr>)"
    by (simp add: claiming_reload select_update_apps_key sel)
  have 2: "?c ?db2 = (True, snd (?c ?db2))"
    by (simp add: prod_eq_iff claiming_reload [of _ ?db2] status_free_def select_update_app r stopped_row_def)
  note s1 = reachable.Step [OF reachable.Begin _ status_step.Reload [OF 1], of "\<lambda>_. True", simplified]
  have "\<not> is_removing (example_row\<lparr>a_status := Building, a_container_id := None, a_error_message := None\<rparr>)"
    by (simp add: is_removing_def)
  note s2 = reachable.Step [OF s1 _ status_step.Stop [OF r this], simplified]
  note s3 = reachable.Step [OF s2 _ status_step.Reload [OF 2], simplified]
  then show ?thesis
    by (intro exI conjI) auto
qed

section \<open>Renaming\<close>

text \<open>Both copies of the database are \<open>db\<close>.\<close>

definition both_are :: "database \<Rightarrow> wstate \<Rightarrow> bool" where
  "both_are db s = (ws_db s = db \<and> ws_committed s = db)"

lemmas conn_steps = ws_db_def ws_committed_def execute_def commit_def

lemma at_spec: "keeps (\<lambda>d. d = db) m \<Longrightarrow> act_spec (both_are db) m (\<lambda>_. both_are db) (\<lambda>_ _. True)"
  unfolding keeps_def both_are_def [abs_def] by (erule act_spec_weaken) auto

definition refused_at :: "database \<Rightarrow> 'a reply \<Rightarrow> wstate \<Rightarrow> bool" where
  "refused_at db answer s = (case answer of Refuse e \<Rightarrow> both_are db s | Ok x \<Rightarrow> True)"

lemma refuse_at: "act_spec (both_are db) (refuse e) (refused_at db) (\<lambda>_ _. True)"
  by (simp add: refuse_def refused_at_def act_spec_def act_return_def)

lemma reply_at: "act_spec P (reply x) (refused_at db) (\<lambda>_ _. True)"
  by (simp add: reply_def refused_at_def act_spec_def act_return_def)

lemma any_spec: "act_spec P m (\<lambda>_ _. True) (\<lambda>_ _. True)"
  by (auto simp: act_spec_def split: sum.split)

lemma keeps_rename_each [keeps_intros]: "keeps P (rename_each E old_name new_name ps renamed)"
  by (induction ps arbitrary: renamed) (auto simp: Let_def intro!: keeps_intros)

lemma keeps_undo_rename [keeps_intros]: "keeps P (undo_rename E d)"
  unfolding undo_rename_def by (intro keeps_intros)

lemma keeps_rename_dirs [keeps_intros]: "keeps P (rename_app_storage_dirs E old_name new_name)"
  unfolding rename_app_storage_dirs_def Let_def by (intro keeps_intros)

lemma update_undone:
  assumes "distinct (map a_app_id (t_apps db))" and "select_app app db = Some r" and "g (f r) = r" and "\<And>q. a_app_id (f q) = a_app_id q"
  shows "update_app app g (update_app app f db) = db"
proof -
  have row: "g (f q) = q" if "q \<in> set (t_apps db)" "a_app_id q = app" for q
    using that assms(2,3) find_key_Some [OF assms(1) that] by (simp add: select_app_def)
  have "map ((\<lambda>q. if a_app_id q = app then g q else q) \<circ> (\<lambda>q. if a_app_id q = app then f q else q)) (t_apps db) = t_apps db"
  proof (rule map_idI)
    fix q
    assume "q \<in> set (t_apps db)"
    then show "((\<lambda>q. if a_app_id q = app then g q else q) \<circ> (\<lambda>q. if a_app_id q = app then f q else q)) q = q"
      using row assms(4) by (cases "a_app_id q = app") simp_all
  qed
  then show ?thesis
    by (simp add: update_app_def update_apps_def)
qed

lemma move_app_spec:
  assumes "db_keys_ok db" and "select_app app db = Some r"
  shows "act_spec (both_are db) (move_app E r new_name) (refused_at db) (\<lambda>_ _. True)"
proof -
  let ?db = "update_app app stopped_row db"
  have app: "a_app_id r = app"
    using assms(2) by (auto simp: select_app_def find_Some_iff)
  have undone: "update_app app (\<lambda>q. q\<lparr>a_status := a_status r, a_container_id := a_container_id r\<rparr>) ?db = db"
    using assms by (intro update_undone) (auto simp: db_keys_ok_def stopped_row_def)
  have stop: "act_spec (both_are db) (stop_app_process host r) (\<lambda>_. both_are db) (\<lambda>_ _. True)" for host
    by (rule at_spec) (intro keeps_intros)
  have mark: "act_spec (both_are db) (act_then (act_exec (update_app app stopped_row)) (act_then act_commit n)) (refused_at db) (\<lambda>_ _. True)"
    if "act_spec (both_are ?db) n (refused_at db) (\<lambda>_ _. True)" for n
    by (rule spec_then [OF spec_then [OF that spec_commit] act_spec_pre [OF spec_exec]]) (simp add: both_are_def conn_steps)
  have restore: "act_spec (both_are ?db) (act_then (act_exec (update_app app (\<lambda>q. q\<lparr>a_status := a_status r, a_container_id := a_container_id r\<rparr>)))
      (act_then act_commit (refuse e))) (refused_at db) (\<lambda>_ _. True)" for e
    by (rule spec_then [OF spec_then [OF refuse_at spec_commit] act_spec_pre [OF spec_exec]]) (simp add: both_are_def conn_steps undone)
  have go_on: "act_spec (both_are ?db) (act_then a (act_then b (act_then c (act_then d (reply x))))) (refused_at db) (\<lambda>_ _. True)" for a b c d x
    by (rule spec_then [OF spec_then [OF spec_then [OF spec_then [OF reply_at any_spec] any_spec] any_spec] any_spec])
  have dirs: "act_spec (both_are ?db) (rename_app_storage_dirs E old_name new_name) (\<lambda>_. both_are ?db) (\<lambda>_ _. True)" for old_name
    by (rule at_spec) (intro keeps_intros)
  show ?thesis
    unfolding move_app_def Let_def app
  proof (rule spec_then [OF mark [OF spec_bind [OF _ dirs]] stop], goal_cases)
    case (1 err)
    show ?case
      using restore go_on by (cases err) auto
  qed
qed

text \<open>A rename that is refused changes nothing in the database: when a storage directory cannot be renamed, the
  row gets back the status and container it had.\<close>

theorem refused_rename_keeps_rows:
  assumes "db_keys_ok db" and "rename_app E app name (start_state db) = (Inr (Refuse e), s')"
  shows "ws_committed s' = db \<and> ws_db s' = db"
proof -
  have at0: "both_are db (start_state db)"
    by (simp add: both_are_def)
  have "both_are db s'"
  proof (cases "select_app app db")
    case None
    then show ?thesis
      using assms(2) at0
      by (auto simp: rename_app_def Let_def refuse_def reply_bind_def act_bind_def resolve_live_cases act_return_def split: if_splits)
  next
    case (Some r)
    have conflict: "act_spec (both_are db) (if conflict then refuse e2 else move_app E r n) (refused_at db) (\<lambda>_ _. True)" for conflict e2 n
      by (simp add: refuse_at move_app_spec [OF assms(1) Some])
    have "act_spec (both_are db) (if b then refuse e1 else if c then reply x
        else act_bind (act_query f) (\<lambda>conflict. if conflict \<noteq> None then refuse e2 else move_app E r n)) (refused_at db) (\<lambda>_ _. True)"
      for b c e1 e2 x f n
    proof -
      have "act_spec (both_are db) (act_bind (act_query f) (\<lambda>conflict. if conflict \<noteq> None then refuse e2 else move_app E r n))
          (refused_at db) (\<lambda>_ _. True)"
        by (rule spec_bind [OF conflict at_spec [OF keeps_query]])
      then show ?thesis
        by (cases b; cases c) (simp_all only: if_True if_False refuse_at reply_at)
    qed
    then have "act_spec (both_are db) (rename_live E (strip name) r) (refused_at db) (\<lambda>_ _. True)"
      unfolding rename_live_def by (intro spec_bind [where R = "\<lambda>_. both_are db"] at_spec keeps_intros)
    from act_spec_Inr [OF this at0] show ?thesis
      using assms(2) at0 Some
      by (auto simp: rename_app_def Let_def reply_bind_def act_bind_def resolve_live_cases refuse_def act_return_def refused_at_def
          split: if_splits)
  qed
  then show ?thesis
    by (simp add: both_are_def)
qed

text \<open>A host whose archive directory cannot be renamed.\<close>

definition stuck_api :: "string api_env" where
  "stuck_api = example_api\<lparr>ae_git := example_git\<lparr>gw_fs := (\<lambda>_. \<lparr>path_exists = (\<lambda>p. \<not> contains ''new'' p), is_dir = (\<lambda>_. True),
     is_file = (\<lambda>_. True), read_utf8 = (\<lambda>_. Inr ''old'')\<rparr>)\<rparr>, ae_rename := (\<lambda>_ _ _. Inl (Exn OsError ''device busy''))\<rparr>"

lemma stuck_rename: "case fst (rename_app stuck_api ''AAAAAAAAAAAA'' ''new'' (start_state example_db)) of Inr (Refuse (E500 m)) \<Rightarrow> True | _ \<Rightarrow> False"
  by code_simp

theorem refused_rename_keeps_rows_witness:
  "ws_committed (snd (rename_app stuck_api ''AAAAAAAAAAAA'' ''new'' (start_state example_db))) = example_db"
  using refused_rename_keeps_rows [OF example_db_ok(1), of stuck_api "''AAAAAAAAAAAA''" "''new''"] stuck_rename
  by (cases "rename_app stuck_api ''AAAAAAAAAAAA'' ''new'' (start_state example_db)") (auto split: sum.splits reply.splits)

text \<open>
  The row then names a container that was stopped and removed: the first commands a failed rename of a running
  app runs are the ones that remove it.
\<close>

lemma stuck_rename_removed_container:
  "list_ex (\<lambda>e. case e of Ran argv _ \<Rightarrow> argv = [''podman'', ''rm'', ''-f'', ''c1''] | _ \<Rightarrow> False)
     (ws_effects (snd (rename_app stuck_api ''AAAAAAAAAAAA'' ''new'' (start_state example_db))))
   \<and> map a_container_id (t_apps example_db) = [Some ''c1'']"
  by code_simp

text \<open>An app called like a component of the data root has that component renamed too.\<close>

lemma rename_rewrites_data_root:
  "renamed_path ''opt'' ''x'' ''/opt/openhost/app_temp_data/opt/repo'' = ''/x/openhost/app_temp_data/x/repo''"
  by code_simp


end
