(* ===== verification/Proxy.thy ===== *)
theory Proxy
  imports Lifecycle
begin

text \<open>
  The path of a request to an app: \<open>web/middleware/subdomain_proxy.py\<close> decides by the host which app, if any,
  gets the request and adds the identity headers; \<open>web/helpers/proxy.py\<close> builds the request to the backend and
  the answer to the client.  Header names and values, paths and bodies are byte strings; decoding of the query
  is a parameter, and so is the backend.
\<close>

section \<open>Headers\<close>

definition SESSION_COOKIE_NAME :: string where
  "SESSION_COOKIE_NAME = ''session_token''"

definition OPENHOST_HEADER_PREFIX :: string where
  "OPENHOST_HEADER_PREFIX = ''x-openhost-''"

definition IS_OWNER_HEADER :: "string \<times> string" where
  "IS_OWNER_HEADER = (''X-OpenHost-Is-Owner'', ''true'')"

text \<open>\<open>headers.get(name)\<close> of the server's multidict: the first value.\<close>

definition header_get :: "string \<Rightarrow> (string \<times> string) list \<Rightarrow> string option" where
  "header_get name hs = map_option snd (find (\<lambda>(k, v). lower k = lower name) hs)"

text \<open>\<open>headers.get(name)\<close> of httpx: all values, joined.\<close>

definition httpx_get :: "string \<Rightarrow> (string \<times> string) list \<Rightarrow> string option" where
  "httpx_get name hs =
     (case filter (\<lambda>(k, v). lower k = lower name) hs of [] \<Rightarrow> None | vs \<Rightarrow> Some (join '', '' (map snd vs)))"

definition cookie_parts :: "string \<Rightarrow> string list" where
  "cookie_parts v = filter (\<lambda>part. \<not> startswith part (SESSION_COOKIE_NAME @ ''='')) (map strip (split_char CHR '';'' v))"

fun sanitize_forwarded_headers :: "(string \<times> string) list \<Rightarrow> (string \<times> string) list" where
  "sanitize_forwarded_headers [] = []"
| "sanitize_forwarded_headers ((key, v) # headers) =
     (if startswith (lower key) OPENHOST_HEADER_PREFIX then sanitize_forwarded_headers headers
      else if lower key = ''cookie'' then
        (let v' = join ''; '' (cookie_parts v)
         in if v' = [] then sanitize_forwarded_headers headers else (key, v') # sanitize_forwarded_headers headers)
      else (key, v) # sanitize_forwarded_headers headers)"

definition build_forwarded_request_headers ::
    "(string \<times> string) list \<Rightarrow> string set \<Rightarrow> (string \<times> string) list \<Rightarrow> (string \<times> string) list" where
  "build_forwarded_request_headers headers proto_excluded_headers extra_headers =
     filter (\<lambda>(k, v). lower k \<notin> proto_excluded_headers) (sanitize_forwarded_headers headers) @ extra_headers"

definition HTTP_REQUEST_EXCLUDED_HEADERS :: "string set" where
  "HTTP_REQUEST_EXCLUDED_HEADERS = {''host'', ''connection'', ''transfer-encoding'', ''accept-encoding'',
     ''x-forwarded-for'', ''x-forwarded-proto'', ''x-forwarded-host''}"

definition HTTP_RESPONSE_EXCLUDED_HEADERS :: "string set" where
  "HTTP_RESPONSE_EXCLUDED_HEADERS = {''content-encoding'', ''content-length'', ''content-type'', ''transfer-encoding'', ''connection''}"

definition WS_REQUEST_EXCLUDED_HEADERS :: "string set" where
  "WS_REQUEST_EXCLUDED_HEADERS = {''host'', ''connection'', ''upgrade'', ''sec-websocket-key'', ''sec-websocket-version'',
     ''sec-websocket-extensions'', ''sec-websocket-protocol'', ''x-forwarded-for'', ''x-forwarded-proto'', ''x-forwarded-host''}"

section \<open>The request\<close>

datatype scope_type = Http | WebSock | Lifespan

text \<open>
  \<open>rq_netloc\<close>: \<open>connection.url.netloc\<close>, which raises for a malformed host; \<open>rq_conn\<close>: what the guards read.
  \<open>rq_messages\<close> are the ASGI messages \<open>receive()\<close> delivers, in order.
\<close>

datatype asgi_message = BodyPart string bool | Disconnect | OtherMessage

record asgi_request =
  rq_type :: scope_type
  rq_netloc :: "string result"
  rq_path :: string
  rq_url_path :: string
  rq_url_query :: string
  rq_raw_path :: string
  rq_query_string :: string
  rq_headers :: "(string \<times> string) list"
  rq_client :: "string option"
  rq_conn :: connection
  rq_messages :: "asgi_message list"

definition LOOPBACK_HOSTS :: "string set" where
  "LOOPBACK_HOSTS = {''127.0.0.1'', ''::1''}"

definition ROUTER_INTERNAL_HOSTS :: "string set" where
  "ROUTER_INTERNAL_HOSTS = {''host.containers.internal'', ''host.docker.internal'', ''127.0.0.1''}"

definition resolve_forwarded_for :: "asgi_request \<Rightarrow> string option" where
  "resolve_forwarded_for rq =
     (case rq_client rq of
        None \<Rightarrow> None
      | Some host \<Rightarrow>
          (let inbound = header_get ''x-forwarded-for'' (rq_headers rq)
           in if host \<in> LOOPBACK_HOSTS \<and> str_truthy inbound then inbound else Some host))"

text \<open>\<open>decode_query\<close> is \<open>bytes.decode('utf-8')\<close>; decoding ASCII fails on the first other byte.\<close>

definition format_proxy_request_url ::
    "(string \<Rightarrow> string result) \<Rightarrow> asgi_request \<Rightarrow> string \<Rightarrow> string option \<Rightarrow> string result" where
  "format_proxy_request_url decode_query rq base_url override_path =
     rbind (if str_truthy override_path then Inr (the override_path)
            else if \<exists>c \<in> set (rq_raw_path rq). code c \<ge> 128 then Inl (Exn ValueError ''ordinal not in range(128)'')
            else Inr (rq_raw_path rq)) (\<lambda>path.
     let target_url = base_url @ ''/'' @ dropWhile (\<lambda>c. c = CHR ''/'') path
     in if rq_query_string rq = [] then Inr target_url
        else rbind (decode_query (rq_query_string rq)) (\<lambda>q. Inr (target_url @ ''?'' @ q)))"

section \<open>Dispatch\<close>

text \<open>
  The elements of \<open>public_paths\<close> are whatever the manifest holds: the comparison is false and \<open>rstrip\<close> an error
  for what is not a string.
\<close>

fun any_public :: "pyval list \<Rightarrow> string \<Rightarrow> bool result" where
  "any_public [] path = Inr False"
| "any_public (VStr pp # pps) path = (if is_public_path [pp] path then Inr True else any_public pps path)"
| "any_public (v # pps) path = Inl (no_attribute v ''rstrip'')"

definition app_path_public :: "app_row \<Rightarrow> string \<Rightarrow> bool result" where
  "app_path_public app path = rbind (iter_elems (a_public_paths app)) (\<lambda>pps. any_public pps path)"

text \<open>What becomes of a request; the zone is the domain it arrived on.\<close>

datatype disposition =
    PassThrough
  | ServeRouter domain
  | BadRequest
  | NotServed
  | LoginRedirect string
  | RefuseHandshake int
  | ProxyHttp int "(string \<times> string) list"
  | ProxyWs int "(string \<times> string) list"

definition identity_headers :: "domain \<Rightarrow> string \<Rightarrow> asgi_request \<Rightarrow> bool \<Rightarrow> (string \<times> string) list" where
  "identity_headers zone netloc rq is_owner =
     [(''X-Forwarded-Host'', netloc), (''X-Forwarded-Proto'', scheme zone)]
     @ (case resolve_forwarded_for rq of None \<Rightarrow> [] | Some f \<Rightarrow> if f = [] then [] else [(''X-Forwarded-For'', f)])
     @ (if is_owner then [IS_OWNER_HEADER] else [])"

definition to_app :: "domain \<Rightarrow> string \<Rightarrow> asgi_request \<Rightarrow> app_row \<Rightarrow> bool \<Rightarrow> disposition" where
  "to_app zone netloc rq app is_owner =
     (if rq_type rq = Http then ProxyHttp (a_local_port app) (identity_headers zone netloc rq is_owner @ [(''Host'', netloc)])
      else ProxyWs (a_local_port app) (identity_headers zone netloc rq is_owner))"

definition serve_app :: "auth_env \<Rightarrow> database \<Rightarrow> asgi_request \<Rightarrow> domain \<Rightarrow> string \<Rightarrow> app_row \<Rightarrow> disposition result" where
  "serve_app ae db rq zone netloc app =
     (case verify_owner_auth ae (rq_conn rq) db of
        Inr u \<Rightarrow> Inr (to_app zone netloc rq app True)
      | Inl e \<Rightarrow>
          if exn_class e \<noteq> NotAuthorized then Inl e
          else rbind (app_path_public app (rq_path rq)) (\<lambda>public.
            if public then Inr (to_app zone netloc rq app False)
            else Inr (if rq_type rq = Http then LoginRedirect (build_login_url zone netloc (rq_url_path rq) (rq_url_query rq))
                      else RefuseHandshake 4401)))"

definition dispatch :: "auth_env \<Rightarrow> database \<Rightarrow> asgi_request \<Rightarrow> disposition result" where
  "dispatch ae db rq =
     (if rq_type rq = Lifespan then Inr PassThrough
      else case rq_netloc rq of
        Inl e \<Rightarrow> if is_value_error e then Inr BadRequest else Inl e
      | Inr netloc \<Rightarrow>
          (case domain_match db netloc of
             None \<Rightarrow> Inr (if lower (before CHR '':'' netloc) \<in> ROUTER_INTERNAL_HOSTS then PassThrough else NotServed)
           | Some zone \<Rightarrow>
               (case get_app_from_hostname netloc db of
                  Some app \<Rightarrow> serve_app ae db rq zone netloc app
                | None \<Rightarrow> Inr (if is_app_subdomain zone netloc then NotServed else ServeRouter zone))))"

section \<open>Forwarding a request\<close>

text \<open>Reading the body; \<open>None\<close> while the client sends nothing more and does not disconnect.\<close>

fun read_body :: "asgi_message list \<Rightarrow> string option" where
  "read_body [] = None"
| "read_body (BodyPart chunk m # ms) = (if m then map_option ((@) chunk) (read_body ms) else Some chunk)"
| "read_body (Disconnect # ms) = Some []"
| "read_body (OtherMessage # ms) = read_body ms"

record backend_request =
  br_url :: string
  br_headers :: "(string \<times> string) list"
  br_content :: "string option"

datatype backend_answer =
    ConnectError
  | BackendTimeout
  | TransportError
  | BackendCrash exn
  | Answered nat "(string \<times> string) list" "string result"

text \<open>A streamed body is passed on chunk by chunk; the status and headers are sent before it.\<close>

datatype proxy_reply =
    PlainText nat string
  | Buffered nat "string option" "(string \<times> string) list" string
  | Streamed nat "string option" "(string \<times> string) list"

definition BUFFER_THRESHOLD :: int where
  "BUFFER_THRESHOLD = 512000"

definition end_to_end :: "(string \<times> string) list \<Rightarrow> (string \<times> string) list" where
  "end_to_end hs = filter (\<lambda>(k, v). lower k \<notin> HTTP_RESPONSE_EXCLUDED_HEADERS) hs"

definition answer_client :: "(string \<Rightarrow> int result) \<Rightarrow> backend_answer \<Rightarrow> proxy_reply result" where
  "answer_client parse_int answer =
     (case answer of
        ConnectError \<Rightarrow> Inr (PlainText 502 ''App is not responding'')
      | BackendTimeout \<Rightarrow> Inr (PlainText 504 ''App timed out'')
      | TransportError \<Rightarrow> Inr (PlainText 502 ''App disconnected unexpectedly'')
      | BackendCrash e \<Rightarrow> Inl e
      | Answered status headers body \<Rightarrow>
          (let media_type = httpx_get ''Content-Type'' headers
           in rbind (case httpx_get ''content-length'' headers of
                       None \<Rightarrow> Inr False
                     | Some n \<Rightarrow> rbind (parse_int n) (\<lambda>i. Inr (i \<le> BUFFER_THRESHOLD))) (\<lambda>should_buffer.
              if should_buffer then rbind body (\<lambda>b. Inr (Buffered status media_type (end_to_end headers) b))
              else Inr (Streamed status media_type (end_to_end headers)))))"

definition proxy_http_request ::
    "(string \<Rightarrow> string result) \<Rightarrow> (string \<Rightarrow> int result) \<Rightarrow> (backend_request \<Rightarrow> backend_answer) \<Rightarrow> asgi_request \<Rightarrow> int
     \<Rightarrow> string option \<Rightarrow> (string \<times> string) list \<Rightarrow> proxy_reply result option" where
  "proxy_http_request decode_query parse_int backend rq local_port override_path extra_headers =
     (case format_proxy_request_url decode_query rq (''http://127.0.0.1:'' @ show_int local_port) override_path of
        Inl e \<Rightarrow> Some (Inl e)
      | Inr url \<Rightarrow>
          map_option (\<lambda>body.
            let declared = (header_get ''content-length'' (rq_headers rq) \<noteq> None \<or> header_get ''transfer-encoding'' (rq_headers rq) \<noteq> None)
            in answer_client parse_int (backend
                 \<lparr>br_url = url,
                  br_headers = build_forwarded_request_headers (rq_headers rq) HTTP_REQUEST_EXCLUDED_HEADERS extra_headers,
                  br_content = (if declared then Some body else None)\<rparr>))
          (read_body (rq_messages rq)))"

section \<open>WebSockets\<close>

definition UNSENDABLE_CLOSE_CODES :: "int set" where
  "UNSENDABLE_CLOSE_CODES = {1005, 1006, 1015}"

text \<open>The code the backend is closed with when the client goes, if any, and the one the client sees.\<close>

definition close_backend_with :: "int \<Rightarrow> int option" where
  "close_backend_with client_code = (if client_code \<in> UNSENDABLE_CLOSE_CODES then None else Some client_code)"

definition close_client_with :: "int option \<Rightarrow> int option" where
  "close_client_with backend_code =
     map_option (\<lambda>c. if c \<in> UNSENDABLE_CLOSE_CODES then 1011 else c) backend_code"

definition subprotocols_of :: "asgi_request \<Rightarrow> string list option" where
  "subprotocols_of rq =
     (let s = header_get ''Sec-WebSocket-Protocol'' (rq_headers rq)
      in if str_truthy s then Some (map strip (split_char CHR '','' (the s))) else None)"

definition ws_backend_request ::
    "(string \<Rightarrow> string result) \<Rightarrow> asgi_request \<Rightarrow> int \<Rightarrow> string option \<Rightarrow> (string \<times> string) list
     \<Rightarrow> (string \<times> string list option \<times> (string \<times> string) list) result" where
  "ws_backend_request decode_query rq target_port override_path extra_headers =
     rbind (format_proxy_request_url decode_query rq (''ws://127.0.0.1:'' @ show_int target_port) override_path) (\<lambda>url.
       Inr (url, subprotocols_of rq, build_forwarded_request_headers (rq_headers rq) WS_REQUEST_EXCLUDED_HEADERS extra_headers))"

section \<open>What reaches the backend\<close>

lemma dropWhile_idem: "dropWhile p (dropWhile p s) = dropWhile p s"
  by (induction s) auto

lemma hd_dropWhile_not: "dropWhile p s \<noteq> [] \<Longrightarrow> \<not> p (hd (dropWhile p s))"
  by (induction s) auto

lemma strip_idem: "strip (strip s) = strip s"
proof (cases "strip s = []")
  case False
  let ?t = "dropWhile is_space s"
  have t: "dropWhile is_space (strip s) = strip s"
  proof -
    have "prefix (strip s) ?t"
      using suffix_dropWhile [of is_space "rev ?t"] by (simp add: strip_def rstrip_if_def suffix_to_prefix)
    then obtain zs where "?t = strip s @ zs"
      by (auto simp: prefix_def)
    with False have "hd (strip s) = hd ?t" "?t \<noteq> []"
      by (metis hd_append, metis append_is_Nil_conv)
    with hd_dropWhile_not [of is_space s] False show ?thesis
      by (cases "strip s") auto
  qed
  have "rev (dropWhile is_space (rev (strip s))) = strip s"
    by (simp add: strip_def rstrip_if_def dropWhile_idem)
  then show ?thesis
    unfolding strip_def [of "strip s"] rstrip_if_def t .
next
  case True
  show ?thesis
    unfolding True by (simp add: strip_def rstrip_if_def)
qed

lemma strip_space: "strip (CHR '' '' # s) = strip s"
  by (simp add: strip_def is_space_def code_def)

lemma split_char_join_semicolon:
  "list_all (\<lambda>w. CHR '';'' \<notin> set w) (p # ps) \<Longrightarrow>
    split_char CHR '';'' (join ''; '' (p # ps)) = p # map ((#) CHR '' '') ps"
proof (induction ps arbitrary: p)
  case (Cons q ps)
  then have "split_char CHR '';'' (CHR '' '' # join ''; '' (q # ps)) = (CHR '' '' # q) # map ((#) CHR '' '') ps"
    by (cases "split_char CHR '';'' (join ''; '' (q # ps))") auto
  with Cons.prems show ?case
    by (simp add: split_char_append [of _ p "CHR '' '' # join ''; '' (q # ps)", simplified])
qed (simp add: split_char_id)

text \<open>The parts of a sanitised cookie header are the ones that were kept.\<close>

lemma cookie_parts_kept: "set (map strip (split_char CHR '';'' (join ''; '' (cookie_parts v)))) \<subseteq> set (cookie_parts v) \<union> {[]}"
proof (cases "cookie_parts v")
  case Nil
  then show ?thesis by (simp add: strip_def rstrip_if_def)
next
  case (Cons p ps)
  have sep: "CHR '';'' \<notin> set w" and id: "strip w = w" if "w \<in> set (p # ps)" for w
  proof -
    from that obtain u where u: "u \<in> set (split_char CHR '';'' v)" "w = strip u"
      unfolding Cons [symmetric] by (auto simp: cookie_parts_def)
    have "set (strip u) \<subseteq> set u"
      by (auto simp: strip_def rstrip_if_def dest!: set_dropWhileD)
    with u split_char_no_sep [OF u(1)] show "CHR '';'' \<notin> set w" by auto
    show "strip w = w" by (simp add: u strip_idem)
  qed
  have "list_all (\<lambda>w. CHR '';'' \<notin> set w) (p # ps)"
    using sep by (simp only: list_all_iff) blast
  from split_char_join_semicolon [OF this] id show ?thesis
    unfolding Cons by (auto simp: strip_space)
qed

definition hides_session :: "string \<Rightarrow> bool" where
  "hides_session v = list_all (\<lambda>part. \<not> startswith (strip part) (SESSION_COOKIE_NAME @ ''='')) (split_char CHR '';'' v)"

lemma sanitized_cookie: "hides_session (join ''; '' (cookie_parts v))"
proof -
  have "\<not> startswith w (SESSION_COOKIE_NAME @ ''='')" if "w \<in> set (cookie_parts v) \<union> {[]}" for w
    using that by (auto simp: cookie_parts_def startswith_def SESSION_COOKIE_NAME_def)
  with cookie_parts_kept [of v] show ?thesis
    unfolding hides_session_def list_all_iff by (metis image_eqI list.set_map subset_iff)
qed

lemma sanitized:
  assumes "(k, v) \<in> set (sanitize_forwarded_headers hs)"
  shows "\<not> startswith (lower k) OPENHOST_HEADER_PREFIX \<and> (lower k = ''cookie'' \<longrightarrow> hides_session v)"
  using assms by (induction hs rule: sanitize_forwarded_headers.induct) (auto simp: Let_def sanitized_cookie split: if_splits)

lemma forwarded_unless_extra:
  assumes "(k, v) \<in> set (build_forwarded_request_headers hs ex extra)" and "(k, v) \<notin> set extra"
  shows "\<not> startswith (lower k) OPENHOST_HEADER_PREFIX \<and> (lower k = ''cookie'' \<longrightarrow> hides_session v) \<and> lower k \<notin> ex"
  using assms sanitized [of k v hs] by (auto simp: build_forwarded_request_headers_def)

lemma identity_headers_set:
  "(k, v) \<in> set (identity_headers zone netloc rq is_owner @ [(''Host'', netloc)]) \<Longrightarrow>
    lower k \<noteq> ''cookie'' \<and> (startswith (lower k) OPENHOST_HEADER_PREFIX \<longrightarrow> (k, v) = IS_OWNER_HEADER)
    \<and> ((k, v) = IS_OWNER_HEADER \<longrightarrow> is_owner)"
  by (auto simp: identity_headers_def IS_OWNER_HEADER_def OPENHOST_HEADER_PREFIX_def startswith_def lower_def lower_char_def code_def
      split: option.splits if_splits)

lemma owner_header_prefix: "startswith (lower (fst IS_OWNER_HEADER)) OPENHOST_HEADER_PREFIX"
  by code_simp

lemma any_public_strings: "any_public (map VStr pps) path = Inr (is_public_path pps path)"
  by (induction pps) (auto simp: is_public_path_def)

text \<open>The headers a request is sent on with, for either protocol.\<close>

fun sent_headers :: "asgi_request \<Rightarrow> disposition \<Rightarrow> (string \<times> string) list" where
  "sent_headers rq (ProxyHttp port extra) = build_forwarded_request_headers (rq_headers rq) HTTP_REQUEST_EXCLUDED_HEADERS extra"
| "sent_headers rq (ProxyWs port extra) = build_forwarded_request_headers (rq_headers rq) WS_REQUEST_EXCLUDED_HEADERS extra"
| "sent_headers rq _ = []"

fun proxied_to :: "disposition \<Rightarrow> int option" where
  "proxied_to (ProxyHttp port extra) = Some port"
| "proxied_to (ProxyWs port extra) = Some port"
| "proxied_to _ = None"

lemma dispatch_to_app:
  assumes "dispatch ae db rq = Inr d" and "proxied_to d = Some port"
  shows "\<exists>netloc app zone is_owner. rq_netloc rq = Inr netloc \<and> domain_match db netloc = Some zone
    \<and> get_app_from_hostname netloc db = Some app \<and> port = a_local_port app \<and> d = to_app zone netloc rq app is_owner
    \<and> is_owner = (verify_owner_auth ae (rq_conn rq) db = Inr ()) \<and> (is_owner \<or> app_path_public app (rq_path rq) = Inr True)"
  using assms
  by (auto simp: dispatch_def serve_app_def to_app_def split: if_splits sum.splits option.splits)

lemma sent_by_app:
  assumes "(k, v) \<in> set (sent_headers rq (to_app zone netloc rq app is_owner))"
  shows "(startswith (lower k) OPENHOST_HEADER_PREFIX \<longrightarrow> (k, v) = IS_OWNER_HEADER \<and> is_owner) \<and> (lower k = ''cookie'' \<longrightarrow> hides_session v)"
proof -
  let ?own = "identity_headers zone netloc rq is_owner @ [(''Host'', netloc)]"
  show ?thesis
  proof (cases "(k, v) \<in> set ?own")
    case True
    with identity_headers_set [OF True] show ?thesis by blast
  next
    case False
    then have "(k, v) \<notin> set (if rq_type rq = Http then ?own else identity_headers zone netloc rq is_owner)"
      by auto
    with assms forwarded_unless_extra [of k v "rq_headers rq"] show ?thesis
      by (auto simp: to_app_def split: if_splits)
  qed
qed

text \<open>C3: A request reaches an app only at the port of the app its host names, and only with the owner's credentials
  or on a public path.  Whatever headers the client sends, the backend sees the owner header exactly when the
  owner was authenticated and no other \<open>X-OpenHost-\<close> header, and no cookie header carries the session.\<close>

theorem app_requests_carry_identity:
  assumes "dispatch ae db rq = Inr d" and "proxied_to d = Some port"
  shows "(\<exists>netloc app. rq_netloc rq = Inr netloc \<and> get_app_from_hostname netloc db = Some app \<and> port = a_local_port app
      \<and> (verify_owner_auth ae (rq_conn rq) db = Inr () \<or> app_path_public app (rq_path rq) = Inr True))
    \<and> (IS_OWNER_HEADER \<in> set (sent_headers rq d) \<longleftrightarrow> verify_owner_auth ae (rq_conn rq) db = Inr ())
    \<and> (\<forall>(k, v) \<in> set (sent_headers rq d).
        (startswith (lower k) OPENHOST_HEADER_PREFIX \<longrightarrow> (k, v) = IS_OWNER_HEADER) \<and> (lower k = ''cookie'' \<longrightarrow> hides_session v))"
proof -
  obtain netloc app zone is_owner where d: "rq_netloc rq = Inr netloc" "get_app_from_hostname netloc db = Some app"
    "port = a_local_port app" "d = to_app zone netloc rq app is_owner"
    "is_owner = (verify_owner_auth ae (rq_conn rq) db = Inr ())" "is_owner \<or> app_path_public app (rq_path rq) = Inr True"
    using dispatch_to_app [OF assms] by blast
  have "is_owner" if "IS_OWNER_HEADER \<in> set (sent_headers rq d)"
    using sent_by_app [of "fst IS_OWNER_HEADER" "snd IS_OWNER_HEADER" rq zone netloc app is_owner] that owner_header_prefix
    by (simp add: d(4))
  moreover have "IS_OWNER_HEADER \<in> set (sent_headers rq d)" if is_owner
    using that by (simp add: d(4) to_app_def identity_headers_def build_forwarded_request_headers_def)
  ultimately have "IS_OWNER_HEADER \<in> set (sent_headers rq d) \<longleftrightarrow> verify_owner_auth ae (rq_conn rq) db = Inr ()"
    using d(5) by blast
  moreover have "\<forall>(k, v) \<in> set (sent_headers rq d).
      (startswith (lower k) OPENHOST_HEADER_PREFIX \<longrightarrow> (k, v) = IS_OWNER_HEADER) \<and> (lower k = ''cookie'' \<longrightarrow> hides_session v)"
    unfolding d(4) using sent_by_app by blast
  ultimately show ?thesis
    using d(1,2,3,5,6) by blast
qed

text \<open>A request with the owner's session and forged identity headers.\<close>

definition forging_request :: asgi_request where
  "forging_request = \<lparr>rq_type = Http, rq_netloc = Inr ''notes.host.example.com'', rq_path = ''/a'', rq_url_path = ''/a'', rq_url_query = [],
     rq_raw_path = ''/a'', rq_query_string = [],
     rq_headers = [(''x-openhost-consumer-id'', ''x''), (''cookie'', ''session_token=sess; theme=dark''), (''accept'', ''*'')],
     rq_client = Some ''127.0.0.1'', rq_conn = owner_conn, rq_messages = [BodyPart [] False]\<rparr>"

lemma forging_dispatched:
  "isl (dispatch example_auth example_ddb forging_request) = False"
  "proxied_to (projr (dispatch example_auth example_ddb forging_request)) = Some 9000"
  by code_simp+

theorem app_requests_carry_identity_witness:
  "\<exists>d. dispatch example_auth example_ddb forging_request = Inr d
    \<and> (IS_OWNER_HEADER \<in> set (sent_headers forging_request d)
        \<longleftrightarrow> verify_owner_auth example_auth (rq_conn forging_request) example_ddb = Inr ())"
proof -
  obtain d where d: "dispatch example_auth example_ddb forging_request = Inr d"
    using forging_dispatched(1) by (metis isl_def sum.exhaust)
  then have "proxied_to d = Some 9000"
    using forging_dispatched(2) by simp
  from app_requests_carry_identity [OF d this] d show ?thesis
    by blast
qed

text \<open>The router itself, with its dashboard and API, is served only on the bare name of a configured domain or on
  an internal host name: a foreign host, and a subdomain without an app, get neither the router nor an app.\<close>

theorem router_served_on_its_hosts:
  assumes "dispatch ae db rq = Inr d" and "rq_type rq \<noteq> Lifespan" and "d = PassThrough \<or> d = ServeRouter zone"
  shows "\<exists>netloc. rq_netloc rq = Inr netloc \<and>
    (if d = PassThrough then lower (before CHR '':'' netloc) \<in> ROUTER_INTERNAL_HOSTS \<and> domain_match db netloc = None
     else zone \<in> set (effective_domains db) \<and> lower (before CHR '':'' netloc) = name_no_port zone)"
  using assms
  by (auto simp: dispatch_def serve_app_def to_app_def is_app_subdomain_def rbind_eq_Inl
      dest: domain_match_owns split: if_splits sum.splits option.splits)

theorem router_served_on_its_hosts_witness:
  "\<exists>zone. zone \<in> set (effective_domains example_ddb) \<and> name_no_port zone = ''host.example.com''"
proof -
  let ?rq = "forging_request\<lparr>rq_netloc := Inr ''host.example.com:8443''\<rparr>"
  have r: "dispatch example_auth example_ddb ?rq = Inr (ServeRouter (mk_domain ''host.example.com'' True False))"
    by code_simp
  have "lower (before CHR '':'' ''host.example.com:8443'') = ''host.example.com''"
    by code_simp
  with router_served_on_its_hosts [OF r, of "mk_domain ''host.example.com'' True False"] show ?thesis
    by (auto simp: forging_request_def)
qed

text \<open>
  The manifest parser takes any TOML value for \<open>public_paths\<close>.  A string is visited character by character: one
  that contains a slash makes every path of the app public.
\<close>

lemma string_public_paths_open:
  assumes "a_public_paths app = VStr s" and "CHR ''/'' \<in> set s" and "prefix ''/'' path"
  shows "app_path_public app path = Inr True"
proof -
  have "app_path_public app path = Inr (is_public_path (map (\<lambda>c. [c]) s) path)"
    using assms(1) any_public_strings [of "map (\<lambda>c. [c]) s" path] by (simp add: app_path_public_def comp_def)
  moreover have "is_public_path (map (\<lambda>c. [c]) s) path"
    unfolding is_public_path_def using assms(2,3)
    by (intro bexI [of _ "[CHR ''/'']"]) (auto simp: startswith_def rstrip_slashes_def rstrip_if_def)
  ultimately show ?thesis by simp
qed

end
