(* ===== verification/Diagnostics.thy ===== *)
theory Diagnostics
  imports Guards Lifecycle GitOps
begin

text \<open>
  \<open>core/diagnostics.py\<close>: the instance and per-app diagnostics bundles.  What the collectors read of the outside
  (\<open>/proc\<close>, podman, git, HTTP probes, package metadata) is a record of answers; a bundle is then a function of
  the database and that record.  Floats are exact rationals, so \<open>round\<close> is half-to-even on the exact value.
\<close>

section \<open>What the collectors see\<close>

datatype dist_version = InstalledVersion string | NotInstalled | BrokenMetadata
datatype http_probe = HttpStatus int | ProbeTimeout | ProbeFailed string

record uname_info =
  un_hostname :: string
  un_platform :: string
  un_system :: string
  un_release :: string
  un_machine :: string
  un_processor :: string
  un_python :: string
  un_implementation :: string

record host_view =
  hv_git_dir :: "string \<Rightarrow> bool"
  hv_branch :: "string \<Rightarrow> string option result"
  hv_sha :: "string \<Rightarrow> string result"
  hv_dirty :: "string \<Rightarrow> bool result"
  hv_remote :: "string \<Rightarrow> string option result"
  hv_uname :: uname_info
  hv_cpu_count :: "int option result"
  hv_stat :: "string list result"
  hv_meminfo :: "string list result"
  hv_isoformat :: "int \<Rightarrow> string result"
  hv_loadavg :: "(rat \<times> rat \<times> rat) result"
  hv_version :: "string \<Rightarrow> dist_version"
  hv_podman_there :: bool
  hv_podman :: "string list \<Rightarrow> proc"
  hv_json :: "string \<Rightarrow> pyval result"
  hv_int :: "string \<Rightarrow> int result"
  hv_float :: "string \<Rightarrow> rat result"
  hv_get :: "string \<Rightarrow> http_probe"
  hv_latency :: "string \<Rightarrow> rat"
  hv_reachable_client :: bool
  hv_storage :: "pyval result"
  hv_now :: string
  hv_project_dir :: string

definition DIAGNOSTICS_SCHEMA_VERSION :: int where
  "DIAGNOSTICS_SCHEMA_VERSION = 2"

definition KEY_DEPENDENCIES :: "string list" where
  "KEY_DEPENDENCIES = [''litestar'', ''hypercorn'', ''GitPython'', ''attrs'', ''cattrs'', ''typed-settings'', ''httpx'',
     ''bcrypt'', ''jinja2'', ''tomli-w'', ''cappa'']"

definition STATIC_REACHABILITY_TARGETS :: "(string \<times> string) list" where
  "STATIC_REACHABILITY_TARGETS = [(''github'', ''https://github.com''), (''github_api'', ''https://api.github.com''),
     (''acme_gts'', ''https://dv.acme-v02.api.pki.goog/directory'')]"

text \<open>\<open>round(r, n)\<close>.\<close>

definition round_to :: "nat \<Rightarrow> rat \<Rightarrow> rat" where
  "round_to n r = of_int (round_half_even (r * 10 ^ n)) / 10 ^ n"

section \<open>Git and host facts\<close>

record git_info =
  gi_branch :: "string option"
  gi_sha :: string
  gi_short_sha :: string
  gi_dirty :: bool
  gi_remote_url :: "string option"

definition collect_git_info :: "host_view \<Rightarrow> string option \<Rightarrow> git_info option" where
  "collect_git_info hv repo_path =
     (case repo_path of
        None \<Rightarrow> None
      | Some path \<Rightarrow>
          if \<not> hv_git_dir hv path then None
          else case (hv_branch hv path, hv_sha hv path, hv_dirty hv path) of
            (Inr branch, Inr sha, Inr dirty) \<Rightarrow>
              Some \<lparr>gi_branch = branch, gi_sha = sha, gi_short_sha = take 8 sha, gi_dirty = dirty,
                gi_remote_url = (case hv_remote hv path of Inr u \<Rightarrow> u | Inl e \<Rightarrow> None)\<rparr>
          | _ \<Rightarrow> None)"

definition collect_openhost_git_info :: "host_view \<Rightarrow> git_info" where
  "collect_openhost_git_info hv =
     (case collect_git_info hv (Some (hv_project_dir hv)) of
        None \<Rightarrow> \<lparr>gi_branch = None, gi_sha = [], gi_short_sha = [], gi_dirty = False, gi_remote_url = None\<rparr>
      | Some g \<Rightarrow> g)"

text \<open>\<open>int(line.split()[1])\<close>.\<close>

definition second_int :: "host_view \<Rightarrow> string \<Rightarrow> int result" where
  "second_int hv line =
     (case split_ws line of _ # w # _ \<Rightarrow> hv_int hv w | _ \<Rightarrow> Inl (Exn LookupError ''list index out of range''))"

definition read_boot_time :: "host_view \<Rightarrow> string option" where
  "read_boot_time hv =
     (case hv_stat hv of
        Inl e \<Rightarrow> None
      | Inr lines \<Rightarrow>
          (case find (\<lambda>l. startswith l ''btime '') lines of
             None \<Rightarrow> None
           | Some line \<Rightarrow>
               (case rbind (second_int hv line) (hv_isoformat hv) of Inr t \<Rightarrow> Some t | Inl e \<Rightarrow> None)))"

record system_info =
  si_uname :: uname_info
  si_cpu_count :: "int option"
  si_boot_time :: "string option"

definition cpu_count :: "host_view \<Rightarrow> int option" where
  "cpu_count hv = (case hv_cpu_count hv of Inr n \<Rightarrow> n | Inl e \<Rightarrow> None)"

definition collect_system_info :: "host_view \<Rightarrow> system_info" where
  "collect_system_info hv = \<lparr>si_uname = hv_uname hv, si_cpu_count = cpu_count hv, si_boot_time = read_boot_time hv\<rparr>"

definition collect_dependencies :: "host_view \<Rightarrow> (string \<times> string) list" where
  "collect_dependencies hv =
     map (\<lambda>name. (name, case hv_version hv name of InstalledVersion v \<Rightarrow> v | NotInstalled \<Rightarrow> ''(not installed)''
                        | BrokenMetadata \<Rightarrow> ''(error)'')) KEY_DEPENDENCIES"

record container_runtime_info =
  cr_available :: bool
  cr_version :: "pyval option"
  cr_rootless :: "bool option"
  cr_error :: "string option"

text \<open>The two fields of the parsed output; an answer that is no JSON object raises.\<close>

definition runtime_fields :: "host_view \<Rightarrow> string \<Rightarrow> (pyval \<times> bool option) result" where
  "runtime_fields hv out =
     rbind (hv_json hv out) (\<lambda>info.
     rbind (dict_get info ''host'' (VDict [])) (\<lambda>host.
     rbind (rbind (dict_get info ''version'' (VDict [])) (\<lambda>v. dict_get v ''Version'' VNone)) (\<lambda>version.
     rbind (if truthy version then Inr version else dict_get host ''serverVersion'' VNone) (\<lambda>version.
     rbind (rbind (dict_get host ''security'' (VDict [])) (\<lambda>s. dict_get s ''rootless'' VNone)) (\<lambda>rootless.
       Inr (version, (case rootless of VBool b \<Rightarrow> Some b | _ \<Rightarrow> None)))))))"

definition runtime_unavailable :: "string \<Rightarrow> container_runtime_info" where
  "runtime_unavailable err = \<lparr>cr_available = False, cr_version = None, cr_rootless = None, cr_error = Some err\<rparr>"

text \<open>Only a decoding error and a missing method are expected of the output; anything else escapes.\<close>

definition collect_container_runtime :: "host_view \<Rightarrow> container_runtime_info result" where
  "collect_container_runtime hv =
     (if \<not> hv_podman_there hv then Inr (runtime_unavailable ''podman not found on PATH'')
      else case hv_podman hv [''info'', ''--format'', ''json''] of
        TimedOut \<Rightarrow> Inr (runtime_unavailable ''podman info timed out'')
      | NotFound \<Rightarrow> Inr (runtime_unavailable ''No such file or directory'')
      | OsFailure m \<Rightarrow> Inr (runtime_unavailable m)
      | Exited returncode out err \<Rightarrow>
          if returncode \<noteq> 0 then Inr (runtime_unavailable ''podman info failed'')
          else case runtime_fields hv out of
            Inr (version, rootless) \<Rightarrow>
              Inr \<lparr>cr_available = True, cr_version = (if version = VNone then None else Some version),
                   cr_rootless = rootless, cr_error = None\<rparr>
          | Inl e \<Rightarrow>
              if exn_class e \<in> {JSONDecodeError, AttributeError}
              then Inr \<lparr>cr_available = True, cr_version = None, cr_rootless = None,
                        cr_error = Some ''podman info returned non-JSON output''\<rparr>
              else Inl e)"

section \<open>Resource pressure\<close>

record mem_info =
  mi_total :: "int option"
  mi_available :: "int option"
  mi_swap_total :: "int option"
  mi_swap_free :: "int option"

definition no_mem_info :: mem_info where
  "no_mem_info = \<lparr>mi_total = None, mi_available = None, mi_swap_total = None, mi_swap_free = None\<rparr>"

fun meminfo_lines :: "host_view \<Rightarrow> mem_info \<Rightarrow> string list \<Rightarrow> mem_info result" where
  "meminfo_lines hv m [] = Inr m"
| "meminfo_lines hv m (line # rest) =
     rbind
       (if startswith line ''MemTotal:'' then rbind (second_int hv line) (\<lambda>k. Inr (m\<lparr>mi_total := Some (k * 1024)\<rparr>))
        else if startswith line ''MemAvailable:'' then rbind (second_int hv line) (\<lambda>k. Inr (m\<lparr>mi_available := Some (k * 1024)\<rparr>))
        else if startswith line ''SwapTotal:'' then rbind (second_int hv line) (\<lambda>k. Inr (m\<lparr>mi_swap_total := Some (k * 1024)\<rparr>))
        else if startswith line ''SwapFree:'' then rbind (second_int hv line) (\<lambda>k. Inr (m\<lparr>mi_swap_free := Some (k * 1024)\<rparr>))
        else Inr m)
       (\<lambda>m'. meminfo_lines hv m' rest)"

definition read_meminfo :: "host_view \<Rightarrow> mem_info" where
  "read_meminfo hv =
     (case rbind (hv_meminfo hv) (meminfo_lines hv no_mem_info) of Inr m \<Rightarrow> m | Inl e \<Rightarrow> no_mem_info)"

record host_pressure =
  hp_memory_total :: "int option"
  hp_memory_available :: "int option"
  hp_memory_used_percent :: "rat option"
  hp_load :: "rat option \<times> rat option \<times> rat option"
  hp_cpu_count :: "int option"
  hp_swap_total :: "int option"
  hp_swap_free :: "int option"

definition used_percent :: "int option \<Rightarrow> int option \<Rightarrow> rat option" where
  "used_percent mem_total available =
     (case (mem_total, available) of
        (Some t, Some a) \<Rightarrow> if t > 0 then Some (round_to 1 (of_int (t - a) / of_int t * 100)) else None
      | _ \<Rightarrow> None)"

definition collect_resource_pressure :: "host_view \<Rightarrow> host_pressure result" where
  "collect_resource_pressure hv =
     (let mem = read_meminfo hv
      in rbind (case hv_loadavg hv of
                  Inr (a, b, c) \<Rightarrow> Inr (Some a, Some b, Some c)
                | Inl e \<Rightarrow> if is_os_error e \<or> exn_class e = AttributeError then Inr (None, None, None) else Inl e) (\<lambda>load.
         Inr \<lparr>hp_memory_total = mi_total mem, hp_memory_available = mi_available mem,
              hp_memory_used_percent = used_percent (mi_total mem) (mi_available mem), hp_load = load,
              hp_cpu_count = cpu_count hv, hp_swap_total = mi_swap_total mem, hp_swap_free = mi_swap_free mem\<rparr>))"

section \<open>Container statistics\<close>

text \<open>\<open>str.isalpha\<close> on the 8-bit range.\<close>

definition is_alpha :: "char \<Rightarrow> bool" where
  "is_alpha c = (65 \<le> code c \<and> code c \<le> 90 \<or> is_lower_alpha c \<or> code c \<in> {170, 181, 186}
     \<or> (192 \<le> code c \<and> code c \<noteq> 215 \<and> code c \<noteq> 247))"

definition size_units :: "(string \<times> int) list" where
  "size_units = [(''b'', 1), (''kb'', 1000), (''mb'', 1000 ^ 2), (''gb'', 1000 ^ 3), (''tb'', 1000 ^ 4),
     (''kib'', 1024), (''mib'', 1024 ^ 2), (''gib'', 1024 ^ 3), (''tib'', 1024 ^ 4)]"

text \<open>\<open>int(r)\<close> of a float: towards zero.\<close>

definition trunc :: "rat \<Rightarrow> int" where
  "trunc r = (if r < 0 then - \<lfloor>- r\<rfloor> else \<lfloor>r\<rfloor>)"

definition unit_char :: "char \<Rightarrow> bool" where
  "unit_char c = (is_alpha c \<or> c = CHR ''%'')"

definition parse_stats_bytes :: "host_view \<Rightarrow> pyval \<Rightarrow> int option" where
  "parse_stats_bytes hv v =
     (case v of
        VStr raw \<Rightarrow>
          (let s = strip raw
           in if s = [] \<or> lower s \<in> {''--'', ''n/a''} then None
              else (let num = takeWhile (\<lambda>c. \<not> unit_char c) s; unit = dropWhile (\<lambda>c. \<not> unit_char c) s;
                        factor = (case map_of size_units (lower (strip unit)) of None \<Rightarrow> 1 | Some f \<Rightarrow> f)
                    in case hv_float hv num of Inl e \<Rightarrow> None | Inr magnitude \<Rightarrow> Some (trunc (magnitude * of_int factor))))
      | _ \<Rightarrow> None)"

definition parse_stats_percent :: "host_view \<Rightarrow> pyval \<Rightarrow> rat option" where
  "parse_stats_percent hv v =
     (case v of
        VStr raw \<Rightarrow>
          (let s = strip (rstrip_if (\<lambda>c. c = CHR ''%'') (strip raw))
           in if s = [] \<or> s \<in> {''--'', ''N/A''} then None
              else case hv_float hv s of Inl e \<Rightarrow> None | Inr r \<Rightarrow> Some (round_to 2 r))
      | _ \<Rightarrow> None)"

fun dict_items :: "pyval list \<Rightarrow> (string \<times> pyval) list list option" where
  "dict_items [] = Some []"
| "dict_items (VDict kvs # vs) = map_option ((#) kvs) (dict_items vs)"
| "dict_items (v # vs) = None"

definition run_podman_json :: "host_view \<Rightarrow> string list \<Rightarrow> (string \<times> pyval) list list result" where
  "run_podman_json hv args =
     (case hv_podman hv args of
        TimedOut \<Rightarrow> Inl (Exn TimeoutExpired ''Command timed out'')
      | NotFound \<Rightarrow> Inl (Exn FileNotFoundError ''No such file or directory'')
      | OsFailure m \<Rightarrow> Inl (Exn OsError m)
      | Exited returncode out err \<Rightarrow>
          if returncode \<noteq> 0
          then Inl (Exn RuntimeError (''podman '' @ join '' '' args @ '' exited '' @ show_int returncode @ '': '' @ strip err))
          else rbind (hv_json hv out) (\<lambda>data.
            case data of
              VList vs \<Rightarrow> (case dict_items vs of
                  Some entries \<Rightarrow> Inr entries
                | None \<Rightarrow> Inl (Exn ValueError (''podman '' @ join '' '' args @ '' did not return a JSON array of objects'')))
            | _ \<Rightarrow> Inl (Exn ValueError (''podman '' @ join '' '' args @ '' did not return a JSON array of objects''))))"

fun short_id :: "(string \<times> pyval) list \<Rightarrow> string list \<Rightarrow> string option" where
  "short_id entry [] = None"
| "short_id entry (key # keys) =
     (case map_of entry key of
        Some (VStr v) \<Rightarrow> if v \<noteq> [] then Some (take 12 v) else short_id entry keys
      | _ \<Rightarrow> short_id entry keys)"

definition split_mem_usage :: "host_view \<Rightarrow> pyval \<Rightarrow> int option \<times> int option" where
  "split_mem_usage hv raw =
     (case raw of
        VStr s \<Rightarrow>
          if CHR ''/'' \<notin> set s then (None, None)
          else (parse_stats_bytes hv (VStr (before CHR ''/'' s)),
                parse_stats_bytes hv (VStr (drop (length (before CHR ''/'' s) + 1) s)))
      | _ \<Rightarrow> (None, None))"

record podman_stats =
  ps_cpu_percent :: "rat option"
  ps_memory_usage :: "int option"
  ps_memory_limit :: "int option"
  ps_memory_percent :: "rat option"

definition running_short_ids :: "host_view \<Rightarrow> string list result" where
  "running_short_ids hv =
     rbind (run_podman_json hv [''ps'', ''--format'', ''json'']) (\<lambda>entries.
       Inr (List.map_filter (\<lambda>entry. if map_of entry ''State'' = Some (VStr ''running'') then short_id entry [''Id''] else None) entries))"

definition entry_stats :: "host_view \<Rightarrow> (string \<times> pyval) list \<Rightarrow> podman_stats" where
  "entry_stats hv entry =
     (let get = (\<lambda>k. case map_of entry k of None \<Rightarrow> VNone | Some v \<Rightarrow> v);
          (usage, limit) = split_mem_usage hv (get ''mem_usage'')
      in \<lparr>ps_cpu_percent = parse_stats_percent hv (get ''cpu_percent''), ps_memory_usage = usage, ps_memory_limit = limit,
          ps_memory_percent = parse_stats_percent hv (get ''mem_percent'')\<rparr>)"

definition stats_by_short_id :: "host_view \<Rightarrow> (string \<rightharpoonup> podman_stats) result" where
  "stats_by_short_id hv =
     rbind (run_podman_json hv [''stats'', ''--no-stream'', ''--format'', ''json'']) (\<lambda>entries.
       Inr (fold (\<lambda>entry parsed. case short_id entry [''id'', ''ID'', ''ContainerID''] of
                    None \<Rightarrow> parsed | Some sid \<Rightarrow> parsed(sid \<mapsto> entry_stats hv entry)) entries Map.empty))"

record stats_batch =
  sb_running :: "string list"
  sb_stats :: "string \<rightharpoonup> podman_stats"
  sb_error :: "string option"

definition collect_container_stats_batch :: "host_view \<Rightarrow> stats_batch" where
  "collect_container_stats_batch hv =
     (if \<not> hv_podman_there hv then \<lparr>sb_running = [], sb_stats = Map.empty, sb_error = None\<rparr>
      else
        let ps = running_short_ids hv; st = stats_by_short_id hv;
            errors = (case ps of Inl e \<Rightarrow> [''podman ps unavailable: '' @ exn_text e] | Inr x \<Rightarrow> [])
              @ (case st of Inl e \<Rightarrow> [''podman stats unavailable: '' @ exn_text e] | Inr x \<Rightarrow> [])
        in \<lparr>sb_running = (case ps of Inl e \<Rightarrow> [] | Inr ids \<Rightarrow> ids), sb_stats = (case st of Inl e \<Rightarrow> Map.empty | Inr m \<Rightarrow> m),
            sb_error = (if errors = [] then None else Some (join ''; '' errors))\<rparr>)"

record resource_usage =
  ru_running :: bool
  ru_cpu_percent :: "rat option"
  ru_memory_usage :: "int option"
  ru_memory_limit :: "int option"
  ru_memory_percent :: "rat option"
  ru_cpu_cores_limit :: rat
  ru_memory_mb_limit :: pyval
  ru_error :: "string option"

definition app_resources_from_batch :: "stats_batch \<Rightarrow> string option \<Rightarrow> rat \<Rightarrow> pyval \<Rightarrow> resource_usage" where
  "app_resources_from_batch batch container_id cpu_cores_limit memory_mb_limit =
     (let base = \<lparr>ru_running = False, ru_cpu_percent = None, ru_memory_usage = None, ru_memory_limit = None,
                  ru_memory_percent = None, ru_cpu_cores_limit = cpu_cores_limit, ru_memory_mb_limit = memory_mb_limit,
                  ru_error = None\<rparr>
      in case container_id of
           None \<Rightarrow> base
         | Some c \<Rightarrow>
             if c = [] then base
             else if take 12 c \<notin> set (sb_running batch) then base\<lparr>ru_error := sb_error batch\<rparr>
             else case sb_stats batch (take 12 c) of
               None \<Rightarrow> base\<lparr>ru_running := True, ru_error := sb_error batch\<rparr>
             | Some stats \<Rightarrow>
                 \<lparr>ru_running = True, ru_cpu_percent = ps_cpu_percent stats, ru_memory_usage = ps_memory_usage stats,
                  ru_memory_limit = ps_memory_limit stats, ru_memory_percent = ps_memory_percent stats,
                  ru_cpu_cores_limit = cpu_cores_limit, ru_memory_mb_limit = memory_mb_limit, ru_error = sb_error batch\<rparr>)"

definition collect_app_resources :: "host_view \<Rightarrow> string option \<Rightarrow> rat \<Rightarrow> pyval \<Rightarrow> resource_usage" where
  "collect_app_resources hv container_id cpu_cores_limit memory_mb_limit =
     app_resources_from_batch (collect_container_stats_batch hv) container_id cpu_cores_limit memory_mb_limit"

section \<open>Health and reachability\<close>

record app_health =
  ah_checked :: bool
  ah_healthy :: "bool option"
  ah_status_code :: "int option"
  ah_checked_path :: string
  ah_error :: "string option"

definition health_path :: "pyval \<Rightarrow> string result" where
  "health_path health_check =
     (if \<not> truthy health_check then Inr ''/''
      else case health_check of
        VStr path \<Rightarrow> Inr (if startswith path ''/'' then path else ''/'' @ path)
      | v \<Rightarrow> Inl (no_attribute v ''startswith''))"

definition collect_app_health :: "host_view \<Rightarrow> int \<Rightarrow> pyval \<Rightarrow> app_health result" where
  "collect_app_health hv local_port health_check =
     rbind (health_path health_check) (\<lambda>path.
       if local_port = 0
       then Inr \<lparr>ah_checked = False, ah_healthy = None, ah_status_code = None, ah_checked_path = path, ah_error = Some ''no local port''\<rparr>
       else Inr (case hv_get hv (''http://127.0.0.1:'' @ show_int local_port @ path) of
         ProbeTimeout \<Rightarrow> \<lparr>ah_checked = True, ah_healthy = Some False, ah_status_code = None, ah_checked_path = path, ah_error = Some ''timeout''\<rparr>
       | ProbeFailed m \<Rightarrow> \<lparr>ah_checked = True, ah_healthy = Some False, ah_status_code = None, ah_checked_path = path, ah_error = Some m\<rparr>
       | HttpStatus st \<Rightarrow> \<lparr>ah_checked = True, ah_healthy = Some (st < 500), ah_status_code = Some st, ah_checked_path = path, ah_error = None\<rparr>))"

record reachability_config =
  rc_keycloak_issuer :: "string option"
  rc_acme_directory :: "string option"
  rc_redirect_domain :: string

fun dedupe_targets :: "string set \<Rightarrow> (string \<times> string) list \<Rightarrow> (string \<times> string) list" where
  "dedupe_targets seen [] = []"
| "dedupe_targets seen ((label, url) # ts) =
     (if url \<in> seen then dedupe_targets seen ts else (label, url) # dedupe_targets (insert url seen) ts)"

definition all_targets :: "reachability_config \<Rightarrow> (string \<times> string) list" where
  "all_targets cf = STATIC_REACHABILITY_TARGETS
     @ (if str_truthy (rc_keycloak_issuer cf) then [(''cert_api_keycloak'', the (rc_keycloak_issuer cf))] else [])
     @ (if str_truthy (rc_acme_directory cf) then [(''acme_directory'', the (rc_acme_directory cf))] else [])
     @ (if rc_redirect_domain cf \<noteq> [] then [(''openhost_redirect'', ''https://'' @ rc_redirect_domain cf)] else [])"

definition reachability_targets :: "reachability_config \<Rightarrow> (string \<times> string) list" where
  "reachability_targets cf = dedupe_targets {} (all_targets cf)"

record reachability_result =
  rr_label :: string
  rr_url :: string
  rr_reachable :: bool
  rr_status_code :: "int option"
  rr_latency_ms :: "rat option"
  rr_error :: "string option"

definition probe_reachability :: "host_view \<Rightarrow> string \<times> string \<Rightarrow> reachability_result" where
  "probe_reachability hv target =
     (case target of (label, url) \<Rightarrow>
       (case hv_get hv url of
          ProbeTimeout \<Rightarrow> \<lparr>rr_label = label, rr_url = url, rr_reachable = False, rr_status_code = None, rr_latency_ms = None, rr_error = Some ''timeout''\<rparr>
        | ProbeFailed m \<Rightarrow> \<lparr>rr_label = label, rr_url = url, rr_reachable = False, rr_status_code = None, rr_latency_ms = None, rr_error = Some m\<rparr>
        | HttpStatus st \<Rightarrow> \<lparr>rr_label = label, rr_url = url, rr_reachable = True, rr_status_code = Some st,
            rr_latency_ms = Some (round_to 1 (hv_latency hv url * 1000)), rr_error = None\<rparr>))"

definition collect_reachability :: "host_view \<Rightarrow> reachability_config \<Rightarrow> reachability_result list" where
  "collect_reachability hv cf =
     (if hv_reachable_client hv then map (probe_reachability hv) (reachability_targets cf) else [])"

section \<open>The bundles\<close>

definition manifest_fields :: "'v libs \<Rightarrow> string option \<Rightarrow> pyval \<times> pyval" where
  "manifest_fields L manifest_raw =
     (if \<not> str_truthy manifest_raw then (VNone, VNone)
      else case parse_manifest_from_string L (the manifest_raw) of
        Inl e \<Rightarrow> (VNone, VNone) | Inr m \<Rightarrow> (m_version m, m_runtime_type m))"

definition reported_version :: "'v libs \<Rightarrow> app_row \<Rightarrow> pyval" where
  "reported_version L r = (if fst (manifest_fields L (a_manifest_raw r)) = VNone then a_version r else fst (manifest_fields L (a_manifest_raw r)))"

definition repo_of :: "app_row \<Rightarrow> string option" where
  "repo_of r = (if a_repo_path r = [] then None else Some (a_repo_path r))"

definition collect_app_health_and_resources :: "host_view \<Rightarrow> stats_batch \<Rightarrow> app_row \<Rightarrow> (app_health \<times> resource_usage) result" where
  "collect_app_health_and_resources hv batch r =
     rbind (collect_app_health hv (a_local_port r) (a_health_check r)) (\<lambda>health.
       Inr (health, app_resources_from_batch batch (a_container_id r) (a_cpu_cores r) (a_memory_mb r)))"

record app_diagnostics_summary =
  ds_app_id :: string
  ds_name :: string
  ds_status :: app_status
  ds_version :: pyval
  ds_runtime_type :: pyval
  ds_error_message :: "string option"
  ds_git :: "git_info option"
  ds_health :: app_health
  ds_resources :: resource_usage

definition collect_app_summary :: "'v libs \<Rightarrow> host_view \<Rightarrow> stats_batch \<Rightarrow> app_row \<Rightarrow> app_diagnostics_summary result" where
  "collect_app_summary L hv batch r =
     rbind (collect_app_health_and_resources hv batch r) (\<lambda>(health, resources).
       Inr \<lparr>ds_app_id = a_app_id r, ds_name = a_name r, ds_status = a_status r, ds_version = reported_version L r,
            ds_runtime_type = snd (manifest_fields L (a_manifest_raw r)), ds_error_message = a_error_message r,
            ds_git = collect_git_info hv (repo_of r), ds_health = health, ds_resources = resources\<rparr>)"

definition collect_apps :: "'v libs \<Rightarrow> host_view \<Rightarrow> database \<Rightarrow> app_diagnostics_summary list" where
  "collect_apps L hv db =
     (let batch = collect_container_stats_batch hv
      in List.map_filter (\<lambda>r. case collect_app_summary L hv batch r of Inr s \<Rightarrow> Some s | Inl e \<Rightarrow> None) (sort_key a_name (t_apps db)))"

definition zone_domain :: "database \<Rightarrow> string" where
  "zone_domain db = (case primary_domain_or_none db of None \<Rightarrow> [] | Some d \<Rightarrow> dom_name d)"

record platform_diagnostics =
  pd_schema_version :: int
  pd_generated_at :: string
  pd_zone_domain :: string
  pd_openhost :: git_info
  pd_system :: system_info
  pd_container_runtime :: container_runtime_info
  pd_dependencies :: "(string \<times> string) list"
  pd_storage :: pyval
  pd_resource_pressure :: host_pressure
  pd_reachability :: "reachability_result list"
  pd_apps :: "app_diagnostics_summary list"

definition collect_platform_diagnostics ::
    "'v libs \<Rightarrow> host_view \<Rightarrow> reachability_config \<Rightarrow> database \<Rightarrow> platform_diagnostics result" where
  "collect_platform_diagnostics L hv cf db =
     rbind (collect_container_runtime hv) (\<lambda>runtime. rbind (collect_resource_pressure hv) (\<lambda>pressure.
       Inr \<lparr>pd_schema_version = DIAGNOSTICS_SCHEMA_VERSION, pd_generated_at = hv_now hv, pd_zone_domain = zone_domain db,
            pd_openhost = collect_openhost_git_info hv, pd_system = collect_system_info hv, pd_container_runtime = runtime,
            pd_dependencies = collect_dependencies hv,
            pd_storage = (case hv_storage hv of Inr st \<Rightarrow> st | Inl e \<Rightarrow> VDict []),
            pd_resource_pressure = pressure, pd_reachability = collect_reachability hv cf, pd_apps = collect_apps L hv db\<rparr>))"

record app_diagnostics =
  ad_schema_version :: int
  ad_generated_at :: string
  ad_zone_domain :: string
  ad_app_id :: string
  ad_name :: string
  ad_status :: app_status
  ad_version :: pyval
  ad_runtime_type :: pyval
  ad_error_message :: "string option"
  ad_container_id :: "string option"
  ad_git :: "git_info option"
  ad_health :: app_health
  ad_resources :: resource_usage
  ad_system :: system_info
  ad_container_runtime :: container_runtime_info
  ad_resource_pressure :: host_pressure
  ad_openhost :: git_info

definition collect_app_diagnostics :: "'v libs \<Rightarrow> host_view \<Rightarrow> app_row \<Rightarrow> database \<Rightarrow> app_diagnostics result" where
  "collect_app_diagnostics L hv r db =
     rbind (collect_container_runtime hv) (\<lambda>runtime. rbind (collect_resource_pressure hv) (\<lambda>pressure.
     rbind (collect_app_health_and_resources hv (collect_container_stats_batch hv) r) (\<lambda>(health, resources).
       Inr \<lparr>ad_schema_version = DIAGNOSTICS_SCHEMA_VERSION, ad_generated_at = hv_now hv, ad_zone_domain = zone_domain db,
            ad_app_id = a_app_id r, ad_name = a_name r, ad_status = a_status r, ad_version = reported_version L r,
            ad_runtime_type = snd (manifest_fields L (a_manifest_raw r)), ad_error_message = a_error_message r,
            ad_container_id = a_container_id r, ad_git = collect_git_info hv (repo_of r), ad_health = health,
            ad_resources = resources, ad_system = collect_system_info hv, ad_container_runtime = runtime,
            ad_resource_pressure = pressure, ad_openhost = collect_openhost_git_info hv\<rparr>)))"

section \<open>Properties\<close>

text \<open>The app's slice of a per-app bundle.\<close>

definition summary_of :: "app_diagnostics \<Rightarrow> app_diagnostics_summary" where
  "summary_of d = \<lparr>ds_app_id = ad_app_id d, ds_name = ad_name d, ds_status = ad_status d, ds_version = ad_version d,
     ds_runtime_type = ad_runtime_type d, ds_error_message = ad_error_message d, ds_git = ad_git d,
     ds_health = ad_health d, ds_resources = ad_resources d\<rparr>"

lemma map_filter_all:
  "(\<And>x. x \<in> set xs \<Longrightarrow> f x = Some (g x)) \<Longrightarrow> List.map_filter f xs = map g xs"
  by (induction xs) (auto simp: List.map_filter_simps)

lemma summary_matches:
  assumes "collect_app_diagnostics L hv r db = Inr d"
  shows "collect_app_summary L hv (collect_container_stats_batch hv) r = Inr (summary_of d)"
  using assms by (auto simp: collect_app_diagnostics_def collect_app_summary_def summary_of_def split: prod.splits)

text \<open>The two reports agree: on the same view of the host, the fleet entry of the platform bundle for an app, which
  reads its usage from one shared podman batch, is the app's slice of its own bundle, in the order of the names;
  and an app is left out of the platform bundle exactly when its own bundle cannot be made.\<close>

theorem reports_agree:
  assumes "collect_platform_diagnostics L hv cf db = Inr p"
  shows "pd_apps p = List.map_filter (\<lambda>r. case collect_app_diagnostics L hv r db of Inr d \<Rightarrow> Some (summary_of d) | Inl e \<Rightarrow> None)
           (sort_key a_name (t_apps db))"
proof -
  from assms obtain runtime pressure where parts: "collect_container_runtime hv = Inr runtime"
    "collect_resource_pressure hv = Inr pressure" "pd_apps p = collect_apps L hv db"
    by (auto simp: collect_platform_diagnostics_def)
  have "(case collect_app_summary L hv (collect_container_stats_batch hv) r of Inr s \<Rightarrow> Some s | Inl e \<Rightarrow> None)
      = (case collect_app_diagnostics L hv r db of Inr d \<Rightarrow> Some (summary_of d) | Inl e \<Rightarrow> None)" for r
  proof (cases "collect_app_diagnostics L hv r db")
    case (Inl e)
    then show ?thesis
      by (auto simp: collect_app_diagnostics_def collect_app_summary_def parts rbind_eq_Inl split: prod.splits sum.split)
  next
    case (Inr d)
    then show ?thesis using summary_matches [OF Inr] by simp
  qed
  then show ?thesis
    by (simp add: parts(3) collect_apps_def)
qed


lemma dedupe_spec:
  "distinct (map snd (dedupe_targets seen ts)) \<and> snd ` set (dedupe_targets seen ts) = snd ` set ts - seen
    \<and> subseq (dedupe_targets seen ts) ts"
  by (induction seen ts rule: dedupe_targets.induct) auto

text \<open>Every host the platform depends on is probed once: the targets are the configured ones in order, with
  different URLs, and no URL is lost.\<close>

theorem targets_probed_once:
  "distinct (map snd (reachability_targets cf)) \<and> snd ` set (reachability_targets cf) = snd ` set (all_targets cf)
    \<and> subseq (reachability_targets cf) (all_targets cf)"
  using dedupe_spec [of "{}" "all_targets cf"] by (simp add: reachability_targets_def)

text \<open>A host with one running container whose usage cannot be read.\<close>

definition example_view :: host_view where
  "example_view = \<lparr>hv_git_dir = (\<lambda>_. False), hv_branch = (\<lambda>_. Inr None), hv_sha = (\<lambda>_. Inr []), hv_dirty = (\<lambda>_. Inr False),
     hv_remote = (\<lambda>_. Inr None),
     hv_uname = \<lparr>un_hostname = ''h'', un_platform = ''Linux'', un_system = ''Linux'', un_release = ''6'', un_machine = ''x86_64'',
       un_processor = [], un_python = ''3.12'', un_implementation = ''CPython''\<rparr>,
     hv_cpu_count = Inr (Some 4), hv_stat = Inr [], hv_meminfo = Inr [], hv_isoformat = (\<lambda>_. Inr []), hv_loadavg = Inr (0, 0, 0),
     hv_version = (\<lambda>_. NotInstalled), hv_podman_there = True,
     hv_podman = (\<lambda>args. if hd args = ''ps'' then Exited 0 ''ps'' [] else if hd args = ''info'' then Exited 0 ''info'' [] else TimedOut),
     hv_json = (\<lambda>out. Inr (if out = ''ps'' then VList [VDict [(''State'', VStr ''running''), (''Id'', VStr ''c1'')]] else VDict [])),
     hv_int = (\<lambda>_. Inr 0), hv_float = (\<lambda>_. Inr 0), hv_get = (\<lambda>_. HttpStatus 200), hv_latency = (\<lambda>_. 0), hv_reachable_client = True,
     hv_storage = Inr (VDict []), hv_now = ''2026-01-01'', hv_project_dir = ''/o''\<rparr>"

lemma example_view_ps: "hv_podman_there example_view" "running_short_ids example_view = Inr [''c1'']"
  "isl (stats_by_short_id example_view)"
  by (simp_all add: example_view_def running_short_ids_def run_podman_json_def stats_by_short_id_def List.map_filter_simps)


theorem reports_agree_witness:
  "\<exists>p. collect_platform_diagnostics example_libs example_view \<lparr>rc_keycloak_issuer = None, rc_acme_directory = None, rc_redirect_domain = []\<rparr>
      example_db = Inr p
    \<and> pd_apps p = List.map_filter (\<lambda>r. case collect_app_diagnostics example_libs example_view r example_db of Inr d \<Rightarrow> Some (summary_of d) | Inl e \<Rightarrow> None)
        (sort_key a_name (t_apps example_db))"
proof -
  have "\<not> isl (collect_platform_diagnostics example_libs example_view
      \<lparr>rc_keycloak_issuer = None, rc_acme_directory = None, rc_redirect_domain = []\<rparr> example_db)"
    by (simp add: collect_platform_diagnostics_def collect_container_runtime_def runtime_fields_def collect_resource_pressure_def
        example_view_def Let_def)
  then obtain p where "collect_platform_diagnostics example_libs example_view
      \<lparr>rc_keycloak_issuer = None, rc_acme_directory = None, rc_redirect_domain = []\<rparr> example_db = Inr p"
    by (metis isl_def sum.exhaust)
  from this reports_agree [OF this] show ?thesis
    by blast
qed

end
