(* ===== verification/Migrations.thy ===== *)
theory Migrations
  imports AppId
begin

text \<open>
  \<open>db/versioned\<close>: the runner that brings the database file to the newest schema version, and the migration that gives
  every app an opaque id.  A connection in autocommit mode holds the committed file and the working copy of the open
  transaction; a process that dies leaves the committed file.  The tables other than \<open>schema_version\<close> are a type
  parameter of the runner.  The file lock makes the runner's steps those of one process.
\<close>

section \<open>Connections\<close>

datatype version_row = NoVersionTable | EmptyVersionTable | StoredVersion int

record 't db_file =
  fl_version :: version_row
  fl_tables :: 't

record 't session =
  ss_committed :: "'t db_file"
  ss_working :: "'t db_file"
  ss_open :: bool

text \<open>\<open>Create\<close> is \<open>schema.sql\<close>, which makes the empty \<open>schema_version\<close> table too.\<close>

datatype 't stmt = Begin | Change "'t \<Rightarrow> 't result" | Create "'t \<Rightarrow> 't result" | Stamp int | Commit | Rollback

definition closed :: "'t db_file \<Rightarrow> 't session" where
  "closed f = \<lparr>ss_committed = f, ss_working = f, ss_open = False\<rparr>"

definition write_file :: "'t db_file \<Rightarrow> 't session \<Rightarrow> 't session" where
  "write_file f s = s\<lparr>ss_working := f, ss_committed := (if ss_open s then ss_committed s else f)\<rparr>"

fun exec_stmt :: "'t stmt \<Rightarrow> 't session \<Rightarrow> unit result \<times> 't session" where
  "exec_stmt Begin s =
     (if ss_open s then (Inl (Exn SqliteError ''cannot start a transaction within a transaction''), s)
      else (Inr (), s\<lparr>ss_open := True, ss_working := ss_committed s\<rparr>))"
| "exec_stmt (Change f) s =
     (case f (fl_tables (ss_working s)) of
        Inl e \<Rightarrow> (Inl e, s)
      | Inr t \<Rightarrow> (Inr (), write_file ((ss_working s)\<lparr>fl_tables := t\<rparr>) s))"
| "exec_stmt (Create f) s =
     (case f (fl_tables (ss_working s)) of
        Inl e \<Rightarrow> (Inl e, s)
      | Inr t \<Rightarrow> (Inr (), write_file ((ss_working s)\<lparr>fl_tables := t,
                   fl_version := (if fl_version (ss_working s) = NoVersionTable then EmptyVersionTable else fl_version (ss_working s))\<rparr>) s))"
| "exec_stmt (Stamp v) s =
     (if fl_version (ss_working s) = NoVersionTable then (Inl (Exn SqliteError ''no such table: schema_version''), s)
      else (Inr (), write_file ((ss_working s)\<lparr>fl_version := StoredVersion v\<rparr>) s))"
| "exec_stmt Commit s =
     (if ss_open s then (Inr (), s\<lparr>ss_open := False, ss_committed := ss_working s\<rparr>)
      else (Inl (Exn SqliteError ''cannot commit - no transaction is active''), s))"
| "exec_stmt Rollback s =
     (if ss_open s then (Inr (), s\<lparr>ss_open := False, ss_working := ss_committed s\<rparr>)
      else (Inl (Exn SqliteError ''cannot rollback - no transaction is active''), s))"

fun run_stmts :: "'t stmt list \<Rightarrow> 't session \<Rightarrow> unit result \<times> 't session" where
  "run_stmts [] s = (Inr (), s)"
| "run_stmts (c # cs) s = (case exec_stmt c s of (Inl e, s') \<Rightarrow> (Inl e, s') | (Inr u, s') \<Rightarrow> run_stmts cs s')"

section \<open>Migrations\<close>

record 't migration =
  mg_version :: int
  mg_body :: "('t \<Rightarrow> 't result) list"

text \<open>
  \<open>Migration.apply\<close>, and the script \<open>SqlFileMigration.apply\<close> wraps around its file.  A failing \<open>ROLLBACK\<close> is ignored.
\<close>

definition apply_stmts :: "'t migration \<Rightarrow> 't stmt list" where
  "apply_stmts m = Begin # map Change (mg_body m) @ [Stamp (mg_version m), Commit]"

definition atomically :: "'t stmt list \<Rightarrow> 't session \<Rightarrow> unit result \<times> 't session" where
  "atomically cs s =
     (case run_stmts cs s of
        (Inl e, s') \<Rightarrow> (Inl e, snd (exec_stmt Rollback s'))
      | (Inr u, s') \<Rightarrow> (Inr (), s'))"

definition apply_migration :: "'t migration \<Rightarrow> 't session \<Rightarrow> unit result \<times> 't session" where
  "apply_migration m s = atomically (apply_stmts m) s"

section \<open>The runner\<close>

definition validate_registry :: "'t migration list \<Rightarrow> unit result" where
  "validate_registry registry =
     (if registry = [] \<or> map mg_version registry = map int [2..<2 + length registry] then Inr ()
      else Inl (Exn RuntimeError ''Migration registry is not strictly increasing and contiguous starting at 2''))"

definition highest_registered_version :: "'t migration list \<Rightarrow> int" where
  "highest_registered_version registry = (if registry = [] then 1 else mg_version (last registry))"

definition read_version :: "'t db_file \<Rightarrow> int" where
  "read_version f = (case fl_version f of StoredVersion v \<Rightarrow> v | _ \<Rightarrow> 0)"

definition has_any_tables :: "('t \<Rightarrow> bool) \<Rightarrow> 't db_file \<Rightarrow> bool" where
  "has_any_tables nonempty f = (fl_version f \<noteq> NoVersionTable \<or> nonempty (fl_tables f))"

definition init_fresh :: "('t \<Rightarrow> 't result) \<Rightarrow> int \<Rightarrow> 't session \<Rightarrow> unit result \<times> 't session" where
  "init_fresh schema highest s = atomically [Begin, Create schema, Stamp highest, Commit] s"

fun upgrade :: "'t migration list \<Rightarrow> int \<Rightarrow> 't session \<Rightarrow> unit result \<times> 't session" where
  "upgrade [] current s = (Inr (), s)"
| "upgrade (m # ms) current s =
     (if mg_version m \<le> current then upgrade ms current s
      else case apply_migration m s of
        (Inl e, s') \<Rightarrow> (Inl e, s')
      | (Inr u, s') \<Rightarrow> upgrade ms (mg_version m) s')"

definition apply_under_lock ::
    "('t \<Rightarrow> 't result) \<Rightarrow> ('t \<Rightarrow> bool) \<Rightarrow> 't migration list \<Rightarrow> int \<Rightarrow> 't session \<Rightarrow> unit result \<times> 't session" where
  "apply_under_lock schema nonempty registry highest s =
     (let current = read_version (ss_committed s)
      in if current > highest
         then (Inl (Exn RuntimeError (''DB schema_version='' @ show_int current @ '' is newer than the highest version this code knows about ('' @ show_int highest @ '')'')), s)
         else if \<not> has_any_tables nonempty (ss_committed s) then init_fresh schema highest s
         else if current = 0 then (Inl (Exn RuntimeError ''DB has tables but no schema_version row''), s)
         else upgrade registry current s)"

text \<open>Opening the file, running, closing: what is not committed is lost.\<close>

definition apply_migrations ::
    "('t \<Rightarrow> 't result) \<Rightarrow> ('t \<Rightarrow> bool) \<Rightarrow> 't migration list \<Rightarrow> 't db_file \<Rightarrow> unit result \<times> 't db_file" where
  "apply_migrations schema nonempty registry f =
     (case validate_registry registry of
        Inl e \<Rightarrow> (Inl e, f)
      | Inr u \<Rightarrow> map_prod id ss_committed (apply_under_lock schema nonempty registry (highest_registered_version registry) (closed f)))"

section \<open>What a migration does to the file\<close>

fun run_body :: "('t \<Rightarrow> 't result) list \<Rightarrow> 't \<Rightarrow> 't result" where
  "run_body [] t = Inr t"
| "run_body (f # fs) t = rbind (f t) (run_body fs)"

definition migrate_file :: "'t migration \<Rightarrow> 't db_file \<Rightarrow> 't db_file result" where
  "migrate_file m f =
     rbind (run_body (mg_body m) (fl_tables f)) (\<lambda>t.
       if fl_version f = NoVersionTable then Inl (Exn SqliteError ''no such table: schema_version'')
       else Inr (f\<lparr>fl_tables := t, fl_version := StoredVersion (mg_version m)\<rparr>))"

fun migrate_all :: "'t migration list \<Rightarrow> 't db_file \<Rightarrow> 't db_file result" where
  "migrate_all [] f = Inr f"
| "migrate_all (m # ms) f = rbind (migrate_file m f) (migrate_all ms)"

lemma run_stmts_append:
  "run_stmts (cs @ ds) s = (case run_stmts cs s of (Inl e, s') \<Rightarrow> (Inl e, s') | (Inr u, s') \<Rightarrow> run_stmts ds s')"
  by (induction cs arbitrary: s) (auto split: prod.splits sum.splits)

lemma run_changes:
  "run_stmts (map Change fs) \<lparr>ss_committed = c, ss_working = w, ss_open = True\<rparr> =
     (case run_body fs (fl_tables w) of
        Inr t \<Rightarrow> (Inr (), \<lparr>ss_committed = c, ss_working = w\<lparr>fl_tables := t\<rparr>, ss_open = True\<rparr>)
      | Inl e \<Rightarrow> (Inl e, snd (run_stmts (map Change fs) \<lparr>ss_committed = c, ss_working = w, ss_open = True\<rparr>)))
   \<and> ss_committed (snd (run_stmts (map Change fs) \<lparr>ss_committed = c, ss_working = w, ss_open = True\<rparr>)) = c
   \<and> ss_open (snd (run_stmts (map Change fs) \<lparr>ss_committed = c, ss_working = w, ss_open = True\<rparr>))"
proof (induction fs arbitrary: w)
  case (Cons f fs)
  show ?case
  proof (cases "f (fl_tables w)")
    case (Inr t)
    with Cons.IH [of "w\<lparr>fl_tables := t\<rparr>"] show ?thesis
      by (auto simp: write_file_def split: sum.splits)
  qed simp
qed simp

text \<open>A migration is applied with its stamp, or not at all.\<close>

lemma apply_closed:
  "apply_migration m (closed f) = (case migrate_file m f of Inl e \<Rightarrow> (Inl e, closed f) | Inr f' \<Rightarrow> (Inr (), closed f'))"
proof -
  let ?s = "\<lparr>ss_committed = f, ss_working = f, ss_open = True\<rparr>"
  obtain r s' where run: "run_stmts (map Change (mg_body m)) ?s = (r, s')" by fastforce
  from run_changes [of "mg_body m" f f] run show ?thesis
    by (cases "run_body (mg_body m) (fl_tables f)")
      (auto simp: apply_migration_def atomically_def apply_stmts_def closed_def run_stmts_append migrate_file_def write_file_def)
qed

lemma apply_stmts_closed: "migrate_file m f = Inr f' \<Longrightarrow> run_stmts (apply_stmts m) (closed f) = (Inr (), closed f')"
  using apply_closed [of m f]
  by (auto simp: apply_migration_def atomically_def closed_def split: prod.splits sum.splits)

fun reached :: "'t migration list \<Rightarrow> 't db_file \<Rightarrow> unit result \<times> 't db_file" where
  "reached [] f = (Inr (), f)"
| "reached (m # ms) f = (case migrate_file m f of Inl e \<Rightarrow> (Inl e, f) | Inr f' \<Rightarrow> reached ms f')"

lemma upgrade_closed:
  "sorted_wrt (<) (map mg_version ms) \<Longrightarrow>
     upgrade ms v (closed f) = map_prod id closed (reached (filter (\<lambda>m. v < mg_version m) ms) f)"
proof (induction ms arbitrary: v f)
  case (Cons m ms)
  show ?case
  proof (cases "mg_version m \<le> v")
    case False
    have "filter (\<lambda>m'. v < mg_version m') ms = ms" "filter (\<lambda>m'. mg_version m < mg_version m') ms = ms"
      using Cons.prems False by (auto simp: filter_id_conv)
    with False Cons show ?thesis
      by (auto simp: apply_closed split: sum.splits)
  qed (use Cons in simp)
qed simp

lemma reached_spec:
  "reached ms f = (r, f') \<Longrightarrow> \<exists>k \<le> length ms. migrate_all (take k ms) f = Inr f' \<and> (r = Inr () \<longleftrightarrow> k = length ms)"
proof (induction ms arbitrary: f)
  case (Cons m ms)
  show ?case
  proof (cases "migrate_file m f")
    case (Inl e)
    with Cons.prems show ?thesis by (intro exI [of _ 0]) auto
  next
    case (Inr f1)
    with Cons obtain k where "k \<le> length ms" "migrate_all (take k ms) f1 = Inr f'" "r = Inr () \<longleftrightarrow> k = length ms"
      by auto
    with Inr show ?thesis by (intro exI [of _ "Suc k"]) simp
  qed
qed simp

lemma migrate_all_version:
  "migrate_all ms f = Inr f' \<Longrightarrow> fl_version f = StoredVersion v \<Longrightarrow>
     fl_version f' = StoredVersion (if ms = [] then v else mg_version (last ms))"
proof (induction ms arbitrary: f v)
  case (Cons m ms)
  then obtain f1 where f1: "migrate_file m f = Inr f1" "migrate_all ms f1 = Inr f'" by auto
  then have "fl_version f1 = StoredVersion (mg_version m)"
    by (auto simp: migrate_file_def split: if_splits)
  from Cons.IH [OF f1(2) this] show ?case by simp
qed simp

lemma reached_all: "reached ms f = (Inr (), g) \<longleftrightarrow> migrate_all ms f = Inr g"
  by (induction ms arbitrary: f) (auto split: sum.splits)

lemma migrate_all_append: "migrate_all (xs @ ys) f = rbind (migrate_all xs f) (migrate_all ys)"
proof (induction xs arbitrary: f)
  case (Cons x xs)
  then show ?case by (cases "migrate_file x f") simp_all
qed simp

section \<open>Valid registries\<close>

lemma registry_versions:
  assumes "validate_registry reg = Inr ()" and "i < length reg"
  shows "mg_version (reg ! i) = int i + 2"
proof -
  have "map mg_version reg = map int [2..<2 + length reg]"
    using assms by (auto simp: validate_registry_def split: if_splits)
  then have "map mg_version reg ! i = map int [2..<2 + length reg] ! i" by simp
  with assms(2) show ?thesis by (simp add: nth_upt del: upt_Suc)
qed

lemma registry_sorted: "validate_registry reg = Inr () \<Longrightarrow> sorted_wrt (<) (map mg_version reg)"
  by (simp add: sorted_wrt_iff_nth_less registry_versions)

lemma registry_highest: "validate_registry reg = Inr () \<Longrightarrow> highest_registered_version reg = int (length reg) + 1"
  by (cases "length reg") (auto simp: highest_registered_version_def last_conv_nth registry_versions)

lemma registry_pending:
  assumes "validate_registry reg = Inr ()" and "1 \<le> v"
  shows "filter (\<lambda>m. v < mg_version m) reg = drop (nat (v - 1)) reg"
proof -
  let ?k = "nat (v - 1)"
  have "\<not> v < mg_version m" if "m \<in> set (take ?k reg)" for m
    using that assms registry_versions [OF assms(1)] by (auto simp: in_set_conv_nth)
  moreover have "v < mg_version m" if "m \<in> set (drop ?k reg)" for m
  proof -
    from that obtain i where "i < length reg - ?k" "m = reg ! (?k + i)"
      by (auto simp: in_set_conv_nth)
    then show ?thesis using assms registry_versions [OF assms(1), of "?k + i"] by simp
  qed
  ultimately have "filter (\<lambda>m. v < mg_version m) (take ?k reg @ drop ?k reg) = drop ?k reg"
    by (simp only: filter_append) (simp add: filter_empty_conv filter_id_conv)
  then show ?thesis by simp
qed

text \<open>What the runner does to a file with a recorded version.\<close>

lemma apply_migrations_recorded:
  assumes "validate_registry reg = Inr ()" and "fl_version f = StoredVersion v" and "1 \<le> v" and "v \<le> highest_registered_version reg"
  shows "apply_migrations schema nonempty reg f = reached (drop (nat (v - 1)) reg) f"
proof -
  have "apply_migrations schema nonempty reg f = map_prod id ss_committed (upgrade reg v (closed f))"
    using assms by (simp add: apply_migrations_def apply_under_lock_def Let_def read_version_def has_any_tables_def closed_def)
  also have "\<dots> = map_prod id ss_committed (map_prod id closed (reached (drop (nat (v - 1)) reg) f))"
    unfolding upgrade_closed [OF registry_sorted [OF assms(1)]] registry_pending [OF assms(1,3)] ..
  finally show ?thesis
    by (cases "reached (drop (nat (v - 1)) reg) f") (simp add: closed_def)
qed

section \<open>Upgrades\<close>

text \<open>Opening a database of a version this code knows applies the missing migrations in order: the file ends with exactly
  a prefix of them applied and with the version of the last one recorded, all of them if the run succeeds, and a further
  start of an upgraded database changes nothing.\<close>

theorem upgrade_applies_prefix:
  assumes "validate_registry reg = Inr ()" and "fl_version f = StoredVersion v" and "1 \<le> v" and "v \<le> highest_registered_version reg"
    and "apply_migrations schema nonempty reg f = (r, f')"
  shows "(\<exists>k. v + int k \<le> highest_registered_version reg \<and> migrate_all (take k (drop (nat (v - 1)) reg)) f = Inr f'
      \<and> fl_version f' = StoredVersion (v + int k) \<and> (r = Inr () \<longleftrightarrow> v + int k = highest_registered_version reg))
    \<and> (r = Inr () \<longrightarrow> apply_migrations schema nonempty reg f' = (Inr (), f'))"
proof -
  let ?d = "drop (nat (v - 1)) reg"
  have "reached ?d f = (r, f')"
    using assms apply_migrations_recorded by metis
  then obtain k where k: "k \<le> length ?d" "migrate_all (take k ?d) f = Inr f'" "r = Inr () \<longleftrightarrow> k = length ?d"
    using reached_spec by blast
  have len: "int (length ?d) = highest_registered_version reg - v"
    using assms(3,4) registry_highest [OF assms(1)] by simp
  have ver: "fl_version f' = StoredVersion (v + int k)"
  proof (cases k)
    case 0
    with k assms(2) show ?thesis by simp
  next
    case (Suc j)
    with k(1) have "last (take k ?d) = reg ! (nat (v - 1) + j)" "nat (v - 1) + j < length reg"
      by (simp_all add: last_conv_nth)
    with Suc k(1) assms(3) migrate_all_version [OF k(2) assms(2)] registry_versions [OF assms(1), of "nat (v - 1) + j"]
    show ?thesis by auto
  qed
  have "apply_migrations schema nonempty reg f' = (Inr (), f')" if "r = Inr ()"
  proof -
    have "v + int k = int (length reg) + 1"
      using that k(3) len registry_highest [OF assms(1)] by simp
    moreover from this have "drop (nat (v + int k - 1)) reg = []" by simp
    ultimately show ?thesis
      using apply_migrations_recorded [OF assms(1) ver] assms(3) registry_highest [OF assms(1)] by simp
  qed
  with k ver len show ?thesis by (intro conjI exI [of _ k]) auto
qed

text \<open>Within a migration nothing is committed before its last statement.\<close>

lemma no_commit_keeps:
  "Commit \<notin> set cs \<Longrightarrow> Rollback \<notin> set cs \<Longrightarrow> ss_open s \<Longrightarrow>
     ss_committed (snd (run_stmts cs s)) = ss_committed s"
proof (induction cs arbitrary: s)
  case (Cons c cs)
  have "ss_committed (snd (exec_stmt c s)) = ss_committed s \<and> ss_open (snd (exec_stmt c s))"
    using Cons.prems by (cases c) (auto simp: write_file_def split: sum.splits)
  with Cons show ?case by (auto split: prod.splits sum.splits)
qed simp

lemma partial_migration:
  assumes "n < length (apply_stmts m)"
  shows "ss_committed (snd (run_stmts (take n (apply_stmts m)) (closed f))) = f"
proof (cases n)
  case 0
  then show ?thesis by (simp add: closed_def)
next
  case (Suc i)
  have "take n (apply_stmts m) = Begin # take i (map Change (mg_body m) @ [Stamp (mg_version m)])"
    using assms Suc by (auto simp: apply_stmts_def take_Cons')
  moreover have "Commit \<notin> set (take i (map Change (mg_body m) @ [Stamp (mg_version m)]))"
    "Rollback \<notin> set (take i (map Change (mg_body m) @ [Stamp (mg_version m)]))"
    by (auto dest!: in_set_takeD)
  ultimately show ?thesis
    by (simp add: closed_def no_commit_keeps)
qed

lemma crash_prefix:
  "migrate_all ms f = Inr g \<Longrightarrow>
     \<exists>k \<le> length ms. migrate_all (take k ms) f
       = Inr (ss_committed (snd (run_stmts (take n (concat (map apply_stmts ms))) (closed f))))"
proof (induction ms arbitrary: n f)
  case (Cons m ms)
  then obtain f1 where f1: "migrate_file m f = Inr f1" "migrate_all ms f1 = Inr g" by auto
  show ?case
  proof (cases "n < length (apply_stmts m)")
    case True
    with partial_migration [OF True, of f] show ?thesis
      by (intro exI [of _ 0]) simp
  next
    case False
    from Cons.IH [OF f1(2), of "n - length (apply_stmts m)"] obtain k where
      k: "k \<le> length ms" "migrate_all (take k ms) f1
        = Inr (ss_committed (snd (run_stmts (take (n - length (apply_stmts m)) (concat (map apply_stmts ms))) (closed f1))))"
      by blast
    with False f1 apply_stmts_closed [OF f1(1)] show ?thesis
      by (intro exI [of _ "Suc k"]) (simp add: run_stmts_append)
  qed
qed (simp add: closed_def)

text \<open>C21: A process that dies anywhere in an upgrade that would have succeeded loses nothing: whatever statement it had
  reached, the next start takes the file it left to exactly the database the uninterrupted upgrade ends with.\<close>

theorem interrupted_upgrade_resumes:
  assumes "validate_registry reg = Inr ()" and "fl_version f = StoredVersion v" and "1 \<le> v" and "v \<le> highest_registered_version reg"
    and "apply_migrations schema nonempty reg f = (Inr (), g)"
    and "run_stmts (take n (concat (map apply_stmts (drop (nat (v - 1)) reg)))) (closed f) = (r, s)"
  shows "apply_migrations schema nonempty reg (ss_committed s) = (Inr (), g)"
proof -
  let ?d = "drop (nat (v - 1)) reg"
  have all: "migrate_all ?d f = Inr g"
    using assms apply_migrations_recorded reached_all by metis
  then obtain k where k: "k \<le> length ?d" "migrate_all (take k ?d) f = Inr (ss_committed s)"
    using crash_prefix [OF all, of n] assms(6) by auto
  have "migrate_all (take k ?d @ drop k ?d) f = Inr g"
    unfolding append_take_drop_id by (rule all)
  then have rest: "reached (drop k ?d) (ss_committed s) = (Inr (), g)"
    unfolding migrate_all_append k(2) reached_all by simp
  have ver: "fl_version (ss_committed s) = StoredVersion (v + int k)"
  proof (cases k)
    case 0
    with k assms(2) show ?thesis by simp
  next
    case (Suc j)
    with k(1) have "last (take k ?d) = reg ! (nat (v - 1) + j)" "nat (v - 1) + j < length reg"
      by (simp_all add: last_conv_nth)
    with Suc k(1) assms(3) migrate_all_version [OF k(2) assms(2)] registry_versions [OF assms(1), of "nat (v - 1) + j"]
    show ?thesis by auto
  qed
  have "int (length ?d) = highest_registered_version reg - v"
    using assms(3,4) registry_highest [OF assms(1)] by simp
  with k(1) have "v + int k \<le> highest_registered_version reg" by simp
  then have "apply_migrations schema nonempty reg (ss_committed s) = reached (drop (nat (v + int k - 1)) reg) (ss_committed s)"
    using assms(3) by (intro apply_migrations_recorded assms(1) ver) auto
  moreover have "drop (nat (v + int k - 1)) reg = drop k ?d"
  proof -
    have "nat (v + int k - 1) = k + nat (v - 1)" using assms(3) by simp
    then show ?thesis by simp
  qed
  ultimately show ?thesis using rest by simp
qed

definition example_registry :: "nat list migration list" where
  "example_registry = [\<lparr>mg_version = 2, mg_body = []\<rparr>, \<lparr>mg_version = 3, mg_body = [\<lambda>t. Inr (3 # t), \<lambda>t. Inr (t @ [4])]\<rparr>,
     \<lparr>mg_version = 4, mg_body = [\<lambda>t. Inr (rev t)]\<rparr>]"

lemma example_upgrade:
  "validate_registry example_registry = Inr ()" "highest_registered_version example_registry = 4"
  "apply_migrations (\<lambda>t. Inr t) (\<lambda>_. False) example_registry \<lparr>fl_version = StoredVersion 1, fl_tables = [7]\<rparr>
    = (Inr (), \<lparr>fl_version = StoredVersion 4, fl_tables = [4, 7, 3]\<rparr>)"
  by code_simp+

theorem upgrade_applies_prefix_witness:
  "apply_migrations (\<lambda>t. Inr t) (\<lambda>_. False) example_registry \<lparr>fl_version = StoredVersion 4, fl_tables = [4, 7, 3]\<rparr>
    = (Inr (), \<lparr>fl_version = StoredVersion 4, fl_tables = [4, 7, 3]\<rparr>)"
  using upgrade_applies_prefix [OF example_upgrade(1) _ _ _ example_upgrade(3), of 1] by (simp add: example_upgrade(2))

text \<open>Killed between the two changes of the second migration.\<close>

theorem interrupted_upgrade_resumes_witness:
  "\<exists>r s. run_stmts (take 5 (concat (map apply_stmts example_registry))) (closed \<lparr>fl_version = StoredVersion 1, fl_tables = [7]\<rparr>) = (r, s)
    \<and> ss_working s \<noteq> ss_committed s
    \<and> apply_migrations (\<lambda>t. Inr t) (\<lambda>_. False) example_registry (ss_committed s) = (Inr (), \<lparr>fl_version = StoredVersion 4, fl_tables = [4, 7, 3]\<rparr>)"
proof -
  let ?f = "\<lparr>fl_version = StoredVersion 1, fl_tables = [7 :: nat]\<rparr>"
  have run: "run_stmts (take 5 (concat (map apply_stmts (drop (nat (1 - 1)) example_registry)))) (closed ?f)
    = (Inr (), \<lparr>ss_committed = ?f\<lparr>fl_version := StoredVersion 2\<rparr>,
        ss_working = \<lparr>fl_version = StoredVersion 2, fl_tables = [3, 7]\<rparr>, ss_open = True\<rparr>)"
    by code_simp
  from interrupted_upgrade_resumes [OF example_upgrade(1) _ _ _ example_upgrade(3) run] run show ?thesis
    by (simp add: example_upgrade(2))
qed

text \<open>A file of a newer schema, or with tables but no version, is refused and left alone.\<close>

lemma newer_refused:
  "validate_registry reg = Inr () \<Longrightarrow> highest_registered_version reg < read_version f \<Longrightarrow>
     \<exists>e. apply_migrations schema nonempty reg f = (Inl (Exn RuntimeError e), f)"
  by (simp add: apply_migrations_def apply_under_lock_def Let_def closed_def)

section \<open>App ids\<close>

text \<open>
  \<open>migrations/v0007_app_ids.py\<close>: the tables keyed by app name before, by app id after.  The columns of \<open>apps\<close> that are
  copied as they are form a type parameter.  Uniqueness constraints of the new tables raise.
\<close>

record 'r named_app =
  na_id :: int
  na_name :: string
  na_rest :: 'r

record 'r identified_app =
  ia_id :: int
  ia_app_id :: string
  ia_name :: string
  ia_rest :: 'r

text \<open>A row of a child table: the column that names its app, and the others.\<close>

record 'k grant_columns =
  gc_service_url :: string
  gc_payload :: 'k
  gc_scope :: string
  gc_provider :: string

record ('r, 'k) name_tables =
  nt_apps :: "'r named_app list"
  nt_databases :: "(string \<times> int \<times> string \<times> string) list"
  nt_ports :: "(string \<times> int \<times> string \<times> int \<times> int) list"
  nt_tokens :: "(string \<times> string) list"
  nt_providers_v1 :: "(string \<times> string) list"
  nt_providers :: "(string \<times> string \<times> string \<times> string) list"
  nt_defaults :: "(string \<times> string) list"
  nt_permissions_v1 :: "(string \<times> string) list"
  nt_permissions :: "(string \<times> 'k grant_columns) list"

record ('r, 'k) id_tables =
  it_apps :: "'r identified_app list"
  it_databases :: "(string \<times> int \<times> string \<times> string) list"
  it_ports :: "(string \<times> int \<times> string \<times> int \<times> int) list"
  it_tokens :: "(string \<times> string) list"
  it_providers_v1 :: "(string \<times> string) list"
  it_providers :: "(string \<times> string \<times> string \<times> string) list"
  it_defaults :: "(string \<times> string) list"
  it_permissions_v1 :: "(string \<times> string) list"
  it_permissions :: "(string \<times> 'k grant_columns) list"

definition unique_on :: "('a \<Rightarrow> 'b) \<Rightarrow> 'a list \<Rightarrow> 'a list result" where
  "unique_on key rows = (if distinct (map key rows) then Inr rows else Inl (Exn IntegrityError ''UNIQUE constraint failed''))"

text \<open>The \<open>n\<close>-th row gets the \<open>n\<close>-th fresh id.\<close>

definition add_app_id_to_apps :: "(nat \<Rightarrow> string) \<Rightarrow> 'r named_app list \<Rightarrow> 'r identified_app list result" where
  "add_app_id_to_apps mint rows =
     unique_on ia_app_id (map (\<lambda>(n, r). \<lparr>ia_id = na_id r, ia_app_id = mint n, ia_name = na_name r, ia_rest = na_rest r\<rparr>) (enumerate 0 rows))"

definition id_of_name :: "'r identified_app list \<Rightarrow> string \<Rightarrow> string option" where
  "id_of_name apps name = map_option ia_app_id (find (\<lambda>a. ia_name a = name) apps)"

text \<open>\<open>FROM child JOIN apps a ON a.name = child.app_name\<close>.\<close>

definition join_apps :: "'r identified_app list \<Rightarrow> (string \<times> 'c) list \<Rightarrow> (string \<times> 'c) list" where
  "join_apps apps rows = List.map_filter (\<lambda>(name, c). map_option (\<lambda>i. (i, c)) (id_of_name apps name)) rows"

definition recreate_app_databases :: "'r identified_app list \<Rightarrow> (string \<times> int \<times> string \<times> string) list \<Rightarrow> (string \<times> int \<times> string \<times> string) list result" where
  "recreate_app_databases apps rows = unique_on (\<lambda>(i, _, db_name, _). (i, db_name)) (join_apps apps rows)"

definition recreate_app_port_mappings :: "'r identified_app list \<Rightarrow> (string \<times> int \<times> string \<times> int \<times> int) list \<Rightarrow> (string \<times> int \<times> string \<times> int \<times> int) list result" where
  "recreate_app_port_mappings apps rows =
     rbind (unique_on (\<lambda>(i, _, label, _). (i, label)) (join_apps apps rows)) (unique_on (\<lambda>(_, _, _, _, host_port). host_port))"

definition recreate_app_tokens :: "'r identified_app list \<Rightarrow> (string \<times> string) list \<Rightarrow> (string \<times> string) list result" where
  "recreate_app_tokens apps rows = rbind (unique_on fst (join_apps apps rows)) (unique_on snd)"

definition recreate_service_providers :: "'r identified_app list \<Rightarrow> (string \<times> string) list \<Rightarrow> (string \<times> string) list result" where
  "recreate_service_providers apps rows = unique_on (\<lambda>(i, service_name). (service_name, i)) (join_apps apps rows)"

definition recreate_service_providers_v2 :: "'r identified_app list \<Rightarrow> (string \<times> string \<times> string \<times> string) list \<Rightarrow> (string \<times> string \<times> string \<times> string) list result" where
  "recreate_service_providers_v2 apps rows = unique_on (\<lambda>(i, url, version, _). (url, i, version)) (join_apps apps rows)"

definition recreate_service_defaults :: "'r identified_app list \<Rightarrow> (string \<times> string) list \<Rightarrow> (string \<times> string) list result" where
  "recreate_service_defaults apps rows = unique_on snd (join_apps apps rows)"

definition recreate_permissions :: "'r identified_app list \<Rightarrow> (string \<times> string) list \<Rightarrow> (string \<times> string) list result" where
  "recreate_permissions apps rows = unique_on id (join_apps apps rows)"

text \<open>A grant for any provider has the empty provider; one for a provider that is gone is dropped.\<close>

definition provider_id :: "'r identified_app list \<Rightarrow> 'k grant_columns \<Rightarrow> 'k grant_columns option" where
  "provider_id apps g =
     (if gc_provider g = [] then Some g
      else map_option (\<lambda>i. g\<lparr>gc_provider := i\<rparr>) (id_of_name apps (gc_provider g)))"

definition recreate_permissions_v2 :: "'r identified_app list \<Rightarrow> (string \<times> 'k grant_columns) list \<Rightarrow> (string \<times> 'k grant_columns) list result" where
  "recreate_permissions_v2 apps rows =
     unique_on id (List.map_filter (\<lambda>(i, g). map_option (Pair i) (provider_id apps g)) (join_apps apps rows))"

definition add_app_ids :: "(nat \<Rightarrow> string) \<Rightarrow> ('r, 'k) name_tables \<Rightarrow> ('r, 'k) id_tables result" where
  "add_app_ids mint db =
     rbind (add_app_id_to_apps mint (nt_apps db)) (\<lambda>apps.
     rbind (recreate_app_databases apps (nt_databases db)) (\<lambda>databases.
     rbind (recreate_app_port_mappings apps (nt_ports db)) (\<lambda>ports.
     rbind (recreate_app_tokens apps (nt_tokens db)) (\<lambda>tokens.
     rbind (recreate_service_providers apps (nt_providers_v1 db)) (\<lambda>providers_v1.
     rbind (recreate_service_providers_v2 apps (nt_providers db)) (\<lambda>providers.
     rbind (recreate_service_defaults apps (nt_defaults db)) (\<lambda>defaults.
     rbind (recreate_permissions apps (nt_permissions_v1 db)) (\<lambda>permissions_v1.
     rbind (recreate_permissions_v2 apps (nt_permissions db)) (\<lambda>permissions.
       Inr \<lparr>it_apps = apps, it_databases = databases, it_ports = ports, it_tokens = tokens, it_providers_v1 = providers_v1,
            it_providers = providers, it_defaults = defaults, it_permissions_v1 = permissions_v1, it_permissions = permissions\<rparr>)))))))))"

lemma unique_on_Inr: "unique_on key rows = Inr rs \<longleftrightarrow> rs = rows \<and> distinct (map key rows)"
  by (auto simp: unique_on_def)

lemma map_filter_set: "set (List.map_filter f xs) = {y. \<exists>x \<in> set xs. f x = Some y}"
  by (force simp: List.map_filter_def)

text \<open>The rows of an app by its name before are its rows by its id after.\<close>

definition rows_of :: "string \<Rightarrow> (string \<times> 'c) list \<Rightarrow> 'c list" where
  "rows_of app rows = map snd (filter (\<lambda>r. fst r = app) rows)"

lemma join_rows:
  assumes "distinct (map ia_app_id apps)" and "distinct (map ia_name apps)" and "a \<in> set apps"
  shows "rows_of (ia_app_id a) (join_apps apps rows) = rows_of (ia_name a) rows"
proof (induction rows)
  case (Cons r rows)
  obtain name c where r: "r = (name, c)" by fastforce
  have "id_of_name apps name = Some (ia_app_id a) \<longleftrightarrow> name = ia_name a"
  proof
    assume "id_of_name apps name = Some (ia_app_id a)"
    then obtain b where "find (\<lambda>a. ia_name a = name) apps = Some b" "ia_app_id b = ia_app_id a"
      by (auto simp: id_of_name_def)
    moreover from this have "b \<in> set apps" "ia_name b = name"
      by (auto dest: find_Some_iff_filter)
    ultimately show "name = ia_name a"
      using distinct_map_inj [OF assms(1) _ assms(3), of b] by simp
  next
    assume "name = ia_name a"
    then show "id_of_name apps name = Some (ia_app_id a)"
      using find_unique [OF assms(2,3)] by (simp add: id_of_name_def)
  qed
  with Cons r show ?case
    by (auto simp: rows_of_def join_apps_def List.map_filter_simps split: option.splits)
qed (simp add: rows_of_def join_apps_def List.map_filter_simps)

lemma minted_apps:
  assumes "add_app_id_to_apps mint rows = Inr apps"
  shows "distinct (map ia_app_id apps) \<and> map ia_name apps = map na_name rows \<and> map ia_rest apps = map na_rest rows
    \<and> map ia_id apps = map na_id rows"
  using assms
  by (auto simp: add_app_id_to_apps_def unique_on_Inr comp_def case_prod_unfold) (simp_all add: map_map [symmetric, unfolded comp_def] del: map_map)

lemma migrated_grant_rows:
  "rows_of i (List.map_filter (\<lambda>(i, g). map_option (Pair i) (f g)) rows) = List.map_filter f (rows_of i rows)"
  by (induction rows) (auto simp: rows_of_def List.map_filter_simps split: option.splits)

text \<open>C24: The migration to app ids keeps every app with its columns, gives the apps different ids, and hands each of
  them exactly the rows of the child tables that carried its name, grants with the provider's name replaced by its id;
  rows that named no app, and grants for a provider that is gone, are dropped.\<close>

theorem app_ids_keep_rows:
  assumes "distinct (map na_name (nt_apps db))" and "add_app_ids mint db = Inr db'"
  shows "map (\<lambda>a. (ia_id a, ia_name a, ia_rest a)) (it_apps db') = map (\<lambda>a. (na_id a, na_name a, na_rest a)) (nt_apps db)
    \<and> distinct (map ia_app_id (it_apps db'))
    \<and> (\<forall>a \<in> set (it_apps db').
        rows_of (ia_app_id a) (it_databases db') = rows_of (ia_name a) (nt_databases db)
      \<and> rows_of (ia_app_id a) (it_ports db') = rows_of (ia_name a) (nt_ports db)
      \<and> rows_of (ia_app_id a) (it_tokens db') = rows_of (ia_name a) (nt_tokens db)
      \<and> rows_of (ia_app_id a) (it_providers_v1 db') = rows_of (ia_name a) (nt_providers_v1 db)
      \<and> rows_of (ia_app_id a) (it_providers db') = rows_of (ia_name a) (nt_providers db)
      \<and> rows_of (ia_app_id a) (it_defaults db') = rows_of (ia_name a) (nt_defaults db)
      \<and> rows_of (ia_app_id a) (it_permissions_v1 db') = rows_of (ia_name a) (nt_permissions_v1 db)
      \<and> rows_of (ia_app_id a) (it_permissions db') = List.map_filter (provider_id (it_apps db')) (rows_of (ia_name a) (nt_permissions db)))"
proof -
  let ?apps = "it_apps db'"
  have minted: "add_app_id_to_apps mint (nt_apps db) = Inr ?apps"
    and tables: "it_databases db' = join_apps ?apps (nt_databases db)" "it_ports db' = join_apps ?apps (nt_ports db)"
      "it_tokens db' = join_apps ?apps (nt_tokens db)" "it_providers_v1 db' = join_apps ?apps (nt_providers_v1 db)"
      "it_providers db' = join_apps ?apps (nt_providers db)" "it_defaults db' = join_apps ?apps (nt_defaults db)"
      "it_permissions_v1 db' = join_apps ?apps (nt_permissions_v1 db)"
      "it_permissions db' = List.map_filter (\<lambda>(i, g). map_option (Pair i) (provider_id ?apps g)) (join_apps ?apps (nt_permissions db))"
    using assms(2)
    by (auto simp: add_app_ids_def recreate_app_databases_def recreate_app_port_mappings_def recreate_app_tokens_def
        recreate_service_providers_def recreate_service_providers_v2_def recreate_service_defaults_def
        recreate_permissions_def recreate_permissions_v2_def unique_on_Inr)
  from minted_apps [OF minted] have ids: "distinct (map ia_app_id ?apps)" and names: "map ia_name ?apps = map na_name (nt_apps db)"
    by simp_all
  have columns: "map (\<lambda>a. (ia_id a, ia_name a, ia_rest a)) ?apps = map (\<lambda>a. (na_id a, na_name a, na_rest a)) (nt_apps db)"
    using minted_apps [OF minted] by (auto simp: list_eq_iff_nth_eq map_equality_iff)
  have unique: "distinct (map ia_name ?apps)"
    using names assms(1) by simp
  show ?thesis
    using ids columns by (simp add: tables migrated_grant_rows join_rows [OF ids unique])
qed

definition example_names :: "(unit, unit) name_tables" where
  "example_names = \<lparr>nt_apps = [\<lparr>na_id = 1, na_name = ''notes'', na_rest = ()\<rparr>, \<lparr>na_id = 2, na_name = ''mail'', na_rest = ()\<rparr>],
     nt_databases = [(''notes'', 1, ''main'', ''/d/main.db'')], nt_ports = [(''mail'', 1, ''smtp'', 25, 9001), (''gone'', 2, ''x'', 1, 9002)],
     nt_tokens = [(''mail'', ''h'')], nt_providers_v1 = [], nt_providers = [], nt_defaults = [], nt_permissions_v1 = [],
     nt_permissions = [(''notes'', \<lparr>gc_service_url = ''s'', gc_payload = (), gc_scope = ''app'', gc_provider = ''mail''\<rparr>)]\<rparr>"

theorem app_ids_keep_rows_witness:
  "\<exists>db'. add_app_ids (\<lambda>n. if n = 0 then ''a1'' else ''b2'') example_names = Inr db'
    \<and> rows_of ''b2'' (it_ports db') = [(1, ''smtp'', 25, 9001)]"
proof -
  obtain db' where db': "add_app_ids (\<lambda>n. if n = 0 then ''a1'' else ''b2'') example_names = Inr db'"
    "it_apps db' = [\<lparr>ia_id = 1, ia_app_id = ''a1'', ia_name = ''notes'', ia_rest = ()\<rparr>, \<lparr>ia_id = 2, ia_app_id = ''b2'', ia_name = ''mail'', ia_rest = ()\<rparr>]"
    by (simp add: add_app_ids_def example_names_def add_app_id_to_apps_def enumerate_eq_zip unique_on_def recreate_app_databases_def
        recreate_app_port_mappings_def recreate_app_tokens_def recreate_service_providers_def recreate_service_providers_v2_def
        recreate_service_defaults_def recreate_permissions_def recreate_permissions_v2_def join_apps_def id_of_name_def
        List.map_filter_simps provider_id_def)
  have "distinct (map na_name (nt_apps example_names))"
    by (simp add: example_names_def)
  from app_ids_keep_rows [OF this db'(1)] db' show ?thesis
    by (intro exI [of _ db']) (simp add: example_names_def rows_of_def)
qed

end
