(* ===== verification/Dns.thy ===== *)
theory Dns
  imports Containers "HOL-Library.Word" "HOL-Library.Product_Lexorder"
begin

text \<open>
  \<open>core/dns/coredns_provider\<close> and \<open>core/dns/router_records.py\<close>: the zones and records the instance answers for, the
  files it renders for CoreDNS, and the child process that serves them.  A rendered file is the template with its
  parameters; the text the template engine makes of them is not modelled.  The wall clock is an argument, and so is
  whether CoreDNS starts.  The zone lock serialises the operations on zones, so each is one step.
\<close>

section \<open>Records\<close>

datatype record_type = A_record | TXT_record

record dns_record =
  dr_name :: string
  dr_type :: record_type
  dr_ttl :: int
  dr_data :: string

definition APEX :: string where
  "APEX = ''@''"

definition ADDRESS_TTL_SECONDS :: int where
  "ADDRESS_TTL_SECONDS = 300"

definition backslash :: char where
  "backslash = CHR 0x5C"

definition dquote :: char where
  "dquote = CHR 0x22"

definition rdata :: "dns_record \<Rightarrow> string" where
  "rdata r =
     (case dr_type r of
        TXT_record \<Rightarrow> dquote # replace_all [dquote] [backslash, dquote] (replace_all [backslash] [backslash, backslash] (dr_data r)) @ [dquote]
      | A_record \<Rightarrow> dr_data r)"

definition normalize_zone :: "string \<Rightarrow> string" where
  "normalize_zone zone = lower (rstrip_if (\<lambda>c. c = CHR ''.'') (strip zone))"

definition LOCAL_ONLY_SUFFIXES :: "string list" where
  "LOCAL_ONLY_SUFFIXES = [''.local'', ''lvh.me'']"

definition is_local_only :: "string \<Rightarrow> bool" where
  "is_local_only d = list_ex (\<lambda>sfx. d = sfx \<or> endswith d (CHR ''.'' # sfx)) LOCAL_ONLY_SUFFIXES"

section \<open>Rendered files\<close>

datatype dns_file =
    Corefile "(string \<times> string \<times> string) list" "string option" "string option" "string list"
  | ZoneFile string nat int "dns_record list"
  | ContainerZoneFile string string nat

datatype dns_process = NoProcess | DeadProcess | Serving "string list"

record dns_config =
  dc_corefile :: string
  dc_zones_dir :: string
  dc_bind_ip :: "string option"
  dc_gateway :: "string option"
  dc_resolv_conf :: "string result"
  dc_start :: "unit result"

record dns_state =
  dz_zones :: "string list"
  dz_records :: "((string \<times> record_type) \<times> dns_record list) list"
  dz_process :: dns_process
  dz_serial :: "32 word"
  dz_files :: "string \<rightharpoonup> dns_file"

definition new_provider :: "string list \<Rightarrow> dns_state" where
  "new_provider zones = \<lparr>dz_zones = zones, dz_records = [], dz_process = NoProcess, dz_serial = 0, dz_files = Map.empty\<rparr>"

definition FALLBACK_UPSTREAM_DNS :: "string list" where
  "FALLBACK_UPSTREAM_DNS = [''8.8.8.8'', ''1.1.1.1'']"

definition resolver_of_line :: "string option \<Rightarrow> string \<Rightarrow> string option" where
  "resolver_of_line gateway line =
     (case split_ws line of
        kw # addr # _ \<Rightarrow>
          if kw \<noteq> ''nameserver'' \<or> startswith addr ''127.'' \<or> addr = ''::1'' \<or> Some addr = gateway then None else Some addr
      | _ \<Rightarrow> None)"

definition host_upstream_resolvers :: "string option \<Rightarrow> string result \<Rightarrow> string list result" where
  "host_upstream_resolvers gateway resolv_conf =
     (case resolv_conf of
        Inl e \<Rightarrow> if is_os_error e then Inr FALLBACK_UPSTREAM_DNS else Inl e
      | Inr txt \<Rightarrow>
          (let resolvers = List.map_filter (resolver_of_line gateway) (splitlines txt)
           in Inr (if resolvers = [] then FALLBACK_UPSTREAM_DNS else resolvers)))"

definition zonefile_path :: "string \<Rightarrow> string \<Rightarrow> string" where
  "zonefile_path zones_dir zone = path_join zones_dir (before CHR '':'' zone @ ''.zone'')"

definition container_zonefile_path :: "string \<Rightarrow> string \<Rightarrow> string" where
  "container_zonefile_path zones_dir zone = path_join zones_dir (before CHR '':'' zone @ ''.zone.container'')"

definition discard_zone_files :: "string \<Rightarrow> string \<Rightarrow> (string \<rightharpoonup> dns_file) \<Rightarrow> (string \<rightharpoonup> dns_file)" where
  "discard_zone_files zones_dir zone files =
     files(zonefile_path zones_dir zone := None, container_zonefile_path zones_dir zone := None)"

definition all_records :: "dns_state \<Rightarrow> dns_record list" where
  "all_records st =
     sort_key (\<lambda>r. (dr_name r, if dr_type r = TXT_record then 1 :: nat else 0, dr_data r))
       (concat (map snd (dz_records st)))"

definition write_coredns_config ::
    "dns_config \<Rightarrow> string list \<Rightarrow> dns_record list \<Rightarrow> nat \<Rightarrow> (string \<rightharpoonup> dns_file) \<Rightarrow> (string \<rightharpoonup> dns_file) result" where
  "write_coredns_config cf zones records serial files =
     (if dc_bind_ip cf = None \<and> dc_gateway cf = None then Inl (Exn AssertionError ''must bind at least one view'')
      else rbind (host_upstream_resolvers (dc_gateway cf) (dc_resolv_conf cf)) (\<lambda>upstream.
        let dir = dc_zones_dir cf;
            f1 = files(dc_corefile cf \<mapsto> Corefile (map (\<lambda>z. (z, zonefile_path dir z, container_zonefile_path dir z)) zones)
                         (dc_bind_ip cf) (dc_gateway cf) upstream);
            f2 = fold (\<lambda>z fs. fs(zonefile_path dir z \<mapsto> ZoneFile z serial ADDRESS_TTL_SECONDS records)) zones f1
        in Inr (case dc_gateway cf of
             None \<Rightarrow> f2
           | Some gw \<Rightarrow> if gw = [] then f2
               else fold (\<lambda>z fs. fs(container_zonefile_path dir z \<mapsto> ContainerZoneFile z gw serial)) zones f2)))"

section \<open>The provider\<close>

text \<open>\<open>max(self._serial + 1, int(time.time())) % 2**32\<close>, \<open>now\<close> being the clock.\<close>

definition next_serial :: "nat \<Rightarrow> 32 word \<Rightarrow> 32 word" where
  "next_serial now serial = word_of_nat (max (unat serial + 1) now)"

definition write_config :: "dns_config \<Rightarrow> nat \<Rightarrow> dns_state \<Rightarrow> unit result \<times> dns_state" where
  "write_config cf now st =
     (if dc_bind_ip cf = None \<and> dc_gateway cf = None then (Inr (), st)
      else let st = st\<lparr>dz_serial := next_serial now (dz_serial st)\<rparr>
           in case write_coredns_config cf (dz_zones st) (all_records st) (unat (dz_serial st)) (dz_files st) of
                Inl e \<Rightarrow> (Inl e, st)
              | Inr files \<Rightarrow> (Inr (), st\<lparr>dz_files := files\<rparr>))"

definition cleanup :: "dns_state \<Rightarrow> dns_state" where
  "cleanup st = st\<lparr>dz_process := NoProcess\<rparr>"

text \<open>A start that fails leaves no handle, a restart that fails the handle of the stopped process.\<close>

definition match_process_to_zones :: "dns_config \<Rightarrow> dns_state \<Rightarrow> unit result \<times> dns_state" where
  "match_process_to_zones cf st =
     (if dz_zones st = [] then (Inr (), cleanup st)
      else case dc_start cf of
        Inr u \<Rightarrow> (Inr (), st\<lparr>dz_process := Serving (dz_zones st)\<rparr>)
      | Inl e \<Rightarrow> (Inl e, if dz_process st = NoProcess then st else st\<lparr>dz_process := DeadProcess\<rparr>))"

definition apply_zones :: "dns_config \<Rightarrow> nat \<Rightarrow> string list \<Rightarrow> dns_state \<Rightarrow> unit result \<times> dns_state" where
  "apply_zones cf now zones st =
     (let gone = filter (\<lambda>z. z \<notin> set zones) (dz_zones st);
          st = st\<lparr>dz_zones := zones, dz_files := fold (discard_zone_files (dc_zones_dir cf)) gone (dz_files st)\<rparr>
      in case write_config cf now st of
           (Inl e, st') \<Rightarrow> (Inl e, st')
         | (Inr u, st') \<Rightarrow> match_process_to_zones cf st')"

definition add_zone :: "dns_config \<Rightarrow> nat \<Rightarrow> string \<Rightarrow> dns_state \<Rightarrow> unit result \<times> dns_state" where
  "add_zone cf now zone st =
     (if is_local_only zone then (Inr (), st)
      else if dc_bind_ip cf = None
      then (Inl (Exn DnsNotEnabled (''No address to serve '' @ squote zone @ '' on; this instance is not bound for public DNS'')), st)
      else if normalize_zone zone \<in> set (dz_zones st) then (Inr (), st)
      else apply_zones cf now (dz_zones st @ [normalize_zone zone]) st)"

definition remove_zone :: "dns_config \<Rightarrow> nat \<Rightarrow> string \<Rightarrow> dns_state \<Rightarrow> unit result \<times> dns_state" where
  "remove_zone cf now zone st =
     (if is_local_only zone \<or> dc_bind_ip cf = None then (Inr (), st)
      else apply_zones cf now (filter (\<lambda>z. z \<noteq> normalize_zone zone) (dz_zones st)) st)"

text \<open>A Python dict keeps the place of a key that is set again.\<close>

fun dict_set :: "'k \<Rightarrow> 'w \<Rightarrow> ('k \<times> 'w) list \<Rightarrow> ('k \<times> 'w) list" where
  "dict_set k v [] = [(k, v)]"
| "dict_set k v ((k', v') # kvs) = (if k' = k then (k, v) # kvs else (k', v') # dict_set k v kvs)"

definition set_records ::
    "dns_config \<Rightarrow> nat \<Rightarrow> string \<Rightarrow> record_type \<Rightarrow> string list \<Rightarrow> int \<Rightarrow> dns_state \<Rightarrow> unit result \<times> dns_state" where
  "set_records cf now name ty vals ttl st =
     (let rrset = map (\<lambda>v. \<lparr>dr_name = name, dr_type = ty, dr_ttl = ttl, dr_data = v\<rparr>) vals
      in if map_of (dz_records st) (name, ty) = Some rrset then (Inr (), st)
         else write_config cf now (st\<lparr>dz_records := dict_set (name, ty) rrset (dz_records st)\<rparr>))"

definition delete_records :: "dns_config \<Rightarrow> nat \<Rightarrow> string \<Rightarrow> record_type \<Rightarrow> dns_state \<Rightarrow> unit result \<times> dns_state" where
  "delete_records cf now name ty st =
     (if map_of (dz_records st) (name, ty) = None then (Inr (), st)
      else write_config cf now (st\<lparr>dz_records := filter (\<lambda>(k, v). k \<noteq> (name, ty)) (dz_records st)\<rparr>))"

definition ROUTER_ADDRESS_NAMES :: "string list" where
  "ROUTER_ADDRESS_NAMES = [APEX, ''ns'', ''*'']"

fun publish_names :: "dns_config \<Rightarrow> nat \<Rightarrow> string \<Rightarrow> string list \<Rightarrow> dns_state \<Rightarrow> unit result \<times> dns_state" where
  "publish_names cf now ip [] st = (Inr (), st)"
| "publish_names cf now ip (n # ns) st =
     (case set_records cf now n A_record [ip] ADDRESS_TTL_SECONDS st of
        (Inl e, st') \<Rightarrow> (Inl e, st')
      | (Inr u, st') \<Rightarrow> publish_names cf now ip ns st')"

definition publish_router_addresses :: "dns_config \<Rightarrow> nat \<Rightarrow> string \<Rightarrow> dns_state \<Rightarrow> unit result \<times> dns_state" where
  "publish_router_addresses cf now ip st = publish_names cf now ip ROUTER_ADDRESS_NAMES st"

section \<open>Serials\<close>

text \<open>RFC 1982: \<open>b\<close> is newer than \<open>a\<close> when it lies in the half circle ahead of it.\<close>

definition serial_newer :: "32 word \<Rightarrow> 32 word \<Rightarrow> bool" where
  "serial_newer a b = (0 < unat (b - a) \<and> unat (b - a) < 2 ^ 31)"

text \<open>C40: Every write of the zone files gets a serial that secondaries and CoreDNS take for newer, however many writes
  share a second and also when the serial wraps, as long as the clock fits 32 bits and is less than half the circle
  (68 years) ahead of the last serial.\<close>

theorem next_serial_newer:
  assumes "now < 2 ^ 32" and "now < unat serial + 2 ^ 31"
  shows "serial_newer serial (next_serial now serial)"
proof -
  let ?m = "max (unat serial + 1) now"
  have eq: "next_serial now serial - serial = word_of_nat (?m - unat serial)"
    by (simp add: next_serial_def of_nat_diff max_def)
  have "0 < ?m - unat serial" and lt: "?m - unat serial < 2 ^ 31"
    using assms(2) by auto
  moreover have "unat (word_of_nat (?m - unat serial) :: 32 word) = ?m - unat serial"
    unfolding unat_of_nat by (rule mod_less) (use lt in simp)
  ultimately show ?thesis
    unfolding serial_newer_def eq by simp
qed

theorem next_serial_newer_witness: "serial_newer (- 1 :: 32 word) (next_serial 1700000000 (- 1))"
  by (rule next_serial_newer) simp_all

text \<open>From 2106 on the clock no longer fits, and two writes in the same second get the same serial.\<close>

lemma serial_stuck_after_2106:
  "next_serial (2 ^ 32 + 5) (next_serial (2 ^ 32 + 5) 0) = next_serial (2 ^ 32 + 5) 0"
  by (simp add: next_serial_def)

section \<open>Text records\<close>

text \<open>How a zone file is read back: a backslash stands for the character after it, an unescaped quote ends the string.\<close>

fun read_quoted :: "string \<Rightarrow> string option" where
  "read_quoted [] = None"
| "read_quoted [c] = (if c = dquote then Some [] else None)"
| "read_quoted (c # d # s) =
     (if c = dquote then None
      else if c = backslash then map_option ((#) d) (read_quoted s)
      else map_option ((#) c) (read_quoted (d # s)))"

definition escaped :: "string \<Rightarrow> string" where
  "escaped s = concat (map (\<lambda>c. if c = backslash \<or> c = dquote then [backslash, c] else [c]) s)"

lemma contains_char: "contains [c] s \<longleftrightarrow> c \<in> set s"
  by (induction s) auto

lemma replace_fuel_char: "length s \<le> n \<Longrightarrow> replace_fuel n [c] t s = concat (map (\<lambda>d. if d = c then t else [d]) s)"
proof (induction n arbitrary: s)
  case (Suc n)
  show ?case
  proof (cases "c \<in> set s")
    case False
    then have "cut_first [c] s = None" "concat (map (\<lambda>d. if d = c then t else [d]) s) = s"
      by (simp_all add: cut_first_None contains_char) (induction s; auto)
    then show ?thesis by simp
  next
    case True
    then obtain a b where s: "s = a @ c # b" "c \<notin> set a"
      by (metis split_list_first)
    have cut: "cut_first [c] (a @ c # b) = Some (a, b)"
      using s(2) by (induction a) auto
    have a: "concat (map (\<lambda>d. if d = c then t else [d]) a) = a"
      using s(2) by (induction a) auto
    have "length b \<le> n"
      using Suc.prems s by simp
    from Suc.IH [OF this] show ?thesis
      by (simp add: s(1) cut a)
  qed
qed simp

lemma escape_steps: "replace_all [dquote] [backslash, dquote] (replace_all [backslash] [backslash, backslash] s) = escaped s"
  by (simp add: replace_all_def replace_fuel_char escaped_def) (induction s; simp add: backslash_def dquote_def)

lemma read_quoted_escaped: "read_quoted (escaped s @ [dquote]) = Some s"
proof (induction s)
  case (Cons c s)
  obtain d t where dt: "escaped s @ [dquote] = d # t"
    by (cases "escaped s @ [dquote]") auto
  have "escaped (c # s) @ [dquote] = (if c = backslash \<or> c = dquote then backslash # c # d # t else c # d # t)"
    using dt by (simp add: escaped_def)
  with Cons dt show ?case
    by (auto simp: backslash_def dquote_def)
qed (simp add: escaped_def)

text \<open>Whatever the value of a TXT record, a zone-file reader gets exactly that value back from the quoted string
  the record is rendered as: quotes and backslashes are escaped once, and no value closes the string early.\<close>

theorem txt_record_roundtrip:
  assumes "dr_type r = TXT_record"
  shows "\<exists>body. rdata r = dquote # body \<and> read_quoted body = Some (dr_data r)"
  using assms by (simp add: rdata_def escape_steps read_quoted_escaped)

section \<open>Zones, files and process over any sequence of operations\<close>

datatype dns_op =
    AddZone string | RemoveZone string | SetRecords string record_type "string list" int | DeleteRecords string record_type
  | PublishAddress string

fun dns_step :: "dns_config \<Rightarrow> nat \<times> dns_op \<Rightarrow> dns_state \<Rightarrow> dns_state" where
  "dns_step cf (now, AddZone z) st = snd (add_zone cf now z st)"
| "dns_step cf (now, RemoveZone z) st = snd (remove_zone cf now z st)"
| "dns_step cf (now, SetRecords n ty vals ttl) st = snd (set_records cf now n ty vals ttl st)"
| "dns_step cf (now, DeleteRecords n ty) st = snd (delete_records cf now n ty st)"
| "dns_step cf (now, PublishAddress ip) st = snd (publish_router_addresses cf now ip st)"

text \<open>A host bound for public DNS whose CoreDNS starts, and whose Corefile is not named like a zone file.\<close>

definition dns_ready :: "dns_config \<Rightarrow> bool" where
  "dns_ready cf =
     (dc_bind_ip cf \<noteq> None \<and> dc_start cf = Inr () \<and> (\<exists>txt. dc_resolv_conf cf = Inr txt) \<and>
      \<not> endswith (dc_corefile cf) ''.zone'' \<and> \<not> endswith (dc_corefile cf) ''.container'')"

definition zone_file_current :: "dns_config \<Rightarrow> dns_state \<Rightarrow> string \<Rightarrow> bool" where
  "zone_file_current cf st z =
     (\<exists>z' \<in> set (dz_zones st). zonefile_path (dc_zones_dir cf) z' = zonefile_path (dc_zones_dir cf) z \<and>
        dz_files st (zonefile_path (dc_zones_dir cf) z) = Some (ZoneFile z' (unat (dz_serial st)) ADDRESS_TTL_SECONDS (all_records st)))"

definition corefile_current :: "dns_config \<Rightarrow> dns_state \<Rightarrow> bool" where
  "corefile_current cf st =
     (\<exists>upstream. dz_files st (dc_corefile cf) =
        Some (Corefile (map (\<lambda>z. (z, zonefile_path (dc_zones_dir cf) z, container_zonefile_path (dc_zones_dir cf) z)) (dz_zones st))
          (dc_bind_ip cf) (dc_gateway cf) upstream))"

definition dns_ok :: "dns_config \<Rightarrow> dns_state \<Rightarrow> bool" where
  "dns_ok cf st =
     (distinct (dz_zones st) \<and>
      dz_process st = (if dz_zones st = [] then NoProcess else Serving (dz_zones st)) \<and>
      (dz_zones st \<noteq> [] \<longrightarrow> corefile_current cf st) \<and>
      list_all (zone_file_current cf st) (dz_zones st))"

lemma fold_write_other: "q \<notin> p ` set zs \<Longrightarrow> fold (\<lambda>z fs. fs(p z \<mapsto> F z)) zs f q = f q"
  by (induction zs arbitrary: f) auto

lemma fold_write_hit:
  "q \<in> p ` set zs \<Longrightarrow> \<exists>z \<in> set zs. p z = q \<and> fold (\<lambda>z fs. fs(p z \<mapsto> F z)) zs f q = Some (F z)"
proof (induction zs arbitrary: f)
  case (Cons y ys)
  show ?case
  proof (cases "q \<in> p ` set ys")
    case True
    from Cons.IH [OF this] show ?thesis by auto
  next
    case False
    with Cons.prems have "q = p y" by auto
    then have "fold (\<lambda>z fs. fs(p z \<mapsto> F z)) (y # ys) f q = Some (F y)"
      unfolding fold_Cons comp_def by (subst fold_write_other [OF False]) simp
    with \<open>q = p y\<close> show ?thesis
      by (metis list.set_intros(1))
  qed
qed simp

lemma zone_paths_differ:
  "endswith (zonefile_path dir z) ''.zone''" "endswith (container_zonefile_path dir z) ''.container''"
  by (auto simp: zonefile_path_def container_zonefile_path_def path_join_def endswith_def suffix_def)

lemma not_zone_path:
  "\<not> endswith q ''.zone'' \<Longrightarrow> q \<notin> zonefile_path dir ` A"
  "\<not> endswith q ''.container'' \<Longrightarrow> q \<notin> container_zonefile_path dir ` A"
  using zone_paths_differ by auto

lemma container_not_public: "\<not> endswith (zonefile_path dir z) ''.container''"
proof
  assume "endswith (zonefile_path dir z) ''.container''"
  then obtain u where "zonefile_path dir z = u @ ''.container''"
    by (auto simp: endswith_def suffix_def)
  moreover obtain v where "zonefile_path dir z = v @ ''.zone''"
    using zone_paths_differ(1) by (auto simp: endswith_def suffix_def)
  ultimately have "last (u @ ''.container'') = last (v @ ''.zone'')"
    by metis
  then show False by simp
qed

text \<open>Every rendering leaves the Corefile and the zone files of the zones and records it was given.\<close>

lemma rendered_current:
  assumes ready: "dns_ready cf"
  shows "\<exists>st'. write_config cf now st = (Inr (), st') \<and> dz_zones st' = dz_zones st \<and> dz_records st' = dz_records st \<and>
    dz_process st' = dz_process st \<and> corefile_current cf st' \<and> list_all (zone_file_current cf st') (dz_zones st')"
proof -
  obtain content where content: "dc_resolv_conf cf = Inr content" and "dc_bind_ip cf \<noteq> None"
    and c1: "\<not> endswith (dc_corefile cf) ''.zone''" and c2: "\<not> endswith (dc_corefile cf) ''.container''"
    using ready by (auto simp: dns_ready_def)
  then obtain ip where ip: "dc_bind_ip cf = Some ip" by auto
  obtain up where up: "host_upstream_resolvers (dc_gateway cf) (dc_resolv_conf cf) = Inr up"
    using content by (simp add: host_upstream_resolvers_def Let_def)
  define dir where "dir = dc_zones_dir cf"
  define F where "F = (\<lambda>z. ZoneFile z (unat (next_serial now (dz_serial st))) ADDRESS_TTL_SECONDS (all_records st))"
  define entries where "entries = map (\<lambda>z. (z, zonefile_path dir z, container_zonefile_path dir z)) (dz_zones st)"
  define f1 where "f1 = (dz_files st)(dc_corefile cf \<mapsto> Corefile entries (dc_bind_ip cf) (dc_gateway cf) up)"
  define f2 where "f2 = fold (\<lambda>z fs. fs(zonefile_path dir z \<mapsto> F z)) (dz_zones st) f1"
  define f3 where "f3 = (case dc_gateway cf of None \<Rightarrow> f2 | Some gw \<Rightarrow> if gw = [] then f2
     else fold (\<lambda>z fs. fs(container_zonefile_path dir z \<mapsto> ContainerZoneFile z gw (unat (next_serial now (dz_serial st))))) (dz_zones st) f2)"
  have same: "f3 q = f2 q" if "\<not> endswith q ''.container''" for q
    unfolding f3_def by (auto split: option.splits intro!: fold_write_other not_zone_path(2) that)
  have core: "f3 (dc_corefile cf) = Some (Corefile entries (dc_bind_ip cf) (dc_gateway cf) up)"
    unfolding same [OF c2] f2_def by (subst fold_write_other [OF not_zone_path(1) [OF c1]]) (simp add: f1_def)
  have zone: "\<exists>z' \<in> set (dz_zones st). zonefile_path dir z' = zonefile_path dir z \<and> f3 (zonefile_path dir z) = Some (F z')"
    if "z \<in> set (dz_zones st)" for z
    unfolding same [OF container_not_public] f2_def by (rule fold_write_hit) (use that in blast)
  let ?st = "st\<lparr>dz_serial := next_serial now (dz_serial st), dz_files := f3\<rparr>"
  have "write_config cf now st = (Inr (), ?st)"
    using ip up by (cases "dc_gateway cf")
      (simp_all add: write_config_def write_coredns_config_def Let_def f3_def f2_def f1_def F_def dir_def entries_def all_records_def)
  moreover have "corefile_current cf ?st"
    using core by (simp add: corefile_current_def entries_def dir_def)
  moreover have "list_all (zone_file_current cf ?st) (dz_zones ?st)"
    using zone by (simp add: list_all_iff zone_file_current_def F_def dir_def all_records_def)
  ultimately show ?thesis by (intro exI [of _ ?st]) simp
qed

lemma write_keeps:
  assumes "dns_ready cf" and "dns_ok cf st" and "dz_zones st' = dz_zones st" and "dz_process st' = dz_process st"
  shows "dns_ok cf (snd (write_config cf now st')) \<and> fst (write_config cf now st') = Inr ()"
proof -
  obtain st'' where "write_config cf now st' = (Inr (), st'')" "dz_zones st'' = dz_zones st'"
    "dz_process st'' = dz_process st'" "corefile_current cf st''" "list_all (zone_file_current cf st'') (dz_zones st'')"
    using rendered_current [OF assms(1)] by blast
  with assms show ?thesis by (simp add: dns_ok_def)
qed

lemma apply_keeps:
  assumes ready: "dns_ready cf" and "distinct zones"
  shows "dns_ok cf (snd (apply_zones cf now zones st))"
proof -
  let ?st = "st\<lparr>dz_zones := zones, dz_files := fold (discard_zone_files (dc_zones_dir cf)) (filter (\<lambda>z. z \<notin> set zones) (dz_zones st)) (dz_files st)\<rparr>"
  obtain st' where st': "write_config cf now ?st = (Inr (), st')" "dz_zones st' = zones"
    "corefile_current cf st'" "list_all (zone_file_current cf st') zones"
    using rendered_current [OF ready, of now ?st] by auto
  have cong: "corefile_current cf (st'\<lparr>dz_process := p\<rparr>) = corefile_current cf st'"
    "zone_file_current cf (st'\<lparr>dz_process := p\<rparr>) = zone_file_current cf st'" for p
    by (simp_all add: corefile_current_def zone_file_current_def all_records_def fun_eq_iff)
  have "dc_start cf = Inr ()"
    using ready by (simp add: dns_ready_def)
  with st' assms(2) show ?thesis
    by (simp add: apply_zones_def Let_def match_process_to_zones_def cleanup_def dns_ok_def cong)
qed

lemma set_records_keeps:
  "dns_ready cf \<Longrightarrow> dns_ok cf st \<Longrightarrow>
     dns_ok cf (snd (set_records cf now n ty vals ttl st)) \<and> fst (set_records cf now n ty vals ttl st) = Inr ()"
  using write_keeps by (simp add: set_records_def Let_def)

lemma publish_keeps: "dns_ready cf \<Longrightarrow> dns_ok cf st \<Longrightarrow> dns_ok cf (snd (publish_names cf now ip ns st))"
proof (induction ns arbitrary: st)
  case (Cons n ns)
  from set_records_keeps [OF Cons.prems, of now n A_record "[ip]" ADDRESS_TTL_SECONDS] Cons show ?case
    by (cases "set_records cf now n A_record [ip] ADDRESS_TTL_SECONDS st") simp
qed simp

lemma dns_step_ok:
  assumes "dns_ready cf" and "dns_ok cf st"
  shows "dns_ok cf (dns_step cf op st)"
proof (cases op)
  case (Pair now chg)
  show ?thesis
  proof (cases chg)
    case (AddZone z)
    have "distinct (dz_zones st)" using assms(2) by (simp add: dns_ok_def)
    with Pair AddZone assms show ?thesis
      by (simp add: add_zone_def apply_keeps)
  next
    case (RemoveZone z)
    have "distinct (dz_zones st)" using assms(2) by (simp add: dns_ok_def)
    with Pair RemoveZone assms show ?thesis
      by (simp add: remove_zone_def apply_keeps)
  next
    case (SetRecords n ty vals ttl)
    with Pair assms show ?thesis by (simp add: set_records_keeps)
  next
    case (DeleteRecords n ty)
    with Pair assms write_keeps show ?thesis by (simp add: delete_records_def)
  next
    case (PublishAddress ip)
    with Pair assms show ?thesis by (simp add: publish_router_addresses_def publish_keeps)
  qed
qed

interpretation dns_ops: invariant_ops "dns_step cf" "\<lambda>st. dns_ready cf \<longrightarrow> dns_ok cf st" for cf
  by unfold_locales (simp add: dns_step_ok)

text \<open>C38: On a host bound for public DNS whose CoreDNS starts, any sequence of zone and record changes from an empty
  provider leaves no zone twice, CoreDNS running exactly on the current zones (and not at all without one), the Corefile
  rendered for exactly those zones, and each zone's file holding all current records under the current serial.\<close>

theorem dns_stays_in_step:
  assumes "dns_ready cf"
  shows "dns_ok cf (fold (dns_step cf) ops (new_provider []))"
proof -
  have "dns_ok cf (new_provider [])"
    by (simp add: dns_ok_def new_provider_def)
  with dns_ops.run_inv [of cf "new_provider []" ops] assms show ?thesis by simp
qed

definition example_dns :: dns_config where
  "example_dns = \<lparr>dc_corefile = ''/d/Corefile'', dc_zones_dir = ''/d/zones'', dc_bind_ip = Some ''10.0.0.5'',
     dc_gateway = Some ''10.88.0.1'', dc_resolv_conf = Inr ''nameserver 127.0.0.53'', dc_start = Inr ()\<rparr>"

theorem dns_stays_in_step_witness:
  "dns_ok example_dns (fold (dns_step example_dns)
     [(5, PublishAddress ''1.2.3.4''), (6, AddZone ''Example.com.''), (6, AddZone ''b.org''), (7, RemoveZone ''example.com'')]
     (new_provider []))"
  by (rule dns_stays_in_step) (simp add: dns_ready_def example_dns_def endswith_def suffix_def)

text \<open>The suffix for mDNS names is compared with a dot in front of its own, so no \<open>.local\<close> name is local only.\<close>

lemma local_names_are_zones: "\<not> is_local_only ''box.local''" "is_local_only ''.local''" "is_local_only ''a.lvh.me''"
  by (simp_all add: is_local_only_def LOCAL_ONLY_SUFFIXES_def endswith_def suffix_def)

theorem txt_record_roundtrip_witness:
  "\<exists>body. rdata \<lparr>dr_name = ''_acme-challenge'', dr_type = TXT_record, dr_ttl = 60, dr_data = ''a'' @ [dquote, backslash] @ ''b;c''\<rparr>
     = dquote # body \<and> read_quoted body = Some (''a'' @ [dquote, backslash] @ ''b;c'')"
  using txt_record_roundtrip [of "\<lparr>dr_name = ''_acme-challenge'', dr_type = TXT_record, dr_ttl = 60, dr_data = ''a'' @ [dquote, backslash] @ ''b;c''\<rparr>"]
  by simp

end
