(* ===== verification/Caddy.thy ===== *)
theory Caddy
  imports Domains Manifest Regex
begin

text \<open>
  \<open>core/caddy.py\<close> and the certificate paths of \<open>config.py\<close>: the Caddyfile of the domain set, one site block per domain,
  with the certificate pair of a TLS domain when both files exist.  Starting and reloading the Caddy process is not
  modelled beyond the configuration it was last given.
\<close>

section \<open>Certificate paths\<close>

definition is_alnum_lower :: "char \<Rightarrow> bool" where
  "is_alnum_lower c = (is_lower_alpha c \<or> is_digit c)"

definition DOMAIN_LABEL :: rx where
  "DOMAIN_LABEL = Seq (Sym is_alnum_lower)
     (Alt Eps (Seq (Star (Sym (\<lambda>c. is_alnum_lower c \<or> c = CHR ''-''))) (Sym is_alnum_lower)))"

definition DOTTED_LABEL :: rx where
  "DOTTED_LABEL = Seq (Sym (\<lambda>c. c = CHR ''.'')) DOMAIN_LABEL"

definition CERT_DOMAIN_RE :: rx where
  "CERT_DOMAIN_RE = Seq DOMAIN_LABEL (Seq DOTTED_LABEL (Star DOTTED_LABEL))"

definition normalized_cert_domain :: "string \<Rightarrow> string result" where
  "normalized_cert_domain domain_name =
     (let name = lower (before CHR '':'' (strip domain_name))
      in if rx_matches CERT_DOMAIN_RE name then Inr name
         else Inl (Exn ValueError (''invalid certificate domain: '' @ squote domain_name)))"

definition cert_key_paths_for :: "string \<Rightarrow> string \<Rightarrow> (string \<times> string) result" where
  "cert_key_paths_for certs_dir domain_name =
     rbind (normalized_cert_domain domain_name) (\<lambda>n.
       Inr (path_join certs_dir (n @ ''.pem''), path_join certs_dir (n @ ''.key'')))"

section \<open>The Caddyfile\<close>

definition text_lines :: "string list \<Rightarrow> string" where
  "text_lines ls = concat (map (\<lambda>l. l @ [newline]) ls)"

definition reverse_proxy :: "int \<Rightarrow> string list" where
  "reverse_proxy web_server_port =
     [''    reverse_proxy localhost:'' @ show_int web_server_port @ '' {'',
      ''        lb_try_duration 10s'',
      ''        lb_try_interval 250ms'',
      ''    }'']"

definition REDIRECT_BLOCK :: string where
  "REDIRECT_BLOCK = ''    redir https://{host}{uri} permanent''"

definition tls_domain_blocks :: "string \<Rightarrow> string \<Rightarrow> int \<Rightarrow> string list" where
  "tls_domain_blocks name tls_directive web_server_port =
     [''https://'' @ name @ '', https://*.'' @ name @ '' {'', ''    '' @ tls_directive, ''    encode gzip zstd'']
     @ reverse_proxy web_server_port
     @ [''}'', ''http://'' @ name @ '', http://*.'' @ name @ '' {'', REDIRECT_BLOCK, ''}'']"

definition http_domain_block :: "string \<Rightarrow> int \<Rightarrow> string list" where
  "http_domain_block name web_server_port =
     [''http://'' @ name @ '', http://*.'' @ name @ '' {'', ''    encode gzip zstd''] @ reverse_proxy web_server_port @ [''}'']"

definition config_cert_resolver :: "string \<Rightarrow> (string \<rightharpoonup> string) \<Rightarrow> string \<Rightarrow> (string \<times> string) option result" where
  "config_cert_resolver certs_dir files name =
     rbind (cert_key_paths_for certs_dir name) (\<lambda>(cert_path, key_path).
       Inr (if files cert_path \<noteq> None \<and> files key_path \<noteq> None then Some (cert_path, key_path) else None))"

definition domain_block :: "int \<Rightarrow> (string \<Rightarrow> (string \<times> string) option result) \<Rightarrow> domain \<Rightarrow> string list result" where
  "domain_block web_server_port resolve d =
     (let name = name_no_port d
      in if \<not> dom_tls d then Inr (http_domain_block name web_server_port)
         else rbind (resolve name) (\<lambda>paths.
           Inr (tls_domain_blocks name
             (case paths of Some (cert, key) \<Rightarrow> ''tls '' @ cert @ '' '' @ key | None \<Rightarrow> ''tls internal'') web_server_port)))"

definition global_block :: "domain list \<Rightarrow> string option \<Rightarrow> string list" where
  "global_block domains admin_addr =
     [''{'',
      ''    auto_https '' @ (if list_ex dom_tls domains then ''disable_redirects'' else ''off''),
      ''    admin '' @ (if str_truthy admin_addr then the admin_addr else ''off''),
      ''    servers {'',
      ''        protocols h1 h2'',
      ''    }'',
      ''}'']"

definition generate_caddyfile ::
    "domain list \<Rightarrow> int \<Rightarrow> (string \<Rightarrow> (string \<times> string) option result) \<Rightarrow> string option \<Rightarrow> string result" where
  "generate_caddyfile domains web_server_port resolve admin_addr =
     rbind (rmap (domain_block web_server_port resolve) domains) (\<lambda>blocks.
       Inr (text_lines (global_block domains admin_addr @ concat blocks)))"

definition unix_admin_address :: "string \<Rightarrow> string" where
  "unix_admin_address socket_path = ''unix/'' @ socket_path"

section \<open>Names\<close>

lemma strip_no_space: "strip s \<noteq> [] \<Longrightarrow> \<not> is_space (last (strip s))"
proof -
  let ?t = "rev (dropWhile is_space s)"
  assume "strip s \<noteq> []"
  then have ne: "dropWhile is_space ?t \<noteq> []"
    by (simp add: strip_def rstrip_if_def)
  then have "\<not> is_space (hd (dropWhile is_space ?t))"
    by (rule hd_dropWhile)
  with ne show ?thesis
    by (simp add: strip_def rstrip_if_def last_rev)
qed

text \<open>The label pattern: lower-case letters, digits and inner hyphens.\<close>

definition domain_char :: "char \<Rightarrow> bool" where
  "domain_char c = (is_alnum_lower c \<or> c = CHR ''-'' \<or> c = CHR ''.'')"

lemma domain_chars:
  assumes "lang CERT_DOMAIN_RE s" and "c \<in> set s"
  shows "domain_char c"
proof -
  have label: "lang DOMAIN_LABEL u \<Longrightarrow> c \<in> set u \<Longrightarrow> domain_char c" for u c
    unfolding DOMAIN_LABEL_def lang.simps(1-4) lang_star_sym domain_char_def by auto
  have dotted: "lang DOTTED_LABEL u \<Longrightarrow> c \<in> set u \<Longrightarrow> domain_char c" for u c
  proof -
    have "domain_char CHR ''.''" by (simp add: domain_char_def)
    moreover assume "lang DOTTED_LABEL u" "c \<in> set u"
    ultimately show "domain_char c"
      unfolding DOTTED_LABEL_def lang.simps(2,3) using label by auto
  qed
  have star: "in_star (lang DOTTED_LABEL) u \<Longrightarrow> c \<in> set u \<Longrightarrow> domain_char c" for u c
    by (induction rule: in_star.induct) (use dotted in auto)
  show ?thesis
    using assms label dotted star unfolding CERT_DOMAIN_RE_def lang.simps(3,5) by auto
qed

lemma text_lines_append [simp]: "text_lines (xs @ ys) = text_lines xs @ text_lines ys"
  by (simp add: text_lines_def)

lemma text_lines_concat: "text_lines (concat xss) = concat (map text_lines xss)"
  by (induction xss) (simp_all add: text_lines_def)

lemma split_concat: "x \<in> set xs \<Longrightarrow> \<exists>pre post. concat (map f xs) = pre @ f x @ post"
  by (metis concat.simps(2) concat_append list.simps(9) map_append split_list)

text \<open>The Caddyfile has the block of every domain: plain HTTP without a redirect for one without TLS, and for one with TLS
  its own certificate exactly if both files of the pair exist.\<close>

theorem caddyfile_blocks:
  assumes "generate_caddyfile domains port (config_cert_resolver certs_dir files) admin = Inr content" and "d \<in> set domains"
  shows "\<exists>pre block post. content = pre @ text_lines block @ post
    \<and> (\<not> dom_tls d \<longrightarrow> block = http_domain_block (name_no_port d) port)
    \<and> (dom_tls d \<longrightarrow> (\<exists>cert key. cert_key_paths_for certs_dir (name_no_port d) = Inr (cert, key)
         \<and> block = tls_domain_blocks (name_no_port d)
              (if files cert \<noteq> None \<and> files key \<noteq> None then ''tls '' @ cert @ '' '' @ key else ''tls internal'') port))"
proof -
  let ?b = "domain_block port (config_cert_resolver certs_dir files)"
  obtain blocks where blocks: "rmap ?b domains = Inr blocks"
    and content: "content = text_lines (global_block domains admin) @ concat (map text_lines blocks)"
    using assms(1) by (auto simp: generate_caddyfile_def text_lines_concat)
  obtain i where i: "i < length domains" "d = domains ! i"
    using assms(2) by (auto simp: in_set_conv_nth)
  obtain block where block: "?b d = Inr block" "block \<in> set blocks"
  proof
    from rmap_Inr_all2 [OF blocks] i show "?b d = Inr (blocks ! i)" "blocks ! i \<in> set blocks"
      by (simp_all add: list_all2_conv_all_nth)
  qed
  obtain pre post where "concat (map text_lines blocks) = pre @ text_lines block @ post"
    using split_concat [OF block(2), of text_lines] by blast
  then have at_block: "content = (text_lines (global_block domains admin) @ pre) @ text_lines block @ post"
    by (simp add: content)
  show ?thesis
  proof (rule exI [of _ "text_lines (global_block domains admin) @ pre"], rule exI [of _ block], rule exI [of _ post], intro conjI impI)
    show "content = (text_lines (global_block domains admin) @ pre) @ text_lines block @ post"
      by (rule at_block)
    show "block = http_domain_block (name_no_port d) port" if "\<not> dom_tls d"
      using block(1) that by (simp add: domain_block_def Let_def)
    show "\<exists>cert key. cert_key_paths_for certs_dir (name_no_port d) = Inr (cert, key)
         \<and> block = tls_domain_blocks (name_no_port d)
              (if files cert \<noteq> None \<and> files key \<noteq> None then ''tls '' @ cert @ '' '' @ key else ''tls internal'') port" if tls: "dom_tls d"
    proof -
      obtain cert key where "cert_key_paths_for certs_dir (name_no_port d) = Inr (cert, key)"
        using block(1) tls by (auto simp: domain_block_def Let_def config_cert_resolver_def)
      with block(1) tls show ?thesis
        by (intro exI [of _ cert] exI [of _ key]) (auto simp: domain_block_def Let_def config_cert_resolver_def)
    qed
  qed
qed

end
