(* ===== verification/Tls.thy ===== *)
theory Tls
  imports Dns Caddy
begin

text \<open>
  \<open>core/tls\<close>: where the certificate of a domain lies on disk and what state it is in, and how one is acquired, from an
  ACME server or from the certificate broker, with the DNS-01 challenge published through the instance's own DNS.  The
  ACME client library, the broker's answers, X.509 parsing and key generation are parameters; times are seconds.
\<close>

section \<open>Certificates on disk\<close>

datatype cert_state = Missing | Expired | ExpiringSoon | CertOk

definition RENEW_BEFORE :: int where
  "RENEW_BEFORE = 7 * 86400"

text \<open>\<open>expiry\<close> is the end of validity of a PEM certificate, an exception for what does not parse.\<close>

definition get_cert_status ::
    "(string \<Rightarrow> int result) \<Rightarrow> int \<Rightarrow> (string \<rightharpoonup> string) \<Rightarrow> string \<times> string \<Rightarrow> cert_state result" where
  "get_cert_status expiry now files paths =
     (case (files (fst paths), files (snd paths)) of
        (Some pem, Some key) \<Rightarrow>
          (case expiry pem of
             Inl e \<Rightarrow> if is_value_error e then Inr Expired else Inl e
           | Inr expires_at \<Rightarrow>
               Inr (if expires_at \<le> now then Expired else if expires_at \<le> now + RENEW_BEFORE then ExpiringSoon else CertOk))
      | _ \<Rightarrow> Inr Missing)"

section \<open>Challenges\<close>

definition CHALLENGE_TTL_SECONDS :: int where
  "CHALLENGE_TTL_SECONDS = 60"

definition CHALLENGE_LABEL :: string where
  "CHALLENGE_LABEL = ''_acme-challenge''"

definition challenge_fqdn :: "string \<Rightarrow> string" where
  "challenge_fqdn domain_name = CHALLENGE_LABEL @ ''.'' @ removeprefix ''*.'' domain_name"

definition publish_challenge :: "dns_config \<Rightarrow> nat \<Rightarrow> string list \<Rightarrow> dns_state \<Rightarrow> unit result \<times> dns_state" where
  "publish_challenge cf now vals st = set_records cf now CHALLENGE_LABEL TXT_record vals CHALLENGE_TTL_SECONDS st"

definition clear_challenge :: "dns_config \<Rightarrow> nat \<Rightarrow> dns_state \<Rightarrow> unit result \<times> dns_state" where
  "clear_challenge cf now st = delete_records cf now CHALLENGE_LABEL TXT_record st"

section \<open>The broker\<close>

text \<open>
  A client answers the \<open>n\<close>-th finalize request with the status and certificate, after some time, and a sleep of at
  least the seconds asked for takes some time.  The token of a request comes from the token provider below.
\<close>

record broker =
  bk_order :: "string list \<Rightarrow> (string \<times> (string \<times> string) list) result"
  bk_finalize :: "nat \<Rightarrow> (string \<times> string option) result"
  bk_took :: "nat \<Rightarrow> rat"
  bk_slept :: "nat \<Rightarrow> rat \<Rightarrow> rat"

definition unexpected_names :: "string \<Rightarrow> (string \<times> string) list \<Rightarrow> string list" where
  "unexpected_names domain_name challenges =
     filter (\<lambda>n. lower (rstrip_if (\<lambda>c. c = CHR ''.'') n) \<noteq> lower (challenge_fqdn domain_name)) (map fst challenges)"

definition check_challenge_names :: "string \<Rightarrow> (string \<times> string) list \<Rightarrow> unit result" where
  "check_challenge_names domain_name challenges =
     (if unexpected_names domain_name challenges = [] then Inr ()
      else Inl (Exn RuntimeError (''Broker asked for DNS-01 record(s) at '' @ join '', '' (map squote (unexpected_names domain_name challenges))
             @ '', but this instance can only serve '' @ lower (challenge_fqdn domain_name))))"

definition poll_timed_out :: "string \<Rightarrow> exn" where
  "poll_timed_out order_id = Exn RuntimeError (''Broker did not issue cert for order '' @ order_id @ '' within 600.0s'')"

text \<open>The loop of \<open>_poll_until_issued\<close> at time \<open>t\<close>, \<open>n\<close> requests made.  No value: it never returns.\<close>

partial_function (option) poll_loop :: "broker \<Rightarrow> string \<Rightarrow> rat \<Rightarrow> rat \<Rightarrow> rat \<Rightarrow> nat \<Rightarrow> rat \<Rightarrow> rat \<Rightarrow> string result option" where
  "poll_loop B order_id factor max_interval deadline n interval t =
     (if t < deadline then
        (case bk_finalize B n of
           Inl e \<Rightarrow> Some (Inl e)
         | Inr (status, cert) \<Rightarrow>
             if status = ''valid'' then
               Some (case cert of
                 Some c \<Rightarrow> if c = [] then Inl (Exn RuntimeError (''Broker reported order '' @ order_id @ '' valid but returned no certificate'')) else Inr c
               | None \<Rightarrow> Inl (Exn RuntimeError (''Broker reported order '' @ order_id @ '' valid but returned no certificate'')))
             else
               (let now = t + bk_took B n; sleep_for = min interval (deadline - now)
                in if sleep_for \<le> 0 then Some (Inl (poll_timed_out order_id))
                   else poll_loop B order_id factor max_interval deadline (n + 1) (min (interval * factor) max_interval)
                          (now + bk_slept B n sleep_for)))
      else Some (Inl (poll_timed_out order_id)))"

definition poll_until_issued :: "broker \<Rightarrow> string \<Rightarrow> rat \<Rightarrow> string result option" where
  "poll_until_issued B order_id t = poll_loop B order_id (3/2) 30 (t + 600) 0 5 t"

text \<open>Documented behaviour of the clock: requests take no negative time, a sleep lasts at least what was asked for.\<close>

definition clock_ok :: "broker \<Rightarrow> bool" where
  "clock_ok B = (\<forall>n. 0 \<le> bk_took B n \<and> (\<forall>s. s \<le> bk_slept B n s))"

lemma poll_loop_returns:
  assumes "clock_ok B" and "1 \<le> factor" and "0 < q" and "q \<le> max_interval"
  shows "q \<le> interval \<Longrightarrow> deadline - t \<le> q * of_nat k \<Longrightarrow>
    \<exists>r. poll_loop B order_id factor max_interval deadline n interval t = Some r"
proof (induction k arbitrary: n interval t)
  case 0
  then show ?case by (subst poll_loop.simps) simp
next
  case (Suc k)
  let ?now = "t + bk_took B n"
  let ?s = "min interval (deadline - ?now)"
  let ?i = "min (interval * factor) max_interval"
  have "interval \<le> interval * factor"
    using Suc.prems(1) assms(2,3) by (simp add: mult_le_cancel_left1)
  then have i: "q \<le> ?i"
    using Suc.prems(1) assms(4) by simp
  have slept: "?s \<le> bk_slept B n ?s" and took: "0 \<le> bk_took B n"
    using assms(1) by (auto simp: clock_ok_def)
  have "deadline - (?now + bk_slept B n ?s) \<le> q * of_nat k"
  proof (cases "interval \<le> deadline - ?now")
    case True
    with slept took Suc.prems show ?thesis
      by (simp add: algebra_simps)
  next
    case False
    with slept have "deadline - (?now + bk_slept B n ?s) \<le> 0" by simp
    also have "0 \<le> q * of_nat k" using assms(3) by simp
    finally show ?thesis .
  qed
  from Suc.IH [OF i this] show ?case
    by (subst poll_loop.simps) (auto simp: Let_def split: sum.splits)
qed

text \<open>Whatever the broker answers, and however slowly, the polling for a certificate ends: the interval never shrinks
  below its first value, so the ten minutes are used up after finitely many requests.\<close>

theorem poll_terminates:
  assumes "clock_ok B"
  shows "\<exists>r. poll_until_issued B order_id t = Some r"
  unfolding poll_until_issued_def
  by (rule poll_loop_returns [OF assms, where q = 5 and k = 120]) simp_all

definition slow_broker :: broker where
  "slow_broker = \<lparr>bk_order = \<lambda>_. Inr (''o1'', [(''_acme-challenge.example.com.'', ''tok'')]),
     bk_finalize = \<lambda>n. if n < 2 then Inr (''pending'', None) else Inr (''valid'', Some ''PEM''), bk_took = \<lambda>_. 1, bk_slept = \<lambda>_ s. s + 1\<rparr>"

lemma slow_broker_clock: "clock_ok slow_broker"
  by (simp add: clock_ok_def slow_broker_def)

theorem poll_terminates_witness: "\<exists>r. poll_until_issued (slow_broker\<lparr>bk_finalize := \<lambda>_. Inr (''pending'', None)\<rparr>) ''o1'' 0 = Some r"
  by (rule poll_terminates) (simp add: clock_ok_def slow_broker_def)

section \<open>Access tokens of the broker\<close>

record token_cache =
  tc_token :: "string option"
  tc_expires_at :: rat

text \<open>The answer of the token endpoint: its status and its body, an exception for one that is not JSON.\<close>

definition fetch_token :: "(pyval \<Rightarrow> rat result) \<Rightarrow> (int \<times> pyval result) result \<Rightarrow> (string \<times> rat) result" where
  "fetch_token as_float answer =
     rbind answer (\<lambda>(status, body).
       if status \<noteq> 200 then Inl (Exn RuntimeError (''Keycloak token request failed: HTTP '' @ show_int status))
       else rbind body (\<lambda>b.
         rbind (dict_get b ''access_token'' VNone) (\<lambda>token.
           case token of
             VStr t \<Rightarrow>
               if t = [] then Inl (Exn RuntimeError ''Keycloak token response missing access_token'')
               else rbind (dict_get b ''expires_in'' (VInt 300)) (\<lambda>e. rbind (as_float e) (\<lambda>r. Inr (t, r)))
           | _ \<Rightarrow> Inl (Exn RuntimeError ''Keycloak token response missing access_token''))))"

text \<open>\<open>now\<close> is the time of the call, \<open>later\<close> the time the answer has arrived.\<close>

definition get_token ::
    "(pyval \<Rightarrow> rat result) \<Rightarrow> (int \<times> pyval result) result \<Rightarrow> rat \<Rightarrow> rat \<Rightarrow> token_cache \<Rightarrow> string result \<times> token_cache" where
  "get_token as_float answer now later c =
     (if tc_token c \<noteq> None \<and> now < tc_expires_at c then (Inr (the (tc_token c)), c)
      else case fetch_token as_float answer of
        Inl e \<Rightarrow> (Inl e, c)
      | Inr (token, expires_in) \<Rightarrow> (Inr token, \<lparr>tc_token = Some token, tc_expires_at = later + max 0 (expires_in - 30)\<rparr>))"

text \<open>A cached token that is still handed out was answered with a lifetime that ends at least 30 seconds from now.\<close>

lemma cached_token_fresh:
  assumes "get_token as_float answer t0 later c0 = (Inr token, c)" and "\<not> (tc_token c0 \<noteq> None \<and> t0 < tc_expires_at c0)"
    and "now < tc_expires_at c" and "later \<le> now"
  shows "\<exists>expires_in. fetch_token as_float answer = Inr (token, expires_in) \<and> now + 30 < later + expires_in"
proof -
  from assms(1,2) obtain expires_in where "fetch_token as_float answer = Inr (token, expires_in)"
    "tc_expires_at c = later + max 0 (expires_in - 30)"
    by (auto simp: get_token_def split: sum.splits if_splits)
  with assms(3,4) show ?thesis by (intro exI [of _ expires_in]) (auto simp: max_def split: if_splits)
qed

section \<open>Settings and the instance's identity\<close>

text \<open>The \<open>settings\<close> table, and the deprecated fields of the configuration.\<close>

type_synonym settings = "string \<rightharpoonup> string"

definition get_setting :: "settings \<Rightarrow> string \<Rightarrow> string option" where
  "get_setting st key = st key"

definition set_setting :: "string \<Rightarrow> string \<Rightarrow> settings \<Rightarrow> settings" where
  "set_setting key v st = st(key \<mapsto> v)"

definition delete_setting :: "string \<Rightarrow> settings \<Rightarrow> settings" where
  "delete_setting key st = st(key := None)"

definition ISSUER_URL_KEY :: string where "ISSUER_URL_KEY = ''imbue_identity_issuer_url''"
definition CLIENT_ID_KEY :: string where "CLIENT_ID_KEY = ''imbue_identity_client_id''"
definition CLIENT_SECRET_KEY :: string where "CLIENT_SECRET_KEY = ''imbue_identity_client_secret''"
definition CONNECT_BASE_URL_KEY :: string where "CONNECT_BASE_URL_KEY = ''imbue_connect_base_url''"

record credentials =
  kc_issuer_url :: string
  kc_client_id :: string
  kc_client_secret :: string

definition token_endpoint :: "credentials \<Rightarrow> string" where
  "token_endpoint k = rstrip_if (\<lambda>c. c = CHR ''/'') (kc_issuer_url k) @ ''/protocol/openid-connect/token''"

definition or_else :: "string option \<Rightarrow> string option \<Rightarrow> string option" where
  "or_else a b = (if str_truthy a then a else b)"

definition complete_credentials :: "string option \<Rightarrow> string option \<Rightarrow> string option \<Rightarrow> credentials option" where
  "complete_credentials issuer client_id client_secret =
     (if str_truthy issuer \<and> str_truthy client_id \<and> str_truthy client_secret
      then Some \<lparr>kc_issuer_url = the issuer, kc_client_id = the client_id, kc_client_secret = the client_secret\<rparr> else None)"

definition get_instance_identity :: "settings \<Rightarrow> string option \<times> string option \<times> string option \<Rightarrow> credentials option" where
  "get_instance_identity st cfg =
     (case cfg of (cfg_issuer, cfg_id, cfg_secret) \<Rightarrow>
        complete_credentials (or_else (get_setting st ISSUER_URL_KEY) cfg_issuer)
          (or_else (get_setting st CLIENT_ID_KEY) cfg_id) (or_else (get_setting st CLIENT_SECRET_KEY) cfg_secret))"

definition get_stored_instance_identity :: "settings \<Rightarrow> credentials option" where
  "get_stored_instance_identity st =
     complete_credentials (get_setting st ISSUER_URL_KEY) (get_setting st CLIENT_ID_KEY) (get_setting st CLIENT_SECRET_KEY)"

definition set_instance_identity :: "credentials \<Rightarrow> settings \<Rightarrow> settings" where
  "set_instance_identity k st =
     set_setting CLIENT_SECRET_KEY (kc_client_secret k) (set_setting CLIENT_ID_KEY (kc_client_id k)
       (set_setting ISSUER_URL_KEY (kc_issuer_url k) st))"

definition get_connect_base_url :: "settings \<Rightarrow> string option" where
  "get_connect_base_url st = get_setting st CONNECT_BASE_URL_KEY"

lemma identity_roundtrip:
  assumes "kc_issuer_url k \<noteq> []" and "kc_client_id k \<noteq> []" and "kc_client_secret k \<noteq> []"
  shows "get_stored_instance_identity (set_instance_identity k st) = Some k \<and> get_instance_identity (set_instance_identity k st) cfg = Some k"
  using assms
  by (cases cfg) (simp add: get_stored_instance_identity_def get_instance_identity_def set_instance_identity_def set_setting_def
      get_setting_def complete_credentials_def or_else_def str_truthy_def ISSUER_URL_KEY_def CLIENT_ID_KEY_def CLIENT_SECRET_KEY_def)

end
