(* ===== verification/Certs.thy ===== *)
theory Certs
  imports Tls
begin

text \<open>
  Acquiring and renewing certificates: \<open>core/tls/acquire_cert.py\<close>, \<open>util.py\<close>, \<open>acquire_cert_broker.py\<close>, \<open>provision.py\<close>,
  \<open>domain_certs.py\<close> and \<open>renewal.py\<close>.  The state is the DNS provider, the files, the database and the configuration
  Caddy was last given.  What the ACME client and the broker answer depends on the domain asked for; acquisitions are
  serialised by the issuance lock, so each is one step.  Writing a certificate pair succeeds.
\<close>

section \<open>The ACME client\<close>

datatype acme_failure = AcmeValidation exn | AcmeOther exn

text \<open>
  One attempt: the values of the pending challenges of the order, whether answering them fails, and what polling gives:
  the chain, or nothing by the deadline.
\<close>

record acme_attempt =
  at_order :: "acme_failure + string list"
  at_answer :: "acme_failure + unit"
  at_finalize :: "acme_failure + string option"

record acme =
  am_account_key :: "unit result"
  am_account :: "unit result"
  am_attempt :: "nat \<Rightarrow> acme_attempt"

definition order_finished :: "string \<Rightarrow> acme_attempt \<Rightarrow> acme_failure + string" where
  "order_finished host a =
     (case at_finalize a of
        Inl f \<Rightarrow> Inl f
      | Inr None \<Rightarrow> Inl (AcmeOther (Exn RuntimeError (''Failed to get cert for '' @ host @ '': order not finalized'')))
      | Inr (Some pem) \<Rightarrow>
          if pem = [] then Inl (AcmeOther (Exn RuntimeError (''Failed to get cert for '' @ host @ '': order not finalized''))) else Inr pem)"

definition acme_try :: "dns_config \<Rightarrow> nat \<Rightarrow> string \<Rightarrow> acme_attempt \<Rightarrow> dns_state \<Rightarrow> (acme_failure + string) \<times> dns_state" where
  "acme_try cf now host a st =
     (case at_order a of
        Inl f \<Rightarrow> (Inl f, st)
      | Inr vals \<Rightarrow>
          if vals = [] then (order_finished host a, st)
          else case publish_challenge cf now vals st of
            (Inl e, st1) \<Rightarrow> (Inl (AcmeOther e), st1)
          | (Inr u, st1) \<Rightarrow>
              (let r = (case at_answer a of Inl f \<Rightarrow> Inl f | Inr u \<Rightarrow> order_finished host a)
               in case clear_challenge cf now st1 of
                    (Inr u, st2) \<Rightarrow> (r, st2)
                  | (Inl e, st2) \<Rightarrow> (case r of Inr pem \<Rightarrow> (Inl (AcmeOther e), st2) | Inl f \<Rightarrow> (Inl f, st2))))"

fun retryable :: "acme_failure \<Rightarrow> bool" where
  "retryable (AcmeValidation e) = True"
| "retryable (AcmeOther e) = is_runtime_error e"

fun failure_exn :: "acme_failure \<Rightarrow> exn" where
  "failure_exn (AcmeValidation e) = e"
| "failure_exn (AcmeOther e) = e"

text \<open>\<open>k\<close> attempts are left, \<open>n\<close> were made.\<close>

fun acme_loop :: "dns_config \<Rightarrow> nat \<Rightarrow> string \<Rightarrow> (nat \<Rightarrow> acme_attempt) \<Rightarrow> nat \<Rightarrow> nat \<Rightarrow> dns_state \<Rightarrow> string result \<times> dns_state" where
  "acme_loop cf now host attempt 0 n st = (Inl (Exn RuntimeError (''Failed to get cert for '' @ host)), st)"
| "acme_loop cf now host attempt (Suc k) n st =
     (case acme_try cf now host (attempt n) st of
        (Inr pem, st') \<Rightarrow> (Inr pem, st')
      | (Inl f, st') \<Rightarrow>
          if retryable f \<and> 0 < k then acme_loop cf now host attempt k (n + 1) st' else (Inl (failure_exn f), st'))"

definition acquire_cert_dns01 :: "dns_config \<Rightarrow> nat \<Rightarrow> string \<Rightarrow> acme \<Rightarrow> dns_state \<Rightarrow> string result \<times> dns_state" where
  "acquire_cert_dns01 cf now host am st =
     (case rbind (am_account_key am) (\<lambda>_. am_account am) of
        Inl e \<Rightarrow> (Inl e, st)
      | Inr u \<Rightarrow> acme_loop cf now host (am_attempt am) 3 0 st)"

section \<open>Acquisition\<close>

text \<open>
  Through the broker: publishing is before the \<open>try\<close>, removing the challenge in its \<open>finally\<close>, whose exception
  replaces the outcome.  No value: the polling does not return.
\<close>

definition acquire_via_broker :: "dns_config \<Rightarrow> nat \<Rightarrow> rat \<Rightarrow> string \<Rightarrow> broker \<Rightarrow> dns_state \<Rightarrow> (string result \<times> dns_state) option" where
  "acquire_via_broker cf now start host B st =
     (case rbind (bk_order B [host, ''*.'' @ host]) (\<lambda>(order_id, challenges).
             rbind (check_challenge_names host challenges) (\<lambda>_. Inr (order_id, map snd challenges))) of
        Inl e \<Rightarrow> Some (Inl e, st)
      | Inr (order_id, vals) \<Rightarrow>
          (case publish_challenge cf now vals st of
             (Inl e, st1) \<Rightarrow> Some (Inl e, st1)
           | (Inr u, st1) \<Rightarrow>
               (case poll_until_issued B order_id start of
                  None \<Rightarrow> None
                | Some r \<Rightarrow>
                    (case clear_challenge cf now st1 of
                       (Inl e, st2) \<Rightarrow> Some (Inl e, st2)
                     | (Inr u, st2) \<Rightarrow> Some (r, st2)))))"

datatype cert_provider = Acme | CertApi

record cert_env =
  ce_dns :: dns_config
  ce_wall :: nat
  ce_start :: rat
  ce_now :: int
  ce_certs_dir :: string
  ce_expiry :: "string \<Rightarrow> int result"
  ce_provider :: cert_provider
  ce_acme_account_key_path :: "string option"
  ce_acme :: "string \<Rightarrow> acme"
  ce_broker :: "string \<Rightarrow> broker"
  ce_cert_api_base_url :: "string option"
  ce_settings :: settings
  ce_config_identity :: "string option \<times> string option \<times> string option"
  ce_key_pem :: "string \<Rightarrow> string"
  ce_port :: int
  ce_caddy_running :: bool
  ce_admin_addr :: "string option"

record cert_world =
  cw_dns :: dns_state
  cw_files :: "string \<rightharpoonup> string"
  cw_db :: database
  cw_caddyfile :: "string option"

definition serves_public_zones :: "dns_config \<Rightarrow> bool" where
  "serves_public_zones cf = (dc_bind_ip cf \<noteq> None)"

definition acquire_locked :: "cert_env \<Rightarrow> string \<Rightarrow> dns_state \<Rightarrow> (string result \<times> dns_state) option" where
  "acquire_locked E host st =
     (if ce_provider E = Acme
      then (if \<not> str_truthy (ce_acme_account_key_path E)
            then Some (Inl (Exn RuntimeError ''ACME account key path must be set in config to acquire TLS cert''), st)
            else Some (acquire_cert_dns01 (ce_dns E) (ce_wall E) host (ce_acme E host) st))
      else if ce_cert_api_base_url E = None \<or> get_instance_identity (ce_settings E) (ce_config_identity E) = None
      then Some (Inl (Exn AssertionError []), st)
      else acquire_via_broker (ce_dns E) (ce_wall E) (ce_start E) host (ce_broker E host) st)"

definition write_cert_and_key :: "string \<times> string \<Rightarrow> string \<Rightarrow> string \<Rightarrow> (string \<rightharpoonup> string) \<Rightarrow> (string \<rightharpoonup> string)" where
  "write_cert_and_key paths cert_pem key_pem files = files(fst paths \<mapsto> cert_pem, snd paths \<mapsto> key_pem)"

definition acquire_cert_for_domain :: "cert_env \<Rightarrow> string \<Rightarrow> string \<times> string \<Rightarrow> cert_world \<Rightarrow> (unit result \<times> cert_world) option" where
  "acquire_cert_for_domain E host paths w =
     (if \<not> serves_public_zones (ce_dns E)
      then Some (Inl (Exn RuntimeError ''CoreDNS must be enabled to acquire a TLS cert via DNS-01 challenge''), w)
      else map_option (\<lambda>(r, st).
             case r of
               Inl e \<Rightarrow> (Inl e, w\<lparr>cw_dns := st\<rparr>)
             | Inr pem \<Rightarrow> (Inr (), w\<lparr>cw_dns := st, cw_files := write_cert_and_key paths pem (ce_key_pem E host) (cw_files w)\<rparr>))
           (acquire_locked E host (cw_dns w)))"

definition status_of :: "cert_env \<Rightarrow> cert_world \<Rightarrow> string \<Rightarrow> cert_state result" where
  "status_of E w name =
     rbind (cert_key_paths_for (ce_certs_dir E) name) (\<lambda>paths. get_cert_status (ce_expiry E) (ce_now E) (cw_files w) paths)"

text \<open>Runs an acquisition at the paths of a domain.\<close>

definition acquire_at :: "cert_env \<Rightarrow> string \<Rightarrow> cert_world \<Rightarrow> (unit result \<times> cert_world) option" where
  "acquire_at E name w =
     (case cert_key_paths_for (ce_certs_dir E) name of
        Inl e \<Rightarrow> Some (Inl e, w)
      | Inr paths \<Rightarrow> acquire_cert_for_domain E name paths w)"

definition ensure_cert_for :: "cert_env \<Rightarrow> domain \<Rightarrow> cert_world \<Rightarrow> (unit result \<times> cert_world) option" where
  "ensure_cert_for E d w =
     (if \<not> dom_tls d then Some (Inr (), w)
      else case status_of E w (name_no_port d) of
        Inl e \<Rightarrow> Some (Inl e, w)
      | Inr CertOk \<Rightarrow> Some (Inr (), w)
      | Inr _ \<Rightarrow> acquire_at E (name_no_port d) w)"

definition provision_cert :: "cert_env \<Rightarrow> cert_world \<Rightarrow> (unit result \<times> cert_world) option" where
  "provision_cert E w =
     (case primary_domain (cw_db w) of
        Inl e \<Rightarrow> Some (Inl e, w)
      | Inr p \<Rightarrow> acquire_at E (name_no_port p) w)"

section \<open>Renewal\<close>

text \<open>The display of the statuses: the first exception ends the loop and is swallowed.\<close>

fun sync_cert_statuses :: "cert_env \<Rightarrow> domain list \<Rightarrow> cert_world \<Rightarrow> cert_world" where
  "sync_cert_statuses E [] w = w"
| "sync_cert_statuses E (d # ds) w =
     (if \<not> dom_tls d then sync_cert_statuses E ds w
      else case get_record (cw_db w) (name_no_port d) of
        None \<Rightarrow> sync_cert_statuses E ds w
      | Some rec \<Rightarrow>
          if d_cert_status rec = CertActive then sync_cert_statuses E ds w
          else case status_of E w (name_no_port d) of
            Inl e \<Rightarrow> w
          | Inr CertOk \<Rightarrow> sync_cert_statuses E ds (w\<lparr>cw_db := set_record_status (name_no_port d) CertActive None (cw_db w)\<rparr>)
          | Inr _ \<Rightarrow> sync_cert_statuses E ds w)"

definition mark_cert_active :: "string \<Rightarrow> cert_world \<Rightarrow> cert_world" where
  "mark_cert_active name w = w\<lparr>cw_db := set_record_status name CertActive None (cw_db w)\<rparr>"

text \<open>The primary's renewal: its failure propagates.\<close>

definition renew_primary :: "cert_env \<Rightarrow> domain option \<Rightarrow> cert_world \<Rightarrow> (bool result \<times> cert_world) option" where
  "renew_primary E primary w =
     (case primary of
        None \<Rightarrow> Some (Inr False, w)
      | Some p \<Rightarrow>
          if \<not> dom_tls p then Some (Inr False, w)
          else case status_of E w (name_no_port p) of
            Inl e \<Rightarrow> Some (Inl e, w)
          | Inr CertOk \<Rightarrow> Some (Inr False, w)
          | Inr _ \<Rightarrow>
              map_option (\<lambda>(r, w'). case r of Inl e \<Rightarrow> (Inl e, w') | Inr u \<Rightarrow> (Inr True, mark_cert_active (name_no_port p) w'))
                (provision_cert E w))"

text \<open>The other domains; reading the status of one is outside the \<open>try\<close>, acquiring its certificate inside.\<close>

fun renew_aliases :: "cert_env \<Rightarrow> string option \<Rightarrow> domain list \<Rightarrow> bool \<Rightarrow> cert_world \<Rightarrow> (bool result \<times> cert_world) option" where
  "renew_aliases E primary_no_port [] renewed w = Some (Inr renewed, w)"
| "renew_aliases E primary_no_port (d # ds) renewed w =
     (let name = name_no_port d
      in if \<not> dom_tls d \<or> Some name = primary_no_port then renew_aliases E primary_no_port ds renewed w
         else case status_of E w name of
           Inl e \<Rightarrow> Some (Inl e, w)
         | Inr CertOk \<Rightarrow> renew_aliases E primary_no_port ds renewed w
         | Inr _ \<Rightarrow>
             (case acquire_at E name w of
                None \<Rightarrow> None
              | Some (Inl e, w') \<Rightarrow> renew_aliases E primary_no_port ds renewed w'
              | Some (Inr u, w') \<Rightarrow> renew_aliases E primary_no_port ds True (mark_cert_active name w')))"

definition reload_caddy_for_domains :: "cert_env \<Rightarrow> cert_world \<Rightarrow> bool result \<times> cert_world" where
  "reload_caddy_for_domains E w =
     (if \<not> ce_caddy_running E then (Inr False, w)
      else case generate_caddyfile (effective_domains (cw_db w)) (ce_port E) (config_cert_resolver (ce_certs_dir E) (cw_files w)) (ce_admin_addr E) of
        Inl e \<Rightarrow> (Inl e, w)
      | Inr content \<Rightarrow> (Inr True, w\<lparr>cw_caddyfile := Some content\<rparr>))"

definition renew_cert_if_needed :: "cert_env \<Rightarrow> cert_world \<Rightarrow> (bool result \<times> cert_world) option" where
  "renew_cert_if_needed E w0 =
     (let w = sync_cert_statuses E (effective_domains (cw_db w0)) w0;
          primary = primary_domain_or_none (cw_db w)
      in case renew_primary E primary w of
           None \<Rightarrow> None
         | Some (Inl e, w1) \<Rightarrow> Some (Inl e, w1)
         | Some (Inr renewed, w1) \<Rightarrow>
             (case renew_aliases E (map_option name_no_port primary) (effective_domains (cw_db w1)) renewed w1 of
                None \<Rightarrow> None
              | Some (Inl e, w2) \<Rightarrow> Some (Inl e, w2)
              | Some (Inr renewed, w2) \<Rightarrow>
                  if renewed then
                    (case reload_caddy_for_domains E w2 of
                       (Inl e, w3) \<Rightarrow> Some (Inl e, w3)
                     | (Inr b, w3) \<Rightarrow> Some (Inr True, w3))
                  else Some (Inr False, w2)))"

text \<open>The pause after a cycle of the renewal task, and the retry interval it leaves behind.\<close>

definition CHECK_INTERVAL :: nat where "CHECK_INTERVAL = 12 * 3600"
definition RETRY_INTERVAL :: nat where "RETRY_INTERVAL = 3600"
definition INITIAL_RETRY_INTERVAL :: nat where "INITIAL_RETRY_INTERVAL = 15"

definition after_cycle :: "bool \<Rightarrow> nat \<Rightarrow> nat \<times> nat" where
  "after_cycle failed retry =
     (if failed then (retry, min (retry * 2) RETRY_INTERVAL) else (CHECK_INTERVAL, INITIAL_RETRY_INTERVAL))"

fun pauses :: "nat \<Rightarrow> bool list \<Rightarrow> nat list" where
  "pauses retry [] = []"
| "pauses retry (failed # cs) = (case after_cycle failed retry of (pause, retry') \<Rightarrow> pause # pauses retry' cs)"

section \<open>Challenges come and go\<close>

definition no_challenge :: "dns_state \<Rightarrow> bool" where
  "no_challenge st = (map_of (dz_records st) (CHALLENGE_LABEL, TXT_record) = None)"

text \<open>Back to the same records, zones and process, with the files up to date if they were.\<close>

definition dns_back :: "dns_config \<Rightarrow> dns_state \<Rightarrow> dns_state \<Rightarrow> bool" where
  "dns_back cf st st' =
     (dz_records st' = dz_records st \<and> dz_zones st' = dz_zones st \<and> dz_process st' = dz_process st
      \<and> (dns_ok cf st \<longrightarrow> dns_ok cf st'))"

lemma dns_back_refl [simp]: "dns_back cf st st"
  by (simp add: dns_back_def)

lemma dns_back_trans: "dns_back cf st st1 \<Longrightarrow> dns_back cf st1 st2 \<Longrightarrow> dns_back cf st st2"
  by (auto simp: dns_back_def)

lemma dns_back_challenge: "dns_back cf st st' \<Longrightarrow> no_challenge st \<Longrightarrow> no_challenge st'"
  by (simp add: dns_back_def no_challenge_def)

lemma dict_set_fresh: "map_of kvs k = None \<Longrightarrow> dict_set k v kvs = kvs @ [(k, v)]"
  by (induction kvs) (auto split: if_splits)

lemma filter_fresh: "map_of kvs k = None \<Longrightarrow> filter (\<lambda>(k', v). k' \<noteq> k) kvs = kvs"
  by (induction kvs) (auto split: if_splits)

lemma map_of_snoc: "map_of kvs k = None \<Longrightarrow> map_of (kvs @ [(k, v)]) k = Some v"
  by (induction kvs) (auto split: if_splits)

lemma publish_then_clear:
  assumes "dns_ready cf" and "no_challenge st"
  obtains st1 st2 where "publish_challenge cf now vals st = (Inr (), st1)" "clear_challenge cf now st1 = (Inr (), st2)"
    "dns_back cf st st2"
proof -
  let ?k = "(CHALLENGE_LABEL, TXT_record)"
  let ?rrset = "map (\<lambda>v. \<lparr>dr_name = CHALLENGE_LABEL, dr_type = TXT_record, dr_ttl = CHALLENGE_TTL_SECONDS, dr_data = v\<rparr>) vals"
  let ?st = "st\<lparr>dz_records := dz_records st @ [(?k, ?rrset)]\<rparr>"
  have none: "map_of (dz_records st) ?k = None"
    using assms(2) by (simp add: no_challenge_def)
  obtain st1 where st1: "write_config cf now ?st = (Inr (), st1)" "dz_records st1 = dz_records st @ [(?k, ?rrset)]"
    "dz_zones st1 = dz_zones st" "dz_process st1 = dz_process st"
    using rendered_current [OF assms(1), of now ?st] by auto
  have publish: "publish_challenge cf now vals st = (Inr (), st1)"
    using none st1(1) by (simp add: publish_challenge_def set_records_def Let_def dict_set_fresh)
  have ok1: "dns_ok cf st \<Longrightarrow> dns_ok cf st1"
    using write_keeps [OF assms(1), of st ?st now] st1(1) by simp
  let ?st1 = "st1\<lparr>dz_records := dz_records st\<rparr>"
  obtain st2 where st2: "write_config cf now ?st1 = (Inr (), st2)" "dz_records st2 = dz_records st"
    "dz_zones st2 = dz_zones st1" "dz_process st2 = dz_process st1"
    using rendered_current [OF assms(1), of now ?st1] by auto
  have "clear_challenge cf now st1 = (Inr (), st2)"
    using st2(1) none
    by (simp add: clear_challenge_def delete_records_def st1(2) map_of_snoc filter_fresh)
  moreover have "dns_ok cf st1 \<Longrightarrow> dns_ok cf st2"
    using write_keeps [OF assms(1), of st1 ?st1 now] st2(1) by simp
  ultimately show ?thesis
    using that [OF publish] st1 st2 ok1 by (simp add: dns_back_def)
qed

text \<open>Every acquisition gives an outcome that depends on the domain only, and leaves the DNS as it was.\<close>

lemma acme_try_back:
  assumes "dns_ready cf" and "no_challenge st" and "no_challenge st0"
  shows "fst (acme_try cf now host a st) = fst (acme_try cf now host a st0) \<and> dns_back cf st (snd (acme_try cf now host a st))"
proof -
  have "dns_back cf st (snd (acme_try cf now host a st)) \<and>
      fst (acme_try cf now host a st) = (case at_order a of Inl f \<Rightarrow> Inl f | Inr vals \<Rightarrow>
        if vals = [] then order_finished host a else case at_answer a of Inl f \<Rightarrow> Inl f | Inr u \<Rightarrow> order_finished host a)"
    if nc: "no_challenge st" for st
  proof (cases "at_order a")
    case (Inr vals)
    obtain st1 st2 where "publish_challenge cf now vals st = (Inr (), st1)" "clear_challenge cf now st1 = (Inr (), st2)" "dns_back cf st st2"
      using publish_then_clear [OF assms(1) nc] by blast
    with Inr show ?thesis by (simp add: acme_try_def Let_def split: sum.splits)
  qed (simp add: acme_try_def)
  with assms show ?thesis by simp
qed

lemma acme_loop_back:
  assumes "dns_ready cf"
  shows "no_challenge st \<Longrightarrow> no_challenge st0 \<Longrightarrow>
    fst (acme_loop cf now host attempt k n st) = fst (acme_loop cf now host attempt k n st0)
    \<and> dns_back cf st (snd (acme_loop cf now host attempt k n st))"
proof (induction k arbitrary: n st st0)
  case (Suc k)
  obtain r st1 where one: "acme_try cf now host (attempt n) st = (r, st1)" by fastforce
  obtain r0 st2 where one0: "acme_try cf now host (attempt n) st0 = (r0, st2)" by fastforce
  have r0: "r0 = r" and b1: "dns_back cf st st1"
    using acme_try_back [OF assms Suc.prems, of now host "attempt n"] one one0 by auto
  have b2: "dns_back cf st0 st2"
    using acme_try_back [OF assms Suc.prems(2,2), of now host "attempt n"] one0 by simp
  from Suc.IH [OF dns_back_challenge [OF b1 Suc.prems(1)] dns_back_challenge [OF b2 Suc.prems(2)], of "n + 1"] b1
  show ?case
    by (auto simp: one one0 r0 split: sum.splits intro: dns_back_trans)
qed simp

lemma acquire_via_broker_back:
  assumes "dns_ready cf" and "clock_ok B" and "no_challenge st" and "no_challenge st0"
  shows "\<exists>r st' st0'. acquire_via_broker cf now start host B st = Some (r, st') \<and> dns_back cf st st'
    \<and> acquire_via_broker cf now start host B st0 = Some (r, st0')"
proof (cases "rbind (bk_order B [host, ''*.'' @ host]) (\<lambda>(order_id, challenges).
             rbind (check_challenge_names host challenges) (\<lambda>_. Inr (order_id, map snd challenges)))")
  case (Inr ov)
  obtain order_id vals where ov: "ov = (order_id, vals)" by fastforce
  from Inr have accepted: "rbind (bk_order B [host, ''*.'' @ host]) (\<lambda>(order_id, challenges).
       rbind (check_challenge_names host challenges) (\<lambda>_. Inr (order_id, map snd challenges))) = Inr (order_id, vals)"
    unfolding ov .
  obtain r where r: "poll_until_issued B order_id start = Some r"
    using poll_loop_returns [OF assms(2), where q = 5 and k = 120 and factor = "3/2" and max_interval = 30 and interval = 5
        and deadline = "start + 600" and t = start]
    by (auto simp: poll_until_issued_def)
  obtain st1 st2 where s: "publish_challenge cf now vals st = (Inr (), st1)" "clear_challenge cf now st1 = (Inr (), st2)" "dns_back cf st st2"
    using publish_then_clear [OF assms(1,3)] by blast
  obtain st3 st4 where "publish_challenge cf now vals st0 = (Inr (), st3)" "clear_challenge cf now st3 = (Inr (), st4)"
    using publish_then_clear [OF assms(1,4)] by blast
  with s r show ?thesis
    unfolding acquire_via_broker_def accepted by simp
qed (simp add: acquire_via_broker_def)

text \<open>What the acquisition of a certificate for \<open>host\<close> gives.\<close>

definition outcome :: "cert_env \<Rightarrow> string \<Rightarrow> string result" where
  "outcome E host = fst (the (acquire_locked E host (new_provider [])))"

lemma no_challenge_new: "no_challenge (new_provider zs)"
  by (simp add: no_challenge_def new_provider_def)

lemma acquire_locked_back:
  assumes "dns_ready (ce_dns E)" and "clock_ok (ce_broker E host)" and "no_challenge st"
  shows "\<exists>st'. acquire_locked E host st = Some (outcome E host, st') \<and> dns_back (ce_dns E) st st'"
proof (cases "ce_provider E")
  case Acme
  show ?thesis
  proof (cases "\<not> str_truthy (ce_acme_account_key_path E) \<or> isl (rbind (am_account_key (ce_acme E host)) (\<lambda>_. am_account (ce_acme E host)))")
    case True
    with Acme show ?thesis
      by (auto simp: acquire_locked_def outcome_def acquire_cert_dns01_def isl_def)
  next
    case False
    let ?run = "acme_loop (ce_dns E) (ce_wall E) host (am_attempt (ce_acme E host)) 3 0"
    have run: "acquire_locked E host st = Some (?run st)" for st
      using False Acme by (auto simp: acquire_locked_def acquire_cert_dns01_def split: sum.splits)
    obtain r st' where st': "?run st = (r, st')" by fastforce
    from acme_loop_back [OF assms(1,3) no_challenge_new [of "[]"], of "ce_wall E" host "am_attempt (ce_acme E host)" 3 0]
    have "fst (?run (new_provider [])) = r" "dns_back (ce_dns E) st st'"
      unfolding st' by simp_all
    then show ?thesis
      unfolding outcome_def run st' by simp
  qed
next
  case CertApi
  show ?thesis
  proof (cases "ce_cert_api_base_url E = None \<or> get_instance_identity (ce_settings E) (ce_config_identity E) = None")
    case True
    with CertApi show ?thesis by (auto simp: acquire_locked_def outcome_def)
  next
    case False
    with CertApi have run: "acquire_locked E host st = acquire_via_broker (ce_dns E) (ce_wall E) (ce_start E) host (ce_broker E host) st" for st
      by (auto simp: acquire_locked_def)
    from acquire_via_broker_back [OF assms no_challenge_new [of "[]"], of "ce_wall E" "ce_start E" host]
    show ?thesis unfolding run outcome_def by auto
  qed
qed

section \<open>Acquiring\<close>

definition pair_of :: "(string \<rightharpoonup> string) \<Rightarrow> string \<times> string \<Rightarrow> string option \<times> string option" where
  "pair_of files paths = (files (fst paths), files (snd paths))"

lemma acquire_back:
  assumes "dns_ready (ce_dns E)" and "clock_ok (ce_broker E host)" and "no_challenge (cw_dns w)"
  shows "\<exists>st. dns_back (ce_dns E) (cw_dns w) st \<and> acquire_cert_for_domain E host paths w = Some
    (case outcome E host of
       Inl e \<Rightarrow> (Inl e, w\<lparr>cw_dns := st\<rparr>)
     | Inr pem \<Rightarrow> (Inr (), w\<lparr>cw_dns := st, cw_files := write_cert_and_key paths pem (ce_key_pem E host) (cw_files w)\<rparr>))"
proof -
  have "serves_public_zones (ce_dns E)"
    using assms(1) by (simp add: dns_ready_def serves_public_zones_def)
  with acquire_locked_back [OF assms] show ?thesis
    by (auto simp: acquire_cert_for_domain_def)
qed


section \<open>Renewing\<close>

text \<open>Names that are host names already keep their own pair of files.\<close>

definition clean_name :: "string \<Rightarrow> bool" where
  "clean_name n = (normalized_cert_domain n = Inr n)"

definition paths_of :: "cert_env \<Rightarrow> string \<Rightarrow> string \<times> string" where
  "paths_of E n = (path_join (ce_certs_dir E) (n @ ''.pem''), path_join (ce_certs_dir E) (n @ ''.key''))"

lemma clean_paths: "clean_name n \<Longrightarrow> cert_key_paths_for (ce_certs_dir E) n = Inr (paths_of E n)"
  by (simp add: clean_name_def cert_key_paths_for_def paths_of_def)

lemma clean_start: "clean_name n \<Longrightarrow> \<not> prefix ''/'' (n @ s)"
proof -
  assume clean: "clean_name n"
  then have n: "lang CERT_DOMAIN_RE n"
    by (auto simp: clean_name_def normalized_cert_domain_def Let_def rx_matches_lang split: if_splits)
  then have "n \<noteq> []"
    by (auto simp: CERT_DOMAIN_RE_def DOMAIN_LABEL_def)
  moreover have "\<not> domain_char CHR ''/''"
    by (simp add: domain_char_def is_alnum_lower_def is_lower_alpha_def is_digit_def code_def)
  ultimately show ?thesis
    using domain_chars [OF n] by (cases n) auto
qed

lemma clean_pairs_differ:
  assumes "clean_name n" and "clean_name m" and "n \<noteq> m"
  shows "pair_of (write_cert_and_key (paths_of E n) pem key files) (paths_of E m) = pair_of files (paths_of E m)"
proof -
  have ends: "m @ ''.pem'' \<noteq> n @ ''.key''" "m @ ''.key'' \<noteq> n @ ''.pem''"
    using arg_cong [of "m @ ''.pem''" "n @ ''.key''" last] arg_cong [of "m @ ''.key''" "n @ ''.pem''" last] by auto
  have "path_join d (m @ t) \<noteq> path_join d (n @ s)" if "m @ t \<noteq> n @ s" for d s t
    using that clean_start [OF assms(1), of s] clean_start [OF assms(2), of t] by (simp add: path_join_def)
  with assms(3) ends show ?thesis
    by (simp add: pair_of_def write_cert_and_key_def paths_of_def)
qed

lemma pair_written:
  assumes "clean_name n"
  shows "pair_of (write_cert_and_key (paths_of E n) pem key files) (paths_of E n) = (Some pem, Some key)"
proof -
  have "path_join d (n @ ''.pem'') \<noteq> path_join d (n @ ''.key'')" for d
    using clean_start [OF assms, of "''.pem''"] clean_start [OF assms, of "''.key''"] by (simp add: path_join_def)
  then show ?thesis
    by (simp add: pair_of_def write_cert_and_key_def paths_of_def)
qed

lemma status_by_pair:
  assumes "clean_name n" and "pair_of (cw_files w) (paths_of E n) = pair_of (cw_files w') (paths_of E n)"
  shows "status_of E w n = status_of E w' n"
  using assms by (simp add: status_of_def clean_paths get_cert_status_def pair_of_def cong: option.case_cong)

text \<open>The pair a name has after the authority issued its certificate.\<close>

definition issued :: "cert_env \<Rightarrow> string \<Rightarrow> string option \<times> string option \<Rightarrow> bool" where
  "issued E n p = (\<exists>pem. outcome E n = Inr pem \<and> p = (Some pem, Some (ce_key_pem E n)))"

definition kept_or_issued :: "cert_env \<Rightarrow> cert_world \<Rightarrow> cert_world \<Rightarrow> bool" where
  "kept_or_issued E w w' =
     (\<forall>m. clean_name m \<longrightarrow> pair_of (cw_files w') (paths_of E m) = pair_of (cw_files w) (paths_of E m)
        \<or> issued E m (pair_of (cw_files w') (paths_of E m)))"

lemma kept_refl [simp]: "cw_files w' = cw_files w \<Longrightarrow> kept_or_issued E w w'"
  by (simp add: kept_or_issued_def)

lemma kept_trans: "kept_or_issued E w w1 \<Longrightarrow> kept_or_issued E w1 w2 \<Longrightarrow> kept_or_issued E w w2"
  unfolding kept_or_issued_def by metis

lemma kept_issued:
  "kept_or_issued E w w' \<Longrightarrow> clean_name m \<Longrightarrow> issued E m (pair_of (cw_files w) (paths_of E m)) \<Longrightarrow>
     issued E m (pair_of (cw_files w') (paths_of E m))"
  unfolding kept_or_issued_def by metis

lemma issued_later:
  assumes "kept_or_issued E w w1" and "kept_or_issued E w1 w2" and "clean_name n"
    and "status_of E w1 n = Inr CertOk \<or> issued E n (pair_of (cw_files w2) (paths_of E n))"
  shows "status_of E w n = Inr CertOk \<or> issued E n (pair_of (cw_files w2) (paths_of E n))"
proof (cases "pair_of (cw_files w1) (paths_of E n) = pair_of (cw_files w) (paths_of E n)")
  case True
  with assms(4) status_by_pair [OF assms(3), of w1 E w] show ?thesis by auto
next
  case False
  with assms(1,3) have "issued E n (pair_of (cw_files w1) (paths_of E n))"
    unfolding kept_or_issued_def by blast
  with kept_issued [OF assms(2,3)] show ?thesis by blast
qed

lemma acquire_at_clean:
  assumes "dns_ready (ce_dns E)" and "clock_ok (ce_broker E n)" and "no_challenge (cw_dns w)" and "clean_name n"
  obtains r w' where "acquire_at E n w = Some (r, w')" "no_challenge (cw_dns w')" "cw_db w' = cw_db w" "kept_or_issued E w w'"
    "\<And>pem. outcome E n = Inr pem \<Longrightarrow> issued E n (pair_of (cw_files w') (paths_of E n))" "r = Inr () \<longleftrightarrow> (\<exists>pem. outcome E n = Inr pem)"
proof -
  obtain st where st: "dns_back (ce_dns E) (cw_dns w) st" "acquire_cert_for_domain E n (paths_of E n) w = Some
    (case outcome E n of
       Inl e \<Rightarrow> (Inl e, w\<lparr>cw_dns := st\<rparr>)
     | Inr pem \<Rightarrow> (Inr (), w\<lparr>cw_dns := st, cw_files := write_cert_and_key (paths_of E n) pem (ce_key_pem E n) (cw_files w)\<rparr>))"
    using acquire_back [OF assms(1-3)] by blast
  have nc: "no_challenge st"
    using dns_back_challenge [OF st(1) assms(3)] .
  show ?thesis
  proof (cases "outcome E n")
    case (Inl e)
    with st(2) nc that [of "Inl e" "w\<lparr>cw_dns := st\<rparr>"] show ?thesis
      by (simp add: acquire_at_def clean_paths [OF assms(4)])
  next
    case (Inr pem)
    let ?w = "w\<lparr>cw_dns := st, cw_files := write_cert_and_key (paths_of E n) pem (ce_key_pem E n) (cw_files w)\<rparr>"
    have own: "issued E n (pair_of (cw_files ?w) (paths_of E n))"
      using Inr pair_written [OF assms(4)] by (simp add: issued_def)
    have "pair_of (cw_files ?w) (paths_of E m) = pair_of (cw_files w) (paths_of E m) \<or> issued E m (pair_of (cw_files ?w) (paths_of E m))"
      if "clean_name m" for m
      using own clean_pairs_differ [OF assms(4) that] by (cases "m = n") auto
    then have "kept_or_issued E w ?w"
      unfolding kept_or_issued_def by blast
    with st(2) nc own Inr that [of "Inr ()" ?w] show ?thesis
      by (simp add: acquire_at_def clean_paths [OF assms(4)])
  qed
qed

lemma renew_aliases_spec:
  assumes "dns_ready (ce_dns E)" and "\<And>h. clock_ok (ce_broker E h)"
  shows "no_challenge (cw_dns w) \<Longrightarrow> list_all (\<lambda>d. dom_tls d \<longrightarrow> clean_name (name_no_port d)) ds \<Longrightarrow>
    renew_aliases E pn ds renewed w = Some (Inr b, w') \<Longrightarrow>
    kept_or_issued E w w' \<and> no_challenge (cw_dns w')
    \<and> (\<forall>d \<in> set ds. dom_tls d \<longrightarrow> Some (name_no_port d) \<noteq> pn \<longrightarrow> (\<exists>pem. outcome E (name_no_port d) = Inr pem) \<longrightarrow>
        status_of E w (name_no_port d) = Inr CertOk \<or> issued E (name_no_port d) (pair_of (cw_files w') (paths_of E (name_no_port d))))"
proof (induction ds arbitrary: renewed w)
  case (Cons d ds)
  let ?n = "name_no_port d"
  let ?goal = "\<lambda>w ds. kept_or_issued E w w' \<and> no_challenge (cw_dns w')
    \<and> (\<forall>d \<in> set ds. dom_tls d \<longrightarrow> Some (name_no_port d) \<noteq> pn \<longrightarrow> (\<exists>pem. outcome E (name_no_port d) = Inr pem) \<longrightarrow>
        status_of E w (name_no_port d) = Inr CertOk \<or> issued E (name_no_port d) (pair_of (cw_files w') (paths_of E (name_no_port d))))"
  have clean: "list_all (\<lambda>d. dom_tls d \<longrightarrow> clean_name (name_no_port d)) ds"
    using Cons.prems(2) by simp
  consider (skip) "\<not> dom_tls d \<or> Some ?n = pn" "renew_aliases E pn ds renewed w = Some (Inr b, w')"
    | (good) "dom_tls d" "status_of E w ?n = Inr CertOk" "renew_aliases E pn ds renewed w = Some (Inr b, w')"
    | (due) r w1 where "dom_tls d" "acquire_at E ?n w = Some (r, w1)"
        "\<exists>renewed'. renew_aliases E pn ds renewed' (if r = Inr () then mark_cert_active ?n w1 else w1) = Some (Inr b, w')"
    using Cons.prems(3) by (auto simp: Let_def split: if_splits sum.splits cert_state.splits option.splits) blast+
  then show ?case
  proof cases
    case skip
    from Cons.IH [OF Cons.prems(1) clean skip(2)] skip(1) show ?thesis by auto
  next
    case good
    from Cons.IH [OF Cons.prems(1) clean good(3)] good(2) show ?thesis by auto
  next
    case due
    have cn: "clean_name ?n" using due(1) Cons.prems(2) by simp
    obtain r' w1' where acq: "acquire_at E ?n w = Some (r', w1')" "no_challenge (cw_dns w1')" "kept_or_issued E w w1'"
      "\<And>pem. outcome E ?n = Inr pem \<Longrightarrow> issued E ?n (pair_of (cw_files w1') (paths_of E ?n))"
      using acquire_at_clean [OF assms(1,2) Cons.prems(1) cn] by metis
    let ?w1 = "if r = Inr () then mark_cert_active ?n w1 else w1"
    have same: "r' = r" "w1' = w1" using acq(1) due(2) by simp_all
    have files: "cw_files ?w1 = cw_files w1" "cw_dns ?w1 = cw_dns w1" by (simp_all add: mark_cert_active_def)
    obtain renewed' where "renew_aliases E pn ds renewed' ?w1 = Some (Inr b, w')" using due(3) by blast
    moreover have "no_challenge (cw_dns ?w1)" using acq(2) files(2) same by simp
    ultimately have rest: "?goal ?w1 ds" by (rule Cons.IH [OF _ clean, rotated])
    have k1: "kept_or_issued E w ?w1"
      using acq(3) same files(1) by (simp add: kept_or_issued_def)
    have k: "kept_or_issued E w w'" using kept_trans [OF k1] rest by blast
    have "status_of E w n = Inr CertOk \<or> issued E n (pair_of (cw_files w') (paths_of E n))"
      if "clean_name n" "status_of E ?w1 n = Inr CertOk \<or> issued E n (pair_of (cw_files w') (paths_of E n))" for n
      using issued_later [OF k1 _ that] rest by blast
    moreover have "issued E ?n (pair_of (cw_files w') (paths_of E ?n))" if "outcome E ?n = Inr pem" for pem
    proof -
      have "issued E ?n (pair_of (cw_files ?w1) (paths_of E ?n))"
        using acq(4) [OF that] same files(1) by simp
      with rest cn kept_issued show ?thesis by blast
    qed
    ultimately show ?thesis
      using k rest clean by (auto simp: list_all_iff)
  qed
qed simp

text \<open>The loops that change only statuses leave the domains as they are.\<close>

lemma insort_map: "(\<And>x. k (f x) = k x) \<Longrightarrow> insort_key k (f x) (map f xs) = map f (insort_key k x xs)"
  by (induction xs) auto

lemma sort_map: "(\<And>x. k (f x) = k x) \<Longrightarrow> sort_key k (map f xs) = map f (sort_key k xs)"
  by (induction xs) (simp_all add: insort_map)

lemma to_domain_filter:
  "(\<And>r. P (f r) = P r) \<Longrightarrow> (\<And>r. to_domain (f r) = to_domain r) \<Longrightarrow>
     map to_domain (filter P (map f xs)) = map to_domain (filter P xs)"
  by (induction xs) auto

lemma effective_after_status [simp]: "effective_domains (set_record_status name st err db) = effective_domains db"
proof -
  define f :: "domain_row \<Rightarrow> domain_row" where "f = (\<lambda>r. if d_name r = lower name then r\<lparr>d_cert_status := st, d_error_message := err\<rparr> else r)"
  have f: "d_name (f r) = d_name r" "d_is_primary (f r) = d_is_primary r" "to_domain (f r) = to_domain r" for r
    by (simp_all add: f_def to_domain_def)
  have "set_record_status name st err db = db\<lparr>t_domains := map f (t_domains db)\<rparr>"
    by (simp add: set_record_status_def f_def)
  then show ?thesis
    by (simp add: effective_domains_def load_records_def Let_def sort_map [of d_name f, OF f(1)] f
        to_domain_filter [of d_is_primary f, OF f(2,3)] to_domain_filter [of "\<lambda>r. \<not> d_is_primary r" f] del: filter_map)
qed

lemma primary_after_status [simp]: "primary_domain_or_none (set_record_status name st err db) = primary_domain_or_none db"
proof -
  have "map_option to_domain (find d_is_primary (map (\<lambda>r. if d_name r = lower name
      then r\<lparr>d_cert_status := st, d_error_message := err\<rparr> else r) xs)) = map_option to_domain (find d_is_primary xs)" for xs
    by (induction xs) (auto simp: to_domain_def)
  then show ?thesis
    by (simp add: primary_domain_or_none_def set_record_status_def)
qed

lemma sync_keeps:
  "cw_files (sync_cert_statuses E ds w) = cw_files w \<and> cw_dns (sync_cert_statuses E ds w) = cw_dns w
    \<and> effective_domains (cw_db (sync_cert_statuses E ds w)) = effective_domains (cw_db w)
    \<and> primary_domain_or_none (cw_db (sync_cert_statuses E ds w)) = primary_domain_or_none (cw_db w)"
  by (induction E ds w rule: sync_cert_statuses.induct) (auto split: option.splits sum.splits cert_state.splits)


definition ready_attempt :: "string list \<Rightarrow> acme_attempt" where
  "ready_attempt vals = \<lparr>at_order = Inr vals, at_answer = Inr (), at_finalize = Inr (Some ''PEM'')\<rparr>"

definition example_cert_env :: "string list \<Rightarrow> cert_env" where
  "example_cert_env vals =
     \<lparr>ce_dns = example_dns, ce_wall = 1700000000, ce_start = 0, ce_now = 0, ce_certs_dir = ''/certs'',
      ce_expiry = \<lambda>pem. if pem = ''PEM'' then Inr 8000000 else Inr 0, ce_provider = Acme,
      ce_acme_account_key_path = Some ''/acme.json'',
      ce_acme = \<lambda>_. \<lparr>am_account_key = Inr (), am_account = Inr (), am_attempt = \<lambda>_. ready_attempt vals\<rparr>,
      ce_broker = \<lambda>_. slow_broker, ce_cert_api_base_url = None, ce_settings = Map.empty, ce_config_identity = (None, None, None),
      ce_key_pem = \<lambda>_. ''KEY'', ce_port = 8080, ce_caddy_running = False, ce_admin_addr = None\<rparr>"

definition example_cert_world :: cert_world where
  "example_cert_world = \<lparr>cw_dns = new_provider [],
     cw_files = [''/certs/example.com.pem'' \<mapsto> ''PEM'', ''/certs/example.com.key'' \<mapsto> ''KEY''], cw_db = example_ddb, cw_caddyfile = None\<rparr>"

lemma example_ready: "dns_ready (ce_dns (example_cert_env vals))" "clock_ok (ce_broker (example_cert_env vals) h)"
  by (simp_all add: example_cert_env_def slow_broker_clock dns_ready_def example_dns_def endswith_def suffix_def)

lemma example_cert_world_dns: "no_challenge (cw_dns example_cert_world)" "dns_ok (ce_dns (example_cert_env vals)) (cw_dns example_cert_world)"
  by (simp_all add: example_cert_world_def no_challenge_new) (simp add: dns_ok_def new_provider_def)


lemma dom_tls_mk [simp]: "dom_tls (mk_domain n t m) = t"
  by (simp add: mk_domain_def)

lemma example_names_clean: "clean_name ''example.com''" "clean_name ''host.example.com''"
  unfolding clean_name_def by code_simp+

lemma example_effective:
  "effective_domains example_ddb = [mk_domain ''example.com'' True False, mk_domain ''host.example.com'' True False]"
  "primary_domain_or_none example_ddb = Some (mk_domain ''example.com'' True False)"
  "get_record example_ddb ''example.com'' = Some (hd example_domains)" "get_record example_ddb ''host.example.com'' = Some (last example_domains)"
  "d_cert_status (hd example_domains) = CertActive" "d_cert_status (last example_domains) = CertNone"
  "name_no_port (mk_domain ''example.com'' True False) = ''example.com''"
  "name_no_port (mk_domain ''host.example.com'' True False) = ''host.example.com''"
  by code_simp+

lemma example_status:
  "status_of (example_cert_env []) example_cert_world ''example.com'' = Inr CertOk"
  "status_of (example_cert_env []) example_cert_world ''host.example.com'' = Inr Missing"
  unfolding status_of_def clean_paths [OF example_names_clean(1)] clean_paths [OF example_names_clean(2)]
  by (simp_all add: paths_of_def path_join_def example_cert_env_def example_cert_world_def get_cert_status_def RENEW_BEFORE_def suffix_def)

lemma example_acquire:
  "\<exists>w'. acquire_at (example_cert_env []) ''host.example.com'' example_cert_world = Some (Inr (), w')"
  unfolding acquire_at_def clean_paths [OF example_names_clean(2)]
  by (simp add: acquire_cert_for_domain_def acquire_locked_def acquire_cert_dns01_def example_cert_env_def serves_public_zones_def
      example_dns_def str_truthy_def acme_try_def ready_attempt_def order_finished_def numeral_3_eq_3)


end
