(* ===== verification/DomainsApi.thy ===== *)
theory DomainsApi
  imports Certs AppStatus
begin

text \<open>
  \<open>web/routes/api/domains.py\<close> and \<open>core/operation_locks.py\<close>: the owner's requests that list, add, remove and promote
  domains, and the tasks they leave to run after the response.  A request runs to its end before the next one; what
  another request can do meanwhile is that it holds the operation lock or has scheduled the restart.
\<close>

section \<open>State and answers\<close>

datatype background = ReloadCaddy | AcquireCert domain

text \<open>\<open>as_shutdown\<close> is the shutdown event, if it was initialised, and whether it is set.\<close>

record api_state =
  as_world :: cert_world
  as_locked :: bool
  as_shutdown :: "bool option"
  as_background :: "background list"

datatype domain_refusal = Invalid string | Missing404 string | Conflict string string | Unavailable string string

record domain_info =
  di_name :: string
  di_tls :: bool
  di_mdns :: bool
  di_scheme :: string
  di_cert_status :: cert_status
  di_error_message :: "string option"
  di_is_primary :: bool

datatype domain_answer = Listed "domain_info list" | Refused domain_refusal | Crashed exn

section \<open>Listing\<close>

definition tls_cert_display :: "cert_env \<Rightarrow> cert_world \<Rightarrow> string \<Rightarrow> domain_row \<Rightarrow> (cert_status \<times> string option) result" where
  "tls_cert_display E w name rec =
     rbind (status_of E w name) (\<lambda>st.
       case st of
         CertOk \<Rightarrow> Inr (CertActive, None)
       | ExpiringSoon \<Rightarrow> Inr (CertActive, None)
       | Expired \<Rightarrow> Inr (CertError, Some (if str_truthy (d_error_message rec) then the (d_error_message rec) else ''certificate expired or unreadable''))
       | Missing \<Rightarrow> Inr (d_cert_status rec, d_error_message rec))"

definition domain_info_of :: "cert_env \<Rightarrow> cert_world \<Rightarrow> domain_row \<Rightarrow> domain_info result" where
  "domain_info_of E w rec =
     (let d = to_domain rec; name = name_no_port d
      in rbind (if \<not> dom_tls d then Inr (CertActive, None) else tls_cert_display E w name rec) (\<lambda>(cert_status, error).
           Inr \<lparr>di_name = name, di_tls = dom_tls d, di_mdns = dom_mdns d, di_scheme = scheme d, di_cert_status = cert_status,
                di_error_message = error, di_is_primary = d_is_primary rec\<rparr>))"

definition domain_list :: "cert_env \<Rightarrow> cert_world \<Rightarrow> domain_info list result" where
  "domain_list E w = rmap (domain_info_of E w) (load_records (cw_db w))"

definition answer_list :: "cert_env \<Rightarrow> cert_world \<Rightarrow> domain_answer" where
  "answer_list E w = (case domain_list E w of Inl e \<Rightarrow> Crashed e | Inr ds \<Rightarrow> Listed ds)"

section \<open>Adding and removing\<close>

definition validate_new_domain :: "string \<Rightarrow> bool \<Rightarrow> bool \<Rightarrow> database \<Rightarrow> string option" where
  "validate_new_domain name tls mdns db =
     (if name = [] then Some ''domain name is required''
      else if \<not> re_match_anchored CERT_DOMAIN_RE name then Some ''invalid domain name''
      else if mdns \<and> tls then Some ''Local domains are served over HTTP; set tls=false''
      else if list_ex (\<lambda>d. name_no_port d = name) (effective_domains db) then Some ''domain is already configured''
      else None)"

definition new_record :: "string \<Rightarrow> bool \<Rightarrow> bool \<Rightarrow> domain_row" where
  "new_record name tls mdns =
     \<lparr>d_name = name, d_tls = tls, d_mdns = mdns, d_is_primary = False,
      d_cert_status = (if tls then CertAcquiring else CertActive), d_error_message = None\<rparr>"

definition queue :: "background list \<Rightarrow> domain_answer \<Rightarrow> api_state \<Rightarrow> api_state" where
  "queue ts ans st = (case ans of Listed ds \<Rightarrow> st\<lparr>as_background := as_background st @ ts\<rparr> | _ \<Rightarrow> st)"

definition set_world :: "cert_world \<Rightarrow> api_state \<Rightarrow> api_state" where
  "set_world w st = st\<lparr>as_world := w\<rparr>"

definition answer_with :: "cert_env \<Rightarrow> background list \<Rightarrow> cert_world \<Rightarrow> api_state \<Rightarrow> domain_answer \<times> api_state" where
  "answer_with E ts w st = (answer_list E w, queue ts (answer_list E w) (set_world w st))"

definition add_domain :: "cert_env \<Rightarrow> string \<Rightarrow> bool \<Rightarrow> bool \<Rightarrow> api_state \<Rightarrow> domain_answer \<times> api_state" where
  "add_domain E raw_name tls mdns st =
     (let name = lower (strip raw_name); w = as_world st
      in case validate_new_domain name tls mdns (cw_db w) of
           Some err \<Rightarrow> (Refused (Invalid err), st)
         | None \<Rightarrow>
             (case upsert_record (new_record name tls mdns) (cw_db w) of
                Inl e \<Rightarrow> (Crashed e, st)
              | Inr db \<Rightarrow>
                  (let w = w\<lparr>cw_db := db\<rparr>;
                       ts = ReloadCaddy # (if tls then [AcquireCert (mk_domain name tls mdns)] else [])
                   in if mdns then answer_with E ts w st
                      else case add_zone (ce_dns E) (ce_wall E) name (cw_dns w) of
                        (Inr u, dns) \<Rightarrow> answer_with E ts (w\<lparr>cw_dns := dns\<rparr>) st
                      | (Inl e, dns) \<Rightarrow>
                          if exn_class e = DnsNotEnabled then answer_with E ts (w\<lparr>cw_dns := dns\<rparr>) st
                          else (Crashed e, set_world (w\<lparr>cw_dns := dns\<rparr>) st))))"

definition remove_domain :: "cert_env \<Rightarrow> string \<Rightarrow> api_state \<Rightarrow> domain_answer \<times> api_state" where
  "remove_domain E raw_name st =
     (let name = lower (strip raw_name); w = as_world st
      in case get_record (cw_db w) name of
           None \<Rightarrow> (Refused (Missing404 ''domain not found''), st)
         | Some removed \<Rightarrow>
             (case remove_non_primary_record (d_name removed) (cw_db w) of
                (False, db) \<Rightarrow>
                  (Refused (case get_record db name of
                       Some current \<Rightarrow> if d_is_primary current then Invalid ''cannot remove the primary domain'' else Missing404 ''domain not found''
                     | None \<Rightarrow> Missing404 ''domain not found''), st)
              | (True, db) \<Rightarrow>
                  (let w = w\<lparr>cw_db := db\<rparr>
                   in if d_mdns removed then answer_with E [ReloadCaddy] w st
                      else case remove_zone (ce_dns E) (ce_wall E) name (cw_dns w) of
                        (Inr u, dns) \<Rightarrow> answer_with E [ReloadCaddy] (w\<lparr>cw_dns := dns\<rparr>) st
                      | (Inl e, dns) \<Rightarrow> (Crashed e, set_world (w\<lparr>cw_dns := dns\<rparr>) st))))"

section \<open>Promoting\<close>

text \<open>\<open>start_exclusive_operation\<close>: taken, the lock is released by the operation itself at its end.\<close>

definition try_operation_lock :: "bool \<Rightarrow> bool \<times> bool" where
  "try_operation_lock locked = (\<not> locked, True)"

interpretation operation_claim: exclusive_claim Not try_operation_lock
  by unfold_locales (simp_all add: try_operation_lock_def)

definition is_shutdown_pending :: "api_state \<Rightarrow> bool" where
  "is_shutdown_pending st = (as_shutdown st = Some True)"

definition trigger_restart :: "api_state \<Rightarrow> unit result \<times> api_state" where
  "trigger_restart st =
     (if as_shutdown st = None then (Inl (Exn RuntimeError ''shutdown event not initialized''), st)
      else (Inr (), st\<lparr>as_shutdown := Some True\<rparr>))"

text \<open>The operation: \<open>reset\<close> is the answer of the system agent.\<close>

definition promote_and_restart :: "unit result \<Rightarrow> string \<Rightarrow> api_state \<Rightarrow> (domain_refusal + unit result) \<times> api_state" where
  "promote_and_restart reset name st =
     (if is_shutdown_pending st then (Inl (Conflict ''the instance is already restarting'' ''restart_pending''), st)
      else case reset of
        Inl e \<Rightarrow> (Inr (Inl e), st)
      | Inr u \<Rightarrow>
          (case set_primary_domain name (cw_db (as_world st)) of
             (Inl e, db) \<Rightarrow> (Inr (Inl e), set_world ((as_world st)\<lparr>cw_db := db\<rparr>) st)
           | (Inr changed, db) \<Rightarrow>
               (let st = set_world ((as_world st)\<lparr>cw_db := db\<rparr>) st
                in if changed then (case trigger_restart st of (r, st') \<Rightarrow> (Inr r, st')) else (Inr (Inr ()), st))))"

definition promotion_answer :: "cert_env \<Rightarrow> (domain_refusal + unit result) \<Rightarrow> cert_world \<Rightarrow> domain_answer" where
  "promotion_answer E r w =
     (case r of
        Inl refusal \<Rightarrow> Refused refusal
      | Inr (Inr u) \<Rightarrow> answer_list E w
      | Inr (Inl e) \<Rightarrow>
          if exn_class e = SystemAgentError then Refused (Unavailable ''could not prepare the instance for a safe restart'' ''restart_unavailable'')
          else if exn_class e = DomainNotFoundError then Refused (Missing404 ''domain not found'')
          else if exn_class e = AppsBusyForPrimaryChangeError
          then Refused (Conflict ''wait for active app operations to finish before changing the primary domain'' ''apps_busy'')
          else Crashed e)"

definition make_primary_domain :: "cert_env \<Rightarrow> unit result \<Rightarrow> string \<Rightarrow> api_state \<Rightarrow> domain_answer \<times> api_state" where
  "make_primary_domain E reset raw_name st =
     (let name = lower (strip raw_name); w = as_world st
      in case get_record (cw_db w) name of
           None \<Rightarrow> (Refused (Missing404 ''domain not found''), st)
         | Some rec \<Rightarrow>
             if d_is_primary rec then (answer_list E w, st)
             else if is_shutdown_pending st then (Refused (Conflict ''the instance is already restarting'' ''restart_pending''), st)
             else case (if d_tls rec then rbind (status_of E w name) (\<lambda>s. Inr (s \<in> {CertOk, ExpiringSoon})) else Inr True) of
               Inl e \<Rightarrow> (Crashed e, st)
             | Inr False \<Rightarrow> (Refused (Conflict ''domain must have a usable TLS certificate before it can be made primary'' ''domain_not_ready''), st)
             | Inr True \<Rightarrow>
                 (case try_operation_lock (as_locked st) of
                    (False, _) \<Rightarrow> (Refused (Conflict ''Another archive or primary-domain operation is already in progress.'' ''operation_busy''), st)
                  | (True, locked) \<Rightarrow>
                      (case promote_and_restart reset name (st\<lparr>as_locked := locked\<rparr>) of
                         (r, st') \<Rightarrow> (promotion_answer E r (as_world st'), st'\<lparr>as_locked := False\<rparr>))))"

section \<open>Background tasks\<close>

text \<open>\<open>_acquire_cert\<close>; an exception of the reload ends the task.  No value: the acquisition does not return.\<close>

definition acquire_cert :: "cert_env \<Rightarrow> domain \<Rightarrow> cert_world \<Rightarrow> cert_world option" where
  "acquire_cert E d w =
     map_option (\<lambda>(r, w').
       case r of
         Inl e \<Rightarrow> w'\<lparr>cw_db := set_record_status (name_no_port d) CertError (Some (exn_text e)) (cw_db w')\<rparr>
       | Inr u \<Rightarrow> snd (reload_caddy_for_domains E (mark_cert_active (name_no_port d) w')))
     (ensure_cert_for E d w)"

fun run_background :: "cert_env \<Rightarrow> background \<Rightarrow> cert_world \<Rightarrow> cert_world option" where
  "run_background E ReloadCaddy w = Some (snd (reload_caddy_for_domains E w))"
| "run_background E (AcquireCert d) w = acquire_cert E d w"

datatype domain_request =
    AddDomain string bool bool
  | RemoveDomain string
  | MakePrimary string "unit result"
  | NextBackground

fun serve :: "cert_env \<Rightarrow> domain_request \<Rightarrow> api_state \<Rightarrow> api_state" where
  "serve E (AddDomain name tls mdns) st = snd (add_domain E name tls mdns st)"
| "serve E (RemoveDomain name) st = snd (remove_domain E name st)"
| "serve E (MakePrimary name reset) st = snd (make_primary_domain E reset name st)"
| "serve E NextBackground st =
     (case as_background st of
        [] \<Rightarrow> st
      | t # ts \<Rightarrow>
          (case run_background E t (as_world st) of
             None \<Rightarrow> st
           | Some w \<Rightarrow> st\<lparr>as_world := w, as_background := ts\<rparr>))"

section \<open>Acquisition after the response\<close>

lemma ensure_clean:
  assumes "dns_ready (ce_dns E)" and "clock_ok (ce_broker E (name_no_port d))" and "no_challenge (cw_dns w)" and "clean_name (name_no_port d)"
  shows "\<exists>r w'. ensure_cert_for E d w = Some (r, w') \<and> cw_db w' = cw_db w \<and> dns_back (ce_dns E) (cw_dns w) (cw_dns w')
    \<and> (dom_tls d \<longrightarrow> r = Inr () \<longrightarrow> (\<exists>pem key. pair_of (cw_files w') (paths_of E (name_no_port d)) = (Some pem, Some key)))"
proof -
  let ?n = "name_no_port d"
  obtain st where st: "dns_back (ce_dns E) (cw_dns w) st" "acquire_cert_for_domain E ?n (paths_of E ?n) w = Some
    (case outcome E ?n of
       Inl e \<Rightarrow> (Inl e, w\<lparr>cw_dns := st\<rparr>)
     | Inr pem \<Rightarrow> (Inr (), w\<lparr>cw_dns := st, cw_files := write_cert_and_key (paths_of E ?n) pem (ce_key_pem E ?n) (cw_files w)\<rparr>))"
    using acquire_back [OF assms(1-3)] by blast
  have acquired: "\<exists>r w'. acquire_at E ?n w = Some (r, w') \<and> cw_db w' = cw_db w \<and> dns_back (ce_dns E) (cw_dns w) (cw_dns w')
      \<and> (r = Inr () \<longrightarrow> (\<exists>pem key. pair_of (cw_files w') (paths_of E ?n) = (Some pem, Some key)))"
    using st pair_written [OF assms(4)] by (cases "outcome E ?n") (simp_all add: acquire_at_def clean_paths [OF assms(4)])
  show ?thesis
  proof (cases "dom_tls d \<and> status_of E w ?n \<noteq> Inr CertOk \<and> \<not> isl (status_of E w ?n)")
    case True
    with acquired show ?thesis
      by (cases "status_of E w ?n") (auto simp: ensure_cert_for_def split: cert_state.splits)
  next
    case False
    have "\<exists>pem key. pair_of (cw_files w) (paths_of E ?n) = (Some pem, Some key)" if "status_of E w ?n = Inr CertOk"
      using that by (auto simp: status_of_def clean_paths [OF assms(4)] get_cert_status_def pair_of_def split: option.splits sum.splits)
    with False show ?thesis
      by (cases "status_of E w ?n") (auto simp: ensure_cert_for_def)
  qed
qed

lemma reload_keeps: "cw_db (snd (reload_caddy_for_domains E w)) = cw_db w \<and> cw_dns (snd (reload_caddy_for_domains E w)) = cw_dns w
    \<and> cw_files (snd (reload_caddy_for_domains E w)) = cw_files w"
  by (simp add: reload_caddy_for_domains_def split: sum.splits)

text \<open>C25: A TLS domain does not stay in the state \<open>acquiring\<close>: the task that acquires its certificate comes to an end, and then
  the domain is active, with both files of its certificate on disk, or in error with the reason.\<close>

theorem acquisition_settles:
  assumes "dns_ready (ce_dns E)" and "clock_ok (ce_broker E (name_no_port d))" and "no_challenge (cw_dns w)"
    and "clean_name (name_no_port d)" and "dom_tls d"
  shows "\<exists>w'. acquire_cert E d w = Some w'
    \<and> ((\<exists>pem key. pair_of (cw_files w') (paths_of E (name_no_port d)) = (Some pem, Some key)
          \<and> cw_db w' = set_record_status (name_no_port d) CertActive None (cw_db w))
      \<or> (\<exists>msg. cw_db w' = set_record_status (name_no_port d) CertError (Some msg) (cw_db w)))"
proof -
  obtain r w1 where w1: "ensure_cert_for E d w = Some (r, w1)" "cw_db w1 = cw_db w"
    "r = Inr () \<longrightarrow> (\<exists>pem key. pair_of (cw_files w1) (paths_of E (name_no_port d)) = (Some pem, Some key))"
    using ensure_clean [OF assms(1-4)] assms(5) by blast
  then show ?thesis
    by (cases r) (auto simp: acquire_cert_def reload_keeps mark_cert_active_def)
qed

section \<open>Promotion\<close>

lemma make_primary_effect:
  assumes "make_primary_domain E reset raw_name st = (ans, st')"
  shows "as_locked st' = as_locked st \<and> cw_dns (as_world st') = cw_dns (as_world st)
    \<and> (cw_db (as_world st') = cw_db (as_world st)
      \<or> (\<exists>rec. get_record (cw_db (as_world st)) (lower (strip raw_name)) = Some rec \<and> \<not> d_is_primary rec
          \<and> (d_tls rec \<longrightarrow> status_of E (as_world st) (lower (strip raw_name)) \<in> {Inr CertOk, Inr ExpiringSoon})
          \<and> \<not> as_locked st \<and> \<not> is_shutdown_pending st \<and> reset = Inr () \<and> busy_apps (cw_db (as_world st)) = []
          \<and> set_primary_domain (lower (strip raw_name)) (cw_db (as_world st)) = (Inr True, cw_db (as_world st'))
          \<and> (as_shutdown st \<noteq> None \<longrightarrow> is_shutdown_pending st')))"
proof -
  let ?name = "lower (strip raw_name)"
  let ?db = "cw_db (as_world st)"
  let ?op = "promote_and_restart reset ?name (st\<lparr>as_locked := True\<rparr>)"
  have noop: "db' = ?db" if "set_primary_domain ?name ?db = (r, db')" "r \<noteq> Inr True" for r db'
    using that by (auto simp: set_primary_domain_def promote_def Let_def split: sum.splits option.splits if_splits prod.splits)
  have idle: "busy_apps ?db = []" if "set_primary_domain ?name ?db = (Inr True, db')" for db'
    using that by (auto simp: set_primary_domain_def promote_def Let_def split: sum.splits option.splits if_splits prod.splits)
  have dns: "cw_dns (as_world (snd ?op)) = cw_dns (as_world st)"
    by (auto simp: promote_and_restart_def set_world_def trigger_restart_def Let_def split: sum.splits prod.splits)
  have op: "cw_db (as_world (snd ?op)) = ?db
    \<or> (\<not> is_shutdown_pending st \<and> reset = Inr () \<and> busy_apps ?db = []
        \<and> set_primary_domain ?name ?db = (Inr True, cw_db (as_world (snd ?op)))
        \<and> (as_shutdown st \<noteq> None \<longrightarrow> as_shutdown (snd ?op) = Some True))"
  proof (cases "is_shutdown_pending st \<or> isl reset")
    case True
    then show ?thesis
      by (auto simp: promote_and_restart_def is_shutdown_pending_def split: sum.splits)
  next
    case False
    obtain r db where sp: "set_primary_domain ?name ?db = (r, db)" by fastforce
    from False have "reset = Inr ()" "\<not> is_shutdown_pending st"
      by (cases reset; simp)+
    with sp noop [OF sp] idle show ?thesis
      by (cases "r = Inr True"; cases r)
        (auto simp: promote_and_restart_def is_shutdown_pending_def set_world_def trigger_restart_def Let_def)
  qed
  show ?thesis
  proof (cases "get_record ?db ?name")
    case None
    with assms show ?thesis by (simp add: make_primary_domain_def Let_def)
  next
    case (Some rec)
    let ?usable = "if d_tls rec then rbind (status_of E (as_world st) ?name) (\<lambda>s. Inr (s \<in> {CertOk, ExpiringSoon})) else Inr True"
    show ?thesis
    proof (cases "d_is_primary rec \<or> is_shutdown_pending st \<or> ?usable \<noteq> Inr True \<or> as_locked st")
      case True
      then have "st' = st"
        using assms Some
        by (cases ?usable) (auto simp: make_primary_domain_def Let_def try_operation_lock_def split: if_splits bool.splits)
      then show ?thesis by simp
    next
      case False
      then have usable: "?usable = Inr True" by blast
      have "st' = (snd ?op)\<lparr>as_locked := False\<rparr>"
        using assms False
        unfolding make_primary_domain_def Let_def Some option.case usable sum.case bool.case
        by (simp add: try_operation_lock_def split: prod.splits)
      moreover have "d_tls rec \<longrightarrow> status_of E (as_world st) ?name \<in> {Inr CertOk, Inr ExpiringSoon}"
        using usable by (auto split: if_splits)
      ultimately show ?thesis
        using op dns Some False by (auto simp: is_shutdown_pending_def)
    qed
  qed
qed

text \<open>C23: The primary domain changes only at an owner's request for a configured domain that has a usable certificate or needs
  none, while no other exclusive operation and no restart is under way and no app is busy, after the system agent has
  agreed; the restart is then scheduled (if the event exists) and the lock is as before.  Otherwise the database stays.\<close>

theorem promotion_guarded:
  assumes "make_primary_domain E reset raw_name st = (ans, st')"
  shows "as_locked st' = as_locked st
    \<and> (cw_db (as_world st') = cw_db (as_world st)
      \<or> (\<exists>rec. get_record (cw_db (as_world st)) (lower (strip raw_name)) = Some rec \<and> \<not> d_is_primary rec
          \<and> (d_tls rec \<longrightarrow> status_of E (as_world st) (lower (strip raw_name)) \<in> {Inr CertOk, Inr ExpiringSoon})
          \<and> \<not> as_locked st \<and> \<not> is_shutdown_pending st \<and> reset = Inr () \<and> busy_apps (cw_db (as_world st)) = []
          \<and> set_primary_domain (lower (strip raw_name)) (cw_db (as_world st)) = (Inr True, cw_db (as_world st'))
          \<and> (as_shutdown st \<noteq> None \<longrightarrow> is_shutdown_pending st')))"
  using make_primary_effect [OF assms] by blast

section \<open>Every public domain is answered for\<close>

text \<open>Names as the registry is meant to hold them: lower case, no port, as the zones spell them.\<close>

definition plain_name :: "string \<Rightarrow> bool" where
  "plain_name n = (lower n = n \<and> CHR '':'' \<notin> set n \<and> normalize_zone n = n)"

definition zones_cover :: "database \<Rightarrow> dns_state \<Rightarrow> bool" where
  "zones_cover db dns =
     list_all (\<lambda>r. plain_name (d_name r) \<and> (d_mdns r \<or> is_local_only (d_name r) \<or> d_name r \<in> set (dz_zones dns))) (t_domains db)"

definition registry_served :: "cert_env \<Rightarrow> api_state \<Rightarrow> bool" where
  "registry_served E st =
     (domains_ok (cw_db (as_world st)) \<and> zones_cover (cw_db (as_world st)) (cw_dns (as_world st))
      \<and> dns_ok (ce_dns E) (cw_dns (as_world st)) \<and> no_challenge (cw_dns (as_world st)))"

lemma apply_zones_ready:
  assumes "dns_ready cf" and "distinct zones"
  shows "\<exists>dns'. apply_zones cf now zones dns = (Inr (), dns') \<and> dz_zones dns' = zones \<and> dz_records dns' = dz_records dns \<and> dns_ok cf dns'"
proof -
  let ?st = "dns\<lparr>dz_zones := zones, dz_files := fold (discard_zone_files (dc_zones_dir cf)) (filter (\<lambda>z. z \<notin> set zones) (dz_zones dns)) (dz_files dns)\<rparr>"
  obtain st' where st': "write_config cf now ?st = (Inr (), st')" "dz_zones st' = zones" "dz_records st' = dz_records dns"
    using rendered_current [OF assms(1), of now ?st] by auto
  have "dc_start cf = Inr ()"
    using assms(1) by (simp add: dns_ready_def)
  with st' apply_keeps [OF assms, of now dns] show ?thesis
    by (auto simp: apply_zones_def Let_def match_process_to_zones_def cleanup_def)
qed

lemma add_zone_ready:
  assumes "dns_ready cf" and "dns_ok cf dns"
  shows "\<exists>dns'. add_zone cf now z dns = (Inr (), dns') \<and> dz_records dns' = dz_records dns \<and> dns_ok cf dns'
    \<and> set (dz_zones dns) \<subseteq> set (dz_zones dns') \<and> (is_local_only z \<or> normalize_zone z \<in> set (dz_zones dns'))"
proof -
  have "distinct (dz_zones dns)" using assms(2) by (simp add: dns_ok_def)
  then show ?thesis
    using assms apply_zones_ready [OF assms(1), of "dz_zones dns @ [normalize_zone z]" now dns]
    by (auto simp: add_zone_def dns_ready_def)
qed

lemma remove_zone_ready:
  assumes "dns_ready cf" and "dns_ok cf dns"
  shows "\<exists>dns'. remove_zone cf now z dns = (Inr (), dns') \<and> dz_records dns' = dz_records dns \<and> dns_ok cf dns'
    \<and> set (dz_zones dns) - {normalize_zone z} \<subseteq> set (dz_zones dns')"
proof -
  have "distinct (dz_zones dns)" using assms(2) by (simp add: dns_ok_def)
  then show ?thesis
    using assms apply_zones_ready [OF assms(1), of "filter (\<lambda>x. x \<noteq> normalize_zone z) (dz_zones dns)" now dns]
    by (auto simp: remove_zone_def dns_ready_def)
qed

text \<open>A host name the routes accept is plain.\<close>

lemma label_last: "lang DOMAIN_LABEL u \<Longrightarrow> u \<noteq> [] \<and> is_alnum_lower (last u)"
  unfolding DOMAIN_LABEL_def lang.simps(1-4) by auto

lemma cert_domain_last: "lang CERT_DOMAIN_RE s \<Longrightarrow> s \<noteq> [] \<and> is_alnum_lower (last s)"
proof -
  have dotted: "lang DOTTED_LABEL u \<Longrightarrow> u \<noteq> [] \<and> is_alnum_lower (last u)" for u
    unfolding DOTTED_LABEL_def lang.simps(2,3) using label_last by auto
  have star: "in_star (lang DOTTED_LABEL) u \<Longrightarrow> u = [] \<or> is_alnum_lower (last u)" for u
    by (induction rule: in_star.induct) (auto simp: last_append dest: dotted)
  assume "lang CERT_DOMAIN_RE s"
  then obtain u v w where s: "s = u @ v @ w" "lang DOTTED_LABEL v" "in_star (lang DOTTED_LABEL) w"
    unfolding CERT_DOMAIN_RE_def lang.simps(3,5) by blast
  with dotted [OF s(2)] star [OF s(3)] show ?thesis
    by (cases "w = []") auto
qed

lemma domain_char_lower: "domain_char c \<Longrightarrow> lower_char c = c \<and> c \<noteq> CHR '':'' \<and> \<not> is_space c"
  by (auto simp: domain_char_def is_alnum_lower_def is_lower_alpha_def is_digit_def lower_char_def is_space_def code_def)

lemma strip_id: "s \<noteq> [] \<Longrightarrow> \<not> is_space (hd s) \<Longrightarrow> \<not> is_space (last s) \<Longrightarrow> strip s = s"
  by (simp add: strip_def rstrip_if_def dropWhile_eq_self_iff [THEN iffD2] hd_rev)

lemma rstrip_id: "s \<noteq> [] \<Longrightarrow> \<not> p (last s) \<Longrightarrow> rstrip_if p s = s"
  by (simp add: rstrip_if_def dropWhile_eq_self_iff [THEN iffD2] hd_rev)

lemma accepted_plain:
  assumes "validate_new_domain (lower (strip raw)) tls mdns db = None"
  shows "plain_name (lower (strip raw))"
proof -
  let ?n = "lower (strip raw)"
  have re: "re_match_anchored CERT_DOMAIN_RE ?n" and ne: "?n \<noteq> []"
    using assms by (auto simp: validate_new_domain_def split: if_splits)
  have "last ?n \<noteq> newline"
  proof -
    have "\<not> is_space (last (strip raw))"
      using strip_no_space ne by simp
    then have "last (strip raw) \<noteq> newline" by (auto simp: is_space_def newline_def code_def)
    then show ?thesis
      using ne lower_char_eq_iff [of newline "last (strip raw)"] by (simp add: lower_def last_map newline_def code_def)
  qed
  with re have l: "lang CERT_DOMAIN_RE ?n"
    by (simp add: re_match_anchored_def rx_matches_lang)
  have c: "lower_char c = c" "c \<noteq> CHR '':''" "\<not> is_space c" if "c \<in> set ?n" for c
    using domain_char_lower [OF domain_chars [OF l that]] by simp_all
  have ends: "\<not> is_space (hd ?n)" "\<not> is_space (last ?n)" "last ?n \<noteq> CHR ''.''"
    using c(3) [of "hd ?n"] c(3) [of "last ?n"] ne cert_domain_last [OF l]
    by (auto simp: is_alnum_lower_def is_lower_alpha_def is_digit_def code_def)
  have id: "strip ?n = ?n" "rstrip_if (\<lambda>c. c = CHR ''.'') ?n = ?n"
    by (rule strip_id [OF ne ends(1,2)]) (rule rstrip_id [where p = "\<lambda>c. c = CHR ''.''", OF ne ends(3)])
  have "CHR '':'' \<notin> set ?n"
    using c(2) by blast
  then show ?thesis
    unfolding plain_name_def normalize_zone_def id by simp
qed

text \<open>The requests of the owner, for names without a port.\<close>

fun portless :: "domain_request \<Rightarrow> bool" where
  "portless (RemoveDomain name) = (CHR '':'' \<notin> set name)"
| "portless _ = True"

lemma answer_with_world [simp]: "as_world (snd (answer_with E ts w st)) = w"
  by (simp add: answer_with_def queue_def set_world_def split: domain_answer.split)

lemma registry_served_world:
  "registry_served E st \<longleftrightarrow> domains_ok (cw_db (as_world st)) \<and> zones_cover (cw_db (as_world st)) (cw_dns (as_world st))
     \<and> dns_ok (ce_dns E) (cw_dns (as_world st)) \<and> no_challenge (cw_dns (as_world st))"
  by (simp add: registry_served_def)

lemma served_add:
  assumes "dns_ready (ce_dns E)" and "registry_served E st"
  shows "registry_served E (snd (add_domain E raw tls mdns st))"
proof (cases "validate_new_domain (lower (strip raw)) tls mdns (cw_db (as_world st))")
  case None
  let ?n = "lower (strip raw)"
  let ?db = "cw_db (as_world st)"
  let ?dns = "cw_dns (as_world st)"
  have plain: "plain_name ?n" by (rule accepted_plain [OF None])
  have inv: "domains_ok ?db" "zones_cover ?db ?dns" "dns_ok (ce_dns E) ?dns" "no_challenge ?dns"
    using assms(2) by (simp_all add: registry_served_def)
  show ?thesis
  proof (cases "upsert_record (new_record ?n tls mdns) ?db")
    case (Inr db)
    have ok: "domains_ok db"
      by (rule upsert_domains_ok [OF Inr inv(1)])
    have rows: "r \<in> set (t_domains db) \<Longrightarrow> (d_name r = ?n \<and> d_mdns r = mdns) \<or> (\<exists>r' \<in> set (t_domains ?db). d_name r = d_name r' \<and> d_mdns r = d_mdns r')" for r
      using Inr plain by (auto simp: upsert_record_def Let_def new_record_def plain_name_def split: if_splits)
    have cover: "zones_cover db dns" if "set (dz_zones ?dns) \<subseteq> set (dz_zones dns)" "mdns \<or> is_local_only ?n \<or> ?n \<in> set (dz_zones dns)" for dns
      unfolding zones_cover_def list_all_iff
    proof
      fix r assume "r \<in> set (t_domains db)"
      from rows [OF this] show "plain_name (d_name r) \<and> (d_mdns r \<or> is_local_only (d_name r) \<or> d_name r \<in> set (dz_zones dns))"
      proof
        assume "\<exists>r' \<in> set (t_domains ?db). d_name r = d_name r' \<and> d_mdns r = d_mdns r'"
        then obtain r' where "r' \<in> set (t_domains ?db)" "d_name r = d_name r'" "d_mdns r = d_mdns r'" by blast
        with inv(2) that(1) show ?thesis unfolding zones_cover_def list_all_iff by (metis subsetD)
      qed (use that(2) plain in auto)
    qed
    show ?thesis
    proof (cases mdns)
      case True
      with Inr None cover [of ?dns] ok inv show ?thesis
        by (simp add: add_domain_def Let_def registry_served_def)
    next
      case False
      obtain dns' where dns': "add_zone (ce_dns E) (ce_wall E) ?n ?dns = (Inr (), dns')" "dz_records dns' = dz_records ?dns"
        "dns_ok (ce_dns E) dns'" "set (dz_zones ?dns) \<subseteq> set (dz_zones dns')" "is_local_only ?n \<or> normalize_zone ?n \<in> set (dz_zones dns')"
        using add_zone_ready [OF assms(1) inv(3)] by blast
      have "normalize_zone ?n = ?n" using plain by (simp add: plain_name_def)
      with False Inr None dns' cover [of dns'] ok inv show ?thesis
        by (simp add: add_domain_def Let_def registry_served_def no_challenge_def)
    qed
  qed (use None assms(2) in \<open>simp add: add_domain_def Let_def\<close>)
qed (use assms(2) in \<open>simp add: add_domain_def Let_def\<close>)

lemma lower_no_colon: "CHR '':'' \<notin> set s \<Longrightarrow> CHR '':'' \<notin> set (lower s)"
proof (induction s)
  case (Cons c s)
  have "lower_char c = CHR '':'' \<longleftrightarrow> c = CHR '':''"
    by (rule lower_char_eq_iff) (simp_all add: code_def)
  with Cons.prems have "lower_char c \<noteq> CHR '':''" by (metis list.set_intros(1))
  with Cons show ?case by (metis list.set_intros(2) lower_def list.simps(9) set_ConsD)
qed (simp add: lower_def)

lemma removed_name_gone:
  assumes "distinct (map d_name rows)" and "removed \<in> set rows"
    and "length (filter (\<lambda>r. \<not> (d_name r = d_name removed \<and> \<not> d_is_primary r)) rows) < length rows"
    and "r \<in> set (filter (\<lambda>r. \<not> (d_name r = d_name removed \<and> \<not> d_is_primary r)) rows)"
  shows "d_name r \<noteq> d_name removed"
proof
  assume same: "d_name r = d_name removed"
  have only: "x = removed" if "x \<in> set rows" "d_name x = d_name removed" for x
    using assms(1,2) that by (meson distinct_map inj_onD)
  from assms(4) have "r \<in> set rows" "d_is_primary r" using same by simp_all
  with only same have primary: "d_is_primary removed" by metis
  have "filter (\<lambda>r. \<not> (d_name r = d_name removed \<and> \<not> d_is_primary r)) rows = rows"
    by (rule filter_True) (metis only primary)
  with assms(3) show False by simp
qed

lemma served_remove:
  assumes "dns_ready (ce_dns E)" and "registry_served E st" and "CHR '':'' \<notin> set raw"
  shows "registry_served E (snd (remove_domain E raw st))"
proof (cases "get_record (cw_db (as_world st)) (lower (strip raw))")
  case (Some removed)
  let ?n = "lower (strip raw)"
  let ?db = "cw_db (as_world st)"
  let ?dns = "cw_dns (as_world st)"
  have inv: "domains_ok ?db" "zones_cover ?db ?dns" "dns_ok (ce_dns E) ?dns" "no_challenge ?dns"
    using assms(2) by (simp_all add: registry_served_def)
  have row: "removed \<in> set (t_domains ?db)" "lower (before CHR '':'' (d_name removed)) = lower (before CHR '':'' ?n)"
    using get_record_Some [OF Some] by simp_all
  have removed_plain: "plain_name (d_name removed)" using inv(2) row(1) by (simp add: zones_cover_def list_all_iff)
  then have removed_lower: "lower (d_name removed) = d_name removed" and removed_colon: "CHR '':'' \<notin> set (d_name removed)"
    unfolding plain_name_def by blast+
  have no_colon: "CHR '':'' \<notin> set ?n"
  proof -
    have "set (strip raw) \<subseteq> set raw"
      by (auto simp: strip_def rstrip_if_def dest!: set_dropWhileD)
    with assms(3) have "CHR '':'' \<notin> set (strip raw)" by blast
    then show ?thesis by (rule lower_no_colon)
  qed
  have name: "d_name removed = ?n"
    using row(2) unfolding before_id [OF removed_colon] before_id [OF no_colon] lower_idem removed_lower .
  have plain: "plain_name ?n"
    using removed_plain unfolding name .
  obtain b db where rm: "remove_non_primary_record (d_name removed) ?db = (b, db)" by fastforce
  have db: "t_domains db = filter (\<lambda>r. \<not> (d_name r = lower (d_name removed) \<and> \<not> d_is_primary r)) (t_domains ?db)"
    "b \<longleftrightarrow> length (t_domains db) < length (t_domains ?db)"
    using rm by (auto simp: remove_non_primary_record_def Let_def)
  have ok: "domains_ok db"
    using remove_non_primary_domains_ok [OF inv(1), of "d_name removed"] rm by simp
  show ?thesis
  proof (cases b)
    case True
    have names: "lower (d_name removed) = d_name removed" "distinct (map d_name (t_domains ?db))"
      using removed_lower inv(1) by (simp_all add: domains_ok_def)
    have gone: "d_name r \<noteq> ?n" if "r \<in> set (t_domains db)" for r
    proof -
      from True db(2) have "length (t_domains db) < length (t_domains ?db)" by blast
      from removed_name_gone [OF names(2) row(1) this [unfolded db(1) names(1)] that [unfolded db(1) names(1)]]
      show ?thesis unfolding name .
    qed
    have kept: "set (t_domains db) \<subseteq> set (t_domains ?db)" unfolding db(1) by auto
    have cover: "zones_cover db dns" if "set (dz_zones ?dns) - {?n} \<subseteq> set (dz_zones dns)" for dns
      unfolding zones_cover_def list_all_iff
    proof
      fix r assume r: "r \<in> set (t_domains db)"
      with kept inv(2) have "plain_name (d_name r) \<and> (d_mdns r \<or> is_local_only (d_name r) \<or> d_name r \<in> set (dz_zones ?dns))"
        by (auto simp: zones_cover_def list_all_iff)
      with gone [OF r] that show "plain_name (d_name r) \<and> (d_mdns r \<or> is_local_only (d_name r) \<or> d_name r \<in> set (dz_zones dns))"
        by blast
    qed
    show ?thesis
    proof (cases "d_mdns removed")
      case True
      with \<open>b\<close> Some rm cover [of ?dns] ok inv show ?thesis
        by (simp add: remove_domain_def Let_def registry_served_def Diff_subset)
    next
      case False
      obtain dns' where dns': "remove_zone (ce_dns E) (ce_wall E) ?n ?dns = (Inr (), dns')" "dz_records dns' = dz_records ?dns"
        "dns_ok (ce_dns E) dns'" "set (dz_zones ?dns) - {normalize_zone ?n} \<subseteq> set (dz_zones dns')"
        using remove_zone_ready [OF assms(1) inv(3)] by blast
      have "normalize_zone ?n = ?n" using plain by (simp add: plain_name_def)
      with False \<open>b\<close> Some rm dns' cover [of dns'] ok inv show ?thesis
        by (simp add: remove_domain_def Let_def registry_served_def no_challenge_def)
    qed
  next
    case False
    with Some rm assms(2) show ?thesis by (simp add: remove_domain_def Let_def)
  qed
qed (use assms(2) in \<open>simp add: remove_domain_def Let_def\<close>)

text \<open>What the other requests leave of a row: its name and whether it is local.\<close>

definition names_kept :: "database \<Rightarrow> database \<Rightarrow> bool" where
  "names_kept db db' = (map (\<lambda>r. (d_name r, d_mdns r)) (t_domains db') = map (\<lambda>r. (d_name r, d_mdns r)) (t_domains db))"

lemma cover_same_names:
  assumes "names_kept db db'" and "zones_cover db dns" and "dz_zones dns' = dz_zones dns"
  shows "zones_cover db' dns'"
proof -
  have "zones_cover x y = list_all (\<lambda>(n, m). plain_name n \<and> (m \<or> is_local_only n \<or> n \<in> set (dz_zones y)))
      (map (\<lambda>r. (d_name r, d_mdns r)) (t_domains x))" for x y
    by (simp add: zones_cover_def list.pred_map comp_def)
  with assms show ?thesis unfolding names_kept_def by simp
qed

lemma served_step:
  assumes "registry_served E st" and "domains_ok (cw_db w)" and "names_kept (cw_db (as_world st)) (cw_db w)"
    and "dns_back (ce_dns E) (cw_dns (as_world st)) (cw_dns w)"
  shows "registry_served E (st\<lparr>as_world := w, as_background := ts\<rparr>)"
proof -
  from assms(1,4) have "zones_cover (cw_db w) (cw_dns w)"
    by (intro cover_same_names [OF assms(3)]) (simp_all add: registry_served_def dns_back_def)
  with assms dns_back_challenge [OF assms(4)] show ?thesis
    by (simp add: registry_served_def dns_back_def)
qed

lemma status_names [simp]: "names_kept db (set_record_status name st err db)"
  by (auto simp: names_kept_def set_record_status_def)

lemma acquire_cert_keeps:
  assumes "dns_ready (ce_dns E)" and "\<And>h. clock_ok (ce_broker E h)" and "no_challenge (cw_dns w)" and "domains_ok (cw_db w)"
    and "acquire_cert E d w = Some w'"
  shows "domains_ok (cw_db w') \<and> names_kept (cw_db w) (cw_db w') \<and> dns_back (ce_dns E) (cw_dns w) (cw_dns w')"
proof -
  have at: "cw_db w1 = cw_db w \<and> dns_back (ce_dns E) (cw_dns w) (cw_dns w1)" if acq: "acquire_at E n w = Some (r, w1)" for n r w1
  proof (cases "cert_key_paths_for (ce_certs_dir E) n")
    case (Inr paths)
    from acquire_back [OF assms(1,2,3), where host = n and paths = paths] acq Inr show ?thesis
      by (cases "outcome E n") (auto simp: acquire_at_def)
  qed (use acq in \<open>simp add: acquire_at_def\<close>)
  obtain r w1 where w1: "ensure_cert_for E d w = Some (r, w1)" "w' = (case r of
         Inl e \<Rightarrow> w1\<lparr>cw_db := set_record_status (name_no_port d) CertError (Some (exn_text e)) (cw_db w1)\<rparr>
       | Inr u \<Rightarrow> snd (reload_caddy_for_domains E (mark_cert_active (name_no_port d) w1)))"
    using assms(5) by (auto simp: acquire_cert_def)
  then have "cw_db w1 = cw_db w \<and> dns_back (ce_dns E) (cw_dns w) (cw_dns w1)"
    using at by (auto simp: ensure_cert_for_def split: if_splits sum.splits cert_state.splits)
  with w1(2) assms(4) show ?thesis
    by (cases r) (simp_all add: reload_keeps mark_cert_active_def set_record_status_domains_ok)
qed

lemma served_promote:
  assumes "registry_served E st" and "make_primary_domain E reset raw st = (ans, st')"
  shows "registry_served E st'"
proof -
  have ok: "domains_ok (cw_db (as_world st))" using assms(1) by (simp add: registry_served_def)
  have dns: "cw_dns (as_world st') = cw_dns (as_world st)"
    and eff: "cw_db (as_world st') = cw_db (as_world st) \<or>
      set_primary_domain (lower (strip raw)) (cw_db (as_world st)) = (Inr True, cw_db (as_world st'))"
    using make_primary_effect [OF assms(2)] by blast+
  have "domains_ok (cw_db (as_world st')) \<and> names_kept (cw_db (as_world st)) (cw_db (as_world st'))"
    using eff
  proof
    assume "set_primary_domain (lower (strip raw)) (cw_db (as_world st)) = (Inr True, cw_db (as_world st'))"
    then have p: "promote (lower (before CHR '':'' (lower (strip raw)))) (cw_db (as_world st)) = Inr (True, cw_db (as_world st'))"
      by (simp add: set_primary_domain_def split: sum.splits prod.splits)
    obtain nm where "t_domains (cw_db (as_world st')) = map (\<lambda>r. r\<lparr>d_is_primary := (d_name r = nm)\<rparr>) (t_domains (cw_db (as_world st)))"
      by (rule promote_True [OF p ok]) (rule that)
    then have "names_kept (cw_db (as_world st)) (cw_db (as_world st'))"
      by (simp add: names_kept_def comp_def)
    with promote_domains_ok [OF p ok] show ?thesis by blast
  qed (use ok in \<open>simp add: names_kept_def\<close>)
  moreover have "dns_back (ce_dns E) (cw_dns (as_world st)) (cw_dns (as_world st'))"
    unfolding dns by (rule dns_back_refl)
  ultimately have "registry_served E (st\<lparr>as_world := as_world st', as_background := []\<rparr>)"
    using served_step [OF assms(1)] by blast
  then show ?thesis by (simp add: registry_served_def)
qed

text \<open>C19: Every public domain of the registry is answered for: whatever the owner adds, removes and promotes, and whenever the
  tasks run, each domain that is neither local nor mDNS has its zone served with a current zone file, no ACME challenge stays
  published, and exactly one row is primary.  (Removals name the domain without a port.)\<close>

theorem public_domains_served:
  assumes "dns_ready (ce_dns E)" and "\<And>h. clock_ok (ce_broker E h)" and "list_all portless reqs" and "registry_served E st"
  shows "registry_served E (fold (serve E) reqs st)"
  using assms(3,4)
proof (induction reqs arbitrary: st)
  case (Cons req reqs)
  have "registry_served E (serve E req st)"
  proof (cases req)
    case (AddDomain name tls mdns)
    then show ?thesis using served_add [OF assms(1) Cons.prems(2)] by simp
  next
    case (RemoveDomain name)
    then show ?thesis using served_remove [OF assms(1) Cons.prems(2)] Cons.prems(1) by simp
  next
    case (MakePrimary name reset)
    then show ?thesis
      using served_promote [OF Cons.prems(2)] by (metis prod.collapse serve.simps(3))
  next
    case NextBackground
    have kept: "domains_ok (cw_db w) \<and> names_kept (cw_db (as_world st)) (cw_db w) \<and> dns_back (ce_dns E) (cw_dns (as_world st)) (cw_dns w)"
      if "run_background E t (as_world st) = Some w" for t w
    proof (cases t)
      case ReloadCaddy
      with that Cons.prems(2) show ?thesis by (auto simp: reload_keeps names_kept_def registry_served_def)
    next
      case (AcquireCert d)
      with that Cons.prems(2) acquire_cert_keeps [OF assms(1,2), of "as_world st" d w] show ?thesis
        by (simp add: registry_served_def)
    qed
    with NextBackground Cons.prems(2) show ?thesis
      by (auto split: list.splits option.splits intro!: served_step)
  qed
  with Cons show ?case by simp
qed simp

section \<open>Examples\<close>

theorem acquisition_settles_witness:
  "\<exists>w'. acquire_cert (example_cert_env []) (mk_domain ''host.example.com'' True False) example_cert_world = Some w'
    \<and> (cw_db w' = set_record_status ''host.example.com'' CertActive None example_ddb
      \<or> (\<exists>msg. cw_db w' = set_record_status ''host.example.com'' CertError (Some msg) example_ddb))"
proof -
  have db: "cw_db example_cert_world = example_ddb"
    by (simp add: example_cert_world_def)
  show ?thesis
    using acquisition_settles [OF example_ready example_cert_world_dns(1), of "mk_domain ''host.example.com'' True False" "[]"]
    unfolding example_effective(8) db dom_tls_mk using example_names_clean(2) by blast
qed

definition example_owner_api :: "cert_world \<Rightarrow> api_state" where
  "example_owner_api w = \<lparr>as_world = w, as_locked = False, as_shutdown = Some False, as_background = []\<rparr>"

theorem promotion_guarded_witness:
  "\<exists>ans st'. make_primary_domain (example_cert_env []) (Inr ()) ''host.example.com'' (example_owner_api example_cert_world) = (ans, st')
    \<and> as_locked st' = False \<and> cw_db (as_world st') = example_ddb"
proof -
  have host: "lower (strip ''host.example.com'') = ''host.example.com''" by code_simp
  have rec: "get_record (cw_db (as_world (example_owner_api example_cert_world))) ''host.example.com'' = Some (last example_domains)"
    by (simp add: example_owner_api_def example_cert_world_def example_effective)
  obtain ans st' where run: "make_primary_domain (example_cert_env []) (Inr ()) ''host.example.com'' (example_owner_api example_cert_world) = (ans, st')"
    by fastforce
  have "status_of (example_cert_env []) (as_world (example_owner_api example_cert_world)) ''host.example.com'' = Inr Missing"
    by (simp add: example_owner_api_def example_status)
  moreover have "d_tls (last example_domains)" by (simp add: example_domains_def)
  ultimately have "cw_db (as_world st') = cw_db (as_world (example_owner_api example_cert_world))"
    using promotion_guarded [OF run] rec unfolding host by auto
  with run promotion_guarded [OF run] show ?thesis
    by (simp add: example_owner_api_def example_cert_world_def)
qed

definition local_world :: cert_world where
  "local_world = example_cert_world\<lparr>cw_db := example_ddb\<lparr>t_domains := [\<lparr>d_name = ''home.local'', d_tls = False, d_mdns = True,
     d_is_primary = True, d_cert_status = CertActive, d_error_message = None\<rparr>]\<rparr>\<rparr>"

lemma local_world_served: "registry_served (example_cert_env []) (example_owner_api local_world)"
proof -
  have "domains_ok (cw_db local_world)" "zones_cover (cw_db local_world) (new_provider [])"
    by code_simp+
  with example_cert_world_dns(1) example_cert_world_dns(2) [of "[]"] show ?thesis
    by (simp add: registry_served_def example_owner_api_def local_world_def) (simp add: example_cert_world_def)
qed

theorem public_domains_served_witness:
  "registry_served (example_cert_env []) (fold (serve (example_cert_env []))
     [AddDomain ''B.org '' False False, MakePrimary ''b.org'' (Inr ()), RemoveDomain ''home.local'', NextBackground] (example_owner_api local_world))"
  by (rule public_domains_served [OF example_ready(1) _ _ local_world_served]) (simp_all add: example_ready)

text \<open>A removal that names the domain with a port deletes the row but leaves the zone: the row is looked up without the port,
  the zone is removed under the name as given.\<close>

definition two_rows :: "domain_row list" where
  "two_rows = [\<lparr>d_name = ''home.local'', d_tls = False, d_mdns = True, d_is_primary = True, d_cert_status = CertActive, d_error_message = None\<rparr>,
     \<lparr>d_name = ''b.org'', d_tls = False, d_mdns = False, d_is_primary = False, d_cert_status = CertActive, d_error_message = None\<rparr>]"

lemma removal_with_port_keeps_zone:
  assumes "dns_ready (ce_dns E)" and "dns_ok (ce_dns E) (cw_dns (as_world st))" and "dz_zones (cw_dns (as_world st)) = [''b.org'']"
    and "cw_db (as_world st) = example_ddb\<lparr>t_domains := two_rows\<rparr>"
  shows "let w = as_world (snd (remove_domain E ''b.org:80'' st)) in
    ''b.org'' \<in> set (dz_zones (cw_dns w)) \<and> ''b.org'' \<notin> d_name ` set (t_domains (cw_db w))"
proof -
  have eval: "lower (strip ''b.org:80'') = ''b.org:80''" "normalize_zone ''b.org:80'' = ''b.org:80''"
    "get_record (example_ddb\<lparr>t_domains := two_rows\<rparr>) ''b.org:80'' = Some (last two_rows)"
    "remove_non_primary_record ''b.org'' (example_ddb\<lparr>t_domains := two_rows\<rparr>) = (True, example_ddb\<lparr>t_domains := [hd two_rows]\<rparr>)"
    "d_name (last two_rows) = ''b.org''" "d_mdns (last two_rows) = False" "d_name (hd two_rows) = ''home.local''"
    by code_simp+
  obtain dns' where "remove_zone (ce_dns E) (ce_wall E) ''b.org:80'' (cw_dns (as_world st)) = (Inr (), dns')"
    "set (dz_zones (cw_dns (as_world st))) - {''b.org:80''} \<subseteq> set (dz_zones dns')"
    using remove_zone_ready [OF assms(1,2), of "ce_wall E" "''b.org:80''"] unfolding eval(2) by blast
  with assms(3) show ?thesis
    by (simp add: remove_domain_def Let_def eval assms(4))
qed

end
