(* ===== verification/UpdateWalk.thy ===== *)
theory UpdateWalk
  imports Strings Regex PyValue Guards
begin

text \<open>
  \<open>openhost_system_agent\<close>: the update walk.  \<open>update.py\<close> fetches, stops the service and checks out the first ref;
  \<open>apply_after_checkout.py\<close>, executed anew in every checkout, migrates, installs and moves on; \<open>updater/progress.py\<close>
  keeps the log the update page reads.  git is a function from the commit of HEAD and the arguments of a command to its
  exit status and output; \<open>update.py\<close> calls it through GitPython, the other file through \<open>subprocess\<close>.  Each checkout is
  taken to run this version of the code.  The ellipsis in messages is written as three dots.
\<close>

section \<open>The repository\<close>

record repo =
  rp_git :: "string \<Rightarrow> string list \<Rightarrow> int \<times> string"
  rp_tags :: "string list"
  rp_head :: string

text \<open>A command of GitPython: its output without the final newline, or a \<open>GitCommandError\<close>.\<close>

definition py_git :: "repo \<Rightarrow> string list \<Rightarrow> string option" where
  "py_git r args =
     (case rp_git r (rp_head r) args of (status, out) \<Rightarrow> if status = 0 then Some (removesuffix [newline] out) else None)"

text \<open>\<open>_git\<close> of \<open>apply_after_checkout.py\<close>: exit status and standard output.\<close>

definition sh_git :: "repo \<Rightarrow> string list \<Rightarrow> int \<times> string" where
  "sh_git r args = rp_git r (rp_head r) args"

section \<open>Release tags\<close>

definition DIGITS :: rx where
  "DIGITS = Seq (Sym is_digit) (Star (Sym is_digit))"

definition RELEASE_TAG :: rx where
  "RELEASE_TAG = Seq (Sym (\<lambda>c. c = CHR ''v'')) (Seq DIGITS (Star (Seq (Sym (\<lambda>c. c = CHR ''.'')) DIGITS)))"

definition is_release :: "string \<Rightarrow> bool" where
  "is_release t = rx_matches RELEASE_TAG t"

definition version_key :: "string \<Rightarrow> nat list" where
  "version_key tag_name = map nat_of_digits (split_char CHR ''.'' (dropWhile (\<lambda>c. c = CHR ''v'') tag_name))"

definition get_sorted_tags :: "repo \<Rightarrow> string list" where
  "get_sorted_tags r = sort_key version_key (filter is_release (rp_tags r))"

definition only_release :: "string option \<Rightarrow> string option" where
  "only_release t = (case t of Some tag \<Rightarrow> if is_release tag then Some tag else None | None \<Rightarrow> None)"

definition current_tag :: "repo \<Rightarrow> string option" where
  "current_tag r = only_release (py_git r [''describe'', ''--tags'', ''--exact-match'', ''HEAD''])"

definition latest_ancestor_tag :: "repo \<Rightarrow> string option" where
  "latest_ancestor_tag r = only_release (py_git r [''describe'', ''--tags'', ''--abbrev=0'', ''HEAD''])"

definition TARGET_REF_CONFIG :: string where
  "TARGET_REF_CONFIG = ''openhost.target-ref''"

definition get_target_ref :: "repo \<Rightarrow> string option" where
  "get_target_ref r =
     (case py_git r [''config'', ''--get'', TARGET_REF_CONFIG] of
        None \<Rightarrow> None
      | Some v \<Rightarrow> if strip v = [] then None else Some (strip v))"

definition rev_parse_args :: "string \<Rightarrow> string list" where
  "rev_parse_args ref = [''rev-parse'', ''--verify'', ''--quiet'', ref @ ''^{commit}'']"

definition resolve_ref_sha :: "repo \<Rightarrow> string \<Rightarrow> string option" where
  "resolve_ref_sha r ref =
     (case py_git r (rev_parse_args (''origin/'' @ ref)) of Some sha \<Rightarrow> Some sha | None \<Rightarrow> py_git r (rev_parse_args ref))"

definition is_ancestor :: "repo \<Rightarrow> string \<Rightarrow> string \<Rightarrow> bool" where
  "is_ancestor r ancestor descendant = (py_git r [''merge-base'', ''--is-ancestor'', ancestor, descendant] \<noteq> None)"

section \<open>The next step of a walk\<close>

definition unresolved_pin :: "string \<Rightarrow> exn" where
  "unresolved_pin target = Exn RuntimeError (''Pinned target ref '' @ squote target @ '' could not be resolved on the remote. ''
     @ ''Fix or clear the pin with '' @ squote ''set_remote'' @ '' (a URL without an @ref clears it).'')"

definition base_tag :: "repo \<Rightarrow> string option" where
  "base_tag r = (case current_tag r of Some t \<Rightarrow> Some t | None \<Rightarrow> latest_ancestor_tag r)"

definition newer_than :: "string option \<Rightarrow> string \<Rightarrow> bool" where
  "newer_than base t = (case base of None \<Rightarrow> True | Some b \<Rightarrow> version_key b < version_key t)"

definition target_sha :: "repo \<Rightarrow> string option" where
  "target_sha r = (case get_target_ref r of None \<Rightarrow> None | Some target \<Rightarrow> resolve_ref_sha r target)"

definition next_step :: "repo \<Rightarrow> string option result" where
  "next_step r =
     (if get_target_ref r \<noteq> None \<and> target_sha r = None then Inl (unresolved_pin (the (get_target_ref r)))
      else if target_sha r = Some (rp_head r) then Inr None
      else let later = filter (newer_than (base_tag r)) (get_sorted_tags r);
               later = (case target_sha r of None \<Rightarrow> later | Some sha \<Rightarrow> filter (\<lambda>t. is_ancestor r t sha) later)
           in case later of
                t # ts \<Rightarrow> Inr (Some t)
              | [] \<Rightarrow> Inr (if target_sha r \<noteq> None then get_target_ref r else None))"

section \<open>The same in the checkout's own file\<close>

definition sh_value :: "int \<times> string \<Rightarrow> string option" where
  "sh_value result = (case result of (status, out) \<Rightarrow> if status = 0 \<and> strip out \<noteq> [] then Some (strip out) else None)"

definition sh_current_tag :: "repo \<Rightarrow> string option" where
  "sh_current_tag r = only_release (sh_value (sh_git r [''describe'', ''--tags'', ''--exact-match'', ''HEAD'']))"

definition sh_latest_ancestor_tag :: "repo \<Rightarrow> string option" where
  "sh_latest_ancestor_tag r = only_release (sh_value (sh_git r [''describe'', ''--tags'', ''--abbrev=0'', ''HEAD'']))"

definition sh_sorted_tags :: "repo \<Rightarrow> string list" where
  "sh_sorted_tags r =
     sort_key version_key (filter is_release (split_char newline (strip (snd (sh_git r [''tag'', ''-l'', ''v*''])))))"

definition sh_target_ref :: "repo \<Rightarrow> string option" where
  "sh_target_ref r = sh_value (sh_git r [''config'', ''--get'', TARGET_REF_CONFIG])"

definition sh_resolve_ref_sha :: "repo \<Rightarrow> string \<Rightarrow> string option" where
  "sh_resolve_ref_sha r ref =
     (case sh_value (sh_git r (rev_parse_args (''origin/'' @ ref))) of
        Some sha \<Rightarrow> Some sha
      | None \<Rightarrow> sh_value (sh_git r (rev_parse_args ref)))"

definition sh_is_ancestor :: "repo \<Rightarrow> string \<Rightarrow> string \<Rightarrow> bool" where
  "sh_is_ancestor r ancestor descendant = (fst (sh_git r [''merge-base'', ''--is-ancestor'', ancestor, descendant]) = 0)"

definition sh_next_step :: "repo \<Rightarrow> string option result" where
  "sh_next_step r =
     (let target = sh_target_ref r;
          sha = (case target of None \<Rightarrow> None | Some t \<Rightarrow> sh_resolve_ref_sha r t)
      in if target \<noteq> None \<and> sha = None then Inl (unresolved_pin (the target))
         else if sha \<noteq> None \<and> strip (snd (sh_git r [''rev-parse'', ''HEAD''])) = the sha then Inr None
         else let base = (case sh_current_tag r of Some t \<Rightarrow> Some t | None \<Rightarrow> sh_latest_ancestor_tag r);
                  later = filter (newer_than base) (sh_sorted_tags r);
                  later = (case sha of None \<Rightarrow> later | Some s \<Rightarrow> filter (\<lambda>t. sh_is_ancestor r t s) later)
              in case later of t # ts \<Rightarrow> Inr (Some t) | [] \<Rightarrow> Inr (if sha \<noteq> None then target else None))"

section \<open>Fetching and showing what is new\<close>

definition fetch_state :: "(repo \<Rightarrow> bool) \<Rightarrow> repo \<Rightarrow> string result" where
  "fetch_state is_dirty r =
     (if is_dirty r then Inr ''DIRTY''
      else case get_target_ref r of
        Some target \<Rightarrow>
          (case resolve_ref_sha r target of
             None \<Rightarrow> Inl (unresolved_pin target)
           | Some sha \<Rightarrow> Inr (if rp_head r \<noteq> sha then ''BEHIND_REMOTE'' else ''UP_TO_DATE''))
      | None \<Rightarrow>
          let tags = get_sorted_tags r
          in if tags = [] then Inr ''UP_TO_DATE''
             else if newer_than (base_tag r) (last tags) then Inr ''BEHIND_REMOTE'' else Inr ''UP_TO_DATE'')"

definition fetch_updates :: "bool \<Rightarrow> (repo \<Rightarrow> repo result) \<Rightarrow> (repo \<Rightarrow> bool) \<Rightarrow> repo \<Rightarrow> string result" where
  "fetch_updates has_origin fetch is_dirty r =
     (if \<not> has_origin then Inl (Exn RuntimeError (''remote '' @ squote ''origin'' @ '' is not set''))
      else rbind (fetch r) (fetch_state is_dirty))"

record diff_result =
  df_commits :: "(string \<times> string) list"
  df_current_ref :: string
  df_remote_ref :: "string option"

text \<open>\<open>commits\<close> gives the sha and message of the commits of a range.\<close>

definition show_diff :: "(string \<Rightarrow> string \<Rightarrow> (string \<times> string) list) \<Rightarrow> repo \<Rightarrow> diff_result" where
  "show_diff commits r =
     (let current = (case base_tag r of Some t \<Rightarrow> t | None \<Rightarrow> take 8 (rp_head r));
          tags = get_sorted_tags r;
          (dest, label) = (case get_target_ref r of
             Some target \<Rightarrow> (resolve_ref_sha r target, Some target)
           | None \<Rightarrow> if tags = [] then (None, None) else (Some (last tags), Some (last tags)))
      in case dest of
           None \<Rightarrow> \<lparr>df_commits = [], df_current_ref = current, df_remote_ref = None\<rparr>
         | Some d \<Rightarrow> \<lparr>df_commits = map (\<lambda>(sha, message). (take 8 sha, hd (split_char newline (strip message)))) (commits current d),
                      df_current_ref = current, df_remote_ref = label\<rparr>)"

section \<open>The progress log\<close>

text \<open>The log as \<open>read_entries\<close> gives it; labels that are not a \<open>Phase\<close> are free text.\<close>

datatype phase = Done | Failed | Restarting | Label string

record progress_entry =
  pe_phase :: phase
  pe_message :: string
  pe_ref :: "string option"

definition record_entry :: "bool \<Rightarrow> phase \<Rightarrow> string \<Rightarrow> string option \<Rightarrow> progress_entry list \<Rightarrow> bool \<times> progress_entry list" where
  "record_entry writable ph message ref entries =
     (if writable then (True, entries @ [\<lparr>pe_phase = ph, pe_message = message, pe_ref = ref\<rparr>]) else (False, entries))"

definition reset_progress :: "bool \<Rightarrow> progress_entry list \<Rightarrow> progress_entry list" where
  "reset_progress writable entries = (if writable then [] else entries)"

definition is_terminal :: "progress_entry list \<Rightarrow> bool" where
  "is_terminal entries = (entries \<noteq> [] \<and> pe_phase (last entries) \<in> {Done, Failed})"

definition mark_boot_complete :: "bool \<Rightarrow> bool \<Rightarrow> progress_entry list \<Rightarrow> bool \<times> progress_entry list" where
  "mark_boot_complete writable apply_is_running entries =
     (if entries = [] \<or> is_terminal entries then (True, entries)
      else if pe_phase (last entries) = Restarting then record_entry writable Done ''Instance is back online.'' None entries
      else if apply_is_running then (True, entries)
      else record_entry writable Failed ''Update was interrupted before it finished. The instance restarted; try again.'' None entries)"

definition record_failure_if_not_terminal :: "bool \<Rightarrow> string \<Rightarrow> progress_entry list \<Rightarrow> bool \<times> progress_entry list" where
  "record_failure_if_not_terminal writable message entries =
     (if is_terminal entries \<or> (entries \<noteq> [] \<and> pe_phase (last entries) = Restarting) then (True, entries)
      else record_entry writable Failed message None entries)"

section \<open>Applying a checkout\<close>

text \<open>
  The host during a walk: the repository, the log, whether \<open>openhost.service\<close> and the downtime page run.  What the \<open>n\<close>-th
  process of the walk meets: the results of reclaiming the trees, of the migrations, of \<open>pixi install\<close>, of the checkout
  and of \<open>git clean\<close>.
\<close>

record update_host =
  uh_repo :: repo
  uh_log :: "progress_entry list"
  uh_running :: bool
  uh_updater :: bool

record step_outcome =
  so_reclaim :: "unit result"
  so_migrate :: "unit result"
  so_install :: "int result"
  so_checkout :: "unit result"
  so_clean :: "unit result"

record update_env =
  ue_writable :: bool
  ue_step :: "nat \<Rightarrow> step_outcome"
  ue_start :: "unit result"
  ue_dirty :: "repo \<Rightarrow> bool"
  ue_fetch :: "repo \<Rightarrow> repo result"
  ue_launch :: bool
  ue_stop :: "unit result"

definition log_phase :: "update_env \<Rightarrow> phase \<Rightarrow> string \<Rightarrow> string option \<Rightarrow> update_host \<Rightarrow> update_host" where
  "log_phase E ph message ref h = h\<lparr>uh_log := snd (record_entry (ue_writable E) ph message ref (uh_log h))\<rparr>"

definition check_out :: "string \<Rightarrow> update_host \<Rightarrow> update_host" where
  "check_out sha h = h\<lparr>uh_repo := (uh_repo h)\<lparr>rp_head := sha\<rparr>\<rparr>"

datatype step_end = NextRef | Started | Exits int | Raises exn

definition apply_step :: "update_env \<Rightarrow> nat \<Rightarrow> update_host \<Rightarrow> step_end \<times> update_host" where
  "apply_step E n h0 =
     (let oc = ue_step E n; r = uh_repo h0
      in case so_reclaim oc of Inl e \<Rightarrow> (Raises e, h0) | Inr _ \<Rightarrow>
      let h1 = log_phase E (Label ''migrate'') ''Applying system migrations...'' None h0
      in case so_migrate oc of Inl e \<Rightarrow> (Raises e, h1) | Inr _ \<Rightarrow>
      let h2 = log_phase E (Label ''install'') ''Installing dependencies...'' None h1
      in case so_install oc of Inl e \<Rightarrow> (Raises e, h2) | Inr status \<Rightarrow>
      if status \<noteq> 0 then (Exits 1, log_phase E Failed (''Dependency install failed (exit '' @ show_int status @ '').'') None h2)
      else case sh_next_step r of Inl e \<Rightarrow> (Raises e, h2)
      | Inr (Some nxt) \<Rightarrow>
          (let h3 = log_phase E (Label ''checkout'') (''Checking out '' @ nxt @ ''...'') (Some nxt) h2
           in case so_checkout oc of Inl e \<Rightarrow> (Raises e, h3) | Inr _ \<Rightarrow>
              let h4 = check_out (case sh_resolve_ref_sha r nxt of Some sha \<Rightarrow> sha | None \<Rightarrow> nxt) h3
              in case so_clean oc of Inl e \<Rightarrow> (Raises e, h4) | Inr _ \<Rightarrow> (NextRef, h4))
      | Inr None \<Rightarrow>
          (let h3 = log_phase E Restarting ''Update complete. Starting...'' None h2
           in case ue_start E of Inl e \<Rightarrow> (Raises e, h3) | Inr _ \<Rightarrow> (Started, h3\<lparr>uh_running := True\<rparr>)))"

text \<open>\<open>main\<close>: an exception leaves a failed entry.\<close>

definition apply_main :: "update_env \<Rightarrow> nat \<Rightarrow> update_host \<Rightarrow> step_end \<times> update_host" where
  "apply_main E n h =
     (case apply_step E n h of
        (Raises e, h') \<Rightarrow> (Raises e, log_phase E Failed (''Update failed: '' @ exn_text e) None h')
      | (r, h') \<Rightarrow> (r, h'))"

text \<open>The chain of \<open>os.execv\<close>.  No value: the walk does not end by itself.\<close>

partial_function (option) apply_walk :: "update_env \<Rightarrow> nat \<Rightarrow> update_host \<Rightarrow> (step_end \<times> update_host) option" where
  "apply_walk E n h =
     (case apply_main E n h of
        (r, h') \<Rightarrow> if r = NextRef then apply_walk E (Suc n) h' else Some (r, h'))"

section \<open>Starting a walk\<close>

text \<open>The part before the first tail call; \<open>Inr\<close>: the checked-out file is executed.  The page's launch never raises.\<close>

definition prepare_walk :: "update_env \<Rightarrow> update_host \<Rightarrow> unit result \<times> update_host" where
  "prepare_walk E h0 =
     (if ue_dirty E (uh_repo h0)
      then (Inl (Exn RuntimeError ''Working tree has uncommitted changes. Stash or commit first.''), h0)
      else let h1 = log_phase E (Label ''fetch'') ''Fetching latest code...'' None h0
      in case ue_fetch E (uh_repo h1) of Inl e \<Rightarrow> (Inl e, h1) | Inr r \<Rightarrow>
      let h2 = h1\<lparr>uh_repo := r\<rparr>
      in if get_sorted_tags r = [] \<and> get_target_ref r = None
         then (Inl (Exn RuntimeError ''No tags found on remote. Tag a release first.''), h2)
         else case next_step r of Inl e \<Rightarrow> (Inl e, h2) | Inr step \<Rightarrow>
      let h3 = h2\<lparr>uh_updater := ue_launch E\<rparr>
      in case ue_stop E of Inl e \<Rightarrow> (Inl e, h3\<lparr>uh_updater := False\<rparr>) | Inr _ \<Rightarrow>
      let h4 = h3\<lparr>uh_running := False\<rparr>
      in case step of None \<Rightarrow> (Inr (), h4) | Some s \<Rightarrow>
      let h5 = log_phase E (Label ''checkout'') (''Checking out '' @ s @ ''...'') (Some s) h4
      in case so_checkout (ue_step E 0) of Inl e \<Rightarrow> (Inl e, h5) | Inr _ \<Rightarrow>
      let h6 = check_out (case resolve_ref_sha r s of Some sha \<Rightarrow> sha | None \<Rightarrow> s) h5
      in case so_clean (ue_step E 0) of Inl e \<Rightarrow> (Inl e, h6) | Inr _ \<Rightarrow> (Inr (), h6))"

definition apply_update :: "update_env \<Rightarrow> update_host \<Rightarrow> (step_end \<times> update_host) option" where
  "apply_update E h =
     (case prepare_walk E h of
        (Inl e, h') \<Rightarrow> Some (Raises e, log_phase E Failed (''Update failed: '' @ exn_text e) None h')
      | (Inr _, h') \<Rightarrow> apply_walk E 1 h')"

text \<open>The unit: whatever ends it, \<open>ExecStopPost\<close> starts the service.\<close>

definition apply_unit :: "update_env \<Rightarrow> update_host \<Rightarrow> (step_end \<times> update_host) option" where
  "apply_unit E h = map_option (\<lambda>(r, h'). (r, h'\<lparr>uh_running := True\<rparr>)) (apply_update E h)"

section \<open>What git documents\<close>

text \<open>
  For every commit HEAD may be at: \<open>describe\<close> and \<open>rev-parse\<close> print one line, \<open>tag -l\<close> lists the tags (which contain no
  blanks), one per line and in the order GitPython has them.
\<close>

definition one_line :: "string \<Rightarrow> bool" where
  "one_line out = (out \<noteq> [] \<and> last out = newline \<and> butlast out \<noteq> [] \<and> strip (butlast out) = butlast out)"

definition commit_id :: "string \<Rightarrow> bool" where
  "commit_id h = (h \<noteq> [] \<and> (\<forall>c \<in> set h. \<not> is_space c))"

definition git_documented :: "repo \<Rightarrow> bool" where
  "git_documented r =
     ((\<forall>h args. commit_id h \<longrightarrow> args \<noteq> [] \<longrightarrow> hd args \<in> {''describe'', ''rev-parse''} \<longrightarrow> fst (rp_git r h args) = 0 \<longrightarrow>
          one_line (snd (rp_git r h args)))
      \<and> (\<forall>h. commit_id h \<longrightarrow> rp_git r h [''rev-parse'', ''HEAD''] = (0, h @ [newline]))
      \<and> (\<forall>h. commit_id h \<longrightarrow>
          snd (rp_git r h [''tag'', ''-l'', ''v*'']) = concat (map (\<lambda>t. t @ [newline]) (filter (prefix ''v'') (rp_tags r))))
      \<and> (\<forall>t \<in> set (rp_tags r). \<forall>c \<in> set t. \<not> is_space c)
      \<and> commit_id (rp_head r))"

lemma space_newline: "is_space newline"
  by (simp add: is_space_def newline_def code_def)

lemma strip_snoc_newline: "strip (u @ [newline]) = strip u"
proof (cases "\<forall>c \<in> set u. is_space c")
  case True
  then have "dropWhile is_space u = []" by simp
  with True space_newline show ?thesis
    by (auto simp: strip_def rstrip_if_def dropWhile_append dest: set_dropWhileD)
next
  case False
  then have "dropWhile is_space (u @ [newline]) = dropWhile is_space u @ [newline]"
    by (auto simp: dropWhile_append)
  with space_newline show ?thesis
    by (simp add: strip_def rstrip_if_def)
qed

lemma removesuffix_newline: "removesuffix [newline] (u @ [newline]) = u"
  by (simp add: removesuffix_def)

lemma one_lineE:
  assumes "one_line out"
  obtains l where "out = l @ [newline]" "l \<noteq> []" "strip l = l"
  using assms that [of "butlast out"] unfolding one_line_def by (metis append_butlast_last_id)

lemma line_values:
  assumes "one_line out"
  shows "strip out = removesuffix [newline] out" "strip out \<noteq> []"
  using assms by (auto elim!: one_lineE simp: strip_snoc_newline removesuffix_newline)

text \<open>A command that prints one line is read alike by both.\<close>

lemma head_commit: "git_documented r \<Longrightarrow> commit_id (rp_head r)"
  by (simp add: git_documented_def)

lemma git_line:
  "git_documented r \<Longrightarrow> commit_id h \<Longrightarrow> args \<noteq> [] \<Longrightarrow> hd args \<in> {''describe'', ''rev-parse''} \<Longrightarrow> rp_git r h args = (0, out) \<Longrightarrow> one_line out"
  unfolding git_documented_def by (metis fst_conv snd_conv)

lemma sh_value_py:
  assumes "git_documented r" and "args \<noteq> []" and "hd args \<in> {''describe'', ''rev-parse''}"
  shows "sh_value (sh_git r args) = py_git r args"
proof (cases "rp_git r (rp_head r) args")
  case (Pair status out)
  have "status = 0 \<Longrightarrow> one_line out"
    using git_line [OF assms(1) head_commit [OF assms(1)] assms(2,3)] Pair by simp
  with Pair line_values [of out] show ?thesis
    by (simp add: sh_value_def sh_git_def py_git_def)
qed

lemma strip_config: "strip (removesuffix [newline] out) = strip out"
proof (cases "suffix [newline] out")
  case True
  then obtain u where "out = u @ [newline]" by (auto simp: suffix_def)
  then show ?thesis by (simp add: removesuffix_newline strip_snoc_newline)
qed (simp add: removesuffix_def)

lemma sh_target: "sh_target_ref r = get_target_ref r"
  by (auto simp: sh_target_ref_def get_target_ref_def sh_value_def sh_git_def py_git_def strip_config split: prod.splits)

lemma split_char_no: "c \<notin> set u \<Longrightarrow> split_char c u = [u]"
  by (induction u) auto

lemma split_char_sep: "c \<notin> set u \<Longrightarrow> split_char c (u @ c # v) = u # split_char c v"
  by (induction u) auto

lemma split_lines:
  assumes "\<forall>t \<in> set ts. \<forall>c \<in> set t. \<not> is_space c" and "ts \<noteq> []"
  shows "split_char newline (butlast (concat (map (\<lambda>t. t @ [newline]) ts))) = ts"
  using assms
proof (induction ts)
  case (Cons t ts)
  then have t: "newline \<notin> set t" using space_newline by auto
  show ?case
  proof (cases ts)
    case Nil
    with t show ?thesis by (simp add: split_char_no)
  next
    case (Cons u us)
    then have "concat (map (\<lambda>t. t @ [newline]) ts) \<noteq> []" by simp
    with t Cons.IH Cons.prems Cons show ?thesis
      by (simp add: butlast_append split_char_sep del: concat.simps list.map(2)) (simp add: split_char_sep butlast_append)
  qed
qed simp

lemma strip_lines:
  assumes "\<forall>t \<in> set ts. t \<noteq> [] \<and> (\<forall>c \<in> set t. \<not> is_space c)" and "ts \<noteq> []"
  shows "strip (concat (map (\<lambda>t. t @ [newline]) ts)) = butlast (concat (map (\<lambda>t. t @ [newline]) ts))"
proof -
  let ?w = "concat (map (\<lambda>t. t @ [newline]) ts)"
  obtain us u where ts: "ts = us @ [u]" using assms(2) by (metis rev_exhaust)
  then have u: "u \<noteq> []" "\<not> is_space (last u)" using assms(1) by auto
  obtain v vs where vs: "ts = v # vs" using assms(2) by (cases ts) auto
  then have v: "v \<noteq> []" "\<not> is_space (hd v)" using assms(1) by auto
  have w: "?w = (concat (map (\<lambda>t. t @ [newline]) us) @ u) @ [newline]" using ts by simp
  have body: "butlast ?w = concat (map (\<lambda>t. t @ [newline]) us) @ u" unfolding w butlast_snoc ..
  have "hd (butlast ?w) = hd v" using v vs by (cases vs; cases v) (simp_all add: butlast_append)
  moreover have "butlast ?w \<noteq> []" "last (butlast ?w) = last u" using body u by simp_all
  ultimately have "strip (butlast ?w) = butlast ?w"
    using u v by (simp add: strip_def rstrip_if_def dropWhile_eq_self_iff [THEN iffD2] hd_rev)
  then show ?thesis
    unfolding body [symmetric] using w body strip_snoc_newline by metis
qed

lemma release_v: "is_release t \<Longrightarrow> prefix ''v'' t \<and> t \<noteq> []"
  by (auto simp: is_release_def RELEASE_TAG_def rx_matches_lang)

lemma sh_sorted:
  assumes "git_documented r"
  shows "sh_sorted_tags r = get_sorted_tags r"
proof -
  let ?ts = "filter (prefix ''v'') (rp_tags r)"
  have out: "snd (sh_git r [''tag'', ''-l'', ''v*'']) = concat (map (\<lambda>t. t @ [newline]) ?ts)"
    and clean: "\<forall>t \<in> set ?ts. t \<noteq> [] \<and> (\<forall>c \<in> set t. \<not> is_space c)"
    using assms by (auto simp: git_documented_def sh_git_def)
  have "filter is_release (split_char newline (strip (snd (sh_git r [''tag'', ''-l'', ''v*''])))) = filter is_release ?ts"
  proof (cases "?ts = []")
    case True
    with release_v show ?thesis by (auto simp: out strip_def rstrip_if_def)
  next
    case False
    with clean split_lines [of ?ts] show ?thesis by (simp add: out strip_lines)
  qed
  moreover have "filter is_release ?ts = filter is_release (rp_tags r)"
    using release_v by (auto simp: filter_filter intro!: filter_cong)
  ultimately show ?thesis by (simp add: sh_sorted_tags_def get_sorted_tags_def)
qed

lemma sh_agree:
  assumes "git_documented r"
  shows "sh_current_tag r = current_tag r" "sh_latest_ancestor_tag r = latest_ancestor_tag r"
    "sh_resolve_ref_sha r ref = resolve_ref_sha r ref"
proof -
  have "sh_value (sh_git r (rev_parse_args x)) = py_git r (rev_parse_args x)" for x
    by (rule sh_value_py [OF assms]) (simp_all add: rev_parse_args_def)
  then show "sh_resolve_ref_sha r ref = resolve_ref_sha r ref"
    unfolding sh_resolve_ref_sha_def resolve_ref_sha_def by (simp cong: option.case_cong)
qed (simp_all add: sh_current_tag_def current_tag_def sh_latest_ancestor_tag_def latest_ancestor_tag_def sh_value_py [OF assms])

lemma sh_ancestor: "sh_is_ancestor r a d = is_ancestor r a d"
  by (simp add: sh_is_ancestor_def is_ancestor_def py_git_def sh_git_def split: prod.split)

lemma sh_head:
  assumes "git_documented r"
  shows "strip (snd (sh_git r [''rev-parse'', ''HEAD''])) = rp_head r"
proof -
  have head: "rp_git r (rp_head r) [''rev-parse'', ''HEAD''] = (0, rp_head r @ [newline])"
    using assms head_commit [OF assms] unfolding git_documented_def by blast
  then have "one_line (rp_head r @ [newline])"
    by (rule git_line [OF assms head_commit [OF assms], rotated 2]) simp_all
  with head line_values(1) show ?thesis by (simp add: sh_git_def removesuffix_newline)
qed

lemma sh_next:
  assumes "git_documented r"
  shows "sh_next_step r = next_step r"
  unfolding sh_next_step_def next_step_def Let_def target_sha_def base_tag_def sh_target sh_agree [OF assms] sh_sorted [OF assms] sh_ancestor sh_head [OF assms]
  by (auto split: option.splits)

text \<open>The two implementations of the next step of an update, one through GitPython for the first hop and one through
  \<open>subprocess\<close> in the checked-out file, always agree: on the ref, on being done, and on the error of a broken pin.\<close>

theorem next_steps_agree:
  assumes "git_documented r"
  shows "sh_next_step r = next_step r"
  by (rule sh_next [OF assms])

text \<open>C18: What the settings page is told agrees with what an update would do: on a clean tree there is something new exactly if
  the walk has a next step, and a broken pin is the same error in both.\<close>

theorem fetch_agrees_with_walk:
  assumes "\<not> is_dirty r"
  shows "(fetch_state is_dirty r = Inr ''BEHIND_REMOTE'' \<longleftrightarrow> (\<exists>s. next_step r = Inr (Some s)))
    \<and> (fetch_state is_dirty r = Inr ''UP_TO_DATE'' \<longleftrightarrow> next_step r = Inr None)
    \<and> (\<forall>e. fetch_state is_dirty r = Inl e \<longleftrightarrow> next_step r = Inl e)"
proof (cases "get_target_ref r")
  case (Some target)
  with assms show ?thesis
    by (cases "resolve_ref_sha r target")
      (auto simp: fetch_state_def next_step_def target_sha_def Let_def split: list.split)
next
  case None
  let ?tags = "get_sorted_tags r"
  have newer_mono: "newer_than b t \<Longrightarrow> version_key t \<le> version_key u \<Longrightarrow> newer_than b u" for b t u
    by (auto simp: newer_than_def split: option.splits)
  have top: "version_key t \<le> version_key (last ?tags)" if "t \<in> set ?tags" for t
  proof -
    have s: "sorted (map version_key ?tags)" by (simp add: get_sorted_tags_def)
    from that obtain i where i: "i < length ?tags" "t = ?tags ! i" by (auto simp: in_set_conv_nth)
    then have "last ?tags = ?tags ! (length ?tags - 1)" by (intro last_conv_nth) auto
    with i sorted_nth_mono [OF s, of i "length ?tags - 1"] show ?thesis by simp
  qed
  have "filter (newer_than (base_tag r)) ?tags \<noteq> [] \<longleftrightarrow> ?tags \<noteq> [] \<and> newer_than (base_tag r) (last ?tags)"
  proof
    assume "filter (newer_than (base_tag r)) ?tags \<noteq> []"
    then obtain t where "t \<in> set ?tags" "newer_than (base_tag r) t" by (auto simp: filter_empty_conv)
    with top newer_mono show "?tags \<noteq> [] \<and> newer_than (base_tag r) (last ?tags)" by (metis empty_iff list.set(1))
  qed (metis filter_empty_conv last_in_set)
  with None assms show ?thesis
    by (auto simp: fetch_state_def next_step_def target_sha_def Let_def split: list.splits)
qed

section \<open>The walk ends\<close>

text \<open>
  What the walk needs of the tags: refs resolve alike wherever HEAD is, and at the commit of a release tag \<open>git describe\<close>
  names a release tag that is not older.
\<close>

definition walk_ok :: "repo \<Rightarrow> bool" where
  "walk_ok r =
     (git_documented r
      \<and> (\<forall>h. get_target_ref (r\<lparr>rp_head := h\<rparr>) = get_target_ref r)
      \<and> (\<forall>h ref. resolve_ref_sha (r\<lparr>rp_head := h\<rparr>) ref = resolve_ref_sha r ref)
      \<and> (\<forall>ref c. resolve_ref_sha r ref = Some c \<longrightarrow> commit_id c)
      \<and> (\<forall>t \<in> set (rp_tags r). is_release t \<longrightarrow>
           (\<exists>c b. resolve_ref_sha r t = Some c \<and> base_tag (r\<lparr>rp_head := c\<rparr>) = Some b \<and> version_key t \<le> version_key b)))"

definition newer_tags :: "repo \<Rightarrow> string list" where
  "newer_tags r = filter (newer_than (base_tag r)) (get_sorted_tags r)"

definition rank :: "repo \<Rightarrow> nat" where
  "rank r = (if target_sha r = Some (rp_head r) then 0 else Suc (length (newer_tags r)))"

lemma walk_ok_head: "walk_ok r \<Longrightarrow> commit_id c \<Longrightarrow> walk_ok (r\<lparr>rp_head := c\<rparr>)"
  unfolding walk_ok_def git_documented_def by simp

lemma target_sha_head: "walk_ok r \<Longrightarrow> target_sha (r\<lparr>rp_head := c\<rparr>) = target_sha r"
  unfolding walk_ok_def target_sha_def by (simp cong: option.case_cong)

lemma sorted_tags_head [simp]: "get_sorted_tags (r\<lparr>rp_head := c\<rparr>) = get_sorted_tags r"
  by (simp add: get_sorted_tags_def)

lemma newer_tags_shrink:
  assumes "t \<in> set (newer_tags r)" and "base_tag (r\<lparr>rp_head := c\<rparr>) = Some b" and "version_key t \<le> version_key b"
  shows "length (newer_tags (r\<lparr>rp_head := c\<rparr>)) < length (newer_tags r)"
proof -
  have "newer_than (Some b) u \<Longrightarrow> newer_than (base_tag r) u" for u
    using assms(1,3) by (auto simp: newer_tags_def newer_than_def split: option.splits)
  then have "newer_tags (r\<lparr>rp_head := c\<rparr>) = filter (newer_than (Some b)) (newer_tags r)"
    using assms(2) by (auto simp: newer_tags_def filter_filter intro!: filter_cong)
  moreover have "\<not> newer_than (Some b) t"
    using assms(3) by (simp add: newer_than_def)
  ultimately show ?thesis
    using length_filter_less [OF assms(1)] by simp
qed

text \<open>Each step goes to a release that is newer, or to the pin itself.\<close>

lemma next_step_cases:
  assumes "next_step r = Inr (Some s)"
  shows "target_sha r \<noteq> Some (rp_head r) \<and> (s \<in> set (newer_tags r) \<or> (get_target_ref r = Some s \<and> target_sha r \<noteq> None))"
  using assms
  by (auto simp: next_step_def Let_def newer_tags_def Cons_eq_filter_iff split: if_splits option.splits list.splits
      dest!: arg_cong [where f = set])

lemma next_step_descends:
  assumes "walk_ok r" and "next_step r = Inr (Some s)"
  shows "\<exists>c. resolve_ref_sha r s = Some c \<and> commit_id c \<and> rank (r\<lparr>rp_head := c\<rparr>) < rank r"
proof -
  have r: "rank r = Suc (length (newer_tags r))"
    using next_step_cases [OF assms(2)] by (simp add: rank_def)
  from next_step_cases [OF assms(2)] consider "s \<in> set (newer_tags r)" | "get_target_ref r = Some s" "target_sha r \<noteq> None" by blast
  then show ?thesis
  proof cases
    case 1
    then have "s \<in> set (rp_tags r)" "is_release s" by (auto simp: newer_tags_def get_sorted_tags_def)
    with assms(1) obtain c b where c: "resolve_ref_sha r s = Some c" "base_tag (r\<lparr>rp_head := c\<rparr>) = Some b" "version_key s \<le> version_key b"
      unfolding walk_ok_def by blast
    from assms(1) c(1) have "commit_id c" unfolding walk_ok_def by blast
    moreover have "rank (r\<lparr>rp_head := c\<rparr>) < rank r"
      using newer_tags_shrink [OF 1 c(2,3)] r by (simp add: rank_def)
    ultimately show ?thesis using c(1) by blast
  next
    case 2
    then obtain c where c: "resolve_ref_sha r s = Some c" "target_sha r = Some c" by (auto simp: target_sha_def)
    from assms(1) c(1) have "commit_id c" unfolding walk_ok_def by blast
    moreover have "rank (r\<lparr>rp_head := c\<rparr>) = 0"
      using target_sha_head [OF assms(1)] c(2) by (simp add: rank_def)
    ultimately show ?thesis using c(1) r by auto
  qed
qed

section \<open>What a step leaves behind\<close>

definition log_ends :: "phase \<Rightarrow> update_host \<Rightarrow> bool" where
  "log_ends ph h = (uh_log h \<noteq> [] \<and> pe_phase (last (uh_log h)) = ph)"

lemma log_phase_simps [simp]:
  "uh_repo (log_phase E ph m ref h) = uh_repo h" "uh_running (log_phase E ph m ref h) = uh_running h"
  "ue_writable E \<Longrightarrow> log_ends ph' (log_phase E ph m ref h) \<longleftrightarrow> ph' = ph"
  by (auto simp: log_phase_def log_ends_def record_entry_def)

text \<open>A walk ended well: at its destination with the service started, or with the failure on record.\<close>

definition ended :: "step_end \<Rightarrow> update_host \<Rightarrow> bool" where
  "ended r h =
     (case r of
        NextRef \<Rightarrow> False
      | Started \<Rightarrow> next_step (uh_repo h) = Inr None \<and> uh_running h \<and> log_ends Restarting h
      | _ \<Rightarrow> log_ends Failed h)"

lemma log_ends_running [simp]: "log_ends ph (h\<lparr>uh_running := b\<rparr>) = log_ends ph h" "log_ends ph (check_out c h) = log_ends ph h"
  by (simp_all add: log_ends_def check_out_def)

lemma apply_main_cases:
  assumes "ue_writable E" and "git_documented (uh_repo h)" and "apply_main E n h = (r, h')"
  shows "(r = NextRef \<and> (\<exists>s. next_step (uh_repo h) = Inr (Some s)
        \<and> uh_repo h' = (uh_repo h)\<lparr>rp_head := (case resolve_ref_sha (uh_repo h) s of Some c \<Rightarrow> c | None \<Rightarrow> s)\<rparr>))
    \<or> (r \<noteq> NextRef \<and> ended r h')"
proof (cases "next_step (uh_repo h)")
  case (Inl e)
  with assms show ?thesis
    by (auto simp: apply_main_def apply_step_def Let_def ended_def sh_next split: sum.splits if_splits)
next
  case (Inr step)
  with assms show ?thesis
    by (cases step)
      (auto simp: apply_main_def apply_step_def Let_def ended_def sh_next sh_agree check_out_def split: sum.splits if_splits)
qed

lemma apply_walk_ends:
  assumes "ue_writable E" and "walk_ok (uh_repo h)"
  shows "\<exists>r h'. apply_walk E n h = Some (r, h') \<and> ended r h'"
  using assms(2)
proof (induction "rank (uh_repo h)" arbitrary: n h rule: less_induct)
  case less
  have doc: "git_documented (uh_repo h)" using less.prems unfolding walk_ok_def by blast
  obtain r h' where main: "apply_main E n h = (r, h')" by fastforce
  show ?case
  proof (cases "r = NextRef")
    case True
    with apply_main_cases [OF assms(1) doc main] obtain s where s: "next_step (uh_repo h) = Inr (Some s)"
      "uh_repo h' = (uh_repo h)\<lparr>rp_head := (case resolve_ref_sha (uh_repo h) s of Some c \<Rightarrow> c | None \<Rightarrow> s)\<rparr>"
      by blast
    obtain c where c: "resolve_ref_sha (uh_repo h) s = Some c" "commit_id c" "rank ((uh_repo h)\<lparr>rp_head := c\<rparr>) < rank (uh_repo h)"
      using next_step_descends [OF less.prems s(1)] by blast
    have "\<exists>r h''. apply_walk E (Suc n) h' = Some (r, h'') \<and> ended r h''"
      by (rule less.hyps) (use s(2) c walk_ok_head [OF less.prems c(2)] in simp_all)
    with main True show ?thesis by (subst apply_walk.simps) simp
  next
    case False
    with apply_main_cases [OF assms(1) doc main] have "ended r h'" by blast
    with main False show ?thesis by (subst apply_walk.simps) simp
  qed
qed

lemma prepare_repo:
  assumes "prepare_walk E h = (Inr u, h')"
  shows "\<exists>r step. ue_fetch E (uh_repo h) = Inr r \<and> next_step r = Inr step
    \<and> uh_repo h' = (case step of None \<Rightarrow> r | Some s \<Rightarrow> r\<lparr>rp_head := (case resolve_ref_sha r s of Some c \<Rightarrow> c | None \<Rightarrow> s)\<rparr>)"
  using assms
  by (auto simp: prepare_walk_def Let_def check_out_def split: if_splits sum.splits option.splits)


text \<open>An update that cannot go anywhere costs no downtime: the service is stopped and HEAD moved only after the tree was found
  clean, the fetch succeeded, and the first step is known; and the page that covers the downtime is not left behind when
  the service could not be stopped.\<close>

theorem no_downtime_without_plan:
  assumes "prepare_walk E h = (res, h')"
  shows "(uh_running h \<longrightarrow> \<not> uh_running h' \<longrightarrow>
      \<not> ue_dirty E (uh_repo h) \<and> (\<exists>r step. ue_fetch E (uh_repo h) = Inr r \<and> next_step r = Inr step) \<and> ue_stop E = Inr ())
    \<and> (ue_stop E \<noteq> Inr () \<longrightarrow> res \<noteq> Inr () \<and> uh_running h' = uh_running h \<and> (uh_updater h' \<longrightarrow> uh_updater h))
    \<and> (uh_running h' \<longrightarrow> uh_repo h' = uh_repo h \<or> ue_fetch E (uh_repo h) = Inr (uh_repo h'))"
  using assms
  by (auto simp: prepare_walk_def Let_def check_out_def log_phase_def split: if_splits sum.splits option.splits)

text \<open>The page never waits for ever on a log: a booted instance ends it.\<close>

lemma boot_ends_log:
  assumes "mark_boot_complete writable False entries = (ok, entries')" and "writable" and "entries \<noteq> []"
  shows "ok \<and> is_terminal entries'
    \<and> (\<forall>e. last entries = e \<longrightarrow> pe_phase e = Restarting \<longrightarrow> pe_phase (last entries') = Done)"
  using assms by (auto simp: mark_boot_complete_def record_entry_def is_terminal_def split: if_splits)

section \<open>A tag that is no release\<close>

text \<open>
  Two releases \<open>v1\<close> at a and \<open>v2\<close> at b, and an annotated tag \<open>stable\<close> at b: \<open>git describe\<close> prefers the annotated tag, so
  at b the walk knows no release it is on and starts again from the first.
\<close>

definition tagged_git :: "string \<Rightarrow> string list \<Rightarrow> int \<times> string" where
  "tagged_git h args =
     (if args = [''rev-parse'', ''HEAD''] then (0, h @ [newline])
      else if args = [''tag'', ''-l'', ''v*''] then (0, ''v1'' @ [newline] @ ''v2'' @ [newline])
      else if take 2 args = [''describe'', ''--tags''] then (0, (if h = ''b'' then ''stable'' else ''v1'') @ [newline])
      else if args = rev_parse_args ''v1'' then (0, ''a'' @ [newline])
      else if args = rev_parse_args ''v2'' then (0, ''b'' @ [newline])
      else (1, []))"

definition tagged_repo :: "string \<Rightarrow> repo" where
  "tagged_repo h = \<lparr>rp_git = tagged_git, rp_tags = [''v1'', ''v2''], rp_head = h\<rparr>"

definition smooth_step :: step_outcome where
  "smooth_step = \<lparr>so_reclaim = Inr (), so_migrate = Inr (), so_install = Inr 0, so_checkout = Inr (), so_clean = Inr ()\<rparr>"

definition smooth_env :: "(repo \<Rightarrow> repo result) \<Rightarrow> update_env" where
  "smooth_env fetch = \<lparr>ue_writable = True, ue_step = \<lambda>_. smooth_step, ue_start = Inr (), ue_dirty = \<lambda>_. False, ue_fetch = fetch,
     ue_launch = True, ue_stop = Inr ()\<rparr>"

lemma tagged_steps:
  "sh_next_step (tagged_repo ''a'') = Inr (Some ''v2'')" "sh_next_step (tagged_repo ''b'') = Inr (Some ''v1'')"
  "sh_resolve_ref_sha (tagged_repo ''a'') ''v2'' = Some ''b''" "sh_resolve_ref_sha (tagged_repo ''b'') ''v1'' = Some ''a''"
  by code_simp+

lemma foreign_tag_never_ends:
  assumes "uh_repo h \<in> {tagged_repo ''a'', tagged_repo ''b''}"
  shows "apply_walk (smooth_env fetch) n h = None"
proof -
  have step: "fst (apply_main (smooth_env fetch) n h) = NextRef
      \<and> uh_repo (snd (apply_main (smooth_env fetch) n h)) \<in> {tagged_repo ''a'', tagged_repo ''b''}"
    if "uh_repo h \<in> {tagged_repo ''a'', tagged_repo ''b''}" for n h
    using that
    by (auto simp: apply_main_def apply_step_def Let_def smooth_env_def smooth_step_def tagged_steps check_out_def)
      (simp_all add: tagged_repo_def)
  have "E = smooth_env fetch \<longrightarrow> uh_repo h \<notin> {tagged_repo ''a'', tagged_repo ''b''}" if "apply_walk E n h = Some y" for E n h y
    using that
  proof (induction rule: apply_walk.raw_induct [rotated, consumes 1])
    case (1 walk E n h y)
    show ?case
    proof (intro impI notI)
      assume E: "E = smooth_env fetch" and h: "uh_repo h \<in> {tagged_repo ''a'', tagged_repo ''b''}"
      from step [OF h, of n] 1(2) E have "walk (smooth_env fetch) (Suc n) (snd (apply_main (smooth_env fetch) n h)) = Some y"
        by (simp add: split_beta)
      from 1(1) [OF this] step [OF h, of n] show False by blast
    qed
  qed
  with assms show ?thesis by (cases "apply_walk (smooth_env fetch) n h") blast+
qed

section \<open>Examples\<close>

text \<open>Three releases and no other tag; the host is at the first.\<close>

definition commit_of :: "string \<Rightarrow> string option" where
  "commit_of = map_of [(''v1'', ''a''), (''v1.2'', ''b''), (''v1.10'', ''c'')]"

definition release_git :: "string \<Rightarrow> string list \<Rightarrow> int \<times> string" where
  "release_git h args =
     (if args = [''rev-parse'', ''HEAD''] then (0, h @ [newline])
      else if args = [''tag'', ''-l'', ''v*''] then (0, ''v1'' @ [newline] @ ''v1.10'' @ [newline] @ ''v1.2'' @ [newline])
      else if take 2 args = [''describe'', ''--tags'']
      then (0, (if h = ''c'' then ''v1.10'' else if h = ''b'' then ''v1.2'' else ''v1'') @ [newline])
      else if args = rev_parse_args ''v1'' then (0, ''a'' @ [newline])
      else if args = rev_parse_args ''v1.2'' then (0, ''b'' @ [newline])
      else if args = rev_parse_args ''v1.10'' then (0, ''c'' @ [newline])
      else (1, []))"

definition release_repo :: "string \<Rightarrow> repo" where
  "release_repo h = \<lparr>rp_git = release_git, rp_tags = [''v1'', ''v1.10'', ''v1.2''], rp_head = h\<rparr>"

lemma strip_clean:
  assumes "\<forall>c \<in> set u. \<not> is_space c"
  shows "strip u = u"
proof -
  have "dropWhile is_space v = v" if "\<forall>c \<in> set v. \<not> is_space c" for v
    using that by (cases v) auto
  from this [of u] this [of "rev u"] assms show ?thesis by (simp add: strip_def rstrip_if_def)
qed

lemma commit_line: "commit_id h \<Longrightarrow> one_line (h @ [newline])"
  by (simp add: one_line_def commit_id_def strip_clean)

lemma release_ids: "commit_id ''a''" "commit_id ''b''" "commit_id ''c''" "commit_id ''v1''" "commit_id ''v1.2''" "commit_id ''v1.10''"
  by code_simp+

lemma release_documented:
  assumes "commit_id h"
  shows "git_documented (release_repo h)"
proof -
  have "one_line (snd (release_git k args))"
    if "commit_id k" "args \<noteq> []" "hd args \<in> {''describe'', ''rev-parse''}" "fst (release_git k args) = 0" for k args
    using that commit_line [OF that(1)] commit_line [OF release_ids(1)] commit_line [OF release_ids(2)] commit_line [OF release_ids(3)]
      commit_line [OF release_ids(4)] commit_line [OF release_ids(5)] commit_line [OF release_ids(6)]
    by (auto simp: release_git_def split: if_splits)
  moreover have "release_git k [''rev-parse'', ''HEAD''] = (0, k @ [newline])" for k
    by (simp add: release_git_def)
  moreover have "snd (release_git k [''tag'', ''-l'', ''v*'']) = concat (map (\<lambda>t. t @ [newline]) (filter (prefix ''v'') [''v1'', ''v1.10'', ''v1.2'']))" for k
    by (simp add: release_git_def)
  moreover have "\<forall>t \<in> set [''v1'', ''v1.10'', ''v1.2'']. \<forall>c \<in> set t. \<not> is_space c"
    by code_simp
  ultimately show ?thesis
    unfolding git_documented_def release_repo_def using assms by (auto simp del: filter.simps)
qed

lemma release_resolve: "resolve_ref_sha (release_repo h) ref = commit_of ref"
proof -
  have lines: "removesuffix [newline] [c, newline] = [c]" for c
    using removesuffix_newline [of "[c]"] by simp
  have "py_git (release_repo h) (rev_parse_args ref) = commit_of ref" for ref
    by (simp add: py_git_def release_repo_def release_git_def rev_parse_args_def commit_of_def lines)
  moreover have "commit_of (''origin/'' @ ref) = None"
    by (simp add: commit_of_def)
  ultimately show ?thesis by (simp add: resolve_ref_sha_def split: option.split)
qed

lemma release_walk_ok:
  assumes "commit_id h"
  shows "walk_ok (release_repo h)"
proof -
  have target: "get_target_ref (release_repo k) = None" for k
    by (simp add: get_target_ref_def py_git_def release_repo_def release_git_def rev_parse_args_def TARGET_REF_CONFIG_def)
  have move: "(release_repo h)\<lparr>rp_head := k\<rparr> = release_repo k" for k
    by (simp add: release_repo_def)
  have ids: "commit_of ref = Some c \<Longrightarrow> commit_id c" for ref c
    using release_ids by (auto simp: commit_of_def split: if_splits)
  have bases: "base_tag (release_repo ''a'') = Some ''v1''" "base_tag (release_repo ''b'') = Some ''v1.2''"
    "base_tag (release_repo ''c'') = Some ''v1.10''"
    by code_simp+
  have "\<exists>c b. commit_of t = Some c \<and> base_tag (release_repo c) = Some b \<and> version_key t \<le> version_key b"
    if "t \<in> set (rp_tags (release_repo h))" for t
    using that bases by (auto simp: release_repo_def commit_of_def)
  with release_documented [OF assms] target ids show ?thesis
    unfolding walk_ok_def move release_resolve target by blast
qed

theorem next_steps_agree_witness:
  "sh_next_step (release_repo ''a'') = next_step (release_repo ''a'') \<and> next_step (release_repo ''a'') = Inr (Some ''v1.2'')"
proof -
  have "next_step (release_repo ''a'') = Inr (Some ''v1.2'')" by code_simp
  with next_steps_agree [OF release_documented [OF release_ids(1)]] show ?thesis by simp
qed

theorem fetch_agrees_with_walk_witness:
  "fetch_state (\<lambda>_. False) (release_repo ''c'') = Inr ''UP_TO_DATE'' \<and> next_step (release_repo ''c'') = Inr None"
proof -
  have "next_step (release_repo ''c'') = Inr None" by code_simp
  with fetch_agrees_with_walk [of "\<lambda>_. False" "release_repo ''c''"] show ?thesis by simp
qed

definition idle_host :: update_host where
  "idle_host = \<lparr>uh_repo = release_repo ''a'', uh_log = [], uh_running = True, uh_updater = False\<rparr>"


theorem no_downtime_without_plan_witness:
  "\<exists>e h'. prepare_walk ((smooth_env Inr)\<lparr>ue_stop := Inl (Exn RuntimeError ''systemctl stop'')\<rparr>) idle_host = (Inl e, h')
    \<and> uh_running h' \<and> \<not> uh_updater h'"
proof -
  let ?E = "(smooth_env Inr)\<lparr>ue_stop := Inl (Exn RuntimeError ''systemctl stop'')\<rparr>"
  obtain res h' where run: "prepare_walk ?E idle_host = (res, h')" by fastforce
  from no_downtime_without_plan [OF run] have "res \<noteq> Inr ()" "uh_running h'" "\<not> uh_updater h'"
    by (simp_all add: idle_host_def)
  with run show ?thesis by (cases res) auto
qed

end
