(* ===== verification/CertMove.thy ===== *)
theory CertMove
  imports Caddy
begin

text \<open>
  \<open>openhost_system_agent\<close>, \<open>migrations/versions/v0012_uniform_certificate_paths.py\<close>: the provisioning-time certificate pair
  moves to the files named after its domain; and \<open>updater/paths.py\<close>, which looks for the pair while the service is down.
  A migration is the list of its operations on files: a crash or an \<open>OSError\<close> leaves a prefix of them done.  Temporary
  files have names nobody reads; \<open>os.replace\<close> installs them in one operation.  No name is a directory.
\<close>

section \<open>Files and rows\<close>

datatype file_entry = Regular string | Special

type_synonym tls_dir = "string \<rightharpoonup> file_entry"

datatype file_op = Install string string | Unlink string

fun do_file_op :: "file_op \<Rightarrow> tls_dir \<Rightarrow> tls_dir" where
  "do_file_op (Install name content) fs = fs(name \<mapsto> Regular content)"
| "do_file_op (Unlink name) fs = fs(name := None)"

definition run_ops :: "file_op list \<Rightarrow> tls_dir \<Rightarrow> tls_dir" where
  "run_ops ops fs = fold do_file_op ops fs"

definition LEGACY_CERT_NAME :: string where "LEGACY_CERT_NAME = ''openhost-tls-cert.pem''"
definition LEGACY_KEY_NAME :: string where "LEGACY_KEY_NAME = ''openhost-tls-key.pem''"
definition PAIR_READY_MARKER :: string where "PAIR_READY_MARKER = ''certs/.v12-uniform-certificate-pair-ready''"

definition named_file :: "string \<Rightarrow> string \<Rightarrow> string" where
  "named_file owner sfx = ''certs/'' @ owner @ sfx"

text \<open>The rows the code reads: the setting \<open>legacy_cert_domain\<close>, and name and TLS flag of the primary domains.\<close>

record cert_rows =
  cr_legacy :: "string option"
  cr_primary :: "(string \<times> bool) list"

definition domain_name :: "string \<Rightarrow> string option" where
  "domain_name raw = (case normalized_cert_domain raw of Inr n \<Rightarrow> Some n | Inl e \<Rightarrow> None)"

text \<open>\<open>_certificate_owner\<close>; \<open>None\<close> for the rows: the database is missing or cannot be read.\<close>

definition certificate_owner :: "cert_rows option \<Rightarrow> string option" where
  "certificate_owner db =
     (case db of
        None \<Rightarrow> None
      | Some rows \<Rightarrow>
          (case cr_legacy rows of
             Some raw \<Rightarrow> domain_name raw
           | None \<Rightarrow> (case cr_primary rows of [(raw, tls)] \<Rightarrow> domain_name raw | _ \<Rightarrow> None)))"

section \<open>The migration\<close>

definition regular_file :: "string \<Rightarrow> tls_dir \<Rightarrow> string option result" where
  "regular_file name fs =
     (case fs name of
        None \<Rightarrow> Inr None
      | Some (Regular content) \<Rightarrow> Inr (Some content)
      | Some Special \<Rightarrow> Inl (Exn RuntimeError (''refusing to migrate non-regular TLS file: '' @ name)))"

definition is_regular_at :: "string \<Rightarrow> tls_dir \<Rightarrow> bool" where
  "is_regular_at name fs = (case fs name of Some (Regular content) \<Rightarrow> True | _ \<Rightarrow> False)"

definition marker_matches :: "string \<Rightarrow> tls_dir \<Rightarrow> bool" where
  "marker_matches owner fs = (case fs PAIR_READY_MARKER of Some (Regular content) \<Rightarrow> take 1024 content = owner | _ \<Rightarrow> False)"

definition incomplete_pair :: exn where
  "incomplete_pair = Exn RuntimeError ''cannot migrate an incomplete legacy TLS pair''"

definition finish_ops :: "string list \<Rightarrow> file_op list" where
  "finish_ops names = map Unlink names @ [Unlink PAIR_READY_MARKER]"

definition migrate_ops :: "cert_rows option \<Rightarrow> tls_dir \<Rightarrow> file_op list result" where
  "migrate_ops db fs =
     rbind (regular_file LEGACY_CERT_NAME fs) (\<lambda>cert. rbind (regular_file LEGACY_KEY_NAME fs) (\<lambda>key.
       if cert = None \<and> key = None then Inr []
       else case certificate_owner db of
         None \<Rightarrow> Inl (Exn RuntimeError ''cannot migrate legacy TLS files without a valid certificate owner in router.db'')
       | Some owner \<Rightarrow>
           (case (cert, key) of
              (Some c, Some k) \<Rightarrow>
                Inr ([Install (named_file owner ''.pem'') c, Install (named_file owner ''.key'') k, Install PAIR_READY_MARKER owner]
                     @ finish_ops [LEGACY_CERT_NAME, LEGACY_KEY_NAME])
            | _ \<Rightarrow>
                if is_regular_at (named_file owner ''.pem'') fs \<and> is_regular_at (named_file owner ''.key'') fs \<and> marker_matches owner fs
                then Inr (finish_ops (if cert = None then [LEGACY_KEY_NAME] else [LEGACY_CERT_NAME]))
                else Inl incomplete_pair)))"

section \<open>The pair the downtime page serves with\<close>

definition primary_tls_paths :: "cert_rows option \<Rightarrow> tls_dir \<Rightarrow> (string \<times> string) option" where
  "primary_tls_paths db fs =
     (case db of
        None \<Rightarrow> None
      | Some rows \<Rightarrow>
          (case cr_primary rows of
             [] \<Rightarrow> None
           | (raw, tls) # _ \<Rightarrow>
               if \<not> tls then None
               else case domain_name raw of
                 None \<Rightarrow> None
               | Some name \<Rightarrow>
                   let legacy_owner = (case cr_legacy rows of Some o1 \<Rightarrow> lower (before CHR '':'' (strip o1)) | None \<Rightarrow> name)
                   in if legacy_owner = name \<and> is_regular_at LEGACY_CERT_NAME fs \<and> is_regular_at LEGACY_KEY_NAME fs
                      then Some (LEGACY_CERT_NAME, LEGACY_KEY_NAME)
                      else Some (named_file name ''.pem'', named_file name ''.key'')))"

section \<open>Interrupted moves\<close>

lemma domain_name_first: "domain_name raw = Some d \<Longrightarrow> d \<noteq> [] \<and> hd d \<noteq> CHR ''.''"
proof -
  assume "domain_name raw = Some d"
  then have "lang CERT_DOMAIN_RE d"
    by (auto simp: domain_name_def normalized_cert_domain_def Let_def rx_matches_lang split: sum.splits if_splits)
  then obtain u v where d: "d = u @ v" "lang DOMAIN_LABEL u" unfolding CERT_DOMAIN_RE_def lang.simps(3) by blast
  from d(2) have "u \<noteq> [] \<and> is_alnum_lower (hd u)" unfolding DOMAIN_LABEL_def by auto
  moreover have "\<not> is_alnum_lower CHR ''.''"
    by (simp add: is_alnum_lower_def is_lower_alpha_def is_digit_def code_def)
  ultimately show ?thesis using d(1) by (cases u) auto
qed

lemma owner_name: "certificate_owner db = Some d \<Longrightarrow> \<exists>raw. domain_name raw = Some d"
  by (auto simp: certificate_owner_def split: option.splits list.splits)

lemma names_differ:
  assumes "domain_name raw = Some d"
  shows "named_file d ''.pem'' \<noteq> named_file d ''.key''" "named_file d sfx \<noteq> LEGACY_CERT_NAME" "named_file d sfx \<noteq> LEGACY_KEY_NAME"
    "named_file d sfx \<noteq> PAIR_READY_MARKER" "LEGACY_CERT_NAME \<noteq> LEGACY_KEY_NAME" "LEGACY_CERT_NAME \<noteq> PAIR_READY_MARKER"
    "LEGACY_KEY_NAME \<noteq> PAIR_READY_MARKER"
  using domain_name_first [OF assms]
  by (cases d; simp add: named_file_def LEGACY_CERT_NAME_def LEGACY_KEY_NAME_def PAIR_READY_MARKER_def)+

text \<open>The files that matter: the legacy pair, the named pair, the marker.\<close>

definition holds_pair :: "tls_dir \<Rightarrow> string \<Rightarrow> string \<Rightarrow> string \<Rightarrow> string \<Rightarrow> bool" where
  "holds_pair fs p q c k = (fs p = Some (Regular c) \<and> fs q = Some (Regular k))"

inductive move_point :: "string \<Rightarrow> string \<Rightarrow> string \<Rightarrow> tls_dir \<Rightarrow> bool" for d c k where
  legacy_whole: "holds_pair fs LEGACY_CERT_NAME LEGACY_KEY_NAME c k \<Longrightarrow> move_point d c k fs"
| legacy_half: "holds_pair fs (named_file d ''.pem'') (named_file d ''.key'') c k \<Longrightarrow> fs PAIR_READY_MARKER = Some (Regular d) \<Longrightarrow>
    fs LEGACY_CERT_NAME = None \<Longrightarrow> fs LEGACY_KEY_NAME = Some (Regular k) \<Longrightarrow> move_point d c k fs"
| legacy_gone: "holds_pair fs (named_file d ''.pem'') (named_file d ''.key'') c k \<Longrightarrow>
    fs LEGACY_CERT_NAME = None \<Longrightarrow> fs LEGACY_KEY_NAME = None \<Longrightarrow> move_point d c k fs"

lemma whole_ops:
  assumes "holds_pair fs LEGACY_CERT_NAME LEGACY_KEY_NAME c k" and "certificate_owner db = Some d"
  shows "migrate_ops db fs = Inr [Install (named_file d ''.pem'') c, Install (named_file d ''.key'') k, Install PAIR_READY_MARKER d,
    Unlink LEGACY_CERT_NAME, Unlink LEGACY_KEY_NAME, Unlink PAIR_READY_MARKER]"
  using assms by (simp add: migrate_ops_def holds_pair_def regular_file_def finish_ops_def)

lemma take_six: "take n [a, b, c, d, e, f] \<in> {[], [a], [a, b], [a, b, c], [a, b, c, d], [a, b, c, d, e], [a, b, c, d, e, f]}"
proof (cases "n < 6")
  case True
  then have "n \<in> {0, 1, 2, 3, 4, 5}" by auto
  then show ?thesis by (auto simp: numeral_eq_Suc)
qed simp

lemma interrupted_move:
  assumes "holds_pair fs LEGACY_CERT_NAME LEGACY_KEY_NAME c k" and "certificate_owner db = Some d" and "migrate_ops db fs = Inr ops"
  shows "move_point d c k (run_ops (take n ops) fs)"
proof -
  obtain raw where raw: "domain_name raw = Some d" using owner_name [OF assms(2)] by blast
  have ops: "ops = [Install (named_file d ''.pem'') c, Install (named_file d ''.key'') k, Install PAIR_READY_MARKER d,
    Unlink LEGACY_CERT_NAME, Unlink LEGACY_KEY_NAME, Unlink PAIR_READY_MARKER]"
    using whole_ops [OF assms(1,2)] assms(3) by simp
  show ?thesis
    using take_six [of n "Install (named_file d ''.pem'') c" "Install (named_file d ''.key'') k" "Install PAIR_READY_MARKER d"
        "Unlink LEGACY_CERT_NAME" "Unlink LEGACY_KEY_NAME" "Unlink PAIR_READY_MARKER"]
      assms(1) names_differ [OF raw] names_differ [OF raw, THEN not_sym]
    unfolding ops by (elim insertE emptyE; simp add: run_ops_def move_point.simps holds_pair_def)
qed

lemma point_served:
  assumes "move_point d c k fs" and "db = Some rows" and "certificate_owner db = Some d"
    and "cr_primary rows = [(raw, True)]" and "domain_name raw = Some d"
  shows "\<exists>p q. primary_tls_paths db fs = Some (p, q) \<and> holds_pair fs p q c k"
proof -
  have "lower (before CHR '':'' (strip o1)) = d" if "cr_legacy rows = Some o1" for o1
    using that assms(2,3) by (auto simp: certificate_owner_def domain_name_def normalized_cert_domain_def Let_def split: sum.splits if_splits)
  then have owner: "(case cr_legacy rows of Some o1 \<Rightarrow> lower (before CHR '':'' (strip o1)) | None \<Rightarrow> d) = d"
    by (simp split: option.split)
  from assms(1) show ?thesis
    by cases (simp_all add: primary_tls_paths_def assms(2,4,5) owner Let_def holds_pair_def is_regular_at_def)
qed

lemma point_resumes:
  assumes "move_point d c k fs" and "certificate_owner db = Some d" and "length d \<le> 1024"
  shows "\<exists>ops. migrate_ops db fs = Inr ops \<and> holds_pair (run_ops ops fs) (named_file d ''.pem'') (named_file d ''.key'') c k
    \<and> run_ops ops fs LEGACY_CERT_NAME = None \<and> run_ops ops fs LEGACY_KEY_NAME = None"
proof -
  obtain raw where raw: "domain_name raw = Some d" using owner_name [OF assms(2)] by blast
  note differ = names_differ [OF raw] names_differ [OF raw, THEN not_sym]
  from assms(1) show ?thesis
  proof cases
    case legacy_whole
    with whole_ops [OF legacy_whole assms(2)] differ show ?thesis
      by (simp add: run_ops_def holds_pair_def)
  next
    case legacy_half
    with assms(2,3) differ show ?thesis
      by (simp add: migrate_ops_def regular_file_def holds_pair_def is_regular_at_def marker_matches_def finish_ops_def run_ops_def)
  next
    case legacy_gone
    then show ?thesis by (simp add: migrate_ops_def regular_file_def run_ops_def holds_pair_def)
  qed
qed

text \<open>C17: The certificate pair is never lost on its move: whichever operation the migration is interrupted at, the downtime page
  still finds the complete pair with the original contents, and the next run finishes, with the pair under the domain's
  name and nothing left at the old one.\<close>

theorem certificate_move_survives:
  assumes "holds_pair fs LEGACY_CERT_NAME LEGACY_KEY_NAME c k" and "db = Some rows" and "certificate_owner db = Some d"
    and "cr_primary rows = [(raw, True)]" and "domain_name raw = Some d" and "length d \<le> 1024"
    and "migrate_ops db fs = Inr ops" and "fs' = run_ops (take n ops) fs"
  shows "(\<exists>p q. primary_tls_paths db fs' = Some (p, q) \<and> holds_pair fs' p q c k)
    \<and> (\<exists>ops'. migrate_ops db fs' = Inr ops' \<and> holds_pair (run_ops ops' fs') (named_file d ''.pem'') (named_file d ''.key'') c k
        \<and> run_ops ops' fs' LEGACY_CERT_NAME = None \<and> run_ops ops' fs' LEGACY_KEY_NAME = None)"
proof -
  have "move_point d c k fs'"
    unfolding assms(8) by (rule interrupted_move [OF assms(1,3,7)])
  with point_served [OF _ assms(2-5)] point_resumes [OF _ assms(3,6)] show ?thesis by blast
qed

text \<open>Half a legacy pair without the marker of a finished copy is refused, and nothing is touched.\<close>

lemma half_pair_refused:
  assumes "fs LEGACY_CERT_NAME = None" and "fs LEGACY_KEY_NAME = Some (Regular k)" and "certificate_owner db = Some d"
    and "fs PAIR_READY_MARKER = None"
  shows "migrate_ops db fs = Inl incomplete_pair"
  using assms by (simp add: migrate_ops_def regular_file_def marker_matches_def)

definition legacy_files :: tls_dir where
  "legacy_files = [LEGACY_CERT_NAME \<mapsto> Regular ''CERT'', LEGACY_KEY_NAME \<mapsto> Regular ''KEY'']"

definition owner_rows :: cert_rows where
  "owner_rows = \<lparr>cr_legacy = None, cr_primary = [(''Host.example.com:8443'', True)]\<rparr>"

theorem certificate_move_survives_witness:
  "\<exists>ops. migrate_ops (Some owner_rows) legacy_files = Inr ops
    \<and> primary_tls_paths (Some owner_rows) (run_ops (take 4 ops) legacy_files) \<noteq> None
    \<and> (\<exists>ops'. migrate_ops (Some owner_rows) (run_ops (take 4 ops) legacy_files) = Inr ops')"
proof -
  have name: "domain_name ''Host.example.com:8443'' = Some ''host.example.com''" by code_simp
  have owner: "certificate_owner (Some owner_rows) = Some ''host.example.com''"
    using name by (simp add: certificate_owner_def owner_rows_def)
  have pair: "holds_pair legacy_files LEGACY_CERT_NAME LEGACY_KEY_NAME ''CERT'' ''KEY''"
    by (simp add: holds_pair_def legacy_files_def names_differ [OF name])
  obtain ops where ops: "migrate_ops (Some owner_rows) legacy_files = Inr ops"
    using whole_ops [OF pair owner] by blast
  from certificate_move_survives [OF pair refl owner _ name _ ops refl, of 4] ops show ?thesis
    by (auto simp: owner_rows_def)
qed

end
