(* ===== verification/HostMigrations.thy ===== *)
theory HostMigrations
  imports Strings Regex PyValue
begin

text \<open>
  \<open>openhost_system_agent\<close>: the migrations of the host itself and their log, \<open>migrations/runner.py\<close>, \<open>registry.py\<close>,
  \<open>migration_log.py\<close> and \<open>status.py\<close>.  The log is a text file of JSON lines; \<open>json.dumps\<close> and \<open>json.loads\<close> are
  parameters.  A migration changes the host, whose state is a type parameter, and may fail halfway.
\<close>

section \<open>The log\<close>

record log_entry =
  le_version :: pyval
  le_timestamp :: pyval
  le_success :: bool
  le_error :: pyval

record json_api =
  js_dumps :: "log_entry \<Rightarrow> string"
  js_loads :: "string \<Rightarrow> pyval result"

definition not_subscriptable :: exn where
  "not_subscriptable = Exn TypeError ''object is not subscriptable''"

text \<open>The entry of a parsed line.  Of \<open>success\<close> only its truth is used.\<close>

definition entry_of :: "pyval \<Rightarrow> log_entry result" where
  "entry_of raw =
     (case raw of
        VDict kvs \<Rightarrow>
          (case map_of kvs ''version'' of
             None \<Rightarrow> Inl (Exn KeyError ''version'')
           | Some v \<Rightarrow>
               (case map_of kvs ''success'' of
                  None \<Rightarrow> Inl (Exn KeyError ''success'')
                | Some ok \<Rightarrow>
                    Inr \<lparr>le_version = v, le_timestamp = (case map_of kvs ''timestamp'' of Some t \<Rightarrow> t | None \<Rightarrow> VStr []),
                         le_success = truthy ok, le_error = (case map_of kvs ''error'' of Some e \<Rightarrow> e | None \<Rightarrow> VNone)\<rparr>))
      | _ \<Rightarrow> Inl not_subscriptable)"

fun read_lines :: "json_api \<Rightarrow> string list \<Rightarrow> log_entry list result" where
  "read_lines J [] = Inr []"
| "read_lines J (line # rest) =
     (if strip line = [] then read_lines J rest
      else case rbind (js_loads J (strip line)) entry_of of
        Inl e \<Rightarrow> if exn_class e \<in> {JSONDecodeError, KeyError} then read_lines J rest else Inl e
      | Inr entry \<Rightarrow> rbind (read_lines J rest) (\<lambda>es. Inr (entry # es)))"

text \<open>\<open>None\<close>: there is no file.\<close>

definition read_log :: "json_api \<Rightarrow> string option \<Rightarrow> log_entry list result" where
  "read_log J text = (case text of None \<Rightarrow> Inr [] | Some t \<Rightarrow> read_lines J (splitlines t))"

text \<open>A version that is no number is returned by the code and raises where the callers compare it.\<close>

definition current_host_version :: "log_entry list \<Rightarrow> int result" where
  "current_host_version entries =
     (case find le_success (rev entries) of
        Some entry \<Rightarrow>
          (case as_int (le_version entry) of
             Some n \<Rightarrow> Inr n
           | None \<Rightarrow> Inl (Exn TypeError ''not supported between these instances''))
      | None \<Rightarrow> Inr 0)"

definition MIGRATIONS_PATH :: string where
  "MIGRATIONS_PATH = ''/etc/openhost/migrations.jsonl''"

definition append_entry :: "json_api \<Rightarrow> log_entry \<Rightarrow> string option \<Rightarrow> string option" where
  "append_entry J entry text =
     (let existing = (case text of None \<Rightarrow> [] | Some t \<Rightarrow> t);
          line = js_dumps J entry @ [newline]
      in Some (existing @ (if existing \<noteq> [] \<and> last existing \<noteq> newline then newline # line else line)))"

section \<open>The registry and the runner\<close>

record 's host_migration =
  hm_version :: int
  hm_up :: "'s \<Rightarrow> unit result \<times> 's"

definition show_ints :: "int list \<Rightarrow> string" where
  "show_ints ns = ''['' @ join '', '' (map show_int ns) @ '']''"

definition validate_host_registry :: "'s host_migration list \<Rightarrow> unit result" where
  "validate_host_registry registry =
     (if registry = [] \<or> map hm_version registry = map int [2..<2 + length registry] then Inr ()
      else Inl (Exn RuntimeError (''Migration registry is not strictly increasing and contiguous starting at 2: got ''
             @ show_ints (map hm_version registry) @ '', expected '' @ show_ints (map int [2..<2 + length registry]))))"

definition latest_registry_version :: "'s host_migration list \<Rightarrow> int" where
  "latest_registry_version registry = (if registry = [] then 1 else hm_version (last registry))"

record 's agent =
  ag_log :: "string option"
  ag_host :: 's

definition outcome_entry :: "string \<Rightarrow> int \<Rightarrow> exn option \<Rightarrow> log_entry" where
  "outcome_entry now v error =
     \<lparr>le_version = VInt v, le_timestamp = VStr now, le_success = (error = None),
      le_error = (case error of None \<Rightarrow> VNone | Some e \<Rightarrow> VStr (exn_text e))\<rparr>"

text \<open>The loop; \<open>now\<close> is the time at which the outcome of a version is written.\<close>

fun run_migrations ::
    "json_api \<Rightarrow> (int \<Rightarrow> string) \<Rightarrow> 's host_migration list \<Rightarrow> int \<Rightarrow> int list \<Rightarrow> 's agent \<Rightarrow> int list result \<times> 's agent" where
  "run_migrations J now [] current applied a = (Inr applied, a)"
| "run_migrations J now (m # ms) current applied a =
     (if hm_version m \<le> current then run_migrations J now ms current applied a
      else case hm_up m (ag_host a) of
        (Inl e, host) \<Rightarrow>
          (Inl e, \<lparr>ag_log = append_entry J (outcome_entry (now (hm_version m)) (hm_version m) (Some e)) (ag_log a), ag_host = host\<rparr>)
      | (Inr u, host) \<Rightarrow>
          run_migrations J now ms (hm_version m) (applied @ [hm_version m])
            \<lparr>ag_log = append_entry J (outcome_entry (now (hm_version m)) (hm_version m) None) (ag_log a), ag_host = host\<rparr>)"

definition apply_system_migrations ::
    "json_api \<Rightarrow> (int \<Rightarrow> string) \<Rightarrow> bool \<Rightarrow> 's host_migration list \<Rightarrow> 's agent \<Rightarrow> int list result \<times> 's agent" where
  "apply_system_migrations J now is_root registry a =
     (case validate_host_registry registry of
        Inl e \<Rightarrow> (Inl e, a)
      | Inr u \<Rightarrow>
          if \<not> is_root then (Inl (Exn RuntimeError ''System migrations must be run as root''), a)
          else case rbind (read_log J (ag_log a)) current_host_version of
            Inl e \<Rightarrow> (Inl e, a)
          | Inr current \<Rightarrow>
                 (if current = 0
                  then (Inl (Exn RuntimeError (''No migration history found at '' @ MIGRATIONS_PATH
                          @ ''. Run ansible setup.yml to bootstrap this host before applying migrations.'')), a)
                  else if current > latest_registry_version registry
                  then (Inl (Exn RuntimeError (''Host is at system version '' @ show_int current @ '' but this code only knows up to version ''
                          @ show_int (latest_registry_version registry) @ ''. Upgrade the code before running migrations.'')), a)
                  else run_migrations J now registry current [] a))"

record migration_status =
  ms_ok :: bool
  ms_reason :: string
  ms_message :: string
  ms_current :: int
  ms_expected :: int

definition get_migration_status :: "json_api \<Rightarrow> 's host_migration list \<Rightarrow> string option \<Rightarrow> migration_status result" where
  "get_migration_status J registry text =
     rbind (read_log J text) (\<lambda>entries. rbind (current_host_version entries) (\<lambda>current.
       let expected = latest_registry_version registry
       in Inr (if current = 0
               then \<lparr>ms_ok = False, ms_reason = ''missing'',
                     ms_message = ''No migration history found at '' @ MIGRATIONS_PATH
                       @ ''. This host must be provisioned by `ansible-playbook ansible/setup.yml`.'',
                     ms_current = 0, ms_expected = expected\<rparr>
               else if current < expected
               then \<lparr>ms_ok = False, ms_reason = ''behind'',
                     ms_message = ''Host is at system version '' @ show_int current @ '' but this code requires version '' @ show_int expected
                       @ ''. Run `sudo openhost_system_agent update apply` to apply pending system migrations.'',
                     ms_current = current, ms_expected = expected\<rparr>
               else if current > expected
               then \<lparr>ms_ok = False, ms_reason = ''ahead'',
                     ms_message = ''Host is at system version '' @ show_int current @ '' but this code only knows up to version ''
                       @ show_int expected @ ''. Upgrade the code to match the host.'',
                     ms_current = current, ms_expected = expected\<rparr>
               else \<lparr>ms_ok = True, ms_reason = [], ms_message = ''system version OK'', ms_current = current, ms_expected = expected\<rparr>)))"

section \<open>Appending and reading back\<close>

text \<open>An entry as \<open>json.dumps\<close> writes it: on one line, without blanks at the ends, and read back as it was.\<close>

definition json_reads :: "json_api \<Rightarrow> log_entry \<Rightarrow> bool" where
  "json_reads J e =
     (js_dumps J e \<noteq> [] \<and> strip (js_dumps J e) = js_dumps J e \<and> (\<forall>c \<in> set (js_dumps J e). \<not> is_line_break c)
        \<and> rbind (js_loads J (js_dumps J e)) entry_of = Inr e)"

lemma break_newline: "is_line_break newline"
  by (simp add: is_line_break_def newline_def code_def)

lemma newline_not_cr: "code newline = 10"
  by (simp add: newline_def code_def)

lemma lines_append: "lines_from w (u @ newline # v) = lines_from w (u @ [newline]) @ lines_from [] v"
proof (induction w u rule: lines_from.induct)
  case (1 w)
  then show ?case by (simp add: break_newline newline_not_cr)
next
  case (2 w c s)
  show ?case
  proof (cases "is_line_break c")
    case False
    with 2 show ?thesis by simp
  next
    case True
    show ?thesis
    proof (cases "code c = 13")
      case False
      with 2 True show ?thesis by simp
    next
      case cr: True
      show ?thesis
      proof (cases s)
        case Nil
        with True cr show ?thesis by (simp add: newline_not_cr)
      next
        case (Cons d s')
        with 2 True cr show ?thesis by (cases "code d = 10") simp_all
      qed
    qed
  qed
qed

lemma lines_snoc: "lines_from w (u @ [newline]) \<in> {lines_from w u, lines_from w u @ [[]]}"
proof (induction w u rule: lines_from.induct)
  case (1 w)
  then show ?case by (simp add: break_newline newline_not_cr)
next
  case (2 w c s)
  show ?case
  proof (cases "is_line_break c")
    case False
    with 2 show ?thesis by simp
  next
    case True
    show ?thesis
    proof (cases "code c = 13")
      case False
      with 2 True show ?thesis by auto
    next
      case cr: True
      show ?thesis
      proof (cases s)
        case Nil
        with True cr show ?thesis by (simp add: newline_not_cr)
      next
        case (Cons d s')
        with 2 True cr show ?thesis by (cases "code d = 10") auto
      qed
    qed
  qed
qed

lemma line_alone: "(\<forall>c \<in> set u. \<not> is_line_break c) \<Longrightarrow> lines_from w (u @ [newline]) = [rev w @ u]"
  by (induction u arbitrary: w) (simp_all add: break_newline newline_not_cr)

lemma read_lines_append: "read_lines J (ls @ ks) = rbind (read_lines J ls) (\<lambda>es. rbind (read_lines J ks) (\<lambda>fs. Inr (es @ fs)))"
proof (induction J ls rule: read_lines.induct)
  case (1 J)
  then show ?case by (cases "read_lines J ks") simp_all
next
  case (2 J line rest)
  show ?case
  proof (cases "rbind (js_loads J (strip line)) entry_of")
    case (Inl e)
    with 2 show ?thesis by (cases "strip line = []") auto
  next
    case (Inr entry)
    with 2 show ?thesis
      by (cases "strip line = []"; cases "read_lines J rest"; cases "read_lines J ks") auto
  qed
qed

lemma written_line:
  assumes "json_reads J e"
  shows "read_lines J (lines_from [] (js_dumps J e @ [newline])) = Inr [e]"
proof -
  have "lines_from [] (js_dumps J e @ [newline]) = [js_dumps J e]"
    using assms line_alone [of "js_dumps J e" "[]"] by (simp add: json_reads_def)
  moreover obtain x where "js_dumps J e \<noteq> []" "strip (js_dumps J e) = js_dumps J e" "js_loads J (js_dumps J e) = Inr x" "entry_of x = Inr e"
    using assms unfolding json_reads_def by (cases "js_loads J (js_dumps J e)") auto
  ultimately show ?thesis by simp
qed

lemma read_blank: "read_lines J [[]] = Inr []"
  by (simp add: strip_def rstrip_if_def)

lemma read_final_newline: "read_lines J (lines_from [] (t @ [newline])) = read_lines J (lines_from [] t)"
proof -
  from lines_snoc [of "[]" t] consider "lines_from [] (t @ [newline]) = lines_from [] t" | "lines_from [] (t @ [newline]) = lines_from [] t @ [[]]"
    by blast
  then show ?thesis
  proof cases
    case 2
    show ?thesis unfolding 2 read_lines_append read_blank by (cases "read_lines J (lines_from [] t)") simp_all
  qed simp
qed

lemma read_appended_text:
  assumes "json_reads J e"
  shows "read_lines J (lines_from [] (u @ newline # js_dumps J e @ [newline])) = rbind (read_lines J (lines_from [] u)) (\<lambda>es. Inr (es @ [e]))"
  by (subst lines_append, unfold read_lines_append written_line [OF assms], unfold read_final_newline) simp

lemma read_appended_some:
  assumes "json_reads J e"
  shows "read_log J (append_entry J e (Some t)) = rbind (read_log J (Some t)) (\<lambda>es. Inr (es @ [e]))"
proof (cases t rule: rev_cases)
  case Nil
  then show ?thesis using written_line [OF assms] by (simp add: append_entry_def read_log_def splitlines_def)
next
  case (snoc u c)
  show ?thesis
  proof (cases "c = newline")
    case True
    then have "read_log J (append_entry J e (Some t)) = read_lines J (lines_from [] (u @ newline # js_dumps J e @ [newline]))"
      using snoc by (simp add: append_entry_def read_log_def splitlines_def)
    then show ?thesis
      unfolding read_appended_text [OF assms] read_final_newline [of J u, symmetric] using snoc True by (simp add: read_log_def splitlines_def)
  next
    case False
    then have "read_log J (append_entry J e (Some t)) = read_lines J (lines_from [] (t @ newline # js_dumps J e @ [newline]))"
      using snoc by (simp add: append_entry_def read_log_def splitlines_def)
    then show ?thesis
      unfolding read_appended_text [OF assms] by (simp add: read_log_def splitlines_def)
  qed
qed

lemma read_appended:
  assumes "json_reads J e"
  shows "read_log J (append_entry J e text) = rbind (read_log J text) (\<lambda>es. Inr (es @ [e]))"
proof (cases "text")
  case None
  have "append_entry J e None = append_entry J e (Some [])" by (simp add: append_entry_def)
  with None read_appended_some [OF assms, of "[]"] show ?thesis by (simp add: read_log_def splitlines_def)
qed (simp add: read_appended_some assms)

section \<open>Runs\<close>

text \<open>What a run does to the host: the pending migrations in order, up to the first that fails.\<close>

fun migrate_host :: "'s host_migration list \<Rightarrow> 's \<Rightarrow> unit result \<times> 's" where
  "migrate_host [] s = (Inr (), s)"
| "migrate_host (m # ms) s = (case hm_up m s of (Inl e, s') \<Rightarrow> (Inl e, s') | (Inr u, s') \<Rightarrow> migrate_host ms s')"

definition success_entries :: "(int \<Rightarrow> string) \<Rightarrow> 's host_migration list \<Rightarrow> log_entry list" where
  "success_entries now ms = map (\<lambda>m. outcome_entry (now (hm_version m)) (hm_version m) None) ms"

definition log_written :: "json_api \<Rightarrow> (int \<Rightarrow> string) \<Rightarrow> 's host_migration list \<Rightarrow> bool" where
  "log_written J now ms =
     (\<forall>m \<in> set ms. json_reads J (outcome_entry (now (hm_version m)) (hm_version m) None)
        \<and> (\<forall>s e. fst (hm_up m s) = Inl e \<longrightarrow> json_reads J (outcome_entry (now (hm_version m)) (hm_version m) (Some e))))"

lemma current_version_snoc:
  "current_host_version (es @ [e]) = (if le_success e then current_host_version [e] else current_host_version es)"
  by (simp add: current_host_version_def)

lemma outcome_version:
  "current_host_version [outcome_entry t v None] = Inr v" "\<not> le_success (outcome_entry t v (Some e))"
  by (simp_all add: current_host_version_def outcome_entry_def)

text \<open>The result of running all of \<open>ms\<close>, which are newer than what the log says.\<close>

lemma run_migrations_spec:
  assumes "sorted_wrt (<) (current # map hm_version ms)" and "log_written J now ms" and "read_log J (ag_log a) = Inr es"
    and "current_host_version es = Inr current"
  shows "run_migrations J now ms current applied a = (r, a') \<Longrightarrow>
    \<exists>k \<le> length ms. \<exists>es'. read_log J (ag_log a') = Inr es'
      \<and> (\<exists>tail. es' = es @ success_entries now (take k ms) @ tail \<and> list_all (\<lambda>e. \<not> le_success e) tail)
      \<and> current_host_version es' = Inr (if k = 0 then current else hm_version (ms ! (k - 1)))
      \<and> migrate_host (take (Suc k) ms) (ag_host a) = (map_sum id (\<lambda>_. ()) r, ag_host a')
      \<and> (case r of Inr vs \<Rightarrow> k = length ms \<and> vs = applied @ map hm_version ms | Inl e \<Rightarrow> k < length ms)"
  using assms
proof (induction ms arbitrary: current applied a es)
  case Nil
  then show ?case by (auto simp: success_entries_def)
next
  case (Cons m ms)
  have newer: "\<not> hm_version m \<le> current" "sorted_wrt (<) (hm_version m # map hm_version ms)" using Cons.prems(2) by auto
  obtain u host where up: "hm_up m (ag_host a) = (u, host)" by fastforce
  show ?case
  proof (cases u)
    case (Inl e)
    let ?f = "outcome_entry (now (hm_version m)) (hm_version m) (Some e)"
    have "json_reads J ?f"
      using Cons.prems(3) up Inl unfolding log_written_def by (metis fst_conv list.set_intros(1))
    then have "read_log J (append_entry J ?f (ag_log a)) = Inr (es @ [?f])"
      by (simp add: read_appended Cons.prems(4))
    moreover have "\<not> le_success ?f" by (simp add: outcome_entry_def)
    moreover have "r = Inl e" "a' = \<lparr>ag_log = append_entry J ?f (ag_log a), ag_host = host\<rparr>"
      using Cons.prems(1) newer(1) up Inl by auto
    ultimately show ?thesis
      using up Inl Cons.prems(5)
      by (intro exI [of _ 0]) (auto simp: success_entries_def current_version_snoc)
  next
    case (Inr v)
    let ?f = "outcome_entry (now (hm_version m)) (hm_version m) None"
    let ?a = "\<lparr>ag_log = append_entry J ?f (ag_log a), ag_host = host\<rparr>"
    have written: "json_reads J ?f" "log_written J now ms" using Cons.prems(3) unfolding log_written_def by simp_all
    have read: "read_log J (ag_log ?a) = Inr (es @ [?f])"
      by (simp add: read_appended [OF written(1)] Cons.prems(4))
    have version: "current_host_version (es @ [?f]) = Inr (hm_version m)"
      by (simp add: current_version_snoc outcome_version(1), simp add: outcome_entry_def)
    have run: "run_migrations J now ms (hm_version m) (applied @ [hm_version m]) ?a = (r, a')"
      using Cons.prems(1) newer(1) up Inr by simp
    from Cons.IH [OF run newer(2) written(2) read version] obtain k es' tail where k: "k \<le> length ms" "read_log J (ag_log a') = Inr es'"
      "es' = (es @ [?f]) @ success_entries now (take k ms) @ tail" "list_all (\<lambda>e. \<not> le_success e) tail"
      "current_host_version es' = Inr (if k = 0 then hm_version m else hm_version (ms ! (k - 1)))"
      "migrate_host (take (Suc k) ms) (ag_host ?a) = (map_sum id (\<lambda>_. ()) r, ag_host a')"
      "case r of Inr vs \<Rightarrow> k = length ms \<and> vs = (applied @ [hm_version m]) @ map hm_version ms | Inl e \<Rightarrow> k < length ms"
      by blast
    have "current_host_version es' = Inr (hm_version ((m # ms) ! k))"
      using k(5) by (cases k) auto
    with k up Inr show ?thesis
      by (intro exI [of _ "Suc k"]) (auto simp: success_entries_def split: sum.splits)
  qed
qed

text \<open>A valid registry is numbered from 2; what is newer than a version is a suffix of it.\<close>

definition newer_than_version :: "int \<Rightarrow> 's host_migration list \<Rightarrow> 's host_migration list" where
  "newer_than_version v registry = filter (\<lambda>m. v < hm_version m) registry"

lemma valid_registry_versions:
  "validate_host_registry registry = Inr () \<Longrightarrow> map hm_version registry = map int [2..<2 + length registry]"
  by (auto simp: validate_host_registry_def split: if_splits)

lemma valid_registry_nth:
  assumes "validate_host_registry registry = Inr ()" and "i < length registry"
  shows "hm_version (registry ! i) = int i + 2"
proof -
  have "hm_version (registry ! i) = map hm_version registry ! i" using assms(2) by simp
  also have "\<dots> = int ([2..<2 + length registry] ! i)"
    unfolding valid_registry_versions [OF assms(1)] using assms(2) by (simp del: upt_Suc)
  finally show ?thesis using assms(2) by (simp del: upt_Suc)
qed

lemma valid_registry_latest: "validate_host_registry registry = Inr () \<Longrightarrow> latest_registry_version registry = int (length registry) + 1"
  using valid_registry_versions [of registry]
  by (cases registry rule: rev_cases) (auto simp: latest_registry_version_def)

lemma sorted_ints: "sorted_wrt (<) (map int [i..<j])"
  by (simp add: sorted_wrt_map)

lemma run_skips_applied:
  "sorted_wrt (<) (map hm_version ms) \<Longrightarrow> run_migrations J now ms v applied a = run_migrations J now (newer_than_version v ms) v applied a"
proof (induction ms)
  case (Cons m ms)
  show ?case
  proof (cases "hm_version m \<le> v")
    case False
    with Cons.prems have "newer_than_version v (m # ms) = m # ms"
      by (auto simp: newer_than_version_def filter_id_conv)
    then show ?thesis by simp
  qed (use Cons in \<open>simp add: newer_than_version_def\<close>)
qed (simp add: newer_than_version_def)

lemma newer_drop:
  assumes "validate_host_registry registry = Inr ()" and "1 \<le> v"
  shows "newer_than_version v registry = drop (nat (v - 1)) registry"
proof -
  have version: "hm_version (registry ! i) = int i + 2" if "i < length registry" for i
    by (rule valid_registry_nth [OF assms(1) that])
  let ?k = "nat (v - 1)"
  have old: "filter (\<lambda>m. v < hm_version m) (take ?k registry) = []"
    using assms(2) version by (auto simp: filter_empty_conv in_set_conv_nth)
  have new: "filter (\<lambda>m. v < hm_version m) (drop ?k registry) = drop ?k registry"
    using assms(2) version by (auto simp: filter_id_conv in_set_conv_nth)
  have "newer_than_version v registry = filter (\<lambda>m. v < hm_version m) (take ?k registry @ drop ?k registry)"
    by (simp add: newer_than_version_def)
  then show ?thesis by (simp only: filter_append old new append_Nil)
qed

lemma newer_sorted:
  assumes "validate_host_registry registry = Inr ()"
  shows "sorted_wrt (<) (v # map hm_version (newer_than_version v registry))"
proof -
  have "sorted_wrt (<) (map hm_version registry)"
    unfolding valid_registry_versions [OF assms] by (rule sorted_ints)
  then show ?thesis
    by (auto simp: newer_than_version_def sorted_wrt_map sorted_wrt_filter)
qed

text \<open>C16: 
  C1: A run of the host migrations picks up where the log says the last one ended and leaves a log the next one can pick up
  from.  It runs the migrations newer than the version of the log in order, up to the first that fails; the log then reads
  as before with one success entry for each that passed and, if one failed, an entry that is no success; the version read
  from it is that of the last that passed, so the next run starts with the one that failed; the run reports success
  exactly if none failed, and exactly then the status reads as current.
\<close>
theorem host_migrations_resume:
  assumes "validate_host_registry registry = Inr ()" and "log_written J now registry"
    and "read_log J (ag_log a) = Inr es" and "current_host_version es = Inr v" and "1 \<le> v" and "v \<le> latest_registry_version registry"
    and "apply_system_migrations J now True registry a = (r, a')"
  shows "\<exists>k es' status. let pending = newer_than_version v registry in
    k \<le> length pending
    \<and> migrate_host (take (Suc k) pending) (ag_host a) = (map_sum id (\<lambda>_. ()) r, ag_host a')
    \<and> read_log J (ag_log a') = Inr es'
    \<and> (\<exists>tail. es' = es @ success_entries now (take k pending) @ tail \<and> list_all (\<lambda>e. \<not> le_success e) tail)
    \<and> current_host_version es' = Inr (v + int k) \<and> newer_than_version (v + int k) registry = drop k pending
    \<and> (case r of Inr vs \<Rightarrow> k = length pending \<and> vs = map hm_version pending | Inl e \<Rightarrow> k < length pending)
    \<and> get_migration_status J registry (ag_log a') = Inr status \<and> (ms_ok status \<longleftrightarrow> \<not> isl r)"
proof -
  let ?p = "newer_than_version v registry"
  have sorted: "sorted_wrt (<) (map hm_version registry)"
    unfolding valid_registry_versions [OF assms(1)] by (rule sorted_ints)
  have run: "run_migrations J now ?p v [] a = (r, a')"
    using assms run_skips_applied [OF sorted, of J now v "[]" a] by (simp add: apply_system_migrations_def)
  have written: "log_written J now ?p"
    using assms(2) by (auto simp: log_written_def newer_than_version_def)
  obtain k es' tail where k: "k \<le> length ?p" "read_log J (ag_log a') = Inr es'"
    "es' = es @ success_entries now (take k ?p) @ tail" "list_all (\<lambda>e. \<not> le_success e) tail"
    "current_host_version es' = Inr (if k = 0 then v else hm_version (?p ! (k - 1)))"
    "migrate_host (take (Suc k) ?p) (ag_host a) = (map_sum id (\<lambda>_. ()) r, ag_host a')"
    "case r of Inr vs \<Rightarrow> k = length ?p \<and> vs = [] @ map hm_version ?p | Inl e \<Rightarrow> k < length ?p"
    using run_migrations_spec [OF newer_sorted [OF assms(1)] written assms(3,4) run] by blast
  have pending: "?p = drop (nat (v - 1)) registry" by (rule newer_drop [OF assms(1,5)])
  have length: "int (length ?p) = latest_registry_version registry - v"
    using assms(5,6) by (simp add: pending valid_registry_latest [OF assms(1)])
  have version: "current_host_version es' = Inr (v + int k)"
  proof (cases k)
    case (Suc j)
    then have "nat (v - 1) + j < length registry" using k(1) by (simp add: pending)
    moreover from this have "hm_version (registry ! (nat (v - 1) + j)) = int (nat (v - 1) + j) + 2"
      by (rule valid_registry_nth [OF assms(1)])
    ultimately show ?thesis using k(5) Suc assms(5) by (simp add: pending)
  qed (use k in simp)
  have next_run: "newer_than_version (v + int k) registry = drop k ?p"
    using assms(5) by (simp add: pending newer_drop [OF assms(1)] nat_add_distrib [of "v - 1" "int k", simplified] add.commute [of k] flip: diff_add_eq)
  have reached: "v + int k = latest_registry_version registry \<longleftrightarrow> \<not> isl r"
    using k(7) length by (cases r) auto
  obtain status where status: "get_migration_status J registry (ag_log a') = Inr status" "ms_ok status \<longleftrightarrow> \<not> isl r"
    using assms(5) length k(1) by (simp add: get_migration_status_def k(2) version Let_def flip: reached)
  show ?thesis
    unfolding Let_def using k version next_run status by (intro exI [of _ k] exI [of _ es'] exI [of _ status]) (auto split: sum.splits)
qed

text \<open>A host at version 1 with migrations to 2 and 3, of which the second fails.\<close>

definition two_migrations :: "int host_migration list" where
  "two_migrations = [\<lparr>hm_version = 2, hm_up = (\<lambda>s. (Inr (), s + 1))\<rparr>, \<lparr>hm_version = 3, hm_up = (\<lambda>s. (Inl (Exn RuntimeError ''full''), s))\<rparr>]"

definition noon :: "int \<Rightarrow> string" where
  "noon v = ''12:00''"

definition raw_entry :: "int \<Rightarrow> bool \<Rightarrow> pyval \<Rightarrow> pyval" where
  "raw_entry v ok error = VDict [(''version'', VInt v), (''timestamp'', VStr ''12:00''), (''success'', VBool ok), (''error'', error)]"

definition sample_json :: json_api where
  "sample_json = \<lparr>js_dumps = (\<lambda>e. (if le_success e then ''{ok'' else ''{no'') @ (if le_version e = VInt 2 then ''2}'' else ''3}'')),
     js_loads = (\<lambda>line. case map_of [(''{ok1}'', raw_entry 1 True VNone), (''{ok2}'', raw_entry 2 True VNone), (''{ok3}'', raw_entry 3 True VNone),
                     (''{no3}'', raw_entry 3 False (VStr ''full''))] line of
                   Some raw \<Rightarrow> Inr raw | None \<Rightarrow> Inl (Exn JSONDecodeError ''Expecting value''))\<rparr>"

definition fresh_agent :: "int agent" where
  "fresh_agent = \<lparr>ag_log = Some ''{ok1}'', ag_host = 0\<rparr>"

lemmas migration_sample = two_migrations_def noon_def raw_entry_def sample_json_def fresh_agent_def outcome_entry_def

lemma sample_log_written: "log_written sample_json noon two_migrations"
  by (simp add: log_written_def json_reads_def migration_sample entry_of_def exn_text_def strip_def rstrip_if_def is_line_break_def is_space_def code_def)

lemma sample_start:
  "validate_host_registry two_migrations = Inr ()" "latest_registry_version two_migrations = 3"
  "read_log sample_json (ag_log fresh_agent) = Inr [outcome_entry ''12:00'' 1 None]"
  "newer_than_version 1 two_migrations = two_migrations" "length two_migrations = 2"
  by (simp_all add: validate_host_registry_def latest_registry_version_def newer_than_version_def migration_sample read_log_def splitlines_def
      strip_def rstrip_if_def is_line_break_def is_space_def code_def entry_of_def)

theorem host_migrations_resume_witness:
  "\<exists>k es' status. k \<le> 2 \<and> (let (r, a') = apply_system_migrations sample_json noon True two_migrations fresh_agent in
     read_log sample_json (ag_log a') = Inr es' \<and> current_host_version es' = Inr (1 + int k)
     \<and> newer_than_version (1 + int k) two_migrations = drop k two_migrations
     \<and> get_migration_status sample_json two_migrations (ag_log a') = Inr status \<and> (ms_ok status \<longleftrightarrow> \<not> isl r))"
proof -
  obtain r a' where run: "apply_system_migrations sample_json noon True two_migrations fresh_agent = (r, a')" by fastforce
  show ?thesis
    using host_migrations_resume [OF sample_start(1) sample_log_written sample_start(3) outcome_version(1) _ _ run]
    unfolding sample_start Let_def run prod.case by auto
qed

end
