(* ===== verification/Recovery.thy ===== *)
theory Recovery
  imports LifecycleProps
begin

text \<open>
  \<open>core/startup.py\<close>: what a starting router does with the apps its predecessor left running, starting or building.  The
  sweep looks at every such row and decides whether the app is alive, lost or to be launched again; the launches run one
  after the other, those of a primary-domain promotion before the server answers.  \<open>begun\<close> is the time the process started
  at.  The launches in the background are taken to run without requests in between.
\<close>

section \<open>The sweep\<close>

definition promotion_restart :: "app_row \<Rightarrow> bool" where
  "promotion_restart r = (a_status r = Starting \<and> a_error_message r = Some PRIMARY_DOMAIN_RESTART_MARKER)"

definition named_container :: "app_row \<Rightarrow> string option" where
  "named_container r = (case a_container_id r of Some c \<Rightarrow> if c = [] then None else Some c | None \<Rightarrow> None)"

definition set_status :: "app_status \<Rightarrow> app_row \<Rightarrow> app_row" where
  "set_status st r = r\<lparr>a_status := st\<rparr>"

text \<open>One row; the result says whether the app is to be launched before the server answers, and whether to be built.\<close>

definition check_row :: "'v world \<Rightarrow> string \<Rightarrow> app_row \<Rightarrow> (bool \<times> string \<times> bool) option act" where
  "check_row W begun r =
     act_bind (case named_container r of None \<Rightarrow> act_return False | Some c \<Rightarrow> is_container_running (w_processes W) c) (\<lambda>alive.
       let app_id = a_app_id r; status = a_status r; own = (\<not> promotion_restart r \<and> begun \<le> a_created_at r);
           has_repo = (a_repo_path r \<noteq> [] \<and> is_dir (w_fs W) (a_repo_path r));
           has_manifest = (a_manifest_raw r \<notin> {None, Some []} \<or> has_repo)
       in if status = Starting \<and> own then act_return None
          else if alive \<and> status \<noteq> Starting
          then act_then (if status = Building then act_exec (update_app app_id (set_status Running)) else act_return ()) (act_return None)
          else
            act_bind (if status = Building then act_return True
                      else act_bind (image_exists (w_processes W) (image_tag (a_name r))) (\<lambda>found. act_return (\<not> found)))
              (\<lambda>needs_build.
                if \<not> has_manifest \<or> (needs_build \<and> \<not> has_repo)
                then act_then (act_exec (update_app app_id (set_error (''Cannot recover: repo path missing ('' @ a_repo_path r @ '')''))))
                       (act_return None)
                else act_then (act_exec (update_app app_id (set_status Starting)))
                       (act_return (if named_container r = None \<and> own then None
                                    else Some (promotion_restart r, app_id, needs_build)))))"

fun check_rows :: "'v world \<Rightarrow> string \<Rightarrow> app_row list \<Rightarrow> (bool \<times> string \<times> bool) list act" where
  "check_rows W begun [] = act_return []"
| "check_rows W begun (r # rs) =
     act_bind (check_row W begun r) (\<lambda>found.
     act_bind (check_rows W begun rs) (\<lambda>rest. act_return (case found of None \<Rightarrow> rest | Some x \<Rightarrow> x # rest)))"

section \<open>Corrupt build caches\<close>

text \<open>SQL's \<open>LIKE\<close> ignores the case of letters, and an underscore in the pattern stands for any character.\<close>

fun like_start :: "string \<Rightarrow> string \<Rightarrow> bool" where
  "like_start [] s = True"
| "like_start (p # ps) [] = False"
| "like_start (p # ps) (c # s) = ((p = CHR ''_'' \<or> lower_char p = lower_char c) \<and> like_start ps s)"

fun like_inside :: "string \<Rightarrow> string \<Rightarrow> bool" where
  "like_inside ps [] = (ps = [])"
| "like_inside ps (c # s) = (like_start ps (c # s) \<or> like_inside ps s)"

definition cache_corrupt :: "app_row \<Rightarrow> bool" where
  "cache_corrupt r =
     (a_status r = Error \<and> (case a_error_message r of None \<Rightarrow> False | Some m \<Rightarrow> like_inside BUILD_CACHE_CORRUPT_MARKER m))"

definition clear_error :: "app_row \<Rightarrow> app_row" where
  "clear_error r = r\<lparr>a_status := Starting, a_error_message := None\<rparr>"

definition corrupt_apps :: "'v world \<Rightarrow> database \<Rightarrow> string list" where
  "corrupt_apps W db =
     map a_app_id (filter (\<lambda>r. a_repo_path r \<noteq> [] \<and> is_dir (w_fs W) (a_repo_path r)) (filter cache_corrupt (t_apps db)))"

definition recover_cache_corrupt_apps :: "'v world \<Rightarrow> string list act" where
  "recover_cache_corrupt_apps W =
     act_bind (act_query (corrupt_apps W)) (\<lambda>corrupt.
       if corrupt = [] then act_return []
       else act_then (swallow (act_bind (drop_docker_build_cache (w_processes W)) (\<lambda>output. act_return ())))
            (act_then (act_each (\<lambda>app_id. act_exec (update_app app_id clear_error)) corrupt) (act_return corrupt)))"

section \<open>Launching again\<close>

definition recover_app :: "'v world \<Rightarrow> string \<times> bool \<Rightarrow> unit act" where
  "recover_app W job =
     (case job of (app_id, needs_build) \<Rightarrow>
        act_catch (if needs_build then start_app_process W False app_id else restart_app_process W False app_id) (record_failure app_id))"

definition restart_apps_sequential :: "'v world \<Rightarrow> (string \<times> bool) list \<Rightarrow> unit act" where
  "restart_apps_sequential W apps = act_each (recover_app W) apps"

definition swept :: "app_row \<Rightarrow> bool" where
  "swept r = (a_status r \<in> {Running, Starting, Building})"

definition sweep :: "'v world \<Rightarrow> string \<Rightarrow> ((string \<times> bool) list \<times> (string \<times> bool) list) act" where
  "sweep W begun =
     act_bind (act_query (\<lambda>db. filter swept (t_apps db))) (\<lambda>rows.
     act_bind (check_rows W begun rows) (\<lambda>found.
     act_bind (recover_cache_corrupt_apps W) (\<lambda>corrupt.
     act_then act_commit
       (act_return (map snd (filter fst found), map snd (filter (\<lambda>x. \<not> fst x) found) @ map (\<lambda>i. (i, True)) corrupt)))))"

text \<open>The result is the work of the background thread.\<close>

definition check_app_status :: "'v world \<Rightarrow> string \<Rightarrow> (string \<times> bool) list act" where
  "check_app_status W begun =
     act_bind (act_catch (sweep W begun) (\<lambda>e. act_then act_rollback (act_raise e))) (\<lambda>(promoted, apps).
       act_then (restart_apps_sequential W promoted) (act_return apps))"

definition recover_apps :: "'v world \<Rightarrow> string \<Rightarrow> unit act" where
  "recover_apps W begun = act_bind (check_app_status W begun) (restart_apps_sequential W)"

section \<open>Other apps are left alone\<close>

text \<open>What holds of a database whatever happens to the row of one app.\<close>

locale app_frame =
  fixes P :: "database \<Rightarrow> bool" and app :: string
  assumes P_update: "(\<And>r. a_app_id (f r) = a_app_id r) \<Longrightarrow> P db \<Longrightarrow> P (update_app app f db)"
    and P_tokens: "P db \<Longrightarrow> P (db\<lparr>t_app_tokens := ts\<rparr>)"
    and P_providers: "P db \<Longrightarrow> P (db\<lparr>t_providers := ps\<rparr>)"
begin

lemma keeps_mark_starting: "keeps P (mark_app_starting app)"
  unfolding mark_app_starting_def
  by (intro keeps_intros keeps_exec P_update) (simp_all add: starting_row_def)

lemma keeps_prepare: "keeps P (prepare_launch W fk app n m env)"
proof -
  have "keeps P (act_try (register_services_provided_by_app fk app m))"
    unfolding register_services_provided_by_app_def
    by (rule keeps_try, drule insert_providers_frame) (metis P_providers)
  then show ?thesis
    unfolding prepare_launch_def store_app_token_def replace_app_token_def
    by (intro keeps_intros keeps_exec P_tokens keeps_mark_starting)
qed

lemma keeps_launch_failed: "keeps P (launch_failed W app r b c e)"
  unfolding launch_failed_def Let_def
  by (intro keeps_intros keeps_exec P_update) (simp_all add: set_error_def)

lemma keeps_finish: "keeps P (finish_launch W app c)"
  unfolding finish_launch_def
  by (intro keeps_intros keeps_exec P_update) (simp_all add: set_error_def set_running_def)

lemma keeps_run_image: "keeps P (run_app_image W fk app tag m env)"
  unfolding run_app_image_def by (intro keeps_intros keeps_prepare keeps_launch_failed keeps_finish)

lemma keeps_record: "keeps P (record_failure app e)"
  unfolding record_failure_def
  by (intro keeps_intros keeps_exec P_update) (simp_all add: set_error_def)

lemma keeps_recover: "keeps P (recover_app W (app, needs_build))"
  unfolding recover_app_def prod.case start_app_process_def restart_app_process_def build_then_run_app_def
  by (intro keeps_intros keeps_run_image keeps_mark_starting keeps_record)

end

interpretation other: app_frame "\<lambda>db. i \<noteq> app \<longrightarrow> select_app i db = q" app for i q app
proof
  fix f :: "app_row \<Rightarrow> app_row" and db ts ps
  assume h: "i \<noteq> app \<longrightarrow> select_app i db = q"
  then show "i \<noteq> app \<longrightarrow> select_app i (db\<lparr>t_app_tokens := ts\<rparr>) = q" "i \<noteq> app \<longrightarrow> select_app i (db\<lparr>t_providers := ps\<rparr>) = q"
    by (simp_all add: select_app_def)
  assume "\<And>r. a_app_id (f r) = a_app_id r"
  with h show "i \<noteq> app \<longrightarrow> select_app i (update_app app f db) = q"
    by (simp add: select_update_app)
qed

section \<open>How a recovery ends\<close>

text \<open>What the worker and everybody else see of a row.\<close>

definition row_is :: "string \<Rightarrow> app_row option \<Rightarrow> wstate \<Rightarrow> bool" where
  "row_is i q s = (select_app i (ws_db s) = q \<and> select_app i (ws_committed s) = q)"

definition ended_in :: "string \<Rightarrow> wstate \<Rightarrow> bool" where
  "ended_in i s = (\<exists>q. row_is i (Some q) s \<and> a_status q \<in> {Running, Error})"

lemma returned_ended: "launch_returned i es0 s \<Longrightarrow> ended_in i s"
  unfolding launch_returned_def ended_in_def row_is_def by blast

lemma raised_present: "launch_raised i es0 e s \<Longrightarrow> row_present i s"
  unfolding launch_raised_def row_present_def has_app_def by auto

lemma image_ends: "act_spec (row_present i) (run_app_image W fk i tag m env) (\<lambda>_. ended_in i) (\<lambda>_. row_present i)"
proof (rule act_specI)
  fix s
  assume "row_present i s"
  then have pre: "row_present i s \<and> since (ws_effects s) (only_started {}) s"
    by (simp add: since_def only_started_def containers_started_def)
  have "act_spec (\<lambda>s'. row_present i s' \<and> since (ws_effects s) (only_started {}) s') (run_app_image W fk i tag m env)
      (\<lambda>_. ended_in i) (\<lambda>_. row_present i)"
    by (rule act_spec_weaken [OF run_app_image_spec]) (assumption, erule returned_ended, erule raised_present)
  from this [unfolded act_spec_def, rule_format, OF pre]
  show "case run_app_image W fk i tag m env s of (Inr x, s') \<Rightarrow> ended_in i s' | (Inl e, s') \<Rightarrow> row_present i s'" .
qed

lemma present_keeps: "keeps (has_app i) m \<Longrightarrow> act_spec (row_present i) m (\<lambda>_. row_present i) (\<lambda>_. row_present i)"
  by (rule row_present_keeps)

lemma spec_option:
  "act_spec P m Q E \<Longrightarrow> (\<And>x. act_spec P (f x) Q E) \<Longrightarrow> act_spec P (case v of None \<Rightarrow> m | Some x \<Rightarrow> f x) Q E"
  by (cases v) simp_all

lemma raise_ends: "act_spec (row_present i) (act_raise e) (\<lambda>_. ended_in i) (\<lambda>_. row_present i)"
  by (simp add: act_spec_def act_raise_def)

lemma start_ends: "act_spec (row_present i) (start_app_process W fk i) (\<lambda>_. ended_in i) (\<lambda>_. row_present i)"
proof -
  have built: "act_spec (row_present i) (build_then_run_app W fk i n rp m k env) (\<lambda>_. ended_in i) (\<lambda>_. row_present i)" for n rp m k env
    unfolding build_then_run_app_def by (rule spec_bind [OF image_ends present_keeps [OF keeps_build]])
  have "act_spec (row_present i) (case row of
          None \<Rightarrow> act_raise (Exn TypeError ''object is not subscriptable'')
        | Some r \<Rightarrow>
            act_bind (act_lift (parse_manifest (w_libs W) (w_fs W) (a_repo_path r))) (\<lambda>m.
            act_then (mark_app_starting i)
              (build_then_run_app W fk i (a_name r) (a_repo_path r) m 1 None)))
      (\<lambda>_. ended_in i) (\<lambda>_. row_present i)" for row
    by (intro spec_option raise_ends spec_bind [where R = "\<lambda>_. row_present i"] spec_then [where R = "row_present i"] built
        present_keeps keeps_lift row.keeps_mark_starting)
  then show ?thesis
    unfolding start_app_process_def
    by (rule spec_bind [OF spec_then [OF _ present_keeps [OF keeps_lift]] present_keeps [OF keeps_query]])
qed

lemma restart_ends: "act_spec (row_present i) (restart_app_process W fk i) (\<lambda>_. ended_in i) (\<lambda>_. row_present i)"
proof -
  have "act_spec (row_present i) (case row of
         None \<Rightarrow> act_raise (Exn RuntimeError (''No app found with id '' @ i))
       | Some r \<Rightarrow>
           act_then (act_lift (check_before_deploy (w_min_free_mb W) (w_disk_free W)))
           (act_bind (act_lift (case a_manifest_raw r of
                        None \<Rightarrow> parse_manifest (w_libs W) (w_fs W) (a_repo_path r)
                      | Some raw \<Rightarrow> if raw = [] then parse_manifest (w_libs W) (w_fs W) (a_repo_path r)
                                    else parse_manifest_from_string (w_libs W) raw)) (\<lambda>m.
              run_app_image W fk i (image_tag (a_name r)) m None)))
      (\<lambda>_. ended_in i) (\<lambda>_. row_present i)" for row
    by (intro spec_option raise_ends spec_bind [where R = "\<lambda>_. row_present i"] spec_then [where R = "row_present i"] image_ends
        present_keeps keeps_lift)
  then show ?thesis
    unfolding restart_app_process_def by (rule spec_bind [OF _ present_keeps [OF keeps_query]])
qed

lemma record_ends: "act_spec (row_present i) (record_failure i e) (\<lambda>_. ended_in i) (\<lambda>_ _. False)"
proof -
  have "select_app i (update_app i (set_error (exn_text e)) db) = map_option (set_error (exn_text e)) (select_app i db)" for db
    by (subst select_update_app) (simp_all add: set_error_def)
  then show ?thesis
    by (auto simp: act_spec_def record_failure_def act_defs ended_in_def row_is_def row_present_def has_app_def ws_db_def ws_committed_def set_error_def)
qed

lemma recover_ends: "act_spec (row_present i) (recover_app W (i, needs_build)) (\<lambda>_. ended_in i) (\<lambda>_ _. False)"
  unfolding recover_app_def prod.case
  by (cases needs_build) (auto intro!: spec_catch [OF record_ends] start_ends restart_ends)

lemma recover_other: "recover_app W (j, needs_build) s = (r, s') \<Longrightarrow> i \<noteq> j \<Longrightarrow> row_is i q s \<Longrightarrow> row_is i q s'"
  using keepsD [OF other.keeps_recover [where i = i and q = q], of j s W needs_build]
  by (simp add: row_is_def)

lemma restart_sequential_ends:
  assumes "\<And>i. \<exists>q. row_is i q s" and "\<And>i. i \<in> fst ` set jobs \<Longrightarrow> row_present i s"
  shows "\<exists>s'. restart_apps_sequential W jobs s = (Inr (), s') \<and> (\<forall>i. \<exists>q. row_is i q s')
    \<and> (\<forall>i. if i \<in> fst ` set jobs then ended_in i s' else \<forall>q. row_is i q s \<longrightarrow> row_is i q s')"
  using assms
proof (induction jobs arbitrary: s)
  case Nil
  then show ?case by (simp add: restart_apps_sequential_def act_return_def)
next
  case (Cons job jobs)
  obtain j needs_build where job: "job = (j, needs_build)" by (cases job)
  obtain r s1 where run: "recover_app W job s = (r, s1)" by fastforce
  have "row_present j s" using Cons.prems(2) job by simp
  then have "r = Inr ()" and ended: "ended_in j s1"
    using recover_ends [of j W needs_build] run job unfolding act_spec_def by (cases r; fastforce)+
  have others: "row_is i q s1" if "i \<noteq> j" "row_is i q s" for i q
    using recover_other [OF run [unfolded job] that] .
  have "\<exists>q. row_is i q s1" for i
    using ended others Cons.prems(1) [of i] unfolding ended_in_def by (cases "i = j") blast+
  moreover have "row_present i s1" if "i \<in> fst ` set jobs" for i
  proof (cases "i = j")
    case True
    with ended show ?thesis by (auto simp: ended_in_def row_is_def row_present_def has_app_def)
  next
    case False
    obtain q where q: "row_is i q s" using Cons.prems(1) by blast
    moreover have "row_present i s" using Cons.prems(2) that by simp
    ultimately show ?thesis using others [OF False q] by (auto simp: row_is_def row_present_def has_app_def)
  qed
  ultimately obtain s' where s': "restart_apps_sequential W jobs s1 = (Inr (), s')" "\<And>i. \<exists>q. row_is i q s'"
    "\<And>i. if i \<in> fst ` set jobs then ended_in i s' else \<forall>q. row_is i q s1 \<longrightarrow> row_is i q s'"
    using Cons.IH by blast
  have "restart_apps_sequential W (job # jobs) s = (Inr (), s')"
    using run s'(1) \<open>r = Inr ()\<close> by (simp add: restart_apps_sequential_def act_then_def act_bind_def)
  moreover have "if i \<in> fst ` set (job # jobs) then ended_in i s' else \<forall>q. row_is i q s \<longrightarrow> row_is i q s'" for i
  proof (cases "i \<in> fst ` set jobs")
    case True
    then show ?thesis using s'(3) [of i] by simp
  next
    case False
    then have kept: "\<And>q. row_is i q s1 \<Longrightarrow> row_is i q s'" using s'(3) [of i] by simp
    show ?thesis
    proof (cases "i = j")
      case True
      then have "ended_in i s'" using ended kept unfolding ended_in_def by blast
      then show ?thesis using True job by simp
    next
      case other: False
      then show ?thesis using False kept others job by simp
    qed
  qed
  ultimately show ?case using s'(2) by blast
qed

section \<open>What the sweep decides\<close>

text \<open>Rows of an earlier process: those this process installed itself are the business of their own workers.\<close>

definition interrupted :: "string \<Rightarrow> app_row \<Rightarrow> bool" where
  "interrupted begun r = (swept r \<and> (promotion_restart r \<or> \<not> begun \<le> a_created_at r))"

definition rebuilt :: "'v world \<Rightarrow> app_row \<Rightarrow> bool" where
  "rebuilt W r = (cache_corrupt r \<and> a_repo_path r \<noteq> [] \<and> is_dir (w_fs W) (a_repo_path r))"

definition decided :: "'v world \<Rightarrow> app_row \<Rightarrow> bool" where
  "decided W q = (a_status q \<in> {Running, Error} \<and> \<not> rebuilt W q)"

definition asks :: "'a act \<Rightarrow> bool" where
  "asks m = (\<forall>s. \<exists>x s'. m s = (Inr x, s') \<and> ws_conn s' = ws_conn s)"

lemma asks_catch:
  assumes "\<And>s. ws_conn (snd (m s)) = ws_conn s" and "\<And>s e. fst (m s) = Inl e \<Longrightarrow> \<exists>x. h e = act_return x"
  shows "asks (act_catch m h)"
  unfolding asks_def
proof
  fix s
  show "\<exists>x s'. act_catch m h s = (Inr x, s') \<and> ws_conn s' = ws_conn s"
    using assms(1) [of s] assms(2) [of s]
    by (cases "m s"; cases "fst (m s)") (fastforce simp: act_catch_def act_return_def)+
qed

lemma run_conn: "ws_conn (snd (act_bind (act_run host argv) (\<lambda>x. if c x then act_return (f x) else act_return (g x)) s)) = ws_conn s"
  by (simp add: act_defs act_run_def Let_def split: proc.split)

lemma asks_image_exists: "asks (image_exists host t)"
  unfolding image_exists_def
  by (rule asks_catch)
    (auto simp: act_bind_def act_run_def act_return_def Let_def is_os_error_def split: proc.splits)

lemma asks_running: "asks (is_container_running host c)"
  unfolding is_container_running_def
  by (rule asks_catch)
    (auto simp: act_bind_def act_run_def act_return_def Let_def is_os_error_def split: proc.splits if_splits)

lemma asks_return: "asks (act_return x)"
  by (simp add: asks_def act_return_def)

lemma asks_not: "asks m \<Longrightarrow> asks (act_bind m (\<lambda>b. act_return (f b)))"
  unfolding asks_def act_bind_def act_return_def
proof
  fix s
  assume "\<forall>s. \<exists>x s'. m s = (Inr x, s') \<and> ws_conn s' = ws_conn s"
  then obtain x s' where "m s = (Inr x, s')" "ws_conn s' = ws_conn s" by blast
  then show "\<exists>y s'. (case m s of (Inl e, s') \<Rightarrow> (Inl e, s') | (Inr x, s') \<Rightarrow> (Inr (f x), s')) = (Inr y, s') \<and> ws_conn s' = ws_conn s"
    by simp
qed

lemma update_app_id: "update_app i (\<lambda>q. q) db = db"
  by (simp add: update_app_def update_apps_def)

lemma conn_views: "ws_conn s' = ws_conn s \<Longrightarrow> ws_db s' = ws_db s \<and> ws_committed s' = ws_committed s"
  by (simp add: ws_db_def ws_committed_def)

definition row_checked :: "'v world \<Rightarrow> string \<Rightarrow> app_row \<Rightarrow> wstate \<Rightarrow> (bool \<times> string \<times> bool) option \<Rightarrow> wstate \<Rightarrow> bool" where
  "row_checked W begun r s found s1 = (ws_committed s1 = ws_committed s
     \<and> (\<exists>g. ws_db s1 = update_app (a_app_id r) g (ws_db s) \<and> (\<forall>q. a_app_id (g q) = a_app_id q)
         \<and> (case found of Some (p, i, needs_build) \<Rightarrow> p = promotion_restart r \<and> i = a_app_id r
            | None \<Rightarrow> interrupted begun r \<longrightarrow> decided W (g r))))"

lemma row_checkedI:
  assumes "ws_committed v = ws_committed s" and "ws_db v = update_app (a_app_id r) g (ws_db s)" and "\<And>q. a_app_id (g q) = a_app_id q"
    and "case found of Some (p, i, needs_build) \<Rightarrow> p = promotion_restart r \<and> i = a_app_id r
       | None \<Rightarrow> interrupted begun r \<longrightarrow> decided W (g r)"
  shows "row_checked W begun r s found v"
  using assms unfolding row_checked_def by blast

lemma check_row_outcome:
  assumes "swept r"
  shows "\<exists>found s1. check_row W begun r s = (Inr found, s1) \<and> row_checked W begun r s found s1"
proof -
  let ?own = "\<not> promotion_restart r \<and> begun \<le> a_created_at r"
  let ?ask = "case named_container r of None \<Rightarrow> act_return False | Some c \<Rightarrow> is_container_running (w_processes W) c"
  let ?image = "if a_status r = Building then act_return True
      else act_bind (image_exists (w_processes W) (image_tag (a_name r))) (\<lambda>found. act_return (\<not> found))"
  let ?repo = "a_repo_path r \<noteq> [] \<and> is_dir (w_fs W) (a_repo_path r)"
  have "asks ?ask" by (cases "named_container r") (simp_all add: asks_return asks_running)
  then obtain alive t where alive: "?ask s = (Inr alive, t)" "ws_conn t = ws_conn s"
    unfolding asks_def by blast
  have "asks ?image" by (simp add: asks_return asks_not asks_image_exists)
  then obtain needs_build u where image: "?image t = (Inr needs_build, u)" "ws_conn u = ws_conn t"
    unfolding asks_def by blast
  note views = conn_views [OF alive(2)] conn_views [OF image(2)]
  consider (own) "a_status r = Starting \<and> ?own" | (alive) "alive \<and> a_status r \<noteq> Starting"
    | (down) "\<not> (a_status r = Starting \<and> ?own)" "\<not> (alive \<and> a_status r \<noteq> Starting)" by blast
  then show ?thesis
  proof cases
    case own
    then have "check_row W begun r s = (Inr None, t)"
      by (simp add: check_row_def act_bind_def [of ?ask] alive(1) act_return_def)
    moreover have "row_checked W begun r s None t"
      by (rule row_checkedI [where g = "\<lambda>q. q"]) (use own views in \<open>auto simp: update_app_id interrupted_def\<close>)
    ultimately show ?thesis by blast
  next
    case alive
    let ?v = "if a_status r = Building then t\<lparr>ws_conn := execute (update_app (a_app_id r) (set_status Running)) (ws_conn t)\<rparr> else t"
    have "check_row W begun r s = (Inr None, ?v)"
      using alive by (simp add: check_row_def act_bind_def [of ?ask] \<open>?ask s = (Inr alive, t)\<close> act_return_def act_then_def act_bind_def act_exec_def)
    moreover have "row_checked W begun r s None ?v"
      by (rule row_checkedI [where g = "if a_status r = Building then set_status Running else (\<lambda>q. q)"])
        (use assms alive views in \<open>auto simp: update_app_id set_status_def swept_def decided_def rebuilt_def cache_corrupt_def\<close>)
    ultimately show ?thesis by blast
  next
    case down
    let ?lost = "\<not> (a_manifest_raw r \<notin> {None, Some []} \<or> ?repo) \<or> (needs_build \<and> \<not> ?repo)"
    let ?g = "if ?lost then set_error (''Cannot recover: repo path missing ('' @ a_repo_path r @ '')'') else set_status Starting"
    let ?found = "if ?lost \<or> named_container r = None \<and> ?own then None else Some (promotion_restart r, a_app_id r, needs_build)"
    let ?v = "u\<lparr>ws_conn := execute (update_app (a_app_id r) ?g) (ws_conn u)\<rparr>"
    have "check_row W begun r s = (Inr ?found, ?v)"
      unfolding check_row_def act_bind_def [of ?ask] alive(1) prod.case sum.case Let_def if_not_P [OF down(1)] if_not_P [OF down(2)]
        act_bind_def [of ?image] image(1)
      by (auto simp: act_return_def act_then_def act_bind_def act_exec_def)
    moreover have "row_checked W begun r s ?found ?v"
      by (rule row_checkedI [where g = ?g]) (use views in \<open>auto simp: set_status_def set_error_def interrupted_def decided_def rebuilt_def\<close>)
    ultimately show ?thesis by blast
  qed
qed

lemma update_keeps_ids: "(\<And>q. a_app_id (g q) = a_app_id q) \<Longrightarrow> map a_app_id (t_apps (update_app i g db)) = map a_app_id (t_apps db)"
  by (simp add: update_app_def update_apps_def)

text \<open>The whole list: untouched rows, rows to launch, and rows decided at once.\<close>

lemma check_rows_outcome:
  assumes "distinct (map a_app_id rows)" and "\<And>r. r \<in> set rows \<Longrightarrow> swept r \<and> select_app (a_app_id r) (ws_db s) = Some r"
  shows "\<exists>found s1. check_rows W begun rows s = (Inr found, s1) \<and> ws_committed s1 = ws_committed s
    \<and> map a_app_id (t_apps (ws_db s1)) = map a_app_id (t_apps (ws_db s))
    \<and> (\<forall>i. i \<notin> a_app_id ` set rows \<longrightarrow> select_app i (ws_db s1) = select_app i (ws_db s))
    \<and> (\<forall>(p, i, b) \<in> set found. \<exists>r \<in> set rows. i = a_app_id r \<and> p = promotion_restart r)
    \<and> (\<forall>r \<in> set rows. (\<exists>b. (promotion_restart r, a_app_id r, b) \<in> set found)
         \<or> (interrupted begun r \<longrightarrow> (\<exists>q. select_app (a_app_id r) (ws_db s1) = Some q \<and> decided W q)))"
  using assms
proof (induction rows arbitrary: s)
  case Nil
  then show ?case by (simp add: act_return_def)
next
  case (Cons r rows)
  have r: "swept r" "select_app (a_app_id r) (ws_db s) = Some r" using Cons.prems(2) [of r] by simp_all
  obtain found s1 where first: "check_row W begun r s = (Inr found, s1)" "row_checked W begun r s found s1"
    using check_row_outcome [OF r(1)] by blast
  then obtain g where g: "ws_committed s1 = ws_committed s" "ws_db s1 = update_app (a_app_id r) g (ws_db s)" "\<And>q. a_app_id (g q) = a_app_id q"
    "case found of Some (p, i, needs_build) \<Rightarrow> p = promotion_restart r \<and> i = a_app_id r
     | None \<Rightarrow> interrupted begun r \<longrightarrow> decided W (g r)"
    unfolding row_checked_def by blast
  have select: "select_app i (ws_db s1) = (if i = a_app_id r then map_option g (select_app i (ws_db s)) else select_app i (ws_db s))" for i
    by (simp add: g(2) select_update_app g(3))
  have "swept r' \<and> select_app (a_app_id r') (ws_db s1) = Some r'" if "r' \<in> set rows" for r'
  proof -
    have "a_app_id r' \<noteq> a_app_id r" using Cons.prems(1) that by (metis distinct.simps(2) image_eqI list.set_map list.simps(9))
    then show ?thesis using Cons.prems(2) [of r'] that by (simp add: select)
  qed
  then obtain rest s2 where tl: "check_rows W begun rows s1 = (Inr rest, s2)" "ws_committed s2 = ws_committed s1"
    "map a_app_id (t_apps (ws_db s2)) = map a_app_id (t_apps (ws_db s1))"
    "\<And>i. i \<notin> a_app_id ` set rows \<Longrightarrow> select_app i (ws_db s2) = select_app i (ws_db s1)"
    "\<forall>(p, i, b) \<in> set rest. \<exists>r \<in> set rows. i = a_app_id r \<and> p = promotion_restart r"
    "\<And>r. r \<in> set rows \<Longrightarrow> (\<exists>b. (promotion_restart r, a_app_id r, b) \<in> set rest)
         \<or> (interrupted begun r \<longrightarrow> (\<exists>q. select_app (a_app_id r) (ws_db s2) = Some q \<and> decided W q))"
    using Cons.IH [of s1] Cons.prems(1) by auto
  let ?all = "case found of None \<Rightarrow> rest | Some x \<Rightarrow> x # rest"
  have "check_rows W begun (r # rows) s = (Inr ?all, s2)"
    by (simp add: act_bind_def first(1) tl(1) act_return_def)
  moreover have "map a_app_id (t_apps (ws_db s2)) = map a_app_id (t_apps (ws_db s))"
    using tl(3) update_keeps_ids [of g, OF g(3)] by (simp add: g(2))
  moreover have "select_app i (ws_db s2) = select_app i (ws_db s)" if "i \<notin> a_app_id ` set (r # rows)" for i
    using that tl(4) [of i] select [of i] by simp
  moreover have "\<forall>(p, i, b) \<in> set ?all. \<exists>r' \<in> set (r # rows). i = a_app_id r' \<and> p = promotion_restart r'"
    using tl(5) g(4) by (auto split: option.splits)
  moreover have "(\<exists>b. (promotion_restart r', a_app_id r', b) \<in> set ?all)
         \<or> (interrupted begun r' \<longrightarrow> (\<exists>q. select_app (a_app_id r') (ws_db s2) = Some q \<and> decided W q))"
    if "r' \<in> set (r # rows)" for r'
  proof (cases "r' \<in> set rows")
    case True
    then show ?thesis using tl(6) [OF True] by (auto split: option.splits)
  next
    case False
    then have "r' = r" using that by simp
    moreover have "select_app (a_app_id r) (ws_db s2) = Some (g r)"
      using tl(4) [of "a_app_id r"] Cons.prems(1) select [of "a_app_id r"] r(2) by auto
    ultimately show ?thesis using g(4) by (cases found) auto
  qed
  ultimately show ?case using g(1) tl(2) by (intro exI [of _ ?all] exI [of _ s2]) auto
qed

lemma each_clear:
  "\<exists>s1. act_each (\<lambda>i. act_exec (update_app i clear_error)) ids s = (Inr (), s1) \<and> ws_committed s1 = ws_committed s
    \<and> map a_app_id (t_apps (ws_db s1)) = map a_app_id (t_apps (ws_db s))
    \<and> (\<forall>i. i \<notin> set ids \<longrightarrow> select_app i (ws_db s1) = select_app i (ws_db s))"
proof (induction ids arbitrary: s)
  case Nil
  then show ?case by (simp add: act_return_def)
next
  case (Cons i ids)
  let ?t = "s\<lparr>ws_conn := execute (update_app i clear_error) (ws_conn s)\<rparr>"
  obtain s1 where s1: "act_each (\<lambda>i. act_exec (update_app i clear_error)) ids ?t = (Inr (), s1)" "ws_committed s1 = ws_committed ?t"
    "map a_app_id (t_apps (ws_db s1)) = map a_app_id (t_apps (ws_db ?t))"
    "\<And>j. j \<notin> set ids \<Longrightarrow> select_app j (ws_db s1) = select_app j (ws_db ?t)"
    using Cons.IH [of ?t] by blast
  have clear: "a_app_id (clear_error q) = a_app_id q" for q by (simp add: clear_error_def)
  have "act_each (\<lambda>i. act_exec (update_app i clear_error)) (i # ids) s = (Inr (), s1)"
    by (simp add: act_then_def act_bind_def act_exec_def s1(1))
  then show ?case using s1 by (auto simp: update_keeps_ids clear select_update_app)
qed

lemma drop_cache_conn: "\<exists>s1. swallow (act_bind (drop_docker_build_cache host) (\<lambda>output. act_return ())) s = (Inr (), s1) \<and> ws_conn s1 = ws_conn s"
  by (simp add: swallow_def drop_docker_build_cache_def podman_prune_def act_catch_def act_defs act_run_def Let_def split: proc.split)

lemma recover_cache_outcome:
  "\<exists>s1. recover_cache_corrupt_apps W s = (Inr (corrupt_apps W (ws_db s)), s1) \<and> ws_committed s1 = ws_committed s
    \<and> map a_app_id (t_apps (ws_db s1)) = map a_app_id (t_apps (ws_db s))
    \<and> (\<forall>i. i \<notin> set (corrupt_apps W (ws_db s)) \<longrightarrow> select_app i (ws_db s1) = select_app i (ws_db s))"
proof (cases "corrupt_apps W (ws_db s) = []")
  case True
  then show ?thesis by (simp add: recover_cache_corrupt_apps_def act_bind_def act_query_def act_return_def flip: ws_db_def)
next
  case False
  obtain t where t: "swallow (act_bind (drop_docker_build_cache (w_processes W)) (\<lambda>output. act_return ())) s = (Inr (), t)" "ws_conn t = ws_conn s"
    using drop_cache_conn by blast
  obtain s1 where s1: "act_each (\<lambda>i. act_exec (update_app i clear_error)) (corrupt_apps W (ws_db s)) t = (Inr (), s1)"
    "ws_committed s1 = ws_committed t" "map a_app_id (t_apps (ws_db s1)) = map a_app_id (t_apps (ws_db t))"
    "\<And>i. i \<notin> set (corrupt_apps W (ws_db s)) \<Longrightarrow> select_app i (ws_db s1) = select_app i (ws_db t)"
    using each_clear by blast
  have "recover_cache_corrupt_apps W s = (Inr (corrupt_apps W (ws_db s)), s1)"
    using False t(1) s1(1)
    by (simp add: recover_cache_corrupt_apps_def act_bind_def [of "act_query (corrupt_apps W)"] act_query_def flip: ws_db_def)
      (simp add: act_then_def act_bind_def act_return_def)
  then show ?thesis using s1 conn_views [OF t(2)] by auto
qed

text \<open>The sweep itself: what is left to launch, and what every other row looks like.\<close>

lemma select_of_row: "distinct (map a_app_id (t_apps db)) \<Longrightarrow> r \<in> set (t_apps db) \<Longrightarrow> select_app (a_app_id r) db = Some r"
  unfolding select_app_def by (rule find_unique) (auto simp: distinct_map inj_on_def)

lemma has_app_ids: "has_app i db \<longleftrightarrow> i \<in> set (map a_app_id (t_apps db))"
  by (auto simp: has_app_def select_app_def find_None_iff)

lemma corrupt_apps_ids: "i \<in> set (corrupt_apps W db) \<longleftrightarrow> (\<exists>r \<in> set (t_apps db). a_app_id r = i \<and> rebuilt W r)"
  by (auto simp: corrupt_apps_def rebuilt_def)

lemma sweep_outcome:
  assumes "distinct (map a_app_id (t_apps (ws_db s)))" and "ws_committed s = ws_db s"
  obtains promoted apps s1 where "sweep W begun s = (Inr (promoted, apps), s1)" "ws_committed s1 = ws_db s1"
    "map a_app_id (t_apps (ws_db s1)) = map a_app_id (t_apps (ws_db s))"
    "fst ` set (promoted @ apps) \<subseteq> set (map a_app_id (t_apps (ws_db s)))"
    "\<And>r. r \<in> set (t_apps (ws_db s)) \<Longrightarrow> promotion_restart r \<Longrightarrow>
       a_app_id r \<in> fst ` set promoted \<or> (\<exists>q. select_app (a_app_id r) (ws_db s1) = Some q \<and> decided W q \<and> a_app_id r \<notin> fst ` set apps)"
    "\<And>r. r \<in> set (t_apps (ws_db s)) \<Longrightarrow> interrupted begun r \<Longrightarrow>
       a_app_id r \<in> fst ` set (promoted @ apps) \<or> (\<exists>q. select_app (a_app_id r) (ws_db s1) = Some q \<and> decided W q)"
    "\<And>r. r \<in> set (t_apps (ws_db s)) \<Longrightarrow> \<not> swept r \<Longrightarrow> rebuilt W r \<Longrightarrow> a_app_id r \<in> fst ` set apps"
    "\<And>r. r \<in> set (t_apps (ws_db s)) \<Longrightarrow> \<not> swept r \<Longrightarrow> \<not> rebuilt W r \<Longrightarrow>
       a_app_id r \<notin> fst ` set (promoted @ apps) \<and> select_app (a_app_id r) (ws_db s1) = Some r"
proof -
  let ?rows = "filter swept (t_apps (ws_db s))"
  have "distinct (map a_app_id ?rows)" using assms(1) by (rule distinct_map_filter)
  moreover have "swept r \<and> select_app (a_app_id r) (ws_db s) = Some r" if "r \<in> set ?rows" for r
    using that select_of_row [OF assms(1)] by simp
  ultimately obtain found t where found: "check_rows W begun ?rows s = (Inr found, t)" "ws_committed t = ws_committed s"
    "map a_app_id (t_apps (ws_db t)) = map a_app_id (t_apps (ws_db s))"
    "\<And>i. i \<notin> a_app_id ` set ?rows \<Longrightarrow> select_app i (ws_db t) = select_app i (ws_db s)"
    "\<forall>(p, i, b) \<in> set found. \<exists>r \<in> set ?rows. i = a_app_id r \<and> p = promotion_restart r"
    "\<And>r. r \<in> set ?rows \<Longrightarrow> (\<exists>b. (promotion_restart r, a_app_id r, b) \<in> set found)
         \<or> (interrupted begun r \<longrightarrow> (\<exists>q. select_app (a_app_id r) (ws_db t) = Some q \<and> decided W q))"
    using check_rows_outcome [of ?rows s W begun] by blast
  let ?corrupt = "corrupt_apps W (ws_db t)"
  obtain u where u: "recover_cache_corrupt_apps W t = (Inr ?corrupt, u)" "ws_committed u = ws_committed t"
    "map a_app_id (t_apps (ws_db u)) = map a_app_id (t_apps (ws_db t))"
    "\<And>i. i \<notin> set ?corrupt \<Longrightarrow> select_app i (ws_db u) = select_app i (ws_db t)"
    using recover_cache_outcome by blast
  let ?promoted = "map snd (filter fst found)" and ?apps = "map snd (filter (\<lambda>x. \<not> fst x) found) @ map (\<lambda>i. (i, True)) ?corrupt"
  let ?s1 = "u\<lparr>ws_conn := commit (ws_conn u)\<rparr>"
  have run: "sweep W begun s = (Inr (?promoted, ?apps), ?s1)"
    by (simp add: sweep_def act_bind_def act_then_def act_query_def act_commit_def act_return_def found(1) u(1) flip: ws_db_def)
  have corrupt: "i \<in> set (map a_app_id (t_apps (ws_db s)))" if "i \<in> set ?corrupt" for i
    using that unfolding corrupt_apps_ids found(3) [symmetric] by auto
  have launched: "\<exists>r \<in> set ?rows. a_app_id r = i" if "i \<in> fst ` set (map snd found)" for i
    using that found(5) by fastforce
  have same_row: "r' = r" if "r \<in> set (t_apps (ws_db s))" "r' \<in> set (t_apps (ws_db s))" "a_app_id r' = a_app_id r" for r r'
    using select_of_row [OF assms(1) that(1)] select_of_row [OF assms(1) that(2)] that(3) by simp
  have "fst ` set ?promoted = {i. \<exists>b. (True, i, b) \<in> set found}" "fst ` set (map snd (filter (\<lambda>x. \<not> fst x) found)) = {i. \<exists>b. (False, i, b) \<in> set found}"
    by (induction found) auto
  then have jobs: "fst ` set ?promoted = {i. \<exists>b. (True, i, b) \<in> set found}" "fst ` set ?apps = {i. \<exists>b. (False, i, b) \<in> set found} \<union> set ?corrupt"
    unfolding set_append image_Un by (simp_all add: image_image)
  have all_jobs: "fst ` set (?promoted @ ?apps) = {i. \<exists>b. (True, i, b) \<in> set found} \<union> ({i. \<exists>b. (False, i, b) \<in> set found} \<union> set ?corrupt)"
    unfolding jobs [symmetric] set_append [of ?promoted] image_Un ..
  have distinct: "distinct (map a_app_id (t_apps (ws_db t)))" using assms(1) found(3) by simp
  have corrupt_row: "i \<in> set ?corrupt \<longleftrightarrow> rebuilt W q" if "select_app i (ws_db t) = Some q" for i q
  proof -
    have q: "q \<in> set (t_apps (ws_db t))" "a_app_id q = i"
      using find_Some_iff_filter [OF that [unfolded select_app_def]] by simp_all
    have "r' = q" if "r' \<in> set (t_apps (ws_db t))" "a_app_id r' = i" for r'
      using distinct_map_inj [OF distinct that(1) q(1)] that(2) q(2) by simp
    with q show ?thesis unfolding corrupt_apps_ids by blast
  qed
  have swept_outcome: "(\<exists>b. (promotion_restart r, a_app_id r, b) \<in> set found)
      \<or> (\<exists>q. select_app (a_app_id r) (ws_db ?s1) = Some q \<and> decided W q \<and> a_app_id r \<notin> set ?corrupt)"
    if "r \<in> set (t_apps (ws_db s))" "interrupted begun r" for r
  proof -
    have "r \<in> set ?rows" using that by (simp add: interrupted_def)
    from found(6) [OF this] that(2) show ?thesis
      using corrupt_row u(4) [of "a_app_id r"] unfolding decided_def ws_simps by fastforce
  qed
  have others: "(a_app_id r \<in> set ?corrupt \<longleftrightarrow> rebuilt W r) \<and> (p, a_app_id r, b) \<notin> set found
      \<and> (\<not> rebuilt W r \<longrightarrow> select_app (a_app_id r) (ws_db ?s1) = Some r)"
    if r: "r \<in> set (t_apps (ws_db s))" "\<not> swept r" for r p b
  proof -
    have "(p, a_app_id r, b) \<notin> set found"
      using found(5) same_row [OF r(1)] r(2) by fastforce
    moreover have row: "select_app (a_app_id r) (ws_db t) = Some r"
      using found(4) [of "a_app_id r"] select_of_row [OF assms(1) r(1)] same_row [OF r(1)] r(2) by fastforce
    ultimately show ?thesis
      using corrupt_row [OF row] u(4) [of "a_app_id r"] by simp
  qed
  have known: "fst ` set (?promoted @ ?apps) \<subseteq> set (map a_app_id (t_apps (ws_db s)))"
    using launched corrupt unfolding all_jobs by fastforce
  have ids: "ws_committed ?s1 = ws_db ?s1" "map a_app_id (t_apps (ws_db ?s1)) = map a_app_id (t_apps (ws_db s))"
    using u(3) found(3) by simp_all
  show ?thesis
  proof (rule that [OF run ids known])
    fix r
    assume r: "r \<in> set (t_apps (ws_db s))"
    show "a_app_id r \<in> fst ` set ?promoted
        \<or> (\<exists>q. select_app (a_app_id r) (ws_db ?s1) = Some q \<and> decided W q \<and> a_app_id r \<notin> fst ` set ?apps)"
      if p: "promotion_restart r"
    proof -
      have "interrupted begun r" using p by (simp add: interrupted_def promotion_restart_def swept_def)
      moreover have "(False, a_app_id r, b) \<notin> set found" for b
        using found(5) same_row [OF r] p by fastforce
      ultimately show ?thesis using swept_outcome [OF r] p unfolding jobs by auto
    qed
    show "interrupted begun r \<Longrightarrow> a_app_id r \<in> fst ` set (?promoted @ ?apps)
        \<or> (\<exists>q. select_app (a_app_id r) (ws_db ?s1) = Some q \<and> decided W q)"
      using swept_outcome [OF r] unfolding all_jobs by (cases "promotion_restart r") auto
    show "\<not> swept r \<Longrightarrow> rebuilt W r \<Longrightarrow> a_app_id r \<in> fst ` set ?apps"
      using others [OF r] unfolding jobs by blast
    show "\<not> swept r \<Longrightarrow> \<not> rebuilt W r \<Longrightarrow> a_app_id r \<notin> fst ` set (?promoted @ ?apps) \<and> select_app (a_app_id r) (ws_db ?s1) = Some r"
      using others [OF r] unfolding all_jobs by blast
  qed
qed

lemma synced_rows: "ws_committed s = ws_db s \<Longrightarrow> \<exists>q. row_is i q s"
  by (simp add: row_is_def)

lemma check_app_status_outcome:
  assumes "distinct (map a_app_id (t_apps db))"
  obtains apps s1 where "check_app_status W begun (start_state db) = (Inr apps, s1)" "\<And>i. \<exists>q. row_is i q s1"
    "\<And>i. i \<in> fst ` set apps \<Longrightarrow> row_present i s1"
    "\<And>r. r \<in> set (t_apps db) \<Longrightarrow> promotion_restart r \<Longrightarrow> ended_in (a_app_id r) s1"
    "\<And>r. r \<in> set (t_apps db) \<Longrightarrow> interrupted begun r \<Longrightarrow> a_app_id r \<in> fst ` set apps \<or> ended_in (a_app_id r) s1"
    "\<And>r. r \<in> set (t_apps db) \<Longrightarrow> \<not> swept r \<Longrightarrow> rebuilt W r \<Longrightarrow> a_app_id r \<in> fst ` set apps"
    "\<And>r. r \<in> set (t_apps db) \<Longrightarrow> \<not> swept r \<Longrightarrow> \<not> rebuilt W r \<Longrightarrow> a_app_id r \<notin> fst ` set apps \<and> row_is (a_app_id r) (Some r) s1"
proof -
  have start: "distinct (map a_app_id (t_apps (ws_db (start_state db))))" "ws_committed (start_state db) = ws_db (start_state db)"
    using assms by simp_all
  obtain promoted apps t where t: "sweep W begun (start_state db) = (Inr (promoted, apps), t)" "ws_committed t = ws_db t"
    "map a_app_id (t_apps (ws_db t)) = map a_app_id (t_apps db)" "fst ` set (promoted @ apps) \<subseteq> set (map a_app_id (t_apps db))"
    and promotion: "\<And>r. r \<in> set (t_apps db) \<Longrightarrow> promotion_restart r \<Longrightarrow>
       a_app_id r \<in> fst ` set promoted \<or> (\<exists>q. select_app (a_app_id r) (ws_db t) = Some q \<and> decided W q \<and> a_app_id r \<notin> fst ` set apps)"
    and stopped: "\<And>r. r \<in> set (t_apps db) \<Longrightarrow> interrupted begun r \<Longrightarrow>
       a_app_id r \<in> fst ` set (promoted @ apps) \<or> (\<exists>q. select_app (a_app_id r) (ws_db t) = Some q \<and> decided W q)"
    and cached: "\<And>r. r \<in> set (t_apps db) \<Longrightarrow> \<not> swept r \<Longrightarrow> rebuilt W r \<Longrightarrow> a_app_id r \<in> fst ` set apps"
    and others: "\<And>r. r \<in> set (t_apps db) \<Longrightarrow> \<not> swept r \<Longrightarrow> \<not> rebuilt W r \<Longrightarrow>
       a_app_id r \<notin> fst ` set (promoted @ apps) \<and> select_app (a_app_id r) (ws_db t) = Some r"
    by (rule sweep_outcome [OF start, of W begun], simp only: ws_simps) (rule that)
  have present: "row_present i t" if "i \<in> fst ` set (promoted @ apps)" for i
    using that t(2,3,4) by (auto simp: row_present_def has_app_ids)
  obtain s1 where s1: "restart_apps_sequential W promoted t = (Inr (), s1)" "\<And>i. \<exists>q. row_is i q s1"
    "\<And>i. if i \<in> fst ` set promoted then ended_in i s1 else \<forall>q. row_is i q t \<longrightarrow> row_is i q s1"
    using restart_sequential_ends [of t promoted W] synced_rows [OF t(2)] present by auto
  have run: "check_app_status W begun (start_state db) = (Inr apps, s1)"
    by (simp add: check_app_status_def act_bind_def act_catch_def act_then_def act_return_def t(1) s1(1))
  have row: "row_is i (Some q) t \<longleftrightarrow> select_app i (ws_db t) = Some q" for i q
    using t(2) by (simp add: row_is_def)
  have settled: "ended_in i s1" if "i \<in> fst ` set promoted \<or> (\<exists>q. select_app i (ws_db t) = Some q \<and> decided W q)" for i
    using that s1(3) [of i] row unfolding decided_def ended_in_def by (auto split: if_splits)
  show ?thesis
  proof (rule that [OF run s1(2)])
    show "row_present i s1" if "i \<in> fst ` set apps" for i
      using present [of i] that s1(3) [of i] synced_rows [OF t(2), of i]
      by (auto simp: ended_in_def row_is_def row_present_def has_app_def split: if_splits)
    fix r
    assume r: "r \<in> set (t_apps db)"
    show "promotion_restart r \<Longrightarrow> ended_in (a_app_id r) s1" using promotion [OF r] settled by blast
    show "interrupted begun r \<Longrightarrow> a_app_id r \<in> fst ` set apps \<or> ended_in (a_app_id r) s1"
      using stopped [OF r] settled by auto
    show "\<not> swept r \<Longrightarrow> rebuilt W r \<Longrightarrow> a_app_id r \<in> fst ` set apps" by (rule cached [OF r])
    show "\<not> swept r \<Longrightarrow> \<not> rebuilt W r \<Longrightarrow> a_app_id r \<notin> fst ` set apps \<and> row_is (a_app_id r) (Some r) s1"
      using others [OF r] s1(3) [of "a_app_id r"] row [of "a_app_id r" r] by (auto simp: image_Un)
  qed
qed


text \<open>C7: 
  C2: A change of the primary domain takes every app with it.  Once it is committed and the router has come up again, and
  before the first request is answered, every app that was running under the old domain is running again or in error;
  none is left in between, and none waits for the background.
\<close>
theorem promotion_recovers:
  assumes "set_primary_domain name db = (Inr True, db')" and "domains_ok db" and "distinct (map a_app_id (t_apps db))"
  shows "\<exists>apps s'. check_app_status W begun (start_state db') = (Inr apps, s') \<and> (\<forall>r \<in> set (t_apps db).
    if a_status r = Running
    then \<exists>q. select_app (a_app_id r) (ws_committed s') = Some q \<and> a_status q \<in> {Running, Error}
    else a_status r \<in> {Stopped, Error})"
proof -
  from assms(1) have promote: "promote (lower (before CHR '':'' name)) db = Inr (True, db')"
    by (auto simp: set_primary_domain_def split: sum.splits)
  obtain t where idle: "busy_apps db = []"
    and rows: "t_apps db' = map (\<lambda>r. if a_status r = Running \<or> (a_status r = Error \<and> a_container_id r \<noteq> None)
        then r\<lparr>a_status := Starting, a_error_message := Some PRIMARY_DOMAIN_RESTART_MARKER\<rparr> else r) (t_apps db)"
    by (rule promote_True [OF promote assms(2)]) (rule that)
  have "map a_app_id (t_apps db') = map a_app_id (t_apps db)" unfolding rows by simp
  with assms(3) have "distinct (map a_app_id (t_apps db'))" by simp
  then obtain apps s' where s': "check_app_status W begun (start_state db') = (Inr apps, s')"
    "\<And>r. r \<in> set (t_apps db') \<Longrightarrow> promotion_restart r \<Longrightarrow> ended_in (a_app_id r) s'"
    by (rule check_app_status_outcome [of db' W begun]) (rule that; blast)
  have "length (busy_apps db) = 0" using idle by simp
  then have free: "\<forall>r \<in> set (t_apps db). a_status r \<notin> {Building, Starting, Removing}"
    by (auto simp: busy_apps_def filter_empty_conv)
  have "if a_status r = Running
    then \<exists>q. select_app (a_app_id r) (ws_committed s') = Some q \<and> a_status q \<in> {Running, Error}
    else a_status r \<in> {Stopped, Error}" if r: "r \<in> set (t_apps db)" for r
  proof (cases "a_status r = Running")
    case True
    then have "r\<lparr>a_status := Starting, a_error_message := Some PRIMARY_DOMAIN_RESTART_MARKER\<rparr> \<in> set (t_apps db')"
      unfolding rows using r by force
    from s'(2) [OF this] True show ?thesis
      by (auto simp: promotion_restart_def ended_in_def row_is_def)
  next
    case False
    then show ?thesis using bspec [OF free r] by (cases "a_status r") auto
  qed
  with s'(1) show ?thesis by blast
qed


theorem promotion_recovers_witness:
  "\<exists>db' apps s' q. set_primary_domain ''Host.example.com'' example_ddb = (Inr True, db')
    \<and> check_app_status example_world ''2030-01-01 00:00:00'' (start_state db') = (Inr apps, s')
    \<and> select_app ''AAAAAAAAAAAA'' (ws_committed s') = Some q \<and> a_status q \<in> {Running, Error}"
proof -
  let ?r = "set_primary_domain ''Host.example.com'' example_ddb"
  have "fst ?r = Inr True" by code_simp
  then have run: "?r = (Inr True, snd ?r)" by (metis prod.collapse)
  have "distinct (map a_app_id (t_apps example_ddb))" by code_simp
  moreover have "example_row \<in> set (t_apps example_ddb)" by (simp add: example_ddb_def example_db_def)
  moreover have "a_status example_row = Running" "a_app_id example_row = ''AAAAAAAAAAAA''" by (simp_all add: example_row_def)
  ultimately show ?thesis
    using promotion_recovers [OF run example_ddb_ok, of example_world "''2030-01-01 00:00:00''"] run by fastforce
qed

end
