(* ===== verification/ImagePruner.thy ===== *)
theory ImagePruner
  imports Containers Sample
begin

text \<open>
  \<open>core/image_pruner.py\<close>: one cycle of the pruner, which drops dangling images and sweeps the tagged images of apps that are
  gone, and the registry that starts one thread per database.  The sleep of the thread and its log lines are not modelled.
\<close>

section \<open>Settings\<close>

definition prune_interval_seconds :: "int \<Rightarrow> int option" where
  "prune_interval_seconds interval = (if interval \<le> 0 then None else Some interval)"

definition orphan_max_age_seconds :: "int \<Rightarrow> int option" where
  "orphan_max_age_seconds max_age = (if max_age \<le> 0 then None else Some max_age)"

section \<open>The sweep\<close>

record pruner =
  ip_json_loads :: "string \<Rightarrow> pyval result"
  ip_processes :: processes
  ip_db_readable :: bool
  ip_max_age :: int
  ip_now :: rat

definition current_app_names :: "database \<Rightarrow> string set" where
  "current_app_names db = a_name ` set (t_apps db)"

definition orphaned :: "string set \<Rightarrow> int \<Rightarrow> rat \<Rightarrow> openhost_image \<Rightarrow> bool" where
  "orphaned app_names max_age now im =
     (oi_app_name im \<notin> app_names \<and> \<not> now - of_int (oi_created_epoch im) < of_int max_age)"

fun remove_orphans :: "processes \<Rightarrow> (openhost_image \<Rightarrow> bool) \<Rightarrow> openhost_image list \<Rightarrow> string list act" where
  "remove_orphans host orphan [] = act_return []"
| "remove_orphans host orphan (im # images) =
     (if \<not> orphan im then remove_orphans host orphan images
      else act_bind (remove_image_by_id host (oi_image_id im)) (\<lambda>gone.
           act_bind (remove_orphans host orphan images) (\<lambda>rest. act_return (if gone then oi_image_id im # rest else rest))))"

text \<open>The connection is the sweep's own and only reads; a database that cannot be read ends the sweep.\<close>

definition sweep_orphaned_images :: "pruner \<Rightarrow> string list act" where
  "sweep_orphaned_images P =
     (case orphan_max_age_seconds (ip_max_age P) of
        None \<Rightarrow> act_return []
      | Some max_age \<Rightarrow>
          if \<not> ip_db_readable P then act_return []
          else act_bind (act_query current_app_names) (\<lambda>app_names.
               act_bind (list_openhost_images (ip_json_loads P) (ip_processes P)) (\<lambda>images.
                 remove_orphans (ip_processes P) (orphaned app_names max_age (ip_now P)) images)))"

definition run_prune_once :: "pruner \<Rightarrow> unit act" where
  "run_prune_once P =
     act_then (act_catch (act_bind (prune_dangling_images (ip_processes P)) (\<lambda>output. act_return ())) (\<lambda>_. act_return ()))
       (act_catch (act_bind (sweep_orphaned_images P) (\<lambda>removed. act_return ())) (\<lambda>_. act_return ()))"

text \<open>Whether a thread is started, and the databases that have one.\<close>

definition start_image_pruner :: "int \<Rightarrow> string \<Rightarrow> string set \<Rightarrow> bool \<times> string set" where
  "start_image_pruner interval db_key started =
     (case prune_interval_seconds interval of
        None \<Rightarrow> (False, started)
      | Some n \<Rightarrow> if db_key \<in> started then (False, started) else (True, insert db_key started))"

section \<open>What a cycle removes\<close>

definition rmi :: "string \<Rightarrow> string list" where
  "rmi i = [''podman'', ''rmi'', ''--force'', i]"

lemma remove_orphans_run:
  "remove_orphans host orphan images s = (r, s') \<Longrightarrow>
   \<exists>es. ws_effects s' = ws_effects s @ es \<and> ws_conn s' = ws_conn s
     \<and> list_all (\<lambda>e. \<exists>im a. e = Ran (rmi (oi_image_id im)) a \<and> im \<in> set images \<and> orphan im) es"
proof (induction images arbitrary: s r)
  case Nil
  then show ?case by (simp add: act_return_def)
next
  case (Cons im images)
  show ?case
  proof (cases "orphan im")
    case False
    with Cons.prems have "remove_orphans host orphan images s = (r, s')" by simp
    from Cons.IH [OF this] show ?thesis by (auto simp: list_all_iff) (metis list.set_intros(2))
  next
    case True
    let ?a = "host (ws_effects s) (rmi (oi_image_id im))"
    let ?t = "s\<lparr>ws_effects := ws_effects s @ [Ran (rmi (oi_image_id im)) ?a]\<rparr>"
    consider (ended) "s' = ?t" | (more) r' where "remove_orphans host orphan images ?t = (r', s')"
      using Cons.prems True
      by (cases ?a)
        (auto simp: remove_image_by_id_def act_bind_def act_run_def act_return_def Let_def rmi_def split: prod.splits sum.splits)
    then show ?thesis
    proof cases
      case ended
      then show ?thesis using True by (intro exI [of _ "[Ran (rmi (oi_image_id im)) ?a]"]) auto
    next
      case more
      from Cons.IH [OF more] obtain es where es: "ws_effects s' = ws_effects ?t @ es" "ws_conn s' = ws_conn ?t"
        "list_all (\<lambda>e. \<exists>im a. e = Ran (rmi (oi_image_id im)) a \<and> im \<in> set images \<and> orphan im) es" by blast
      then show ?thesis
        using True by (intro exI [of _ "Ran (rmi (oi_image_id im)) ?a # es"]) (simp add: list_all_iff; blast)
    qed
  qed
qed

lemma list_images_run:
  assumes "list_openhost_images json_loads host s = (r, s')"
  shows "ws_conn s' = ws_conn s \<and> (\<exists>a. ws_effects s' = ws_effects s @ [Ran [''podman'', ''images'', ''--format'', ''json''] a])"
proof -
  let ?a = "host (ws_effects s) [''podman'', ''images'', ''--format'', ''json'']"
  let ?t = "s\<lparr>ws_effects := ws_effects s @ [Ran [''podman'', ''images'', ''--format'', ''json''] ?a]\<rparr>"
  let ?m = "act_catch
         (act_bind (act_run host [''podman'', ''images'', ''--format'', ''json'']) (\<lambda>(returncode, out, err).
            if returncode \<noteq> 0 then act_return (VList [])
            else act_lift (rbind (json_loads out) (\<lambda>v. Inr (or_else v (VList []))))))
         (\<lambda>_. act_return (VList []))"
  have "\<exists>rows. ?m s = (Inr rows, ?t)"
  proof (cases ?a)
    case (Exited returncode out err)
    then show ?thesis
      by (cases "json_loads out") (simp_all add: act_catch_def act_bind_def act_run_def act_return_def act_lift_def Let_def)
  qed (simp_all add: act_catch_def act_bind_def act_run_def act_return_def Let_def)
  then obtain rows where "?m s = (Inr rows, ?t)" ..
  then have "s' = ?t"
    using assms unfolding list_openhost_images_def act_bind_def [of ?m] by (simp add: act_lift_def)
  then show ?thesis by simp
qed

definition prune_argv :: "string list" where
  "prune_argv = [''podman'', ''image'', ''prune'', ''--force'']"

lemma prune_run:
  "\<exists>a. act_catch (act_bind (prune_dangling_images host) (\<lambda>output. act_return ())) (\<lambda>_. act_return ()) s
     = (Inr (), s\<lparr>ws_effects := ws_effects s @ [Ran prune_argv a]\<rparr>)"
  by (auto simp: prune_dangling_images_def podman_prune_def prune_argv_def act_catch_def act_bind_def act_run_def act_return_def
      act_raise_def Let_def split: proc.split)

text \<open>What a sweep may run: the listing, and removals of images listed under a name no app has, old enough.\<close>

definition listing :: "pruner \<Rightarrow> wstate \<Rightarrow> openhost_image list" where
  "listing P s = (case fst (list_openhost_images (ip_json_loads P) (ip_processes P) s) of Inr ims \<Rightarrow> ims | Inl e \<Rightarrow> [])"

definition sweep_may :: "pruner \<Rightarrow> database \<Rightarrow> openhost_image list \<Rightarrow> effect \<Rightarrow> bool" where
  "sweep_may P db ims e =
     ((\<exists>a. e = Ran [''podman'', ''images'', ''--format'', ''json''] a)
      \<or> (\<exists>im \<in> set ims. \<exists>a. e = Ran (rmi (oi_image_id im)) a \<and> ip_max_age P > 0 \<and> oi_app_name im \<notin> a_name ` set (t_apps db)
           \<and> ip_now P - of_int (oi_created_epoch im) \<ge> of_int (ip_max_age P)))"

lemma sweep_run:
  assumes "sweep_orphaned_images P s = (r, s')"
  shows "\<exists>es. ws_effects s' = ws_effects s @ es \<and> ws_conn s' = ws_conn s \<and> list_all (sweep_may P (ws_db s) (listing P s)) es"
proof (cases "ip_max_age P > 0 \<and> ip_db_readable P")
  case False
  then have "s' = s" using assms by (auto simp: sweep_orphaned_images_def orphan_max_age_seconds_def act_return_def split: if_splits)
  then show ?thesis by simp
next
  case True
  let ?orphan = "orphaned (current_app_names (ws_db s)) (ip_max_age P) (ip_now P)"
  have may: "sweep_may P (ws_db s) ims (Ran (rmi (oi_image_id im)) a)" if "?orphan im" "im \<in> set ims" for im ims a
    using that True unfolding sweep_may_def orphaned_def current_app_names_def by (intro disjI2 bexI [of _ im] exI [of _ a]) auto
  have run: "act_bind (list_openhost_images (ip_json_loads P) (ip_processes P)) (remove_orphans (ip_processes P) ?orphan) s = (r, s')"
    using assms True by (simp add: sweep_orphaned_images_def orphan_max_age_seconds_def act_bind_def [of "act_query current_app_names"]
        act_query_def flip: ws_db_def)
  obtain l t where l: "list_openhost_images (ip_json_loads P) (ip_processes P) s = (l, t)" by fastforce
  from list_images_run [OF this] obtain a where t: "ws_conn t = ws_conn s"
    "ws_effects t = ws_effects s @ [Ran [''podman'', ''images'', ''--format'', ''json''] a]" by blast
  have listed: "sweep_may P (ws_db s) (listing P s) (Ran [''podman'', ''images'', ''--format'', ''json''] a)"
    by (simp add: sweep_may_def)
  show ?thesis
  proof (cases l)
    case (Inl e)
    then have "s' = t" using run l by (simp add: act_bind_def)
    then show ?thesis using t listed by simp
  next
    case (Inr ims)
    then have ims: "listing P s = ims" by (simp add: listing_def l)
    from Inr have "remove_orphans (ip_processes P) ?orphan ims t = (r, s')" using run l by (simp add: act_bind_def)
    from remove_orphans_run [OF this] obtain es where es: "ws_effects s' = ws_effects t @ es" "ws_conn s' = ws_conn t"
      "list_all (\<lambda>e. \<exists>im a. e = Ran (rmi (oi_image_id im)) a \<and> im \<in> set ims \<and> ?orphan im) es" by blast
    have "sweep_may P (ws_db s) (listing P s) e" if e: "e \<in> set es" for e
    proof -
      obtain im a where "e = Ran (rmi (oi_image_id im)) a" "im \<in> set ims" "?orphan im"
        using bspec [OF es(3) [unfolded list_all_iff] e] by blast
      with may [of im ims a] ims show ?thesis by simp
    qed
    then have "list_all (sweep_may P (ws_db s) (listing P s)) es" by (simp add: list_all_iff)
    then show ?thesis
      using es(1,2) t listed by (intro exI [of _ "Ran [''podman'', ''images'', ''--format'', ''json''] a # es"]) simp
  qed
qed


text \<open>
  An image is removed by its id, with all its names: one that is tagged for a removed app and for an installed one, as when
  two apps were built from the same sources, is taken from the installed app, and \<open>--force\<close> takes its container as well.
\<close>

definition shared_image_pruner :: pruner where
  "shared_image_pruner = \<lparr>ip_json_loads = (\<lambda>_. Inr (VList [VDict [(''Id'', VStr ''i1''), (''Created'', VInt 0),
       (''Names'', VList [VStr ''localhost/openhost-notes:latest'', VStr ''localhost/openhost-gone:latest''])]])),
     ip_processes = (\<lambda>_ _. Exited 0 [] []), ip_db_readable = True, ip_max_age = 60, ip_now = 3600\<rparr>"

lemma shared_image_removed:
  "Ran (rmi ''i1'') (Exited 0 [] []) \<in> set (ws_effects (snd (run_prune_once shared_image_pruner (start_state example_db))))
   \<and> select_app_by_name ''notes'' example_db \<noteq> None"
  by code_simp

end
