(* ===== verification/DefaultApps.thy ===== *)
theory DefaultApps
  imports AppsApiProps "HOL-Library.AList"
begin

text \<open>
  \<open>core/default_apps.py\<close>: the apps every instance installs at setup and, as long as an install keeps failing, again at each
  boot.  A file, the sentinel, remembers per entry of the setting how often that was tried and how it ended.  Whether a clone
  takes longer than the limit is a parameter; one that does is abandoned, and its thread's later effects are not modelled.
\<close>

section \<open>The sentinel\<close>

definition MAX_RETRY_ATTEMPTS :: int where
  "MAX_RETRY_ATTEMPTS = 3"

definition REMOTE_CLONE_TIMEOUT_SECONDS :: int where
  "REMOTE_CLONE_TIMEOUT_SECONDS = 180"

record app_outcome =
  ao_name :: string
  ao_status :: string
  ao_attempts :: int
  ao_error :: pyval

type_synonym sentinel = "(string \<times> (string \<times> pyval) list) list"

definition is_remote_url :: "string \<Rightarrow> bool" where
  "is_remote_url spec = contains ''://'' spec"

text \<open>\<open>None\<close>: there is no file.  Text that is no JSON, or no object, counts as an empty file.\<close>

definition load_sentinel :: "(string \<Rightarrow> pyval result) \<Rightarrow> string result option \<Rightarrow> sentinel result" where
  "load_sentinel json_loads file =
     (case file of
        None \<Rightarrow> Inr []
      | Some content \<Rightarrow>
          (case rbind content json_loads of
             Inl e \<Rightarrow> if is_os_error e \<or> is_value_error e \<or> exn_class e = JSONDecodeError then Inr [] else Inl e
           | Inr (VDict kvs) \<Rightarrow> Inr (concat (map (\<lambda>(k, v). case v of VDict d \<Rightarrow> [(k, d)] | _ \<Rightarrow> []) kvs))
           | Inr _ \<Rightarrow> Inr []))"

definition prior_entry :: "sentinel \<Rightarrow> string \<Rightarrow> (string \<times> pyval) list" where
  "prior_entry st spec = (case map_of st spec of Some d \<Rightarrow> d | None \<Rightarrow> [])"

definition prior_attempts :: "(string \<Rightarrow> int option) \<Rightarrow> (string \<times> pyval) list \<Rightarrow> int" where
  "prior_attempts parse_int prior =
     (case py_int parse_int (case map_of prior ''attempts'' of Some v \<Rightarrow> v | None \<Rightarrow> VInt 0) of Inr n \<Rightarrow> n | Inl e \<Rightarrow> 0)"

definition or_none :: "pyval option \<Rightarrow> pyval" where
  "or_none v = (case v of Some x \<Rightarrow> x | None \<Rightarrow> VNone)"

text \<open>The outcome of an entry that is not tried again.\<close>

definition known_outcome :: "(string \<Rightarrow> int option) \<Rightarrow> string \<Rightarrow> (string \<times> pyval) list \<Rightarrow> app_outcome option" where
  "known_outcome parse_int spec prior =
     (let attempts = prior_attempts parse_int prior
      in if map_of prior ''status'' = Some (VStr ''ok'')
         then Some \<lparr>ao_name = spec, ao_status = ''ok'', ao_attempts = attempts, ao_error = VNone\<rparr>
         else if map_of prior ''status'' = Some (VStr ''skipped'')
         then Some \<lparr>ao_name = spec, ao_status = ''skipped'', ao_attempts = attempts, ao_error = VNone\<rparr>
         else if map_of prior ''status'' = Some (VStr ''failed'') \<and> attempts \<ge> MAX_RETRY_ATTEMPTS
         then Some \<lparr>ao_name = spec, ao_status = ''failed'', ao_attempts = attempts, ao_error = or_none (map_of prior ''error'')\<rparr>
         else None)"

section \<open>Installing one app\<close>

record 'v default_env =
  de_api :: "'v api_env"
  de_timed_out :: "string \<Rightarrow> bool"

definition status_failed :: "string \<Rightarrow> (string \<times> string option) + 'a" where
  "status_failed msg = Inl (''failed'', Some msg)"

definition fetch_vendored :: "'v::linorder default_env \<Rightarrow> string \<Rightarrow> ((string \<times> string option) + app_manifest \<times> string \<times> string) act" where
  "fetch_vendored E dir_name =
     (let W = ae_world (de_api E); G = ae_git (de_api E); app_dir = path_join (w_apps_dir W) dir_name;
          clone_dir = path_join (gw_tmp_parent G) ''repo''
      in act_bind (act_observe (gw_fs G)) (\<lambda>fs.
           if \<not> is_dir fs app_dir \<or> find_manifest_path fs app_dir = None
           then act_return (status_failed (''builtin app dir or '' @ hd MANIFEST_FILENAMES @ '' missing: '' @ app_dir))
           else act_then (act_emit (DirMade (gw_tmp_parent G)))
             (act_catch
               (act_then (act_lift (gw_copytree G app_dir clone_dir))
               (act_then (act_emit (TreeCopied app_dir clone_dir))
               (act_bind (act_observe (gw_fs G)) (\<lambda>fs'.
                act_bind (act_lift (parse_manifest (w_libs W) fs' clone_dir)) (\<lambda>m.
                act_return (Inr (m, clone_dir, ''file://'' @ app_dir)))))))
               (\<lambda>e. act_then (act_emit (DirRemoved (gw_tmp_parent G))) (act_return (status_failed (''clone/parse: '' @ exn_text e)))))))"

definition fetch_remote :: "'v::linorder default_env \<Rightarrow> string \<Rightarrow> ((string \<times> string option) + app_manifest \<times> string \<times> string) act" where
  "fetch_remote E repo_url =
     act_catch
       (if de_timed_out E repo_url
        then act_raise (Exn RuntimeError (''clone exceeded '' @ show_int REMOTE_CLONE_TIMEOUT_SECONDS @ ''s timeout''))
        else act_bind (clone_and_read_manifest (w_libs (ae_world (de_api E))) (ae_git (de_api E)) repo_url None)
          (\<lambda>(manifest, clone_dir, error).
            act_return (case (manifest, clone_dir) of
              (Some m, Some d) \<Rightarrow> if error = None \<or> error = Some [] then Inr (m, d, repo_url) else status_failed (''clone: '' @ the error)
            | _ \<Rightarrow> status_failed (''clone: '' @ (if error = None \<or> error = Some [] then ''unknown error'' else the error)))))
       (\<lambda>e. act_return (status_failed (''clone: '' @ exn_text e)))"

text \<open>A name that is no string raises in \<open>validate_manifest\<close>.\<close>

definition prepare_default :: "'v::linorder default_env \<Rightarrow> string \<Rightarrow> ((string \<times> string option) + app_manifest \<times> string \<times> string) act" where
  "prepare_default E spec =
     act_bind (if is_remote_url spec then fetch_remote E spec else fetch_vendored E spec) (\<lambda>fetched.
       case fetched of
         Inl failure \<Rightarrow> act_return (Inl failure)
       | Inr (m, clone_dir, repo_url) \<Rightarrow>
           act_bind (act_query (\<lambda>db. m_name m = VStr (name_text m None) \<and> select_app_by_name (name_text m None) db \<noteq> None)) (\<lambda>installed.
             if installed then act_then (act_emit (DirRemoved (dirname clone_dir))) (act_return (Inl (''skipped'', None)))
             else act_bind (act_query (\<lambda>db. validate_manifest m db None)) (\<lambda>checked.
                  act_bind (act_lift checked) (\<lambda>validation_error.
                    case validation_error of
                      Some err \<Rightarrow> act_then (act_emit (DirRemoved (dirname clone_dir))) (act_return (status_failed err))
                    | None \<Rightarrow>
                        act_bind (move_clone_to_app_temp_dir (ae_git (de_api E)) clone_dir (name_text m None)
                                   (pn_temp_data_dir (w_provision (ae_world (de_api E))))) (\<lambda>final_dir.
                          act_return (Inr (m, final_dir, repo_url)))))))"

text \<open>\<open>None\<close>: the id loop of the install never ends.\<close>

definition install_one :: "'v::linorder default_env \<Rightarrow> string \<Rightarrow> wstate \<Rightarrow> ((string \<times> string option) result \<times> wstate) option" where
  "install_one E spec s =
     (case prepare_default E spec s of
        (Inl e, t) \<Rightarrow> Some (Inl e, t)
      | (Inr (Inl outcome), t) \<Rightarrow> Some (Inr outcome, t)
      | (Inr (Inr (m, final_dir, repo_url)), t) \<Rightarrow>
          map_option (\<lambda>(r, u). (Inr (case r of Inl e \<Rightarrow> (''failed'', Some (''insert_and_deploy: '' @ exn_text e)) | Inr app \<Rightarrow> (''ok'', None)), u))
            (insert_and_deploy (ae_world (de_api E)) m final_dir (all_manifest_permissions_v2 m) (name_text m None) (Some repo_url) [] t))"

section \<open>All of them\<close>

definition entry_for :: "string \<Rightarrow> int \<Rightarrow> pyval \<Rightarrow> (string \<times> pyval) list" where
  "entry_for status attempts error = [(''status'', VStr status), (''attempts'', VInt attempts), (''error'', error)]"

fun deploy_loop ::
    "'v::linorder default_env \<Rightarrow> sentinel \<Rightarrow> string list \<Rightarrow> wstate \<Rightarrow> ((app_outcome list \<times> sentinel) \<times> wstate) option" where
  "deploy_loop E st [] s = Some (([], st), s)"
| "deploy_loop E st (spec # specs) s =
     (let parse_int = w_parse_int (ae_world (de_api E)); prior = prior_entry st spec
      in case known_outcome parse_int spec prior of
           Some outcome \<Rightarrow> map_option (\<lambda>((os, st'), t). ((outcome # os, st'), t)) (deploy_loop E st specs s)
         | None \<Rightarrow>
             (case install_one E spec s of
                None \<Rightarrow> None
              | Some (r, t) \<Rightarrow>
                  (let (status, error) = (case r of Inr x \<Rightarrow> x | Inl e \<Rightarrow> (''failed'', Some (''unexpected: '' @ exn_text e)));
                       attempts = (if status = ''failed'' then prior_attempts parse_int prior + 1 else 1);
                       err = (case error of Some m \<Rightarrow> VStr m | None \<Rightarrow> VNone)
                   in map_option (\<lambda>((os, st'), u).
                          ((\<lparr>ao_name = spec, ao_status = status, ao_attempts = attempts, ao_error = err\<rparr> # os, st'), u))
                        (deploy_loop E (AList.update spec (entry_for status attempts err) st) specs t))))"

text \<open>The outcomes and the state to write.\<close>

definition deploy_default_apps ::
    "'v::linorder default_env \<Rightarrow> sentinel \<Rightarrow> string list \<Rightarrow> wstate \<Rightarrow> ((app_outcome list \<times> sentinel) \<times> wstate) option" where
  "deploy_default_apps E st specs s = (if specs = [] then Some (([], st), s) else deploy_loop E st specs s)"

text \<open>\<open>retry_pending_default_apps\<close>: the connection is closed without a commit; the file keeps its content if it cannot be written.\<close>

definition retry_pending_default_apps ::
    "'v::linorder default_env \<Rightarrow> bool \<Rightarrow> string list \<Rightarrow> sentinel \<Rightarrow> database \<Rightarrow> (app_outcome list \<times> sentinel \<times> database) option" where
  "retry_pending_default_apps E writable specs st db =
     map_option (\<lambda>((os, st'), t). (os, if writable then st' else st, ws_committed t)) (deploy_default_apps E st specs (start_state db))"

section \<open>Retries end\<close>

text \<open>How far an entry has come: at the limit nothing is tried again.\<close>

definition tries :: "(string \<Rightarrow> int option) \<Rightarrow> sentinel \<Rightarrow> string \<Rightarrow> int" where
  "tries parse_int st spec =
     (if known_outcome parse_int spec (prior_entry st spec) \<noteq> None then MAX_RETRY_ATTEMPTS
      else min MAX_RETRY_ATTEMPTS (prior_attempts parse_int (prior_entry st spec)))"

definition proper_status :: "sentinel \<Rightarrow> string \<Rightarrow> bool" where
  "proper_status st spec = (map_of (prior_entry st spec) ''status'' \<in> {Some (VStr ''ok''), Some (VStr ''skipped''), Some (VStr ''failed'')})"

definition never_again :: "(string \<Rightarrow> int option) \<Rightarrow> sentinel \<Rightarrow> string \<Rightarrow> bool" where
  "never_again parse_int st spec = (known_outcome parse_int spec (prior_entry st spec) \<noteq> None)"

lemma known_iff:
  "known_outcome p spec prior \<noteq> None \<longleftrightarrow> map_of prior ''status'' = Some (VStr ''ok'') \<or> map_of prior ''status'' = Some (VStr ''skipped'')
     \<or> map_of prior ''status'' = Some (VStr ''failed'') \<and> prior_attempts p prior \<ge> MAX_RETRY_ATTEMPTS"
  by (auto simp: known_outcome_def Let_def)

lemma never_againI: "proper_status st spec \<Longrightarrow> tries parse_int st spec \<ge> MAX_RETRY_ATTEMPTS \<Longrightarrow> never_again parse_int st spec"
  by (auto simp: never_again_def tries_def proper_status_def known_iff simp del: not_None_eq split: if_splits)

lemma never_again_proper: "never_again parse_int st spec \<Longrightarrow> proper_status st spec"
  by (auto simp: never_again_def proper_status_def known_iff simp del: not_None_eq)

lemma prior_entry_update: "prior_entry (AList.update k d st) spec = (if spec = k then d else prior_entry st spec)"
  by (simp add: prior_entry_def update_conv')

lemma attempts_entry: "prior_attempts parse_int (entry_for status attempts err) = attempts"
  by (simp add: prior_attempts_def entry_for_def py_int_def)

lemma status_entry: "map_of (entry_for status attempts err) ''status'' = Some (VStr status)"
  by (simp add: entry_for_def)

text \<open>\<open>yields Q m\<close>: whenever \<open>m\<close> returns, its value satisfies \<open>Q\<close>.\<close>

definition yields :: "('a \<Rightarrow> bool) \<Rightarrow> 'a act \<Rightarrow> bool" where
  "yields Q m = (\<forall>s x t. m s = (Inr x, t) \<longrightarrow> Q x)"

lemma yields_return: "Q x \<Longrightarrow> yields Q (act_return x)"
  and yields_raise: "yields Q (act_raise e)"
  and yields_bind: "(\<And>y. yields Q (f y)) \<Longrightarrow> yields Q (act_bind m f)"
  and yields_then: "yields Q n \<Longrightarrow> yields Q (act_then l n)"
  by (auto simp: yields_def act_Inr)

lemma yields_catch: "yields Q m \<Longrightarrow> (\<And>e. yields Q (h e)) \<Longrightarrow> yields Q (act_catch m h)"
  by (auto simp: yields_def act_catch_def split: prod.splits sum.splits)

lemma yields_if: "yields Q m \<Longrightarrow> yields Q n \<Longrightarrow> yields Q (if b then m else n)"
  by simp

lemma yields_option: "yields Q m \<Longrightarrow> (\<And>x. yields Q (f x)) \<Longrightarrow> yields Q (case v of None \<Rightarrow> m | Some x \<Rightarrow> f x)"
  by (cases v) simp_all

lemma yields_sum: "(\<And>x. v = Inl x \<Longrightarrow> yields Q (f x)) \<Longrightarrow> (\<And>x. v = Inr x \<Longrightarrow> yields Q (g x)) \<Longrightarrow> yields Q (case v of Inl x \<Rightarrow> f x | Inr x \<Rightarrow> g x)"
  by (cases v) simp_all

lemmas yields_intros = yields_return yields_raise yields_catch yields_then yields_if yields_option

definition plain_outcome :: "(string \<times> string option) + 'a \<Rightarrow> bool" where
  "plain_outcome x = (case x of Inl (status, error) \<Rightarrow> status \<in> {''skipped'', ''failed''} | Inr y \<Rightarrow> True)"

lemma plain_failed: "plain_outcome (status_failed msg)" "plain_outcome (Inr y)" "plain_outcome (Inl (''skipped'', None))"
  by (simp_all add: plain_outcome_def status_failed_def)

lemma fetch_plain: "yields plain_outcome (if is_remote_url spec then fetch_remote E spec else fetch_vendored E spec)"
  unfolding fetch_remote_def fetch_vendored_def Let_def
  by (intro yields_intros yields_bind plain_failed) (auto simp: plain_failed yields_return split: option.split)

lemma yields_known_bind: "yields R m \<Longrightarrow> (\<And>y. R y \<Longrightarrow> yields Q (f y)) \<Longrightarrow> yields Q (act_bind m f)"
  unfolding yields_def bind_Inr by blast

lemma prepare_plain: "yields plain_outcome (prepare_default E spec)"
  unfolding prepare_default_def
proof (rule yields_known_bind [OF fetch_plain])
  fix fetched :: "(string \<times> string option) + app_manifest \<times> string \<times> string"
  assume "plain_outcome fetched"
  then show "yields plain_outcome (case fetched of
         Inl failure \<Rightarrow> act_return (Inl failure)
       | Inr (m, clone_dir, repo_url) \<Rightarrow>
           act_bind (act_query (\<lambda>db. m_name m = VStr (name_text m None) \<and> select_app_by_name (name_text m None) db \<noteq> None)) (\<lambda>installed.
             if installed then act_then (act_emit (DirRemoved (dirname clone_dir))) (act_return (Inl (''skipped'', None)))
             else act_bind (act_query (\<lambda>db. validate_manifest m db None)) (\<lambda>checked.
                  act_bind (act_lift checked) (\<lambda>validation_error.
                    case validation_error of
                      Some err \<Rightarrow> act_then (act_emit (DirRemoved (dirname clone_dir))) (act_return (status_failed err))
                    | None \<Rightarrow>
                        act_bind (move_clone_to_app_temp_dir (ae_git (de_api E)) clone_dir (name_text m None)
                                   (pn_temp_data_dir (w_provision (ae_world (de_api E))))) (\<lambda>final_dir.
                          act_return (Inr (m, final_dir, repo_url)))))))"
  proof (cases fetched)
    case (Inl failure)
    with \<open>plain_outcome fetched\<close> show ?thesis by (simp add: plain_outcome_def yields_return)
  next
    case (Inr x)
    obtain m clone_dir repo_url where "x = (m, clone_dir, repo_url)" by (cases x)
    with Inr show ?thesis
      unfolding Inr \<open>x = (m, clone_dir, repo_url)\<close> sum.case prod.case by (intro yields_intros yields_bind plain_failed)
  qed
qed

lemma install_status:
  assumes "install_one E spec s = Some (Inr (status, error), t)"
  shows "status \<in> {''ok'', ''skipped'', ''failed''}"
proof -
  obtain r u where prepared: "prepare_default E spec s = (r, u)" by fastforce
  show ?thesis
  proof (cases r)
    case (Inl e)
    then show ?thesis using assms prepared by (simp add: install_one_def)
  next
    case (Inr x)
    then have plain: "plain_outcome x" using prepare_plain prepared unfolding yields_def by blast
    show ?thesis
    proof (cases x)
      case (Inl outcome)
      with plain show ?thesis
        using assms prepared \<open>r = Inr x\<close> by (cases outcome) (auto simp: install_one_def plain_outcome_def)
    next
      case (Inr job)
      obtain m final_dir repo_url where "job = (m, final_dir, repo_url)" by (cases job)
      then obtain r2 :: "string result" where "(case r2 of Inl e \<Rightarrow> (''failed'', Some (''insert_and_deploy: '' @ exn_text e)) | Inr app \<Rightarrow> (''ok'', None)) = (status, error)"
        using assms prepared \<open>r = Inr x\<close> Inr by (auto simp: install_one_def)
      then show ?thesis by (cases r2) auto
    qed
  qed
qed

text \<open>One pass over the list.\<close>

definition settles :: "(string \<Rightarrow> int option) \<Rightarrow> sentinel \<Rightarrow> sentinel \<Rightarrow> string \<Rightarrow> bool \<Rightarrow> bool" where
  "settles p st st' spec listed =
     (tries p st spec \<le> tries p st' spec \<and> (proper_status st spec \<longrightarrow> proper_status st' spec)
      \<and> (listed \<longrightarrow> proper_status st' spec \<and> min MAX_RETRY_ATTEMPTS (tries p st spec + 1) \<le> tries p st' spec))"

lemma settles_trans: "settles p st st1 spec a \<Longrightarrow> settles p st1 st2 spec b \<Longrightarrow> settles p st st2 spec (a \<or> b)"
  by (auto simp: settles_def)

lemma settles_other: "spec \<noteq> k \<Longrightarrow> settles p st (AList.update k d st) spec False"
  by (simp add: settles_def tries_def proper_status_def prior_entry_update)

lemma settles_known: "never_again p st k \<Longrightarrow> settles p st st spec (spec = k)"
  using never_again_proper [of p st k] by (auto simp: settles_def never_again_def tries_def)

lemma settles_tried:
  assumes "\<not> never_again p st k" and "status \<in> {''ok'', ''skipped'', ''failed''}"
    and "attempts = (if status = ''failed'' then prior_attempts p (prior_entry st k) + 1 else 1)"
  shows "settles p st (AList.update k (entry_for status attempts err) st) spec (spec = k)"
proof (cases "spec = k")
  case False
  with settles_other [OF this] show ?thesis by simp
next
  case True
  have old: "tries p st k = min MAX_RETRY_ATTEMPTS (prior_attempts p (prior_entry st k))"
    using assms(1) by (simp add: tries_def never_again_def)
  have below: "map_of (prior_entry st k) ''status'' = Some (VStr ''failed'') \<Longrightarrow> prior_attempts p (prior_entry st k) < MAX_RETRY_ATTEMPTS"
    using assms(1) by (auto simp: never_again_def known_iff simp del: not_None_eq)
  let ?st = "AList.update k (entry_for status attempts err) st"
  have "proper_status ?st k"
    using assms(2) by (auto simp: proper_status_def prior_entry_update status_entry)
  moreover have "tries p ?st k \<ge> tries p st k" "tries p ?st k \<ge> min MAX_RETRY_ATTEMPTS (tries p st k + 1)"
    using below assms(2,3) unfolding old by (auto simp: tries_def known_iff prior_entry_update status_entry attempts_entry MAX_RETRY_ATTEMPTS_def simp del: not_None_eq)
  ultimately show ?thesis using True by (simp add: settles_def)
qed

lemma loop_progress:
  "deploy_loop E st specs s = Some ((os, st'), t) \<Longrightarrow> settles (w_parse_int (ae_world (de_api E))) st st' spec (spec \<in> set specs)"
proof (induction E st specs s arbitrary: os rule: deploy_loop.induct)
  case (1 E st s)
  then show ?case by (simp add: settles_def)
next
  case (2 E st k specs s)
  let ?p = "w_parse_int (ae_world (de_api E))"
  show ?case
  proof (cases "known_outcome ?p k (prior_entry st k)")
    case (Some outcome)
    then obtain os1 where rest: "deploy_loop E st specs s = Some ((os1, st'), t)"
      using 2(3) by auto
    have "settles ?p st st spec (spec = k)" using Some by (intro settles_known) (simp add: never_again_def)
    from settles_trans [OF this 2(2) [OF refl refl Some rest]] show ?thesis by simp
  next
    case None
    obtain r u where tried: "install_one E k s = Some (r, u)"
      using 2(3) None by (cases "install_one E k s") auto
    obtain status error where se: "(case r of Inr x \<Rightarrow> x | Inl e \<Rightarrow> (''failed'', Some (''unexpected: '' @ exn_text e))) = (status, error)"
      by fastforce
    have status: "status \<in> {''ok'', ''skipped'', ''failed''}"
    proof (cases r)
      case (Inr x)
      then have "install_one E k s = Some (Inr (status, error), u)" using tried se by simp
      then show ?thesis by (rule install_status)
    qed (use se in auto)
    let ?attempts = "if status = ''failed'' then prior_attempts ?p (prior_entry st k) + 1 else 1"
    let ?err = "case error of Some m \<Rightarrow> VStr m | None \<Rightarrow> VNone"
    let ?st = "AList.update k (entry_for status ?attempts ?err) st"
    obtain os1 where rest: "deploy_loop E ?st specs u = Some ((os1, st'), t)"
      using 2(3) None tried se by (auto simp: Let_def)
    have "settles ?p st ?st spec (spec = k)"
      by (rule settles_tried [OF _ status refl]) (simp add: never_again_def None)
    from settles_trans [OF this 2(1) [OF refl refl None tried refl refl se [symmetric] refl refl rest]] show ?thesis by simp
  qed
qed

lemma boot_progress:
  assumes "retry_pending_default_apps E True specs st db = Some (os, st', db')"
  shows "settles (w_parse_int (ae_world (de_api E))) st st' spec (spec \<in> set specs)"
proof (cases "specs = []")
  case True
  then show ?thesis using assms by (auto simp: retry_pending_default_apps_def deploy_default_apps_def settles_def)
next
  case False
  then obtain t where "deploy_loop E st specs (start_state db) = Some ((os, st'), t)"
    using assms by (auto simp: retry_pending_default_apps_def deploy_default_apps_def)
  then show ?thesis by (rule loop_progress)
qed

lemma loop_idle:
  assumes "\<And>spec. spec \<in> set specs \<Longrightarrow> never_again (w_parse_int (ae_world (de_api E))) st spec"
  shows "deploy_loop E st specs s
    = Some ((map (\<lambda>spec. the (known_outcome (w_parse_int (ae_world (de_api E))) spec (prior_entry st spec))) specs, st), s)"
  using assms
proof (induction specs)
  case (Cons k specs)
  obtain out where "known_outcome (w_parse_int (ae_world (de_api E))) k (prior_entry st k) = Some out"
    using Cons.prems [of k] by (auto simp: never_again_def)
  then show ?case using Cons by (simp add: Let_def)
qed simp

text \<open>C26: 
  C1: A default app is tried at most three times.  After three boots whose sentinel could be written, whatever the network,
  the registry and the database were like at each of them, no further boot tries any of the listed apps again: it returns the
  recorded outcomes and does nothing, to the database, the sentinel or the outside.
\<close>
theorem default_apps_settle:
  assumes "retry_pending_default_apps E1 True specs [] db1 = Some (os1, st1, db1')"
    and "retry_pending_default_apps E2 True specs st1 db2 = Some (os2, st2, db2')"
    and "retry_pending_default_apps E3 True specs st2 db3 = Some (os3, st3, db3')"
    and "w_parse_int (ae_world (de_api E1)) = p" and "w_parse_int (ae_world (de_api E2)) = p"
    and "w_parse_int (ae_world (de_api E3)) = p" and "w_parse_int (ae_world (de_api E4)) = p"
  shows "\<exists>os4. deploy_default_apps E4 st3 specs s = Some ((os4, st3), s) \<and> map ao_name os4 = specs
    \<and> (\<forall>out \<in> set os4. ao_status out \<in> {''ok'', ''skipped''} \<or> ao_status out = ''failed'' \<and> ao_attempts out \<ge> MAX_RETRY_ATTEMPTS)"
proof -
  have known: "never_again p st3 spec" if "spec \<in> set specs" for spec
  proof (rule never_againI)
    have steps: "settles p [] st1 spec True" "settles p st1 st2 spec True" "settles p st2 st3 spec True"
      using boot_progress [OF assms(1), of spec] boot_progress [OF assms(2), of spec] boot_progress [OF assms(3), of spec] that
      by (simp_all add: assms(4-6))
    show "proper_status st3 spec" using steps(3) by (simp add: settles_def)
    have "tries p [] spec = 0"
      by (simp add: tries_def prior_entry_def known_outcome_def prior_attempts_def py_int_def Let_def MAX_RETRY_ATTEMPTS_def)
    with steps show "tries p st3 spec \<ge> MAX_RETRY_ATTEMPTS" by (auto simp: settles_def MAX_RETRY_ATTEMPTS_def)
  qed
  let ?out = "\<lambda>spec. the (known_outcome p spec (prior_entry st3 spec))"
  have "deploy_default_apps E4 st3 specs s = Some ((map ?out specs, st3), s)"
    using loop_idle [of specs E4 st3 s] known by (simp add: deploy_default_apps_def assms(7))
  moreover have "ao_name (?out spec) = spec \<and> (ao_status (?out spec) \<in> {''ok'', ''skipped''}
      \<or> ao_status (?out spec) = ''failed'' \<and> ao_attempts (?out spec) \<ge> MAX_RETRY_ATTEMPTS)" if "spec \<in> set specs" for spec
    using known [OF that] by (auto simp: never_again_def known_outcome_def Let_def split: if_splits)
  ultimately show ?thesis by (auto simp: map_idI)
qed

text \<open>An instance without network: every clone takes too long.\<close>

definition offline :: "string default_env" where
  "offline = \<lparr>de_api = example_api, de_timed_out = (\<lambda>_. True)\<rparr>"

lemma offline_install: "install_one offline ''https://x/y'' s = Some (Inr (''failed'', Some ''clone: clone exceeded 180s timeout''), s)"
proof -
  have "is_remote_url ''https://x/y''" "show_int REMOTE_CLONE_TIMEOUT_SECONDS = ''180''" by code_simp+
  then show ?thesis
    by (simp add: install_one_def prepare_default_def fetch_remote_def offline_def act_catch_def act_raise_def act_return_def act_bind_def status_failed_def)
qed

lemma offline_boot:
  assumes "known_outcome (w_parse_int example_world) ''https://x/y'' (prior_entry st ''https://x/y'') = None"
  shows "\<exists>os. retry_pending_default_apps offline True [''https://x/y''] st example_db = Some (os,
    AList.update ''https://x/y'' (entry_for ''failed'' (prior_attempts (w_parse_int example_world) (prior_entry st ''https://x/y'') + 1)
      (VStr ''clone: clone exceeded 180s timeout'')) st, example_db)"
proof -
  have "w_parse_int (ae_world (de_api offline)) = w_parse_int example_world" by (simp add: offline_def example_api_def)
  then show ?thesis
    using assms by (simp add: retry_pending_default_apps_def deploy_default_apps_def offline_install Let_def)
qed

theorem default_apps_settle_witness:
  "\<exists>st os. deploy_default_apps offline st [''https://x/y''] (start_state example_db) = Some ((os, st), start_state example_db)
     \<and> map ao_name os = [''https://x/y'']"
proof -
  let ?e = "\<lambda>n. [(''https://x/y'', entry_for ''failed'' n (VStr ''clone: clone exceeded 180s timeout''))]"
  let ?p = "w_parse_int example_world"
  have p: "w_parse_int (ae_world (de_api offline)) = ?p" by (simp add: offline_def example_api_def)
  have open1: "known_outcome ?p ''https://x/y'' (prior_entry [] ''https://x/y'') = None"
    "prior_attempts ?p (prior_entry [] ''https://x/y'') = 0"
    by (simp_all add: known_outcome_def prior_entry_def prior_attempts_def py_int_def Let_def)
  have open2: "known_outcome ?p ''https://x/y'' (prior_entry (?e n) ''https://x/y'') = None" if "n < 3" for n
    using that by (simp add: known_outcome_def prior_entry_def Let_def status_entry attempts_entry MAX_RETRY_ATTEMPTS_def)
  have at: "prior_attempts ?p (prior_entry (?e n) ''https://x/y'') = n" for n
    by (simp add: prior_entry_def attempts_entry)
  obtain os1 where 1: "retry_pending_default_apps offline True [''https://x/y''] [] example_db = Some (os1, ?e 1, example_db)"
    using offline_boot [OF open1(1)] open1(2) by auto
  obtain os2 where 2: "retry_pending_default_apps offline True [''https://x/y''] (?e 1) example_db = Some (os2, ?e 2, example_db)"
    using offline_boot [OF open2 [of 1]] at [of 1] by auto
  obtain os3 where 3: "retry_pending_default_apps offline True [''https://x/y''] (?e 2) example_db = Some (os3, ?e 3, example_db)"
    using offline_boot [OF open2 [of 2]] at [of 2] by auto
  from default_apps_settle [OF 1 2 3 p p p p, of "start_state example_db"] show ?thesis
    by (elim exE conjE) (intro exI conjI)
qed

text \<open>
  An install that raises is reported as failed without a rollback.  The rows it wrote stay in the transaction of the shared
  connection, and the next default app's install commits them: an app in \<open>building\<close> that no worker will ever deploy.
\<close>

lemma example_install_fails:
  "\<exists>s' e r. install_rows example_world (example_app\<lparr>m_sqlite_dbs := VList [VStr ''x'', VStr ''x'']\<rparr>) ''notes'' ''/repo'' None [] 9000 app
     (start_state example_fresh_db) = (Inl e, s') \<and> t_apps (ws_db s') = [r] \<and> a_status r = Building \<and> t_apps (ws_committed s') = []"
  by (simp add: install_rows_def provision_env_def make_data_dirs_and_env_vars_def permanent_data_env_def archive_env_def
      sqlite_env_def act_defs Let_def example_fresh start_state_def example_world_def example_app_def example_provision_def
      resolve_port_mappings_def override_ports_def manifest_column_values_def py_int_def sql_bindable_def sql_text_def
      insert_app_def new_app_row_def store_app_token_def insert_sqlite_db_def insert_database_row_def
      register_services_provided_by_app_def update_conv' read_owner_username_def first_user_def example_fresh_db_def
      empty_db_def replace_app_token_def execute_def open_conn_def primary_domain_def primary_domain_or_none_def
      example_domains_def base_env_def ws_db_def ws_committed_def)

end
