(* ===== verification/FirstBoot.thy ===== *)
theory FirstBoot
  imports Domains Tls
begin

text \<open>
  How an instance gets its first domains and its claim token: \<open>core/first_boot.py\<close>, which seeds a fresh one from
  \<open>first_boot.toml\<close>, and the system agent's \<open>v0007_seed_domains_and_scrub.py\<close>, which captures those of an older one from its
  \<open>config.toml\<close> and then removes the captured lines from that file.  \<open>tomllib\<close> and \<open>str()\<close> are parameters; the contents of
  files are values, \<open>None\<close> for one that is not there.  The ownership of the rewritten file is not modelled.
\<close>

section \<open>first_boot.toml\<close>

record first_boot =
  fb_domain :: string
  fb_claim_token :: "string option"
  fb_tls :: bool
  fb_mdns :: bool
  fb_issuer_url :: "string option"
  fb_client_id :: "string option"
  fb_client_secret :: "string option"
  fb_connect_base_url :: "string option"

definition kv_get :: "(string \<times> pyval) list \<Rightarrow> string \<Rightarrow> pyval \<Rightarrow> pyval" where
  "kv_get kvs key d = (case map_of kvs key of Some v \<Rightarrow> v | None \<Rightarrow> d)"

definition text_or_none :: "(pyval \<Rightarrow> string) \<Rightarrow> (string \<times> pyval) list \<Rightarrow> string \<Rightarrow> string option" where
  "text_or_none str kvs key = (case map_of kvs key of Some v \<Rightarrow> if truthy v then Some (str v) else None | None \<Rightarrow> None)"

text \<open>\<open>toml\<close> is the parsed file, or \<open>None\<close> without a configuration path or file.\<close>

definition read_first_boot :: "(pyval \<Rightarrow> string) \<Rightarrow> (string \<times> pyval) list result option \<Rightarrow> first_boot option result" where
  "read_first_boot str toml =
     (case toml of
        None \<Rightarrow> Inr None
      | Some loaded \<Rightarrow>
          rbind loaded (\<lambda>data.
            let domain = strip (str (kv_get data ''domain'' (VStr [])));
                identity = (case kv_get data ''imbue_identity'' (VDict []) of VDict d \<Rightarrow> d | _ \<Rightarrow> [])
            in if domain = [] then Inr None
               else Inr (Some \<lparr>fb_domain = domain, fb_claim_token = text_or_none str data ''claim_token'',
                 fb_tls = truthy (kv_get data ''tls'' (VBool True)), fb_mdns = truthy (kv_get data ''mdns'' (VBool False)),
                 fb_issuer_url = text_or_none str identity ''issuer_url'', fb_client_id = text_or_none str identity ''client_id'',
                 fb_client_secret = text_or_none str identity ''client_secret'',
                 fb_connect_base_url = text_or_none str data ''imbue_connect_base_url''\<rparr>)))"

definition CLAIM_TOKEN_KEY :: string where
  "CLAIM_TOKEN_KEY = ''claim_token''"

definition legacy_claim_token :: "string option \<Rightarrow> string option" where
  "legacy_claim_token file =
     (case file of None \<Rightarrow> None
      | Some content \<Rightarrow> (let token = before CHR '':'' (strip content) in if token = [] then None else Some token))"

definition seed_imbue_identity :: "first_boot \<Rightarrow> settings \<Rightarrow> settings" where
  "seed_imbue_identity fb st =
     (let st1 = (case complete_credentials (fb_issuer_url fb) (fb_client_id fb) (fb_client_secret fb) of
                   Some k \<Rightarrow> if get_stored_instance_identity st = None then set_instance_identity k st else st
                 | None \<Rightarrow> st)
      in if str_truthy (fb_connect_base_url fb) \<and> get_setting st1 CONNECT_BASE_URL_KEY = None
         then set_setting CONNECT_BASE_URL_KEY (the (fb_connect_base_url fb)) st1 else st1)"

text \<open>Every statement of the code commits by itself; \<open>owner\<close>: there is a row in \<open>users\<close>.\<close>

definition seed_first_boot :: "(pyval \<Rightarrow> string) \<Rightarrow> (string \<times> pyval) list result option \<Rightarrow> string option \<Rightarrow> bool
    \<Rightarrow> database \<times> settings \<Rightarrow> (database \<times> settings) result" where
  "seed_first_boot str toml token_file owner state =
     rbind (read_first_boot str toml) (\<lambda>fb.
       let (db, st) = state;
           (db1, st1) = (case fb of
              None \<Rightarrow> (db, st)
            | Some f \<Rightarrow> (snd (seed_domains (mk_domain (fb_domain f) (fb_tls f) (fb_mdns f)) [] db), seed_imbue_identity f st));
           given = (case fb of None \<Rightarrow> None | Some f \<Rightarrow> fb_claim_token f);
           token = (if str_truthy given then given else legacy_claim_token token_file)
       in Inr (db1, if \<not> owner \<and> get_setting st1 CLAIM_TOKEN_KEY = None \<and> str_truthy token
                    then set_setting CLAIM_TOKEN_KEY (the token) st1 else st1))"

section \<open>Capturing an older configuration\<close>

fun capture_rows :: "(pyval \<Rightarrow> string) \<Rightarrow> string set \<Rightarrow> pyval list \<Rightarrow> domain_row list" where
  "capture_rows str seen [] = []"
| "capture_rows str seen (entry # entries) =
     (case entry of
        VDict kvs \<Rightarrow>
          (let name = lower (strip (str (kv_get kvs ''name'' (VStr [])))); host = before CHR '':'' name
           in if name = [] \<or> host \<in> seen then capture_rows str seen entries
              else \<lparr>d_name = name, d_tls = truthy (kv_get kvs ''tls'' (VBool False)), d_mdns = truthy (kv_get kvs ''mdns'' (VBool False)),
                    d_is_primary = False, d_cert_status = CertNone, d_error_message = None\<rparr> # capture_rows str (insert host seen) entries)
      | _ \<Rightarrow> capture_rows str seen entries)"

definition zone_domain :: "(pyval \<Rightarrow> string) \<Rightarrow> (string \<times> pyval) list \<Rightarrow> string" where
  "zone_domain str openhost = lower (strip (str (kv_get openhost ''zone_domain'' (VStr []))))"

definition extra_entries :: "(string \<times> pyval) list \<Rightarrow> pyval list" where
  "extra_entries openhost = (case map_of openhost ''domains'' of Some (VList xs) \<Rightarrow> xs | _ \<Rightarrow> [])"

definition capture_domains :: "(pyval \<Rightarrow> string) \<Rightarrow> (string \<times> pyval) list \<Rightarrow> database \<Rightarrow> database" where
  "capture_domains str openhost db =
     (let zone = zone_domain str openhost
      in if t_domains db \<noteq> [] \<or> zone = [] then db
         else db\<lparr>t_domains :=
           \<lparr>d_name = zone, d_tls = truthy (kv_get openhost ''tls_enabled'' (VBool False)), d_mdns = False,
             d_is_primary = True, d_cert_status = CertNone, d_error_message = None\<rparr>
           # capture_rows str {before CHR '':'' zone} (extra_entries openhost)\<rparr>)"

definition capture_claim_token :: "bool \<Rightarrow> string option \<Rightarrow> settings \<Rightarrow> settings" where
  "capture_claim_token owner token_file st =
     (if owner \<or> st CLAIM_TOKEN_KEY \<noteq> None then st
      else case legacy_claim_token token_file of None \<Rightarrow> st | Some token \<Rightarrow> st(CLAIM_TOKEN_KEY \<mapsto> token))"

text \<open>The lines the regular expression matches: a name, blanks around it, and an equals sign.\<close>

definition captured_line :: "string \<Rightarrow> bool" where
  "captured_line line =
     (let blank = (\<lambda>c. c = CHR '' '' \<or> c = CHR 0x09);
          rest = dropWhile blank line
      in (prefix ''zone_domain'' rest \<and> prefix ''='' (dropWhile blank (removeprefix ''zone_domain'' rest)))
         \<or> (prefix ''tls_enabled'' rest \<and> prefix ''='' (dropWhile blank (removeprefix ''tls_enabled'' rest))))"

text \<open>The lines of a text, each but the last with its newline.\<close>

fun config_lines :: "string \<Rightarrow> string list" where
  "config_lines [] = []"
| "config_lines (c # s) =
     (if c = newline then [newline] # config_lines s
      else case config_lines s of [] \<Rightarrow> [[c]] | l # ls \<Rightarrow> (c # l) # ls)"

definition scrub_captured_config :: "string \<Rightarrow> string" where
  "scrub_captured_config original = concat (filter (\<lambda>l. \<not> captured_line l) (config_lines original))"

record instance_files =
  if_config :: "string option"
  if_db :: "(database \<times> settings) option"

text \<open>
  The states of a run, of which one that is killed leaves a prefix: nothing done, the transaction committed, the file replaced;
  with the exception of a configuration \<open>tomllib\<close> cannot read.  \<open>parse\<close> is \<open>tomllib.load\<close>.
\<close>

definition capture_states :: "(string \<Rightarrow> (string \<times> pyval) list result) \<Rightarrow> (pyval \<Rightarrow> string) \<Rightarrow> bool \<Rightarrow> string option
    \<Rightarrow> instance_files \<Rightarrow> exn option \<times> instance_files list" where
  "capture_states parse str owner token_file s0 =
     (case (if_db s0, if_config s0) of
        (Some (db, st), Some content) \<Rightarrow>
          (case parse content of
             Inl e \<Rightarrow> (Some e, [s0])
           | Inr data \<Rightarrow>
               (case kv_get data ''openhost'' (VDict []) of
                  VDict openhost \<Rightarrow>
                    (let s1 = s0\<lparr>if_db := Some (capture_domains str openhost db, capture_claim_token owner token_file st)\<rparr>
                     in (None, [s0, s1, s1\<lparr>if_config := Some (scrub_captured_config content)\<rparr>]))
                | _ \<Rightarrow> (None, [s0])))
      | _ \<Rightarrow> (None, [s0]))"

definition capture_config :: "(string \<Rightarrow> (string \<times> pyval) list result) \<Rightarrow> (pyval \<Rightarrow> string) \<Rightarrow> bool \<Rightarrow> string option
    \<Rightarrow> instance_files \<Rightarrow> instance_files" where
  "capture_config parse str owner token_file s = last (snd (capture_states parse str owner token_file s))"

section \<open>Lemmas\<close>

lemma config_lines_shape:
  "l \<in> set (config_lines s) \<Longrightarrow> l \<noteq> [] \<and> newline \<notin> set (butlast l)"
proof (induction s arbitrary: l)
  case (Cons c s)
  then show ?case
    by (cases "config_lines s") (auto split: if_splits)
qed simp

lemma config_lines_newline:
  "l \<in> set (butlast (config_lines s)) \<Longrightarrow> last l = newline"
proof (induction s arbitrary: l)
  case (Cons c s)
  have "k \<noteq> []" if "k \<in> set (config_lines s)" for k
    using config_lines_shape [OF that] by simp
  then show ?case
    using Cons by (cases "config_lines s") (auto split: if_splits)
qed simp

lemma config_lines_append:
  assumes "l \<noteq> []" and "last l = newline" and "newline \<notin> set (butlast l)"
  shows "config_lines (l @ s) = l # config_lines s"
  using assms
proof (induction l)
  case (Cons c l)
  then show ?case
    by (cases "l = []") (auto split: if_splits)
qed simp

lemma config_lines_single:
  assumes "l \<noteq> []" and "newline \<notin> set (butlast l)"
  shows "config_lines l = [l]"
  using assms
proof (induction l)
  case (Cons c l)
  then show ?case
    by (cases "l = []") (auto split: if_splits)
qed simp

lemma config_lines_concat:
  assumes "\<forall>l \<in> set ls. l \<noteq> [] \<and> newline \<notin> set (butlast l)" and "\<forall>l \<in> set (butlast ls). last l = newline"
  shows "config_lines (concat ls) = ls"
  using assms
proof (induction ls)
  case (Cons l ls)
  then show ?case
    by (cases "ls = []") (auto simp: config_lines_append config_lines_single)
qed simp

lemma butlast_filter: "set (butlast (filter p xs)) \<subseteq> set (butlast xs)"
  by (induction xs) (auto split: if_splits)

lemma scrub_idem: "scrub_captured_config (scrub_captured_config c) = scrub_captured_config c"
proof -
  let ?ls = "filter (\<lambda>l. \<not> captured_line l) (config_lines c)"
  have "config_lines (concat ?ls) = ?ls"
    using config_lines_shape [of _ c] config_lines_newline [of _ c] butlast_filter [of "\<lambda>l. \<not> captured_line l" "config_lines c"]
    by (intro config_lines_concat) auto
  then show ?thesis
    by (simp add: scrub_captured_config_def)
qed

lemma capture_claim_idem:
  "capture_claim_token owner tf (capture_claim_token owner tf st) = capture_claim_token owner tf st"
  by (simp add: capture_claim_token_def split: option.split)

lemma capture_domains_nonempty: "t_domains db \<noteq> [] \<Longrightarrow> capture_domains str oh db = db"
  by (simp add: capture_domains_def)

lemma capture_domains_found: "zone_domain str oh \<noteq> [] \<or> t_domains db \<noteq> [] \<Longrightarrow> t_domains (capture_domains str oh db) \<noteq> []"
  unfolding capture_domains_def Let_def by (cases "t_domains db = []"; cases "zone_domain str oh = []") simp_all

text \<open>The extra domains of a configuration, as rows.\<close>

fun entry_rows :: "(pyval \<Rightarrow> string) \<Rightarrow> pyval list \<Rightarrow> domain_row list" where
  "entry_rows str [] = []"
| "entry_rows str (entry # entries) =
     (case entry of
        VDict kvs \<Rightarrow>
          (let name = lower (strip (str (kv_get kvs ''name'' (VStr []))))
           in if name = [] then entry_rows str entries
              else \<lparr>d_name = name, d_tls = truthy (kv_get kvs ''tls'' (VBool False)), d_mdns = truthy (kv_get kvs ''mdns'' (VBool False)),
                    d_is_primary = False, d_cert_status = CertNone, d_error_message = None\<rparr> # entry_rows str entries)
      | _ \<Rightarrow> entry_rows str entries)"

lemma capture_rows_seed: "capture_rows str seen es = seed_rows seen (entry_rows str es)"
proof (induction es arbitrary: seen)
  case (Cons e es)
  then show ?case
    by (cases e) (simp_all add: Let_def)
qed simp

section \<open>Properties\<close>


text \<open>C28: 
  A migration that is killed loses nothing: whatever it has done so far, the domains are in the database or the configuration is
  as it was, and the next run ends in the same state as an undisturbed one.
\<close>

theorem capture_resumes:
  assumes "if_db s = Some (db, st)" and "if_config s = Some content" and "parse content = Inr data"
    and "kv_get data ''openhost'' (VDict []) = VDict openhost"
    and "zone_domain str openhost \<noteq> [] \<or> t_domains db \<noteq> []"
    and "t \<in> set (snd (capture_states parse str owner token_file s))"
  shows "(if_config t = Some content \<or> (\<exists>db' st'. if_db t = Some (db', st') \<and> t_domains db' \<noteq> []))
    \<and> capture_config parse str owner token_file t = capture_config parse str owner token_file s"
proof -
  define s1 where "s1 = s\<lparr>if_db := Some (capture_domains str openhost db, capture_claim_token owner token_file st)\<rparr>"
  define s2 where "s2 = s1\<lparr>if_config := Some (scrub_captured_config content)\<rparr>"
  have dom: "t_domains (capture_domains str openhost db) \<noteq> []"
    using assms(5) by (rule capture_domains_found)
  have states: "capture_states parse str owner token_file s = (None, [s, s1, s2])"
    using assms(1-4) by (simp add: capture_states_def s1_def s2_def Let_def)
  have again1: "capture_states parse str owner token_file s1 = (None, [s1, s1, s2])"
    using assms(2-4) dom by (simp add: capture_states_def s1_def s2_def Let_def capture_domains_nonempty capture_claim_idem)
  have again2: "last (snd (capture_states parse str owner token_file s2)) = s2"
    using dom by (simp add: capture_states_def s1_def s2_def Let_def capture_domains_nonempty capture_claim_idem scrub_idem
        split: sum.split pyval.split)
  from assms(6) consider "t = s" | "t = s1" | "t = s2"
    by (auto simp: states)
  then show ?thesis
  proof cases
    case 1
    then show ?thesis using assms(2) by simp
  next
    case 2
    then show ?thesis using assms(2) by (simp add: capture_config_def states again1) (simp add: s1_def)
  next
    case 3
    then show ?thesis using again2 dom by (simp add: capture_config_def states) (simp add: s1_def s2_def)
  qed
qed

lemma seed_domains_again: "snd (seed_domains p' xs' (snd (seed_domains p xs db))) = snd (seed_domains p xs db)"
  by (simp add: seed_domains_def)

text \<open>\<open>first_boot.toml\<close> on disk is read at every start; a second start changes nothing.\<close>

lemma seed_identity_again: "seed_imbue_identity f (seed_imbue_identity f st) = seed_imbue_identity f st"
proof -
  have stored: "get_stored_instance_identity (set_instance_identity k st) = Some k"
    if "complete_credentials (fb_issuer_url f) (fb_client_id f) (fb_client_secret f) = Some k" for k
    using that identity_roundtrip [of k]
    by (auto simp: complete_credentials_def str_truthy_def split: if_splits)
  have other: "get_stored_instance_identity (set_setting CONNECT_BASE_URL_KEY v st') = get_stored_instance_identity st'" for v st'
    by (simp add: get_stored_instance_identity_def get_setting_def set_setting_def CONNECT_BASE_URL_KEY_def ISSUER_URL_KEY_def
        CLIENT_ID_KEY_def CLIENT_SECRET_KEY_def)
  have url: "get_setting (set_setting CONNECT_BASE_URL_KEY v st') CONNECT_BASE_URL_KEY = Some v" for v st'
    by (simp add: get_setting_def set_setting_def)
  show ?thesis
  proof (cases "complete_credentials (fb_issuer_url f) (fb_client_id f) (fb_client_secret f)")
    case None
    then show ?thesis
      by (simp add: seed_imbue_identity_def url)
  next
    case (Some k)
    then show ?thesis
      using stored [OF Some] by (auto simp: seed_imbue_identity_def Let_def other url)
  qed
qed

lemma first_boot_once:
  assumes "seed_first_boot str toml token_file owner state = Inr state'"
  shows "seed_first_boot str toml token_file owner state' = Inr state'"
proof -
  obtain db st where state: "state = (db, st)"
    by (cases state)
  have id_claim: "seed_imbue_identity f (set_setting CLAIM_TOKEN_KEY v st') = set_setting CLAIM_TOKEN_KEY v (seed_imbue_identity f st')" for f v st'
    by (auto simp: seed_imbue_identity_def Let_def set_setting_def get_setting_def set_instance_identity_def
        get_stored_instance_identity_def CLAIM_TOKEN_KEY_def CONNECT_BASE_URL_KEY_def ISSUER_URL_KEY_def CLIENT_ID_KEY_def
        CLIENT_SECRET_KEY_def fun_upd_twist split: option.split)
  have claim: "get_setting (set_setting CLAIM_TOKEN_KEY v st') CLAIM_TOKEN_KEY = Some v" for v st'
    by (simp add: get_setting_def set_setting_def)
  show ?thesis
  proof (cases "read_first_boot str toml")
    case (Inr fb)
    then show ?thesis
      using assms
      by (cases fb) (auto simp: seed_first_boot_def state Let_def claim id_claim seed_identity_again seed_domains_again)
  qed (use assms in \<open>simp add: seed_first_boot_def\<close>)
qed

text \<open>After the migration, a \<open>first_boot.toml\<close> left on disk does not replace the captured domains.\<close>

lemma captured_stay:
  assumes "seed_first_boot str toml token_file owner (capture_domains str openhost db, st) = Inr (db', st')"
    and "zone_domain str openhost \<noteq> []"
  shows "db' = capture_domains str openhost db"
proof -
  have "t_domains (capture_domains str openhost db) \<noteq> []"
    using assms(2) capture_domains_found by blast
  then show ?thesis
    using assms(1) by (cases "read_first_boot str toml") (auto simp: seed_first_boot_def Let_def seed_domains_def split: option.splits)
qed

section \<open>Witnesses\<close>

definition example_text :: "pyval \<Rightarrow> string" where
  "example_text v = (case v of VStr s \<Rightarrow> s | _ \<Rightarrow> [])"

definition example_openhost :: "(string \<times> pyval) list" where
  "example_openhost = [(''zone_domain'', VStr '' Host.Example.com ''), (''tls_enabled'', VBool True),
     (''domains'', VList [VDict [(''name'', VStr ''alt.example.org'')], VDict [(''name'', VStr ''host.example.com:8080'')], VInt 3])]"

definition example_config :: string where
  "example_config = ''[openhost]'' @ [newline] @ '' zone_domain = x'' @ [newline] @ ''port = 8080'' @ [newline] @ ''tls_enabled = true''"

definition example_files :: instance_files where
  "example_files = \<lparr>if_config = Some example_config, if_db = Some (example_db\<lparr>t_domains := []\<rparr>, Map.empty)\<rparr>"

lemma example_scrubbed: "scrub_captured_config example_config = ''[openhost]'' @ [newline] @ ''port = 8080'' @ [newline]"
  by code_simp

lemma example_rows:
  "map d_name (t_domains (capture_domains example_text example_openhost (example_db\<lparr>t_domains := []\<rparr>))) = [''host.example.com'', ''alt.example.org'']"
  by code_simp

lemma example_zone: "zone_domain example_text example_openhost = ''host.example.com''"
  by code_simp


theorem capture_resumes_witness:
  "capture_config (\<lambda>_. Inr [(''openhost'', VDict example_openhost)]) example_text False None
     (snd (capture_states (\<lambda>_. Inr [(''openhost'', VDict example_openhost)]) example_text False None example_files) ! 1)
   = capture_config (\<lambda>_. Inr [(''openhost'', VDict example_openhost)]) example_text False None example_files"
proof -
  let ?p = "\<lambda>_. Inr [(''openhost'', VDict example_openhost)]"
  have "length (snd (capture_states ?p example_text False None example_files)) = 3"
    by (simp add: capture_states_def example_files_def kv_get_def Let_def)
  then show ?thesis
    using capture_resumes [of example_files "example_db\<lparr>t_domains := []\<rparr>" Map.empty example_config ?p
        "[(''openhost'', VDict example_openhost)]" example_openhost example_text
        "snd (capture_states ?p example_text False None example_files) ! 1" False None] example_zone
    by (simp add: example_files_def kv_get_def)
qed

end
