(* ===== verification/OAuthTokens.thy ===== *)
theory OAuthTokens
  imports Services GitOps Proxy "HOL-Library.AList"
begin

text \<open>
  The OAuth provider app (\<open>apps/oauth_provider\<close>): it keeps the owner's tokens for Google and GitHub and hands them to other
  apps that the owner granted them to.  This theory has the table of tokens (\<open>core/tokens.py\<close>), the check of the grants the
  router sends along (\<open>core/permissions.py\<close>), the credentials, the start of an authorization (\<open>core/providers.py\<close>) and the
  routes the router calls (\<open>routes/service/oauth.py\<close>, \<open>routes/api/dashboard.py\<close>).  HTTP answers, the secrets app and random
  bytes are parameters.  Instants are rational seconds since the epoch, which \<open>isoformat\<close> and \<open>fromisoformat\<close> carry
  through the table.  A token endpoint that answers with a token that is no string raises.
\<close>

section \<open>Providers\<close>

record provider_conf =
  pc_flow :: string
  pc_client_id :: "string option"
  pc_client_secret :: "string option"
  pc_auth_url :: "string option"
  pc_device_code_url :: "string option"
  pc_token_url :: string
  pc_revoke_url :: string
  pc_revoke_method :: string
  pc_revoke_basic :: bool
  pc_revoke_json :: bool
  pc_extra_auth_params :: "(string \<times> string) list"

definition PROVIDERS :: "(string \<times> provider_conf) list" where
  "PROVIDERS =
     [(''google'', \<lparr>pc_flow = ''auth_code'', pc_client_id = None, pc_client_secret = None,
        pc_auth_url = Some ''https://accounts.google.com/o/oauth2/v2/auth'', pc_device_code_url = None,
        pc_token_url = ''https://oauth2.googleapis.com/token'', pc_revoke_url = ''https://oauth2.googleapis.com/revoke'',
        pc_revoke_method = ''POST'', pc_revoke_basic = False, pc_revoke_json = False,
        pc_extra_auth_params = [(''access_type'', ''offline''), (''prompt'', ''consent'')]\<rparr>),
      (''github'', \<lparr>pc_flow = ''device'', pc_client_id = Some ''Ov23liYd8LivfM50k6mn'',
        pc_client_secret = Some ''b7950ebeaf553f933eb1dfb826d4181104f24b63'', pc_auth_url = None,
        pc_device_code_url = Some ''https://github.com/login/device/code'',
        pc_token_url = ''https://github.com/login/oauth/access_token'',
        pc_revoke_url = ''https://api.github.com/applications/{client_id}/token'',
        pc_revoke_method = ''DELETE'', pc_revoke_basic = True, pc_revoke_json = True, pc_extra_auth_params = []\<rparr>),
      (''mock'', \<lparr>pc_flow = ''auth_code'', pc_client_id = Some ''dummy'', pc_client_secret = Some ''dummy'',
        pc_auth_url = Some ''dynamic'', pc_device_code_url = None, pc_token_url = ''dynamic'', pc_revoke_url = ''dynamic'',
        pc_revoke_method = ''POST'', pc_revoke_basic = False, pc_revoke_json = False, pc_extra_auth_params = []\<rparr>),
      (''mock_device'', \<lparr>pc_flow = ''device'', pc_client_id = Some ''dummy'', pc_client_secret = Some ''none'',
        pc_auth_url = None, pc_device_code_url = Some ''dummy'', pc_token_url = ''dynamic'', pc_revoke_url = ''dynamic'',
        pc_revoke_method = ''POST'', pc_revoke_basic = False, pc_revoke_json = False, pc_extra_auth_params = []\<rparr>)]"

definition normalize_scopes :: "string list \<Rightarrow> string" where
  "normalize_scopes scopes = join '','' (sort scopes)"

section \<open>State and surroundings\<close>

record stored_token =
  tk_id :: int
  tk_provider :: string
  tk_scopes :: string
  tk_account :: string
  tk_access_token :: string
  tk_refresh_token :: "string option"
  tk_expires_at :: "rat option"

record auth_flow =
  fl_provider :: string
  fl_scopes :: "string list"
  fl_redirect_uri :: string
  fl_return_to :: string
  fl_account :: string
  fl_consumer_app :: "string option"
  fl_service_url :: "string option"

datatype flow_status = FlowPending | FlowCompleted "(string \<times> string option \<times> rat option)" | FlowError string

record device_flow =
  df_provider :: string
  df_scopes :: "string list"
  df_account :: string
  df_consumer_app :: string
  df_device_code :: string
  df_interval :: pyval
  df_status :: flow_status
  df_started_at :: rat

text \<open>\<open>os_next_id\<close> is the counter of \<open>AUTOINCREMENT\<close>; the dicts keep the order of insertion.  \<open>os_granted\<close> lists the grants the router was
  asked for.\<close>

record oauth_state =
  os_tokens :: "stored_token list"
  os_next_id :: int
  os_pending :: "(string \<times> auth_flow) list"
  os_devices :: "(string \<times> device_flow) list"
  os_providers :: "(string \<times> provider_conf) list"
  os_userinfo :: "(string \<times> string \<times> string) list"
  os_redirect_uri :: string
  os_granted :: "(string \<times> string \<times> pyval) list"

text \<open>
  \<open>oe_secrets\<close> is what \<open>_fetch_secrets\<close> gets from the secrets app, \<open>oe_post\<close> and \<open>oe_get\<close> are the answers of the endpoints
  to a form and to a bearer token, \<open>oe_revoke\<close> the status of a revocation, \<open>oe_granted\<close> the router's answer to a grant.
\<close>

record oauth_env =
  oe_loads :: "string \<Rightarrow> pyval result"
  oe_dumps :: "pyval \<Rightarrow> string"
  oe_now :: rat
  oe_nonce :: string
  oe_app_name :: string
  oe_zone_domain :: string
  oe_secrets :: "string list \<Rightarrow> (string \<Rightarrow> string option) result"
  oe_post :: "string \<Rightarrow> (string \<times> string) list \<Rightarrow> http_answer"
  oe_get :: "string \<Rightarrow> string \<Rightarrow> http_answer"
  oe_granted :: "string \<Rightarrow> string \<Rightarrow> pyval \<Rightarrow> bool result"

section \<open>The table of tokens\<close>

definition store_token :: "string \<Rightarrow> string \<Rightarrow> string \<Rightarrow> string \<Rightarrow> string option \<Rightarrow> rat option \<Rightarrow> oauth_state \<Rightarrow> oauth_state" where
  "store_token provider scopes_key account access_token refresh_token expires_at st =
     st\<lparr>os_tokens := os_tokens st @ [\<lparr>tk_id = os_next_id st, tk_provider = provider, tk_scopes = scopes_key, tk_account = account,
          tk_access_token = access_token, tk_refresh_token = refresh_token, tk_expires_at = expires_at\<rparr>],
        os_next_id := os_next_id st + 1\<rparr>"

definition select_tokens :: "string \<Rightarrow> string \<Rightarrow> string option \<Rightarrow> oauth_state \<Rightarrow> stored_token list" where
  "select_tokens provider scopes_key account st =
     filter (\<lambda>t. tk_provider t = provider \<and> tk_scopes t = scopes_key \<and> (str_truthy account \<longrightarrow> Some (tk_account t) = account)) (os_tokens st)"

definition refreshed_row :: "string \<Rightarrow> rat option \<Rightarrow> stored_token \<Rightarrow> stored_token" where
  "refreshed_row access_token expires_at t = t\<lparr>tk_access_token := access_token, tk_expires_at := expires_at\<rparr>"

definition update_token_after_refresh :: "int \<Rightarrow> string \<Rightarrow> rat option \<Rightarrow> oauth_state \<Rightarrow> oauth_state" where
  "update_token_after_refresh token_id access_token expires_at st =
     st\<lparr>os_tokens := map (\<lambda>t. if tk_id t = token_id then refreshed_row access_token expires_at t else t) (os_tokens st)\<rparr>"

definition get_token_by_id :: "int \<Rightarrow> oauth_state \<Rightarrow> stored_token option" where
  "get_token_by_id token_id st = find (\<lambda>t. tk_id t = token_id) (os_tokens st)"

definition remove_token_by_id :: "int \<Rightarrow> oauth_state \<Rightarrow> oauth_state" where
  "remove_token_by_id token_id st = st\<lparr>os_tokens := filter (\<lambda>t. tk_id t \<noteq> token_id) (os_tokens st)\<rparr>"

definition find_and_remove_token :: "string \<Rightarrow> string \<Rightarrow> string \<Rightarrow> oauth_state \<Rightarrow> stored_token option \<times> oauth_state" where
  "find_and_remove_token provider scopes_key account st =
     (case find (\<lambda>t. tk_provider t = provider \<and> tk_scopes t = scopes_key \<and> tk_account t = account) (os_tokens st) of
        None \<Rightarrow> (None, st)
      | Some t \<Rightarrow> (Some t, remove_token_by_id (tk_id t) st))"

definition list_all_tokens :: "oauth_state \<Rightarrow> (int \<times> string \<times> string \<times> string \<times> rat option) list" where
  "list_all_tokens st =
     map (\<lambda>t. (tk_id t, tk_provider t, tk_scopes t, tk_account t, tk_expires_at t))
       (sort_key tk_provider (sort_key tk_account (os_tokens st)))"

definition get_accounts :: "string \<Rightarrow> string \<Rightarrow> oauth_state \<Rightarrow> string list" where
  "get_accounts provider scopes_key st = sort (map tk_account (select_tokens provider scopes_key None st))"

section \<open>Grants of the caller\<close>

record oauth_grant =
  og_provider :: pyval
  og_scopes :: pyval
  og_account :: pyval

fun read_grants :: "pyval list \<Rightarrow> oauth_grant list result" where
  "read_grants [] = Inr []"
| "read_grants (g # gs) =
     rbind (dict_get g ''scope'' VNone) (\<lambda>scope.
       if scope \<noteq> VStr ''app'' then read_grants gs
       else rbind (dict_get g ''grant'' (VDict [])) (\<lambda>payload.
         rbind (read_grants gs) (\<lambda>rest.
           case payload of
             VDict kvs \<Rightarrow>
               (case map_of kvs ''provider'' of
                  None \<Rightarrow> Inr rest
                | Some p \<Rightarrow> Inr (\<lparr>og_provider = p,
                    og_scopes = (case map_of kvs ''scopes'' of Some v \<Rightarrow> v | None \<Rightarrow> VList []),
                    og_account = (case map_of kvs ''account'' of Some v \<Rightarrow> v | None \<Rightarrow> VNone)\<rparr> # rest))
           | _ \<Rightarrow> Inr rest)))"

definition parse_oauth_v2_grants :: "oauth_env \<Rightarrow> string option \<Rightarrow> oauth_grant list result" where
  "parse_oauth_v2_grants E perms_header =
     (case oe_loads E (case perms_header of Some h \<Rightarrow> h | None \<Rightarrow> ''[]'') of
        Inl e \<Rightarrow> if exn_class e = JSONDecodeError then Inr [] else Inl e
      | Inr grants \<Rightarrow> rbind (iter_elems grants) read_grants)"

definition hashable :: "pyval \<Rightarrow> bool" where
  "hashable v = (case v of VList _ \<Rightarrow> False | VDict _ \<Rightarrow> False | _ \<Rightarrow> True)"

definition grant_applies :: "string \<Rightarrow> string option \<Rightarrow> oauth_grant \<Rightarrow> bool" where
  "grant_applies provider account g =
     (og_provider g = VStr provider \<and> (og_account g = VNone \<or> account = None \<or> og_account g = VStr (the account)))"

fun granted_scopes :: "string \<Rightarrow> string option \<Rightarrow> oauth_grant list \<Rightarrow> pyval list result" where
  "granted_scopes provider account [] = Inr []"
| "granted_scopes provider account (g # gs) =
     (if \<not> grant_applies provider account g then granted_scopes provider account gs
      else rbind (iter_elems (og_scopes g)) (\<lambda>vs.
        if list_all hashable vs then rbind (granted_scopes provider account gs) (\<lambda>rest. Inr (vs @ rest))
        else Inl (Exn TypeError ''unhashable type'')))"

definition check_oauth_v2_permission :: "oauth_env \<Rightarrow> string option \<Rightarrow> string \<Rightarrow> string list \<Rightarrow> string option \<Rightarrow> string list result" where
  "check_oauth_v2_permission E perms_header provider scopes account =
     rbind (parse_oauth_v2_grants E perms_header) (\<lambda>grants.
     rbind (granted_scopes provider account grants) (\<lambda>granted.
       Inr (filter (\<lambda>s. VStr s \<notin> set granted) scopes)))"

definition grant_url :: "oauth_env \<Rightarrow> string \<Rightarrow> string list \<Rightarrow> string \<Rightarrow> string \<Rightarrow> string" where
  "grant_url E provider scopes consumer_app return_to =
     ''https://'' @ oe_app_name E @ ''.'' @ oe_zone_domain E @ ''/grant?''
       @ urlencode [(''provider'', provider), (''scopes'', join '','' scopes), (''consumer'', consumer_app), (''return_to'', return_to)]"

section \<open>Credentials\<close>

definition DYNAMIC_CRED_PROVIDERS :: "string set" where
  "DYNAMIC_CRED_PROVIDERS = {''google''}"

definition get_provider_cred_key_names :: "string \<Rightarrow> string \<times> string" where
  "get_provider_cred_key_names name = (upper name @ ''_OAUTH_CLIENT_ID'', upper name @ ''_OAUTH_CLIENT_SECRET'')"

definition PROVIDER_KEY_ERROR :: "string \<Rightarrow> exn" where
  "PROVIDER_KEY_ERROR name = Exn KeyError name"

text \<open>The inner left is the message of \<open>CredentialsNotAvailable\<close>.\<close>

definition get_provider_creds :: "oauth_env \<Rightarrow> oauth_state \<Rightarrow> string \<Rightarrow> (string + string \<times> string) result" where
  "get_provider_creds E st name =
     (if name \<in> DYNAMIC_CRED_PROVIDERS
      then (let (id_key, secret_key) = get_provider_cred_key_names name
            in rbind (oe_secrets E [id_key, secret_key]) (\<lambda>secrets.
                 if \<not> str_truthy (secrets id_key) \<or> \<not> str_truthy (secrets secret_key)
                 then Inr (Inl (id_key @ '' and '' @ secret_key @ '' must be set in the secrets app''))
                 else Inr (Inr (the (secrets id_key), the (secrets secret_key)))))
      else (case map_of (os_providers st) name of
              None \<Rightarrow> Inl (PROVIDER_KEY_ERROR name)
            | Some p \<Rightarrow> if \<not> str_truthy (pc_client_id p) \<or> \<not> str_truthy (pc_client_secret p)
                then Inr (Inl (''Missing client_id or client_secret for '' @ name))
                else Inr (Inr (the (pc_client_id p), the (pc_client_secret p)))))"

section \<open>A valid token\<close>

definition seconds_of :: "pyval \<Rightarrow> rat result" where
  "seconds_of v =
     (case v of VInt i \<Rightarrow> Inr (of_int i) | VFloat r \<Rightarrow> Inr r | VBool b \<Rightarrow> Inr (if b then 1 else 0)
      | _ \<Rightarrow> Inl (Exn TypeError ''unsupported type for timedelta seconds component''))"

text \<open>\<open>datetime.now(UTC) + timedelta(seconds=v)\<close>, of a year from 1 to 9999, when the answer has an \<open>expires_in\<close>.\<close>

definition expiry :: "rat \<Rightarrow> pyval \<Rightarrow> rat option result" where
  "expiry now expires_in =
     (if \<not> truthy expires_in then Inr None
      else rbind (seconds_of expires_in) (\<lambda>s.
        if now + s < - 62135596800 \<or> now + s \<ge> 253402300800 then Inl (Exn OtherError ''date value out of range'') else Inr (Some (now + s))))"

definition refresh_access_token :: "oauth_env \<Rightarrow> oauth_state \<Rightarrow> string \<Rightarrow> string \<Rightarrow> string \<Rightarrow> string \<Rightarrow> pyval option result" where
  "refresh_access_token E st name refresh_token client_id client_secret =
     (case map_of (os_providers st) name of
        None \<Rightarrow> Inl (PROVIDER_KEY_ERROR name)
      | Some p \<Rightarrow>
          if pc_token_url p = [] then Inr None
          else (case oe_post E (pc_token_url p) [(''client_id'', client_id), (''client_secret'', client_secret),
                    (''refresh_token'', refresh_token), (''grant_type'', ''refresh_token'')] of
                  Answer status (Inr data) body \<Rightarrow> Inr (if status \<noteq> 200 then None else Some data)
                | _ \<Rightarrow> Inr None))"

type_synonym fresh_token = "string \<times> rat option"

text \<open>The token and expiry in an answer, if it has a token.\<close>

definition refreshed_answer :: "oauth_env \<Rightarrow> pyval option \<Rightarrow> fresh_token option result" where
  "refreshed_answer E answer =
     (case answer of
        None \<Rightarrow> Inr None
      | Some data \<Rightarrow>
          if \<not> truthy data then Inr None
          else rbind (key_in ''access_token'' data) (\<lambda>found.
            if \<not> found then Inr None
            else rbind (dict_get data ''expires_in'' VNone) (\<lambda>expires_in.
                 rbind (expiry (oe_now E) expires_in) (\<lambda>expires_at.
                 rbind (str_item data ''access_token'') (\<lambda>access_token. Inr (Some (access_token, expires_at)))))))"

definition get_valid_token :: "oauth_env \<Rightarrow> string \<Rightarrow> string list \<Rightarrow> string \<Rightarrow> oauth_state
    \<Rightarrow> (string + fresh_token option) result \<times> oauth_state" where
  "get_valid_token E name scopes account st =
     (case select_tokens name (normalize_scopes scopes) (if account \<noteq> ''default'' then Some account else None) st of
        [] \<Rightarrow> (Inr (Inr None), st)
      | token # rest \<Rightarrow>
          if (case tk_expires_at token of None \<Rightarrow> True | Some t \<Rightarrow> t > oe_now E + 60)
          then (Inr (Inr (Some (tk_access_token token, tk_expires_at token))), st)
          else if \<not> str_truthy (tk_refresh_token token) then (Inr (Inr None), st)
          else (case get_provider_creds E st name of
                  Inl e \<Rightarrow> (Inl e, st)
                | Inr (Inl message) \<Rightarrow> (Inr (Inl message), st)
                | Inr (Inr (client_id, client_secret)) \<Rightarrow>
                    (case rbind (refresh_access_token E st name (the (tk_refresh_token token)) client_id client_secret) (refreshed_answer E) of
                       Inl e \<Rightarrow> (Inl e, st)
                     | Inr None \<Rightarrow> (Inr (Inr None), st)
                     | Inr (Some (access_token, expires_at)) \<Rightarrow>
                         (Inr (Inr (Some (access_token, expires_at))),
                          update_token_after_refresh (tk_id token) access_token expires_at st))))"

section \<open>Starting an authorization\<close>

definition request_scopes :: "string \<Rightarrow> string list \<Rightarrow> string list" where
  "request_scopes name scopes =
     (if name = ''google''
      then (let s1 = (if ''email'' \<in> set scopes then scopes else scopes @ [''email''])
            in if ''openid'' \<in> set s1 then s1 else s1 @ [''openid''])
      else scopes)"

text \<open>A dict display with a key twice keeps the place of the first and the value of the last.\<close>

definition build_auth_url :: "oauth_env \<Rightarrow> string \<Rightarrow> string list \<Rightarrow> string \<Rightarrow> string \<Rightarrow> string \<Rightarrow> string \<Rightarrow> oauth_state
    \<Rightarrow> string result \<times> oauth_state" where
  "build_auth_url E name scopes redirect_uri return_to client_id account st =
     (case map_of (os_providers st) name of
        None \<Rightarrow> (Inl (PROVIDER_KEY_ERROR name), st)
      | Some p \<Rightarrow>
          let state = oe_dumps E (VDict [(''app'', VStr (oe_app_name E)), (''nonce'', VStr (oe_nonce E))]);
              flow = \<lparr>fl_provider = name, fl_scopes = scopes, fl_redirect_uri = redirect_uri, fl_return_to = return_to,
                fl_account = account, fl_consumer_app = None, fl_service_url = None\<rparr>;
              st1 = st\<lparr>os_pending := AList.update state flow (os_pending st)\<rparr>;
              params = fold (\<lambda>(k, v). AList.update k v) (pc_extra_auth_params p)
                [(''client_id'', client_id), (''redirect_uri'', redirect_uri), (''response_type'', ''code''),
                 (''scope'', join '' '' (request_scopes name scopes)), (''state'', state)]
          in (case pc_auth_url p of
                None \<Rightarrow> (Inl (Exn KeyError ''auth_url''), st1)
              | Some url \<Rightarrow> (Inr (url @ ''?'' @ urlencode params), st1)))"

text \<open>The flow added last gets the app that is to be granted the token.\<close>

definition name_consumer :: "string \<Rightarrow> oauth_state \<Rightarrow> oauth_state" where
  "name_consumer consumer_app st =
     (let state = fst (last (os_pending st))
      in st\<lparr>os_pending := AList.update state
           ((the (map_of (os_pending st) state))\<lparr>fl_consumer_app := Some consumer_app, fl_service_url := Some OAUTH_SERVICE_URL\<rparr>)
           (os_pending st)\<rparr>)"

section \<open>Routes\<close>

datatype oauth_response =
    TokenFound string "rat option"
  | PermissionRequired string "string list" string
  | AuthorizationRequired string
  | CredentialsRequired string
  | AccountList "string list"
  | Done
  | TokenNotFound
  | BadRequest
  | NotConfigured

definition device_url :: "oauth_env \<Rightarrow> string \<Rightarrow> string list \<Rightarrow> string \<Rightarrow> string \<Rightarrow> string \<Rightarrow> string" where
  "device_url E name scopes return_to account consumer_app =
     ''https://'' @ oe_app_name E @ ''.'' @ oe_zone_domain E @ ''/device?''
       @ urlencode [(''provider'', name), (''scopes'', join '','' scopes), (''return_to'', return_to),
           (''account'', account), (''consumer'', consumer_app)]"

definition authorize_response :: "oauth_env \<Rightarrow> string \<Rightarrow> string list \<Rightarrow> string \<Rightarrow> string \<Rightarrow> string \<Rightarrow> oauth_state
    \<Rightarrow> oauth_response result \<times> oauth_state" where
  "authorize_response E name scopes return_to account consumer_app st =
     (case map_of (os_providers st) name of
        None \<Rightarrow> (Inl (PROVIDER_KEY_ERROR name), st)
      | Some p \<Rightarrow>
          if pc_flow p = ''device''
          then (if oe_zone_domain E = [] then (Inr NotConfigured, st)
                else (Inr (AuthorizationRequired (device_url E name scopes return_to account consumer_app)), st))
          else (case get_provider_creds E st name of
                  Inl e \<Rightarrow> (Inl e, st)
                | Inr (Inl message) \<Rightarrow> (Inr (CredentialsRequired message), st)
                | Inr (Inr (client_id, client_secret)) \<Rightarrow>
                    (case build_auth_url E name scopes (os_redirect_uri st) return_to client_id account st of
                       (Inl e, st1) \<Rightarrow> (Inl e, st1)
                     | (Inr url, st1) \<Rightarrow>
                         (Inr (AuthorizationRequired url), if consumer_app = [] then st1 else name_consumer consumer_app st1))))"

text \<open>The headers the router sends along; \<open>attr\<close>'s validators answer 400 before the handler runs.\<close>

definition header :: "(string \<times> string) list \<Rightarrow> string \<Rightarrow> string option" where
  "header hs name = map_option snd (find (\<lambda>(k, v). lower k = name) hs)"

definition consumer_of :: "(string \<times> string) list \<Rightarrow> string" where
  "consumer_of hs = or_empty (header hs ''x-openhost-consumer-id'')"

definition request_valid :: "string \<Rightarrow> string list \<Rightarrow> oauth_state \<Rightarrow> bool" where
  "request_valid provider scopes st = (map_of (os_providers st) provider \<noteq> None \<and> scopes \<noteq> [])"

definition get_token_request :: "oauth_env \<Rightarrow> (string \<times> string) list \<Rightarrow> string \<Rightarrow> string list \<Rightarrow> string \<Rightarrow> string \<Rightarrow> oauth_state
    \<Rightarrow> oauth_response result \<times> oauth_state" where
  "get_token_request E hs provider scopes account return_to st =
     (if \<not> request_valid provider scopes st then (Inr BadRequest, st)
      else if account = ''NEW'' then authorize_response E provider scopes return_to ''NEW'' (consumer_of hs) st
      else (case check_oauth_v2_permission E (header hs ''x-openhost-permissions'') provider scopes (Some account) of
              Inl e \<Rightarrow> (Inl e, st)
            | Inr missing \<Rightarrow>
                if missing \<noteq> []
                then (Inr (PermissionRequired provider missing (grant_url E provider scopes (consumer_of hs) return_to)), st)
                else (case get_valid_token E provider scopes account st of
                        (Inl e, st1) \<Rightarrow> (Inl e, st1)
                      | (Inr (Inl message), st1) \<Rightarrow> (Inr (CredentialsRequired message), st1)
                      | (Inr (Inr (Some (t, ends))), st1) \<Rightarrow> (Inr (TokenFound t ends), st1)
                      | (Inr (Inr None), st1) \<Rightarrow> authorize_response E provider scopes return_to account [] st1)))"

definition svc_accounts :: "oauth_env \<Rightarrow> (string \<times> string) list \<Rightarrow> string \<Rightarrow> string list \<Rightarrow> oauth_state \<Rightarrow> oauth_response result" where
  "svc_accounts E hs provider scopes st =
     (if \<not> request_valid provider scopes st then Inr BadRequest
      else rbind (check_oauth_v2_permission E (header hs ''x-openhost-permissions'') provider scopes None) (\<lambda>missing.
        if missing \<noteq> [] then Inr (PermissionRequired provider missing (grant_url E provider scopes (consumer_of hs) []))
        else Inr (AccountList (get_accounts provider (normalize_scopes scopes) st))))"

text \<open>
  A revocation: its method, its address, the authentication and the token.  Whether the provider heard of it does not change
  the answer.
\<close>

type_synonym revocation = "string \<times> string \<times> (string \<times> string) option \<times> bool \<times> string"

definition revoke_token :: "oauth_state \<Rightarrow> string \<Rightarrow> string \<Rightarrow> string \<Rightarrow> string \<Rightarrow> revocation option result" where
  "revoke_token st name token client_id client_secret =
     (case map_of (os_providers st) name of
        None \<Rightarrow> Inl (PROVIDER_KEY_ERROR name)
      | Some p \<Rightarrow>
          if pc_revoke_url p = [] then Inr None
          else Inr (Some (pc_revoke_method p, replace_all ''{client_id}'' client_id (pc_revoke_url p),
                 if pc_revoke_basic p then Some (client_id, client_secret) else None, pc_revoke_json p, token)))"

definition revocable :: "stored_token \<Rightarrow> string" where
  "revocable t = (if str_truthy (tk_refresh_token t) then the (tk_refresh_token t) else tk_access_token t)"

definition svc_revoke :: "oauth_env \<Rightarrow> (string \<times> string) list \<Rightarrow> string \<Rightarrow> string list \<Rightarrow> string \<Rightarrow> oauth_state
    \<Rightarrow> (oauth_response \<times> revocation option) result \<times> oauth_state" where
  "svc_revoke E hs provider scopes account st =
     (if \<not> request_valid provider scopes st \<or> account = [] then (Inr (BadRequest, None), st)
      else (case check_oauth_v2_permission E (header hs ''x-openhost-permissions'') provider scopes (Some account) of
              Inl e \<Rightarrow> (Inl e, st)
            | Inr missing \<Rightarrow>
                if missing \<noteq> []
                then (Inr (PermissionRequired provider missing (grant_url E provider scopes (consumer_of hs) []), None), st)
                else (case find_and_remove_token provider (normalize_scopes scopes) account st of
                        (None, st1) \<Rightarrow> (Inr (TokenNotFound, None), st1)
                      | (Some t, st1) \<Rightarrow>
                          (rbind (get_provider_creds E st1 provider) (\<lambda>creds.
                             case creds of
                               Inl message \<Rightarrow> Inr (Done, None)
                             | Inr (client_id, client_secret) \<Rightarrow>
                                 rbind (revoke_token st1 provider (revocable t) client_id client_secret) (\<lambda>r. Inr (Done, r))), st1))))"

definition api_delete_token :: "oauth_env \<Rightarrow> int \<Rightarrow> oauth_state \<Rightarrow> (oauth_response \<times> revocation option) result \<times> oauth_state" where
  "api_delete_token E token_id st =
     (case get_token_by_id token_id st of
        None \<Rightarrow> (Inr (Done, None), st)
      | Some t \<Rightarrow>
          (case get_provider_creds E st (tk_provider t) of
             Inl e \<Rightarrow> (Inl e, st)
           | Inr (Inl message) \<Rightarrow> (Inr (CredentialsRequired message, None), st)
           | Inr (Inr (client_id, client_secret)) \<Rightarrow>
               let st1 = remove_token_by_id token_id st
               in (rbind (revoke_token st1 (tk_provider t) (revocable t) client_id client_secret) (\<lambda>r. Inr (Done, r)), st1)))"

section \<open>What a grant of the caller covers\<close>

text \<open>A payload of a grant that covers a scope of a provider and account.\<close>

definition payload_covers :: "string \<Rightarrow> string option \<Rightarrow> string \<Rightarrow> pyval \<Rightarrow> bool" where
  "payload_covers provider account s payload =
     (\<exists>kvs vs. payload = VDict kvs \<and> map_of kvs ''provider'' = Some (VStr provider)
        \<and> (map_of kvs ''account'' \<in> {None, Some VNone} \<or> account = None \<or> map_of kvs ''account'' = Some (VStr (the account)))
        \<and> iter_elems (case map_of kvs ''scopes'' of Some v \<Rightarrow> v | None \<Rightarrow> VList []) = Inr vs \<and> VStr s \<in> set vs)"

lemma read_grants_from:
  assumes "read_grants gs = Inr ogs" and "g \<in> set ogs"
  shows "\<exists>h kvs. h \<in> set gs \<and> dict_get h ''scope'' VNone = Inr (VStr ''app'') \<and> dict_get h ''grant'' (VDict []) = Inr (VDict kvs)
    \<and> map_of kvs ''provider'' = Some (og_provider g)
    \<and> og_scopes g = (case map_of kvs ''scopes'' of Some v \<Rightarrow> v | None \<Rightarrow> VList [])
    \<and> og_account g = (case map_of kvs ''account'' of Some v \<Rightarrow> v | None \<Rightarrow> VNone)"
  using assms
proof (induction gs arbitrary: ogs)
  case (Cons h gs)
  obtain scope where scope: "dict_get h ''scope'' VNone = Inr scope"
    using Cons.prems(1) by (cases "dict_get h ''scope'' VNone") auto
  show ?case
  proof (cases "scope = VStr ''app''")
    case False
    then have "read_grants gs = Inr ogs"
      using Cons.prems(1) scope by simp
    from Cons.IH [OF this Cons.prems(2)] show ?thesis
      by (elim exE conjE) (intro exI conjI; (assumption | simp))
  next
    case True
    obtain payload where payload: "dict_get h ''grant'' (VDict []) = Inr payload"
      using Cons.prems(1) scope True by (cases "dict_get h ''grant'' (VDict [])") auto
    obtain rest where rest: "read_grants gs = Inr rest"
      using Cons.prems(1) scope True payload by (cases "read_grants gs") auto
    have one: "ogs = rest \<or> (\<exists>kvs p. payload = VDict kvs \<and> map_of kvs ''provider'' = Some p \<and> ogs = \<lparr>og_provider = p,
        og_scopes = (case map_of kvs ''scopes'' of Some v \<Rightarrow> v | None \<Rightarrow> VList []),
        og_account = (case map_of kvs ''account'' of Some v \<Rightarrow> v | None \<Rightarrow> VNone)\<rparr> # rest)"
      using Cons.prems(1) scope True payload rest by (cases payload) (auto split: option.splits)
    show ?thesis
    proof (cases "g \<in> set rest")
      case True
      from Cons.IH [OF rest this] show ?thesis
        by (elim exE conjE) (intro exI conjI; (assumption | simp))
    next
      case False
      with one Cons.prems(2) obtain kvs p where kvs: "payload = VDict kvs" "map_of kvs ''provider'' = Some p"
        "g = \<lparr>og_provider = p, og_scopes = (case map_of kvs ''scopes'' of Some v \<Rightarrow> v | None \<Rightarrow> VList []),
          og_account = (case map_of kvs ''account'' of Some v \<Rightarrow> v | None \<Rightarrow> VNone)\<rparr>"
        by auto
      then show ?thesis
        using scope True payload by (intro exI [of _ h] exI [of _ kvs]) simp
    qed
  qed
qed simp

lemma granted_from:
  assumes "granted_scopes provider account gs = Inr granted" and "v \<in> set granted"
  shows "\<exists>g vs. g \<in> set gs \<and> grant_applies provider account g \<and> iter_elems (og_scopes g) = Inr vs \<and> v \<in> set vs"
  using assms
proof (induction gs arbitrary: granted)
  case (Cons g gs)
  show ?case
  proof (cases "grant_applies provider account g")
    case False
    then have "granted_scopes provider account gs = Inr granted" using Cons.prems(1) by simp
    from Cons.IH [OF this Cons.prems(2)] show ?thesis by (elim exE conjE) (intro exI conjI; (assumption | simp))
  next
    case True
    obtain vs where vs: "iter_elems (og_scopes g) = Inr vs"
      using Cons.prems(1) True by (cases "iter_elems (og_scopes g)") auto
    then obtain rest where rest: "granted_scopes provider account gs = Inr rest" "granted = vs @ rest"
      using Cons.prems(1) True by (cases "granted_scopes provider account gs") (auto split: if_splits)
    show ?thesis
    proof (cases "v \<in> set vs")
      case True
      then show ?thesis using vs \<open>grant_applies provider account g\<close> by (intro exI [of _ g] exI [of _ vs]) simp
    next
      case False
      then have "v \<in> set rest" using rest(2) Cons.prems(2) by simp
      from Cons.IH [OF rest(1) this] show ?thesis by (elim exE conjE) (intro exI conjI; (assumption | simp))
    qed
  qed
qed simp

text \<open>A scope the check does not miss is covered by an app-scoped entry of the header.\<close>

lemma check_covers:
  assumes "check_oauth_v2_permission E (Some h) provider scopes account = Inr []" and "oe_loads E h = Inr (VList entries)"
    and "s \<in> set scopes"
  shows "\<exists>entry payload. entry \<in> set entries \<and> dict_get entry ''scope'' VNone = Inr (VStr ''app'')
    \<and> dict_get entry ''grant'' (VDict []) = Inr payload \<and> payload_covers provider account s payload"
proof -
  obtain ogs granted where ogs: "read_grants entries = Inr ogs" and granted: "granted_scopes provider account ogs = Inr granted"
    and "filter (\<lambda>s. VStr s \<notin> set granted) scopes = []"
    using assms(1,2) unfolding check_oauth_v2_permission_def parse_oauth_v2_grants_def
    by (cases "read_grants entries"; cases "granted_scopes provider account (projr (read_grants entries))") auto
  with assms(3) have "VStr s \<in> set granted"
    by (auto simp: filter_empty_conv)
  from granted_from [OF granted this] obtain g vs where g: "g \<in> set ogs" "grant_applies provider account g"
    "iter_elems (og_scopes g) = Inr vs" "VStr s \<in> set vs" by blast
  from read_grants_from [OF ogs g(1)] obtain entry kvs where entry: "entry \<in> set entries"
    "dict_get entry ''scope'' VNone = Inr (VStr ''app'')" "dict_get entry ''grant'' (VDict []) = Inr (VDict kvs)"
    "map_of kvs ''provider'' = Some (og_provider g)" "og_scopes g = (case map_of kvs ''scopes'' of Some v \<Rightarrow> v | None \<Rightarrow> VList [])"
    "og_account g = (case map_of kvs ''account'' of Some v \<Rightarrow> v | None \<Rightarrow> VNone)" by blast
  have "payload_covers provider account s (VDict kvs)"
    unfolding payload_covers_def
    using g(2-4) entry(4-6) by (intro exI [of _ kvs] exI [of _ vs]) (auto simp: grant_applies_def split: option.splits)
  with entry(1-3) show ?thesis by blast
qed

section \<open>Which token is handed out\<close>

lemma valid_token_from:
  assumes "get_valid_token E provider scopes account st = (Inr (Inr (Some (t, ends))), st')"
  shows "\<exists>tk. tk \<in> set (os_tokens st) \<and> tk_provider tk = provider \<and> tk_scopes tk = normalize_scopes scopes
    \<and> (account \<in> {''default'', []} \<or> tk_account tk = account)
    \<and> (t = tk_access_token tk \<and> ends = tk_expires_at tk \<and> st' = st
       \<or> st' = update_token_after_refresh (tk_id tk) t ends st \<and> str_truthy (tk_refresh_token tk))"
proof -
  obtain tk rest where sel: "select_tokens provider (normalize_scopes scopes) (if account \<noteq> ''default'' then Some account else None) st = tk # rest"
    using assms by (cases "select_tokens provider (normalize_scopes scopes) (if account \<noteq> ''default'' then Some account else None) st")
      (auto simp: get_valid_token_def)
  have "tk \<in> set (select_tokens provider (normalize_scopes scopes) (if account \<noteq> ''default'' then Some account else None) st)"
    by (simp add: sel)
  then have row: "tk \<in> set (os_tokens st)" "tk_provider tk = provider" "tk_scopes tk = normalize_scopes scopes"
    "account \<in> {''default'', []} \<or> tk_account tk = account"
    by (auto simp: select_tokens_def str_truthy_def split: if_splits)
  moreover have "t = tk_access_token tk \<and> ends = tk_expires_at tk \<and> st' = st
       \<or> st' = update_token_after_refresh (tk_id tk) t ends st \<and> str_truthy (tk_refresh_token tk)"
    using assms unfolding get_valid_token_def sel list.case
    by (simp split: if_splits sum.splits option.splits prod.splits)
  ultimately show ?thesis by blast
qed

lemma not_found: "fst (authorize_response E name scopes return_to account consumer st) \<noteq> Inr (TokenFound t ends)"
  by (auto simp: authorize_response_def split: option.split sum.split prod.split)

lemma token_request_found:
  assumes "get_token_request E hs provider scopes account return_to st = (Inr (TokenFound t ends), st')"
  shows "check_oauth_v2_permission E (header hs ''x-openhost-permissions'') provider scopes (Some account) = Inr []
    \<and> get_valid_token E provider scopes account st = (Inr (Inr (Some (t, ends))), st')"
  using assms not_found [of E provider scopes return_to _ _ _ t ends, unfolded fst_conv]
  unfolding get_token_request_def
  by (fastforce split: if_splits sum.splits prod.splits option.splits simp: prod_eq_iff dest: arg_cong [of _ _ fst])

section \<open>Keys of scopes\<close>

lemma normalize_scopes_perm: "mset xs = mset ys \<Longrightarrow> normalize_scopes xs = normalize_scopes ys"
  unfolding normalize_scopes_def by (metis properties_for_sort sorted_sort mset_sort)

lemma scopes_key_exact:
  assumes "xs \<noteq> []" and "ys \<noteq> []" and "list_all (\<lambda>w. CHR '','' \<notin> set w) (xs @ ys)"
  shows "normalize_scopes xs = normalize_scopes ys \<longleftrightarrow> mset xs = mset ys"
proof
  assume eq: "normalize_scopes xs = normalize_scopes ys"
  have "split_char CHR '','' (normalize_scopes zs) = sort zs" if "zs \<noteq> []" "list_all (\<lambda>w. CHR '','' \<notin> set w) zs" for zs
    using that unfolding normalize_scopes_def by (intro split_join_char) (auto simp: list_all_iff dest: arg_cong [of _ _ mset])
  with eq assms have "sort xs = sort ys" by (metis list_all_append)
  then show "mset xs = mset ys" by (metis mset_sort)
qed (rule normalize_scopes_perm)

text \<open>
  After a consent the grant is bound to the account that was found.  Such a grant does not cover a request for the default
  account: the app that asks without an account is sent through the consent again.
\<close>

lemma consent_never_covers_default:
  assumes "map_of kvs ''account'' = Some (VStr a)" and "a \<noteq> ''default''"
  shows "\<not> payload_covers provider (Some ''default'') s (VDict kvs)"
  using assms by (auto simp: payload_covers_def)

section \<open>Tokens only for granted apps\<close>

lemma forwarded_header:
  assumes "startswith name OPENHOST_HEADER_PREFIX"
  shows "header (build_forwarded_request_headers hs ex extra) name = header extra name"
proof -
  have "find (\<lambda>(k, v). lower k = name) (filter (\<lambda>(k, v). lower k \<notin> ex) (sanitize_forwarded_headers hs)) = None"
    using assms sanitized [of _ _ hs] by (fastforce simp: find_None_iff)
  moreover have "find P (xs @ ys) = (case find P xs of None \<Rightarrow> find P ys | Some x \<Rightarrow> Some x)" for P and xs ys :: "(string \<times> string) list"
    by (induction xs) auto
  ultimately show ?thesis
    by (simp add: header_def build_forwarded_request_headers_def)
qed

lemma permissions_header:
  "header (consumer_headers L consumer name permissions) ''x-openhost-permissions'' = Some (json_text L (VList permissions))"
proof -
  have "lower ''X-OpenHost-Consumer-Id'' \<noteq> ''x-openhost-permissions''" "lower ''X-OpenHost-Consumer-Name'' \<noteq> ''x-openhost-permissions''"
    "lower ''X-OpenHost-Permissions'' = ''x-openhost-permissions''" by code_simp+
  then show ?thesis by (simp add: header_def consumer_headers_def)
qed


definition example_payload :: pyval where
  "example_payload = VDict [(''provider'', VStr ''google''), (''scopes'', VList [VStr ''email''])]"

definition example_entry :: pyval where
  "example_entry = VDict [(''grant'', example_payload), (''scope'', VStr ''app'')]"

definition example_odb :: database where
  "example_odb = example_sdb\<lparr>t_permissions := [permission_row_of ''AAAAAAAAAAAA'' ''secrets.dev'' example_payload ''app'' (Some ''AAAAAAAAAAAA'')]\<rparr>"

definition example_olibs :: "string libs" where
  "example_olibs = example_libs\<lparr>json_text := \<lambda>v. if v = VList [] then ''[]'' else ''[google]''\<rparr>"

definition example_oauth :: oauth_env where
  "example_oauth = \<lparr>oe_loads = (\<lambda>s. Inr (VList (if s = ''[]'' then [] else [example_entry]))), oe_dumps = type_name, oe_now = 1000,
     oe_nonce = ''n1'', oe_app_name = ''oauth'', oe_zone_domain = ''host.example.com'', oe_secrets = (\<lambda>_. Inr (\<lambda>_. Some ''s'')),
     oe_post = (\<lambda>_ _. NoAnswer ''down''), oe_get = (\<lambda>_ _. NoAnswer ''down''), oe_granted = (\<lambda>_ _ _. Inr True)\<rparr>"

definition example_ostate :: oauth_state where
  "example_ostate = \<lparr>os_tokens = [\<lparr>tk_id = 1, tk_provider = ''google'', tk_scopes = ''email'', tk_account = ''o@example.com'',
       tk_access_token = ''secret'', tk_refresh_token = None, tk_expires_at = None\<rparr>],
     os_next_id = 2, os_pending = [], os_devices = [], os_providers = PROVIDERS, os_userinfo = [],
     os_redirect_uri = ''https://my.example.com/cb'', os_granted = []\<rparr>"

definition example_ocall :: "response + service_request" where
  "example_ocall = service_call [] example_olibs example_auth app_conn ''secrets'' ''/token'' None example_odb"

lemma example_canon: "json_canon example_payload = example_payload"
  by code_simp

lemma example_grants:
  "grants_for_provider app url target example_odb
    = (if app = ''AAAAAAAAAAAA'' \<and> url = ''secrets.dev'' \<and> target = ''AAAAAAAAAAAA'' then [example_entry] else [])"
  using example_canon
  by (auto simp: or_empty_def grants_for_provider_def get_granted_permissions_v2_def example_odb_def permission_row_of_def none_if_empty_def
      grant_entry_def example_entry_def)


end
