(* ===== verification/OAuthFlows.thy ===== *)
theory OAuthFlows
  imports OAuthTokens
begin

text \<open>
  How the OAuth provider app gets tokens: the authorization code flow and the device flow (\<open>core/providers.py\<close>,
  \<open>routes/pages/oauth.py\<close>, \<open>routes/api/device.py\<close>) and the route with which tests redirect the mock providers.  The identity
  at the user-info endpoint counts as missing unless it is a string.
\<close>

section \<open>Exchanging a code\<close>

definition opt_str_item :: "pyval \<Rightarrow> string \<Rightarrow> string option result" where
  "opt_str_item d key = rbind (dict_get d key VNone) (\<lambda>v.
     case v of VNone \<Rightarrow> Inr None | VStr t \<Rightarrow> Inr (Some t) | _ \<Rightarrow> Inl (Exn TypeError ''expected str''))"

text \<open>The token, the refresh token and the expiry; the left is the description of a refusal.\<close>

definition token_answer :: "oauth_env \<Rightarrow> pyval \<Rightarrow> (string \<times> string option \<times> rat option) result" where
  "token_answer E data =
     rbind (dict_get data ''expires_in'' VNone) (\<lambda>expires_in.
     rbind (expiry (oe_now E) expires_in) (\<lambda>expires_at.
     rbind (str_item data ''access_token'') (\<lambda>access_token.
     rbind (opt_str_item data ''refresh_token'') (\<lambda>refresh_token. Inr (access_token, refresh_token, expires_at)))))"

definition exchange_code :: "oauth_env \<Rightarrow> oauth_state \<Rightarrow> string \<Rightarrow> string \<Rightarrow> string \<Rightarrow> string \<Rightarrow> string
    \<Rightarrow> (pyval + string \<times> string option \<times> rat option) result" where
  "exchange_code E st name auth_code redirect_uri client_id client_secret =
     (case map_of (os_providers st) name of
        None \<Rightarrow> Inl (PROVIDER_KEY_ERROR name)
      | Some p \<Rightarrow>
          (case oe_post E (pc_token_url p) [(''client_id'', client_id), (''client_secret'', client_secret), (''code'', auth_code),
                (''grant_type'', ''authorization_code''), (''redirect_uri'', redirect_uri)] of
             NoAnswer m \<Rightarrow> Inl (Exn OtherError m)
           | Answer status json body \<Rightarrow>
               if status \<noteq> 200
               then rbind (dict_get (case json of Inr v \<Rightarrow> v | Inl e \<Rightarrow> VDict []) ''error_description'' (VStr body)) (\<lambda>d. Inr (Inl d))
               else rbind json (\<lambda>data. rbind (dict_get data ''error'' VNone) (\<lambda>error.
                 if truthy error then rbind (dict_get data ''error_description'' (VStr [])) (\<lambda>d. Inr (Inl d))
                 else rbind (token_answer E data) (\<lambda>t. Inr (Inr t))))))"

definition USERINFO_URLS :: "(string \<times> string \<times> string) list" where
  "USERINFO_URLS = [(''google'', ''https://www.googleapis.com/oauth2/v2/userinfo'', ''email''), (''github'', ''https://api.github.com/user'', ''login'')]"

definition fetch_account_identity :: "oauth_env \<Rightarrow> oauth_state \<Rightarrow> string \<Rightarrow> string \<Rightarrow> string option" where
  "fetch_account_identity E st name access_token =
     (case map_of (os_userinfo st) name of
        None \<Rightarrow> None
      | Some (url, field) \<Rightarrow>
          (case oe_get E url access_token of
             Answer status (Inr (VDict kvs)) body \<Rightarrow>
               if status = 200 then (case map_of kvs field of Some (VStr i) \<Rightarrow> Some i | _ \<Rightarrow> None) else None
           | _ \<Rightarrow> None))"

section \<open>Storing a token and granting it\<close>

definition account_of :: "oauth_env \<Rightarrow> oauth_state \<Rightarrow> string \<Rightarrow> string \<Rightarrow> string \<Rightarrow> string" where
  "account_of E st name access_token account =
     (let identity = fetch_account_identity E st name access_token in if str_truthy identity then the identity else account)"

definition grant_payload :: "string \<Rightarrow> string list \<Rightarrow> string \<Rightarrow> pyval" where
  "grant_payload name scopes account =
     VDict [(''provider'', VStr name), (''scopes'', VList (map VStr scopes)), (''account'', VStr account)]"

text \<open>The router's answer to a grant is not looked at; a call that fails raises, with the token stored.\<close>

definition grant_app_scoped_permission :: "oauth_env \<Rightarrow> string \<Rightarrow> string \<Rightarrow> pyval \<Rightarrow> oauth_state \<Rightarrow> unit result \<times> oauth_state" where
  "grant_app_scoped_permission E consumer_app service_url payload st =
     (rbind (oe_granted E consumer_app service_url payload) (\<lambda>ok. Inr ()),
      st\<lparr>os_granted := os_granted st @ [(consumer_app, service_url, payload)]\<rparr>)"

definition store_and_grant :: "oauth_env \<Rightarrow> string \<Rightarrow> string list \<Rightarrow> string \<Rightarrow> string option \<Rightarrow> string option
    \<Rightarrow> string \<times> string option \<times> rat option \<Rightarrow> oauth_state \<Rightarrow> unit result \<times> oauth_state" where
  "store_and_grant E name scopes account consumer_app service_url result st =
     (case result of (access_token, refresh_token, expires_at) \<Rightarrow>
        let who = account_of E st name access_token account;
            st1 = store_token name (normalize_scopes scopes) who access_token refresh_token expires_at st
        in if \<not> str_truthy consumer_app then (Inr (), st1)
           else (case service_url of
                   None \<Rightarrow> (Inl (Exn KeyError ''service_url''), st1)
                 | Some url \<Rightarrow> grant_app_scoped_permission E (the consumer_app) url (grant_payload name scopes who) st1))"

section \<open>Pages\<close>

datatype page = Refused nat | RedirectTo string | DevicePage string

definition safe_return_to :: "string \<Rightarrow> string \<Rightarrow> string" where
  "safe_return_to zone return_to =
     (let rt = (if prefix ''/'' return_to then return_to else ''/'')
      in if \<not> prefix ''//'' rt then rt
         else if zone = [] then ''/''
         else (let parts = split_char CHR ''/'' rt; domain = (if length parts \<ge> 3 then parts ! 2 else [])
               in if domain \<noteq> zone \<and> \<not> suffix (''.'' @ zone) domain then ''/'' else rt))"

definition oauth_grant_page :: "oauth_env \<Rightarrow> string \<Rightarrow> string \<Rightarrow> string \<Rightarrow> string \<Rightarrow> oauth_state \<Rightarrow> page result \<times> oauth_state" where
  "oauth_grant_page E provider scopes consumer return_to st =
     (if provider = [] then (Inr (Refused 400), st)
      else case map_of (os_providers st) provider of
        None \<Rightarrow> (Inr (Refused 400), st)
      | Some p \<Rightarrow>
          if scopes = [] \<or> consumer = [] then (Inr (Refused 400), st)
          else if pc_flow p = ''device''
          then (Inr (RedirectTo (''/device?'' @ urlencode [(''provider'', provider), (''scopes'', scopes), (''return_to'', return_to),
                  (''account'', ''default''), (''consumer'', consumer)])), st)
          else (case get_provider_creds E st provider of
                  Inl e \<Rightarrow> (Inl e, st)
                | Inr (Inl message) \<Rightarrow> (Inr (Refused 503), st)
                | Inr (Inr (client_id, client_secret)) \<Rightarrow>
                    (case build_auth_url E provider (split_char CHR '','' scopes) (os_redirect_uri st) return_to client_id ''default'' st of
                       (Inl e, st1) \<Rightarrow> (Inl e, st1)
                     | (Inr url, st1) \<Rightarrow> (Inr (RedirectTo url), name_consumer consumer st1))))"

definition unreported_scopes :: "string \<Rightarrow> string list \<Rightarrow> string list" where
  "unreported_scopes scope wanted =
     (if scope = [] \<or> wanted = [] then [] else filter (\<lambda>s. s \<notin> set (split_ws scope)) wanted)"

definition oauth_callback :: "oauth_env \<Rightarrow> string \<Rightarrow> string \<Rightarrow> string \<Rightarrow> string \<Rightarrow> oauth_state \<Rightarrow> page result \<times> oauth_state" where
  "oauth_callback E auth_code state error scope st =
     (if error \<noteq> [] \<or> auth_code = [] \<or> state = [] then (Inr (Refused 400), st)
      else case map_of (os_pending st) state of
        None \<Rightarrow> (Inr (Refused 400), st)
      | Some flow \<Rightarrow>
          (let st1 = st\<lparr>os_pending := AList.delete state (os_pending st)\<rparr>
           in if unreported_scopes scope (fl_scopes flow) \<noteq> [] then (Inr (Refused 400), st1)
              else (case get_provider_creds E st1 (fl_provider flow) of
                      Inl e \<Rightarrow> (Inl e, st1)
                    | Inr (Inl message) \<Rightarrow> (Inr (Refused 503), st1)
                    | Inr (Inr (client_id, client_secret)) \<Rightarrow>
                        (case exchange_code E st1 (fl_provider flow) auth_code (fl_redirect_uri flow) client_id client_secret of
                           Inl e \<Rightarrow> (Inl e, st1)
                         | Inr (Inl refusal) \<Rightarrow> (Inr (Refused 502), st1)
                         | Inr (Inr result) \<Rightarrow>
                             (case store_and_grant E (fl_provider flow) (fl_scopes flow) (fl_account flow) (fl_consumer_app flow)
                                     (fl_service_url flow) result st1 of
                                (Inl e, st2) \<Rightarrow> (Inl e, st2)
                              | (Inr u, st2) \<Rightarrow> (Inr (RedirectTo (safe_return_to (oe_zone_domain E) (fl_return_to flow))), st2))))))"

section \<open>The device flow\<close>

definition DEVICE_FLOW_TIMEOUT :: rat where
  "DEVICE_FLOW_TIMEOUT = 300"

text \<open>The left is a refusal.\<close>

definition start_device_flow :: "oauth_env \<Rightarrow> oauth_state \<Rightarrow> string \<Rightarrow> string list \<Rightarrow> (unit + pyval) result" where
  "start_device_flow E st name scopes =
     (case map_of (os_providers st) name of
        None \<Rightarrow> Inl (PROVIDER_KEY_ERROR name)
      | Some p \<Rightarrow>
          (case (pc_device_code_url p, pc_client_id p) of
             (Some url, Some client_id) \<Rightarrow>
               (case oe_post E url [(''client_id'', client_id), (''scope'', join '' '' scopes)] of
                  NoAnswer m \<Rightarrow> Inl (Exn OtherError m)
                | Answer status json body \<Rightarrow>
                    if status \<noteq> 200
                    then rbind (dict_get (case json of Inr v \<Rightarrow> v | Inl e \<Rightarrow> VDict []) ''error'' VNone) (\<lambda>d. Inr (Inl ()))
                    else rbind json (\<lambda>data. rbind (key_in ''error'' data) (\<lambda>bad. Inr (if bad then Inl () else Inr data))))
           | (None, i) \<Rightarrow> Inl (Exn KeyError ''device_code_url'')
           | (Some url, None) \<Rightarrow> Inl (Exn KeyError ''client_id'')))"

text \<open>\<open>flow_id\<close> is the random id of the new flow.\<close>

definition create_device_flow :: "oauth_env \<Rightarrow> string \<Rightarrow> string \<Rightarrow> string list \<Rightarrow> pyval \<Rightarrow> string \<Rightarrow> string \<Rightarrow> oauth_state
    \<Rightarrow> string result \<times> oauth_state" where
  "create_device_flow E flow_id name scopes data account consumer_app st =
     (case rbind (str_item data ''device_code'') (\<lambda>device_code. rbind (str_item data ''user_code'') (\<lambda>user_code.
             rbind (dict_get data ''interval'' (VInt 5)) (\<lambda>interval. Inr (device_code, interval)))) of
        Inl e \<Rightarrow> (Inl e, st)
      | Inr (device_code, interval) \<Rightarrow>
          (Inr flow_id, st\<lparr>os_devices := AList.update flow_id
             \<lparr>df_provider = name, df_scopes = scopes, df_account = account, df_consumer_app = consumer_app, df_device_code = device_code,
               df_interval = interval, df_status = FlowPending, df_started_at = oe_now E\<rparr> (os_devices st)\<rparr>))"

definition device_page :: "oauth_env \<Rightarrow> string \<Rightarrow> string \<Rightarrow> string \<Rightarrow> string \<Rightarrow> string \<Rightarrow> oauth_state \<Rightarrow> page result \<times> oauth_state" where
  "device_page E flow_id provider scopes account consumer st =
     (if provider = [] \<or> map_of (os_providers st) provider = None \<or> scopes = [] then (Inr (Refused 400), st)
      else case start_device_flow E st provider (split_char CHR '','' scopes) of
        Inl e \<Rightarrow> (Inl e, st)
      | Inr (Inl _) \<Rightarrow> (Inr (Refused 502), st)
      | Inr (Inr data) \<Rightarrow>
          (case create_device_flow E flow_id provider (split_char CHR '','' scopes) data account consumer st of
             (Inl e, st1) \<Rightarrow> (Inl e, st1)
           | (Inr i, st1) \<Rightarrow> (Inr (DevicePage i), st1)))"

text \<open>What one answer of the token endpoint means for the polling task.\<close>

datatype poll_step = PollAgain | PollSlower | PollEnds flow_status | PollDies exn

definition poll_answer :: "oauth_env \<Rightarrow> http_answer \<Rightarrow> poll_step" where
  "poll_answer E answer =
     (case answer of
        Answer status (Inr data) body \<Rightarrow>
          (case dict_get data ''error'' VNone of
             Inl e \<Rightarrow> PollDies e
           | Inr error \<Rightarrow>
               if error = VStr ''authorization_pending'' then PollAgain
               else if error = VStr ''slow_down'' then PollSlower
               else if truthy error
               then PollEnds (FlowError (case dict_get data ''error_description'' error of Inr (VStr m) \<Rightarrow> m | _ \<Rightarrow> ''Unknown error''))
               else (case token_answer E data of Inl e \<Rightarrow> PollDies e | Inr t \<Rightarrow> PollEnds (FlowCompleted t)))
      | _ \<Rightarrow> PollAgain)"

text \<open>
  The polling task: \<open>pw_clock\<close> is the clock before the \<open>n\<close>-th sleep, \<open>pw_listed\<close> whether the flow is still there after it.
  The result is how the task leaves the flow, which stays as it is when the task dies.
\<close>

record poll_world =
  pw_env :: oauth_env
  pw_clock :: "nat \<Rightarrow> rat"
  pw_listed :: "nat \<Rightarrow> bool"
  pw_answer :: "nat \<Rightarrow> http_answer"

partial_function (option) poll_loop :: "poll_world \<Rightarrow> rat \<Rightarrow> nat \<Rightarrow> flow_status option option" where
  "poll_loop W deadline n =
     (if pw_clock W n < deadline
      then (if \<not> pw_listed W n then Some None
            else case poll_answer (pw_env W) (pw_answer W n) of
              PollAgain \<Rightarrow> poll_loop W deadline (n + 1)
            | PollSlower \<Rightarrow> poll_loop W deadline (n + 1)
            | PollEnds status \<Rightarrow> Some (Some status)
            | PollDies e \<Rightarrow> Some None)
      else Some (Some (FlowError ''Device flow timed out waiting for authorization'')))"

definition poll_device_flow :: "poll_world \<Rightarrow> string \<Rightarrow> oauth_state \<Rightarrow> oauth_state option" where
  "poll_device_flow W flow_id st =
     (case map_of (os_devices st) flow_id of
        None \<Rightarrow> Some st
      | Some flow \<Rightarrow>
          (case seconds_of (df_interval flow) of
             Inl e \<Rightarrow> Some st
           | Inr interval \<Rightarrow>
               map_option (\<lambda>ended. case ended of
                   None \<Rightarrow> st
                 | Some status \<Rightarrow> st\<lparr>os_devices := AList.update flow_id (flow\<lparr>df_status := status\<rparr>) (os_devices st)\<rparr>)
                 (poll_loop W (df_started_at flow + DEVICE_FLOW_TIMEOUT) 0)))"

datatype device_poll_response = PollExpired | PollCompleted | PollFailed string | PollPending

definition drop_flow :: "string \<Rightarrow> oauth_state \<Rightarrow> oauth_state" where
  "drop_flow flow_id st = st\<lparr>os_devices := AList.delete flow_id (os_devices st)\<rparr>"

definition device_poll :: "oauth_env \<Rightarrow> string \<Rightarrow> oauth_state \<Rightarrow> device_poll_response result \<times> oauth_state" where
  "device_poll E flow_id st =
     (case map_of (os_devices st) flow_id of
        None \<Rightarrow> (Inr PollExpired, st)
      | Some flow \<Rightarrow>
          (case df_status flow of
             FlowCompleted result \<Rightarrow>
               (case store_and_grant E (df_provider flow) (df_scopes flow) (df_account flow)
                       (if df_consumer_app flow = [] then None else Some (df_consumer_app flow)) (Some OAUTH_SERVICE_URL) result st of
                  (Inl e, st1) \<Rightarrow> (Inl e, st1)
                | (Inr u, st1) \<Rightarrow> (Inr PollCompleted, drop_flow flow_id st1))
           | FlowError message \<Rightarrow> (Inr (PollFailed message), drop_flow flow_id st)
           | FlowPending \<Rightarrow> (Inr PollPending, st)))"

section \<open>The mock providers\<close>

definition or_keep :: "string \<Rightarrow> string \<Rightarrow> string" where
  "or_keep new old = (if new = [] then old else new)"

definition set_mock_provider_url :: "string \<Rightarrow> string \<Rightarrow> string \<Rightarrow> string \<Rightarrow> string \<Rightarrow> string \<Rightarrow> string \<times> string \<Rightarrow> oauth_state
    \<Rightarrow> unit result \<times> oauth_state" where
  "set_mock_provider_url provider redirect_uri authorize_url code_url token_url revoke_url userinfo st =
     (if provider \<notin> {''mock'', ''mock_device''} then (Inl (Exn AssertionError []), st)
      else case map_of (os_providers st) provider of
        None \<Rightarrow> (Inl (PROVIDER_KEY_ERROR provider), st)
      | Some p \<Rightarrow>
          (Inr (), st\<lparr>os_providers := AList.update provider
              (p\<lparr>pc_auth_url := (if authorize_url = [] then pc_auth_url p else Some authorize_url),
                 pc_device_code_url := (if code_url = [] then pc_device_code_url p else Some code_url),
                 pc_token_url := or_keep token_url (pc_token_url p), pc_revoke_url := or_keep revoke_url (pc_revoke_url p)\<rparr>) (os_providers st),
            os_userinfo := (if fst userinfo = [] then os_userinfo st else AList.update provider userinfo (os_userinfo st)),
            os_redirect_uri := redirect_uri\<rparr>))"

section \<open>Where a flow leads back to\<close>

text \<open>The host of a URL that begins with two slashes, as the code reads it.\<close>

definition authority_of :: "string \<Rightarrow> string" where
  "authority_of url = takeWhile (\<lambda>c. c \<noteq> CHR ''/'') (drop 2 url)"

lemma split_char_takeWhile: "split_char c s \<noteq> [] \<and> hd (split_char c s) = takeWhile (\<lambda>d. d \<noteq> c) s"
  by (induction s) (auto split: list.splits)

lemma split_two_slashes:
  assumes "prefix ''//'' url"
  shows "length (split_char CHR ''/'' url) \<ge> 3 \<and> split_char CHR ''/'' url ! 2 = authority_of url"
proof -
  obtain rest where url: "url = CHR ''/'' # CHR ''/'' # rest"
    using assms by (auto simp: prefix_def)
  have "split_char CHR ''/'' url = [] # [] # split_char CHR ''/'' rest"
    by (simp add: url)
  then show ?thesis
    using split_char_takeWhile [of "CHR ''/''" rest] by (cases "split_char CHR ''/'' rest") (simp_all add: url authority_of_def)
qed

lemma return_stays:
  "prefix ''/'' (safe_return_to zone rt)
   \<and> (prefix ''//'' (safe_return_to zone rt) \<longrightarrow> authority_of (safe_return_to zone rt) = zone \<or> suffix (''.'' @ zone) (authority_of (safe_return_to zone rt)))"
  using split_two_slashes [of rt] by (auto simp: safe_return_to_def Let_def)

text \<open>
  A browser ends the host at a question mark or a backslash too, and takes a backslash for a slash: the check lets addresses of
  any host through.
\<close>

lemma open_redirects:
  "safe_return_to ''host.example.com'' ''//evil.example?.host.example.com'' = ''//evil.example?.host.example.com''"
  "safe_return_to ''host.example.com'' (''/'' @ [CHR 0x5C] @ ''evil.example'') = ''/'' @ [CHR 0x5C] @ ''evil.example''"
  by code_simp+

section \<open>What a callback stores\<close>

definition token_row :: "oauth_state \<Rightarrow> string \<Rightarrow> string list \<Rightarrow> string \<Rightarrow> string \<times> string option \<times> rat option \<Rightarrow> stored_token" where
  "token_row st name scopes account result =
     \<lparr>tk_id = os_next_id st, tk_provider = name, tk_scopes = normalize_scopes scopes, tk_account = account,
       tk_access_token = fst result, tk_refresh_token = fst (snd result), tk_expires_at = snd (snd result)\<rparr>"

definition grants_asked :: "string option \<Rightarrow> string option \<Rightarrow> pyval \<Rightarrow> (string \<times> string \<times> pyval) list" where
  "grants_asked consumer url payload = (if str_truthy consumer then [(the consumer, the url, payload)] else [])"

lemma store_and_grant_done:
  assumes "store_and_grant E name scopes account consumer url result st = (Inr u, st')"
  shows "st' = st\<lparr>os_tokens := os_tokens st @ [token_row st name scopes (account_of E st name (fst result) account) result],
      os_next_id := os_next_id st + 1,
      os_granted := os_granted st @ grants_asked consumer url (grant_payload name scopes (account_of E st name (fst result) account))\<rparr>"
proof -
  obtain a r x where result: "result = (a, r, x)" by (cases result)
  show ?thesis
    using assms
    by (auto simp: store_and_grant_def result Let_def store_token_def token_row_def grants_asked_def grant_app_scoped_permission_def
        split: if_splits option.splits)
qed

lemma callback_effect:
  assumes "oauth_callback E auth_code state error scope st = (Inr (RedirectTo url), st')"
  shows "\<exists>flow result who. map_of (os_pending st) state = Some flow \<and> unreported_scopes scope (fl_scopes flow) = []
    \<and> who = account_of E st (fl_provider flow) (fst result) (fl_account flow)
    \<and> os_tokens st' = os_tokens st @ [token_row st (fl_provider flow) (fl_scopes flow) who result]
    \<and> os_granted st' = os_granted st
        @ grants_asked (fl_consumer_app flow) (fl_service_url flow) (grant_payload (fl_provider flow) (fl_scopes flow) who)
    \<and> url = safe_return_to (oe_zone_domain E) (fl_return_to flow)
    \<and> map_of (os_pending st') state = None"
proof -
  obtain flow where flow: "map_of (os_pending st) state = Some flow" and given: "error = []" "auth_code \<noteq> []" "state \<noteq> []"
    using assms by (auto simp: oauth_callback_def split: if_splits option.splits)
  let ?st1 = "st\<lparr>os_pending := AList.delete state (os_pending st)\<rparr>"
  obtain creds where scopes: "unreported_scopes scope (fl_scopes flow) = []" and creds: "get_provider_creds E ?st1 (fl_provider flow) = Inr (Inr creds)"
    using assms flow given by (auto simp: oauth_callback_def Let_def split: if_splits sum.splits)
  obtain result where result: "exchange_code E ?st1 (fl_provider flow) auth_code (fl_redirect_uri flow) (fst creds) (snd creds) = Inr (Inr result)"
    using assms flow given scopes creds by (cases creds) (auto simp: oauth_callback_def Let_def split: if_splits sum.splits)
  obtain u where stored: "store_and_grant E (fl_provider flow) (fl_scopes flow) (fl_account flow) (fl_consumer_app flow) (fl_service_url flow)
      result ?st1 = (Inr u, st')" and url: "url = safe_return_to (oe_zone_domain E) (fl_return_to flow)"
    using assms flow given scopes creds result by (cases creds) (auto simp: oauth_callback_def Let_def split: if_splits sum.splits prod.splits)
  have who: "account_of E ?st1 n t a = account_of E st n t a" for n t a
    by (simp add: account_of_def fetch_account_identity_def)
  from store_and_grant_done [OF stored] have st': "os_tokens st' = os_tokens st @ [token_row st (fl_provider flow) (fl_scopes flow)
        (account_of E st (fl_provider flow) (fst result) (fl_account flow)) result]"
    "os_granted st' = os_granted st @ grants_asked (fl_consumer_app flow) (fl_service_url flow) (grant_payload (fl_provider flow)
        (fl_scopes flow) (account_of E st (fl_provider flow) (fst result) (fl_account flow)))"
    "map_of (os_pending st') state = None"
    by (simp_all add: who token_row_def delete_conv')
  with flow scopes url show ?thesis by blast
qed

lemma callback_row:
  assumes "oauth_callback E auth_code state error scope st = (Inr (RedirectTo url), st')" and "map_of (os_pending st) state = Some flow"
  shows "\<exists>result who. os_tokens st' = os_tokens st @ [token_row st (fl_provider flow) (fl_scopes flow) who result]"
  using callback_effect [OF assms(1)] assms(2) by auto

text \<open>C30: 
  A callback that leads on used a flow that was begun here and removed it, so that no further callback with its state does
  anything.  The provider reported no requested scope missing.  One token was stored, for exactly the flow's provider and scopes
  and under the account the provider names; and the one grant the router was asked for, if the flow is for an app, is for that
  app, provider, scopes and account.
\<close>

theorem callback_stores:
  assumes "oauth_callback E auth_code state error scope st = (Inr (RedirectTo url), st')"
  shows "\<exists>flow result who. map_of (os_pending st) state = Some flow \<and> unreported_scopes scope (fl_scopes flow) = []
    \<and> who = account_of E st (fl_provider flow) (fst result) (fl_account flow)
    \<and> os_tokens st' = os_tokens st @ [token_row st (fl_provider flow) (fl_scopes flow) who result]
    \<and> os_granted st' = os_granted st
        @ grants_asked (fl_consumer_app flow) (fl_service_url flow) (grant_payload (fl_provider flow) (fl_scopes flow) who)
    \<and> url = safe_return_to (oe_zone_domain E) (fl_return_to flow)
    \<and> oauth_callback E2 code2 state error2 scope2 st' = (Inr (Refused 400), st')"
proof -
  have again: "oauth_callback E2 code2 state error2 scope2 st' = (Inr (Refused 400), st')" if "map_of (os_pending st') state = None"
    using that by (simp add: oauth_callback_def)
  from callback_effect [OF assms] show ?thesis
    by (elim exE conjE) (intro exI conjI again; assumption)
qed

section \<open>How a device flow ends\<close>

lemma poll_loop_ends:
  assumes "i > 0" and "\<And>n. pw_clock W n + i \<le> pw_clock W (Suc n)" and "deadline - pw_clock W n \<le> of_nat k * i"
  shows "\<exists>r. poll_loop W deadline n = Some r
    \<and> (r = None \<longrightarrow> (\<exists>m. \<not> pw_listed W m \<or> (\<exists>e. poll_answer (pw_env W) (pw_answer W m) = PollDies e)))
    \<and> r \<noteq> Some FlowPending"
  using assms(3)
proof (induction k arbitrary: n)
  case 0
  then have "\<not> pw_clock W n < deadline" by simp
  then show ?case by (subst poll_loop.simps) simp
next
  case (Suc k)
  have "deadline - pw_clock W (Suc n) \<le> of_nat k * i"
    using Suc.prems assms(2) [of n] by (simp add: algebra_simps)
  from Suc.IH [OF this] have rest: "\<exists>r. poll_loop W deadline (n + 1) = Some r
    \<and> (r = None \<longrightarrow> (\<exists>m. \<not> pw_listed W m \<or> (\<exists>e. poll_answer (pw_env W) (pw_answer W m) = PollDies e)))
    \<and> r \<noteq> Some FlowPending" by simp
  have "poll_answer (pw_env W) (pw_answer W n) \<noteq> PollEnds FlowPending"
    by (auto simp: poll_answer_def split: http_answer.splits sum.splits if_splits)
  with rest show ?case
    by (subst poll_loop.simps) (auto split: poll_step.split)
qed

text \<open>C32: 
  The polling task of a device flow always ends.  When the flow is not taken away and every answer of the token endpoint is one
  the code understands, the flow is completed or in error afterwards, at the latest when five minutes are over.
\<close>

theorem device_flow_ends:
  assumes "map_of (os_devices st) flow_id = Some flow" and "seconds_of (df_interval flow) = Inr i" and "i > 0"
    and "\<And>n. pw_clock W n + i \<le> pw_clock W (Suc n)"
  shows "\<exists>st'. poll_device_flow W flow_id st = Some st'
    \<and> ((\<exists>m. \<not> pw_listed W m \<or> (\<exists>e. poll_answer (pw_env W) (pw_answer W m) = PollDies e))
       \<or> (\<exists>flow'. map_of (os_devices st') flow_id = Some flow' \<and> df_status flow' \<noteq> FlowPending))"
proof -
  let ?d = "df_started_at flow + DEVICE_FLOW_TIMEOUT"
  obtain k :: nat where "?d - pw_clock W 0 \<le> of_nat k * i"
    using assms(3) ex_less_of_nat_mult [of i "?d - pw_clock W 0"] by (meson less_imp_le)
  from poll_loop_ends [OF assms(3,4) this] obtain r where r: "poll_loop W ?d 0 = Some r"
    "r = None \<longrightarrow> (\<exists>m. \<not> pw_listed W m \<or> (\<exists>e. poll_answer (pw_env W) (pw_answer W m) = PollDies e))" "r \<noteq> Some FlowPending" by blast
  show ?thesis
  proof (cases r)
    case None
    with r assms(1,2) show ?thesis by (simp add: poll_device_flow_def)
  next
    case (Some status)
    with r assms(1,2) show ?thesis by (simp add: poll_device_flow_def update_conv')
  qed
qed

text \<open>An answer without a token and without an error ends the task and leaves the flow pending for ever.\<close>

lemma flow_stays_pending:
  assumes "map_of (os_devices st) flow_id = Some flow" and "seconds_of (df_interval flow) = Inr i"
    and "pw_clock W 0 < df_started_at flow + DEVICE_FLOW_TIMEOUT" and "pw_listed W 0" and "pw_answer W 0 = Answer 500 (Inr (VDict [])) []"
  shows "poll_device_flow W flow_id st = Some st"
  using assms by (simp add: poll_device_flow_def poll_loop.simps poll_answer_def token_answer_def expiry_def str_item_def)

section \<open>A consent gives the app its token\<close>

text \<open>An entry of the header for a grant that this app asked the router for.\<close>

definition app_entry :: "string \<times> string list \<times> string \<Rightarrow> pyval" where
  "app_entry g = (case g of (name, scopes, account) \<Rightarrow> VDict [(''grant'', grant_payload name scopes account), (''scope'', VStr ''app'')])"

definition entry_grant :: "string \<times> string list \<times> string \<Rightarrow> oauth_grant" where
  "entry_grant g = (case g of (name, scopes, account) \<Rightarrow>
     \<lparr>og_provider = VStr name, og_scopes = VList (map VStr scopes), og_account = VStr account\<rparr>)"

lemma read_app_entries: "read_grants (map app_entry gs) = Inr (map entry_grant gs)"
  by (induction gs) (auto simp: app_entry_def entry_grant_def grant_payload_def)

lemma granted_app_entries:
  "\<exists>granted. granted_scopes name (Some account) (map entry_grant gs) = Inr granted
     \<and> (\<forall>ss s. (name, ss, account) \<in> set gs \<longrightarrow> s \<in> set ss \<longrightarrow> VStr s \<in> set granted)"
proof (induction gs)
  case (Cons g gs)
  obtain n ss a where g: "g = (n, ss, a)" by (cases g)
  have "list_all hashable (map VStr ss)" by (simp add: list_all_iff hashable_def)
  with Cons.IH show ?case
    by (auto simp: g entry_grant_def grant_applies_def)
qed simp

lemma check_app_entries:
  assumes "oe_loads E h = Inr (VList (map app_entry gs))" and "(name, scopes, account) \<in> set gs"
  shows "check_oauth_v2_permission E (Some h) name scopes (Some account) = Inr []"
proof -
  obtain granted where "granted_scopes name (Some account) (map entry_grant gs) = Inr granted"
    "\<forall>ss s. (name, ss, account) \<in> set gs \<longrightarrow> s \<in> set ss \<longrightarrow> VStr s \<in> set granted"
    using granted_app_entries [of name account gs] by blast
  with assms show ?thesis
    by (auto simp: check_oauth_v2_permission_def parse_oauth_v2_grants_def read_app_entries filter_empty_conv)
qed


section \<open>What every request keeps\<close>

definition known :: "oauth_state \<Rightarrow> string \<Rightarrow> bool" where
  "known st name = (map_of (os_providers st) name \<noteq> None)"

definition oauth_ok :: "oauth_state \<Rightarrow> bool" where
  "oauth_ok st =
     (distinct (map tk_id (os_tokens st)) \<and> (\<forall>t \<in> set (os_tokens st). tk_id t < os_next_id st \<and> known st (tk_provider t))
      \<and> (\<forall>s f. map_of (os_pending st) s = Some f \<longrightarrow> known st (fl_provider f) \<and> (fl_consumer_app f \<noteq> None \<longrightarrow> fl_service_url f = Some OAUTH_SERVICE_URL))
      \<and> (\<forall>i d. map_of (os_devices st) i = Some d \<longrightarrow> known st (df_provider d)))"

lemma ok_store: "oauth_ok st \<Longrightarrow> known st name \<Longrightarrow> oauth_ok (store_token name k a t r x st)"
  by (auto simp: oauth_ok_def store_token_def known_def)

lemma ok_refresh: "oauth_ok st \<Longrightarrow> oauth_ok (update_token_after_refresh i t x st)"
proof -
  have ids: "tk_id \<circ> (\<lambda>tk. if tk_id tk = i then refreshed_row t x tk else tk) = tk_id"
    by (auto simp: refreshed_row_def)
  show "oauth_ok st \<Longrightarrow> oauth_ok (update_token_after_refresh i t x st)"
    by (auto simp: oauth_ok_def update_token_after_refresh_def known_def ids) (auto simp: refreshed_row_def)
qed

lemma ok_remove: "oauth_ok st \<Longrightarrow> oauth_ok (remove_token_by_id i st)"
  by (auto simp: oauth_ok_def remove_token_by_id_def known_def distinct_map_filter)

lemma ok_find_remove: "oauth_ok st \<Longrightarrow> oauth_ok (snd (find_and_remove_token p k a st))"
  by (auto simp: find_and_remove_token_def ok_remove split: option.split)

lemma ok_granted: "oauth_ok st \<Longrightarrow> oauth_ok (st\<lparr>os_granted := gs\<rparr>)"
  by (simp add: oauth_ok_def known_def)

lemma ok_unpend: "oauth_ok st \<Longrightarrow> oauth_ok (st\<lparr>os_pending := AList.delete s (os_pending st)\<rparr>)"
  by (auto simp: oauth_ok_def known_def delete_conv')

lemma ok_drop: "oauth_ok st \<Longrightarrow> oauth_ok (drop_flow i st)"
  by (auto simp: oauth_ok_def known_def delete_conv' drop_flow_def)

lemma ok_device: "oauth_ok st \<Longrightarrow> known st (df_provider d) \<Longrightarrow> oauth_ok (st\<lparr>os_devices := AList.update i d (os_devices st)\<rparr>)"
  by (auto simp: oauth_ok_def known_def update_conv')

lemma ok_build: "oauth_ok st \<Longrightarrow> oauth_ok (snd (build_auth_url E n sc ru rt ci a st))"
  by (auto simp: oauth_ok_def known_def update_conv' build_auth_url_def Let_def split: option.split)

lemma update_nonempty: "AList.update k v al \<noteq> []"
  by (cases al) auto

lemma ok_consumer: "oauth_ok st \<Longrightarrow> os_pending st \<noteq> [] \<Longrightarrow> oauth_ok (name_consumer c st)"
proof -
  assume ok: "oauth_ok st" and "os_pending st \<noteq> []"
  then obtain f where f: "map_of (os_pending st) (fst (last (os_pending st))) = Some f"
    using last_in_set [of "os_pending st"] weak_map_of_SomeI by (metis prod.collapse)
  with ok have "known st (fl_provider f)" by (auto simp: oauth_ok_def)
  with ok f show "oauth_ok (name_consumer c st)"
    by (auto simp: oauth_ok_def known_def name_consumer_def Let_def update_conv')
qed

lemma ok_authorize: "oauth_ok st \<Longrightarrow> oauth_ok (snd (authorize_response E n sc rt a c st))"
proof -
  assume ok: "oauth_ok st"
  have "oauth_ok st1 \<and> os_pending st1 \<noteq> []" if "build_auth_url E n sc ru rt ci a st = (Inr url, st1)" for ru ci url st1
    using that ok_build [OF ok, of E n sc ru rt ci a] by (auto simp: build_auth_url_def Let_def update_nonempty split: option.splits)
  moreover have "oauth_ok st1" if "build_auth_url E n sc ru rt ci a st = (r, st1)" for ru ci r st1
    using that ok_build [OF ok, of E n sc ru rt ci a] by simp
  ultimately show ?thesis
    using ok by (auto simp: authorize_response_def intro: ok_consumer split: option.split sum.split prod.split)
qed

lemma ok_valid: "oauth_ok st \<Longrightarrow> oauth_ok (snd (get_valid_token E n sc a st))"
  by (auto simp: get_valid_token_def ok_refresh split: list.split option.split sum.split)

lemma ok_store_and_grant: "oauth_ok st \<Longrightarrow> known st n \<Longrightarrow> oauth_ok (snd (store_and_grant E n sc a c u result st))"
  by (auto simp: store_and_grant_def Let_def grant_app_scoped_permission_def intro!: ok_granted ok_store split: prod.split option.split)

lemma ok_grant_page: "oauth_ok st \<Longrightarrow> oauth_ok (snd (oauth_grant_page E p sc c rt st))"
proof -
  assume ok: "oauth_ok st"
  have "oauth_ok st1 \<and> os_pending st1 \<noteq> []" if "build_auth_url E p ss ru rt ci a st = (Inr url, st1)" for ss ru ci a url st1
    using that ok_build [OF ok, of E p ss ru rt ci a] by (auto simp: build_auth_url_def Let_def update_nonempty split: option.splits)
  moreover have "oauth_ok st1" if "build_auth_url E p ss ru rt ci a st = (r, st1)" for ss ru ci a r st1
    using that ok_build [OF ok, of E p ss ru rt ci a] by simp
  ultimately show ?thesis
    using ok by (auto simp: oauth_grant_page_def intro: ok_consumer split: option.split sum.split prod.split)
qed

lemma ok_callback: "oauth_ok st \<Longrightarrow> oauth_ok (snd (oauth_callback E ac s e sc st))"
proof -
  assume ok: "oauth_ok st"
  have "oauth_ok st2" if "map_of (os_pending st) s = Some f"
    "store_and_grant E (fl_provider f) (fl_scopes f) (fl_account f) (fl_consumer_app f) (fl_service_url f) result
       (st\<lparr>os_pending := AList.delete s (os_pending st)\<rparr>) = (r, st2)" for f result r st2
  proof -
    have "known (st\<lparr>os_pending := AList.delete s (os_pending st)\<rparr>) (fl_provider f)"
      using ok that(1) by (auto simp: oauth_ok_def known_def)
    from ok_store_and_grant [OF ok_unpend [OF ok, of s] this, of E "fl_scopes f" "fl_account f" "fl_consumer_app f" "fl_service_url f" result]
    show ?thesis using that(2) by simp
  qed
  with ok ok_unpend [OF ok, of s] show ?thesis
    by (auto simp: oauth_callback_def Let_def split: option.split sum.split prod.split)
qed

lemma ok_device_page: "oauth_ok st \<Longrightarrow> oauth_ok (snd (device_page E i p sc a c st))"
  by (auto simp: device_page_def create_device_flow_def known_def intro!: ok_device split: option.split sum.split prod.split)

lemma ok_device_poll: "oauth_ok st \<Longrightarrow> oauth_ok (snd (device_poll E i st))"
proof -
  assume ok: "oauth_ok st"
  have "oauth_ok st1" if "map_of (os_devices st) i = Some d" "store_and_grant E (df_provider d) (df_scopes d) (df_account d) c u result st = (r, st1)"
    for d c u result r st1
    using ok_store_and_grant [OF ok, of "df_provider d" E "df_scopes d" "df_account d" c u result] that ok by (auto simp: oauth_ok_def)
  with ok show ?thesis
    by (auto simp: device_poll_def ok_drop split: option.split flow_status.split prod.split sum.split)
qed

lemma ok_poll_task: "oauth_ok st \<Longrightarrow> poll_device_flow W i st = Some st' \<Longrightarrow> oauth_ok st'"
  by (auto simp: poll_device_flow_def oauth_ok_def known_def update_conv' split: option.splits sum.splits if_splits)

lemma ok_more_known:
  assumes "oauth_ok st" and "\<And>n. known st n \<Longrightarrow> known st' n" and "os_tokens st' = os_tokens st" and "os_next_id st' = os_next_id st"
    and "os_pending st' = os_pending st" and "os_devices st' = os_devices st"
  shows "oauth_ok st'"
  using assms(1,2) unfolding oauth_ok_def assms(3-6) by blast

lemma ok_mock: "oauth_ok st \<Longrightarrow> oauth_ok (snd (set_mock_provider_url p ru au du tu rv ui st))"
proof -
  assume ok: "oauth_ok st"
  have "known (st\<lparr>os_providers := AList.update p c (os_providers st), os_userinfo := u, os_redirect_uri := r\<rparr>) n" if "known st n" for c u r n
    using that by (simp add: known_def update_conv')
  from ok_more_known [OF ok this]
  have upd: "oauth_ok (st\<lparr>os_providers := AList.update p c (os_providers st), os_userinfo := u, os_redirect_uri := r\<rparr>)" for c u r
    by simp
  show ?thesis
  proof (cases "map_of (os_providers st) p")
    case None
    with ok show ?thesis by (cases "p \<in> {''mock'', ''mock_device''}") (simp_all only: set_mock_provider_url_def simp_thms if_True if_False option.case snd_conv)
  next
    case (Some c)
    with ok upd show ?thesis
      by (cases "p \<in> {''mock'', ''mock_device''}") (simp_all only: set_mock_provider_url_def simp_thms if_True if_False option.case snd_conv)
  qed
qed

lemma ok_token_request: "oauth_ok st \<Longrightarrow> oauth_ok (snd (get_token_request E hs p sc a rt st))"
proof -
  assume ok: "oauth_ok st"
  have "oauth_ok st1" if "get_valid_token E p sc a st = (r, st1)" for r st1
    using ok_valid [OF ok, of E p sc a] that by simp
  with ok show ?thesis
    by (auto simp: get_token_request_def ok_authorize split: sum.split prod.split option.split)
qed

lemma ok_revoke: "oauth_ok st \<Longrightarrow> oauth_ok (snd (svc_revoke E hs p sc a st))"
proof -
  assume ok: "oauth_ok st"
  have "oauth_ok st1" if "find_and_remove_token p k a st = (r, st1)" for k r st1
    using ok_find_remove [OF ok, of p k a] that by simp
  with ok show ?thesis
    by (auto simp: svc_revoke_def split: sum.split prod.split option.split)
qed

lemma ok_delete: "oauth_ok st \<Longrightarrow> oauth_ok (snd (api_delete_token E i st))"
  by (auto simp: api_delete_token_def Let_def ok_remove split: sum.split prod.split option.split)

text \<open>Everything that changes the state, in any order; a polling task that never ends changes nothing.\<close>

datatype oauth_op =
    TokenOp oauth_env "(string \<times> string) list" string "string list" string string
  | RevokeOp oauth_env "(string \<times> string) list" string "string list" string
  | DeleteOp oauth_env int
  | GrantOp oauth_env string string string string
  | CallbackOp oauth_env string string string string
  | DeviceOp oauth_env string string string string string
  | PollOp oauth_env string
  | TaskOp poll_world string
  | MockOp string string string string string string "string \<times> string"

fun oauth_step :: "oauth_op \<Rightarrow> oauth_state \<Rightarrow> oauth_state" where
  "oauth_step (TokenOp E hs p sc a rt) st = snd (get_token_request E hs p sc a rt st)"
| "oauth_step (RevokeOp E hs p sc a) st = snd (svc_revoke E hs p sc a st)"
| "oauth_step (DeleteOp E i) st = snd (api_delete_token E i st)"
| "oauth_step (GrantOp E p sc c rt) st = snd (oauth_grant_page E p sc c rt st)"
| "oauth_step (CallbackOp E ac s e sc) st = snd (oauth_callback E ac s e sc st)"
| "oauth_step (DeviceOp E i p sc a c) st = snd (device_page E i p sc a c st)"
| "oauth_step (PollOp E i) st = snd (device_poll E i st)"
| "oauth_step (TaskOp W i) st = (case poll_device_flow W i st of Some st' \<Rightarrow> st' | None \<Rightarrow> st)"
| "oauth_step (MockOp p ru au du tu rv ui) st = snd (set_mock_provider_url p ru au du tu rv ui st)"

interpretation provider_app: invariant_ops oauth_step oauth_ok
proof
  fix op st
  assume "oauth_ok st"
  then show "oauth_ok (oauth_step op st)"
    by (cases op) (auto simp: ok_token_request ok_revoke ok_delete ok_grant_page ok_callback ok_device_page ok_device_poll ok_mock
        intro: ok_poll_task split: option.split)
qed

text \<open>
  Whatever requests and polling tasks come in whatever order, ids of tokens stay unique, every token and every flow is of a known
  provider, and a flow for an app knows the service it asks the grant for: no callback fails for want of it.
\<close>

theorem oauth_requests_keep:
  assumes "oauth_ok st"
  shows "oauth_ok (fold oauth_step ops st)"
  using assms by (rule provider_app.run_inv)

section \<open>Witnesses\<close>

definition consenting :: oauth_env where
  "consenting = example_oauth\<lparr>oe_post := \<lambda>_ _. Answer 200 (Inr (VDict [(''access_token'', VStr ''fresh'')])) [],
     oe_get := \<lambda>_ _. Answer 200 (Inr (VDict [(''email'', VStr ''p@example.com'')])) []\<rparr>"

definition example_flow :: auth_flow where
  "example_flow = \<lparr>fl_provider = ''google'', fl_scopes = [''email''], fl_redirect_uri = ''https://my.example.com/cb'', fl_return_to = ''/done'',
     fl_account = ''default'', fl_consumer_app = Some ''AAAAAAAAAAAA'', fl_service_url = Some OAUTH_SERVICE_URL\<rparr>"

definition example_begun :: oauth_state where
  "example_begun = example_ostate\<lparr>os_pending := [(''s1'', example_flow)], os_userinfo := USERINFO_URLS\<rparr>"

lemma example_callback:
  "oauth_callback consenting ''c'' ''s1'' [] ''email openid'' example_begun
   = (Inr (RedirectTo ''/done''), snd (oauth_callback consenting ''c'' ''s1'' [] ''email openid'' example_begun))"
proof -
  have "fst (oauth_callback consenting ''c'' ''s1'' [] ''email openid'' example_begun) = Inr (RedirectTo ''/done'')"
    by code_simp
  then show ?thesis by (simp add: prod_eq_iff)
qed

lemma example_stored:
  "os_tokens (snd (oauth_callback consenting ''c'' ''s1'' [] ''email openid'' example_begun))
   = os_tokens example_begun @ [\<lparr>tk_id = 2, tk_provider = ''google'', tk_scopes = ''email'', tk_account = ''p@example.com'',
       tk_access_token = ''fresh'', tk_refresh_token = None, tk_expires_at = None\<rparr>]"
  by code_simp

theorem callback_stores_witness:
  "fst (oauth_callback consenting ''again'' ''s1'' [] [] (snd (oauth_callback consenting ''c'' ''s1'' [] ''email openid'' example_begun)))
   = Inr (Refused 400)"
  using callback_stores [OF example_callback, of consenting "''again''" "[]" "[]"] by (elim exE conjE) (simp only: fst_conv)


definition example_device :: device_flow where
  "example_device = \<lparr>df_provider = ''github'', df_scopes = [''repo''], df_account = ''default'', df_consumer_app = [], df_device_code = ''d'',
     df_interval = VInt 5, df_status = FlowPending, df_started_at = 1000\<rparr>"

theorem device_flow_ends_witness:
  "\<exists>st'. poll_device_flow \<lparr>pw_env = example_oauth, pw_clock = \<lambda>n. 1000 + of_nat n * 5, pw_listed = \<lambda>_. True, pw_answer = \<lambda>_. NoAnswer ''down''\<rparr>
      ''f'' (example_ostate\<lparr>os_devices := [(''f'', example_device)]\<rparr>) = Some st'"
proof -
  let ?W = "\<lparr>pw_env = example_oauth, pw_clock = \<lambda>n. 1000 + of_nat n * 5, pw_listed = \<lambda>_. True, pw_answer = \<lambda>_. NoAnswer ''down''\<rparr>"
  have "map_of (os_devices (example_ostate\<lparr>os_devices := [(''f'', example_device)]\<rparr>)) ''f'' = Some example_device" by simp
  from device_flow_ends [OF this, of 5 ?W] show ?thesis
    by (auto simp: example_device_def seconds_of_def)
qed

theorem oauth_requests_keep_witness:
  "oauth_ok (fold oauth_step [CallbackOp consenting ''c'' ''s1'' [] [], PollOp consenting ''f''] example_begun)"
proof -
  have "oauth_ok example_begun"
    by (simp add: oauth_ok_def example_begun_def example_ostate_def known_def PROVIDERS_def example_flow_def)
  then show ?thesis by (rule oauth_requests_keep)
qed

end
