(* ===== verification/Spec2Isabelle.thy ===== *)
theory Spec2Isabelle
  imports AppId Ports Domains Manifest Auth Permissions Services Guards ArchiveProps AppsApiProps AppStatus Proxy Diagnostics
    Migrations DomainsApi UpdateWalk CertMove HostMigrations Recovery ImagePruner DefaultApps FirstBoot OAuthFlows
begin

text \<open>
  Verification of the router control plane in \<open>src/compute_space\<close>, with the parts of \<open>src/openhost_system_agent\<close> that move
  its data and its version.  The router installs apps from git repositories, builds and runs them in podman containers, serves
  each under a subdomain behind the owner's login, lets apps call services of each other, keeps their archive on local disk or
  S3, and answers for its own domains with CoreDNS, certificates and Caddy.  The system agent updates the host and the router.

  \<^bold>\<open>Paths.\<close>  Python paths below are relative to \<open>src/compute_space/src/compute_space\<close>, those with \<open>agent/\<close> to
  \<open>src/openhost_system_agent/src/openhost_system_agent\<close>.

  \<^bold>\<open>How the code is modelled.\<close>  \<open>Prelude\<close>, \<open>Strings\<close>, \<open>Regex\<close>, \<open>PyValue\<close> hold what the program uses of Python: exceptions
  (\<open>exn\<close>) and results \<open>exn + 'a\<close>, Latin-1 strings and their methods, the regular expressions, dynamically typed values of
  parsed TOML and JSON (\<open>pyval\<close>).  \<open>Database\<close> has the SQLite tables as a record of row lists and a connection as a committed and
  a working copy: \<open>commit\<close> copies one way, \<open>rollback\<close> the other, and what other connections see is the committed copy.
  \<open>Worker\<close> is the monad of code with effects: an action takes the connection and the list of effects so far (processes run,
  files written, threads started) and returns a result with the new state; \<open>act_catch\<close> is \<open>try\<close>, and \<open>keeps\<close> (\<open>Keeps\<close>) and
  \<open>act_spec\<close> are its Hoare rules.  What lies outside (podman, git, the file system, HTTP, the ACME client, clocks, random
  bytes, \<open>tomllib\<close>, semver) is a function in an environment record; where a property needs something of it, that is a
  named hypothesis, and the witness instantiates it.

  \<^bold>\<open>Apps.\<close>  \<open>AppId\<close> (\<open>core/app_id.py\<close>), \<open>Ports\<close> (\<open>core/ports.py\<close>), \<open>Manifest\<close> (\<open>core/manifest.py\<close>), \<open>AppData\<close>
  (\<open>core/data.py\<close>), \<open>Containers\<close> (\<open>core/containers.py\<close>) and \<open>GitOps\<close> (\<open>core/git_ops.py\<close>, \<open>core/oauth.py\<close>) are what
  \<open>Lifecycle\<close> (\<open>core/apps.py\<close>) composes into the install, the deploy, reload and remove workers and the launch.
  \<open>AppsApi\<close> (\<open>web/routes/api/apps.py\<close>) has the routes that claim an app by its status and start workers; \<open>AppStatus\<close> runs
  claims, worker ends and restarts as an inductive step relation.  \<open>Recovery\<close> (\<open>core/startup.py\<close>), \<open>DefaultApps\<close>
  (\<open>core/default_apps.py\<close>) and \<open>ImagePruner\<close> (\<open>core/image_pruner.py\<close>) are what a starting router does with its apps.
  \<open>LifecycleProps\<close> and \<open>AppsApiProps\<close> show: an install commits a whole app or nothing; every worker ends with the app running
  or in error and no container unnamed by a row; a start of the router settles every app its predecessor left; a reload needs
  the owner's review exactly when the update asks for more; the port table follows the manifest; at most one request claims an app.

  \<^bold>\<open>Who may do what.\<close>  \<open>Auth\<close> (\<open>core/auth/auth.py\<close>, \<open>web/auth/auth.py\<close>), \<open>Permissions\<close>
  (\<open>core/auth/permissions_v2.py\<close> and its routes), \<open>Services\<close> (\<open>core/service_interface\<close>, \<open>web/routes/services_v2.py\<close>) and
  \<open>Proxy\<close> (\<open>web/middleware/subdomain_proxy.py\<close>, \<open>web/helpers/proxy.py\<close>): the guards of the routes are sound, a proxied
  request carries the identity of the caller and no forged one, an app grants only for itself, a call reaches only a
  registered running provider.  \<open>OAuthTokens\<close> and \<open>OAuthFlows\<close> model the provider app \<open>src/apps/oauth_provider/src/oauth_provider\<close>
  such a call may reach (\<open>core/tokens.py\<close>, \<open>core/permissions.py\<close>, \<open>core/providers.py\<close>, \<open>routes\<close>): composed with the router,
  an app gets a token only for an account and scopes the owner has granted it, the callback stores exactly what was
  consented to, the device flow ends, and every request keeps one row per account and set of scopes.

  \<^bold>\<open>Storage.\<close>  \<open>Archive\<close>, \<open>ArchiveProps\<close>, \<open>ArchiveApi\<close> (\<open>core/archive_backend.py\<close> and its routes): a failed switch of the
  storage leaves the committed one and deletes no object.  \<open>Guards\<close> (\<open>core/storage.py\<close>, \<open>core/memory_guard.py\<close>),
  \<open>Diagnostics\<close> (\<open>core/diagnostics.py\<close>).

  \<^bold>\<open>Domains.\<close>  \<open>Domains\<close> (\<open>core/domains.py\<close>), \<open>Dns\<close> (\<open>core/dns\<close>), \<open>Caddy\<close> (\<open>core/caddy.py\<close>), \<open>Tls\<close> and \<open>Certs\<close>
  (\<open>core/tls\<close>), \<open>DomainsApi\<close> (\<open>web/routes/api/domains.py\<close>), \<open>FirstBoot\<close> (\<open>core/first_boot.py\<close>,
  \<open>agent/migrations/versions/v0007\<close>): in every sequence of requests and tasks the public domains have served zones and one row
  is primary; an acquisition ends and takes its challenge back; a domain does not stay acquiring; DNS serials only advance.

  \<^bold>\<open>Upgrades.\<close>  \<open>Migrations\<close> (\<open>db/versioned\<close>) runs statements of which a crash keeps a prefix of the committed ones;
  \<open>HostMigrations\<close> (\<open>agent/migrations\<close>) has the log of the host migrations, \<open>CertMove\<close> and \<open>FirstBoot\<close> the two versions that
  move data as lists of operations a crash cuts short; \<open>UpdateWalk\<close> (\<open>agent/update.py\<close>, \<open>agent/apply_after_checkout.py\<close>) the
  walk through release tags in which each process is the next version.  They show that what was interrupted is resumed and
  nothing is lost, that both implementations of the next step agree, and that an update ends with the service started.

  \<^bold>\<open>Interfaces.\<close>  The locales state what one part promises another: \<open>invariant_ops\<close> (operations that keep an invariant,
  \<open>Prelude\<close>), \<open>grant_store\<close> (the laws of a table of grants), \<open>port_allocator\<close> (what resolving ports promises the install),
  \<open>row_invariant\<close> and \<open>app_frame\<close> (what a worker keeps of the database), \<open>exclusive_claim\<close> (a claim that succeeds once).  Each
  is interpreted on the definitions of the model, and the properties use the interpreted facts.

  \<^bold>\<open>Bounds.\<close>  A loop that ends by its data is a structural or measured recursion; \<open>str.replace\<close> has the length of the string
  as fuel, which is enough because each step consumes a character.  The attempts of an ACME order (3), of a default app (3) and
  of the broker's poll are those of the code.  Loops that need the outside world to end (minting an id, the update walk, waiting
  for events) are \<open>partial_function (option)\<close> or take the outcomes as a list, and their properties say when they return.
  DNS serials are 32-bit words.  Times are natural numbers or rationals of seconds.

  \<^bold>\<open>Not modelled.\<close>  The bytes of HTTP bodies and websockets, terminals and log streams; templates, pages and the Markdown
  of \<open>web/routes/docs.py\<close>; the wiring of the web framework; threads as such, whose orders are sequences of steps where a
  property is about them; process supervision of Caddy, CoreDNS, JuiceFS and the downtime server beyond their configurations;
  the command line tools; migrations written in SQL or shell.  Strings are Latin-1, floats are rationals.
\<close>

end
